(* ===== verification/Ebill_Prelude.thy ===== *)
theory Ebill_Prelude
  imports Main "HOL-Library.Word"
begin

text \<open>
  Shared vocabulary of the development: the machine integers of the Rust code, the three-valued
  outcome of a Rust function (\<open>Ok\<close>, \<open>Err\<close>, or a panic), the \<open>?\<close> operator, the saturating
  arithmetic of the standard library, insertion-ordered association lists for \<open>HashMap\<close>, and the
  list facts the components share.
\<close>

section \<open>Machine integers and byte strings\<close>

type_synonym u8 = "8 word"
type_synonym u64 = "64 word"
type_synonym bytes = "u8 list"

text \<open>\<open>str::as_bytes\<close>; the texts of the model are strings of byte-sized characters.\<close>

definition string_bytes :: "string \<Rightarrow> bytes" where
  "string_bytes s = map (\<lambda>c. word_of_nat (of_char c)) s"

text \<open>\<open>u64::saturating_add\<close> and \<open>u64::saturating_sub\<close>.\<close>

definition saturating_add :: "u64 \<Rightarrow> u64 \<Rightarrow> u64" where
  "saturating_add a b = (if unat a + unat b < 2 ^ 64 then a + b else - 1)"

definition saturating_sub :: "u64 \<Rightarrow> u64 \<Rightarrow> u64" where
  "saturating_sub a b = (if a < b then 0 else a - b)"

section \<open>Outcomes of Rust functions\<close>

text \<open>
  A function of type \<open>Result<T, E>\<close> returns \<open>Ok\<close>, returns \<open>Err\<close>, or panics (\<open>expect\<close>,
  \<open>unreachable!\<close>). A panic is not an error value: \<open>map_err\<close>, \<open>unwrap_or\<close> and \<open>if let Ok\<close> do not
  see it.
\<close>

datatype ('a, 'e) result = Ok 'a | Err 'e | Panic

definition and_then :: "('a, 'e) result \<Rightarrow> ('a \<Rightarrow> ('b, 'e) result) \<Rightarrow> ('b, 'e) result" where
  "and_then r f = (case r of Ok a \<Rightarrow> f a | Err e \<Rightarrow> Err e | Panic \<Rightarrow> Panic)"

definition map_err :: "('e \<Rightarrow> 'f) \<Rightarrow> ('a, 'e) result \<Rightarrow> ('a, 'f) result" where
  "map_err g r = (case r of Ok a \<Rightarrow> Ok a | Err e \<Rightarrow> Err (g e) | Panic \<Rightarrow> Panic)"

text \<open>A result of third-party code (\<open>Inl\<close> its error, never a panic) as a result of ours.\<close>

definition from_ext :: "('x \<Rightarrow> 'e) \<Rightarrow> 'x + 'a \<Rightarrow> ('a, 'e) result" where
  "from_ext g r = (case r of Inl x \<Rightarrow> Err (g x) | Inr a \<Rightarrow> Ok a)"

text \<open>\<open>Option::expect\<close>, and \<open>Option::ok_or\<close>.\<close>

definition expect :: "'a option \<Rightarrow> ('a, 'e) result" where
  "expect x = (case x of Some a \<Rightarrow> Ok a | None \<Rightarrow> Panic)"

definition ok_or :: "'e \<Rightarrow> 'a option \<Rightarrow> ('a, 'e) result" where
  "ok_or e x = (case x of Some a \<Rightarrow> Ok a | None \<Rightarrow> Err e)"

text \<open>\<open>if b { return Err(e); }\<close>, and \<open>a?; b\<close>.\<close>

definition reject_if :: "bool \<Rightarrow> 'e \<Rightarrow> (unit, 'e) result" where
  "reject_if b e = (if b then Err e else Ok ())"

definition seq :: "(unit, 'e) result \<Rightarrow> ('a, 'e) result \<Rightarrow> ('a, 'e) result" where
  "seq r s = and_then r (\<lambda>_. s)"

text \<open>\<open>iter().map(f).collect::<Result<Vec<_>>>()\<close>: the first failure wins.\<close>

fun try_map :: "('a \<Rightarrow> ('b, 'e) result) \<Rightarrow> 'a list \<Rightarrow> ('b list, 'e) result" where
  "try_map f [] = Ok []"
| "try_map f (x # xs) = and_then (f x) (\<lambda>y. and_then (try_map f xs) (\<lambda>ys. Ok (y # ys)))"

text \<open>A \<open>for\<close> loop over a list with \<open>?\<close> in its body, threading a state.\<close>

fun try_fold :: "('s \<Rightarrow> 'a \<Rightarrow> ('s, 'e) result) \<Rightarrow> 's \<Rightarrow> 'a list \<Rightarrow> ('s, 'e) result" where
  "try_fold f s [] = Ok s"
| "try_fold f s (x # xs) = and_then (f s x) (\<lambda>s'. try_fold f s' xs)"

named_theorems outcome_simps \<open>rewriting of Ok/Err/Panic outcomes\<close>

lemma and_then_simps [simp, outcome_simps]:
  "and_then (Ok a) f = f a"
  "and_then (Err e) f = Err e"
  "and_then Panic f = Panic"
  by (simp_all add: and_then_def)

lemma and_then_eq_Ok [outcome_simps]:
  "and_then r f = Ok b \<longleftrightarrow> (\<exists>a. r = Ok a \<and> f a = Ok b)"
  by (cases r) simp_all

lemma and_then_eq_Panic [outcome_simps]:
  "and_then r f = Panic \<longleftrightarrow> r = Panic \<or> (\<exists>a. r = Ok a \<and> f a = Panic)"
  by (cases r) simp_all

lemma and_then_eq_Err [outcome_simps]:
  "and_then r f = Err e \<longleftrightarrow> r = Err e \<or> (\<exists>a. r = Ok a \<and> f a = Err e)"
  by (cases r) simp_all

lemma and_then_assoc: "and_then (and_then r f) g = and_then r (\<lambda>a. and_then (f a) g)"
  by (cases r) simp_all

lemma map_err_simps [simp, outcome_simps]:
  "map_err g (Ok a) = Ok a"
  "map_err g (Err e) = Err (g e)"
  "map_err g Panic = Panic"
  by (simp_all add: map_err_def)

lemma map_err_eq [simp, outcome_simps]:
  "map_err g r = Ok a \<longleftrightarrow> r = Ok a"
  "map_err g r = Panic \<longleftrightarrow> r = Panic"
  by (cases r; simp)+

lemma from_ext_simps [simp, outcome_simps]:
  "from_ext g (Inl x) = Err (g x)"
  "from_ext g (Inr a) = Ok a"
  by (simp_all add: from_ext_def)

lemma from_ext_eq [simp, outcome_simps]:
  "from_ext g r = Ok a \<longleftrightarrow> r = Inr a"
  "from_ext g r \<noteq> Panic"
  by (cases r; simp)+

lemma expect_simps [simp, outcome_simps]:
  "expect (Some a) = Ok a"
  "expect None = Panic"
  by (simp_all add: expect_def)

lemma expect_eq_Ok [simp, outcome_simps]: "expect x = Ok a \<longleftrightarrow> x = Some a"
  by (cases x) simp_all

lemma ok_or_simps [simp, outcome_simps]:
  "ok_or e (Some a) = Ok a"
  "ok_or e None = Err e"
  by (simp_all add: ok_or_def)

lemma ok_or_eq_Ok [simp, outcome_simps]: "ok_or e x = Ok a \<longleftrightarrow> x = Some a"
  by (cases x) simp_all

lemma reject_if_eq [simp, outcome_simps]:
  "reject_if b e = Ok u \<longleftrightarrow> \<not> b"
  "reject_if b e = Err e' \<longleftrightarrow> b \<and> e' = e"
  "reject_if b e \<noteq> Panic"
  by (auto simp: reject_if_def)

lemma reject_if_simps [simp]: "reject_if True e = Err e" "reject_if False e = Ok ()"
  by (simp_all add: reject_if_def)

lemma seq_simps [simp]: "seq (Ok u) s = s" "seq (Err e) s = Err e" "seq Panic s = Panic"
  by (simp_all add: seq_def)

lemma seq_eq_Ok [simp, outcome_simps]: "seq r s = Ok a \<longleftrightarrow> r = Ok () \<and> s = Ok a"
  by (cases r) simp_all

lemma try_map_Ok: "try_map f xs = Ok ys \<longleftrightarrow> list_all2 (\<lambda>x y. f x = Ok y) xs ys"
  by (induction xs arbitrary: ys) (auto simp: and_then_eq_Ok list_all2_Cons1)

lemma try_fold_append:
  "try_fold f s (xs @ ys) = and_then (try_fold f s xs) (\<lambda>s'. try_fold f s' ys)"
  by (induction xs arbitrary: s) (simp_all add: and_then_assoc)

text \<open>An invariant that every step of a fallible loop keeps holds of its result.\<close>

lemma try_fold_invariant:
  assumes "try_fold f s xs = Ok s'" and "I s"
    and "\<And>s x s'. I s \<Longrightarrow> x \<in> set xs \<Longrightarrow> f s x = Ok s' \<Longrightarrow> I s'"
  shows "I s'"
  using assms
proof (induction xs arbitrary: s)
  case Nil
  then show ?case by simp
next
  case (Cons x xs)
  from Cons.prems(1) obtain t where t: "f s x = Ok t" "try_fold f t xs = Ok s'"
    by (auto simp: and_then_eq_Ok)
  have "I t" by (rule Cons.prems(3) [OF Cons.prems(2) _ t(1)]) simp
  from t(2) this show ?case
    by (rule Cons.IH) (rule Cons.prems(3), auto)
qed

section \<open>Lists: \<open>rfind\<close> and the last element\<close>

text \<open>\<open>iter().rfind(p)\<close>: the last element that satisfies \<open>p\<close>.\<close>

definition rfind :: "('a \<Rightarrow> bool) \<Rightarrow> 'a list \<Rightarrow> 'a option" where
  "rfind p xs = find p (rev xs)"

lemma rfind_Nil [simp]: "rfind p [] = None"
  by (simp add: rfind_def)

lemma find_append: "find p (xs @ ys) = (case find p xs of None \<Rightarrow> find p ys | Some x \<Rightarrow> Some x)"
  by (induction xs) auto

lemma rfind_snoc [simp]: "rfind p (xs @ [x]) = (if p x then Some x else rfind p xs)"
  by (simp add: rfind_def)

lemma rfind_append:
  "rfind p (xs @ ys) = (case rfind p ys of None \<Rightarrow> rfind p xs | Some y \<Rightarrow> Some y)"
  unfolding rfind_def by (simp only: rev_append find_append)

lemma rfind_None: "rfind p xs = None \<longleftrightarrow> (\<forall>x \<in> set xs. \<not> p x)"
  by (auto simp: rfind_def find_None_iff)

lemma rfind_SomeD: "rfind p xs = Some x \<Longrightarrow> p x \<and> x \<in> set xs"
  by (induction xs rule: rev_induct) (auto split: if_splits)

text \<open>The split of a list at the last element with a property.\<close>

lemma rfind_split:
  "rfind p xs = Some x \<longleftrightarrow> (\<exists>ys zs. xs = ys @ x # zs \<and> p x \<and> (\<forall>z \<in> set zs. \<not> p z))"
proof (induction xs rule: rev_induct)
  case Nil
  then show ?case by simp
next
  case (snoc a xs)
  show ?case
  proof (cases "p a")
    case True
    then have "rfind p (xs @ [a]) = Some x \<longleftrightarrow> a = x" by simp
    also have "\<dots> \<longleftrightarrow> (\<exists>ys zs. xs @ [a] = ys @ x # zs \<and> p x \<and> (\<forall>z \<in> set zs. \<not> p z))"
    proof
      assume "a = x"
      with True have "xs @ [a] = xs @ x # [] \<and> p x \<and> (\<forall>z \<in> set []. \<not> p z)" by simp
      then show "\<exists>ys zs. xs @ [a] = ys @ x # zs \<and> p x \<and> (\<forall>z \<in> set zs. \<not> p z)" by blast
    next
      assume "\<exists>ys zs. xs @ [a] = ys @ x # zs \<and> p x \<and> (\<forall>z \<in> set zs. \<not> p z)"
      then obtain ys zs where *: "xs @ [a] = ys @ x # zs" "\<forall>z \<in> set zs. \<not> p z" by blast
      with True show "a = x" by (cases zs rule: rev_cases) auto
    qed
    finally show ?thesis .
  next
    case False
    then have "rfind p (xs @ [a]) = Some x \<longleftrightarrow> rfind p xs = Some x" by simp
    also have "\<dots> \<longleftrightarrow> (\<exists>ys zs. xs = ys @ x # zs \<and> p x \<and> (\<forall>z \<in> set zs. \<not> p z))"
      by (rule snoc.IH)
    also have "\<dots> \<longleftrightarrow> (\<exists>ys zs. xs @ [a] = ys @ x # zs \<and> p x \<and> (\<forall>z \<in> set zs. \<not> p z))"
    proof
      assume "\<exists>ys zs. xs = ys @ x # zs \<and> p x \<and> (\<forall>z \<in> set zs. \<not> p z)"
      then obtain ys zs where "xs = ys @ x # zs" "p x" "\<forall>z \<in> set zs. \<not> p z" by blast
      with False have "xs @ [a] = ys @ x # (zs @ [a]) \<and> p x \<and> (\<forall>z \<in> set (zs @ [a]). \<not> p z)"
        by simp
      then show "\<exists>ys zs. xs @ [a] = ys @ x # zs \<and> p x \<and> (\<forall>z \<in> set zs. \<not> p z)" by blast
    next
      assume "\<exists>ys zs. xs @ [a] = ys @ x # zs \<and> p x \<and> (\<forall>z \<in> set zs. \<not> p z)"
      then obtain ys zs where *: "xs @ [a] = ys @ x # zs" "p x" "\<forall>z \<in> set zs. \<not> p z" by blast
      with False show "\<exists>ys zs. xs = ys @ x # zs \<and> p x \<and> (\<forall>z \<in> set zs. \<not> p z)"
        by (cases zs rule: rev_cases) auto
    qed
    finally show ?thesis .
  qed
qed

text \<open>\<open>last()\<close> and \<open>first()\<close> of a vector.\<close>

definition last_opt :: "'a list \<Rightarrow> 'a option" where
  "last_opt xs = (if xs = [] then None else Some (last xs))"

definition first_opt :: "'a list \<Rightarrow> 'a option" where
  "first_opt xs = (case xs of [] \<Rightarrow> None | x # _ \<Rightarrow> Some x)"

lemma last_opt_simps [simp]: "last_opt [] = None" "last_opt (xs @ [x]) = Some x"
  by (simp_all add: last_opt_def)

lemma first_opt_simps [simp]: "first_opt [] = None" "first_opt (x # xs) = Some x"
  by (simp_all add: first_opt_def)

text \<open>Every element with \<open>p\<close> has an earlier element with \<open>q\<close>.\<close>

definition preceded :: "('a \<Rightarrow> bool) \<Rightarrow> ('a \<Rightarrow> bool) \<Rightarrow> 'a list \<Rightarrow> bool" where
  "preceded p q xs \<longleftrightarrow> (\<forall>i < length xs. p (xs ! i) \<longrightarrow> (\<exists>y \<in> set (take i xs). q y))"

lemma preceded_snoc: "preceded p q (xs @ [x]) \<longleftrightarrow> preceded p q xs \<and> (p x \<longrightarrow> (\<exists>y \<in> set xs. q y))"
  by (auto simp: preceded_def less_Suc_eq nth_append all_conj_distrib)

section \<open>Insertion-ordered association lists for \<open>HashMap\<close>\<close>

text \<open>
  A \<open>HashMap\<close> is an association list in the order of insertion. Its iteration order is not
  specified by the standard library, so every reader of it that depends on the order takes the
  order as a parameter. \<open>hm_or_insert\<close> is \<open>entry(k).or_insert(v)\<close>, \<open>hm_insert\<close> overwrites.
\<close>

definition hm_or_insert :: "'k \<Rightarrow> 'v \<Rightarrow> ('k \<times> 'v) list \<Rightarrow> ('k \<times> 'v) list" where
  "hm_or_insert k v m = (if map_of m k = None then m @ [(k, v)] else m)"

definition hm_insert :: "'k \<Rightarrow> 'v \<Rightarrow> ('k \<times> 'v) list \<Rightarrow> ('k \<times> 'v) list" where
  "hm_insert k v m =
     (if map_of m k = None then m @ [(k, v)]
      else map (\<lambda>(k', v'). if k' = k then (k', v) else (k', v')) m)"

definition hm_remove :: "'k \<Rightarrow> ('k \<times> 'v) list \<Rightarrow> ('k \<times> 'v) list" where
  "hm_remove k m = filter (\<lambda>(k', _). k' \<noteq> k) m"

text \<open>A \<open>HashSet\<close> likewise, as the list of its elements in the order of insertion.\<close>

definition hs_insert :: "'k \<Rightarrow> 'k list \<Rightarrow> 'k list" where
  "hs_insert k s = (if k \<in> set s then s else s @ [k])"

lemma set_hs_insert [simp]: "set (hs_insert k s) = insert k (set s)"
  by (auto simp: hs_insert_def)

lemma distinct_hs_insert [simp]: "distinct s \<Longrightarrow> distinct (hs_insert k s)"
  by (simp add: hs_insert_def)

lemma map_of_append_single:
  "map_of (m @ [(k, v)]) k' = (case map_of m k' of None \<Rightarrow> (if k' = k then Some v else None) | Some w \<Rightarrow> Some w)"
  by (induction m) auto

lemma map_of_hm_or_insert [simp]:
  "map_of (hm_or_insert k v m) k' =
     (if k' = k \<and> map_of m k = None then Some v else map_of m k')"
  by (auto simp: hm_or_insert_def map_of_append_single simp del: map_of_append split: option.splits)

lemma map_of_hm_insert [simp]:
  "map_of (hm_insert k v m) k' = (if k' = k then Some v else map_of m k')"
proof (cases "map_of m k = None")
  case True
  then show ?thesis
    by (auto simp: hm_insert_def map_of_append_single simp del: map_of_append split: option.splits)
next
  case False
  have "map_of (map (\<lambda>(k', v'). if k' = k then (k', v) else (k', v')) m) k' =
      (if k' = k then map_option (\<lambda>_. v) (map_of m k') else map_of m k')"
    by (induction m) auto
  with False show ?thesis by (auto simp: hm_insert_def)
qed

lemma map_of_hm_remove [simp]:
  "map_of (hm_remove k m) k' = (if k' = k then None else map_of m k')"
  unfolding hm_remove_def by (induction m) auto

lemma distinct_keys_hm [simp]:
  "distinct (map fst m) \<Longrightarrow> distinct (map fst (hm_or_insert k v m))"
  "distinct (map fst m) \<Longrightarrow> distinct (map fst (hm_insert k v m))"
  "distinct (map fst m) \<Longrightarrow> distinct (map fst (hm_remove k m))"
proof -
  have keys: "map fst (map (\<lambda>(k', v'). if k' = k then (k', v) else (k', v')) m) = map fst m"
    by (induction m) auto
  show "distinct (map fst m) \<Longrightarrow> distinct (map fst (hm_or_insert k v m))"
    by (auto simp: hm_or_insert_def map_of_eq_None_iff)
  show "distinct (map fst (hm_insert k v m))" if "distinct (map fst m)"
    using that unfolding hm_insert_def by (simp add: keys map_of_eq_None_iff del: map_map)
  show "distinct (map fst m) \<Longrightarrow> distinct (map fst (hm_remove k m))"
    unfolding hm_remove_def by (induction m) auto
qed

section \<open>Saturating arithmetic\<close>

text \<open>Executable forms on integers, which evaluate without unary numbers.\<close>

lemma saturating_add_code [code]:
  "saturating_add a b = (if uint a + uint b < 2 ^ 64 then a + b else - 1)"
proof -
  have "unat a + unat b < 2 ^ 64 \<longleftrightarrow> int (unat a + unat b) < int (2 ^ 64)"
    by (simp only: of_nat_less_iff)
  then show ?thesis by (simp add: saturating_add_def)
qed

lemma string_bytes_code [code]: "string_bytes s = map (\<lambda>c. word_of_int (of_char c)) s"
  by (simp add: string_bytes_def word_of_nat_eq_iff of_char_def take_bit_of_nat)

lemma unat_max64: "unat (- 1 :: u64) = 2 ^ 64 - 1"
  by (simp add: unat_eq_nat_uint unsigned_minus_1_eq_mask mask_eq_exp_minus_1)

lemma unat_saturating_add: "unat (saturating_add a b) = min (unat a + unat b) (2 ^ 64 - 1)"
proof (cases "unat a + unat b < 2 ^ 64")
  case True
  then have "unat (a + b) = unat a + unat b"
    by (simp add: unat_word_ariths)
  with True show ?thesis by (simp add: saturating_add_def)
next
  case False
  then show ?thesis by (simp add: saturating_add_def unat_max64)
qed

lemma unat_saturating_sub: "unat (saturating_sub a b) = unat a - unat b"
  by (simp add: saturating_sub_def word_less_nat_alt unat_sub_if')

end
