(* ===== verification/Ebill_Base.thy ===== *)
theory Ebill_Base
  imports Ebill_Prelude "HOL-Library.List_Lexorder" "HOL-Library.Char_ord"
begin

text \<open>
  The base types of \<^verbatim>\<open>bcr-ebill-core/src/protocol\<close>: the error types, timestamps and dates, block
  ids, sums, hashes, Schnorr signatures, key pairs and the derivation of payment addresses.
  Everything the crate takes from third parties (\<^verbatim>\<open>time\<close>, \<^verbatim>\<open>bitcoin\<close>/\<^verbatim>\<open>secp256k1\<close>, \<^verbatim>\<open>ecies\<close>,
  \<^verbatim>\<open>borsh\<close>, \<^verbatim>\<open>miniscript\<close>, \<^verbatim>\<open>bcr_common\<close>, the hash order of \<^verbatim>\<open>std::collections::HashMap\<close>) is a field
  of the record \<open>Ext\<close>, an argument of every definition that uses it; what the code relies on is
  named by the predicates \<open>secp_laws\<close>, \<open>calendar_laws\<close> and \<open>hash_order_laws\<close>.
\<close>

section \<open>Errors\<close>

datatype Field =
    F_Country | F_City | F_Zip | F_Address | F_Name | F_Email | F_Id | F_CountryOfIssuing
  | F_CityOfIssuing | F_CountryOfPayment | F_CityOfPayment | F_Identification

datatype (plugins only: code) ProtocolValidationError =
    FieldEmpty Field
  | FieldInvalid Field
  | InvalidSum
  | InvalidDate
  | InvalidCountry
  | DeadlineBeforeMinimum
  | InvalidTimestamp
  | SignerCantBeAnon
  | IdentityCantBeAnon
  | MaturityDateInThePast
  | IssueDateAfterMaturityDate
  | RequestToPayBeforeMaturityDate
  | InvalidCurrency
  | InvalidFileUploadId
  | InvalidBillId
  | DraweeCantBePayee
  | EndorserCantBeEndorsee
  | BuyerCantBeSeller
  | RecourserCantBeRecoursee
  | BillAlreadyAccepted
  | CallerIsNotDrawee
  | CallerIsNotHolder
  | RecourseeNotPastHolder
  | BillAlreadyRequestedToAccept
  | BillNotAccepted
  | BillWasRejectedToPay
  | BillPaymentExpired
  | BillWasRejectedToAccept
  | BillAcceptanceExpired
  | BillWasRecoursedToTheEnd
  | CallerIsNotRecoursee
  | CallerIsNotBuyer
  | RequestAlreadyRejected
  | BillAlreadyPaid
  | SelfDraftedBillCantBeBlank
  | BillWasNotRequestedToPay
  | BillWasNotOfferedToSell
  | BillRequestToAcceptDidNotExpireAndWasNotRejected
  | BillRequestToPayDidNotExpireAndWasNotRejected
  | BillWasNotRequestedToRecourse
  | BillIsNotRequestedToRecourseAndWaitingForPayment
  | BillIsNotOfferToSellWaitingForPayment
  | BillSellDataInvalid
  | BillRecourseDataInvalid
  | BillIsRequestedToPayAndWaitingForPayment
  | BillIsOfferedToSellAndWaitingForPayment
  | BillIsInRecourseAndWaitingForPayment
  | SignatoryAlreadySignatory string
  | CantRemoveLastSignatory
  | NotASignatory string
  | NotARemovedOrRejectedSignatory
  | NotInvitedAsSignatory
  | FileIsTooBig nat
  | FileIsEmpty
  | TooManyFiles
  | InvalidFileName nat
  | InvalidContentType
  | InvalidNodeId
  | InvalidIdentityType
  | Blockchain string
  | InvalidRelayUrl
  | InvalidSignature
  | InvalidHash
  | InvalidUrl
  | InvalidMintRequestId
  | InvalidBillAction
  | InvalidCompanyAction
  | InvalidIdentityAction
  | InvalidContactType
  | NoSignerIdentityProof
  | CompanySignerCreatorMismatch
  | CallerMustBeSignatory
  | CallerMustBeCreator
  | CallerMustBeIdentifiedCreator
  | InvalidReferenceBlock
  | InvalidIdentityProof
  | InvalidBitcoinAddress
  | InvalidBitcoinDescriptor
  | MintRequestToPayWithoutCustomAddress

datatype CryptoError =
    PrivateKey string | Ecies string | TooFewKeys | Decode string | ParseRecoveryId string
  | BtcDescriptorError string | BtcAddressError string | Tweak string | Mnemonic string
  | Crypto string | Signature string

datatype BlockchainError =
    Io string | BlockchainInvalid | BlockInvalid | BlockDataInvalid ProtocolValidationError
  | BlockSignatureDoesNotMatchSigner | InvalidBlockOp | Secp256k1Cryptography CryptoError
  | Base58Decode string | InvalidBlockchainType string | JSON string

datatype ProtocolError =
    Serialization string | Deserialization string | ProtocolCrypto CryptoError
  | ProtocolBlockchain BlockchainError | ProtocolValidation ProtocolValidationError

section \<open>Identifiers, texts and addresses\<close>

text \<open>
  Node ids, bill ids and Bitcoin addresses are opaque values of \<^verbatim>\<open>bcr_common\<close> and \<^verbatim>\<open>bitcoin\<close>, held
  here by their textual form; their accessors are fields of \<open>Ext\<close>. The validated text newtypes
  (\<^verbatim>\<open>Name\<close>, \<^verbatim>\<open>City\<close>, \<^verbatim>\<open>Email\<close>, ...) are held by their text.
\<close>

type_synonym NodeId = string
type_synonym BillId = string
type_synonym BitcoinAddress = string
type_synonym Network = string
type_synonym SecretKey = bytes
type_synonym PublicKey = bytes
type_synonym Keypair = bytes
type_synonym Scalar = bytes
type_synonym Url = string
type_synonym DateTimeUtc = int
type_synonym Country = string
type_synonym City = string
type_synonym Zip = string
type_synonym Address = string
type_synonym Name = string
type_synonym Email = string
type_synonym Identification = string

datatype Timestamp = Timestamp (ts_inner: u64)
datatype BlockId = BlockId (bid_inner: u64)
datatype Date = Date (date_str: string)
datatype Sha256Hash = Sha256Hash (hash_str: string)
datatype SchnorrSignature = SchnorrSignature (sig_str: string)
datatype BtcDescriptor = BtcDescriptor (desc_str: string)

record PostalAddress =
  pa_country :: Country
  pa_city :: City
  pa_zip :: "Zip option"
  pa_address :: Address

record OptionalPostalAddress =
  opa_country :: "Country option"
  opa_city :: "City option"
  opa_zip :: "Zip option"
  opa_address :: "Address option"

record File =
  file_name :: Name
  file_hash :: Sha256Hash
  file_nostr_hash :: string

datatype 'a EditOptionalFieldMode = EditSet 'a | EditUnset | EditIgnore

record SignedIdentityProof =
  sip_signature :: SchnorrSignature
  sip_witness :: NodeId

record EmailIdentityProofData =
  eip_node_id :: NodeId
  eip_company_node_id :: "NodeId option"
  eip_email :: Email
  eip_created_at :: Timestamp

section \<open>Third-party code\<close>

text \<open>The borsh encoding of one type: \<^verbatim>\<open>borsh::to_vec\<close> and \<^verbatim>\<open>borsh::from_slice\<close> (\<open>Inl\<close> is an io error).\<close>

record 'a Codec =
  to_vec :: "'a \<Rightarrow> string + bytes"
  from_slice :: "bytes \<Rightarrow> string + 'a"

record Ext =
  \<comment> \<open>\<^verbatim>\<open>bitcoin::hashes\<close> and \<^verbatim>\<open>bitcoin::base58\<close>\<close>
  x_sha256 :: "bytes \<Rightarrow> bytes"
  x_base58_encode :: "bytes \<Rightarrow> string"
  x_base58_decode :: "string \<Rightarrow> bytes option"
  \<comment> \<open>\<^verbatim>\<open>ecies\<close>\<close>
  x_ecies_encrypt :: "PublicKey \<Rightarrow> bytes \<Rightarrow> string + bytes"
  x_ecies_decrypt :: "SecretKey \<Rightarrow> bytes \<Rightarrow> string + bytes"
  \<comment> \<open>\<^verbatim>\<open>secp256k1\<close>: key pairs, messages, Schnorr signatures, tweaks\<close>
  x_keypair :: "SecretKey \<Rightarrow> Keypair"
  x_secret_key :: "Keypair \<Rightarrow> SecretKey"
  x_public_key :: "Keypair \<Rightarrow> PublicKey"
  x_secret_string :: "SecretKey \<Rightarrow> string"
  x_public_string :: "PublicKey \<Rightarrow> string"
  x_message :: "bytes \<Rightarrow> string + bytes"
  x_sign_schnorr :: "bytes \<Rightarrow> Keypair \<Rightarrow> bytes"
  x_verify_schnorr :: "bytes \<Rightarrow> bytes \<Rightarrow> bytes \<Rightarrow> bool"
  x_signature_from_slice :: "bytes \<Rightarrow> bytes option"
  x_x_only :: "PublicKey \<Rightarrow> bytes"
  x_scalar_from_key :: "SecretKey \<Rightarrow> Scalar"
  x_scalar_from_be_bytes :: "bytes \<Rightarrow> string + Scalar"
  x_add_tweak :: "SecretKey \<Rightarrow> Scalar \<Rightarrow> string + SecretKey"
  x_combine :: "PublicKey \<Rightarrow> PublicKey \<Rightarrow> string + PublicKey"
  x_combine_keys :: "PublicKey list \<Rightarrow> string + PublicKey"
  x_add_exp_tweak :: "PublicKey \<Rightarrow> Scalar \<Rightarrow> string + PublicKey"
  \<comment> \<open>\<^verbatim>\<open>bitcoin::Address::p2tr\<close> and the taproot descriptor with its secret (\<^verbatim>\<open>miniscript\<close>)\<close>
  x_p2tr :: "bytes \<Rightarrow> Network \<Rightarrow> BitcoinAddress"
  x_tr_descriptor :: "SecretKey \<Rightarrow> Network \<Rightarrow> string + string"
  x_address_valid_for :: "BitcoinAddress \<Rightarrow> Network \<Rightarrow> bool"
  \<comment> \<open>\<^verbatim>\<open>bcr_common::core::NodeId\<close>\<close>
  x_node_pub_key :: "NodeId \<Rightarrow> PublicKey"
  x_node_network :: "NodeId \<Rightarrow> Network"
  x_node_new :: "PublicKey \<Rightarrow> Network \<Rightarrow> NodeId"
  \<comment> \<open>\<^verbatim>\<open>time\<close>\<close>
  x_from_unix_timestamp :: "int \<Rightarrow> DateTimeUtc option"
  x_unix_timestamp :: "DateTimeUtc \<Rightarrow> int"
  x_replace_time :: "DateTimeUtc \<Rightarrow> nat \<Rightarrow> nat \<Rightarrow> nat \<Rightarrow> DateTimeUtc"
  x_parse_date :: "string \<Rightarrow> int option" \<comment> \<open>the unix time of midnight UTC of a \<^verbatim>\<open>year-month-day\<close> text\<close>
  \<comment> \<open>the iteration order of a \<^verbatim>\<open>HashMap\<close> keyed by node ids, from the order of insertion\<close>
  x_hash_order :: "NodeId list \<Rightarrow> NodeId list"
  \<comment> \<open>the \<^verbatim>\<open>Display\<close> text that \<^verbatim>\<open>thiserror\<close> derives, and borsh for primitive and proof types\<close>
  x_error_text :: "BlockchainError \<Rightarrow> string"
  x_string_codec :: "string Codec"
  x_identity_proof_codec :: "EmailIdentityProofData Codec"

section \<open>Orders of the newtypes\<close>

text \<open>The derived \<^verbatim>\<open>PartialOrd\<close>/\<^verbatim>\<open>Ord\<close> of \<^verbatim>\<open>Timestamp(u64)\<close>, \<^verbatim>\<open>BlockId(u64)\<close> and \<^verbatim>\<open>Sha256Hash(String)\<close>.\<close>

instantiation Timestamp :: linorder
begin

definition less_eq_Timestamp :: "Timestamp \<Rightarrow> Timestamp \<Rightarrow> bool" where
  "less_eq_Timestamp a b = (ts_inner a \<le> ts_inner b)"

definition less_Timestamp :: "Timestamp \<Rightarrow> Timestamp \<Rightarrow> bool" where
  "less_Timestamp a b = (ts_inner a < ts_inner b)"

instance
  by standard (auto simp: less_eq_Timestamp_def less_Timestamp_def Timestamp.expand)

end

instantiation BlockId :: linorder
begin

definition less_eq_BlockId :: "BlockId \<Rightarrow> BlockId \<Rightarrow> bool" where
  "less_eq_BlockId a b = (bid_inner a \<le> bid_inner b)"

definition less_BlockId :: "BlockId \<Rightarrow> BlockId \<Rightarrow> bool" where
  "less_BlockId a b = (bid_inner a < bid_inner b)"

instance
  by standard (auto simp: less_eq_BlockId_def less_BlockId_def BlockId.expand)

end

instantiation Sha256Hash :: linorder
begin

definition less_eq_Sha256Hash :: "Sha256Hash \<Rightarrow> Sha256Hash \<Rightarrow> bool" where
  "less_eq_Sha256Hash a b = (hash_str a \<le> hash_str b)"

definition less_Sha256Hash :: "Sha256Hash \<Rightarrow> Sha256Hash \<Rightarrow> bool" where
  "less_Sha256Hash a b = (hash_str a < hash_str b)"

instance
  by standard (auto simp: less_eq_Sha256Hash_def less_Sha256Hash_def Sha256Hash.expand)

end

section \<open>Timestamps and dates\<close>

definition DAY_IN_SECS :: u64 where
  "DAY_IN_SECS = 86400"

definition PAYMENT_DEADLINE_SECONDS :: u64 where
  "PAYMENT_DEADLINE_SECONDS = DAY_IN_SECS * 2"

definition ACCEPT_DEADLINE_SECONDS :: u64 where
  "ACCEPT_DEADLINE_SECONDS = DAY_IN_SECS * 2"

definition RECOURSE_DEADLINE_SECONDS :: u64 where
  "RECOURSE_DEADLINE_SECONDS = DAY_IN_SECS * 2"

text \<open>\<^verbatim>\<open>Timestamp::new\<close>: the value fits an \<^verbatim>\<open>i64\<close> and is a time that the \<^verbatim>\<open>time\<close> crate can represent.\<close>

definition timestamp_new :: "Ext \<Rightarrow> u64 \<Rightarrow> (Timestamp, ProtocolValidationError) result" where
  "timestamp_new X t =
     (if 2 ^ 63 \<le> unat t then Err InvalidTimestamp
      else case x_from_unix_timestamp X (uint t) of
             None \<Rightarrow> Err InvalidTimestamp
           | Some _ \<Rightarrow> Ok (Timestamp t))"

definition timestamp_zero :: Timestamp where
  "timestamp_zero = Timestamp 0"

definition to_datetime :: "Ext \<Rightarrow> Timestamp \<Rightarrow> (DateTimeUtc, 'e) result" where
  "to_datetime X ts = expect (x_from_unix_timestamp X (sint (ts_inner ts)))"

definition start_of_day :: "Ext \<Rightarrow> Timestamp \<Rightarrow> (Timestamp, 'e) result" where
  "start_of_day X ts = and_then (to_datetime X ts) (\<lambda>dt.
     Ok (Timestamp (word_of_int (x_unix_timestamp X (x_replace_time X dt 0 0 0)))))"

definition end_of_day :: "Ext \<Rightarrow> Timestamp \<Rightarrow> (Timestamp, 'e) result" where
  "end_of_day X ts = and_then (to_datetime X ts) (\<lambda>dt.
     Ok (Timestamp (word_of_int (x_unix_timestamp X (x_replace_time X dt 23 59 59)))))"

definition has_deadline_passed :: "Timestamp \<Rightarrow> Timestamp \<Rightarrow> bool" where
  "has_deadline_passed self deadline = (deadline < self)"

definition deadline_is_at_or_after_end_of_day_of ::
  "Ext \<Rightarrow> Timestamp \<Rightarrow> Timestamp \<Rightarrow> (bool, 'e) result" where
  "deadline_is_at_or_after_end_of_day_of X self deadline =
     and_then (end_of_day X self) (\<lambda>e. Ok (e \<le> deadline))"

text \<open>\<^verbatim>\<open>impl Add<u64> for Timestamp\<close> and \<^verbatim>\<open>impl Sub<u64> for Timestamp\<close>.\<close>

definition timestamp_add :: "Timestamp \<Rightarrow> u64 \<Rightarrow> Timestamp" where
  "timestamp_add ts n = Timestamp (saturating_add (ts_inner ts) n)"

definition timestamp_sub :: "Timestamp \<Rightarrow> u64 \<Rightarrow> Timestamp" where
  "timestamp_sub ts n = Timestamp (saturating_sub (ts_inner ts) n)"

definition date_new :: "Ext \<Rightarrow> string \<Rightarrow> (Date, ProtocolValidationError) result" where
  "date_new X s = (case x_parse_date X s of None \<Rightarrow> Err InvalidDate | Some _ \<Rightarrow> Ok (Date s))"

text \<open>\<^verbatim>\<open>Date::to_timestamp\<close>: both \<^verbatim>\<open>expect\<close>s are panics, and \<^verbatim>\<open>timestamp as u64\<close> wraps a time before 1970.\<close>

definition date_to_timestamp :: "Ext \<Rightarrow> Date \<Rightarrow> (Timestamp, 'e) result" where
  "date_to_timestamp X d =
     and_then (expect (x_parse_date X (date_str d))) (\<lambda>t.
       case timestamp_new X (word_of_int t) of Ok ts \<Rightarrow> Ok ts | Err _ \<Rightarrow> Panic | Panic \<Rightarrow> Panic)"

section \<open>Block ids\<close>

text \<open>
  Block ids are \<^verbatim>\<open>u64\<close>; \<open>+\<close> wraps, as it does in the release profile that the workspace ships
  (overflow checks are not enabled there).
\<close>

definition FIRST_BLOCK_ID :: u64 where
  "FIRST_BLOCK_ID = 1"

definition bid_first :: BlockId where
  "bid_first = BlockId FIRST_BLOCK_ID"

definition next_from_previous_block_id :: "BlockId \<Rightarrow> BlockId" where
  "next_from_previous_block_id p = BlockId (bid_inner p + 1)"

definition bid_validate_with_previous :: "BlockId \<Rightarrow> BlockId \<Rightarrow> bool" where
  "bid_validate_with_previous self p = (bid_inner self = bid_inner p + 1)"

definition difference_to_smaller :: "BlockId \<Rightarrow> BlockId \<Rightarrow> u64 option" where
  "difference_to_smaller self other =
     (if \<not> (self = other \<or> other < self) then Some (bid_inner other - bid_inner self) else None)"

definition bid_add :: "BlockId \<Rightarrow> u64 \<Rightarrow> BlockId" where
  "bid_add self n = BlockId (bid_inner self + n)"

definition bid_is_first :: "BlockId \<Rightarrow> bool" where
  "bid_is_first self = (bid_inner self = FIRST_BLOCK_ID)"

section \<open>Sums\<close>

text \<open>A currency code is three bytes; \<^verbatim>\<open>rust_decimal::Decimal\<close> is held by its mantissa and scale.\<close>

record Currency =
  cur_code :: string
  cur_decimals :: u8

datatype ExchangeRate = ExchangeRate (rate_mantissa: int) (rate_scale: nat)

record Sum =
  sum_amount :: u64
  sum_currency :: Currency
  sum_reference_exchange_rate :: ExchangeRate

definition is_ascii_lowercase :: "char \<Rightarrow> bool" where
  "is_ascii_lowercase c = (97 \<le> (of_char c :: nat) \<and> (of_char c :: nat) \<le> 122)"

definition is_ascii_uppercase :: "char \<Rightarrow> bool" where
  "is_ascii_uppercase c = (65 \<le> (of_char c :: nat) \<and> (of_char c :: nat) \<le> 90)"

definition is_ascii_digit :: "char \<Rightarrow> bool" where
  "is_ascii_digit c = (48 \<le> (of_char c :: nat) \<and> (of_char c :: nat) \<le> 57)"

definition to_ascii_uppercase :: "string \<Rightarrow> string" where
  "to_ascii_uppercase s =
     map (\<lambda>c. if is_ascii_lowercase c then char_of (of_char c - 32 :: nat) else c) s"

definition canonicalize_code :: "string \<Rightarrow> (string, ProtocolValidationError) result" where
  "canonicalize_code code =
     (let up = to_ascii_uppercase code in
      if length up \<noteq> 3 \<or> \<not> list_all is_ascii_uppercase up then Err InvalidCurrency else Ok up)"

definition validate_decimals :: "u8 \<Rightarrow> (u8, ProtocolValidationError) result" where
  "validate_decimals d = (if 5 < d then Err InvalidCurrency else Ok d)"

definition currency_new :: "string \<Rightarrow> u8 \<Rightarrow> (Currency, ProtocolValidationError) result" where
  "currency_new code decimals =
     and_then (canonicalize_code code) (\<lambda>c.
     and_then (validate_decimals decimals) (\<lambda>d.
     Ok \<lparr>cur_code = c, cur_decimals = d\<rparr>))"

definition CURRENCY_SAT :: string where
  "CURRENCY_SAT = ''SAT''"

definition currency_sat :: "(Currency, 'e) result" where
  "currency_sat = (case currency_new CURRENCY_SAT 0 of Ok c \<Rightarrow> Ok c | Err _ \<Rightarrow> Panic | Panic \<Rightarrow> Panic)"

definition rate_sat :: ExchangeRate where
  "rate_sat = ExchangeRate 1 0"

definition sum_new :: "u64 \<Rightarrow> Currency \<Rightarrow> ExchangeRate \<Rightarrow> (Sum, ProtocolValidationError) result" where
  "sum_new amount currency rate =
     (if amount = 0 then Err InvalidSum
      else Ok \<lparr>sum_amount = amount, sum_currency = currency, sum_reference_exchange_rate = rate\<rparr>)"

definition new_sat :: "u64 \<Rightarrow> (Sum, ProtocolValidationError) result" where
  "new_sat amount = and_then currency_sat (\<lambda>c. sum_new amount c rate_sat)"

text \<open>
  \<^verbatim>\<open>str::parse::<u64>\<close>: an optional plus sign, then at least one decimal digit, and a value below
  \<open>2^64\<close>. \<^verbatim>\<open>u64::to_string\<close> prints the decimal digits.
\<close>

definition digit_value :: "char \<Rightarrow> nat" where
  "digit_value c = of_char c - 48"

fun parse_digits :: "nat \<Rightarrow> string \<Rightarrow> nat option" where
  "parse_digits acc [] = Some acc"
| "parse_digits acc (c # cs) =
     (if is_ascii_digit c \<and> 10 * acc + digit_value c < 2 ^ 64
      then parse_digits (10 * acc + digit_value c) cs else None)"

definition parse_u64 :: "string \<Rightarrow> u64 option" where
  "parse_u64 s =
     (let ds = (case s of c # cs \<Rightarrow> if c = CHR ''+'' then cs else s | [] \<Rightarrow> []) in
      if ds = [] then None else map_option word_of_nat (parse_digits 0 ds))"

fun nat_to_string :: "nat \<Rightarrow> string" where
  "nat_to_string n =
     (if n < 10 then [char_of (48 + n)] else nat_to_string (n div 10) @ [char_of (48 + n mod 10)])"

declare nat_to_string.simps [simp del]

definition new_sat_from_str :: "string \<Rightarrow> (Sum, ProtocolValidationError) result" where
  "new_sat_from_str s = (case parse_u64 s of Some n \<Rightarrow> new_sat n | None \<Rightarrow> Err InvalidSum)"

definition as_sat :: "Sum \<Rightarrow> u64" where
  "as_sat s = sum_amount s"

definition as_sat_string :: "Sum \<Rightarrow> string" where
  "as_sat_string s = nat_to_string (unat (sum_amount s))"

section \<open>Optional addresses and edit modes\<close>

definition opa_empty :: OptionalPostalAddress where
  "opa_empty = \<lparr>opa_country = None, opa_city = None, opa_zip = None, opa_address = None\<rparr>"

definition from_postal_address :: "PostalAddress \<Rightarrow> OptionalPostalAddress" where
  "from_postal_address a =
     \<lparr>opa_country = Some (pa_country a), opa_city = Some (pa_city a), opa_zip = pa_zip a,
      opa_address = Some (pa_address a)\<rparr>"

definition is_fully_set :: "OptionalPostalAddress \<Rightarrow> bool" where
  "is_fully_set a = (opa_country a \<noteq> None \<and> opa_city a \<noteq> None \<and> opa_address a \<noteq> None)"

definition to_full_postal_address :: "OptionalPostalAddress \<Rightarrow> PostalAddress option" where
  "to_full_postal_address a =
     (case (opa_country a, opa_city a, opa_address a) of
        (Some c, Some ci, Some ad) \<Rightarrow>
          Some \<lparr>pa_country = c, pa_city = ci, pa_zip = opa_zip a, pa_address = ad\<rparr>
      | _ \<Rightarrow> None)"

definition validate_to_be_non_optional ::
  "OptionalPostalAddress \<Rightarrow> (unit, ProtocolValidationError) result" where
  "validate_to_be_non_optional a =
     (if opa_country a = None then Err (FieldEmpty F_Country)
      else if opa_city a = None then Err (FieldEmpty F_City)
      else if opa_address a = None then Err (FieldEmpty F_Address)
      else Ok ())"

definition from_option_no_unset :: "'a option \<Rightarrow> 'a EditOptionalFieldMode" where
  "from_option_no_unset v = (case v of Some x \<Rightarrow> EditSet x | None \<Rightarrow> EditIgnore)"

definition apply_to_option :: "'a EditOptionalFieldMode \<Rightarrow> 'a option \<Rightarrow> 'a option" where
  "apply_to_option m current =
     (case m of EditSet v \<Rightarrow> Some v | EditUnset \<Rightarrow> None | EditIgnore \<Rightarrow> current)"

definition swap_value :: "'a EditOptionalFieldMode \<Rightarrow> 'b option \<Rightarrow> 'b EditOptionalFieldMode" where
  "swap_value m v =
     (case m of
        EditSet _ \<Rightarrow> (case v of Some x \<Rightarrow> EditSet x | None \<Rightarrow> EditIgnore)
      | EditUnset \<Rightarrow> EditUnset
      | EditIgnore \<Rightarrow> EditIgnore)"

section \<open>What the code relies on of the calendar and of \<^verbatim>\<open>HashMap\<close>\<close>

text \<open>
  The documented behaviour of the \<^verbatim>\<open>time\<close> crate without its \<^verbatim>\<open>large-dates\<close> feature: the unix times
  from the year -9999 to the year 9999 are representable, and replacing the time of day keeps the
  day. Iterating over a \<^verbatim>\<open>HashMap\<close> visits every key exactly once, in some order.
\<close>

definition min_unix :: int where
  "min_unix = - 377705116800"

definition max_unix :: int where
  "max_unix = 253402300799"

definition calendar_laws :: "Ext \<Rightarrow> bool" where
  "calendar_laws X \<longleftrightarrow>
     (\<forall>t. (x_from_unix_timestamp X t \<noteq> None) = (min_unix \<le> t \<and> t \<le> max_unix)) \<and>
     (\<forall>t dt h m s. x_from_unix_timestamp X t = Some dt \<and> h < 24 \<and> m < 60 \<and> s < 60 \<longrightarrow>
        x_unix_timestamp X (x_replace_time X dt h m s) =
          86400 * (t div 86400) + 3600 * int h + 60 * int m + int s)"

definition hash_order_laws :: "Ext \<Rightarrow> bool" where
  "hash_order_laws X \<longleftrightarrow> (\<forall>ks. distinct ks \<longrightarrow> distinct (x_hash_order X ks) \<and> set (x_hash_order X ks) = set ks)"

text \<open>A timestamp that \<^verbatim>\<open>Timestamp::new\<close> lets through, as every deserialised one is.\<close>

definition ts_valid :: "Ext \<Rightarrow> Timestamp \<Rightarrow> bool" where
  "ts_valid X ts \<longleftrightarrow> timestamp_new X (ts_inner ts) = Ok ts"

section \<open>Facts\<close>

lemma timestamp_order_unat:
  "a \<le> b \<longleftrightarrow> unat (ts_inner a) \<le> unat (ts_inner b)"
  "a < b \<longleftrightarrow> unat (ts_inner a) < unat (ts_inner b)" for a b :: Timestamp
  by (simp_all add: less_eq_Timestamp_def less_Timestamp_def word_le_nat_alt word_less_nat_alt)

lemma block_id_order_unat:
  "a \<le> b \<longleftrightarrow> unat (bid_inner a) \<le> unat (bid_inner b)"
  "a < b \<longleftrightarrow> unat (bid_inner a) < unat (bid_inner b)" for a b :: BlockId
  by (simp_all add: less_eq_BlockId_def less_BlockId_def word_le_nat_alt word_less_nat_alt)

lemma block_id_eq_unat: "a = b \<longleftrightarrow> unat (bid_inner a) = unat (bid_inner b)" for a b :: BlockId
  by (metis BlockId.expand word_unat_eq_iff)

lemma validate_with_previous_next [simp]:
  "bid_validate_with_previous (next_from_previous_block_id p) p"
  by (simp add: bid_validate_with_previous_def next_from_previous_block_id_def)

lemma bid_validate_with_previous_iff:
  "bid_validate_with_previous b p \<longleftrightarrow> b = next_from_previous_block_id p"
  by (cases b) (simp add: bid_validate_with_previous_def next_from_previous_block_id_def)

lemma sint_small: "uint w < 2 ^ 63 \<Longrightarrow> sint w = uint w" for w :: u64
  by (simp add: sint_uint signed_take_bit_eq_if_positive bit_iff_odd div_pos_pos_trivial take_bit_int_eq_self)

lemma timestamp_new_code [code]:
  "timestamp_new X t =
     (if 2 ^ 63 \<le> uint t then Err InvalidTimestamp
      else case x_from_unix_timestamp X (uint t) of
             None \<Rightarrow> Err InvalidTimestamp
           | Some _ \<Rightarrow> Ok (Timestamp t))"
proof -
  have "2 ^ 63 \<le> unat t \<longleftrightarrow> int (2 ^ 63) \<le> int (unat t)" by (simp only: of_nat_le_iff)
  then show ?thesis by (simp add: timestamp_new_def)
qed

lemma calendar_rep:
  "calendar_laws X \<Longrightarrow> (x_from_unix_timestamp X t \<noteq> None) = (min_unix \<le> t \<and> t \<le> max_unix)"
  unfolding calendar_laws_def by blast

lemma calendar_replace:
  "calendar_laws X \<Longrightarrow> x_from_unix_timestamp X t = Some dt \<Longrightarrow> h < 24 \<Longrightarrow> m < 60 \<Longrightarrow> s < 60 \<Longrightarrow>
   x_unix_timestamp X (x_replace_time X dt h m s) = 86400 * (t div 86400) + 3600 * int h + 60 * int m + int s"
  unfolding calendar_laws_def by blast

lemma min_unix_le_uint: "min_unix \<le> uint (w :: u64)"
  by (rule order_trans [OF _ uint_ge_0]) (simp add: min_unix_def)

lemma ts_valid_range:
  assumes "calendar_laws X"
  shows "ts_valid X ts \<longleftrightarrow> uint (ts_inner ts) \<le> max_unix"
proof -
  have le: "unat (ts_inner ts) < 2 ^ 63" if "uint (ts_inner ts) \<le> max_unix"
  proof -
    have "int (unat (ts_inner ts)) < int (2 ^ 63)" using that by (simp add: max_unix_def)
    then show ?thesis by (simp only: of_nat_less_iff)
  qed
  show ?thesis
    using le calendar_rep [OF assms, of "uint (ts_inner ts)"] min_unix_le_uint [of "ts_inner ts"]
    by (auto simp: ts_valid_def timestamp_new_def split: option.splits)
qed

lemma end_of_day_value:
  assumes laws: "calendar_laws X" and v: "uint (ts_inner ts) \<le> max_unix"
  shows "end_of_day X ts = Ok (Timestamp (word_of_int (86400 * (uint (ts_inner ts) div 86400) + 86399)))"
proof -
  let ?t = "uint (ts_inner ts)"
  have s: "sint (ts_inner ts) = ?t"
    using v by (intro sint_small) (simp add: max_unix_def)
  obtain dt where dt: "x_from_unix_timestamp X ?t = Some dt"
    using calendar_rep [OF laws, of ?t] v min_unix_le_uint by blast
  show ?thesis
    using calendar_replace [OF laws dt, of 23 59 59]
    by (simp add: end_of_day_def to_datetime_def s dt)
qed

lemma end_of_day_panics:
  assumes "calendar_laws X" and "max_unix < uint (ts_inner ts)" and "uint (ts_inner ts) < 2 ^ 63"
  shows "end_of_day X ts = Panic"
  using calendar_rep [OF assms(1), of "uint (ts_inner ts)"] assms(2) sint_small [OF assms(3)]
  by (simp add: end_of_day_def to_datetime_def)

lemma of_char_digit: "d < 10 \<Longrightarrow> (of_char (char_of (48 + d :: nat)) :: nat) = 48 + d"
  by (simp add: of_char_of)

lemma is_digit_char: "d < 10 \<Longrightarrow> is_ascii_digit (char_of (48 + d :: nat))"
  by (simp add: is_ascii_digit_def of_char_digit)

lemma digit_value_char: "d < 10 \<Longrightarrow> digit_value (char_of (48 + d :: nat)) = d"
  by (simp add: digit_value_def of_char_digit)

lemma parse_digits_snoc:
  "parse_digits acc (cs @ [c]) =
     (case parse_digits acc cs of
        None \<Rightarrow> None
      | Some a \<Rightarrow> if is_ascii_digit c \<and> 10 * a + digit_value c < 2 ^ 64
                 then Some (10 * a + digit_value c) else None)"
  by (induction cs arbitrary: acc) auto

lemma parse_nat_to_string: "n < 2 ^ 64 \<Longrightarrow> parse_digits 0 (nat_to_string n) = Some n"
proof (induction n rule: nat_to_string.induct)
  case (1 n)
  show ?case
  proof (cases "n < 10")
    case True
    then show ?thesis
      by (simp add: nat_to_string.simps [of n] is_digit_char digit_value_char)
  next
    case False
    have "n div 10 < 2 ^ 64" using "1.prems" by linarith
    with "1.IH" False have "parse_digits 0 (nat_to_string (n div 10)) = Some (n div 10)" by blast
    moreover have "10 * (n div 10) + n mod 10 = n" by simp
    ultimately show ?thesis
      using False "1.prems"
      by (simp add: nat_to_string.simps [of n] parse_digits_snoc is_digit_char digit_value_char)
  qed
qed

lemma nat_to_string_digits: "\<forall>c \<in> set (nat_to_string n). is_ascii_digit c"
proof (induction n rule: nat_to_string.induct)
  case (1 n)
  then show ?case
    by (cases "n < 10") (auto simp: nat_to_string.simps [of n] is_digit_char)
qed

lemma nat_to_string_nonempty: "nat_to_string n \<noteq> []"
  by (simp add: nat_to_string.simps [of n])

lemma unat_lt64: "unat (n :: u64) < 2 ^ 64"
  using unsigned_less [of n] by simp

lemma parse_u64_to_string: "parse_u64 (nat_to_string (unat n)) = Some n"
proof -
  obtain c cs where c: "nat_to_string (unat n) = c # cs"
    using nat_to_string_nonempty [of "unat n"] by (cases "nat_to_string (unat n)") auto
  then have "is_ascii_digit c" using nat_to_string_digits [of "unat n"] by simp
  then have "c \<noteq> CHR ''+''" by (auto simp: is_ascii_digit_def)
  moreover have "parse_digits 0 (c # cs) = Some (unat n)"
    using parse_nat_to_string [of "unat n"] unat_lt64 [of n] c by simp
  ultimately show ?thesis by (simp add: parse_u64_def c del: parse_digits.simps)
qed

lemma currency_sat_Ok: "currency_sat = Ok \<lparr>cur_code = ''SAT'', cur_decimals = 0\<rparr>"
  by (simp add: currency_sat_def currency_new_def canonicalize_code_def validate_decimals_def
      CURRENCY_SAT_def to_ascii_uppercase_def is_ascii_lowercase_def is_ascii_uppercase_def)

lemma new_sat_Ok: "n \<noteq> 0 \<Longrightarrow> \<exists>s. new_sat n = Ok s \<and> sum_amount s = n"
  by (simp add: new_sat_def currency_sat_Ok sum_new_def)

end
