(* ===== verification/Ebill_Crypto.thy ===== *)
theory Ebill_Crypto
  imports Ebill_Base
begin

text \<open>
  Hashes, Schnorr signatures, key pairs, ECIES and payment addresses:
  \<^verbatim>\<open>base/hash.rs\<close>, \<^verbatim>\<open>base/signature.rs\<close>, \<^verbatim>\<open>base/identity_proof.rs\<close>, \<^verbatim>\<open>crypto/mod.rs\<close>,
  \<^verbatim>\<open>crypto/bcrkeys.rs\<close> and \<^verbatim>\<open>crypto/btc.rs\<close>. The curve, the hash function and the ciphers are the
  parameters of \<open>Ext\<close>; \<open>secp_laws\<close> states what the code relies on of them. The lemmas show that an
  aggregated signature verifies under the combined public key, and that the private descriptor of
  a payment request controls the address that was shown to the payer.
\<close>

section \<open>Hashes\<close>

definition hash_from_bytes :: "Ext \<Rightarrow> bytes \<Rightarrow> Sha256Hash" where
  "hash_from_bytes X bs = Sha256Hash (x_base58_encode X (x_sha256 X bs))"

definition hash_decode :: "Ext \<Rightarrow> Sha256Hash \<Rightarrow> (bytes, 'e) result" where
  "hash_decode X h = expect (x_base58_decode X (hash_str h))"

definition hash_decode_to_array :: "Ext \<Rightarrow> Sha256Hash \<Rightarrow> (bytes, 'e) result" where
  "hash_decode_to_array X h =
     and_then (hash_decode X h) (\<lambda>d. if length d = 32 then Ok d else Panic)"

section \<open>Key pairs and ECIES\<close>

record BcrKeys =
  keys_inner :: Keypair

definition from_private_key :: "Ext \<Rightarrow> SecretKey \<Rightarrow> BcrKeys" where
  "from_private_key X sk = \<lparr>keys_inner = x_keypair X sk\<rparr>"

definition get_private_key :: "Ext \<Rightarrow> BcrKeys \<Rightarrow> SecretKey" where
  "get_private_key X k = x_secret_key X (keys_inner k)"

definition get_private_key_string :: "Ext \<Rightarrow> BcrKeys \<Rightarrow> string" where
  "get_private_key_string X k = x_secret_string X (get_private_key X k)"

definition pub_key :: "Ext \<Rightarrow> BcrKeys \<Rightarrow> PublicKey" where
  "pub_key X k = x_public_key X (keys_inner k)"

definition get_public_key :: "Ext \<Rightarrow> BcrKeys \<Rightarrow> string" where
  "get_public_key X k = x_public_string X (pub_key X k)"

definition encrypt_ecies :: "Ext \<Rightarrow> bytes \<Rightarrow> PublicKey \<Rightarrow> (bytes, CryptoError) result" where
  "encrypt_ecies X bs pk = from_ext Ecies (x_ecies_encrypt X pk bs)"

definition decrypt_ecies :: "Ext \<Rightarrow> bytes \<Rightarrow> SecretKey \<Rightarrow> (bytes, CryptoError) result" where
  "decrypt_ecies X bs sk = from_ext Ecies (x_ecies_decrypt X sk bs)"

section \<open>Schnorr signatures\<close>

definition as_sig :: "Ext \<Rightarrow> SchnorrSignature \<Rightarrow> (bytes, 'e) result" where
  "as_sig X s =
     and_then (expect (x_base58_decode X (sig_str s))) (\<lambda>d. expect (x_signature_from_slice X d))"

definition sig_from :: "Ext \<Rightarrow> bytes \<Rightarrow> SchnorrSignature" where
  "sig_from X s = SchnorrSignature (x_base58_encode X s)"

definition sig_sign :: "Ext \<Rightarrow> Sha256Hash \<Rightarrow> SecretKey \<Rightarrow> (SchnorrSignature, CryptoError) result" where
  "sig_sign X hash sk =
     and_then (hash_decode X hash) (\<lambda>d.
     and_then (from_ext Signature (x_message X d)) (\<lambda>msg.
     Ok (sig_from X (x_sign_schnorr X msg (x_keypair X sk)))))"

text \<open>The loop over \<^verbatim>\<open>keys.iter().skip(1)\<close> that adds every further key to the first.\<close>

definition aggregate_secret :: "Ext \<Rightarrow> SecretKey \<Rightarrow> SecretKey list \<Rightarrow> (SecretKey, CryptoError) result" where
  "aggregate_secret X = try_fold (\<lambda>acc k.
     from_ext Signature (x_add_tweak X acc (x_scalar_from_key X k)))"

definition sign_aggregated ::
  "Ext \<Rightarrow> Sha256Hash \<Rightarrow> SecretKey list \<Rightarrow> (SchnorrSignature, CryptoError) result" where
  "sign_aggregated X hash keys =
     (case keys of
        first # second # rest \<Rightarrow>
          and_then (aggregate_secret X first (second # rest)) (\<lambda>agg.
          and_then (hash_decode X hash) (\<lambda>d.
          and_then (from_ext Signature (x_message X d)) (\<lambda>msg.
          Ok (sig_from X (x_sign_schnorr X msg (x_keypair X agg))))))
      | _ \<Rightarrow> Err (Signature ''too few keys for aggregated signature''))"

definition sig_verify ::
  "Ext \<Rightarrow> SchnorrSignature \<Rightarrow> Sha256Hash \<Rightarrow> PublicKey \<Rightarrow> (bool, CryptoError) result" where
  "sig_verify X self hash pk =
     and_then (hash_decode X hash) (\<lambda>d.
     and_then (from_ext Signature (x_message X d)) (\<lambda>msg.
     and_then (as_sig X self) (\<lambda>s.
     Ok (x_verify_schnorr X s msg (x_x_only X pk)))))"

definition combine_pub_keys :: "Ext \<Rightarrow> PublicKey list \<Rightarrow> (PublicKey, CryptoError) result" where
  "combine_pub_keys X pks =
     (if length pks < 2 then Err (Signature ''too few keys for aggregated signature'')
      else from_ext PrivateKey (x_combine_keys X pks))"

definition get_aggregated_public_key ::
  "Ext \<Rightarrow> SecretKey list \<Rightarrow> (PublicKey, CryptoError) result" where
  "get_aggregated_public_key X sks =
     (case map (\<lambda>sk. x_public_key X (x_keypair X sk)) sks of
        first # second # rest \<Rightarrow>
          try_fold (\<lambda>acc k. from_ext PrivateKey (x_combine X acc k)) first (second # rest)
      | _ \<Rightarrow> Err (Signature ''too few keys for aggregated signature''))"

section \<open>Identity proofs\<close>

definition io_text :: "string \<Rightarrow> string" where
  "io_text e = ''IO error: '' @ e"

definition identity_proof_verify ::
  "Ext \<Rightarrow> SignedIdentityProof \<Rightarrow> EmailIdentityProofData \<Rightarrow> (bool, ProtocolError) result" where
  "identity_proof_verify X self data =
     and_then (from_ext (\<lambda>e. Serialization (io_text e)) (to_vec (x_identity_proof_codec X) data)) (\<lambda>ser.
     map_err ProtocolCrypto
       (sig_verify X (sip_signature self) (hash_from_bytes X ser) (x_node_pub_key X (sip_witness self))))"

definition identity_proof_sign ::
  "Ext \<Rightarrow> EmailIdentityProofData \<Rightarrow> NodeId \<Rightarrow> SecretKey \<Rightarrow> (SignedIdentityProof, ProtocolError) result" where
  "identity_proof_sign X data witness sk =
     (if x_node_pub_key X witness \<noteq> x_public_key X (x_keypair X sk)
      then Err (ProtocolCrypto (Crypto ''Keys don't match''))
      else
        and_then (from_ext (\<lambda>e. Serialization (io_text e)) (to_vec (x_identity_proof_codec X) data)) (\<lambda>ser.
        and_then (map_err ProtocolCrypto (sig_sign X (hash_from_bytes X ser) sk)) (\<lambda>s.
        Ok \<lparr>sip_signature = s, sip_witness = witness\<rparr>)))"

section \<open>Payment addresses\<close>

definition get_address_to_pay ::
  "Ext \<Rightarrow> PublicKey \<Rightarrow> PublicKey \<Rightarrow> Sha256Hash \<Rightarrow> Network \<Rightarrow> (BitcoinAddress, CryptoError) result" where
  "get_address_to_pay X bill_pk holder_pk tweak_hash network =
     and_then (from_ext PrivateKey (x_combine X bill_pk holder_pk)) (\<lambda>combined.
     and_then (hash_decode_to_array X tweak_hash) (\<lambda>arr.
     and_then (from_ext Tweak (x_scalar_from_be_bytes X arr)) (\<lambda>tweak.
     and_then (from_ext PrivateKey (x_add_exp_tweak X combined tweak)) (\<lambda>tweaked.
     Ok (x_p2tr X (x_x_only X tweaked) network)))))"

text \<open>The secret key behind \<^verbatim>\<open>get_combined_private_descriptor\<close>, and the descriptor that wraps it.\<close>

definition combined_private_key ::
  "Ext \<Rightarrow> SecretKey \<Rightarrow> SecretKey \<Rightarrow> Sha256Hash \<Rightarrow> (SecretKey, CryptoError) result" where
  "combined_private_key X sk sk_to_combine tweak_hash =
     and_then (from_ext PrivateKey (x_add_tweak X sk (x_scalar_from_key X sk_to_combine))) (\<lambda>combined.
     and_then (hash_decode_to_array X tweak_hash) (\<lambda>arr.
     and_then (from_ext Tweak (x_scalar_from_be_bytes X arr)) (\<lambda>tweak.
     from_ext PrivateKey (x_add_tweak X combined tweak))))"

definition get_combined_private_descriptor ::
  "Ext \<Rightarrow> SecretKey \<Rightarrow> SecretKey \<Rightarrow> Sha256Hash \<Rightarrow> Network \<Rightarrow> (BtcDescriptor, CryptoError) result" where
  "get_combined_private_descriptor X sk sk_to_combine tweak_hash network =
     and_then (combined_private_key X sk sk_to_combine tweak_hash) (\<lambda>tweaked.
     and_then (from_ext BtcDescriptorError (x_tr_descriptor X tweaked network)) (\<lambda>d.
     Ok (BtcDescriptor d)))"

section \<open>What the code relies on of the curve\<close>

text \<open>
  Base58 decodes what it encodes; a signature made with a key pair verifies under its public key;
  adding secret keys (and tweaks) corresponds to combining public keys; combining a list of
  public keys is combining them one by one.
\<close>

definition pk_of :: "Ext \<Rightarrow> SecretKey \<Rightarrow> PublicKey" where
  "pk_of X sk = x_public_key X (x_keypair X sk)"

definition secp_laws :: "Ext \<Rightarrow> bool" where
  "secp_laws X \<longleftrightarrow>
     (\<forall>bs. x_base58_decode X (x_base58_encode X bs) = Some bs) \<and>
     (\<forall>sk. x_secret_key X (x_keypair X sk) = sk) \<and>
     (\<forall>msg sk. x_signature_from_slice X (x_sign_schnorr X msg (x_keypair X sk)) =
                 Some (x_sign_schnorr X msg (x_keypair X sk))) \<and>
     (\<forall>msg sk. x_verify_schnorr X (x_sign_schnorr X msg (x_keypair X sk)) msg (x_x_only X (pk_of X sk))) \<and>
     (\<forall>a b c. x_add_tweak X a (x_scalar_from_key X b) = Inr c \<longrightarrow>
                x_combine X (pk_of X a) (pk_of X b) = Inr (pk_of X c)) \<and>
     (\<forall>a t c. x_add_tweak X a t = Inr c \<longrightarrow> x_add_exp_tweak X (pk_of X a) t = Inr (pk_of X c)) \<and>
     (\<forall>a b. x_combine_keys X [a, b] = x_combine X a b) \<and>
     (\<forall>a b c ab rest. x_combine X a b = Inr ab \<longrightarrow>
                x_combine_keys X (a # b # c # rest) = x_combine_keys X (ab # c # rest))"

section \<open>Facts\<close>

lemma hash_decode_not_Err [simp]:
  "hash_decode X h \<noteq> Err e"
  by (simp add: hash_decode_def expect_def split: option.splits)

lemma secp_base58: "secp_laws X \<Longrightarrow> x_base58_decode X (x_base58_encode X bs) = Some bs"
  by (simp add: secp_laws_def)

lemma secp_secret: "secp_laws X \<Longrightarrow> x_secret_key X (x_keypair X sk) = sk"
  by (simp add: secp_laws_def)

lemma secp_sig_slice:
  "secp_laws X \<Longrightarrow> x_signature_from_slice X (x_sign_schnorr X msg (x_keypair X sk)) =
     Some (x_sign_schnorr X msg (x_keypair X sk))"
  by (simp add: secp_laws_def)

lemma secp_verify:
  "secp_laws X \<Longrightarrow> x_verify_schnorr X (x_sign_schnorr X msg (x_keypair X sk)) msg (x_x_only X (pk_of X sk))"
  by (simp add: secp_laws_def)

lemma secp_add_combine:
  "secp_laws X \<Longrightarrow> x_add_tweak X a (x_scalar_from_key X b) = Inr c \<Longrightarrow>
     x_combine X (pk_of X a) (pk_of X b) = Inr (pk_of X c)"
  unfolding secp_laws_def by blast

lemma secp_add_exp:
  "secp_laws X \<Longrightarrow> x_add_tweak X a t = Inr c \<Longrightarrow> x_add_exp_tweak X (pk_of X a) t = Inr (pk_of X c)"
  unfolding secp_laws_def by blast

lemma secp_combine_two: "secp_laws X \<Longrightarrow> x_combine_keys X [a, b] = x_combine X a b"
  unfolding secp_laws_def by blast

lemma secp_combine_step:
  "secp_laws X \<Longrightarrow> x_combine X a b = Inr ab \<Longrightarrow>
     x_combine_keys X (a # b # c # rest) = x_combine_keys X (ab # c # rest)"
  unfolding secp_laws_def by blast

text \<open>Verifying a signature made with a secret key, under that key's public key.\<close>

lemma verify_own_signature:
  assumes laws: "secp_laws X" and d: "x_base58_decode X (hash_str h) = Some d"
    and m: "x_message X d = Inr msg"
  shows "sig_verify X (sig_from X (x_sign_schnorr X msg (x_keypair X sk))) h (pk_of X sk) = Ok True"
  using m secp_base58 [OF laws] secp_sig_slice [OF laws] secp_verify [OF laws]
  by (simp add: sig_verify_def hash_decode_def as_sig_def sig_from_def d)

lemma sig_sign_verifies:
  assumes "secp_laws X" and "sig_sign X h sk = Ok s"
  shows "sig_verify X s h (pk_of X sk) = Ok True"
  using assms(2) verify_own_signature [OF assms(1)]
  by (auto simp: sig_sign_def hash_decode_def and_then_eq_Ok)

text \<open>Aggregating secret keys and aggregating their public keys agree.\<close>

lemma aggregate_public:
  assumes laws: "secp_laws X" and agg: "aggregate_secret X a ks = Ok c"
  shows "try_fold (\<lambda>acc k. from_ext PrivateKey (x_combine X acc k)) (pk_of X a) (map (pk_of X) ks)
           = Ok (pk_of X c)"
  using agg unfolding aggregate_secret_def
  by (induction ks arbitrary: a) (auto simp: and_then_eq_Ok secp_add_combine [OF laws])

lemma get_aggregated_public_key_eq:
  "get_aggregated_public_key X sks =
     (case map (pk_of X) sks of
        first # second # rest \<Rightarrow>
          try_fold (\<lambda>acc k. from_ext PrivateKey (x_combine X acc k)) first (second # rest)
      | _ \<Rightarrow> Err (Signature ''too few keys for aggregated signature''))"
  by (simp add: get_aggregated_public_key_def pk_of_def [abs_def])

lemma sign_aggregated_key:
  assumes laws: "secp_laws X" and s: "sign_aggregated X h sks = Ok s"
  obtains agg where "get_aggregated_public_key X sks = Ok (pk_of X agg)"
    and "sig_verify X s h (pk_of X agg) = Ok True"
proof -
  from s obtain first second rest where sks: "sks = first # second # rest"
    by (auto simp: sign_aggregated_def split: list.splits)
  with s obtain agg d msg where agg: "aggregate_secret X first (second # rest) = Ok agg"
    and d: "x_base58_decode X (hash_str h) = Some d" and m: "x_message X d = Inr msg"
    and sig: "s = sig_from X (x_sign_schnorr X msg (x_keypair X agg))"
    by (auto simp: sign_aggregated_def hash_decode_def and_then_eq_Ok)
  have "get_aggregated_public_key X sks = Ok (pk_of X agg)"
    using aggregate_public [OF laws agg] by (simp add: get_aggregated_public_key_eq sks)
  moreover have "sig_verify X s h (pk_of X agg) = Ok True"
    unfolding sig by (rule verify_own_signature [OF laws d m])
  ultimately show ?thesis by (rule that)
qed

text \<open>Combining the public keys at once gives the key that aggregating them one by one gives.\<close>

lemma combine_keys_fold:
  assumes laws: "secp_laws X"
    and "try_fold (\<lambda>acc k. from_ext PrivateKey (x_combine X acc k)) a (b # rest) = Ok pk"
  shows "x_combine_keys X (a # b # rest) = Inr pk"
  using assms(2)
proof (induction rest arbitrary: a b)
  case Nil
  then show ?case by (simp add: secp_combine_two [OF laws] and_then_eq_Ok)
next
  case (Cons c rest)
  from Cons.prems obtain ab where ab: "x_combine X a b = Inr ab"
    and rest: "try_fold (\<lambda>acc k. from_ext PrivateKey (x_combine X acc k)) ab (c # rest) = Ok pk"
    by (auto simp: and_then_eq_Ok)
  from Cons.IH [OF rest] show ?case by (simp add: secp_combine_step [OF laws ab])
qed

lemma combine_pub_keys_aggregated:
  assumes laws: "secp_laws X" and agg: "get_aggregated_public_key X sks = Ok pk"
  shows "combine_pub_keys X (map (pk_of X) sks) = Ok pk"
proof -
  from agg obtain a b rest where sks: "sks = a # b # rest"
    by (auto simp: get_aggregated_public_key_def split: list.splits)
  with agg have "x_combine_keys X (pk_of X a # pk_of X b # map (pk_of X) rest) = Inr pk"
    by (intro combine_keys_fold [OF laws]) (simp add: get_aggregated_public_key_eq)
  then show ?thesis by (simp add: combine_pub_keys_def sks)
qed

text \<open>The key behind the private descriptor controls the address that the payer was shown.\<close>

lemma combined_key_controls_address:
  assumes laws: "secp_laws X"
    and key: "combined_private_key X sk holder tweak = Ok k"
  shows "get_address_to_pay X (pk_of X sk) (pk_of X holder) tweak network =
           Ok (x_p2tr X (x_x_only X (pk_of X k)) network)"
proof -
  from key obtain c arr t where c: "x_add_tweak X sk (x_scalar_from_key X holder) = Inr c"
    and arr: "hash_decode_to_array X tweak = (Ok arr :: (bytes, CryptoError) result)"
    and t: "x_scalar_from_be_bytes X arr = Inr t" "x_add_tweak X c t = Inr k"
    by (auto simp: combined_private_key_def and_then_eq_Ok)
  from secp_add_combine [OF laws c] secp_add_exp [OF laws t(2)] arr t(1) show ?thesis
    by (simp add: get_address_to_pay_def)
qed

end
