(* ===== verification/Chain_Trait.thy ===== *)
theory Chain_Trait
  imports Ebill_Crypto
begin

text \<open>
  The generic traits \<^verbatim>\<open>Block\<close> and \<^verbatim>\<open>Blockchain\<close> of \<^verbatim>\<open>protocol/blockchain/mod.rs\<close>. The required methods
  of \<^verbatim>\<open>Block\<close> are the fields of the record \<open>BlockOps\<close>; the provided methods are definitions over it,
  and the bill, company and identity chains instantiate the record. A Rust \<^verbatim>\<open>bool\<close> method that can
  reach an \<^verbatim>\<open>expect\<close> returns an outcome here. The locale \<open>block_contract\<close> states what the chains rely
  on of a block type: the hashed data determines the content of the block.
\<close>

section \<open>Chain types\<close>

datatype BlockchainType = BT_Bill | BT_Company | BT_Identity

definition blockchain_type_try_from :: "string \<Rightarrow> (BlockchainType, BlockchainError) result" where
  "blockchain_type_try_from value =
     (if value = ''bill'' then Ok BT_Bill
      else if value = ''company'' then Ok BT_Company
      else if value = ''identity'' then Ok BT_Identity
      else Err (InvalidBlockchainType value))"

definition blockchain_type_fmt :: "BlockchainType \<Rightarrow> string" where
  "blockchain_type_fmt t =
     (case t of BT_Bill \<Rightarrow> ''bill'' | BT_Company \<Rightarrow> ''company'' | BT_Identity \<Rightarrow> ''identity'')"

section \<open>The trait \<^verbatim>\<open>Block\<close>\<close>

record ('b, 'op, 'd) BlockOps =
  blk_id :: "'b \<Rightarrow> BlockId"
  blk_timestamp :: "'b \<Rightarrow> Timestamp"
  blk_op_code :: "'b \<Rightarrow> 'op"
  blk_plaintext_hash :: "'b \<Rightarrow> Sha256Hash"
  blk_hash :: "'b \<Rightarrow> Sha256Hash"
  blk_previous_hash :: "'b \<Rightarrow> Sha256Hash"
  blk_data :: "'b \<Rightarrow> bytes"
  blk_signature :: "'b \<Rightarrow> SchnorrSignature"
  blk_public_key :: "'b \<Rightarrow> PublicKey"
  blk_validate :: "'b \<Rightarrow> bool"
  blk_data_to_hash :: "'b \<Rightarrow> 'd"
  blk_hash_codec :: "'d Codec" \<comment> \<open>borsh of \<^verbatim>\<open>BlockDataToHash\<close>\<close>

definition calculate_plaintext_hash :: "Ext \<Rightarrow> 't Codec \<Rightarrow> 't \<Rightarrow> (Sha256Hash, BlockchainError) result" where
  "calculate_plaintext_hash X C d =
     and_then (from_ext Io (to_vec C d)) (\<lambda>serialized. Ok (hash_from_bytes X serialized))"

definition calculate_hash :: "Ext \<Rightarrow> 'd Codec \<Rightarrow> 'd \<Rightarrow> (Sha256Hash, BlockchainError) result" where
  "calculate_hash X C d =
     and_then (from_ext Io (to_vec C d)) (\<lambda>serialized. Ok (hash_from_bytes X serialized))"

definition validate_hash :: "('b, 'op, 'd) BlockOps \<Rightarrow> Ext \<Rightarrow> 'b \<Rightarrow> (bool, BlockchainError) result" where
  "validate_hash Bl X b =
     (case calculate_hash X (blk_hash_codec Bl) (blk_data_to_hash Bl b) of
        Err e \<Rightarrow> Ok False
      | Ok h \<Rightarrow> Ok (blk_hash Bl b = h)
      | Panic \<Rightarrow> Panic)"

definition blk_verify :: "('b, 'op, 'd) BlockOps \<Rightarrow> Ext \<Rightarrow> 'b \<Rightarrow> (bool, BlockchainError) result" where
  "blk_verify Bl X b =
     (case sig_verify X (blk_signature Bl b) (blk_hash Bl b) (blk_public_key Bl b) of
        Err e \<Rightarrow> Ok False
      | Ok res \<Rightarrow> Ok (res \<and> blk_validate Bl b)
      | Panic \<Rightarrow> Panic)"

definition validate_with_previous ::
  "('b, 'op, 'd) BlockOps \<Rightarrow> Ext \<Rightarrow> 'b \<Rightarrow> 'b \<Rightarrow> (bool, BlockchainError) result" where
  "validate_with_previous Bl X b previous =
     (if blk_previous_hash Bl b \<noteq> blk_hash Bl previous then Ok False
      else if blk_timestamp Bl b < blk_timestamp Bl previous then Ok False
      else if \<not> bid_validate_with_previous (blk_id Bl b) (blk_id Bl previous) then Ok False
      else and_then (validate_hash Bl X b) (\<lambda>hash_ok.
        if \<not> hash_ok then Ok False
        else and_then (blk_verify Bl X b) (\<lambda>sig_ok. Ok sig_ok)))"

section \<open>The trait \<^verbatim>\<open>Blockchain\<close>\<close>

record 'b Blockchain =
  blocks :: "'b list"

definition block_height :: "'b Blockchain \<Rightarrow> nat" where
  "block_height c = length (blocks c)"

text \<open>The loop of \<^verbatim>\<open>is_chain_valid\<close> over neighbouring blocks, with its early return.\<close>

fun valid_links :: "('b, 'op, 'd) BlockOps \<Rightarrow> Ext \<Rightarrow> 'b list \<Rightarrow> (bool, BlockchainError) result" where
  "valid_links Bl X (b1 # b2 # bs) =
     and_then (validate_with_previous Bl X b2 b1) (\<lambda>ok.
       if \<not> ok then Ok False else valid_links Bl X (b2 # bs))"
| "valid_links Bl X _ = Ok True"

definition is_chain_valid ::
  "('b, 'op, 'd) BlockOps \<Rightarrow> Ext \<Rightarrow> 'b Blockchain \<Rightarrow> (bool, BlockchainError) result" where
  "is_chain_valid Bl X c = valid_links Bl X (blocks c)"

definition get_latest_block :: "'b Blockchain \<Rightarrow> ('b, 'e) result" where
  "get_latest_block c = expect (last_opt (blocks c))"

definition get_first_block :: "'b Blockchain \<Rightarrow> ('b, 'e) result" where
  "get_first_block c = expect (first_opt (blocks c))"

definition try_add_block ::
  "('b, 'op, 'd) BlockOps \<Rightarrow> Ext \<Rightarrow> 'b Blockchain \<Rightarrow> 'b \<Rightarrow> (bool \<times> 'b Blockchain, BlockchainError) result" where
  "try_add_block Bl X self block =
     and_then (get_latest_block self) (\<lambda>latest_block.
     and_then (validate_with_previous Bl X block latest_block) (\<lambda>ok.
     if ok then Ok (True, self\<lparr>blocks := blocks self @ [block]\<rparr>) else Ok (False, self)))"

definition get_block_by_id ::
  "('b, 'op, 'd) BlockOps \<Rightarrow> 'b Blockchain \<Rightarrow> BlockId \<Rightarrow> ('b, BlockchainError) result" where
  "get_block_by_id Bl c i =
     (case find (\<lambda>b. blk_id Bl b = i) (blocks c) of
        Some b \<Rightarrow> Ok b
      | None \<Rightarrow> get_first_block c)"

text \<open>The loop over \<^verbatim>\<open>1..difference_in_id + 1\<close> of \<^verbatim>\<open>get_blocks_to_add_from_other_chain\<close>.\<close>

fun add_blocks_loop ::
  "('b, 'op, 'd) BlockOps \<Rightarrow> Ext \<Rightarrow> 'b Blockchain \<Rightarrow> BlockId \<Rightarrow> 'b Blockchain \<Rightarrow> 'b list \<Rightarrow> nat list
     \<Rightarrow> ('b list \<times> 'b Blockchain, BlockchainError) result" where
  "add_blocks_loop Bl X other last_id self blocks_to_add [] = Ok (blocks_to_add, self)"
| "add_blocks_loop Bl X other last_id self blocks_to_add (k # ks) =
     and_then (get_block_by_id Bl other (bid_add last_id (word_of_nat k))) (\<lambda>block.
     and_then (try_add_block Bl X self block) (\<lambda>(added, self').
     if added then
       and_then (is_chain_valid Bl X self') (\<lambda>valid.
         if valid then add_blocks_loop Bl X other last_id self' (blocks_to_add @ [block]) ks
         else Ok (blocks_to_add, self'))
     else Ok (blocks_to_add, self')))"

definition get_blocks_to_add_from_other_chain ::
  "('b, 'op, 'd) BlockOps \<Rightarrow> Ext \<Rightarrow> 'b Blockchain \<Rightarrow> 'b Blockchain
     \<Rightarrow> ('b list \<times> 'b Blockchain, BlockchainError) result" where
  "get_blocks_to_add_from_other_chain Bl X self other_chain =
     and_then (get_latest_block self) (\<lambda>local_last.
     and_then (get_latest_block other_chain) (\<lambda>other_last.
     case difference_to_smaller (blk_id Bl local_last) (blk_id Bl other_last) of
       Some d \<Rightarrow> add_blocks_loop Bl X other_chain (blk_id Bl local_last) self [] [1 ..< unat (d + 1)]
     | None \<Rightarrow> Ok ([], self)))"

definition get_last_version_block_with_op_code ::
  "('b, 'op, 'd) BlockOps \<Rightarrow> 'b Blockchain \<Rightarrow> 'op \<Rightarrow> 'b option" where
  "get_last_version_block_with_op_code Bl c op = rfind (\<lambda>b. blk_op_code Bl b = op) (blocks c)"

definition block_with_operation_code_exists ::
  "('b, 'op, 'd) BlockOps \<Rightarrow> 'b Blockchain \<Rightarrow> 'op \<Rightarrow> bool" where
  "block_with_operation_code_exists Bl c op = list_ex (\<lambda>b. blk_op_code Bl b = op) (blocks c)"

definition truncate_from :: "('b, 'op, 'd) BlockOps \<Rightarrow> 'b Blockchain \<Rightarrow> BlockId \<Rightarrow> 'b Blockchain" where
  "truncate_from Bl c from_block_id =
     c\<lparr>blocks := filter (\<lambda>b. blk_id Bl b < from_block_id) (blocks c)\<rparr>"

section \<open>Links between blocks\<close>

text \<open>\<open>linked Bl X p b\<close>: the block \<open>b\<close> validates with the previous block \<open>p\<close>.\<close>

definition linked :: "('b, 'op, 'd) BlockOps \<Rightarrow> Ext \<Rightarrow> 'b \<Rightarrow> 'b \<Rightarrow> bool" where
  "linked Bl X p b \<longleftrightarrow> validate_with_previous Bl X b p = Ok True"

text \<open>The block ids that the blocks of a chain must have: consecutive ones, modulo \<open>2^64\<close>.\<close>

definition id_at :: "BlockId \<Rightarrow> nat \<Rightarrow> BlockId" where
  "id_at b n = bid_add b (word_of_nat n)"

named_theorems chain_simps \<open>unfolding the provided methods of a chain\<close>

lemmas chain_defs [chain_simps] =
  is_chain_valid_def get_latest_block_def get_first_block_def last_opt_def first_opt_def

lemma calculate_hash_total [simp]: "calculate_hash X C d \<noteq> Panic"
  by (simp add: calculate_hash_def and_then_eq_Panic)

lemma validate_hash_Ok:
  "validate_hash Bl X b = Ok True \<longleftrightarrow>
     calculate_hash X (blk_hash_codec Bl) (blk_data_to_hash Bl b) = Ok (blk_hash Bl b)"
  by (auto simp: validate_hash_def split: result.splits)

lemma blk_verify_Ok:
  "blk_verify Bl X b = Ok True \<longleftrightarrow>
     sig_verify X (blk_signature Bl b) (blk_hash Bl b) (blk_public_key Bl b) = Ok True \<and> blk_validate Bl b"
  by (auto simp: blk_verify_def split: result.splits)

lemma linked_iff:
  "linked Bl X p b \<longleftrightarrow>
     blk_previous_hash Bl b = blk_hash Bl p \<and>
     blk_timestamp Bl p \<le> blk_timestamp Bl b \<and>
     blk_id Bl b = next_from_previous_block_id (blk_id Bl p) \<and>
     validate_hash Bl X b = Ok True \<and> blk_verify Bl X b = Ok True"
  by (auto simp: linked_def validate_with_previous_def bid_validate_with_previous_iff and_then_eq_Ok)

lemma valid_links_iff: "valid_links Bl X bs = Ok True \<longleftrightarrow> successively (linked Bl X) bs"
proof (induction bs rule: induct_list012)
  case (3 b1 b2 bs)
  then show ?case by (auto simp: and_then_eq_Ok linked_def)
qed simp_all

lemma is_chain_valid_iff:
  "is_chain_valid Bl X c = Ok True \<longleftrightarrow> successively (linked Bl X) (blocks c)"
  by (simp add: is_chain_valid_def valid_links_iff)

lemma try_add_block_iff:
  "try_add_block Bl X c b = Ok (True, c') \<longleftrightarrow>
     blocks c \<noteq> [] \<and> linked Bl X (last (blocks c)) b \<and> c' = c\<lparr>blocks := blocks c @ [b]\<rparr>"
  by (auto simp: try_add_block_def get_latest_block_def last_opt_def linked_def and_then_eq_Ok)

lemma try_add_block_rejects:
  "try_add_block Bl X c b = Ok (False, c') \<Longrightarrow> c' = c"
  by (auto simp: try_add_block_def and_then_eq_Ok split: if_splits)

text \<open>A block that is added keeps a valid chain valid, and only a linked block is added.\<close>

lemma try_add_block_valid:
  assumes "is_chain_valid Bl X c = Ok True" and "try_add_block Bl X c b = Ok (r, c')"
  shows "is_chain_valid Bl X c' = Ok True"
  using assms by (cases r)
    (auto simp: try_add_block_iff is_chain_valid_iff successively_append_iff dest: try_add_block_rejects)

text \<open>Ids count up and timestamps never go downwards along a valid chain.\<close>

lemma id_at_0 [simp]: "id_at b 0 = b"
  by (simp add: id_at_def bid_add_def)

lemma id_at_Suc: "id_at (next_from_previous_block_id b) n = id_at b (Suc n)"
  by (simp add: id_at_def bid_add_def next_from_previous_block_id_def)

lemma valid_ids:
  assumes "successively (linked Bl X) bs" and "i < length bs"
  shows "blk_id Bl (bs ! i) = id_at (blk_id Bl (hd bs)) i"
  using assms
proof (induction bs arbitrary: i rule: induct_list012)
  case (3 b1 b2 bs)
  then show ?case by (cases i) (auto simp: linked_iff id_at_Suc)
qed simp_all

lemma valid_timestamps_sorted:
  assumes "successively (linked Bl X) bs"
  shows "sorted (map (blk_timestamp Bl) bs)"
proof -
  have "successively (\<lambda>p b. blk_timestamp Bl p \<le> blk_timestamp Bl b) bs"
    using assms by (rule successively_mono) (simp add: linked_iff)
  then show ?thesis
    by (subst (asm) successively_conv_sorted_wrt) (auto simp: transp_def sorted_wrt_map)
qed

text \<open>Without wrap-around the ids of a valid chain are pairwise different and increasing.\<close>

lemma unat_id_at:
  assumes "unat (bid_inner b) + n < 2 ^ 64"
  shows "unat (bid_inner (id_at b n)) = unat (bid_inner b) + n"
proof -
  have "unat (word_of_nat n :: u64) = n"
    using assms by (simp add: unat_of_nat take_bit_nat_eq_self)
  then show ?thesis
    using assms by (simp add: id_at_def bid_add_def unat_word_ariths)
qed

lemma valid_ids_unat:
  assumes "successively (linked Bl X) bs" and "i < length bs"
    and "unat (bid_inner (blk_id Bl (hd bs))) + length bs \<le> 2 ^ 64"
  shows "unat (bid_inner (blk_id Bl (bs ! i))) = unat (bid_inner (blk_id Bl (hd bs))) + i"
  using assms by (simp add: valid_ids unat_id_at)

lemma find_by_id:
  assumes v: "successively (linked Bl X) bs" and i: "i < length bs"
    and b: "unat (bid_inner (blk_id Bl (hd bs))) + length bs \<le> 2 ^ 64"
  shows "find (\<lambda>b. blk_id Bl b = id_at (blk_id Bl (hd bs)) i) bs = Some (bs ! i)"
proof -
  have "blk_id Bl (bs ! i) = id_at (blk_id Bl (hd bs)) i"
    by (rule valid_ids [OF v i])
  moreover have "blk_id Bl (bs ! j) \<noteq> id_at (blk_id Bl (hd bs)) i" if "j < i" for j
    using that i valid_ids_unat [OF v, of j] valid_ids_unat [OF v i b] b
    by (simp add: block_id_eq_unat flip: valid_ids [OF v i])
  ultimately show ?thesis using i by (simp add: find_Some_iff) blast
qed

lemma truncate_from_take:
  assumes v: "successively (linked Bl X) (blocks c)" and i: "i < length (blocks c)"
    and b: "unat (bid_inner (blk_id Bl (hd (blocks c)))) + length (blocks c) \<le> 2 ^ 64"
  shows "blocks (truncate_from Bl c (blk_id Bl (blocks c ! i))) = take i (blocks c)"
proof -
  let ?bs = "blocks c" and ?p = "\<lambda>b. blk_id Bl b < blk_id Bl (blocks c ! i)"
  have lt: "?p (?bs ! j) \<longleftrightarrow> j < i" if "j < length ?bs" for j
    using that i by (simp add: block_id_order_unat valid_ids_unat [OF v _ b])
  have "filter ?p (take i ?bs) = take i ?bs"
    by (rule filter_True) (use i lt in \<open>auto simp: in_set_conv_nth\<close>)
  moreover have "filter ?p (drop i ?bs) = []"
    by (rule filter_False) (use lt in \<open>auto simp: in_set_conv_nth\<close>)
  ultimately have "filter ?p (take i ?bs @ drop i ?bs) = take i ?bs"
    by (simp only: filter_append append_Nil2)
  then show ?thesis by (simp add: truncate_from_def)
qed

section \<open>Taking over blocks of another chain\<close>

text \<open>Whatever the other chain holds, a valid chain stays valid and grows by the reported blocks.\<close>

lemma get_block_by_id_mem:
  "get_block_by_id Bl c i = Ok b \<Longrightarrow> b \<in> set (blocks c)"
  by (auto simp: get_block_by_id_def find_Some_iff get_first_block_def first_opt_def
      split: option.splits list.splits)

lemma add_blocks_loop_sound:
  assumes "add_blocks_loop Bl X other i self acc ks = Ok (added, self')"
    and "is_chain_valid Bl X self = Ok True"
  shows "\<exists>bs. added = acc @ bs \<and> self' = self\<lparr>blocks := blocks self @ bs\<rparr> \<and>
           set bs \<subseteq> set (blocks other) \<and> is_chain_valid Bl X self' = Ok True"
  using assms
proof (induction ks arbitrary: self acc)
  case Nil
  then show ?case by simp
next
  case (Cons k ks)
  from Cons.prems(1) obtain b ok c where b: "get_block_by_id Bl other (bid_add i (word_of_nat k)) = Ok b"
    and add: "try_add_block Bl X self b = Ok (ok, c)"
    by (auto simp: and_then_eq_Ok)
  have valid: "is_chain_valid Bl X c = Ok True"
    by (rule try_add_block_valid [OF Cons.prems(2) add])
  show ?case
  proof (cases ok)
    case False
    then have "c = self" using add by (simp add: try_add_block_rejects)
    with Cons.prems b add False show ?thesis by simp
  next
    case True
    then have c: "c = self\<lparr>blocks := blocks self @ [b]\<rparr>" using add by (simp add: try_add_block_iff)
    have "add_blocks_loop Bl X other i c (acc @ [b]) ks = Ok (added, self')"
      using Cons.prems(1) b add True valid by simp
    from Cons.IH [OF this valid] get_block_by_id_mem [OF b] show ?thesis
      by (auto simp: c)
  qed
qed

lemma get_blocks_to_add_sound:
  assumes "get_blocks_to_add_from_other_chain Bl X self other = Ok (added, self')"
    and "is_chain_valid Bl X self = Ok True"
  shows "self' = self\<lparr>blocks := blocks self @ added\<rparr> \<and> set added \<subseteq> set (blocks other) \<and>
         is_chain_valid Bl X self' = Ok True"
proof -
  from assms(1) consider "added = []" "self' = self"
    | i ks where "add_blocks_loop Bl X other i self [] ks = Ok (added, self')"
    by (auto simp: get_blocks_to_add_from_other_chain_def and_then_eq_Ok split: option.splits)
  then show ?thesis
  proof cases
    case 1
    with assms(2) show ?thesis by simp
  next
    case 2
    from add_blocks_loop_sound [OF 2 assms(2)] show ?thesis by auto
  qed
qed

text \<open>Of a valid chain that extends ours, every further block is taken over, in order.\<close>

lemma bid_add_id_at: "bid_add (id_at b n) (word_of_nat k) = id_at b (n + k)"
  by (simp add: id_at_def bid_add_def)

lemma add_blocks_loop_complete:
  assumes v: "successively (linked Bl X) (blocks other)"
    and b: "unat (bid_inner (blk_id Bl (hd (blocks other)))) + length (blocks other) \<le> 2 ^ 64"
    and n: "0 < n" "n \<le> m" "m \<le> length (blocks other)"
    and self: "self = \<lparr>blocks = take m (blocks other)\<rparr>"
  shows "add_blocks_loop Bl X other (id_at (blk_id Bl (hd (blocks other))) (n - 1)) self acc
           [Suc m - n ..< Suc (length (blocks other)) - n] =
         Ok (acc @ drop m (blocks other), \<lparr>blocks = blocks other\<rparr>)"
  using n(2,3) self
proof (induction "length (blocks other) - m" arbitrary: m self acc)
  case 0
  then show ?case by simp
next
  case (Suc d)
  let ?bs = "blocks other" and ?h = "blk_id Bl (hd (blocks other))"
  have m: "m < length ?bs" using Suc.hyps(2) by simp
  have ks: "[Suc m - n ..< Suc (length ?bs) - n] = (Suc m - n) # [Suc (Suc m) - n ..< Suc (length ?bs) - n]"
    using m Suc.prems(1) by (simp add: upt_rec Suc_diff_le)
  have id: "bid_add (id_at ?h (n - 1)) (word_of_nat (Suc m - n)) = id_at ?h m"
    using n(1) Suc.prems(1) by (simp only: bid_add_id_at) (rule arg_cong, simp)
  have get: "get_block_by_id Bl other (id_at ?h m) = Ok (?bs ! m)"
    by (simp add: get_block_by_id_def find_by_id [OF v m b])
  have last: "last (take m ?bs) = ?bs ! (m - 1)"
    using m n(1) Suc.prems(1) by (subst last_conv_nth) (auto simp: min_def)
  have "linked Bl X (?bs ! (m - 1)) (?bs ! Suc (m - 1))"
    using v m n(1) Suc.prems(1) unfolding successively_conv_nth
    by (elim allE [of _ "m - 1"]) simp
  then have add: "try_add_block Bl X self (?bs ! m) = Ok (True, \<lparr>blocks = take (Suc m) ?bs\<rparr>)"
    using m n(1) Suc.prems by (auto simp: try_add_block_iff last take_Suc_conv_app_nth)
  have "successively (linked Bl X) (take (Suc m) ?bs)"
    using v by (metis append_take_drop_id successively_append_iff)
  then have valid: "is_chain_valid Bl X \<lparr>blocks = take (Suc m) ?bs\<rparr> = Ok True"
    by (simp add: is_chain_valid_iff)
  have "add_blocks_loop Bl X other (id_at ?h (n - 1)) \<lparr>blocks = take (Suc m) ?bs\<rparr> (acc @ [?bs ! m])
      [Suc (Suc m) - n ..< Suc (length ?bs) - n] = Ok ((acc @ [?bs ! m]) @ drop (Suc m) ?bs, \<lparr>blocks = ?bs\<rparr>)"
    by (rule Suc.hyps(1)) (use Suc.hyps(2) Suc.prems(1) m in simp_all)
  then show ?case
    by (simp add: ks id get add valid Cons_nth_drop_Suc m del: upt_Suc One_nat_def)
qed

lemma get_blocks_to_add_complete:
  assumes v: "is_chain_valid Bl X \<lparr>blocks = ps @ qs\<rparr> = Ok True" and ps: "ps \<noteq> []"
    and b: "unat (bid_inner (blk_id Bl (hd ps))) + length (ps @ qs) < 2 ^ 64"
  shows "get_blocks_to_add_from_other_chain Bl X \<lparr>blocks = ps\<rparr> \<lparr>blocks = ps @ qs\<rparr> = Ok (qs, \<lparr>blocks = ps @ qs\<rparr>)"
proof -
  let ?other = "\<lparr>blocks = ps @ qs\<rparr>" and ?h = "blk_id Bl (hd ps)" and ?n = "length ps"
  have v': "successively (linked Bl X) (ps @ qs)" using v by (simp add: is_chain_valid_iff)
  have b': "unat (bid_inner (blk_id Bl (hd (ps @ qs)))) + length (ps @ qs) \<le> 2 ^ 64"
    using b ps by simp
  have n: "0 < ?n" using ps by simp
  have p: "blk_id Bl (last ps) = id_at ?h (?n - 1)"
    using valid_ids [OF v', of "?n - 1"] n ps by (simp add: last_conv_nth nth_append trans_less_add1)
  have q: "blk_id Bl (last (ps @ qs)) = id_at ?h (length (ps @ qs) - 1)"
    using valid_ids [OF v', of "length (ps @ qs) - 1"] n ps
    by (simp add: last_conv_nth del: length_append)
  have up: "unat (bid_inner (id_at ?h (?n - 1))) = unat (bid_inner ?h) + (?n - 1)"
    by (rule unat_id_at) (use b n in \<open>simp only: length_append; linarith\<close>)
  have uq: "unat (bid_inner (id_at ?h (length (ps @ qs) - 1))) = unat (bid_inner ?h) + (length (ps @ qs) - 1)"
    by (rule unat_id_at) (use b n in \<open>simp only: length_append; linarith\<close>)
  show ?thesis
  proof (cases "qs = []")
    case True
    then show ?thesis
      by (simp add: get_blocks_to_add_from_other_chain_def get_latest_block_def last_opt_def ps
          difference_to_smaller_def)
  next
    case False
    let ?d = "bid_inner (id_at ?h (length (ps @ qs) - 1)) - bid_inner (id_at ?h (?n - 1))"
    have lt: "id_at ?h (?n - 1) < id_at ?h (length (ps @ qs) - 1)"
      unfolding block_id_order_unat up uq using False n by (cases qs; cases ps) simp_all
    have "unat ?d = length qs"
      using lt up uq n unfolding block_id_order_unat by (subst unat_sub) (simp_all add: word_le_nat_alt)
    moreover have "length qs + 1 < 2 ^ 64"
      using b n unfolding length_append by linarith
    ultimately have d: "unat (?d + 1) = Suc (length qs)"
      by (simp add: unat_word_ariths)
    have ext: "difference_to_smaller (id_at ?h (?n - 1)) (id_at ?h (length (ps @ qs) - 1)) = Some ?d"
      using lt by (auto simp: difference_to_smaller_def)
    have "add_blocks_loop Bl X ?other (id_at ?h (?n - 1)) \<lparr>blocks = ps\<rparr> [] [1 ..< Suc (length qs)] =
        Ok (qs, ?other)"
      using add_blocks_loop_complete [of Bl X ?other ?n ?n "\<lparr>blocks = ps\<rparr>" "[]"] v' b' n ps
      by (simp add: Suc_diff_le del: upt_Suc)
    then show ?thesis
      by (simp add: get_blocks_to_add_from_other_chain_def get_latest_block_def last_opt_def ps p q ext d
          False del: upt_Suc last_append last_appendL last_appendR length_append One_nat_def)
  qed
qed

section \<open>What a block type promises\<close>

text \<open>
  The contract of an implementation of \<^verbatim>\<open>Block\<close>: the data that is hashed determines everything that
  the chain reads of a block. From it follows the integrity of the hash chain: two valid chains of
  the same height with the same tip hash have the same content above their first block, unless
  two of their blocks collide under the hash function.
\<close>

locale block_contract =
  fixes Bl :: "('b, 'op, 'd) BlockOps"
  assumes hashed_content: "blk_data_to_hash Bl b = blk_data_to_hash Bl b' \<Longrightarrow>
      blk_id Bl b = blk_id Bl b' \<and> blk_timestamp Bl b = blk_timestamp Bl b' \<and>
      blk_op_code Bl b = blk_op_code Bl b' \<and> blk_plaintext_hash Bl b = blk_plaintext_hash Bl b' \<and>
      blk_previous_hash Bl b = blk_previous_hash Bl b' \<and> blk_data Bl b = blk_data Bl b' \<and>
      blk_public_key Bl b = blk_public_key Bl b'"
begin

lemma linked_same_content:
  assumes "linked Bl X p b" "linked Bl X q d" "blk_hash Bl b = blk_hash Bl d"
    and "calculate_hash X (blk_hash_codec Bl) (blk_data_to_hash Bl b) =
         calculate_hash X (blk_hash_codec Bl) (blk_data_to_hash Bl d) \<Longrightarrow>
         blk_data_to_hash Bl b = blk_data_to_hash Bl d"
  shows "blk_data_to_hash Bl b = blk_data_to_hash Bl d \<and> blk_hash Bl p = blk_hash Bl q"
  using assms hashed_content [of b d] by (auto simp: linked_iff validate_hash_Ok)

lemma tip_hash_determines_chain:
  assumes cs: "successively (linked Bl X) cs" and ds: "successively (linked Bl X) ds"
    and len: "length cs = length ds" and tip: "blk_hash Bl (last cs) = blk_hash Bl (last ds)"
    and nocoll: "\<And>b d. b \<in> set cs \<Longrightarrow> d \<in> set ds \<Longrightarrow>
         validate_hash Bl X b = Ok True \<Longrightarrow> validate_hash Bl X d = Ok True \<Longrightarrow>
         calculate_hash X (blk_hash_codec Bl) (blk_data_to_hash Bl b) =
         calculate_hash X (blk_hash_codec Bl) (blk_data_to_hash Bl d) \<Longrightarrow>
         blk_data_to_hash Bl b = blk_data_to_hash Bl d"
  shows "i < length cs \<Longrightarrow> blk_hash Bl (cs ! i) = blk_hash Bl (ds ! i)"
    and "Suc i < length cs \<Longrightarrow> blk_data_to_hash Bl (cs ! Suc i) = blk_data_to_hash Bl (ds ! Suc i)"
    and "0 < length cs \<Longrightarrow> validate_hash Bl X (cs ! 0) = Ok True \<Longrightarrow> validate_hash Bl X (ds ! 0) = Ok True \<Longrightarrow>
         blk_data_to_hash Bl (cs ! 0) = blk_data_to_hash Bl (ds ! 0)"
proof -
  have link: "linked Bl X (cs ! j) (cs ! Suc j)" "linked Bl X (ds ! j) (ds ! Suc j)"
    if "Suc j < length cs" for j
    using that cs ds len by (auto simp: successively_conv_nth)
  have same: "blk_data_to_hash Bl (cs ! j) = blk_data_to_hash Bl (ds ! j)"
    if "j < length cs" "validate_hash Bl X (cs ! j) = Ok True" "validate_hash Bl X (ds ! j) = Ok True"
      "blk_hash Bl (cs ! j) = blk_hash Bl (ds ! j)" for j
    using that len by (intro nocoll) (auto simp: validate_hash_Ok)
  have downwards: "blk_data_to_hash Bl (cs ! Suc j) = blk_data_to_hash Bl (ds ! Suc j) \<and>
      blk_hash Bl (cs ! j) = blk_hash Bl (ds ! j)"
    if "Suc j < length cs" "blk_hash Bl (cs ! Suc j) = blk_hash Bl (ds ! Suc j)" for j
    by (rule linked_same_content [OF link [OF that(1)] that(2)])
      (rule same, use that link [OF that(1)] in \<open>auto simp: linked_iff\<close>)
  have hash: "blk_hash Bl (cs ! j) = blk_hash Bl (ds ! j)" if "j < length cs" for j
  proof -
    from that have "j \<le> length cs - 1" by simp
    then show ?thesis
    proof (induction rule: inc_induct)
      case base
      have "cs \<noteq> []" "ds \<noteq> []" using that len by auto
      with tip len show ?case by (simp add: last_conv_nth)
    next
      case (step n)
      then show ?case using downwards [of n] by simp
    qed
  qed
  then show "i < length cs \<Longrightarrow> blk_hash Bl (cs ! i) = blk_hash Bl (ds ! i)" .
  show "Suc i < length cs \<Longrightarrow> blk_data_to_hash Bl (cs ! Suc i) = blk_data_to_hash Bl (ds ! Suc i)"
    using downwards hash by blast
  show "0 < length cs \<Longrightarrow> validate_hash Bl X (cs ! 0) = Ok True \<Longrightarrow> validate_hash Bl X (ds ! 0) = Ok True \<Longrightarrow>
      blk_data_to_hash Bl (cs ! 0) = blk_data_to_hash Bl (ds ! 0)"
    using same hash by blast
qed

end

end
