(* ===== verification/Bill_Types.thy ===== *)
theory Bill_Types
  imports Chain_Trait
begin

text \<open>
  The data of a bill: op codes, actions and payment states (\<^verbatim>\<open>blockchain/bill/mod.rs\<close>), participants
  (\<^verbatim>\<open>participant.rs\<close>) and the payload of every kind of block with its \<^verbatim>\<open>Validate\<close> implementation
  (\<^verbatim>\<open>block.rs\<close>). Record fields carry a prefix that names the struct they come from.
\<close>

section \<open>Op codes and participants\<close>

datatype BillOpCode =
    Issue | Accept | Endorse | RequestToAccept | RequestToPay | OfferToSell | Sell | Mint
  | RejectToAccept | RejectToPay | RejectToBuy | RejectToPayRecourse | RequestRecourse | Recourse

datatype ContactType = CT_Person | CT_Company | CT_Anon

definition contact_type_try_from :: "u64 \<Rightarrow> (ContactType, ProtocolValidationError) result" where
  "contact_type_try_from value =
     (if value = 0 then Ok CT_Person
      else if value = 1 then Ok CT_Company
      else if value = 2 then Ok CT_Anon
      else Err InvalidContactType)"

record BillAnonParticipantBlockData =
  bapd_node_id :: NodeId

record BillIdentParticipantBlockData =
  bipd_t :: ContactType
  bipd_node_id :: NodeId
  bipd_name :: Name
  bipd_postal_address :: PostalAddress

datatype BillParticipantBlockData =
    Anon BillAnonParticipantBlockData
  | Ident BillIdentParticipantBlockData

definition bpd_node_id :: "BillParticipantBlockData \<Rightarrow> NodeId" where
  "bpd_node_id p = (case p of Anon d \<Rightarrow> bapd_node_id d | Ident d \<Rightarrow> bipd_node_id d)"

definition bpd_is_anon :: "BillParticipantBlockData \<Rightarrow> bool" where
  "bpd_is_anon p = (case p of Anon _ \<Rightarrow> True | Ident _ \<Rightarrow> False)"

definition bpd_is_ident :: "BillParticipantBlockData \<Rightarrow> bool" where
  "bpd_is_ident p = (case p of Anon _ \<Rightarrow> False | Ident _ \<Rightarrow> True)"

record BillAnonParticipant =
  bap_node_id :: NodeId
  bap_nostr_relays :: "Url list"

record BillIdentParticipant =
  bip_t :: ContactType
  bip_node_id :: NodeId
  bip_name :: Name
  bip_postal_address :: PostalAddress
  bip_email :: "Email option"
  bip_nostr_relays :: "Url list"

datatype BillParticipant = P_Anon BillAnonParticipant | P_Ident BillIdentParticipant

definition bp_node_id :: "BillParticipant \<Rightarrow> NodeId" where
  "bp_node_id p = (case p of P_Ident d \<Rightarrow> bip_node_id d | P_Anon d \<Rightarrow> bap_node_id d)"

definition bp_postal_address :: "BillParticipant \<Rightarrow> PostalAddress option" where
  "bp_postal_address p = (case p of P_Ident d \<Rightarrow> Some (bip_postal_address d) | P_Anon _ \<Rightarrow> None)"

definition bp_name :: "BillParticipant \<Rightarrow> Name option" where
  "bp_name p = (case p of P_Ident d \<Rightarrow> Some (bip_name d) | P_Anon _ \<Rightarrow> None)"

definition bp_email :: "BillParticipant \<Rightarrow> Email option" where
  "bp_email p = (case p of P_Ident d \<Rightarrow> bip_email d | P_Anon _ \<Rightarrow> None)"

definition bp_nostr_relays :: "BillParticipant \<Rightarrow> Url list" where
  "bp_nostr_relays p = (case p of P_Ident d \<Rightarrow> bip_nostr_relays d | P_Anon d \<Rightarrow> bap_nostr_relays d)"

definition anon_from_ident :: "BillIdentParticipant \<Rightarrow> BillAnonParticipant" where
  "anon_from_ident v = \<lparr>bap_node_id = bip_node_id v, bap_nostr_relays = bip_nostr_relays v\<rparr>"

definition anon_from_participant :: "BillParticipant \<Rightarrow> BillAnonParticipant" where
  "anon_from_participant p = (case p of P_Ident d \<Rightarrow> anon_from_ident d | P_Anon d \<Rightarrow> d)"

definition as_anon :: "BillParticipant \<Rightarrow> BillParticipant" where
  "as_anon p = (case p of P_Ident d \<Rightarrow> P_Anon (anon_from_ident d) | P_Anon d \<Rightarrow> P_Anon d)"

definition ident_block_data :: "BillIdentParticipant \<Rightarrow> BillIdentParticipantBlockData" where
  "ident_block_data v =
     \<lparr>bipd_t = bip_t v, bipd_node_id = bip_node_id v, bipd_name = bip_name v,
      bipd_postal_address = bip_postal_address v\<rparr>"

definition anon_block_data :: "BillAnonParticipant \<Rightarrow> BillAnonParticipantBlockData" where
  "anon_block_data v = \<lparr>bapd_node_id = bap_node_id v\<rparr>"

definition participant_block_data :: "BillParticipant \<Rightarrow> BillParticipantBlockData" where
  "participant_block_data p =
     (case p of P_Ident d \<Rightarrow> Ident (ident_block_data d) | P_Anon d \<Rightarrow> Anon (anon_block_data d))"

definition ident_from_block_data :: "BillIdentParticipantBlockData \<Rightarrow> BillIdentParticipant" where
  "ident_from_block_data v =
     \<lparr>bip_t = bipd_t v, bip_node_id = bipd_node_id v, bip_name = bipd_name v,
      bip_postal_address = bipd_postal_address v, bip_email = None, bip_nostr_relays = []\<rparr>"

definition participant_from_block_data :: "BillParticipantBlockData \<Rightarrow> BillParticipant" where
  "participant_from_block_data p =
     (case p of
        Ident d \<Rightarrow> P_Ident (ident_from_block_data d)
      | Anon d \<Rightarrow> P_Anon \<lparr>bap_node_id = bapd_node_id d, bap_nostr_relays = []\<rparr>)"

record BillSignatoryBlockData =
  bsd_node_id :: NodeId
  bsd_name :: "Name option"

record BillSignatory =
  bs_node_id :: NodeId
  bs_name :: "Name option"

record SignedBy =
  sb_data :: BillParticipant
  sb_signatory :: "BillSignatory option"

definition signed_by :: "BillParticipantBlockData \<times> BillSignatoryBlockData option \<Rightarrow> SignedBy" where
  "signed_by v =
     \<lparr>sb_data = participant_from_block_data (fst v),
      sb_signatory = map_option (\<lambda>s. \<lparr>bs_node_id = bsd_node_id s, bs_name = bsd_name s\<rparr>) (snd v)\<rparr>"

record PastEndorsee =
  pe_pay_to_the_order_of :: BillIdentParticipant
  pe_signed :: SignedBy
  pe_signing_timestamp :: Timestamp
  pe_signing_address :: "PostalAddress option"

record BillSignerIdentityProofBlockdata =
  bsip_node_id :: NodeId
  bsip_company_node_id :: "NodeId option"
  bsip_email :: Email
  bsip_created_at :: Timestamp
  bsip_signature :: SchnorrSignature
  bsip_witness :: NodeId

definition identity_proof_block_data ::
  "SignedIdentityProof \<times> EmailIdentityProofData \<Rightarrow> BillSignerIdentityProofBlockdata" where
  "identity_proof_block_data v = (case v of (proof, data) \<Rightarrow>
     \<lparr>bsip_node_id = eip_node_id data, bsip_company_node_id = eip_company_node_id data,
      bsip_email = eip_email data, bsip_created_at = eip_created_at data,
      bsip_signature = sip_signature proof, bsip_witness = sip_witness proof\<rparr>)"

definition identity_proof_from_block_data ::
  "BillSignerIdentityProofBlockdata \<Rightarrow> SignedIdentityProof \<times> EmailIdentityProofData" where
  "identity_proof_from_block_data v =
     (\<lparr>sip_signature = bsip_signature v, sip_witness = bsip_witness v\<rparr>,
      \<lparr>eip_node_id = bsip_node_id v, eip_company_node_id = bsip_company_node_id v,
       eip_email = bsip_email v, eip_created_at = bsip_created_at v\<rparr>)"

section \<open>Actions, modes and payment states\<close>

datatype RecourseReason = RR_Accept | RR_Pay Sum

datatype BillAction =
    A_RequestAcceptance Timestamp
  | A_Accept
  | A_RequestToPay Currency Timestamp "BitcoinAddress option"
  | A_OfferToSell BillParticipant Sum Timestamp
  | A_Sell BillParticipant
  | A_Endorse BillParticipant
  | A_RequestRecourse BillIdentParticipant RecourseReason Timestamp
  | A_Recourse BillIdentParticipant
  | A_Mint BillParticipant Sum
  | A_RejectAcceptance
  | A_RejectPayment
  | A_RejectBuying
  | A_RejectPaymentForRecourse

definition action_op_code :: "BillAction \<Rightarrow> BillOpCode" where
  "action_op_code a =
     (case a of
        A_RequestAcceptance _ \<Rightarrow> RequestToAccept
      | A_Accept \<Rightarrow> Accept
      | A_RequestToPay _ _ _ \<Rightarrow> RequestToPay
      | A_OfferToSell _ _ _ \<Rightarrow> OfferToSell
      | A_Sell _ \<Rightarrow> Sell
      | A_Endorse _ \<Rightarrow> Endorse
      | A_RequestRecourse _ _ _ \<Rightarrow> RequestRecourse
      | A_Recourse _ \<Rightarrow> Recourse
      | A_Mint _ _ \<Rightarrow> Mint
      | A_RejectAcceptance \<Rightarrow> RejectToAccept
      | A_RejectPayment \<Rightarrow> RejectToPay
      | A_RejectBuying \<Rightarrow> RejectToBuy
      | A_RejectPaymentForRecourse \<Rightarrow> RejectToPayRecourse)"

datatype BillRecourseReasonBlockData = BRR_Accept | BRR_Pay

record SellPaymentInfo =
  spi_buyer :: BillParticipant
  spi_seller :: BillParticipant
  spi_sum :: Sum
  spi_payment_address :: BitcoinAddress
  spi_block_id :: BlockId
  spi_buying_deadline_timestamp :: Timestamp

record RecoursePaymentInfo =
  rpi_recourser :: BillParticipantBlockData
  rpi_recoursee :: BillIdentParticipantBlockData
  rpi_sum :: Sum
  rpi_payment_address :: BitcoinAddress
  rpi_reason :: BillRecourseReasonBlockData
  rpi_block_id :: BlockId
  rpi_recourse_deadline_timestamp :: Timestamp

datatype OfferToSellWaitingForPayment = OTS_Yes SellPaymentInfo | OTS_No
datatype RecourseWaitingForPayment = RCW_Yes RecoursePaymentInfo | RCW_No

datatype PaymentStatus =
    PS_Requested Timestamp | PS_Paid Timestamp | PS_Rejected Timestamp | PS_Expired Timestamp

record BillShallowValidationData =
  bsv_bill_action :: BillOpCode
  bsv_is_waiting_for_req_to_pay :: bool
  bsv_waiting_for_recourse_payment :: RecourseWaitingForPayment
  bsv_waiting_for_offer_to_sell :: OfferToSellWaitingForPayment
  bsv_is_req_to_pay_expired :: bool
  bsv_is_req_to_accept_expired :: bool
  bsv_past_endorsees :: "PastEndorsee list"
  bsv_recourse_reason :: "RecourseReason option"

datatype BillValidationActionMode = Deep BillAction | Shallow BillShallowValidationData

section \<open>Block payloads\<close>

record BillPaymentBlockData =
  pay_sum :: Sum
  pay_payment_address :: BitcoinAddress
  pay_payment_deadline :: Timestamp

record BillRejectBlockData =
  rej_rejecter :: BillIdentParticipantBlockData
  rej_signatory :: "BillSignatoryBlockData option"
  rej_signing_timestamp :: Timestamp
  rej_signing_address :: PostalAddress
  rej_signer_identity_proof :: BillSignerIdentityProofBlockdata

record BillRejectToBuyBlockData =
  rjb_rejecter :: BillParticipantBlockData
  rjb_signatory :: "BillSignatoryBlockData option"
  rjb_signing_timestamp :: Timestamp
  rjb_signing_address :: "PostalAddress option"
  rjb_signer_identity_proof :: "BillSignerIdentityProofBlockdata option"

record BillIssueBlockData =
  iss_id :: BillId
  iss_country_of_issuing :: Country
  iss_city_of_issuing :: City
  iss_drawee :: BillIdentParticipantBlockData
  iss_drawer :: BillIdentParticipantBlockData
  iss_payee :: BillParticipantBlockData
  iss_sum :: Sum
  iss_maturity_date :: Date
  iss_issue_date :: Date
  iss_country_of_payment :: Country
  iss_city_of_payment :: City
  iss_files :: "File list"
  iss_signatory :: "BillSignatoryBlockData option"
  iss_signing_timestamp :: Timestamp
  iss_signing_address :: PostalAddress
  iss_signer_identity_proof :: BillSignerIdentityProofBlockdata

record BillAcceptBlockData =
  acc_accepter :: BillIdentParticipantBlockData
  acc_signatory :: "BillSignatoryBlockData option"
  acc_signing_timestamp :: Timestamp
  acc_signing_address :: PostalAddress
  acc_signer_identity_proof :: BillSignerIdentityProofBlockdata

record BillRequestToPayBlockData =
  rtp_requester :: BillParticipantBlockData
  rtp_payment_data :: BillPaymentBlockData
  rtp_signatory :: "BillSignatoryBlockData option"
  rtp_signing_timestamp :: Timestamp
  rtp_signing_address :: "PostalAddress option"
  rtp_signer_identity_proof :: "BillSignerIdentityProofBlockdata option"

record BillRequestToAcceptBlockData =
  rta_requester :: BillParticipantBlockData
  rta_signatory :: "BillSignatoryBlockData option"
  rta_signing_timestamp :: Timestamp
  rta_signing_address :: "PostalAddress option"
  rta_signer_identity_proof :: "BillSignerIdentityProofBlockdata option"
  rta_acceptance_deadline_timestamp :: Timestamp

record BillMintBlockData =
  mnt_endorser :: BillParticipantBlockData
  mnt_endorsee :: BillParticipantBlockData
  mnt_sum :: Sum
  mnt_signatory :: "BillSignatoryBlockData option"
  mnt_signing_timestamp :: Timestamp
  mnt_signing_address :: "PostalAddress option"
  mnt_signer_identity_proof :: "BillSignerIdentityProofBlockdata option"

record BillOfferToSellBlockData =
  ots_seller :: BillParticipantBlockData
  ots_buyer :: BillParticipantBlockData
  ots_payment_data :: BillPaymentBlockData
  ots_signatory :: "BillSignatoryBlockData option"
  ots_signing_timestamp :: Timestamp
  ots_signing_address :: "PostalAddress option"
  ots_signer_identity_proof :: "BillSignerIdentityProofBlockdata option"

record BillSellBlockData =
  sel_seller :: BillParticipantBlockData
  sel_buyer :: BillParticipantBlockData
  sel_signatory :: "BillSignatoryBlockData option"
  sel_signing_timestamp :: Timestamp
  sel_signing_address :: "PostalAddress option"
  sel_signer_identity_proof :: "BillSignerIdentityProofBlockdata option"

record BillEndorseBlockData =
  end_endorser :: BillParticipantBlockData
  end_endorsee :: BillParticipantBlockData
  end_signatory :: "BillSignatoryBlockData option"
  end_signing_timestamp :: Timestamp
  end_signing_address :: "PostalAddress option"
  end_signer_identity_proof :: "BillSignerIdentityProofBlockdata option"

record BillRequestRecourseBlockData =
  rrc_recourser :: BillParticipantBlockData
  rrc_recoursee :: BillIdentParticipantBlockData
  rrc_payment_data :: BillPaymentBlockData
  rrc_recourse_reason :: BillRecourseReasonBlockData
  rrc_signatory :: "BillSignatoryBlockData option"
  rrc_signing_timestamp :: Timestamp
  rrc_signing_address :: "PostalAddress option"
  rrc_signer_identity_proof :: "BillSignerIdentityProofBlockdata option"

record BillRecourseBlockData =
  rec_recourser :: BillParticipantBlockData
  rec_recoursee :: BillIdentParticipantBlockData
  rec_signatory :: "BillSignatoryBlockData option"
  rec_signing_timestamp :: Timestamp
  rec_signing_address :: "PostalAddress option"
  rec_signer_identity_proof :: "BillSignerIdentityProofBlockdata option"

record HolderFromBlock =
  hfb_holder :: BillParticipantBlockData
  hfb_signer :: BillParticipantBlockData
  hfb_signatory :: "BillSignatoryBlockData option"

record BitcreditBill =
  bb_id :: BillId
  bb_country_of_issuing :: Country
  bb_city_of_issuing :: City
  bb_drawee :: BillIdentParticipant
  bb_drawer :: BillIdentParticipant
  bb_payee :: BillParticipant
  bb_endorsee :: "BillParticipant option"
  bb_sum :: Sum
  bb_maturity_date :: Date
  bb_issue_date :: Date
  bb_country_of_payment :: Country
  bb_city_of_payment :: City
  bb_files :: "File list"

definition issue_block_data_from ::
  "BitcreditBill \<Rightarrow> BillSignatoryBlockData option \<Rightarrow> Timestamp
     \<Rightarrow> SignedIdentityProof \<times> EmailIdentityProofData \<Rightarrow> BillIssueBlockData" where
  "issue_block_data_from v signatory timestamp identity_proof =
     \<lparr>iss_id = bb_id v,
      iss_country_of_issuing = bb_country_of_issuing v,
      iss_city_of_issuing = bb_city_of_issuing v,
      iss_drawee = ident_block_data (bb_drawee v),
      iss_drawer = ident_block_data (bb_drawer v),
      iss_payee = participant_block_data (bb_payee v),
      iss_sum = bb_sum v,
      iss_maturity_date = bb_maturity_date v,
      iss_issue_date = bb_issue_date v,
      iss_country_of_payment = bb_country_of_payment v,
      iss_city_of_payment = bb_city_of_payment v,
      iss_files = bb_files v,
      iss_signatory = signatory,
      iss_signing_timestamp = timestamp,
      iss_signing_address = bip_postal_address (bb_drawer v),
      iss_signer_identity_proof = identity_proof_block_data identity_proof\<rparr>"

section \<open>\<^verbatim>\<open>Validate\<close> for the block payloads\<close>

definition validate_issue_data :: "BillIssueBlockData \<Rightarrow> (unit, ProtocolValidationError) result" where
  "validate_issue_data d =
     (if bipd_node_id (iss_drawee d) = bpd_node_id (iss_payee d) then Err DraweeCantBePayee else Ok ())"

definition validate_request_to_pay_data ::
  "Ext \<Rightarrow> BillRequestToPayBlockData \<Rightarrow> (unit, ProtocolValidationError) result" where
  "validate_request_to_pay_data X d =
     and_then (deadline_is_at_or_after_end_of_day_of X
        (timestamp_add (rtp_signing_timestamp d) PAYMENT_DEADLINE_SECONDS)
        (pay_payment_deadline (rtp_payment_data d))) (\<lambda>ok.
     if \<not> ok then Err DeadlineBeforeMinimum else Ok ())"

definition validate_request_to_accept_data ::
  "Ext \<Rightarrow> BillRequestToAcceptBlockData \<Rightarrow> (unit, ProtocolValidationError) result" where
  "validate_request_to_accept_data X d =
     and_then (deadline_is_at_or_after_end_of_day_of X
        (timestamp_add (rta_signing_timestamp d) ACCEPT_DEADLINE_SECONDS)
        (rta_acceptance_deadline_timestamp d)) (\<lambda>ok.
     if \<not> ok then Err DeadlineBeforeMinimum else Ok ())"

definition validate_mint_data :: "BillMintBlockData \<Rightarrow> (unit, ProtocolValidationError) result" where
  "validate_mint_data d =
     (if bpd_node_id (mnt_endorsee d) = bpd_node_id (mnt_endorser d) then Err EndorserCantBeEndorsee
      else Ok ())"

definition validate_offer_to_sell_data ::
  "Ext \<Rightarrow> BillOfferToSellBlockData \<Rightarrow> (unit, ProtocolValidationError) result" where
  "validate_offer_to_sell_data X d =
     (if bpd_node_id (ots_buyer d) = bpd_node_id (ots_seller d) then Err BuyerCantBeSeller
      else and_then (deadline_is_at_or_after_end_of_day_of X (ots_signing_timestamp d)
             (pay_payment_deadline (ots_payment_data d))) (\<lambda>ok.
           if \<not> ok then Err DeadlineBeforeMinimum else Ok ()))"

definition validate_sell_data :: "BillSellBlockData \<Rightarrow> (unit, ProtocolValidationError) result" where
  "validate_sell_data d =
     (if bpd_node_id (sel_buyer d) = bpd_node_id (sel_seller d) then Err BuyerCantBeSeller else Ok ())"

definition validate_endorse_data :: "BillEndorseBlockData \<Rightarrow> (unit, ProtocolValidationError) result" where
  "validate_endorse_data d =
     (if bpd_node_id (end_endorsee d) = bpd_node_id (end_endorser d) then Err EndorserCantBeEndorsee
      else Ok ())"

definition validate_request_recourse_data ::
  "Ext \<Rightarrow> BillRequestRecourseBlockData \<Rightarrow> (unit, ProtocolValidationError) result" where
  "validate_request_recourse_data X d =
     (if bipd_node_id (rrc_recoursee d) = bpd_node_id (rrc_recourser d) then Err RecourserCantBeRecoursee
      else and_then (deadline_is_at_or_after_end_of_day_of X
             (timestamp_add (rrc_signing_timestamp d) RECOURSE_DEADLINE_SECONDS)
             (pay_payment_deadline (rrc_payment_data d))) (\<lambda>ok.
           if \<not> ok then Err DeadlineBeforeMinimum else Ok ()))"

definition validate_recourse_data :: "BillRecourseBlockData \<Rightarrow> (unit, ProtocolValidationError) result" where
  "validate_recourse_data d =
     (if bipd_node_id (rec_recoursee d) = bpd_node_id (rec_recourser d) then Err RecourserCantBeRecoursee
      else Ok ())"

section \<open>Facts\<close>

lemma node_id_conversions [simp]:
  "bp_node_id (participant_from_block_data p) = bpd_node_id p"
  "bpd_node_id (participant_block_data q) = bp_node_id q"
  "bp_node_id (as_anon q) = bp_node_id q"
  "bip_node_id (ident_from_block_data v) = bipd_node_id v"
  "bipd_node_id (ident_block_data w) = bip_node_id w"
  "bpd_node_id (Ident v) = bipd_node_id v"
  "bpd_node_id (Anon u) = bapd_node_id u"
  by (simp_all add: bp_node_id_def bpd_node_id_def participant_from_block_data_def
      participant_block_data_def as_anon_def anon_from_ident_def ident_from_block_data_def
      ident_block_data_def anon_block_data_def
      split: BillParticipant.splits BillParticipantBlockData.splits)

lemma block_data_round_trip [simp]:
  "participant_block_data (participant_from_block_data p) = p"
  by (simp add: participant_block_data_def participant_from_block_data_def ident_block_data_def
      ident_from_block_data_def anon_block_data_def split: BillParticipantBlockData.splits)

lemma identity_proof_round_trip [simp]:
  "identity_proof_from_block_data (identity_proof_block_data (proof, data)) = (proof, data)"
  "identity_proof_block_data (identity_proof_from_block_data b) = b"
  by (simp_all add: identity_proof_block_data_def identity_proof_from_block_data_def)

text \<open>
  The deadline of a request: at least the end of the day that lies two days after signing. All
  three requests with a deadline share the bound.
\<close>

lemma uint_timestamp_add:
  assumes "uint (ts_inner ts) + uint n < 2 ^ 64"
  shows "uint (ts_inner (timestamp_add ts n)) = uint (ts_inner ts) + uint n"
proof -
  have "int (unat (ts_inner ts) + unat n) < int (2 ^ 64)"
    using assms by simp
  then have "unat (ts_inner ts) + unat n < 2 ^ 64" by (simp only: of_nat_less_iff)
  then have "unat (saturating_add (ts_inner ts) n) = unat (ts_inner ts) + unat n"
    by (simp add: unat_saturating_add)
  then have "int (unat (saturating_add (ts_inner ts) n)) = int (unat (ts_inner ts)) + int (unat n)"
    by simp
  then show ?thesis by (simp add: timestamp_add_def)
qed

lemma deadline_check_iff:
  assumes laws: "calendar_laws X" and v: "uint (ts_inner ts) \<le> max_unix"
  shows "deadline_is_at_or_after_end_of_day_of X ts deadline =
         Ok (86400 * (uint (ts_inner ts) div 86400) + 86399 \<le> uint (ts_inner deadline))"
proof -
  let ?e = "86400 * (uint (ts_inner ts) div 86400) + 86399"
  have "0 \<le> uint (ts_inner ts) div 86400" by (simp add: div_int_pos_iff)
  then have "0 \<le> ?e" by linarith
  moreover have "?e < 2 ^ 64"
  proof -
    have "86400 * (uint (ts_inner ts) div 86400) \<le> uint (ts_inner ts)" by simp
    then show ?thesis using v by (simp add: max_unix_def)
  qed
  ultimately have "uint (word_of_int ?e :: u64) = ?e"
    unfolding uint_word_of_int by (intro mod_pos_pos_trivial) simp_all
  then show ?thesis
    by (simp add: deadline_is_at_or_after_end_of_day_of_def end_of_day_value [OF laws v]
        less_eq_Timestamp_def word_le_def)
qed

end
