(* ===== verification/Bill_Block.thy ===== *)
theory Bill_Block
  imports Bill_Types
begin

text \<open>
  \<^verbatim>\<open>BillBlock\<close> (\<^verbatim>\<open>blockchain/bill/block.rs\<close>): the implementation of \<^verbatim>\<open>Block\<close>, the creation of a signed
  and encrypted block for every bill operation, decryption, and what the code reads out of a block
  (nodes, beneficiaries, history entry, new holder, signer and action). The borsh encodings of the
  payload types are fields of \<open>BillEnv\<close>, which also carries the third-party code \<open>Ext\<close>.
\<close>

section \<open>Blocks\<close>

record BillBlock =
  bbl_bill_id :: BillId
  bbl_id :: BlockId
  bbl_plaintext_hash :: Sha256Hash
  bbl_hash :: Sha256Hash
  bbl_previous_hash :: Sha256Hash
  bbl_timestamp :: Timestamp
  bbl_data :: bytes
  bbl_public_key :: PublicKey
  bbl_signature :: SchnorrSignature
  bbl_op_code :: BillOpCode

record BillBlockDataToHash =
  bdh_bill_id :: BillId
  bdh_id :: BlockId
  bdh_plaintext_hash :: Sha256Hash
  bdh_previous_hash :: Sha256Hash
  bdh_data :: bytes
  bdh_timestamp :: Timestamp
  bdh_public_key :: PublicKey
  bdh_op_code :: BillOpCode

text \<open>The wrapper \<^verbatim>\<open>BillBlockData\<close>: the encrypted payload, and the bill key encrypted for a new holder.\<close>

record BillBlockData =
  bbd_data :: bytes
  bbd_key :: "string option"

record BillEnv =
  env_ext :: Ext
  c_issue :: "BillIssueBlockData Codec"
  c_endorse :: "BillEndorseBlockData Codec"
  c_mint :: "BillMintBlockData Codec"
  c_request_to_accept :: "BillRequestToAcceptBlockData Codec"
  c_accept :: "BillAcceptBlockData Codec"
  c_request_to_pay :: "BillRequestToPayBlockData Codec"
  c_offer_to_sell :: "BillOfferToSellBlockData Codec"
  c_sell :: "BillSellBlockData Codec"
  c_reject :: "BillRejectBlockData Codec"
  c_reject_to_buy :: "BillRejectToBuyBlockData Codec"
  c_request_recourse :: "BillRequestRecourseBlockData Codec"
  c_recourse :: "BillRecourseBlockData Codec"
  c_block_data :: "BillBlockData Codec"
  c_data_to_hash :: "BillBlockDataToHash Codec"

definition get_block_data_to_hash :: "BillBlock \<Rightarrow> BillBlockDataToHash" where
  "get_block_data_to_hash b =
     \<lparr>bdh_bill_id = bbl_bill_id b, bdh_id = bbl_id b, bdh_plaintext_hash = bbl_plaintext_hash b,
      bdh_previous_hash = bbl_previous_hash b, bdh_data = bbl_data b, bdh_timestamp = bbl_timestamp b,
      bdh_public_key = bbl_public_key b, bdh_op_code = bbl_op_code b\<rparr>"

text \<open>\<^verbatim>\<open>impl Block for BillBlock\<close>; its \<^verbatim>\<open>validate\<close> is constantly true.\<close>

definition bill_ops :: "BillEnv \<Rightarrow> (BillBlock, BillOpCode, BillBlockDataToHash) BlockOps" where
  "bill_ops E =
     \<lparr>blk_id = bbl_id, blk_timestamp = bbl_timestamp, blk_op_code = bbl_op_code,
      blk_plaintext_hash = bbl_plaintext_hash, blk_hash = bbl_hash,
      blk_previous_hash = bbl_previous_hash, blk_data = bbl_data, blk_signature = bbl_signature,
      blk_public_key = bbl_public_key, blk_validate = (\<lambda>_. True),
      blk_data_to_hash = get_block_data_to_hash, blk_hash_codec = c_data_to_hash E\<rparr>"

definition validate_plaintext_hash :: "BillEnv \<Rightarrow> BillBlock \<Rightarrow> SecretKey \<Rightarrow> bool" where
  "validate_plaintext_hash E b private_key =
     (case from_slice (c_block_data E) (bbl_data b) of
        Inr data_wrapper \<Rightarrow>
          (case decrypt_ecies (env_ext E) (bbd_data data_wrapper) private_key of
             Ok decrypted \<Rightarrow> bbl_plaintext_hash b = hash_from_bytes (env_ext E) decrypted
           | _ \<Rightarrow> False)
      | Inl _ \<Rightarrow> False)"

section \<open>Creating blocks\<close>

text \<open>The keys in the order identity, company, bill.\<close>

definition signing_keys :: "Ext \<Rightarrow> BcrKeys \<Rightarrow> BcrKeys option \<Rightarrow> BcrKeys \<Rightarrow> SecretKey list" where
  "signing_keys X identity_keys company_keys bill_keys =
     [get_private_key X identity_keys]
     @ (case company_keys of Some k \<Rightarrow> [get_private_key X k] | None \<Rightarrow> [])
     @ [get_private_key X bill_keys]"

definition bill_block_new ::
  "BillEnv \<Rightarrow> BillId \<Rightarrow> BlockId \<Rightarrow> Sha256Hash \<Rightarrow> bytes \<Rightarrow> BillOpCode \<Rightarrow> BcrKeys \<Rightarrow> BcrKeys option
     \<Rightarrow> BcrKeys \<Rightarrow> Timestamp \<Rightarrow> Sha256Hash \<Rightarrow> (BillBlock, BlockchainError) result" where
  "bill_block_new E bill_id i previous_hash data op_code identity_keys company_keys bill_keys
       timestamp plaintext_hash =
     (let X = env_ext E; keys = signing_keys X identity_keys company_keys bill_keys in
      and_then (map_err Secp256k1Cryptography (get_aggregated_public_key X keys)) (\<lambda>aggregated.
      and_then (calculate_hash X (c_data_to_hash E)
        \<lparr>bdh_bill_id = bill_id, bdh_id = i, bdh_plaintext_hash = plaintext_hash,
         bdh_previous_hash = previous_hash, bdh_data = data, bdh_timestamp = timestamp,
         bdh_public_key = aggregated, bdh_op_code = op_code\<rparr>) (\<lambda>hash.
      and_then (map_err Secp256k1Cryptography (sign_aggregated X hash keys)) (\<lambda>signature.
      Ok \<lparr>bbl_bill_id = bill_id, bbl_id = i, bbl_plaintext_hash = plaintext_hash, bbl_hash = hash,
          bbl_previous_hash = previous_hash, bbl_timestamp = timestamp, bbl_data = data,
          bbl_public_key = aggregated, bbl_signature = signature, bbl_op_code = op_code\<rparr>))))"

definition create_block_for_issue ::
  "BillEnv \<Rightarrow> BillId \<Rightarrow> Sha256Hash \<Rightarrow> BillIssueBlockData \<Rightarrow> BcrKeys \<Rightarrow> BcrKeys option \<Rightarrow> BcrKeys
     \<Rightarrow> Timestamp \<Rightarrow> (BillBlock, BlockchainError) result" where
  "create_block_for_issue E bill_id genesis_hash bill drawer_keys drawer_company_keys bill_keys timestamp =
     (let X = env_ext E in
      and_then (calculate_plaintext_hash X (c_issue E) bill) (\<lambda>plaintext_hash.
      and_then (from_ext Io (to_vec (x_string_codec X) (get_private_key_string X bill_keys))) (\<lambda>key_bytes.
      and_then (map_err Secp256k1Cryptography
        (case drawer_company_keys of
           None \<Rightarrow> encrypt_ecies X key_bytes (pub_key X drawer_keys)
         | Some company_keys \<Rightarrow> encrypt_ecies X key_bytes (pub_key X company_keys))) (\<lambda>encrypted_key.
      and_then (from_ext Io (to_vec (c_issue E) bill)) (\<lambda>issue_data_bytes.
      and_then (map_err Secp256k1Cryptography
        (encrypt_ecies X issue_data_bytes (pub_key X bill_keys))) (\<lambda>encrypted_data.
      and_then (from_ext Io (to_vec (c_block_data E)
        \<lparr>bbd_data = encrypted_data, bbd_key = Some (x_base58_encode X encrypted_key)\<rparr>)) (\<lambda>serialized_data.
      bill_block_new E bill_id bid_first genesis_hash serialized_data Issue drawer_keys
        drawer_company_keys bill_keys timestamp plaintext_hash)))))))"

definition encrypt_data_create_block_and_validate ::
  "BillEnv \<Rightarrow> 't Codec \<Rightarrow> BillId \<Rightarrow> BillBlock \<Rightarrow> 't \<Rightarrow> BcrKeys \<Rightarrow> BcrKeys option \<Rightarrow> BcrKeys
     \<Rightarrow> PublicKey option \<Rightarrow> Timestamp \<Rightarrow> BillOpCode \<Rightarrow> (BillBlock, BlockchainError) result" where
  "encrypt_data_create_block_and_validate E C bill_id previous_block data identity_keys company_keys
       bill_keys public_key_for_keys timestamp op_code =
     (let X = env_ext E in
      and_then (from_ext Io (to_vec C data)) (\<lambda>bs.
      and_then (calculate_plaintext_hash X C data) (\<lambda>plaintext_hash.
      and_then (map_err Secp256k1Cryptography (encrypt_ecies X bs (pub_key X bill_keys))) (\<lambda>encrypted_data.
      and_then
        (case public_key_for_keys of
           Some new_holder_public_key \<Rightarrow>
             if op_code = Endorse \<or> op_code = Sell \<or> op_code = Mint then
               and_then (from_ext Io (to_vec (x_string_codec X) (get_private_key_string X bill_keys))) (\<lambda>key_bytes.
               and_then (map_err Secp256k1Cryptography (encrypt_ecies X key_bytes new_holder_public_key)) (\<lambda>ek.
               Ok (Some (x_base58_encode X ek))))
             else Ok None
         | None \<Rightarrow> Ok None) (\<lambda>key.
      and_then (from_ext Io (to_vec (c_block_data E) \<lparr>bbd_data = encrypted_data, bbd_key = key\<rparr>)) (\<lambda>serialized_data.
      and_then (bill_block_new E bill_id (next_from_previous_block_id (bbl_id previous_block))
        (bbl_hash previous_block) serialized_data op_code identity_keys company_keys bill_keys
        timestamp plaintext_hash) (\<lambda>new_block.
      and_then (validate_with_previous (bill_ops E) X new_block previous_block) (\<lambda>ok.
      if \<not> ok then Err BlockInvalid else Ok new_block))))))))"

definition create_block_for_reject_to_accept ::
  "BillEnv \<Rightarrow> BillId \<Rightarrow> BillBlock \<Rightarrow> BillRejectBlockData \<Rightarrow> BcrKeys \<Rightarrow> BcrKeys option \<Rightarrow> BcrKeys
     \<Rightarrow> Timestamp \<Rightarrow> (BillBlock, BlockchainError) result" where
  "create_block_for_reject_to_accept E bill_id previous_block data identity_keys company_keys bill_keys timestamp =
     encrypt_data_create_block_and_validate E (c_reject E) bill_id previous_block data identity_keys
       company_keys bill_keys None timestamp RejectToAccept"

definition create_block_for_reject_to_pay ::
  "BillEnv \<Rightarrow> BillId \<Rightarrow> BillBlock \<Rightarrow> BillRejectBlockData \<Rightarrow> BcrKeys \<Rightarrow> BcrKeys option \<Rightarrow> BcrKeys
     \<Rightarrow> Timestamp \<Rightarrow> (BillBlock, BlockchainError) result" where
  "create_block_for_reject_to_pay E bill_id previous_block data identity_keys company_keys bill_keys timestamp =
     encrypt_data_create_block_and_validate E (c_reject E) bill_id previous_block data identity_keys
       company_keys bill_keys None timestamp RejectToPay"

definition create_block_for_reject_to_buy ::
  "BillEnv \<Rightarrow> BillId \<Rightarrow> BillBlock \<Rightarrow> BillRejectToBuyBlockData \<Rightarrow> BcrKeys \<Rightarrow> BcrKeys option \<Rightarrow> BcrKeys
     \<Rightarrow> Timestamp \<Rightarrow> (BillBlock, BlockchainError) result" where
  "create_block_for_reject_to_buy E bill_id previous_block data identity_keys company_keys bill_keys timestamp =
     encrypt_data_create_block_and_validate E (c_reject_to_buy E) bill_id previous_block data identity_keys
       company_keys bill_keys None timestamp RejectToBuy"

definition create_block_for_reject_to_pay_recourse ::
  "BillEnv \<Rightarrow> BillId \<Rightarrow> BillBlock \<Rightarrow> BillRejectBlockData \<Rightarrow> BcrKeys \<Rightarrow> BcrKeys option \<Rightarrow> BcrKeys
     \<Rightarrow> Timestamp \<Rightarrow> (BillBlock, BlockchainError) result" where
  "create_block_for_reject_to_pay_recourse E bill_id previous_block data identity_keys company_keys bill_keys timestamp =
     encrypt_data_create_block_and_validate E (c_reject E) bill_id previous_block data identity_keys
       company_keys bill_keys None timestamp RejectToPayRecourse"

definition create_block_for_request_recourse ::
  "BillEnv \<Rightarrow> BillId \<Rightarrow> BillBlock \<Rightarrow> BillRequestRecourseBlockData \<Rightarrow> BcrKeys \<Rightarrow> BcrKeys option \<Rightarrow> BcrKeys
     \<Rightarrow> Timestamp \<Rightarrow> (BillBlock, BlockchainError) result" where
  "create_block_for_request_recourse E bill_id previous_block data identity_keys company_keys bill_keys timestamp =
     encrypt_data_create_block_and_validate E (c_request_recourse E) bill_id previous_block data identity_keys
       company_keys bill_keys None timestamp RequestRecourse"

definition create_block_for_recourse ::
  "BillEnv \<Rightarrow> BillId \<Rightarrow> BillBlock \<Rightarrow> BillRecourseBlockData \<Rightarrow> BcrKeys \<Rightarrow> BcrKeys option \<Rightarrow> BcrKeys
     \<Rightarrow> Timestamp \<Rightarrow> (BillBlock, BlockchainError) result" where
  "create_block_for_recourse E bill_id previous_block data identity_keys company_keys bill_keys timestamp =
     encrypt_data_create_block_and_validate E (c_recourse E) bill_id previous_block data identity_keys
       company_keys bill_keys None timestamp Recourse"

definition create_block_for_accept ::
  "BillEnv \<Rightarrow> BillId \<Rightarrow> BillBlock \<Rightarrow> BillAcceptBlockData \<Rightarrow> BcrKeys \<Rightarrow> BcrKeys option \<Rightarrow> BcrKeys
     \<Rightarrow> Timestamp \<Rightarrow> (BillBlock, BlockchainError) result" where
  "create_block_for_accept E bill_id previous_block data identity_keys company_keys bill_keys timestamp =
     encrypt_data_create_block_and_validate E (c_accept E) bill_id previous_block data identity_keys
       company_keys bill_keys None timestamp Accept"

definition create_block_for_request_to_pay ::
  "BillEnv \<Rightarrow> BillId \<Rightarrow> BillBlock \<Rightarrow> BillRequestToPayBlockData \<Rightarrow> BcrKeys \<Rightarrow> BcrKeys option \<Rightarrow> BcrKeys
     \<Rightarrow> Timestamp \<Rightarrow> (BillBlock, BlockchainError) result" where
  "create_block_for_request_to_pay E bill_id previous_block data identity_keys company_keys bill_keys timestamp =
     encrypt_data_create_block_and_validate E (c_request_to_pay E) bill_id previous_block data identity_keys
       company_keys bill_keys None timestamp RequestToPay"

definition create_block_for_request_to_accept ::
  "BillEnv \<Rightarrow> BillId \<Rightarrow> BillBlock \<Rightarrow> BillRequestToAcceptBlockData \<Rightarrow> BcrKeys \<Rightarrow> BcrKeys option \<Rightarrow> BcrKeys
     \<Rightarrow> Timestamp \<Rightarrow> (BillBlock, BlockchainError) result" where
  "create_block_for_request_to_accept E bill_id previous_block data identity_keys company_keys bill_keys timestamp =
     encrypt_data_create_block_and_validate E (c_request_to_accept E) bill_id previous_block data identity_keys
       company_keys bill_keys None timestamp RequestToAccept"

definition create_block_for_mint ::
  "BillEnv \<Rightarrow> BillId \<Rightarrow> BillBlock \<Rightarrow> BillMintBlockData \<Rightarrow> BcrKeys \<Rightarrow> BcrKeys option \<Rightarrow> BcrKeys
     \<Rightarrow> Timestamp \<Rightarrow> (BillBlock, BlockchainError) result" where
  "create_block_for_mint E bill_id previous_block data identity_keys company_keys bill_keys timestamp =
     encrypt_data_create_block_and_validate E (c_mint E) bill_id previous_block data identity_keys
       company_keys bill_keys (Some (x_node_pub_key (env_ext E) (bpd_node_id (mnt_endorsee data)))) timestamp Mint"

definition create_block_for_offer_to_sell ::
  "BillEnv \<Rightarrow> BillId \<Rightarrow> BillBlock \<Rightarrow> BillOfferToSellBlockData \<Rightarrow> BcrKeys \<Rightarrow> BcrKeys option \<Rightarrow> BcrKeys
     \<Rightarrow> Timestamp \<Rightarrow> (BillBlock, BlockchainError) result" where
  "create_block_for_offer_to_sell E bill_id previous_block data identity_keys company_keys bill_keys timestamp =
     encrypt_data_create_block_and_validate E (c_offer_to_sell E) bill_id previous_block data identity_keys
       company_keys bill_keys None timestamp OfferToSell"

definition create_block_for_sell ::
  "BillEnv \<Rightarrow> BillId \<Rightarrow> BillBlock \<Rightarrow> BillSellBlockData \<Rightarrow> BcrKeys \<Rightarrow> BcrKeys option \<Rightarrow> BcrKeys
     \<Rightarrow> Timestamp \<Rightarrow> (BillBlock, BlockchainError) result" where
  "create_block_for_sell E bill_id previous_block data identity_keys company_keys bill_keys timestamp =
     encrypt_data_create_block_and_validate E (c_sell E) bill_id previous_block data identity_keys
       company_keys bill_keys (Some (x_node_pub_key (env_ext E) (bpd_node_id (sel_buyer data)))) timestamp Sell"

definition create_block_for_endorse ::
  "BillEnv \<Rightarrow> BillId \<Rightarrow> BillBlock \<Rightarrow> BillEndorseBlockData \<Rightarrow> BcrKeys \<Rightarrow> BcrKeys option \<Rightarrow> BcrKeys
     \<Rightarrow> Timestamp \<Rightarrow> (BillBlock, BlockchainError) result" where
  "create_block_for_endorse E bill_id previous_block data identity_keys company_keys bill_keys timestamp =
     encrypt_data_create_block_and_validate E (c_endorse E) bill_id previous_block data identity_keys
       company_keys bill_keys (Some (x_node_pub_key (env_ext E) (bpd_node_id (end_endorsee data)))) timestamp Endorse"

section \<open>Decrypting blocks\<close>

definition get_decrypted_block_bytes :: "BillEnv \<Rightarrow> BillBlock \<Rightarrow> BcrKeys \<Rightarrow> (bytes, BlockchainError) result" where
  "get_decrypted_block_bytes E b bill_keys =
     and_then (from_ext Io (from_slice (c_block_data E) (bbl_data b))) (\<lambda>block_data.
     map_err Secp256k1Cryptography
       (decrypt_ecies (env_ext E) (bbd_data block_data) (get_private_key (env_ext E) bill_keys)))"

text \<open>\<^verbatim>\<open>get_decrypted_block::<T>\<close>; the codec stands for the type argument.\<close>

definition get_decrypted_block ::
  "BillEnv \<Rightarrow> 't Codec \<Rightarrow> BillBlock \<Rightarrow> BcrKeys \<Rightarrow> ('t, BlockchainError) result" where
  "get_decrypted_block E C b bill_keys =
     and_then (get_decrypted_block_bytes E b bill_keys) (\<lambda>decrypted_bytes.
     from_ext Io (from_slice C decrypted_bytes))"

section \<open>Reading blocks\<close>

text \<open>The set of nodes, in the order of the hash set.\<close>

definition get_nodes_from_block :: "BillEnv \<Rightarrow> BillBlock \<Rightarrow> BcrKeys \<Rightarrow> (NodeId list, BlockchainError) result" where
  "get_nodes_from_block E b bill_keys =
     and_then
      (case bbl_op_code b of
        Issue \<Rightarrow> and_then (get_decrypted_block E (c_issue E) b bill_keys) (\<lambda>d.
          Ok (hs_insert (bipd_node_id (iss_drawee d)) (hs_insert (bpd_node_id (iss_payee d))
               (hs_insert (bipd_node_id (iss_drawer d)) []))))
      | Endorse \<Rightarrow> and_then (get_decrypted_block E (c_endorse E) b bill_keys) (\<lambda>d.
          Ok (hs_insert (bpd_node_id (end_endorser d)) (hs_insert (bpd_node_id (end_endorsee d)) [])))
      | Mint \<Rightarrow> and_then (get_decrypted_block E (c_mint E) b bill_keys) (\<lambda>d.
          Ok (hs_insert (bpd_node_id (mnt_endorser d)) (hs_insert (bpd_node_id (mnt_endorsee d)) [])))
      | RequestToAccept \<Rightarrow> and_then (get_decrypted_block E (c_request_to_accept E) b bill_keys) (\<lambda>d.
          Ok (hs_insert (bpd_node_id (rta_requester d)) []))
      | Accept \<Rightarrow> and_then (get_decrypted_block E (c_accept E) b bill_keys) (\<lambda>d.
          Ok (hs_insert (bipd_node_id (acc_accepter d)) []))
      | RequestToPay \<Rightarrow> and_then (get_decrypted_block E (c_request_to_pay E) b bill_keys) (\<lambda>d.
          Ok (hs_insert (bpd_node_id (rtp_requester d)) []))
      | OfferToSell \<Rightarrow> and_then (get_decrypted_block E (c_offer_to_sell E) b bill_keys) (\<lambda>d.
          Ok (hs_insert (bpd_node_id (ots_seller d)) (hs_insert (bpd_node_id (ots_buyer d)) [])))
      | Sell \<Rightarrow> and_then (get_decrypted_block E (c_sell E) b bill_keys) (\<lambda>d.
          Ok (hs_insert (bpd_node_id (sel_seller d)) (hs_insert (bpd_node_id (sel_buyer d)) [])))
      | RejectToAccept \<Rightarrow> and_then (get_decrypted_block E (c_reject E) b bill_keys) (\<lambda>d.
          Ok (hs_insert (bipd_node_id (rej_rejecter d)) []))
      | RejectToPay \<Rightarrow> and_then (get_decrypted_block E (c_reject E) b bill_keys) (\<lambda>d.
          Ok (hs_insert (bipd_node_id (rej_rejecter d)) []))
      | RejectToPayRecourse \<Rightarrow> and_then (get_decrypted_block E (c_reject E) b bill_keys) (\<lambda>d.
          Ok (hs_insert (bipd_node_id (rej_rejecter d)) []))
      | RejectToBuy \<Rightarrow> and_then (get_decrypted_block E (c_reject_to_buy E) b bill_keys) (\<lambda>d.
          Ok (hs_insert (bpd_node_id (rjb_rejecter d)) []))
      | RequestRecourse \<Rightarrow> and_then (get_decrypted_block E (c_request_recourse E) b bill_keys) (\<lambda>d.
          Ok (hs_insert (bipd_node_id (rrc_recoursee d)) (hs_insert (bpd_node_id (rrc_recourser d)) [])))
      | Recourse \<Rightarrow> and_then (get_decrypted_block E (c_recourse E) b bill_keys) (\<lambda>d.
          Ok (hs_insert (bipd_node_id (rec_recoursee d)) (hs_insert (bpd_node_id (rec_recourser d)) []))))
      (\<lambda>nodes. Ok (x_hash_order (env_ext E) nodes))"

definition get_beneficiary_from_block ::
  "BillEnv \<Rightarrow> BillBlock \<Rightarrow> BcrKeys \<Rightarrow> (NodeId option, BlockchainError) result" where
  "get_beneficiary_from_block E b bill_keys =
     (case bbl_op_code b of
        Sell \<Rightarrow> and_then (get_decrypted_block E (c_sell E) b bill_keys) (\<lambda>d.
          Ok (Some (bpd_node_id (sel_seller d))))
      | Recourse \<Rightarrow> and_then (get_decrypted_block E (c_recourse E) b bill_keys) (\<lambda>d.
          Ok (Some (bpd_node_id (rec_recourser d))))
      | _ \<Rightarrow> Ok None)"

definition get_beneficiary_from_request_funds_block ::
  "BillEnv \<Rightarrow> BillBlock \<Rightarrow> BcrKeys \<Rightarrow> (NodeId option, BlockchainError) result" where
  "get_beneficiary_from_request_funds_block E b bill_keys =
     (case bbl_op_code b of
        OfferToSell \<Rightarrow> and_then (get_decrypted_block E (c_offer_to_sell E) b bill_keys) (\<lambda>d.
          Ok (Some (bpd_node_id (ots_seller d))))
      | RequestRecourse \<Rightarrow> and_then (get_decrypted_block E (c_request_recourse E) b bill_keys) (\<lambda>d.
          Ok (Some (bpd_node_id (rrc_recourser d))))
      | RequestToPay \<Rightarrow> and_then (get_decrypted_block E (c_request_to_pay E) b bill_keys) (\<lambda>d.
          Ok (Some (bpd_node_id (rtp_requester d))))
      | _ \<Rightarrow> Ok None)"

record BillHistoryBlockPaymentData =
  bhp_sum :: Sum
  bhp_payment_address :: BitcoinAddress

definition history_payment_data :: "BillPaymentBlockData \<Rightarrow> BillHistoryBlockPaymentData" where
  "history_payment_data v = \<lparr>bhp_sum = pay_sum v, bhp_payment_address = pay_payment_address v\<rparr>"

record BillHistoryBlock =
  bhb_block_id :: BlockId
  bhb_block_type :: BillOpCode
  bhb_pay_to_the_order_of :: "BillParticipant option"
  bhb_payment_data :: "BillHistoryBlockPaymentData option"
  bhb_request_deadline :: "Timestamp option"
  bhb_signed :: SignedBy
  bhb_signing_timestamp :: Timestamp
  bhb_signing_address :: "PostalAddress option"

definition bill_history_block_new ::
  "BillBlock \<Rightarrow> BillParticipant option \<Rightarrow> BillHistoryBlockPaymentData option \<Rightarrow> Timestamp option
     \<Rightarrow> SignedBy \<Rightarrow> PostalAddress option \<Rightarrow> BillHistoryBlock" where
  "bill_history_block_new b pay_to payment_data request_deadline signer signing_address =
     \<lparr>bhb_block_id = bbl_id b, bhb_block_type = bbl_op_code b, bhb_pay_to_the_order_of = pay_to,
      bhb_payment_data = payment_data, bhb_request_deadline = request_deadline, bhb_signed = signer,
      bhb_signing_timestamp = bbl_timestamp b, bhb_signing_address = signing_address\<rparr>"

definition get_history_from_block ::
  "BillEnv \<Rightarrow> BillBlock \<Rightarrow> BcrKeys \<Rightarrow> (BillHistoryBlock, BlockchainError) result" where
  "get_history_from_block E b bill_keys =
     (case bbl_op_code b of
        Issue \<Rightarrow> and_then (get_decrypted_block E (c_issue E) b bill_keys) (\<lambda>d.
          Ok (bill_history_block_new b None None None
               (signed_by (Ident (iss_drawer d), iss_signatory d)) (Some (iss_signing_address d))))
      | Endorse \<Rightarrow> and_then (get_decrypted_block E (c_endorse E) b bill_keys) (\<lambda>d.
          Ok (bill_history_block_new b (Some (participant_from_block_data (end_endorsee d))) None None
               (signed_by (end_endorser d, end_signatory d)) (end_signing_address d)))
      | Mint \<Rightarrow> and_then (get_decrypted_block E (c_mint E) b bill_keys) (\<lambda>d.
          Ok (bill_history_block_new b (Some (participant_from_block_data (mnt_endorsee d))) None None
               (signed_by (mnt_endorser d, mnt_signatory d)) (mnt_signing_address d)))
      | RequestToAccept \<Rightarrow> and_then (get_decrypted_block E (c_request_to_accept E) b bill_keys) (\<lambda>d.
          Ok (bill_history_block_new b None None (Some (rta_acceptance_deadline_timestamp d))
               (signed_by (rta_requester d, rta_signatory d)) (rta_signing_address d)))
      | Accept \<Rightarrow> and_then (get_decrypted_block E (c_accept E) b bill_keys) (\<lambda>d.
          Ok (bill_history_block_new b None None None
               (signed_by (Ident (acc_accepter d), acc_signatory d)) (Some (acc_signing_address d))))
      | RequestToPay \<Rightarrow> and_then (get_decrypted_block E (c_request_to_pay E) b bill_keys) (\<lambda>d.
          Ok (bill_history_block_new b None (Some (history_payment_data (rtp_payment_data d)))
               (Some (pay_payment_deadline (rtp_payment_data d)))
               (signed_by (rtp_requester d, rtp_signatory d)) (rtp_signing_address d)))
      | OfferToSell \<Rightarrow> and_then (get_decrypted_block E (c_offer_to_sell E) b bill_keys) (\<lambda>d.
          Ok (bill_history_block_new b (Some (participant_from_block_data (ots_buyer d)))
               (Some (history_payment_data (ots_payment_data d)))
               (Some (pay_payment_deadline (ots_payment_data d)))
               (signed_by (ots_seller d, ots_signatory d)) (ots_signing_address d)))
      | Sell \<Rightarrow> and_then (get_decrypted_block E (c_sell E) b bill_keys) (\<lambda>d.
          Ok (bill_history_block_new b (Some (participant_from_block_data (sel_buyer d))) None None
               (signed_by (sel_seller d, sel_signatory d)) (sel_signing_address d)))
      | RejectToAccept \<Rightarrow> and_then (get_decrypted_block E (c_reject E) b bill_keys) (\<lambda>d.
          Ok (bill_history_block_new b None None None
               (signed_by (Ident (rej_rejecter d), rej_signatory d)) (Some (rej_signing_address d))))
      | RejectToPay \<Rightarrow> and_then (get_decrypted_block E (c_reject E) b bill_keys) (\<lambda>d.
          Ok (bill_history_block_new b None None None
               (signed_by (Ident (rej_rejecter d), rej_signatory d)) (Some (rej_signing_address d))))
      | RejectToPayRecourse \<Rightarrow> and_then (get_decrypted_block E (c_reject E) b bill_keys) (\<lambda>d.
          Ok (bill_history_block_new b None None None
               (signed_by (Ident (rej_rejecter d), rej_signatory d)) (Some (rej_signing_address d))))
      | RejectToBuy \<Rightarrow> and_then (get_decrypted_block E (c_reject_to_buy E) b bill_keys) (\<lambda>d.
          Ok (bill_history_block_new b None None None
               (signed_by (rjb_rejecter d, rjb_signatory d)) (rjb_signing_address d)))
      | RequestRecourse \<Rightarrow> and_then (get_decrypted_block E (c_request_recourse E) b bill_keys) (\<lambda>d.
          Ok (bill_history_block_new b (Some (participant_from_block_data (Ident (rrc_recoursee d))))
               (Some (history_payment_data (rrc_payment_data d)))
               (Some (pay_payment_deadline (rrc_payment_data d)))
               (signed_by (rrc_recourser d, rrc_signatory d)) (rrc_signing_address d)))
      | Recourse \<Rightarrow> and_then (get_decrypted_block E (c_recourse E) b bill_keys) (\<lambda>d.
          Ok (bill_history_block_new b (Some (participant_from_block_data (Ident (rec_recoursee d))))
               None None (signed_by (rec_recourser d, rec_signatory d)) (rec_signing_address d))))"

definition get_holder_from_block ::
  "BillEnv \<Rightarrow> BillBlock \<Rightarrow> BcrKeys \<Rightarrow> (HolderFromBlock option, BlockchainError) result" where
  "get_holder_from_block E b bill_keys =
     (case bbl_op_code b of
        Issue \<Rightarrow> and_then (get_decrypted_block E (c_issue E) b bill_keys) (\<lambda>d.
          Ok (Some \<lparr>hfb_holder = iss_payee d, hfb_signer = Ident (iss_drawer d), hfb_signatory = iss_signatory d\<rparr>))
      | Endorse \<Rightarrow> and_then (get_decrypted_block E (c_endorse E) b bill_keys) (\<lambda>d.
          Ok (Some \<lparr>hfb_holder = end_endorsee d, hfb_signer = end_endorser d, hfb_signatory = end_signatory d\<rparr>))
      | Mint \<Rightarrow> and_then (get_decrypted_block E (c_mint E) b bill_keys) (\<lambda>d.
          Ok (Some \<lparr>hfb_holder = mnt_endorsee d, hfb_signer = mnt_endorser d, hfb_signatory = mnt_signatory d\<rparr>))
      | Sell \<Rightarrow> and_then (get_decrypted_block E (c_sell E) b bill_keys) (\<lambda>d.
          Ok (Some \<lparr>hfb_holder = sel_buyer d, hfb_signer = sel_seller d, hfb_signatory = sel_signatory d\<rparr>))
      | Recourse \<Rightarrow> and_then (get_decrypted_block E (c_recourse E) b bill_keys) (\<lambda>d.
          Ok (Some \<lparr>hfb_holder = Ident (rec_recoursee d), hfb_signer = rec_recourser d, hfb_signatory = rec_signatory d\<rparr>))
      | _ \<Rightarrow> Ok None)"

section \<open>The signer of a block\<close>

definition verify_signer ::
  "BillEnv \<Rightarrow> BillBlock \<Rightarrow> NodeId \<Rightarrow> NodeId option \<Rightarrow> BcrKeys \<Rightarrow> (bool, BlockchainError) result" where
  "verify_signer E b signer signatory bill_keys =
     (let X = env_ext E;
          keys = (case signatory of Some s \<Rightarrow> [x_node_pub_key X s] | None \<Rightarrow> [])
                 @ [x_node_pub_key X signer] @ [pub_key X bill_keys] in
      case combine_pub_keys X keys of
        Ok aggregated \<Rightarrow>
          (case sig_verify X (bbl_signature b) (bbl_hash b) aggregated of
             Err _ \<Rightarrow> Ok False
           | Ok res \<Rightarrow> Ok res
           | Panic \<Rightarrow> Panic)
      | Err _ \<Rightarrow> Ok False
      | Panic \<Rightarrow> Panic)"

type_synonym signer_data =
  "NodeId \<times> BillSignatoryBlockData option \<times> BillAction option \<times> BillSignerIdentityProofBlockdata option"

definition data_ok :: "(unit, ProtocolValidationError) result \<Rightarrow> (unit, BlockchainError) result" where
  "data_ok r = map_err BlockDataInvalid r"

text \<open>The \<^verbatim>\<open>match\<close> of \<^verbatim>\<open>verify_and_get_signer\<close>: decrypt and validate the payload, read the signer.\<close>

definition signer_from_block :: "BillEnv \<Rightarrow> BillBlock \<Rightarrow> BcrKeys \<Rightarrow> (signer_data, BlockchainError) result" where
  "signer_from_block E b bill_keys =
     (let X = env_ext E in
      case bbl_op_code b of
        Issue \<Rightarrow> and_then (get_decrypted_block E (c_issue E) b bill_keys) (\<lambda>d.
          and_then (data_ok (validate_issue_data d)) (\<lambda>_.
          Ok (bipd_node_id (iss_drawer d), iss_signatory d, None, Some (iss_signer_identity_proof d))))
      | Endorse \<Rightarrow> and_then (get_decrypted_block E (c_endorse E) b bill_keys) (\<lambda>d.
          and_then (data_ok (validate_endorse_data d)) (\<lambda>_.
          Ok (bpd_node_id (end_endorser d), end_signatory d,
              Some (A_Endorse (participant_from_block_data (end_endorsee d))), end_signer_identity_proof d)))
      | Mint \<Rightarrow> and_then (get_decrypted_block E (c_mint E) b bill_keys) (\<lambda>d.
          and_then (data_ok (validate_mint_data d)) (\<lambda>_.
          Ok (bpd_node_id (mnt_endorser d), mnt_signatory d,
              Some (A_Mint (participant_from_block_data (mnt_endorsee d)) (mnt_sum d)), mnt_signer_identity_proof d)))
      | RequestToAccept \<Rightarrow> and_then (get_decrypted_block E (c_request_to_accept E) b bill_keys) (\<lambda>d.
          and_then (data_ok (validate_request_to_accept_data X d)) (\<lambda>_.
          Ok (bpd_node_id (rta_requester d), rta_signatory d,
              Some (A_RequestAcceptance (rta_acceptance_deadline_timestamp d)), rta_signer_identity_proof d)))
      | Accept \<Rightarrow> and_then (get_decrypted_block E (c_accept E) b bill_keys) (\<lambda>d.
          Ok (bipd_node_id (acc_accepter d), acc_signatory d, Some A_Accept, Some (acc_signer_identity_proof d)))
      | RequestToPay \<Rightarrow> and_then (get_decrypted_block E (c_request_to_pay E) b bill_keys) (\<lambda>d.
          and_then (data_ok (validate_request_to_pay_data X d)) (\<lambda>_.
          Ok (bpd_node_id (rtp_requester d), rtp_signatory d,
              Some (A_RequestToPay (sum_currency (pay_sum (rtp_payment_data d)))
                     (pay_payment_deadline (rtp_payment_data d)) None), rtp_signer_identity_proof d)))
      | OfferToSell \<Rightarrow> and_then (get_decrypted_block E (c_offer_to_sell E) b bill_keys) (\<lambda>d.
          and_then (data_ok (validate_offer_to_sell_data X d)) (\<lambda>_.
          Ok (bpd_node_id (ots_seller d), ots_signatory d,
              Some (A_OfferToSell (participant_from_block_data (ots_buyer d)) (pay_sum (ots_payment_data d))
                     (pay_payment_deadline (ots_payment_data d))), ots_signer_identity_proof d)))
      | Sell \<Rightarrow> and_then (get_decrypted_block E (c_sell E) b bill_keys) (\<lambda>d.
          and_then (data_ok (validate_sell_data d)) (\<lambda>_.
          Ok (bpd_node_id (sel_seller d), sel_signatory d,
              Some (A_Sell (participant_from_block_data (sel_buyer d))), sel_signer_identity_proof d)))
      | RejectToAccept \<Rightarrow> and_then (get_decrypted_block E (c_reject E) b bill_keys) (\<lambda>d.
          Ok (bipd_node_id (rej_rejecter d), rej_signatory d, Some A_RejectAcceptance,
              Some (rej_signer_identity_proof d)))
      | RejectToBuy \<Rightarrow> and_then (get_decrypted_block E (c_reject_to_buy E) b bill_keys) (\<lambda>d.
          Ok (bpd_node_id (rjb_rejecter d), rjb_signatory d, Some A_RejectBuying, rjb_signer_identity_proof d))
      | RejectToPay \<Rightarrow> and_then (get_decrypted_block E (c_reject E) b bill_keys) (\<lambda>d.
          Ok (bipd_node_id (rej_rejecter d), rej_signatory d, Some A_RejectPayment,
              Some (rej_signer_identity_proof d)))
      | RejectToPayRecourse \<Rightarrow> and_then (get_decrypted_block E (c_reject E) b bill_keys) (\<lambda>d.
          Ok (bipd_node_id (rej_rejecter d), rej_signatory d, Some A_RejectPaymentForRecourse,
              Some (rej_signer_identity_proof d)))
      | RequestRecourse \<Rightarrow> and_then (get_decrypted_block E (c_request_recourse E) b bill_keys) (\<lambda>d.
          and_then (data_ok (validate_request_recourse_data X d)) (\<lambda>_.
          Ok (bpd_node_id (rrc_recourser d), rrc_signatory d,
              Some (A_RequestRecourse (ident_from_block_data (rrc_recoursee d))
                     (case rrc_recourse_reason d of
                        BRR_Pay \<Rightarrow> RR_Pay (pay_sum (rrc_payment_data d))
                      | BRR_Accept \<Rightarrow> RR_Accept)
                     (pay_payment_deadline (rrc_payment_data d))), rrc_signer_identity_proof d)))
      | Recourse \<Rightarrow> and_then (get_decrypted_block E (c_recourse E) b bill_keys) (\<lambda>d.
          and_then (data_ok (validate_recourse_data d)) (\<lambda>_.
          Ok (bpd_node_id (rec_recourser d), rec_signatory d,
              Some (A_Recourse (ident_from_block_data (rec_recoursee d))), rec_signer_identity_proof d))))"

text \<open>
  A wrong identity proof of a bill block only leads to a warning; checking its signature is still
  executed, and may panic on a signature that does not decode.
\<close>

definition verify_and_get_signer ::
  "BillEnv \<Rightarrow> BillBlock \<Rightarrow> BcrKeys \<Rightarrow> (NodeId \<times> BillAction option, BlockchainError) result" where
  "verify_and_get_signer E b bill_keys =
     and_then (signer_from_block E b bill_keys) (\<lambda>(signer, signatory, bill_action, identity_proof).
     and_then (verify_signer E b signer (map_option bsd_node_id signatory) bill_keys) (\<lambda>ok.
     if \<not> ok then Err BlockSignatureDoesNotMatchSigner
     else case identity_proof of
            None \<Rightarrow> Ok (signer, bill_action)
          | Some ip \<Rightarrow>
              (case identity_proof_from_block_data ip of (proof, data) \<Rightarrow>
                 (case identity_proof_verify (env_ext E) proof data of
                    Panic \<Rightarrow> Panic
                  | _ \<Rightarrow> Ok (signer, bill_action)))))"

section \<open>What the code relies on of the encodings\<close>

text \<open>A type decodes what it encodes, for one value and for all values; ECIES decrypts with the secret key.\<close>

definition codec_rt :: "'t Codec \<Rightarrow> 't \<Rightarrow> bool" where
  "codec_rt C d \<longleftrightarrow> (\<forall>bs. to_vec C d = Inr bs \<longrightarrow> from_slice C bs = Inr d)"

definition ecies_law :: "Ext \<Rightarrow> bool" where
  "ecies_law X \<longleftrightarrow>
     (\<forall>sk bs ct. x_ecies_encrypt X (pk_of X sk) bs = Inr ct \<longrightarrow> x_ecies_decrypt X sk ct = Inr bs)"

text \<open>A \<^verbatim>\<open>BcrKeys\<close> is made from a secret key.\<close>

definition keys_wf :: "Ext \<Rightarrow> BcrKeys \<Rightarrow> bool" where
  "keys_wf X k \<longleftrightarrow> k = from_private_key X (get_private_key X k)"

section \<open>Facts\<close>

lemma bill_ops_sel [simp]:
  "blk_id (bill_ops E) = bbl_id" "blk_timestamp (bill_ops E) = bbl_timestamp"
  "blk_op_code (bill_ops E) = bbl_op_code" "blk_plaintext_hash (bill_ops E) = bbl_plaintext_hash"
  "blk_hash (bill_ops E) = bbl_hash" "blk_previous_hash (bill_ops E) = bbl_previous_hash"
  "blk_data (bill_ops E) = bbl_data" "blk_signature (bill_ops E) = bbl_signature"
  "blk_public_key (bill_ops E) = bbl_public_key" "blk_validate (bill_ops E) = (\<lambda>_. True)"
  "blk_data_to_hash (bill_ops E) = get_block_data_to_hash"
  "blk_hash_codec (bill_ops E) = c_data_to_hash E"
  by (simp_all add: bill_ops_def)

interpretation bill_block: block_contract "bill_ops E" for E
  by unfold_locales (simp add: get_block_data_to_hash_def)

lemma pub_key_pk_of: "keys_wf X k \<Longrightarrow> pub_key X k = pk_of X (get_private_key X k)"
  by (metis BcrKeys.select_convs(1) from_private_key_def keys_wf_def pk_of_def pub_key_def)

lemma bill_block_new_Ok:
  assumes "bill_block_new E bid i ph data op ik ck bk ts pth = Ok b"
  shows "bbl_bill_id b = bid \<and> bbl_id b = i \<and> bbl_previous_hash b = ph \<and> bbl_data b = data \<and>
         bbl_op_code b = op \<and> bbl_timestamp b = ts \<and> bbl_plaintext_hash b = pth \<and>
         get_aggregated_public_key (env_ext E) (signing_keys (env_ext E) ik ck bk) = Ok (bbl_public_key b) \<and>
         sign_aggregated (env_ext E) (bbl_hash b) (signing_keys (env_ext E) ik ck bk) = Ok (bbl_signature b) \<and>
         validate_hash (bill_ops E) (env_ext E) b = Ok True"
  using assms by (auto simp: bill_block_new_def Let_def and_then_eq_Ok validate_hash_Ok get_block_data_to_hash_def)

text \<open>A new block carries a correct hash and a signature that verifies under its public key.\<close>

lemma bill_block_new_verifies:
  assumes laws: "secp_laws (env_ext E)" and new: "bill_block_new E bid i ph data op ik ck bk ts pth = Ok b"
  shows "blk_verify (bill_ops E) (env_ext E) b = Ok True"
proof -
  note facts = bill_block_new_Ok [OF new]
  then obtain agg where "get_aggregated_public_key (env_ext E) (signing_keys (env_ext E) ik ck bk) = Ok (pk_of (env_ext E) agg)"
    and "sig_verify (env_ext E) (bbl_signature b) (bbl_hash b) (pk_of (env_ext E) agg) = Ok True"
    using sign_aggregated_key [OF laws, of "bbl_hash b" "signing_keys (env_ext E) ik ck bk" "bbl_signature b"] by metis
  with facts show ?thesis by (simp add: blk_verify_Ok)
qed

text \<open>The steps of a successful creation.\<close>

lemma encrypt_data_steps:
  assumes "encrypt_data_create_block_and_validate E C bid prev d ik ck bk hk ts op = Ok b"
  obtains bs ct key where "to_vec C d = Inr bs"
    and "x_ecies_encrypt (env_ext E) (pub_key (env_ext E) bk) bs = Inr ct"
    and "to_vec (c_block_data E) \<lparr>bbd_data = ct, bbd_key = key\<rparr> = Inr (bbl_data b)"
    and "bill_block_new E bid (next_from_previous_block_id (bbl_id prev)) (bbl_hash prev) (bbl_data b) op ik ck bk ts
           (hash_from_bytes (env_ext E) bs) = Ok b"
    and "linked (bill_ops E) (env_ext E) prev b"
    and "(key = None) = (hk = None \<or> op \<notin> {Endorse, Sell, Mint})"
proof -
  let ?X = "env_ext E"
  from assms obtain bs ct key ser nb where 1: "to_vec C d = Inr bs"
    and 2: "x_ecies_encrypt ?X (pub_key ?X bk) bs = Inr ct"
    and 3: "to_vec (c_block_data E) \<lparr>bbd_data = ct, bbd_key = key\<rparr> = Inr ser"
    and 4: "bill_block_new E bid (next_from_previous_block_id (bbl_id prev)) (bbl_hash prev) ser op ik ck bk ts
           (hash_from_bytes ?X bs) = Ok nb"
    and 5: "validate_with_previous (bill_ops E) ?X nb prev = Ok True" "nb = b"
    and 6: "(case hk of Some pk \<Rightarrow>
             if op = Endorse \<or> op = Sell \<or> op = Mint then
               and_then (from_ext Io (to_vec (x_string_codec ?X) (get_private_key_string ?X bk))) (\<lambda>key_bytes.
               and_then (map_err Secp256k1Cryptography (encrypt_ecies ?X key_bytes pk)) (\<lambda>ek.
               Ok (Some (x_base58_encode ?X ek))))
             else Ok None
         | None \<Rightarrow> Ok None) = Ok key"
    unfolding encrypt_data_create_block_and_validate_def Let_def calculate_plaintext_hash_def encrypt_ecies_def
    by (auto simp: and_then_eq_Ok split: if_splits)
  have "ser = bbl_data b" using bill_block_new_Ok [OF 4] 5 by simp
  moreover from 6 have "(key = None) = (hk = None \<or> op \<notin> {Endorse, Sell, Mint})"
    by (auto simp: and_then_eq_Ok split: option.splits if_splits)
  ultimately show ?thesis using that 1 2 3 4 5 by (simp add: linked_def)
qed

text \<open>Decrypting a block with the key of the bill gives back the payload it was made from.\<close>

lemma created_block_decrypts:
  assumes laws: "secp_laws (env_ext E)" "ecies_law (env_ext E)" and keys: "keys_wf (env_ext E) bk"
    and wrapper: "\<And>w. codec_rt (c_block_data E) w" and payload: "codec_rt C d"
    and new: "encrypt_data_create_block_and_validate E C bid prev d ik ck bk hk ts op = Ok b"
  shows "get_decrypted_block E C b bk = Ok d"
    and "validate_plaintext_hash E b (get_private_key (env_ext E) bk)"
proof -
  let ?X = "env_ext E"
  from new obtain bs ct key where bs: "to_vec C d = Inr bs"
    and ct: "x_ecies_encrypt ?X (pub_key ?X bk) bs = Inr ct"
    and ser: "to_vec (c_block_data E) \<lparr>bbd_data = ct, bbd_key = key\<rparr> = Inr (bbl_data b)"
    and nb: "bill_block_new E bid (next_from_previous_block_id (bbl_id prev)) (bbl_hash prev) (bbl_data b) op ik ck bk ts
           (hash_from_bytes ?X bs) = Ok b"
    by (rule encrypt_data_steps)
  have w: "from_slice (c_block_data E) (bbl_data b) = Inr \<lparr>bbd_data = ct, bbd_key = key\<rparr>"
    using wrapper ser unfolding codec_rt_def by blast
  have dec: "x_ecies_decrypt ?X (get_private_key ?X bk) ct = Inr bs"
    using laws(2) ct unfolding ecies_law_def pub_key_pk_of [OF keys] by blast
  have "from_slice C bs = Inr d" using payload bs unfolding codec_rt_def by blast
  then show "get_decrypted_block E C b bk = Ok d"
    by (simp add: get_decrypted_block_def get_decrypted_block_bytes_def w decrypt_ecies_def dec)
  show "validate_plaintext_hash E b (get_private_key ?X bk)"
    using bill_block_new_Ok [OF nb] by (simp add: validate_plaintext_hash_def w decrypt_ecies_def dec)
qed

text \<open>The only way in which a block that was signed can be refused is a timestamp before its predecessor.\<close>

lemma creation_refused_iff_too_early:
  assumes laws: "secp_laws (env_ext E)"
    and new: "bill_block_new E bid (next_from_previous_block_id (bbl_id prev)) (bbl_hash prev) data op ik ck bk ts pth = Ok b"
  shows "validate_with_previous (bill_ops E) (env_ext E) b prev = Ok (bbl_timestamp prev \<le> ts)"
  using bill_block_new_Ok [OF new] bill_block_new_verifies [OF laws new]
  by (auto simp: validate_with_previous_def)

text \<open>The signer that a block names is confirmed when the block was signed with the matching keys.\<close>

lemma verify_signer_created:
  assumes laws: "secp_laws (env_ext E)"
    and keys: "keys_wf (env_ext E) ik" "keys_wf (env_ext E) bk" "\<And>k. ck = Some k \<Longrightarrow> keys_wf (env_ext E) k"
    and new: "bill_block_new E bid i ph data op ik ck bk ts pth = Ok b"
    and signer: "map (x_node_pub_key (env_ext E)) (case signatory of Some s \<Rightarrow> [s, signer] | None \<Rightarrow> [signer]) =
                 pub_key (env_ext E) ik # (case ck of Some k \<Rightarrow> [pub_key (env_ext E) k] | None \<Rightarrow> [])"
  shows "verify_signer E b signer signatory bk = Ok True"
proof -
  let ?X = "env_ext E" and ?keys = "signing_keys (env_ext E) ik ck bk"
  note facts = bill_block_new_Ok [OF new]
  then have sign: "sign_aggregated ?X (bbl_hash b) ?keys = Ok (bbl_signature b)" by blast
  obtain agg where agg: "get_aggregated_public_key ?X ?keys = Ok (pk_of ?X agg)"
    and ver: "sig_verify ?X (bbl_signature b) (bbl_hash b) (pk_of ?X agg) = Ok True"
    by (rule sign_aggregated_key [OF laws sign])
  have "map (pk_of ?X) ?keys =
      (pub_key ?X ik # (case ck of Some k \<Rightarrow> [pub_key ?X k] | None \<Rightarrow> [])) @ [pub_key ?X bk]"
    using keys by (auto simp: signing_keys_def pub_key_pk_of split: option.splits)
  also have "\<dots> = (case signatory of Some s \<Rightarrow> [x_node_pub_key ?X s] | None \<Rightarrow> [])
      @ [x_node_pub_key ?X signer] @ [pub_key ?X bk]"
    using signer by (auto split: option.splits)
  finally have "combine_pub_keys ?X ((case signatory of Some s \<Rightarrow> [x_node_pub_key ?X s] | None \<Rightarrow> [])
      @ [x_node_pub_key ?X signer] @ [pub_key ?X bk]) = Ok (pk_of ?X agg)"
    using combine_pub_keys_aggregated [OF laws agg] by simp
  then show ?thesis by (simp add: verify_signer_def Let_def ver)
qed

text \<open>The nodes of a block are the parties its readers name.\<close>

lemma get_nodes_from_block_parties:
  assumes order: "hash_order_laws (env_ext E)" and nodes: "get_nodes_from_block E b bk = Ok ns"
  shows "distinct ns"
    and "get_holder_from_block E b bk = Ok (Some h) \<Longrightarrow>
           bpd_node_id (hfb_holder h) \<in> set ns \<and> bpd_node_id (hfb_signer h) \<in> set ns"
    and "verify_and_get_signer E b bk = Ok (signer, a) \<Longrightarrow> signer \<in> set ns"
    and "get_beneficiary_from_block E b bk = Ok (Some n) \<Longrightarrow> n \<in> set ns"
    and "get_beneficiary_from_request_funds_block E b bk = Ok (Some n) \<Longrightarrow> n \<in> set ns"
proof -
  from nodes obtain ms where ms: "ns = x_hash_order (env_ext E) ms" "distinct ms"
    by (auto simp: get_nodes_from_block_def and_then_eq_Ok split: BillOpCode.splits)
  have set: "distinct ns \<and> set ns = set ms"
    using order ms unfolding hash_order_laws_def by blast
  then show "distinct ns" by blast
  show "bpd_node_id (hfb_holder h) \<in> set ns \<and> bpd_node_id (hfb_signer h) \<in> set ns"
    if "get_holder_from_block E b bk = Ok (Some h)"
    using that nodes order unfolding hash_order_laws_def
    by (auto simp: get_nodes_from_block_def get_holder_from_block_def and_then_eq_Ok split: BillOpCode.splits)
  show "signer \<in> set ns" if "verify_and_get_signer E b bk = Ok (signer, a)"
  proof -
    from that obtain sy ip where "signer_from_block E b bk = Ok (signer, sy, a, ip)"
      by (auto simp: verify_and_get_signer_def and_then_eq_Ok split: if_splits option.splits prod.splits result.splits)
    then show ?thesis
      using nodes order unfolding hash_order_laws_def
      by (auto simp: get_nodes_from_block_def signer_from_block_def Let_def and_then_eq_Ok split: BillOpCode.splits)
  qed
  show "n \<in> set ns" if "get_beneficiary_from_block E b bk = Ok (Some n)"
    using that nodes order unfolding hash_order_laws_def
    by (auto simp: get_nodes_from_block_def get_beneficiary_from_block_def and_then_eq_Ok split: BillOpCode.splits)
  show "n \<in> set ns" if "get_beneficiary_from_request_funds_block E b bk = Ok (Some n)"
    using that nodes order unfolding hash_order_laws_def
    by (auto simp: get_nodes_from_block_def get_beneficiary_from_request_funds_block_def and_then_eq_Ok
        split: BillOpCode.splits)
qed

text \<open>The action that a block carries has the op code of the block; only the issue block has none.\<close>

lemma action_matches_op_code:
  assumes "verify_and_get_signer E b bk = Ok (signer, a)"
  shows "(bbl_op_code b = Issue \<longrightarrow> a = None) \<and>
         (bbl_op_code b \<noteq> Issue \<longrightarrow> (\<exists>act. a = Some act \<and> action_op_code act = bbl_op_code b))"
proof -
  from assms obtain sy ip where "signer_from_block E b bk = Ok (signer, sy, a, ip)"
    by (auto simp: verify_and_get_signer_def and_then_eq_Ok split: if_splits option.splits prod.splits result.splits)
  then show ?thesis
    by (auto simp: signer_from_block_def Let_def and_then_eq_Ok action_op_code_def split: BillOpCode.splits)
qed

end
