(* ===== verification/Bill_Chain.thy ===== *)
theory Bill_Chain
  imports Bill_Block
begin

text \<open>
  \<^verbatim>\<open>BillBlockchain\<close> and the blocks with plaintext (\<^verbatim>\<open>blockchain/bill/chain.rs\<close>), the tweak of payment
  requests (\<^verbatim>\<open>crypto/btc.rs\<close>), and the bill shared with an external party (\<^verbatim>\<open>bill/mod.rs\<close>). Operations:
  creating a chain, reading parties, endorsees, past endorsees, nodes, history, the payment states
  and the past payments. The lemmas are in the theory \<^verbatim>\<open>Bill_Chain_Props\<close>.
\<close>

type_synonym BillBlockchain = "BillBlock Blockchain"

record BillParties =
  bps_drawee :: BillIdentParticipantBlockData
  bps_drawer :: BillIdentParticipantBlockData
  bps_payee :: BillParticipantBlockData
  bps_endorsee :: "BillParticipantBlockData option"

record BillBlockPlaintextWrapper =
  bpw_block :: BillBlock
  bpw_plaintext_data_bytes :: bytes

section \<open>Blocks with plaintext\<close>

definition wrapper_get_bill_data ::
  "BillEnv \<Rightarrow> BillBlockPlaintextWrapper \<Rightarrow> (BillIssueBlockData, BlockchainError) result" where
  "wrapper_get_bill_data E w =
     (if bbl_op_code (bpw_block w) = Issue
      then from_ext Io (from_slice (c_issue E) (bpw_plaintext_data_bytes w))
      else Err BlockInvalid)"

definition wrapper_get_holder ::
  "BillEnv \<Rightarrow> BillBlockPlaintextWrapper \<Rightarrow> (HolderFromBlock option, BlockchainError) result" where
  "wrapper_get_holder E w =
     (case bbl_op_code (bpw_block w) of
        Issue \<Rightarrow> and_then (from_ext Io (from_slice (c_issue E) (bpw_plaintext_data_bytes w))) (\<lambda>d.
          Ok (Some \<lparr>hfb_holder = iss_payee d, hfb_signer = Ident (iss_drawer d), hfb_signatory = iss_signatory d\<rparr>))
      | Endorse \<Rightarrow> and_then (from_ext Io (from_slice (c_endorse E) (bpw_plaintext_data_bytes w))) (\<lambda>d.
          Ok (Some \<lparr>hfb_holder = end_endorsee d, hfb_signer = end_endorser d, hfb_signatory = end_signatory d\<rparr>))
      | Mint \<Rightarrow> and_then (from_ext Io (from_slice (c_mint E) (bpw_plaintext_data_bytes w))) (\<lambda>d.
          Ok (Some \<lparr>hfb_holder = mnt_endorsee d, hfb_signer = mnt_endorser d, hfb_signatory = mnt_signatory d\<rparr>))
      | Sell \<Rightarrow> and_then (from_ext Io (from_slice (c_sell E) (bpw_plaintext_data_bytes w))) (\<lambda>d.
          Ok (Some \<lparr>hfb_holder = sel_buyer d, hfb_signer = sel_seller d, hfb_signatory = sel_signatory d\<rparr>))
      | Recourse \<Rightarrow> and_then (from_ext Io (from_slice (c_recourse E) (bpw_plaintext_data_bytes w))) (\<lambda>d.
          Ok (Some \<lparr>hfb_holder = Ident (rec_recoursee d), hfb_signer = rec_recourser d, hfb_signatory = rec_signatory d\<rparr>))
      | _ \<Rightarrow> Ok None)"

definition wrapper_get_history ::
  "BillEnv \<Rightarrow> BillBlockPlaintextWrapper \<Rightarrow> (BillHistoryBlock, BlockchainError) result" where
  "wrapper_get_history E w =
     (case bbl_op_code (bpw_block w) of
        Issue \<Rightarrow> and_then (from_ext Io (from_slice (c_issue E) (bpw_plaintext_data_bytes w))) (\<lambda>d.
          Ok (bill_history_block_new (bpw_block w) None None None
               (signed_by (Ident (iss_drawer d), iss_signatory d)) (Some (iss_signing_address d))))
      | Endorse \<Rightarrow> and_then (from_ext Io (from_slice (c_endorse E) (bpw_plaintext_data_bytes w))) (\<lambda>d.
          Ok (bill_history_block_new (bpw_block w) (Some (participant_from_block_data (end_endorsee d))) None None
               (signed_by (end_endorser d, end_signatory d)) (end_signing_address d)))
      | Mint \<Rightarrow> and_then (from_ext Io (from_slice (c_mint E) (bpw_plaintext_data_bytes w))) (\<lambda>d.
          Ok (bill_history_block_new (bpw_block w) (Some (participant_from_block_data (mnt_endorsee d))) None None
               (signed_by (mnt_endorser d, mnt_signatory d)) (mnt_signing_address d)))
      | RequestToAccept \<Rightarrow> and_then (from_ext Io (from_slice (c_request_to_accept E) (bpw_plaintext_data_bytes w))) (\<lambda>d.
          Ok (bill_history_block_new (bpw_block w) None None (Some (rta_acceptance_deadline_timestamp d))
               (signed_by (rta_requester d, rta_signatory d)) (rta_signing_address d)))
      | Accept \<Rightarrow> and_then (from_ext Io (from_slice (c_accept E) (bpw_plaintext_data_bytes w))) (\<lambda>d.
          Ok (bill_history_block_new (bpw_block w) None None None
               (signed_by (Ident (acc_accepter d), acc_signatory d)) (Some (acc_signing_address d))))
      | RequestToPay \<Rightarrow> and_then (from_ext Io (from_slice (c_request_to_pay E) (bpw_plaintext_data_bytes w))) (\<lambda>d.
          Ok (bill_history_block_new (bpw_block w) None (Some (history_payment_data (rtp_payment_data d)))
               (Some (pay_payment_deadline (rtp_payment_data d)))
               (signed_by (rtp_requester d, rtp_signatory d)) (rtp_signing_address d)))
      | OfferToSell \<Rightarrow> and_then (from_ext Io (from_slice (c_offer_to_sell E) (bpw_plaintext_data_bytes w))) (\<lambda>d.
          Ok (bill_history_block_new (bpw_block w) (Some (participant_from_block_data (ots_buyer d)))
               (Some (history_payment_data (ots_payment_data d)))
               (Some (pay_payment_deadline (ots_payment_data d)))
               (signed_by (ots_seller d, ots_signatory d)) (ots_signing_address d)))
      | Sell \<Rightarrow> and_then (from_ext Io (from_slice (c_sell E) (bpw_plaintext_data_bytes w))) (\<lambda>d.
          Ok (bill_history_block_new (bpw_block w) (Some (participant_from_block_data (sel_buyer d))) None None
               (signed_by (sel_seller d, sel_signatory d)) (sel_signing_address d)))
      | RejectToAccept \<Rightarrow> and_then (from_ext Io (from_slice (c_reject E) (bpw_plaintext_data_bytes w))) (\<lambda>d.
          Ok (bill_history_block_new (bpw_block w) None None None
               (signed_by (Ident (rej_rejecter d), rej_signatory d)) (Some (rej_signing_address d))))
      | RejectToPay \<Rightarrow> and_then (from_ext Io (from_slice (c_reject E) (bpw_plaintext_data_bytes w))) (\<lambda>d.
          Ok (bill_history_block_new (bpw_block w) None None None
               (signed_by (Ident (rej_rejecter d), rej_signatory d)) (Some (rej_signing_address d))))
      | RejectToPayRecourse \<Rightarrow> and_then (from_ext Io (from_slice (c_reject E) (bpw_plaintext_data_bytes w))) (\<lambda>d.
          Ok (bill_history_block_new (bpw_block w) None None None
               (signed_by (Ident (rej_rejecter d), rej_signatory d)) (Some (rej_signing_address d))))
      | RejectToBuy \<Rightarrow> and_then (from_ext Io (from_slice (c_reject_to_buy E) (bpw_plaintext_data_bytes w))) (\<lambda>d.
          Ok (bill_history_block_new (bpw_block w) None None None
               (signed_by (rjb_rejecter d, rjb_signatory d)) (rjb_signing_address d)))
      | RequestRecourse \<Rightarrow> and_then (from_ext Io (from_slice (c_request_recourse E) (bpw_plaintext_data_bytes w))) (\<lambda>d.
          Ok (bill_history_block_new (bpw_block w) (Some (participant_from_block_data (Ident (rrc_recoursee d))))
               (Some (history_payment_data (rrc_payment_data d)))
               (Some (pay_payment_deadline (rrc_payment_data d)))
               (signed_by (rrc_recourser d, rrc_signatory d)) (rrc_signing_address d)))
      | Recourse \<Rightarrow> and_then (from_ext Io (from_slice (c_recourse E) (bpw_plaintext_data_bytes w))) (\<lambda>d.
          Ok (bill_history_block_new (bpw_block w) (Some (participant_from_block_data (Ident (rec_recoursee d))))
               None None (signed_by (rec_recourser d, rec_signatory d)) (rec_signing_address d))))"

section \<open>Creating chains\<close>

definition bill_chain_new ::
  "BillEnv \<Rightarrow> BillIssueBlockData \<Rightarrow> BcrKeys \<Rightarrow> BcrKeys option \<Rightarrow> BcrKeys \<Rightarrow> Timestamp
     \<Rightarrow> (BillBlockchain, BlockchainError) result" where
  "bill_chain_new E bill drawer_key_pair drawer_company_key_pair bill_keys timestamp =
     and_then (create_block_for_issue E (iss_id bill) (hash_from_bytes (env_ext E) (string_bytes (iss_id bill)))
       bill drawer_key_pair drawer_company_key_pair bill_keys timestamp) (\<lambda>first_block.
     Ok \<lparr>blocks = [first_block]\<rparr>)"

definition new_from_blocks :: "BillEnv \<Rightarrow> BillBlock list \<Rightarrow> (BillBlockchain, BlockchainError) result" where
  "new_from_blocks E blocks_to_add =
     (case first_opt blocks_to_add of
        None \<Rightarrow> Err BlockchainInvalid
      | Some first \<Rightarrow>
          and_then (blk_verify (bill_ops E) (env_ext E) first) (\<lambda>verified.
          if \<not> verified then Err BlockchainInvalid
          else and_then (validate_hash (bill_ops E) (env_ext E) first) (\<lambda>hash_ok.
          if \<not> hash_ok then Err BlockchainInvalid
          else and_then (is_chain_valid (bill_ops E) (env_ext E) \<lparr>blocks = blocks_to_add\<rparr>) (\<lambda>valid.
          if \<not> valid then Err BlockchainInvalid else Ok \<lparr>blocks = blocks_to_add\<rparr>))))"

abbreviation bill_last_with_op :: "BillEnv \<Rightarrow> BillBlockchain \<Rightarrow> BillOpCode \<Rightarrow> BillBlock option" where
  "bill_last_with_op E c op \<equiv> get_last_version_block_with_op_code (bill_ops E) c op"

abbreviation bill_op_exists :: "BillEnv \<Rightarrow> BillBlockchain \<Rightarrow> BillOpCode \<Rightarrow> bool" where
  "bill_op_exists E c op \<equiv> block_with_operation_code_exists (bill_ops E) c op"

section \<open>Parties of a bill\<close>

text \<open>\<^verbatim>\<open>max_by_key\<close> on the block id: the last of the maximal elements.\<close>

definition max_by_id :: "(BlockId \<times> 'a) list \<Rightarrow> (BlockId \<times> 'a) option" where
  "max_by_id xs = fold (\<lambda>x acc. case acc of
      None \<Rightarrow> Some x
    | Some y \<Rightarrow> if fst y \<le> fst x then Some x else Some y) xs None"

definition flatten_options :: "'a option list \<Rightarrow> 'a list" where
  "flatten_options xs = List.map_filter (\<lambda>x. x) xs"

text \<open>One of the four lookups of \<^verbatim>\<open>get_bill_parties\<close>: the last block of a kind, with its new holder.\<close>

definition last_version_holder ::
  "BillEnv \<Rightarrow> BillBlockchain \<Rightarrow> BillOpCode \<Rightarrow> 't Codec \<Rightarrow> ('t \<Rightarrow> BillParticipantBlockData) \<Rightarrow> BcrKeys
     \<Rightarrow> ((BlockId \<times> BillParticipantBlockData) option, BlockchainError) result" where
  "last_version_holder E c op C holder bill_keys =
     (case bill_last_with_op E c op of
        Some b \<Rightarrow> and_then (get_decrypted_block E C b bill_keys) (\<lambda>d. Ok (Some (bbl_id b, holder d)))
      | None \<Rightarrow> Ok None)"

definition get_bill_parties ::
  "BillEnv \<Rightarrow> BillBlockchain \<Rightarrow> BcrKeys \<Rightarrow> BillIssueBlockData \<Rightarrow> (BillParties, BlockchainError) result" where
  "get_bill_parties E c bill_keys bill_first_version =
     and_then (last_version_holder E c Endorse (c_endorse E) end_endorsee bill_keys) (\<lambda>en.
     and_then (last_version_holder E c Mint (c_mint E) mnt_endorsee bill_keys) (\<lambda>mi.
     and_then (last_version_holder E c Sell (c_sell E) sel_buyer bill_keys) (\<lambda>se.
     and_then (last_version_holder E c Recourse (c_recourse E) (\<lambda>d. Ident (rec_recoursee d)) bill_keys) (\<lambda>re.
     Ok \<lparr>bps_drawee = iss_drawee bill_first_version,
         bps_drawer = iss_drawer bill_first_version,
         bps_payee = iss_payee bill_first_version,
         bps_endorsee = map_option snd (max_by_id (flatten_options [en, mi, se, re]))\<rparr>))))"

definition last_wrapper_holder ::
  "BillEnv \<Rightarrow> BillBlockchain \<Rightarrow> BillBlockPlaintextWrapper list \<Rightarrow> BillOpCode \<Rightarrow> 't Codec
     \<Rightarrow> ('t \<Rightarrow> BillParticipantBlockData)
     \<Rightarrow> ((BlockId \<times> BillParticipantBlockData) option, BlockchainError) result" where
  "last_wrapper_holder E c ws op C holder =
     (case bill_last_with_op E c op of
        Some b \<Rightarrow>
          and_then (ok_or BlockInvalid (find (\<lambda>w. bbl_id (bpw_block w) = bbl_id b) ws)) (\<lambda>w.
          and_then (from_ext Io (from_slice C (bpw_plaintext_data_bytes w))) (\<lambda>d.
          Ok (Some (bbl_id b, holder d))))
      | None \<Rightarrow> Ok None)"

definition get_bill_parties_from_chain_with_plaintext ::
  "BillEnv \<Rightarrow> BillBlockPlaintextWrapper list \<Rightarrow> (BillParties, BlockchainError) result" where
  "get_bill_parties_from_chain_with_plaintext E ws =
     and_then (new_from_blocks E (map bpw_block ws)) (\<lambda>c.
     and_then (ok_or BlockchainInvalid (first_opt ws)) (\<lambda>w.
     and_then (wrapper_get_bill_data E w) (\<lambda>bill_first_version.
     and_then (last_wrapper_holder E c ws Endorse (c_endorse E) end_endorsee) (\<lambda>en.
     and_then (last_wrapper_holder E c ws Mint (c_mint E) mnt_endorsee) (\<lambda>mi.
     and_then (last_wrapper_holder E c ws Sell (c_sell E) sel_buyer) (\<lambda>se.
     and_then (last_wrapper_holder E c ws Recourse (c_recourse E) (\<lambda>d. Ident (rec_recoursee d))) (\<lambda>re.
     Ok \<lparr>bps_drawee = iss_drawee bill_first_version,
         bps_drawer = iss_drawer bill_first_version,
         bps_payee = iss_payee bill_first_version,
         bps_endorsee = map_option snd (max_by_id (flatten_options [en, mi, se, re]))\<rparr>)))))))"

text \<open>\<^verbatim>\<open>if let Ok(Some(x))\<close> and \<^verbatim>\<open>unwrap_or(None)\<close>.\<close>

definition ok_some :: "('a option, 'e) result \<Rightarrow> 'a option" where
  "ok_some r = (case r of Ok x \<Rightarrow> x | _ \<Rightarrow> None)"

definition get_endorsees_from_chain_with_plaintext ::
  "BillEnv \<Rightarrow> BillBlockPlaintextWrapper list \<Rightarrow> BillParticipant list" where
  "get_endorsees_from_chain_with_plaintext E ws =
     List.map_filter (\<lambda>w.
       if bbl_op_code (bpw_block w) = Issue then None
       else map_option (\<lambda>h. participant_from_block_data (hfb_holder h)) (ok_some (wrapper_get_holder E w))) ws"

definition get_endorsees_for_bill :: "BillEnv \<Rightarrow> BillBlockchain \<Rightarrow> BcrKeys \<Rightarrow> BillParticipant list" where
  "get_endorsees_for_bill E c bill_keys =
     List.map_filter (\<lambda>b.
       if bbl_op_code b = Issue then None
       else map_option (\<lambda>h. participant_from_block_data (hfb_holder h))
              (ok_some (get_holder_from_block E b bill_keys))) (blocks c)"

definition get_first_version_bill ::
  "BillEnv \<Rightarrow> BillBlockchain \<Rightarrow> BcrKeys \<Rightarrow> (BillIssueBlockData, BlockchainError) result" where
  "get_first_version_bill E c bill_keys =
     and_then (get_first_block c) (\<lambda>first. get_decrypted_block E (c_issue E) first bill_keys)"

section \<open>Past payments\<close>

text \<open>\<^verbatim>\<open>calculate_tweak_hash_for_payment_request\<close>, with \<^verbatim>\<open>u64::to_be_bytes\<close>.\<close>

definition u64_to_be_bytes :: "u64 \<Rightarrow> bytes" where
  "u64_to_be_bytes w = map (\<lambda>i. ucast (drop_bit (8 * i) w)) [7, 6, 5, 4, 3, 2, 1, 0]"

definition calculate_tweak_hash_for_payment_request ::
  "Ext \<Rightarrow> BillOpCode \<Rightarrow> BlockId \<Rightarrow> Sha256Hash \<Rightarrow> (Sha256Hash, CryptoError) result" where
  "calculate_tweak_hash_for_payment_request X payment_op block_id previous_hash =
     and_then
       (case payment_op of
          RequestToPay \<Rightarrow> Ok ''bcr/request-to-pay/v1''
        | OfferToSell \<Rightarrow> Ok ''bcr/offer-to-sell/v1''
        | RequestRecourse \<Rightarrow> Ok ''bcr/request-recourse/v1''
        | _ \<Rightarrow> Err (Tweak ''Invalid operation'')) (\<lambda>tag.
     and_then (hash_decode_to_array X (hash_from_bytes X (string_bytes tag))) (\<lambda>hashed_tag.
     and_then (hash_decode X previous_hash) (\<lambda>prev.
     Ok (hash_from_bytes X (hashed_tag @ hashed_tag @ u64_to_be_bytes (bid_inner block_id) @ prev)))))"

text \<open>The descriptor with which the beneficiary of a request spends what was paid.\<close>

definition descriptor_to_spend_for ::
  "Ext \<Rightarrow> BillBlock \<Rightarrow> BcrKeys \<Rightarrow> BcrKeys \<Rightarrow> Network \<Rightarrow> (BtcDescriptor, BlockchainError) result" where
  "descriptor_to_spend_for X request bill_keys caller_keys network =
     and_then (map_err Secp256k1Cryptography
       (calculate_tweak_hash_for_payment_request X (bbl_op_code request) (bbl_id request) (bbl_previous_hash request))) (\<lambda>tweak.
     map_err Secp256k1Cryptography
       (get_combined_private_descriptor X
         (get_private_key X (from_private_key X (get_private_key X bill_keys)))
         (get_private_key X caller_keys) tweak network))"

text \<open>The loop that pairs every offer to sell with the sell or rejection that answers it.\<close>

fun sell_pairs ::
  "BillBlock option \<Rightarrow> (BillBlock \<times> BillBlock option) list \<Rightarrow> BillBlock list
     \<Rightarrow> ((BillBlock \<times> BillBlock option) list, BlockchainError) result" where
  "sell_pairs current pairs [] =
     Ok (case current of Some offer \<Rightarrow> pairs @ [(offer, None)] | None \<Rightarrow> pairs)"
| "sell_pairs current pairs (b # bs) =
     (if bbl_op_code b = OfferToSell then
        (case current of
           Some offer \<Rightarrow> sell_pairs (Some b) (pairs @ [(offer, None)]) bs
         | None \<Rightarrow> sell_pairs (Some b) pairs bs)
      else if bbl_op_code b = RejectToBuy then
        (case current of
           Some offer \<Rightarrow> sell_pairs None (pairs @ [(offer, Some b)]) bs
         | None \<Rightarrow> Err BlockchainInvalid)
      else if bbl_op_code b = Sell then
        (case current of
           Some offer \<Rightarrow> sell_pairs None (pairs @ [(offer, Some b)]) bs
         | None \<Rightarrow> Err BlockchainInvalid)
      else sell_pairs current pairs bs)"

definition sell_payment_info :: "BillBlock \<Rightarrow> BillOfferToSellBlockData \<Rightarrow> SellPaymentInfo" where
  "sell_payment_info b d =
     \<lparr>spi_buyer = participant_from_block_data (ots_buyer d),
      spi_seller = participant_from_block_data (ots_seller d),
      spi_sum = pay_sum (ots_payment_data d),
      spi_payment_address = pay_payment_address (ots_payment_data d),
      spi_block_id = bbl_id b,
      spi_buying_deadline_timestamp = pay_payment_deadline (ots_payment_data d)\<rparr>"

definition past_sell_step ::
  "BillEnv \<Rightarrow> BcrKeys \<Rightarrow> BcrKeys \<Rightarrow> Network \<Rightarrow> NodeId \<Rightarrow> Timestamp
     \<Rightarrow> (SellPaymentInfo \<times> PaymentStatus \<times> Timestamp \<times> BtcDescriptor) list
     \<Rightarrow> BillBlock \<times> BillBlock option
     \<Rightarrow> ((SellPaymentInfo \<times> PaymentStatus \<times> Timestamp \<times> BtcDescriptor) list, BlockchainError) result" where
  "past_sell_step E bill_keys caller_keys network node_id timestamp acc pair =
     (case pair of (request, answer) \<Rightarrow>
      and_then (get_decrypted_block E (c_offer_to_sell E) request bill_keys) (\<lambda>d.
      if node_id \<noteq> bpd_node_id (ots_seller d) then Ok acc
      else and_then (descriptor_to_spend_for (env_ext E) request bill_keys caller_keys network) (\<lambda>descriptor.
        let info = sell_payment_info request d; deadline = pay_payment_deadline (ots_payment_data d) in
        case answer of
          Some a \<Rightarrow>
            (if bbl_op_code a = RejectToBuy
             then Ok (acc @ [(info, PS_Rejected (bbl_timestamp a), bbl_timestamp request, descriptor)])
             else if bbl_op_code a = Sell
             then Ok (acc @ [(info, PS_Paid (bbl_timestamp a), bbl_timestamp request, descriptor)])
             else Ok acc)
        | None \<Rightarrow>
            (if has_deadline_passed timestamp deadline
             then Ok (acc @ [(info, PS_Expired deadline, bbl_timestamp request, descriptor)])
             else Ok acc))))"

definition get_past_sell_payments_for_node_id ::
  "BillEnv \<Rightarrow> BillBlockchain \<Rightarrow> BcrKeys \<Rightarrow> BcrKeys \<Rightarrow> Network \<Rightarrow> NodeId \<Rightarrow> Timestamp
     \<Rightarrow> ((SellPaymentInfo \<times> PaymentStatus \<times> Timestamp \<times> BtcDescriptor) list, BlockchainError) result" where
  "get_past_sell_payments_for_node_id E c bill_keys caller_keys network node_id timestamp =
     and_then (sell_pairs None [] (blocks c)) (\<lambda>pairs.
     try_fold (past_sell_step E bill_keys caller_keys network node_id timestamp) [] pairs)"

fun recourse_pairs ::
  "BillBlock option \<Rightarrow> (BillBlock \<times> BillBlock option) list \<Rightarrow> BillBlock list
     \<Rightarrow> ((BillBlock \<times> BillBlock option) list, BlockchainError) result" where
  "recourse_pairs current pairs [] =
     Ok (case current of Some request \<Rightarrow> pairs @ [(request, None)] | None \<Rightarrow> pairs)"
| "recourse_pairs current pairs (b # bs) =
     (if bbl_op_code b = RequestRecourse then
        (case current of
           Some request \<Rightarrow> recourse_pairs (Some b) (pairs @ [(request, None)]) bs
         | None \<Rightarrow> recourse_pairs (Some b) pairs bs)
      else if bbl_op_code b = RejectToPayRecourse then
        (case current of
           Some request \<Rightarrow> recourse_pairs None (pairs @ [(request, Some b)]) bs
         | None \<Rightarrow> Err BlockchainInvalid)
      else if bbl_op_code b = Recourse then
        (case current of
           Some request \<Rightarrow> recourse_pairs None (pairs @ [(request, Some b)]) bs
         | None \<Rightarrow> Err BlockchainInvalid)
      else recourse_pairs current pairs bs)"

definition recourse_payment_info :: "BillBlock \<Rightarrow> BillRequestRecourseBlockData \<Rightarrow> RecoursePaymentInfo" where
  "recourse_payment_info b d =
     \<lparr>rpi_recourser = rrc_recourser d,
      rpi_recoursee = rrc_recoursee d,
      rpi_sum = pay_sum (rrc_payment_data d),
      rpi_payment_address = pay_payment_address (rrc_payment_data d),
      rpi_reason = rrc_recourse_reason d,
      rpi_block_id = bbl_id b,
      rpi_recourse_deadline_timestamp = pay_payment_deadline (rrc_payment_data d)\<rparr>"

definition past_recourse_step ::
  "BillEnv \<Rightarrow> BcrKeys \<Rightarrow> BcrKeys \<Rightarrow> Network \<Rightarrow> NodeId \<Rightarrow> Timestamp
     \<Rightarrow> (RecoursePaymentInfo \<times> PaymentStatus \<times> Timestamp \<times> BtcDescriptor) list
     \<Rightarrow> BillBlock \<times> BillBlock option
     \<Rightarrow> ((RecoursePaymentInfo \<times> PaymentStatus \<times> Timestamp \<times> BtcDescriptor) list, BlockchainError) result" where
  "past_recourse_step E bill_keys caller_keys network node_id timestamp acc pair =
     (case pair of (request, answer) \<Rightarrow>
      and_then (get_decrypted_block E (c_request_recourse E) request bill_keys) (\<lambda>d.
      if node_id \<noteq> bpd_node_id (rrc_recourser d) then Ok acc
      else and_then (descriptor_to_spend_for (env_ext E) request bill_keys caller_keys network) (\<lambda>descriptor.
        let info = recourse_payment_info request d; deadline = pay_payment_deadline (rrc_payment_data d) in
        case answer of
          Some a \<Rightarrow>
            (if bbl_op_code a = RejectToPayRecourse
             then Ok (acc @ [(info, PS_Rejected (bbl_timestamp a), bbl_timestamp request, descriptor)])
             else if bbl_op_code a = Recourse
             then Ok (acc @ [(info, PS_Paid (bbl_timestamp a), bbl_timestamp request, descriptor)])
             else Ok acc)
        | None \<Rightarrow>
            (if has_deadline_passed timestamp deadline
             then Ok (acc @ [(info, PS_Expired deadline, bbl_timestamp request, descriptor)])
             else Ok acc))))"

definition get_past_recourse_payments_for_node_id ::
  "BillEnv \<Rightarrow> BillBlockchain \<Rightarrow> BcrKeys \<Rightarrow> BcrKeys \<Rightarrow> Network \<Rightarrow> NodeId \<Rightarrow> Timestamp
     \<Rightarrow> ((RecoursePaymentInfo \<times> PaymentStatus \<times> Timestamp \<times> BtcDescriptor) list, BlockchainError) result" where
  "get_past_recourse_payments_for_node_id E c bill_keys caller_keys network node_id timestamp =
     and_then (recourse_pairs None [] (blocks c)) (\<lambda>pairs.
     try_fold (past_recourse_step E bill_keys caller_keys network node_id timestamp) [] pairs)"

section \<open>Beneficiaries and kinds of blocks\<close>

definition is_beneficiary_from_a_block :: "BillEnv \<Rightarrow> BillBlockchain \<Rightarrow> BcrKeys \<Rightarrow> NodeId \<Rightarrow> bool" where
  "is_beneficiary_from_a_block E c bill_keys node_id =
     list_ex (\<lambda>s. s = node_id)
       (List.map_filter (\<lambda>b. ok_some (get_beneficiary_from_block E b bill_keys)) (blocks c))"

definition is_beneficiary_from_a_request_funds_block ::
  "BillEnv \<Rightarrow> BillBlockchain \<Rightarrow> BcrKeys \<Rightarrow> NodeId \<Rightarrow> bool" where
  "is_beneficiary_from_a_request_funds_block E c bill_keys node_id =
     list_ex (\<lambda>s. s = node_id)
       (List.map_filter (\<lambda>b. ok_some (get_beneficiary_from_request_funds_block E b bill_keys)) (blocks c))"

definition has_been_endorsed_sold_or_minted :: "BillBlockchain \<Rightarrow> bool" where
  "has_been_endorsed_sold_or_minted c =
     list_ex (\<lambda>b. bbl_op_code b = Mint \<or> bbl_op_code b = Sell \<or> bbl_op_code b = Endorse) (blocks c)"

definition has_been_endorsed_or_sold :: "BillBlockchain \<Rightarrow> bool" where
  "has_been_endorsed_or_sold c =
     list_ex (\<lambda>b. bbl_op_code b = Sell \<or> bbl_op_code b = Endorse) (blocks c)"

section \<open>Expiry and waiting for payment\<close>

definition is_req_to_pay_block_payment_expired ::
  "BillEnv \<Rightarrow> BillBlock \<Rightarrow> BcrKeys \<Rightarrow> Timestamp \<Rightarrow> (bool \<times> Timestamp \<times> BitcoinAddress, BlockchainError) result" where
  "is_req_to_pay_block_payment_expired E b bill_keys current =
     and_then (get_decrypted_block E (c_request_to_pay E) b bill_keys) (\<lambda>d.
     let deadline = pay_payment_deadline (rtp_payment_data d) in
     Ok (has_deadline_passed current deadline, deadline, pay_payment_address (rtp_payment_data d)))"

definition is_req_to_accept_block_expired ::
  "BillEnv \<Rightarrow> BillBlock \<Rightarrow> BcrKeys \<Rightarrow> Timestamp \<Rightarrow> (bool \<times> Timestamp, BlockchainError) result" where
  "is_req_to_accept_block_expired E b bill_keys current =
     and_then (get_decrypted_block E (c_request_to_accept E) b bill_keys) (\<lambda>d.
     let deadline = rta_acceptance_deadline_timestamp d in
     Ok (has_deadline_passed current deadline, deadline))"

definition is_offer_to_sell_block_payment_expired ::
  "BillEnv \<Rightarrow> BillBlock \<Rightarrow> BcrKeys \<Rightarrow> Timestamp \<Rightarrow> (bool \<times> Timestamp, BlockchainError) result" where
  "is_offer_to_sell_block_payment_expired E b bill_keys current =
     and_then (get_decrypted_block E (c_offer_to_sell E) b bill_keys) (\<lambda>d.
     let deadline = pay_payment_deadline (ots_payment_data d) in
     Ok (has_deadline_passed current deadline, deadline))"

definition is_req_to_recourse_block_payment_expired ::
  "BillEnv \<Rightarrow> BillBlock \<Rightarrow> BcrKeys \<Rightarrow> Timestamp \<Rightarrow> (bool \<times> Timestamp, BlockchainError) result" where
  "is_req_to_recourse_block_payment_expired E b bill_keys current =
     and_then (get_decrypted_block E (c_request_recourse E) b bill_keys) (\<lambda>d.
     let deadline = pay_payment_deadline (rrc_payment_data d) in
     Ok (has_deadline_passed current deadline, deadline))"

definition is_last_request_to_recourse_block_waiting_for_payment ::
  "BillEnv \<Rightarrow> BillBlockchain \<Rightarrow> BcrKeys \<Rightarrow> Timestamp \<Rightarrow> (RecourseWaitingForPayment, BlockchainError) result" where
  "is_last_request_to_recourse_block_waiting_for_payment E c bill_keys current =
     and_then (get_latest_block c) (\<lambda>last_block.
     case bill_last_with_op E c RequestRecourse of
       Some b \<Rightarrow>
         (if bbl_id last_block = bbl_id b then
            and_then (get_decrypted_block E (c_request_recourse E) b bill_keys) (\<lambda>d.
            if has_deadline_passed current (pay_payment_deadline (rrc_payment_data d)) then Ok RCW_No
            else Ok (RCW_Yes (recourse_payment_info b d)))
          else Ok RCW_No)
     | None \<Rightarrow> Ok RCW_No)"

definition is_last_offer_to_sell_block_waiting_for_payment ::
  "BillEnv \<Rightarrow> BillBlockchain \<Rightarrow> BcrKeys \<Rightarrow> Timestamp \<Rightarrow> (OfferToSellWaitingForPayment, BlockchainError) result" where
  "is_last_offer_to_sell_block_waiting_for_payment E c bill_keys current =
     and_then (get_latest_block c) (\<lambda>last_block.
     case bill_last_with_op E c OfferToSell of
       Some b \<Rightarrow>
         (if bbl_id last_block = bbl_id b then
            and_then (get_decrypted_block E (c_offer_to_sell E) b bill_keys) (\<lambda>d.
            if has_deadline_passed current (pay_payment_deadline (ots_payment_data d)) then Ok OTS_No
            else Ok (OTS_Yes (sell_payment_info b d)))
          else Ok OTS_No)
     | None \<Rightarrow> Ok OTS_No)"

section \<open>Nodes, history and endorsees\<close>

fun nodes_with_height_loop ::
  "BillEnv \<Rightarrow> BcrKeys \<Rightarrow> nat \<Rightarrow> (NodeId \<times> nat) list \<Rightarrow> BillBlock list
     \<Rightarrow> ((NodeId \<times> nat) list, BlockchainError) result" where
  "nodes_with_height_loop E bill_keys height nodes [] = Ok nodes"
| "nodes_with_height_loop E bill_keys height nodes (b # bs) =
     and_then (get_nodes_from_block E b bill_keys) (\<lambda>nodes_in_block.
     nodes_with_height_loop E bill_keys (height + 1)
       (fold (\<lambda>node m. hm_or_insert node (height + 1) m) nodes_in_block nodes) bs)"

definition get_all_nodes_with_added_block_height ::
  "BillEnv \<Rightarrow> BillBlockchain \<Rightarrow> BcrKeys \<Rightarrow> ((NodeId \<times> nat) list, BlockchainError) result" where
  "get_all_nodes_with_added_block_height E c bill_keys =
     nodes_with_height_loop E bill_keys 0 [] (blocks c)"

definition get_all_nodes_from_bill ::
  "BillEnv \<Rightarrow> BillBlockchain \<Rightarrow> BcrKeys \<Rightarrow> (NodeId list, BlockchainError) result" where
  "get_all_nodes_from_bill E c bill_keys =
     and_then (get_all_nodes_with_added_block_height E c bill_keys) (\<lambda>m.
     Ok (x_hash_order (env_ext E) (map fst m)))"

definition insert_ident :: "BillParticipantBlockData \<Rightarrow> NodeId list \<Rightarrow> NodeId list" where
  "insert_ident p s = (case p of Ident d \<Rightarrow> hs_insert (bipd_node_id d) s | Anon _ \<Rightarrow> s)"

definition ident_nodes_step ::
  "BillEnv \<Rightarrow> BcrKeys \<Rightarrow> NodeId list \<Rightarrow> BillBlock \<Rightarrow> (NodeId list, BlockchainError) result" where
  "ident_nodes_step E bill_keys s b =
     (case bbl_op_code b of
        Issue \<Rightarrow> and_then (get_decrypted_block E (c_issue E) b bill_keys) (\<lambda>d.
          Ok (insert_ident (iss_payee d) (hs_insert (bipd_node_id (iss_drawee d)) (hs_insert (bipd_node_id (iss_drawer d)) s))))
      | Endorse \<Rightarrow> and_then (get_decrypted_block E (c_endorse E) b bill_keys) (\<lambda>d.
          Ok (insert_ident (end_endorser d) (insert_ident (end_endorsee d) s)))
      | Mint \<Rightarrow> and_then (get_decrypted_block E (c_mint E) b bill_keys) (\<lambda>d.
          Ok (insert_ident (mnt_endorser d) (insert_ident (mnt_endorsee d) s)))
      | RequestToAccept \<Rightarrow> and_then (get_decrypted_block E (c_request_to_accept E) b bill_keys) (\<lambda>d.
          Ok (insert_ident (rta_requester d) s))
      | RequestToPay \<Rightarrow> and_then (get_decrypted_block E (c_request_to_pay E) b bill_keys) (\<lambda>d.
          Ok (insert_ident (rtp_requester d) s))
      | OfferToSell \<Rightarrow> and_then (get_decrypted_block E (c_offer_to_sell E) b bill_keys) (\<lambda>d.
          Ok (insert_ident (ots_seller d) (insert_ident (ots_buyer d) s)))
      | Sell \<Rightarrow> and_then (get_decrypted_block E (c_sell E) b bill_keys) (\<lambda>d.
          Ok (insert_ident (sel_seller d) (insert_ident (sel_buyer d) s)))
      | RejectToBuy \<Rightarrow> and_then (get_decrypted_block E (c_reject_to_buy E) b bill_keys) (\<lambda>d.
          Ok (insert_ident (rjb_rejecter d) s))
      | RequestRecourse \<Rightarrow> and_then (get_decrypted_block E (c_request_recourse E) b bill_keys) (\<lambda>d.
          Ok (hs_insert (bipd_node_id (rrc_recoursee d)) (insert_ident (rrc_recourser d) s)))
      | Recourse \<Rightarrow> and_then (get_decrypted_block E (c_recourse E) b bill_keys) (\<lambda>d.
          Ok (hs_insert (bipd_node_id (rec_recoursee d)) (insert_ident (rec_recourser d) s)))
      | Accept \<Rightarrow> and_then (get_decrypted_block E (c_accept E) b bill_keys) (\<lambda>d.
          Ok (hs_insert (bipd_node_id (acc_accepter d)) s))
      | RejectToAccept \<Rightarrow> and_then (get_decrypted_block E (c_reject E) b bill_keys) (\<lambda>d.
          Ok (hs_insert (bipd_node_id (rej_rejecter d)) s))
      | RejectToPay \<Rightarrow> and_then (get_decrypted_block E (c_reject E) b bill_keys) (\<lambda>d.
          Ok (hs_insert (bipd_node_id (rej_rejecter d)) s))
      | RejectToPayRecourse \<Rightarrow> and_then (get_decrypted_block E (c_reject E) b bill_keys) (\<lambda>d.
          Ok (hs_insert (bipd_node_id (rej_rejecter d)) s)))"

definition get_ident_node_ids ::
  "BillEnv \<Rightarrow> BillBlockchain \<Rightarrow> BcrKeys \<Rightarrow> (NodeId list, BlockchainError) result" where
  "get_ident_node_ids E c bill_keys = try_fold (ident_nodes_step E bill_keys) [] (blocks c)"

definition get_all_ident_nodes_with_added_block_height ::
  "BillEnv \<Rightarrow> BillBlockchain \<Rightarrow> BcrKeys \<Rightarrow> ((NodeId \<times> nat) list, BlockchainError) result" where
  "get_all_ident_nodes_with_added_block_height E c bill_keys =
     and_then (get_all_nodes_with_added_block_height E c bill_keys) (\<lambda>all_nodes.
     and_then (get_ident_node_ids E c bill_keys) (\<lambda>ident_nodes.
     Ok (filter (\<lambda>(node_id, _). node_id \<in> set ident_nodes) all_nodes)))"

record BillHistory =
  bhi_blocks :: "BillHistoryBlock list"

definition get_bill_history :: "BillEnv \<Rightarrow> BillBlockchain \<Rightarrow> BcrKeys \<Rightarrow> (BillHistory, BlockchainError) result" where
  "get_bill_history E c bill_keys =
     and_then (try_map (\<lambda>b. get_history_from_block E b bill_keys) (blocks c)) (\<lambda>hs.
     Ok \<lparr>bhi_blocks = hs\<rparr>)"

text \<open>
  \<^verbatim>\<open>get_past_endorsees_for_bill\<close>: the loop over the holders up to the first time that the caller
  became holder, then the drawer, the removals and the stable sort by descending timestamp.
\<close>

definition past_endorsee_from_holder ::
  "Timestamp \<Rightarrow> HolderFromBlock \<Rightarrow> BillIdentParticipantBlockData \<Rightarrow> PastEndorsee" where
  "past_endorsee_from_holder timestamp holder holder_data =
     \<lparr>pe_pay_to_the_order_of = ident_from_block_data holder_data,
      pe_signed = signed_by (hfb_signer holder, hfb_signatory holder),
      pe_signing_timestamp = timestamp,
      pe_signing_address = (case hfb_signer holder of
          Anon _ \<Rightarrow> None
        | Ident data \<Rightarrow> Some (bipd_postal_address data))\<rparr>"

fun past_endorsees_loop ::
  "NodeId \<Rightarrow> (Timestamp \<times> HolderFromBlock) list \<Rightarrow> (NodeId \<times> PastEndorsee) list
     \<Rightarrow> bool \<times> (NodeId \<times> PastEndorsee) list" where
  "past_endorsees_loop caller [] m = (False, m)"
| "past_endorsees_loop caller ((timestamp, holder) # hs) m =
     (if bpd_node_id (hfb_holder holder) = caller then (True, m)
      else past_endorsees_loop caller hs
        (case hfb_holder holder of
           Ident holder_data \<Rightarrow>
             (if bipd_node_id holder_data \<noteq> caller
              then hm_or_insert (bipd_node_id holder_data) (past_endorsee_from_holder timestamp holder holder_data) m
              else m)
         | Anon _ \<Rightarrow> m))"

definition holders_before_recourse ::
  "BillEnv \<Rightarrow> BillBlockchain \<Rightarrow> BcrKeys \<Rightarrow> (Timestamp \<times> HolderFromBlock) list" where
  "holders_before_recourse E c bill_keys =
     List.map_filter (\<lambda>b. map_option (\<lambda>h. (bbl_timestamp b, h)) (ok_some (get_holder_from_block E b bill_keys)))
       (filter (\<lambda>b. bbl_op_code b \<noteq> Recourse) (blocks c))"

definition drawer_past_endorsee :: "BillIssueBlockData \<Rightarrow> PastEndorsee" where
  "drawer_past_endorsee bill =
     \<lparr>pe_pay_to_the_order_of = ident_from_block_data (iss_drawer bill),
      pe_signed = signed_by (Ident (iss_drawer bill), iss_signatory bill),
      pe_signing_timestamp = iss_signing_timestamp bill,
      pe_signing_address = Some (bipd_postal_address (iss_drawer bill))\<rparr>"

definition get_past_endorsees_for_bill ::
  "BillEnv \<Rightarrow> BillBlockchain \<Rightarrow> BcrKeys \<Rightarrow> NodeId \<Rightarrow> (PastEndorsee list, BlockchainError) result" where
  "get_past_endorsees_for_bill E c bill_keys caller =
     and_then (get_first_version_bill E c bill_keys) (\<lambda>bill.
     if caller = bipd_node_id (iss_drawee bill) then Ok []
     else case past_endorsees_loop caller (holders_before_recourse E c bill_keys) [] of (found, m) \<Rightarrow>
       if \<not> found then Ok []
       else
         let m1 = (if bipd_node_id (iss_drawer bill) \<noteq> bipd_node_id (iss_drawee bill)
                   then hm_or_insert (bipd_node_id (iss_drawer bill)) (drawer_past_endorsee bill) m else m);
             m2 = hm_remove caller m1;
             m3 = hm_remove (bipd_node_id (iss_drawee bill)) m2;
             values = List.map_filter (map_of m3) (x_hash_order (env_ext E) (map fst m3)) in
         Ok (sort_key (\<lambda>e. - uint (ts_inner (pe_signing_timestamp e))) values))"

section \<open>The chain with plaintext, and holding by mint\<close>

definition plaintext_step ::
  "BillEnv \<Rightarrow> BcrKeys \<Rightarrow> BillBlock \<Rightarrow> (BillBlockPlaintextWrapper, BlockchainError) result" where
  "plaintext_step E bill_keys b =
     and_then (get_decrypted_block_bytes E b bill_keys) (\<lambda>bs.
     if bbl_plaintext_hash b \<noteq> hash_from_bytes (env_ext E) bs then Err BlockInvalid
     else Ok \<lparr>bpw_block = b, bpw_plaintext_data_bytes = bs\<rparr>)"

definition get_chain_with_plaintext_block_data ::
  "BillEnv \<Rightarrow> BillBlockchain \<Rightarrow> BcrKeys \<Rightarrow> (BillBlockPlaintextWrapper list, BlockchainError) result" where
  "get_chain_with_plaintext_block_data E c bill_keys =
     and_then (try_map (plaintext_step E bill_keys) (blocks c)) (\<lambda>ws.
     and_then (new_from_blocks E (map bpw_block ws)) (\<lambda>_. Ok ws))"

text \<open>The loop of \<^verbatim>\<open>holder_is_mint\<close> from the back: is there another holder after the mint block?\<close>

fun no_holder_after :: "BlockId \<Rightarrow> BillBlock list \<Rightarrow> bool" where
  "no_holder_after mint_block_id [] = True"
| "no_holder_after mint_block_id (b # bs) =
     (if bbl_id b \<le> mint_block_id then True
      else if bbl_op_code b = Endorse \<or> bbl_op_code b = Sell \<or> bbl_op_code b = Recourse then False
      else no_holder_after mint_block_id bs)"

definition holder_is_mint ::
  "BillEnv \<Rightarrow> BillBlockchain \<Rightarrow> BcrKeys \<Rightarrow> (BillParticipant option, BlockchainError) result" where
  "holder_is_mint E c bill_keys =
     (case bill_last_with_op E c Mint of
        Some mint_block \<Rightarrow>
          (if \<not> no_holder_after (bbl_id mint_block) (rev (blocks c)) then Ok None
           else and_then (get_decrypted_block E (c_mint E) mint_block bill_keys) (\<lambda>d.
             Ok (Some (participant_from_block_data (mnt_endorsee d)))))
      | None \<Rightarrow> Ok None)"

section \<open>Sharing a bill with an external party\<close>

record BillToShareWithExternalParty =
  bts_bill_id :: BillId
  bts_data :: string
  bts_file_urls :: "Url list"
  bts_hash :: Sha256Hash
  bts_signature :: SchnorrSignature
  bts_receiver :: PublicKey

definition get_unencrypted_data ::
  "BillEnv \<Rightarrow> BillBlockPlaintextWrapper list Codec \<Rightarrow> BillToShareWithExternalParty \<Rightarrow> SecretKey
     \<Rightarrow> (BillBlockPlaintextWrapper list, BlockchainError) result" where
  "get_unencrypted_data E C s private_key =
     and_then (ok_or (Base58Decode (bts_data s)) (x_base58_decode (env_ext E) (bts_data s))) (\<lambda>decoded.
     and_then (map_err Secp256k1Cryptography (decrypt_ecies (env_ext E) decoded private_key)) (\<lambda>decrypted.
     from_ext Io (from_slice C decrypted)))"

definition create_bill_to_share_with_external_party ::
  "BillEnv \<Rightarrow> BillBlockPlaintextWrapper list Codec \<Rightarrow> BillId \<Rightarrow> BillBlockchain \<Rightarrow> BcrKeys \<Rightarrow> PublicKey \<Rightarrow> BcrKeys
     \<Rightarrow> Url list \<Rightarrow> (BillToShareWithExternalParty, BlockchainError) result" where
  "create_bill_to_share_with_external_party E C bill_id c bill_keys external_pub_key sharer_keys file_urls =
     (let X = env_ext E in
      and_then (get_chain_with_plaintext_block_data E c bill_keys) (\<lambda>ws.
      and_then (from_ext Io (to_vec C ws)) (\<lambda>serialized.
      and_then (map_err Secp256k1Cryptography (encrypt_ecies X serialized external_pub_key)) (\<lambda>encrypted.
      and_then (map_err Secp256k1Cryptography
        (sig_sign X (hash_from_bytes X serialized) (get_private_key X sharer_keys))) (\<lambda>signature.
      Ok \<lparr>bts_bill_id = bill_id, bts_data = x_base58_encode X encrypted, bts_file_urls = file_urls,
          bts_hash = hash_from_bytes X serialized, bts_signature = signature,
          bts_receiver = external_pub_key\<rparr>)))))"

end
