(* ===== verification/Bill_Validation.thy ===== *)
theory Bill_Validation
  imports Bill_Chain
begin

text \<open>
  \<^verbatim>\<open>blockchain/bill/validation.rs\<close>: \<^verbatim>\<open>validate_bill_issue\<close> and the validation of a bill action against the
  state of the bill, with its two modes: deep validation computes the state from the chain, shallow
  validation takes precomputed values. Every arm of the \<^verbatim>\<open>match\<close> over the action is a definition.
\<close>

section \<open>Issuing a bill\<close>

record BillIssueData =
  bis_t :: u64
  bis_country_of_issuing :: Country
  bis_city_of_issuing :: City
  bis_issue_date :: Date
  bis_maturity_date :: Date
  bis_drawee :: NodeId
  bis_payee :: NodeId
  bis_sum :: Sum
  bis_country_of_payment :: Country
  bis_city_of_payment :: City
  bis_file_upload_ids :: "string list"
  bis_drawer_public_data :: BillParticipant
  bis_drawer_keys :: BcrKeys
  bis_timestamp :: Timestamp
  bis_blank_issue :: bool

definition validate_bill_issue :: "Ext \<Rightarrow> BillIssueData \<Rightarrow> (unit, ProtocolValidationError) result" where
  "validate_bill_issue X data =
     (case bis_drawer_public_data data of
        P_Anon _ \<Rightarrow> Err SignerCantBeAnon
      | P_Ident _ \<Rightarrow>
          and_then (date_to_timestamp X (bis_issue_date data)) (\<lambda>issue_date_ts.
          and_then (date_to_timestamp X (bis_maturity_date data)) (\<lambda>maturity_date_ts.
          and_then (start_of_day X (bis_timestamp data)) (\<lambda>start.
          seq (reject_if (maturity_date_ts < start) MaturityDateInThePast)
         (seq (reject_if (maturity_date_ts < issue_date_ts) IssueDateAfterMaturityDate)
              (reject_if (bis_drawee data = bis_payee data) DraweeCantBePayee))))))"

section \<open>The data of an action, and what it is checked against\<close>

record BillValidateActionData =
  bva_blockchain :: BillBlockchain
  bva_drawee_node_id :: NodeId
  bva_payee_node_id :: NodeId
  bva_endorsee_node_id :: "NodeId option"
  bva_maturity_date :: Date
  bva_bill_keys :: BcrKeys
  bva_timestamp :: Timestamp
  bva_signer_node_id :: NodeId
  bva_is_paid :: bool
  bva_mode :: BillValidationActionMode

definition holder_node_id :: "BillValidateActionData \<Rightarrow> NodeId" where
  "holder_node_id d =
     (case bva_endorsee_node_id d of None \<Rightarrow> bva_payee_node_id d | Some endorsee \<Rightarrow> endorsee)"

definition bill_action :: "BillValidateActionData \<Rightarrow> BillOpCode" where
  "bill_action d = (case bva_mode d of Deep a \<Rightarrow> action_op_code a | Shallow s \<Rightarrow> bsv_bill_action s)"

definition req_to_recourse_reason :: "BillValidateActionData \<Rightarrow> RecourseReason option" where
  "req_to_recourse_reason d =
     (case bva_mode d of
        Deep a \<Rightarrow> (case a of A_RequestRecourse _ reason _ \<Rightarrow> Some reason | _ \<Rightarrow> None)
      | Shallow s \<Rightarrow> bsv_recourse_reason s)"

definition op_exists :: "BillEnv \<Rightarrow> BillValidateActionData \<Rightarrow> BillOpCode \<Rightarrow> bool" where
  "op_exists E d op = bill_op_exists E (bva_blockchain d) op"

definition blockchain_err :: "BillEnv \<Rightarrow> ('a, BlockchainError) result \<Rightarrow> ('a, ProtocolValidationError) result" where
  "blockchain_err E r = map_err (\<lambda>e. Blockchain (x_error_text (env_ext E) e)) r"

definition past_endorsees ::
  "BillEnv \<Rightarrow> BillValidateActionData \<Rightarrow> (PastEndorsee list, ProtocolValidationError) result" where
  "past_endorsees E d =
     (case bva_mode d of
        Deep _ \<Rightarrow> blockchain_err E
          (get_past_endorsees_for_bill E (bva_blockchain d) (bva_bill_keys d) (bva_signer_node_id d))
      | Shallow s \<Rightarrow> Ok (bsv_past_endorsees s))"

definition waiting_for_offer_to_sell ::
  "BillEnv \<Rightarrow> BillValidateActionData \<Rightarrow> (OfferToSellWaitingForPayment, ProtocolValidationError) result" where
  "waiting_for_offer_to_sell E d =
     (case bva_mode d of
        Deep _ \<Rightarrow> blockchain_err E
          (is_last_offer_to_sell_block_waiting_for_payment E (bva_blockchain d) (bva_bill_keys d) (bva_timestamp d))
      | Shallow s \<Rightarrow> Ok (bsv_waiting_for_offer_to_sell s))"

definition bill_waiting_for_offer_to_sell ::
  "BillEnv \<Rightarrow> BillValidateActionData \<Rightarrow> (unit, ProtocolValidationError) result" where
  "bill_waiting_for_offer_to_sell E d =
     and_then (waiting_for_offer_to_sell E d) (\<lambda>w.
       case w of OTS_Yes _ \<Rightarrow> Err BillIsOfferedToSellAndWaitingForPayment | OTS_No \<Rightarrow> Ok ())"

definition waiting_for_recourse_payment ::
  "BillEnv \<Rightarrow> BillValidateActionData \<Rightarrow> (RecourseWaitingForPayment, ProtocolValidationError) result" where
  "waiting_for_recourse_payment E d =
     (case bva_mode d of
        Deep _ \<Rightarrow> blockchain_err E
          (is_last_request_to_recourse_block_waiting_for_payment E (bva_blockchain d) (bva_bill_keys d) (bva_timestamp d))
      | Shallow s \<Rightarrow> Ok (bsv_waiting_for_recourse_payment s))"

definition bill_waiting_for_recourse_payment ::
  "BillEnv \<Rightarrow> BillValidateActionData \<Rightarrow> (unit, ProtocolValidationError) result" where
  "bill_waiting_for_recourse_payment E d =
     and_then (waiting_for_recourse_payment E d) (\<lambda>w.
       case w of RCW_Yes _ \<Rightarrow> Err BillIsInRecourseAndWaitingForPayment | RCW_No \<Rightarrow> Ok ())"

definition bill_waiting_for_req_to_pay ::
  "BillEnv \<Rightarrow> BillValidateActionData \<Rightarrow> (unit, ProtocolValidationError) result" where
  "bill_waiting_for_req_to_pay E d =
     (case bva_mode d of
        Deep _ \<Rightarrow>
          and_then (get_latest_block (bva_blockchain d)) (\<lambda>latest.
          if bbl_op_code latest = RequestToPay then
            (case bill_last_with_op E (bva_blockchain d) RequestToPay of
               Some req_to_pay \<Rightarrow>
                 and_then (blockchain_err E
                   (is_req_to_pay_block_payment_expired E req_to_pay (bva_bill_keys d) (bva_timestamp d)))
                   (\<lambda>(is_expired, _, _).
                    reject_if (\<not> bva_is_paid d \<and> \<not> is_expired) BillIsRequestedToPayAndWaitingForPayment)
             | None \<Rightarrow> Ok ())
          else Ok ())
      | Shallow s \<Rightarrow>
          reject_if (bsv_is_waiting_for_req_to_pay s) BillIsRequestedToPayAndWaitingForPayment)"

definition bill_is_blocked :: "BillEnv \<Rightarrow> BillValidateActionData \<Rightarrow> (unit, ProtocolValidationError) result" where
  "bill_is_blocked E d =
     seq (bill_waiting_for_req_to_pay E d)
    (seq (bill_waiting_for_offer_to_sell E d)
         (bill_waiting_for_recourse_payment E d))"

text \<open>Has the given request to pay, or request to accept, expired: computed or precomputed.\<close>

definition req_to_pay_expired ::
  "BillEnv \<Rightarrow> BillValidateActionData \<Rightarrow> BillBlock \<Rightarrow> (bool, ProtocolValidationError) result" where
  "req_to_pay_expired E d req_to_pay =
     (case bva_mode d of
        Deep _ \<Rightarrow> and_then (blockchain_err E
          (is_req_to_pay_block_payment_expired E req_to_pay (bva_bill_keys d) (bva_timestamp d)))
          (\<lambda>(is_expired, _, _). Ok is_expired)
      | Shallow s \<Rightarrow> Ok (bsv_is_req_to_pay_expired s))"

definition req_to_accept_expired ::
  "BillEnv \<Rightarrow> BillValidateActionData \<Rightarrow> BillBlock \<Rightarrow> (bool, ProtocolValidationError) result" where
  "req_to_accept_expired E d req_to_accept =
     (case bva_mode d of
        Deep _ \<Rightarrow> and_then (blockchain_err E
          (is_req_to_accept_block_expired E req_to_accept (bva_bill_keys d) (bva_timestamp d)))
          (\<lambda>(is_expired, _). Ok is_expired)
      | Shallow s \<Rightarrow> Ok (bsv_is_req_to_accept_expired s))"

definition bill_can_only_be_recoursed ::
  "BillEnv \<Rightarrow> BillValidateActionData \<Rightarrow> (unit, ProtocolValidationError) result" where
  "bill_can_only_be_recoursed E d =
     (if bill_action d \<in> {Recourse, RequestRecourse, RejectToPayRecourse} then Ok ()
      else
        seq (reject_if (op_exists E d RejectToAccept) BillWasRejectedToAccept)
       (seq (reject_if (op_exists E d RejectToPay) BillWasRejectedToPay)
       (seq (case bill_last_with_op E (bva_blockchain d) RequestToPay of
               Some req_to_pay_block \<Rightarrow>
                 and_then (req_to_pay_expired E d req_to_pay_block) (\<lambda>is_expired.
                   reject_if (\<not> bva_is_paid d \<and> is_expired) BillPaymentExpired)
             | None \<Rightarrow> Ok ())
            (case bill_last_with_op E (bva_blockchain d) RequestToAccept of
               Some req_to_accept_block \<Rightarrow>
                 and_then (req_to_accept_expired E d req_to_accept_block) (\<lambda>is_expired.
                   reject_if (\<not> op_exists E d Accept \<and> is_expired) BillAcceptanceExpired)
             | None \<Rightarrow> Ok ()))))"

section \<open>The arms of the match over the action\<close>

definition caller_is_holder :: "BillValidateActionData \<Rightarrow> (unit, ProtocolValidationError) result" where
  "caller_is_holder d = reject_if (bva_signer_node_id d \<noteq> holder_node_id d) CallerIsNotHolder"

definition validate_accept :: "BillEnv \<Rightarrow> BillValidateActionData \<Rightarrow> (unit, ProtocolValidationError) result" where
  "validate_accept E d =
     seq (bill_is_blocked E d)
    (seq (bill_can_only_be_recoursed E d)
    (seq (reject_if (op_exists E d Accept) BillAlreadyAccepted)
         (reject_if (bva_drawee_node_id d \<noteq> bva_signer_node_id d) CallerIsNotDrawee)))"

definition validate_request_to_accept ::
  "BillEnv \<Rightarrow> BillValidateActionData \<Rightarrow> (unit, ProtocolValidationError) result" where
  "validate_request_to_accept E d =
     seq (bill_is_blocked E d)
    (seq (bill_can_only_be_recoursed E d)
    (seq (reject_if (op_exists E d Accept) BillAlreadyAccepted)
    (seq (reject_if (op_exists E d RequestToAccept) BillAlreadyRequestedToAccept)
         (caller_is_holder d))))"

definition validate_request_to_pay ::
  "BillEnv \<Rightarrow> BillValidateActionData \<Rightarrow> (unit, ProtocolValidationError) result" where
  "validate_request_to_pay E d =
     and_then (date_to_timestamp (env_ext E) (bva_maturity_date d)) (\<lambda>maturity.
     and_then (start_of_day (env_ext E) maturity) (\<lambda>start.
     seq (reject_if (bva_timestamp d < start) RequestToPayBeforeMaturityDate)
    (seq (bill_is_blocked E d)
    (seq (bill_can_only_be_recoursed E d)
         (caller_is_holder d)))))"

definition recoursee_is_past_holder ::
  "BillEnv \<Rightarrow> BillValidateActionData \<Rightarrow> (unit, ProtocolValidationError) result" where
  "recoursee_is_past_holder E d =
     (case bva_mode d of
        Deep a \<Rightarrow>
          (case a of
             A_RequestRecourse recoursee _ _ \<Rightarrow>
               and_then (past_endorsees E d) (\<lambda>past_holders.
                 reject_if (\<not> list_ex (\<lambda>h. bip_node_id (pe_pay_to_the_order_of h) = bip_node_id recoursee) past_holders)
                   RecourseeNotPastHolder)
           | _ \<Rightarrow> Err InvalidBillAction)
      | Shallow _ \<Rightarrow> Ok ())"

definition recourse_reason_is_valid ::
  "BillEnv \<Rightarrow> BillValidateActionData \<Rightarrow> (unit, ProtocolValidationError) result" where
  "recourse_reason_is_valid E d =
     (case req_to_recourse_reason d of
        None \<Rightarrow> Err InvalidBillAction
      | Some RR_Accept \<Rightarrow>
          (case bill_last_with_op E (bva_blockchain d) RequestToAccept of
             Some req_to_accept \<Rightarrow>
               and_then (req_to_accept_expired E d req_to_accept) (\<lambda>is_expired.
                 reject_if (\<not> is_expired \<and> \<not> op_exists E d RejectToAccept)
                   BillRequestToAcceptDidNotExpireAndWasNotRejected)
           | None \<Rightarrow>
               reject_if (\<not> op_exists E d RejectToAccept) BillRequestToAcceptDidNotExpireAndWasNotRejected)
      | Some (RR_Pay _) \<Rightarrow>
          (case bill_last_with_op E (bva_blockchain d) RequestToPay of
             Some req_to_pay \<Rightarrow>
               and_then (req_to_pay_expired E d req_to_pay) (\<lambda>is_expired.
                 reject_if (\<not> is_expired \<and> \<not> op_exists E d RejectToPay)
                   BillRequestToPayDidNotExpireAndWasNotRejected)
           | None \<Rightarrow> Err BillWasNotRequestedToPay))"

definition validate_request_recourse ::
  "BillEnv \<Rightarrow> BillValidateActionData \<Rightarrow> (unit, ProtocolValidationError) result" where
  "validate_request_recourse E d =
     seq (bill_is_blocked E d)
    (seq (caller_is_holder d)
    (seq (recoursee_is_past_holder E d)
         (recourse_reason_is_valid E d)))"

definition validate_recourse :: "BillEnv \<Rightarrow> BillValidateActionData \<Rightarrow> (unit, ProtocolValidationError) result" where
  "validate_recourse E d =
     seq (bill_waiting_for_req_to_pay E d)
    (seq (bill_waiting_for_offer_to_sell E d)
    (seq (caller_is_holder d)
         (and_then (waiting_for_recourse_payment E d) (\<lambda>w.
            case w of
              RCW_Yes payment_info \<Rightarrow>
                (case bva_mode d of
                   Deep a \<Rightarrow>
                     (case a of
                        A_Recourse recoursee \<Rightarrow>
                          reject_if (bipd_node_id (rpi_recoursee payment_info) \<noteq> bip_node_id recoursee
                              \<or> bpd_node_id (rpi_recourser payment_info) \<noteq> bva_signer_node_id d)
                            BillRecourseDataInvalid
                      | _ \<Rightarrow> Err InvalidBillAction)
                 | Shallow _ \<Rightarrow> Ok ())
            | RCW_No \<Rightarrow> Err BillIsNotRequestedToRecourseAndWaitingForPayment))))"

definition validate_mint :: "BillEnv \<Rightarrow> BillValidateActionData \<Rightarrow> (unit, ProtocolValidationError) result" where
  "validate_mint E d =
     seq (bill_is_blocked E d)
    (seq (bill_can_only_be_recoursed E d)
    (seq (reject_if (\<not> op_exists E d Accept) BillNotAccepted)
         (caller_is_holder d)))"

definition validate_offer_to_sell :: "BillEnv \<Rightarrow> BillValidateActionData \<Rightarrow> (unit, ProtocolValidationError) result" where
  "validate_offer_to_sell E d =
     seq (bill_is_blocked E d)
    (seq (bill_can_only_be_recoursed E d)
         (caller_is_holder d))"

text \<open>The arm for \<^verbatim>\<open>Sell\<close> takes \<^verbatim>\<open>if let Ok(Yes(..))\<close>: an error of the lookup is treated as not waiting.\<close>

definition validate_sell :: "BillEnv \<Rightarrow> BillValidateActionData \<Rightarrow> (unit, ProtocolValidationError) result" where
  "validate_sell E d =
     seq (bill_waiting_for_recourse_payment E d)
    (seq (bill_waiting_for_req_to_pay E d)
    (seq (bill_can_only_be_recoursed E d)
    (seq (caller_is_holder d)
         (case waiting_for_offer_to_sell E d of
            Ok (OTS_Yes payment_info) \<Rightarrow>
              (case bva_mode d of
                 Deep a \<Rightarrow>
                   (case a of
                      A_Sell buyer \<Rightarrow>
                        reject_if (bp_node_id (spi_buyer payment_info) \<noteq> bp_node_id buyer
                            \<or> bp_node_id (spi_seller payment_info) \<noteq> bva_signer_node_id d)
                          BillSellDataInvalid
                    | _ \<Rightarrow> Err InvalidBillAction)
               | Shallow _ \<Rightarrow> Ok ())
          | Panic \<Rightarrow> Panic
          | _ \<Rightarrow> Err BillIsNotOfferToSellWaitingForPayment))))"

definition validate_endorse :: "BillEnv \<Rightarrow> BillValidateActionData \<Rightarrow> (unit, ProtocolValidationError) result" where
  "validate_endorse E d =
     seq (bill_is_blocked E d)
    (seq (bill_can_only_be_recoursed E d)
         (caller_is_holder d))"

definition validate_reject_to_accept :: "BillEnv \<Rightarrow> BillValidateActionData \<Rightarrow> (unit, ProtocolValidationError) result" where
  "validate_reject_to_accept E d =
     seq (bill_is_blocked E d)
    (seq (bill_can_only_be_recoursed E d)
    (seq (reject_if (bva_signer_node_id d \<noteq> bva_drawee_node_id d) CallerIsNotDrawee)
         (reject_if (op_exists E d Accept) BillAlreadyAccepted)))"

definition validate_reject_to_buy :: "BillEnv \<Rightarrow> BillValidateActionData \<Rightarrow> (unit, ProtocolValidationError) result" where
  "validate_reject_to_buy E d =
     seq (bill_waiting_for_recourse_payment E d)
    (seq (bill_waiting_for_req_to_pay E d)
    (seq (bill_can_only_be_recoursed E d)
         (and_then (get_latest_block (bva_blockchain d)) (\<lambda>latest.
     seq (reject_if (RejectToBuy = bbl_op_code latest) RequestAlreadyRejected)
         (and_then (waiting_for_offer_to_sell E d) (\<lambda>w.
            case w of
              OTS_Yes payment_info \<Rightarrow>
                reject_if (bva_signer_node_id d \<noteq> bp_node_id (spi_buyer payment_info)) CallerIsNotBuyer
            | OTS_No \<Rightarrow> Err BillWasNotOfferedToSell))))))"

definition validate_reject_to_pay :: "BillEnv \<Rightarrow> BillValidateActionData \<Rightarrow> (unit, ProtocolValidationError) result" where
  "validate_reject_to_pay E d =
     seq (bill_waiting_for_offer_to_sell E d)
    (seq (bill_waiting_for_recourse_payment E d)
    (seq (bill_can_only_be_recoursed E d)
    (seq (reject_if (bva_signer_node_id d \<noteq> bva_drawee_node_id d) CallerIsNotDrawee)
         (reject_if (\<not> op_exists E d RequestToPay) BillWasNotRequestedToPay))))"

definition validate_reject_to_pay_recourse ::
  "BillEnv \<Rightarrow> BillValidateActionData \<Rightarrow> (unit, ProtocolValidationError) result" where
  "validate_reject_to_pay_recourse E d =
     seq (bill_waiting_for_offer_to_sell E d)
    (seq (bill_waiting_for_req_to_pay E d)
         (and_then (get_latest_block (bva_blockchain d)) (\<lambda>latest.
     seq (reject_if (RejectToPayRecourse = bbl_op_code latest) RequestAlreadyRejected)
         (and_then (waiting_for_recourse_payment E d) (\<lambda>w.
            case w of
              RCW_Yes payment_info \<Rightarrow>
                reject_if (bva_signer_node_id d \<noteq> bipd_node_id (rpi_recoursee payment_info)) CallerIsNotRecoursee
            | RCW_No \<Rightarrow> Err BillWasNotRequestedToRecourse)))))"

section \<open>\<^verbatim>\<open>impl Validate for BillValidateActionData\<close>\<close>

definition not_recoursed_to_the_end ::
  "BillEnv \<Rightarrow> BillValidateActionData \<Rightarrow> (unit, ProtocolValidationError) result" where
  "not_recoursed_to_the_end E d =
     (if op_exists E d Recourse \<and> bill_action d \<noteq> RejectToPayRecourse then
        and_then (past_endorsees E d) (\<lambda>past_holders. reject_if (past_holders = []) BillWasRecoursedToTheEnd)
      else Ok ())"

definition validate_action :: "BillEnv \<Rightarrow> BillValidateActionData \<Rightarrow> (unit, ProtocolValidationError) result" where
  "validate_action E d =
     seq (reject_if (bva_is_paid d) BillAlreadyPaid)
    (seq (not_recoursed_to_the_end E d)
         (case bill_action d of
            Accept \<Rightarrow> validate_accept E d
          | RequestToAccept \<Rightarrow> validate_request_to_accept E d
          | RequestToPay \<Rightarrow> validate_request_to_pay E d
          | RequestRecourse \<Rightarrow> validate_request_recourse E d
          | Recourse \<Rightarrow> validate_recourse E d
          | Mint \<Rightarrow> validate_mint E d
          | OfferToSell \<Rightarrow> validate_offer_to_sell E d
          | Sell \<Rightarrow> validate_sell E d
          | Endorse \<Rightarrow> validate_endorse E d
          | RejectToAccept \<Rightarrow> validate_reject_to_accept E d
          | RejectToBuy \<Rightarrow> validate_reject_to_buy E d
          | RejectToPay \<Rightarrow> validate_reject_to_pay E d
          | RejectToPayRecourse \<Rightarrow> validate_reject_to_pay_recourse E d
          | Issue \<Rightarrow> Err InvalidBillAction))"

end
