(* ===== verification/Chain_Fork.thy ===== *)
theory Chain_Fork
  imports Bill_Block
begin

text \<open>
  Fork resolution between a local and a remote chain
  (\<^verbatim>\<open>bcr-ebill-transport/src/handler/public_chain_helpers.rs\<close>). The lemmas show that the preference
  between two chains is asymmetric and decides every pair of chains with different tips, and that
  cutting the local chain at the fork point and taking over the remote blocks gives a valid chain.
\<close>

section \<open>Preference and fork point\<close>

definition remote_preferred :: "('b, 'op, 'd) BlockOps \<Rightarrow> 'b list \<Rightarrow> 'b list \<Rightarrow> bool" where
  "remote_preferred Bl local remote =
     (if length remote \<noteq> length local then length local < length remote
      else case (last_opt remote, last_opt local) of
        (Some remote_tip, Some local_tip) \<Rightarrow>
          (if blk_timestamp Bl remote_tip < blk_timestamp Bl local_tip then True
           else if blk_timestamp Bl local_tip < blk_timestamp Bl remote_tip then False
           else blk_hash Bl remote_tip < blk_hash Bl local_tip)
      | (Some _, None) \<Rightarrow> True
      | _ \<Rightarrow> False)"

text \<open>The loop over the local blocks; \<open>prev\<close> is \<^verbatim>\<open>local[i - 1]\<close>, absent for \<^verbatim>\<open>i == 0\<close>.\<close>

fun fork_loop :: "('b, 'op, 'd) BlockOps \<Rightarrow> 'b option \<Rightarrow> 'b list \<Rightarrow> 'b list \<Rightarrow> bool \<times> BlockId option" where
  "fork_loop Bl prev [] remote = (True, None)"
| "fork_loop Bl prev (local_block # ls) [] = (False, None)"
| "fork_loop Bl prev (local_block # ls) (remote_block # rs) =
     (if blk_hash Bl local_block \<noteq> blk_hash Bl remote_block then
        (if (case prev of None \<Rightarrow> False | Some p \<Rightarrow> blk_previous_hash Bl remote_block = blk_hash Bl p)
         then (True, Some (blk_id Bl local_block))
         else (False, None))
      else fork_loop Bl (Some local_block) ls rs)"

definition resolve_fork :: "('b, 'op, 'd) BlockOps \<Rightarrow> 'b list \<Rightarrow> 'b list \<Rightarrow> bool \<times> BlockId option" where
  "resolve_fork Bl local remote =
     (if \<not> remote_preferred Bl local remote then (False, None) else fork_loop Bl None local remote)"

definition is_fork_block :: "('b, 'op, 'd) BlockOps \<Rightarrow> 'b \<Rightarrow> 'b \<Rightarrow> bool" where
  "is_fork_block Bl local remote =
     (blk_id Bl remote = blk_id Bl local \<and> blk_hash Bl remote \<noteq> blk_hash Bl local \<and>
      (blk_timestamp Bl remote < blk_timestamp Bl local \<or>
       (blk_timestamp Bl remote = blk_timestamp Bl local \<and> blk_hash Bl remote < blk_hash Bl local)))"

definition find_first_difference :: "BillBlock list \<Rightarrow> BillBlock list \<Rightarrow> BlockId option" where
  "find_first_difference local remote =
     (case find (\<lambda>(l, r). bbl_id l \<noteq> bbl_id r \<or> bbl_hash l \<noteq> bbl_hash r) (zip local remote) of
        Some (l, r) \<Rightarrow> Some (bbl_id l)
      | None \<Rightarrow> (if length remote < length local then Some (bbl_id (local ! length remote)) else None))"

section \<open>Facts\<close>

lemma remote_preferred_asym: "remote_preferred Bl a b \<Longrightarrow> \<not> remote_preferred Bl b a"
  by (auto simp: remote_preferred_def last_opt_def split: if_splits option.splits)

lemma remote_preferred_total:
  assumes "a \<noteq> []" "b \<noteq> []" and "length a \<noteq> length b \<or> blk_hash Bl (last a) \<noteq> blk_hash Bl (last b)"
  shows "remote_preferred Bl a b \<or> remote_preferred Bl b a"
  using assms by (auto simp: remote_preferred_def last_opt_def not_less_iff_gr_or_eq)

lemma remote_preferred_trans:
  assumes "remote_preferred Bl a b" and "remote_preferred Bl b c"
  shows "remote_preferred Bl a c"
  using assms by (auto simp: remote_preferred_def last_opt_def split: if_splits)

lemma resolve_fork_asym: "fst (resolve_fork Bl a b) \<Longrightarrow> resolve_fork Bl b a = (False, None)"
  using remote_preferred_asym [of Bl a b] by (auto simp: resolve_fork_def split: if_splits)

lemma is_fork_block_asym: "is_fork_block Bl a b \<Longrightarrow> \<not> is_fork_block Bl b a"
  by (auto simp: is_fork_block_def)

text \<open>Where the loop finds a fork point, the chains have the same hashes before it.\<close>

lemma fork_loop_point:
  assumes "fork_loop Bl prev ls rs = (True, Some i)"
  shows "\<exists>n. n < length ls \<and> n < length rs \<and> blk_id Bl (ls ! n) = i \<and>
           map (blk_hash Bl) (take n ls) = map (blk_hash Bl) (take n rs) \<and>
           blk_hash Bl (ls ! n) \<noteq> blk_hash Bl (rs ! n) \<and>
           (n = 0 \<longrightarrow> (\<exists>p. prev = Some p \<and> blk_previous_hash Bl (rs ! n) = blk_hash Bl p)) \<and>
           (0 < n \<longrightarrow> blk_previous_hash Bl (rs ! n) = blk_hash Bl (ls ! (n - 1)))"
  using assms
proof (induction Bl prev ls rs rule: fork_loop.induct)
  case (3 Bl prev l ls r rs)
  show ?case
  proof (cases "blk_hash Bl l = blk_hash Bl r")
    case True
    with "3.prems" have "fork_loop Bl (Some l) ls rs = (True, Some i)" by simp
    from "3.IH" [OF _ this] True obtain n where n: "n < length ls" "n < length rs" "blk_id Bl (ls ! n) = i"
      "map (blk_hash Bl) (take n ls) = map (blk_hash Bl) (take n rs)" "blk_hash Bl (ls ! n) \<noteq> blk_hash Bl (rs ! n)"
      "n = 0 \<longrightarrow> blk_previous_hash Bl (rs ! n) = blk_hash Bl l"
      "0 < n \<longrightarrow> blk_previous_hash Bl (rs ! n) = blk_hash Bl (ls ! (n - 1))"
      by auto
    then show ?thesis using True by (intro exI [of _ "Suc n"]) (cases n; simp)
  next
    case False
    with "3.prems" show ?thesis by (intro exI [of _ 0]) (auto split: if_splits option.splits)
  qed
qed simp_all

lemma fork_loop_extends:
  assumes "fork_loop Bl prev ls rs = (True, None)"
  shows "length ls \<le> length rs \<and> map (blk_hash Bl) ls = map (blk_hash Bl) (take (length ls) rs)"
  using assms by (induction Bl prev ls rs rule: fork_loop.induct) (auto split: if_splits)

lemma resolve_fork_point:
  assumes "resolve_fork Bl ls rs = (True, Some i)"
  obtains n where "0 < n" "n < length ls" "n < length rs" "blk_id Bl (ls ! n) = i"
    "map (blk_hash Bl) (take n ls) = map (blk_hash Bl) (take n rs)" "blk_hash Bl (ls ! n) \<noteq> blk_hash Bl (rs ! n)"
    "blk_previous_hash Bl (rs ! n) = blk_hash Bl (ls ! (n - 1))"
proof -
  from assms have "fork_loop Bl None ls rs = (True, Some i)"
    by (auto simp: resolve_fork_def split: if_splits)
  from fork_loop_point [OF this] obtain n where "n < length ls" "n < length rs" "blk_id Bl (ls ! n) = i"
    "map (blk_hash Bl) (take n ls) = map (blk_hash Bl) (take n rs)" "blk_hash Bl (ls ! n) \<noteq> blk_hash Bl (rs ! n)"
    "0 < n" "blk_previous_hash Bl (rs ! n) = blk_hash Bl (ls ! (n - 1))"
    by auto
  then show ?thesis using that by blast
qed

text \<open>
  Cutting the local chain at the fork point and appending the remote blocks from there on gives a
  valid chain, when the blocks before the fork point have the same content where they have the same
  hash.
\<close>

lemma linked_cong:
  assumes "linked Bl X p b" and "blk_hash Bl q = blk_hash Bl p" "blk_timestamp Bl q = blk_timestamp Bl p" "blk_id Bl q = blk_id Bl p"
  shows "linked Bl X q b"
  using assms by (simp add: linked_iff)

lemma replace_tail_valid:
  assumes loc: "successively (linked Bl X) ls" and rem: "successively (linked Bl X) rs"
    and n: "0 < n" "n < length ls" "n < length rs"
    and same: "blk_hash Bl (ls ! (n - 1)) = blk_hash Bl (rs ! (n - 1))"
      "blk_timestamp Bl (ls ! (n - 1)) = blk_timestamp Bl (rs ! (n - 1))"
      "blk_id Bl (ls ! (n - 1)) = blk_id Bl (rs ! (n - 1))"
  shows "successively (linked Bl X) (take n ls @ drop n rs)"
proof -
  have "successively (linked Bl X) (take n ls)" "successively (linked Bl X) (drop n rs)"
    using loc rem by (metis append_take_drop_id successively_append_iff)+
  moreover have "linked Bl X (rs ! (n - 1)) (rs ! Suc (n - 1))"
    using rem n unfolding successively_conv_nth by (elim allE [of _ "n - 1"]) simp
  then have "linked Bl X (ls ! (n - 1)) (rs ! n)"
    using same n(1) by (simp add: linked_cong)
  moreover have "last (take n ls) = ls ! (n - 1)" "hd (drop n rs) = rs ! n"
    using n by (subst last_conv_nth, auto simp: min_def hd_drop_conv_nth)
  ultimately show ?thesis by (simp add: successively_append_iff)
qed

lemma fork_resolution_valid:
  assumes fork: "resolve_fork Bl (blocks c) (blocks r) = (True, Some i)"
    and loc: "is_chain_valid Bl X c = Ok True" and rem: "is_chain_valid Bl X r = Ok True"
    and bound: "unat (bid_inner (blk_id Bl (hd (blocks c)))) + length (blocks c) \<le> 2 ^ 64"
    and same: "\<And>a b. a \<in> set (blocks c) \<Longrightarrow> b \<in> set (blocks r) \<Longrightarrow> blk_hash Bl a = blk_hash Bl b \<Longrightarrow>
       blk_timestamp Bl a = blk_timestamp Bl b \<and> blk_id Bl a = blk_id Bl b"
  shows "\<exists>n. blocks (truncate_from Bl c i) = take n (blocks c) \<and>
           is_chain_valid Bl X \<lparr>blocks = blocks (truncate_from Bl c i) @ drop n (blocks r)\<rparr> = Ok True \<and>
           length (blocks (truncate_from Bl c i) @ drop n (blocks r)) = length (blocks r) \<and>
           last (blocks (truncate_from Bl c i) @ drop n (blocks r)) = last (blocks r)"
proof -
  let ?ls = "blocks c" and ?rs = "blocks r"
  from fork obtain n where n: "0 < n" "n < length ?ls" "n < length ?rs" "blk_id Bl (?ls ! n) = i"
    and hashes: "map (blk_hash Bl) (take n ?ls) = map (blk_hash Bl) (take n ?rs)"
    by (rule resolve_fork_point)
  have v: "successively (linked Bl X) ?ls" "successively (linked Bl X) ?rs"
    using loc rem by (simp_all add: is_chain_valid_iff)
  have cut: "blocks (truncate_from Bl c i) = take n ?ls"
    using truncate_from_take [OF v(1) n(2) bound] n(4) by simp
  have "map (blk_hash Bl) (take n ?ls) ! (n - 1) = map (blk_hash Bl) (take n ?rs) ! (n - 1)"
    using hashes by simp
  then have h: "blk_hash Bl (?ls ! (n - 1)) = blk_hash Bl (?rs ! (n - 1))"
    using n by simp
  have "blk_timestamp Bl (?ls ! (n - 1)) = blk_timestamp Bl (?rs ! (n - 1)) \<and> blk_id Bl (?ls ! (n - 1)) = blk_id Bl (?rs ! (n - 1))"
    using n by (intro same [OF _ _ h]) simp_all
  with replace_tail_valid [OF v n(1,2,3) h] have "successively (linked Bl X) (take n ?ls @ drop n ?rs)" by simp
  then show ?thesis
    using n by (intro exI [of _ n]) (simp add: cut is_chain_valid_iff)
qed

text \<open>No difference is found iff the remote chain continues the local one.\<close>

lemma find_first_difference_None:
  "find_first_difference local remote = None \<longleftrightarrow>
     length local \<le> length remote \<and>
     (\<forall>i < length local. bbl_id (local ! i) = bbl_id (remote ! i) \<and> bbl_hash (local ! i) = bbl_hash (remote ! i))"
proof -
  have "find (\<lambda>(l, r). bbl_id l \<noteq> bbl_id r \<or> bbl_hash l \<noteq> bbl_hash r) (zip local remote) = None \<longleftrightarrow>
      (\<forall>i < min (length local) (length remote).
         bbl_id (local ! i) = bbl_id (remote ! i) \<and> bbl_hash (local ! i) = bbl_hash (remote ! i))"
    by (auto simp: find_None_iff set_zip)
  then show ?thesis by (auto simp: find_first_difference_def split: option.splits)
qed

end
