(* ===== verification/Bill_Processor.thy ===== *)
theory Bill_Processor
  imports Bill_Validation Chain_Fork
begin

text \<open>
  The processor for received bill blocks
  (\<^verbatim>\<open>bcr-ebill-transport/src/handler/bill_chain_event_processor.rs\<close>): the checks that a block passes
  before it is added to a chain, and the checks on a new chain. The mint, the configured network and
  the texts of errors are fields of \<open>ProcEnv\<close>. A function that takes \<^verbatim>\<open>&mut BillBlockchain\<close> returns the
  chain next to its outcome, also when it fails. The block store keeps one list of blocks per bill.
\<close>

section \<open>Environment\<close>

datatype TransportError =
    T_Network string | T_Message string | T_Persistence string | T_Blockchain string | T_Crypto string
  | T_Validation ProtocolValidationError | T_NotFound

record ProcEnv =
  proc_bill :: BillEnv
  proc_bitcoin_network :: Network \<comment> \<open>\<^verbatim>\<open>get_config().bitcoin_network()\<close>\<close>
  proc_mint_url :: Url \<comment> \<open>\<^verbatim>\<open>get_config().mint_config.default_mint_url\<close>\<close>
  proc_validate_mint_address :: "Url \<Rightarrow> BitcoinAddress \<Rightarrow> BillId \<Rightarrow> BlockId \<Rightarrow> Sha256Hash \<Rightarrow> string + unit"
    \<comment> \<open>the mint client\<close>
  proc_crypto_text :: "CryptoError \<Rightarrow> string" \<comment> \<open>\<^verbatim>\<open>Display\<close> of crypto errors\<close>
  proc_validation_text :: "ProtocolValidationError \<Rightarrow> string" \<comment> \<open>\<^verbatim>\<open>Display\<close> of validation errors\<close>
  proc_transport_text :: "TransportError \<Rightarrow> string" \<comment> \<open>\<^verbatim>\<open>Display\<close> of transport errors\<close>

definition chain_err :: "ProcEnv \<Rightarrow> ('a, BlockchainError) result \<Rightarrow> ('a, TransportError) result" where
  "chain_err P r = map_err (\<lambda>e. T_Blockchain (x_error_text (env_ext (proc_bill P)) e)) r"

text \<open>\<^verbatim>\<open>From<crypto::Error> for Error\<close>.\<close>

definition crypto_err :: "ProcEnv \<Rightarrow> ('a, CryptoError) result \<Rightarrow> ('a, TransportError) result" where
  "crypto_err P r = map_err (\<lambda>e. T_Crypto (''Failed crypto operation: '' @ proc_crypto_text P e)) r"

section \<open>Payment addresses of requests\<close>

definition validate_payment_address_for_payment_request ::
  "ProcEnv \<Rightarrow> BillId \<Rightarrow> BillOpCode \<Rightarrow> BlockId \<Rightarrow> Sha256Hash \<Rightarrow> PublicKey \<Rightarrow> PublicKey \<Rightarrow> Network
     \<Rightarrow> BitcoinAddress \<Rightarrow> BillParticipant option \<Rightarrow> (unit, TransportError) result" where
  "validate_payment_address_for_payment_request P bill_id payment_op block_id previous_hash bill_pub_key
       caller_pub_key btc_network address_to_check mint_holder =
     (let X = env_ext (proc_bill P) in
      if mint_holder \<noteq> None \<and> payment_op = RequestToPay then
        seq (reject_if (\<not> x_address_valid_for X address_to_check btc_network)
               (T_Crypto ''Wrong Network for mint payment address''))
            (from_ext (\<lambda>_. T_Crypto ''Invalid mint payment address'')
               (proc_validate_mint_address P (proc_mint_url P) address_to_check bill_id block_id previous_hash))
      else
        and_then (crypto_err P (calculate_tweak_hash_for_payment_request X payment_op block_id previous_hash)) (\<lambda>tweak.
        and_then (crypto_err P (get_address_to_pay X bill_pub_key caller_pub_key tweak btc_network)) (\<lambda>addr.
        reject_if (addr \<noteq> address_to_check)
          (T_Crypto (''Payment Addresses don't match - derived: '' @ addr @ '', to check: '' @ address_to_check)))))"

section \<open>Validating a received block\<close>

text \<open>The checks before the chain is changed: \<^verbatim>\<open>None\<close> means that the block is skipped.\<close>

definition block_invalid_text :: "BillBlock \<Rightarrow> BillId \<Rightarrow> string \<Rightarrow> TransportError" where
  "block_invalid_text b bill_id reason =
     T_Blockchain (''Received invalid block '' @ nat_to_string (unat (bid_inner (bbl_id b))) @ '' for bill ''
       @ bill_id @ '' - '' @ reason)"

definition validate_block_before_add ::
  "ProcEnv \<Rightarrow> BillId \<Rightarrow> BillBlockchain \<Rightarrow> BcrKeys \<Rightarrow> BillBlock
     \<Rightarrow> (BillParticipant option option, TransportError) result" where
  "validate_block_before_add P bill_id chain bill_keys block =
     (let E = proc_bill P in
      and_then (get_latest_block chain) (\<lambda>latest.
      if bbl_id block \<le> bbl_id latest then Ok None
      else if bbl_op_code block = Issue then Ok None
      else seq (reject_if (\<not> validate_plaintext_hash E block (get_private_key (env_ext E) bill_keys))
                  (block_invalid_text block bill_id ''invalid plaintext hash''))
               (and_then (chain_err P (holder_is_mint E chain bill_keys)) (\<lambda>mint_holder. Ok (Some mint_holder)))))"

text \<open>The address check of the three requests for funds.\<close>

definition validate_block_payment_address ::
  "ProcEnv \<Rightarrow> BillId \<Rightarrow> BillBlockchain \<Rightarrow> BcrKeys \<Rightarrow> BillBlock \<Rightarrow> NodeId \<Rightarrow> BillParticipant option
     \<Rightarrow> (unit, TransportError) result" where
  "validate_block_payment_address P bill_id chain bill_keys block signer mint_holder =
     (let E = proc_bill P; X = env_ext E;
          check = (\<lambda>latest address mint.
            map_err (\<lambda>e. T_Blockchain (proc_transport_text P e))
              (validate_payment_address_for_payment_request P bill_id (bbl_op_code block) (bbl_id block)
                (bbl_hash latest) (pub_key X bill_keys) (x_node_pub_key X signer) (proc_bitcoin_network P)
                address mint)) in
      and_then (get_latest_block chain) (\<lambda>latest.
      case bbl_op_code block of
        RequestToPay \<Rightarrow> and_then (chain_err P (get_decrypted_block E (c_request_to_pay E) block bill_keys)) (\<lambda>data.
          check latest (pay_payment_address (rtp_payment_data data)) mint_holder)
      | OfferToSell \<Rightarrow> and_then (chain_err P (get_decrypted_block E (c_offer_to_sell E) block bill_keys)) (\<lambda>data.
          check latest (pay_payment_address (ots_payment_data data)) None)
      | RequestRecourse \<Rightarrow> and_then (chain_err P (get_decrypted_block E (c_request_recourse E) block bill_keys)) (\<lambda>data.
          check latest (pay_payment_address (rrc_payment_data data)) None)
      | _ \<Rightarrow> Ok ()))"

definition action_data_for ::
  "BillBlockchain \<Rightarrow> BillParties \<Rightarrow> BillIssueBlockData \<Rightarrow> BcrKeys \<Rightarrow> BillBlock \<Rightarrow> NodeId \<Rightarrow> bool \<Rightarrow> BillAction
     \<Rightarrow> BillValidateActionData" where
  "action_data_for chain parties bill_first_version bill_keys block signer is_paid action =
     \<lparr>bva_blockchain = chain,
      bva_drawee_node_id = bipd_node_id (bps_drawee parties),
      bva_payee_node_id = bpd_node_id (bps_payee parties),
      bva_endorsee_node_id = map_option bpd_node_id (bps_endorsee parties),
      bva_maturity_date = iss_maturity_date bill_first_version,
      bva_bill_keys = bill_keys,
      bva_timestamp = bbl_timestamp block,
      bva_signer_node_id = signer,
      bva_is_paid = is_paid,
      bva_mode = Deep action\<rparr>"

text \<open>
  The checks after the integrity check: signer, payment address, action. \<open>chain\<close> is the clone of the
  chain from before the block was added.
\<close>

definition validate_block_after_add ::
  "ProcEnv \<Rightarrow> BillId \<Rightarrow> BillBlockchain \<Rightarrow> BillIssueBlockData \<Rightarrow> BcrKeys \<Rightarrow> BillBlock \<Rightarrow> bool
     \<Rightarrow> BillParticipant option \<Rightarrow> (bool, TransportError) result" where
  "validate_block_after_add P bill_id chain bill_first_version bill_keys block is_paid mint_holder =
     (let E = proc_bill P in
      and_then (chain_err P (verify_and_get_signer E block bill_keys)) (\<lambda>(signer, bill_action).
      seq (validate_block_payment_address P bill_id chain bill_keys block signer mint_holder)
     (and_then (map_err (\<lambda>_. T_Blockchain ''Received invalid block for bill - couldn't get bill parties'')
        (get_bill_parties E chain bill_keys bill_first_version)) (\<lambda>parties.
      and_then (ok_or (T_Blockchain ''Received invalid block for bill - no valid bill action returned'') bill_action) (\<lambda>action.
      and_then (map_err (\<lambda>e. T_Blockchain (proc_validation_text P e))
        (validate_action E (action_data_for chain parties bill_first_version bill_keys block signer is_paid action))) (\<lambda>_.
      Ok True))))))"

definition validate_block_for_chain ::
  "ProcEnv \<Rightarrow> BillId \<Rightarrow> BillBlockchain \<Rightarrow> BillIssueBlockData \<Rightarrow> BcrKeys \<Rightarrow> BillBlock \<Rightarrow> bool
     \<Rightarrow> (bool, TransportError) result \<times> BillBlockchain" where
  "validate_block_for_chain P bill_id chain bill_first_version bill_keys block is_paid =
     (let E = proc_bill P in
      case validate_block_before_add P bill_id chain bill_keys block of
        Ok None \<Rightarrow> (Ok False, chain)
      | Ok (Some mint_holder) \<Rightarrow>
          (case try_add_block (bill_ops E) (env_ext E) chain block of
             Ok (True, chain') \<Rightarrow>
               (validate_block_after_add P bill_id chain bill_first_version bill_keys block is_paid mint_holder, chain')
           | Ok (False, chain') \<Rightarrow> (Err (T_Blockchain ''Received invalid block for bill''), chain')
           | _ \<Rightarrow> (Panic, chain))
      | Err e \<Rightarrow> (Err e, chain)
      | Panic \<Rightarrow> (Panic, chain))"

fun validate_blocks_for_chain ::
  "ProcEnv \<Rightarrow> BillId \<Rightarrow> BillBlockchain \<Rightarrow> BillBlock list \<Rightarrow> BcrKeys \<Rightarrow> BillIssueBlockData \<Rightarrow> bool
     \<Rightarrow> (unit, TransportError) result \<times> BillBlockchain" where
  "validate_blocks_for_chain P bill_id chain [] bill_keys bill_first_version is_paid = (Ok (), chain)"
| "validate_blocks_for_chain P bill_id chain (block # bs) bill_keys bill_first_version is_paid =
     (case validate_block_for_chain P bill_id chain bill_first_version bill_keys block is_paid of
        (Ok _, chain') \<Rightarrow> validate_blocks_for_chain P bill_id chain' bs bill_keys bill_first_version is_paid
      | (Err e, chain') \<Rightarrow> (Err e, chain')
      | (Panic, chain') \<Rightarrow> (Panic, chain'))"

section \<open>New chains\<close>

definition get_valid_chain ::
  "ProcEnv \<Rightarrow> BillBlock list \<Rightarrow> BcrKeys \<Rightarrow> (BillId \<times> BillIssueBlockData \<times> BillBlockchain, TransportError) result" where
  "get_valid_chain P bs keys =
     (let E = proc_bill P; invalid = T_Blockchain ''Newly received chain is not valid'' in
      and_then (map_err (\<lambda>_. invalid) (new_from_blocks E bs)) (\<lambda>chain.
      and_then (map_err (\<lambda>_. invalid) (is_chain_valid (bill_ops E) (env_ext E) chain)) (\<lambda>valid.
      seq (reject_if (\<not> valid) invalid)
     (and_then (get_first_block chain) (\<lambda>first.
      seq (reject_if (bbl_op_code first \<noteq> Issue)
             (T_Blockchain ''Newly received chain is not valid - first block is not an Issue block''))
     (and_then (map_err (\<lambda>e. T_Crypto (''Failed to decrypt new bill chain with given keys: ''
          @ x_error_text (env_ext E) e)) (get_first_version_bill E chain keys)) (\<lambda>bill.
      and_then (try_map (\<lambda>b. chain_err P (verify_and_get_signer E b keys)) (blocks chain)) (\<lambda>_.
      Ok (iss_id bill, bill, chain)))))))))"

text \<open>
  Writing to the block store may fail. \<open>store_add\<close> is the store's \<^verbatim>\<open>add_block\<close>; \<open>save_block\<close> maps its error.
\<close>

type_synonym 's store_add = "'s \<Rightarrow> BillId \<Rightarrow> BillBlock \<Rightarrow> (unit, string) result \<times> 's"

definition save_block :: "'s store_add \<Rightarrow> 's \<Rightarrow> BillId \<Rightarrow> BillBlock \<Rightarrow> (unit, TransportError) result \<times> 's" where
  "save_block add st bill_id block =
     (case add st bill_id block of (r, st') \<Rightarrow>
        (map_err (\<lambda>_. T_Persistence ''Failed to add block to blockchain store'') r, st'))"

definition validate_and_save_block ::
  "ProcEnv \<Rightarrow> 's store_add \<Rightarrow> 's \<Rightarrow> BillId \<Rightarrow> BillBlockchain \<Rightarrow> BillIssueBlockData \<Rightarrow> BcrKeys \<Rightarrow> BillBlock \<Rightarrow> bool
     \<Rightarrow> (bool, TransportError) result \<times> BillBlockchain \<times> 's" where
  "validate_and_save_block P add st bill_id chain bill_first_version bill_keys block is_paid =
     (case validate_block_for_chain P bill_id chain bill_first_version bill_keys block is_paid of
        (Ok True, chain') \<Rightarrow>
          (case save_block add st bill_id block of
             (Ok _, st') \<Rightarrow> (Ok True, chain', st')
           | (Err e, st') \<Rightarrow> (Err e, chain', st')
           | (Panic, st') \<Rightarrow> (Panic, chain', st'))
      | (r, chain') \<Rightarrow> (r, chain', st))"

fun save_new_blocks ::
  "ProcEnv \<Rightarrow> 's store_add \<Rightarrow> 's \<Rightarrow> BillId \<Rightarrow> BillBlockchain \<Rightarrow> BillIssueBlockData \<Rightarrow> BcrKeys \<Rightarrow> BillBlock list
     \<Rightarrow> (unit, TransportError) result \<times> BillBlockchain \<times> 's" where
  "save_new_blocks P add st bill_id chain bill_first_version keys [] = (Ok (), chain, st)"
| "save_new_blocks P add st bill_id chain bill_first_version keys (block # bs) =
     (case validate_and_save_block P add st bill_id chain bill_first_version keys block False of
        (Ok _, chain', st') \<Rightarrow> save_new_blocks P add st' bill_id chain' bill_first_version keys bs
      | (Err e, chain', st') \<Rightarrow> (Err e, chain', st')
      | (Panic, chain', st') \<Rightarrow> (Panic, chain', st'))"

end
