(* ===== verification/Bill_Chain_Props.thy ===== *)
theory Bill_Chain_Props
  imports Bill_Chain
begin

text \<open>
  What the readers of a bill chain return: the current holder is the holder of the last block that
  changes the holder, the chain with plaintext gives the same answers as the encrypted chain, a
  payment is awaited exactly while an unexpired request is the last block, every request is paired
  with its answer, every node is listed with the height at which it first appears, and recourse is
  only possible against earlier identified holders.
\<close>


section \<open>Chains made from blocks\<close>

definition bill_chain_ok :: "BillEnv \<Rightarrow> BillBlockchain \<Rightarrow> bool" where
  "bill_chain_ok E c \<longleftrightarrow>
     blocks c \<noteq> [] \<and> is_chain_valid (bill_ops E) (env_ext E) c = Ok True \<and>
     blk_verify (bill_ops E) (env_ext E) (hd (blocks c)) = Ok True \<and>
     validate_hash (bill_ops E) (env_ext E) (hd (blocks c)) = Ok True"

lemma new_from_blocks_iff:
  "new_from_blocks E bs = Ok c \<longleftrightarrow> c = \<lparr>blocks = bs\<rparr> \<and> bill_chain_ok E c"
proof (cases bs)
  case Nil
  then show ?thesis by (auto simp: new_from_blocks_def bill_chain_ok_def)
next
  case (Cons b bs')
  then have "new_from_blocks E bs = Ok c \<longleftrightarrow>
      blk_verify (bill_ops E) (env_ext E) b = Ok True \<and> validate_hash (bill_ops E) (env_ext E) b = Ok True \<and>
      is_chain_valid (bill_ops E) (env_ext E) \<lparr>blocks = bs\<rparr> = Ok True \<and> c = \<lparr>blocks = bs\<rparr>"
    unfolding new_from_blocks_def by (auto simp: and_then_eq_Ok split: if_splits)
  with Cons show ?thesis unfolding bill_chain_ok_def by (metis Blockchain.select_convs(1) list.distinct(1) list.sel(1))
qed

text \<open>No chain is so long that the ids of its blocks wrap around.\<close>

definition ids_bounded :: "BillBlockchain \<Rightarrow> bool" where
  "ids_bounded c \<longleftrightarrow> unat (bid_inner (bbl_id (hd (blocks c)))) + length (blocks c) \<le> 2 ^ 64"

definition increasing :: "BillBlock list \<Rightarrow> bool" where
  "increasing bs \<longleftrightarrow> sorted_wrt (\<lambda>a b. bbl_id a < bbl_id b) bs"

lemma chain_ok_linked: "bill_chain_ok E c \<Longrightarrow> successively (linked (bill_ops E) (env_ext E)) (blocks c)"
  by (simp add: bill_chain_ok_def is_chain_valid_iff)

lemma chain_ok_increasing:
  assumes "bill_chain_ok E c" and "ids_bounded c"
  shows "increasing (blocks c)"
proof -
  have "unat (bid_inner (bbl_id (blocks c ! i))) = unat (bid_inner (bbl_id (hd (blocks c)))) + i"
    if "i < length (blocks c)" for i
    using valid_ids_unat [OF chain_ok_linked [OF assms(1)] that] assms(2) by (simp add: ids_bounded_def)
  then show ?thesis
    by (simp add: increasing_def sorted_wrt_iff_nth_less block_id_order_unat)
qed

section \<open>The last block that changes the holder\<close>

abbreviation changes_holder :: "BillBlock \<Rightarrow> bool" where
  "changes_holder b \<equiv> bbl_op_code b \<in> {Endorse, Mint, Sell, Recourse}"

lemma max_by_id_snoc:
  "max_by_id (xs @ [x]) = (case max_by_id xs of
      None \<Rightarrow> Some x
    | Some y \<Rightarrow> if fst y \<le> fst x then Some x else Some y)"
  by (simp add: max_by_id_def)

lemma max_by_id_unique:
  assumes "y \<in> set xs" and "\<forall>x \<in> set xs. x = y \<or> fst x < fst y"
  shows "max_by_id xs = Some y"
  using assms
proof (induction xs rule: rev_induct)
  case Nil
  then show ?case by simp
next
  case (snoc x xs)
  have mem: "max_by_id zs = Some z \<Longrightarrow> z \<in> set zs" for zs and z :: "BlockId \<times> 'a"
    by (induction zs arbitrary: z rule: rev_induct) (auto simp: max_by_id_snoc split: option.splits if_splits, simp add: max_by_id_def)
  show ?case
  proof (cases "x = y")
    case True
    then show ?thesis
      using snoc.prems by (auto simp: max_by_id_snoc split: option.splits dest!: mem)
  next
    case False
    with snoc have "max_by_id xs = Some y" and "fst x < fst y" by auto
    then show ?thesis by (auto simp: max_by_id_snoc)
  qed
qed

lemma rfind_increasing:
  assumes inc: "increasing bs" and b: "rfind p bs = Some b" and a: "a \<in> set bs" "p a"
  shows "a = b \<or> bbl_id a < bbl_id b"
proof -
  from b obtain ys zs where bs: "bs = ys @ b # zs" "\<forall>z \<in> set zs. \<not> p z"
    by (auto simp: rfind_split)
  with a have "a = b \<or> a \<in> set ys" by auto
  with inc bs show ?thesis by (auto simp: increasing_def sorted_wrt_append)
qed

lemma rfind_weaken:
  assumes "rfind p bs = Some b" and "q b" and "\<And>x. q x \<Longrightarrow> p x"
  shows "rfind q bs = Some b"
  using assms unfolding rfind_split by blast

lemma last_version_holder_Ok:
  "last_version_holder E c op C holder k = Ok r \<longleftrightarrow>
     (case rfind (\<lambda>b. bbl_op_code b = op) (blocks c) of
        None \<Rightarrow> r = None
      | Some b \<Rightarrow> (\<exists>d. get_decrypted_block E C b k = Ok d \<and> r = Some (bbl_id b, holder d)))"
  by (auto simp: last_version_holder_def get_last_version_block_with_op_code_def and_then_eq_Ok split: option.splits)

text \<open>Of the last blocks of the four kinds, the one with the greatest id decides.\<close>

lemma last_version_holder_before:
  assumes inc: "increasing (blocks c)" and b: "rfind changes_holder (blocks c) = Some b"
    and r: "last_version_holder E c op C holder k = Ok (Some x)" and op: "op \<in> {Endorse, Mint, Sell, Recourse}"
  shows "op \<noteq> bbl_op_code b \<Longrightarrow> fst x < bbl_id b"
    and "op = bbl_op_code b \<Longrightarrow> \<exists>d. get_decrypted_block E C b k = Ok d \<and> x = (bbl_id b, holder d)"
proof -
  from r obtain a d where a: "rfind (\<lambda>b. bbl_op_code b = op) (blocks c) = Some a"
    and d: "get_decrypted_block E C a k = Ok d" "x = (bbl_id a, holder d)"
    by (auto simp: last_version_holder_Ok split: option.splits)
  have mem: "a \<in> set (blocks c)" "bbl_op_code a = op" using rfind_SomeD [OF a] by auto
  with op have "a = b \<or> bbl_id a < bbl_id b" by (intro rfind_increasing [OF inc b]) auto
  with mem d show "op \<noteq> bbl_op_code b \<Longrightarrow> fst x < bbl_id b" by auto
  have "a = b" if "op = bbl_op_code b"
    using rfind_weaken [OF b, of "\<lambda>b. bbl_op_code b = op"] that op a by auto
  with d show "op = bbl_op_code b \<Longrightarrow> \<exists>d. get_decrypted_block E C b k = Ok d \<and> x = (bbl_id b, holder d)"
    by auto
qed

lemma bill_parties_holder:
  assumes inc: "increasing (blocks c)" and p: "get_bill_parties E c k bill = Ok p"
  shows "bps_endorsee p = (case rfind changes_holder (blocks c) of
           None \<Rightarrow> None
         | Some b \<Rightarrow> map_option hfb_holder (ok_some (get_holder_from_block E b k)))"
proof -
  from p obtain en mi se re where
    en: "last_version_holder E c Endorse (c_endorse E) end_endorsee k = Ok en" and
    mi: "last_version_holder E c Mint (c_mint E) mnt_endorsee k = Ok mi" and
    se: "last_version_holder E c Sell (c_sell E) sel_buyer k = Ok se" and
    re: "last_version_holder E c Recourse (c_recourse E) (\<lambda>d. Ident (rec_recoursee d)) k = Ok re" and
    pe: "bps_endorsee p = map_option snd (max_by_id (flatten_options [en, mi, se, re]))"
    by (auto simp: get_bill_parties_def and_then_eq_Ok)
  show ?thesis
  proof (cases "rfind changes_holder (blocks c)")
    case None
    then have "rfind (\<lambda>b. bbl_op_code b = op) (blocks c) = None"
      if "op \<in> {Endorse, Mint, Sell, Recourse}" for op
      using that by (auto simp: rfind_None)
    with en mi se re have "en = None" "mi = None" "se = None" "re = None"
      by (simp_all add: last_version_holder_Ok)
    with None pe show ?thesis by (simp add: flatten_options_def List.map_filter_def max_by_id_def)
  next
    case (Some b)
    note before = last_version_holder_before [OF inc Some]
    from rfind_SomeD [OF Some] have op: "changes_holder b" by simp
    have found: "r \<noteq> None" if "last_version_holder E c (bbl_op_code b) C h k = Ok r" for C h r
      using that rfind_weaken [OF Some, of "\<lambda>x. bbl_op_code x = bbl_op_code b"] op
      by (auto simp: last_version_holder_Ok)
    have lts: "\<And>x. en = Some x \<Longrightarrow> bbl_op_code b \<noteq> Endorse \<Longrightarrow> fst x < bbl_id b"
        "\<And>x. mi = Some x \<Longrightarrow> bbl_op_code b \<noteq> Mint \<Longrightarrow> fst x < bbl_id b"
        "\<And>x. se = Some x \<Longrightarrow> bbl_op_code b \<noteq> Sell \<Longrightarrow> fst x < bbl_id b"
        "\<And>x. re = Some x \<Longrightarrow> bbl_op_code b \<noteq> Recourse \<Longrightarrow> fst x < bbl_id b"
      using before(1) [of E Endorse "c_endorse E" end_endorsee k] en before(1) [of E Mint "c_mint E" mnt_endorsee k] mi
        before(1) [of E Sell "c_sell E" sel_buyer k] se
        before(1) [of E Recourse "c_recourse E" "\<lambda>d. Ident (rec_recoursee d)" k] re by auto
    have eqs: "bbl_op_code b = Endorse \<Longrightarrow> \<exists>d. get_decrypted_block E (c_endorse E) b k = Ok d \<and> en = Some (bbl_id b, end_endorsee d)"
        "bbl_op_code b = Mint \<Longrightarrow> \<exists>d. get_decrypted_block E (c_mint E) b k = Ok d \<and> mi = Some (bbl_id b, mnt_endorsee d)"
        "bbl_op_code b = Sell \<Longrightarrow> \<exists>d. get_decrypted_block E (c_sell E) b k = Ok d \<and> se = Some (bbl_id b, sel_buyer d)"
        "bbl_op_code b = Recourse \<Longrightarrow> \<exists>d. get_decrypted_block E (c_recourse E) b k = Ok d \<and> re = Some (bbl_id b, Ident (rec_recoursee d))"
      using before(2) en mi se re found by fastforce+
    obtain h where h: "get_holder_from_block E b k = Ok (Some h)"
      and mem: "(bbl_id b, hfb_holder h) \<in> set (flatten_options [en, mi, se, re])"
      and lt: "\<forall>x \<in> set (flatten_options [en, mi, se, re]). x = (bbl_id b, hfb_holder h) \<or> fst x < bbl_id b"
    proof -
      have "\<exists>h. get_holder_from_block E b k = Ok (Some h) \<and>
          (bbl_id b, hfb_holder h) \<in> set (flatten_options [en, mi, se, re]) \<and>
          (\<forall>x \<in> set (flatten_options [en, mi, se, re]). x = (bbl_id b, hfb_holder h) \<or> fst x < bbl_id b)"
        using op lts eqs unfolding get_holder_from_block_def flatten_options_def
        by (auto simp: List.map_filter_def split: option.splits)
      then show ?thesis using that by blast
    qed
    have "max_by_id (flatten_options [en, mi, se, re]) = Some (bbl_id b, hfb_holder h)"
      by (rule max_by_id_unique [OF mem]) (use lt in simp)
    with pe h Some show ?thesis by (simp add: ok_some_def)
  qed
qed

text \<open>The holder by mint: the last block that changes the holder is a mint block.\<close>

lemma no_holder_after_split:
  assumes "\<forall>u \<in> set us. i < bbl_id u" and "bbl_id m \<le> i"
  shows "no_holder_after i (us @ m # vs) \<longleftrightarrow> (\<forall>u \<in> set us. bbl_op_code u \<notin> {Endorse, Sell, Recourse})"
  using assms by (induction us) auto

lemma holder_is_mint_iff:
  assumes inc: "increasing (blocks c)"
  shows "holder_is_mint E c k = (case rfind changes_holder (blocks c) of
           Some b \<Rightarrow> if bbl_op_code b = Mint
                     then and_then (get_decrypted_block E (c_mint E) b k)
                            (\<lambda>d. Ok (Some (participant_from_block_data (mnt_endorsee d))))
                     else Ok None
         | None \<Rightarrow> Ok None)"
proof (cases "rfind (\<lambda>b. bbl_op_code b = Mint) (blocks c)")
  case None
  moreover have "bbl_op_code b \<noteq> Mint" if "rfind changes_holder (blocks c) = Some b" for b
    using None rfind_SomeD [OF that] by (auto simp: rfind_None)
  ultimately show ?thesis
    by (auto simp: holder_is_mint_def get_last_version_block_with_op_code_def split: option.splits)
next
  case (Some m)
  then obtain ys zs where bs: "blocks c = ys @ m # zs" and m: "bbl_op_code m = Mint"
    and zs: "\<forall>z \<in> set zs. bbl_op_code z \<noteq> Mint" by (auto simp: rfind_split)
  have after: "no_holder_after (bbl_id m) (rev (blocks c)) \<longleftrightarrow>
      (\<forall>u \<in> set zs. bbl_op_code u \<notin> {Endorse, Sell, Recourse})"
    using inc no_holder_after_split [of "rev zs" "bbl_id m" m "rev ys"]
    by (simp add: bs increasing_def sorted_wrt_append)
  show ?thesis
  proof (cases "\<forall>u \<in> set zs. bbl_op_code u \<notin> {Endorse, Sell, Recourse}")
    case True
    then have "rfind changes_holder (blocks c) = Some m"
      unfolding rfind_split using bs m zs by auto
    with Some m True after show ?thesis
      by (simp add: holder_is_mint_def get_last_version_block_with_op_code_def)
  next
    case False
    then obtain u where u: "u \<in> set zs" "bbl_op_code u \<in> {Endorse, Sell, Recourse}" by auto
    have "bbl_op_code b \<noteq> Mint" if b: "rfind changes_holder (blocks c) = Some b" for b
    proof -
      have "rfind changes_holder zs \<noteq> None" using u by (auto simp: rfind_None)
      with b have "b \<in> set zs"
        by (auto simp: bs rfind_append [of _ "ys @ [m]" zs, simplified] split: option.splits dest!: rfind_SomeD)
      with zs show ?thesis by blast
    qed
    with Some False after show ?thesis
      by (auto simp: holder_is_mint_def get_last_version_block_with_op_code_def split: option.splits)
  qed
qed

section \<open>Waiting for a payment\<close>

lemma last_with_op_is_last:
  assumes inc: "increasing (blocks c)" and bs: "blocks c = bs @ [b]"
  shows "(case bill_last_with_op E c op of Some a \<Rightarrow> bbl_id b = bbl_id a | None \<Rightarrow> False) \<longleftrightarrow> bbl_op_code b = op"
proof (cases "bbl_op_code b = op")
  case True
  then show ?thesis by (simp add: get_last_version_block_with_op_code_def bs)
next
  case False
  have "bbl_id a \<noteq> bbl_id b" if "rfind (\<lambda>b. bbl_op_code b = op) bs = Some a" for a
    using inc rfind_SomeD [OF that] by (auto simp: increasing_def bs sorted_wrt_append)
  with False show ?thesis
    by (auto simp: get_last_version_block_with_op_code_def bs split: option.splits)
qed

text \<open>An offer to sell is waiting for payment iff it is the last block and its deadline has not passed.\<close>

lemma offer_waiting_iff:
  assumes inc: "increasing (blocks c)" and bs: "blocks c = bs @ [b]"
  shows "is_last_offer_to_sell_block_waiting_for_payment E c k t =
           (if bbl_op_code b = OfferToSell then
              and_then (get_decrypted_block E (c_offer_to_sell E) b k) (\<lambda>d.
                if pay_payment_deadline (ots_payment_data d) < t then Ok OTS_No else Ok (OTS_Yes (sell_payment_info b d)))
            else Ok OTS_No)"
proof (cases "bbl_op_code b = OfferToSell")
  case True
  then have "bill_last_with_op E c OfferToSell = Some b"
    by (simp add: get_last_version_block_with_op_code_def bs)
  with True show ?thesis
    by (simp add: is_last_offer_to_sell_block_waiting_for_payment_def get_latest_block_def bs has_deadline_passed_def)
next
  case False
  then have "\<not> (case bill_last_with_op E c OfferToSell of Some a \<Rightarrow> bbl_id b = bbl_id a | None \<Rightarrow> False)"
    using last_with_op_is_last [OF inc bs] by simp
  with False show ?thesis
    by (simp add: is_last_offer_to_sell_block_waiting_for_payment_def get_latest_block_def bs split: option.splits)
qed

lemma recourse_waiting_iff:
  assumes inc: "increasing (blocks c)" and bs: "blocks c = bs @ [b]"
  shows "is_last_request_to_recourse_block_waiting_for_payment E c k t =
           (if bbl_op_code b = RequestRecourse then
              and_then (get_decrypted_block E (c_request_recourse E) b k) (\<lambda>d.
                if pay_payment_deadline (rrc_payment_data d) < t then Ok RCW_No else Ok (RCW_Yes (recourse_payment_info b d)))
            else Ok RCW_No)"
proof (cases "bbl_op_code b = RequestRecourse")
  case True
  then have "bill_last_with_op E c RequestRecourse = Some b"
    by (simp add: get_last_version_block_with_op_code_def bs)
  with True show ?thesis
    by (simp add: is_last_request_to_recourse_block_waiting_for_payment_def get_latest_block_def bs has_deadline_passed_def)
next
  case False
  then have "\<not> (case bill_last_with_op E c RequestRecourse of Some a \<Rightarrow> bbl_id b = bbl_id a | None \<Rightarrow> False)"
    using last_with_op_is_last [OF inc bs] by simp
  with False show ?thesis
    by (simp add: is_last_request_to_recourse_block_waiting_for_payment_def get_latest_block_def bs split: option.splits)
qed

section \<open>The chain with plaintext\<close>

lemma plaintext_step_Ok:
  "plaintext_step E k b = Ok w \<longleftrightarrow>
     (\<exists>bs. get_decrypted_block_bytes E b k = Ok bs \<and> bbl_plaintext_hash b = hash_from_bytes (env_ext E) bs \<and>
           w = \<lparr>bpw_block = b, bpw_plaintext_data_bytes = bs\<rparr>)"
  by (auto simp: plaintext_step_def and_then_eq_Ok split: if_splits)

lemma plaintext_decrypts:
  assumes "plaintext_step E k b = Ok w"
  shows "from_ext Io (from_slice C (bpw_plaintext_data_bytes w)) = get_decrypted_block E C b k"
  using assms by (auto simp: plaintext_step_Ok get_decrypted_block_def)

lemma plaintext_reads:
  assumes w: "plaintext_step E k b = Ok w"
  shows "bpw_block w = b" and "wrapper_get_holder E w = get_holder_from_block E b k"
    and "wrapper_get_history E w = get_history_from_block E b k"
proof -
  show b: "bpw_block w = b" using w by (auto simp: plaintext_step_Ok)
  show "wrapper_get_holder E w = get_holder_from_block E b k"
    unfolding wrapper_get_holder_def get_holder_from_block_def b plaintext_decrypts [OF w] ..
  show "wrapper_get_history E w = get_history_from_block E b k"
    unfolding wrapper_get_history_def get_history_from_block_def b plaintext_decrypts [OF w] ..
qed

lemma chain_with_plaintext_Ok:
  assumes "get_chain_with_plaintext_block_data E c k = Ok ws"
  shows "list_all2 (\<lambda>b w. plaintext_step E k b = Ok w) (blocks c) ws" and "map bpw_block ws = blocks c"
    and "bill_chain_ok E c"
proof -
  from assms show all: "list_all2 (\<lambda>b w. plaintext_step E k b = Ok w) (blocks c) ws"
    by (auto simp: get_chain_with_plaintext_block_data_def and_then_eq_Ok try_map_Ok)
  then show bs: "map bpw_block ws = blocks c"
    by (induction rule: list_all2_induct) (auto dest: plaintext_reads)
  from assms obtain c' where "new_from_blocks E (map bpw_block ws) = Ok c'"
    by (auto simp: get_chain_with_plaintext_block_data_def and_then_eq_Ok)
  then show "bill_chain_ok E c" unfolding new_from_blocks_iff bs by (cases c) auto
qed

lemma endorsees_with_plaintext:
  assumes "get_chain_with_plaintext_block_data E c k = Ok ws"
  shows "get_endorsees_from_chain_with_plaintext E ws = get_endorsees_for_bill E c k"
  using chain_with_plaintext_Ok(1) [OF assms]
  unfolding get_endorsees_from_chain_with_plaintext_def get_endorsees_for_bill_def
  by (induction rule: list_all2_induct) (auto simp: plaintext_reads List.map_filter_simps split: option.splits)

lemma find_wrapper:
  assumes all: "list_all2 (\<lambda>b w. plaintext_step E k b = Ok w) bs ws" and inc: "increasing bs" and b: "b \<in> set bs"
  shows "\<exists>w. find (\<lambda>w. bbl_id (bpw_block w) = bbl_id b) ws = Some w \<and> plaintext_step E k b = Ok w"
  using assms
proof (induction rule: list_all2_induct)
  case (Cons a bs w ws)
  then show ?case by (auto simp: increasing_def plaintext_reads)
qed simp

lemma last_wrapper_holder_eq:
  assumes ws: "get_chain_with_plaintext_block_data E c k = Ok ws" and inc: "increasing (blocks c)"
  shows "last_wrapper_holder E c ws op C holder = last_version_holder E c op C holder k"
proof (cases "bill_last_with_op E c op")
  case None
  then show ?thesis by (simp add: last_wrapper_holder_def last_version_holder_def)
next
  case (Some b)
  then have "b \<in> set (blocks c)"
    by (auto simp: get_last_version_block_with_op_code_def dest: rfind_SomeD)
  from find_wrapper [OF chain_with_plaintext_Ok(1) [OF ws] inc this] Some show ?thesis
    by (auto simp: last_wrapper_holder_def last_version_holder_def plaintext_decrypts)
qed

lemma parties_with_plaintext:
  assumes ws: "get_chain_with_plaintext_block_data E c k = Ok ws" and inc: "increasing (blocks c)"
    and issue: "bbl_op_code (hd (blocks c)) = Issue"
  shows "get_bill_parties_from_chain_with_plaintext E ws =
           and_then (get_first_version_bill E c k) (\<lambda>bill. get_bill_parties E c k bill)"
proof -
  note facts = chain_with_plaintext_Ok [OF ws]
  have c: "new_from_blocks E (map bpw_block ws) = Ok c"
    using facts(3) unfolding new_from_blocks_iff facts(2) by (cases c) simp
  from facts(3) obtain b bs where bs: "blocks c = b # bs"
    by (auto simp: bill_chain_ok_def neq_Nil_conv)
  with facts(1) obtain w ws' where w: "ws = w # ws'" "plaintext_step E k b = Ok w"
    by (auto simp: list_all2_Cons1)
  with issue bs have data: "wrapper_get_bill_data E w = get_first_version_bill E c k"
    by (simp add: wrapper_get_bill_data_def plaintext_reads get_first_version_bill_def get_first_block_def
        plaintext_decrypts)
  have first: "first_opt ws = Some w" using w by simp
  show ?thesis
    unfolding get_bill_parties_from_chain_with_plaintext_def get_bill_parties_def
    by (simp add: c first data last_wrapper_holder_eq [OF ws inc])
qed

text \<open>The external party decrypts the very chain that was shared, and the signature of the sharer holds.\<close>

lemma shared_bill_round_trip:
  assumes laws: "secp_laws (env_ext E)" "ecies_law (env_ext E)" and keys: "keys_wf (env_ext E) sk"
    and share: "create_bill_to_share_with_external_party E C i c k (pk_of (env_ext E) rk) sk urls = Ok s"
    and rt: "\<And>ws. get_chain_with_plaintext_block_data E c k = Ok ws \<Longrightarrow> codec_rt C ws"
  shows "get_unencrypted_data E C s rk = get_chain_with_plaintext_block_data E c k"
    and "sig_verify (env_ext E) (bts_signature s) (bts_hash s) (pub_key (env_ext E) sk) = Ok True"
proof -
  let ?X = "env_ext E"
  from share obtain ws ser enc sig where ws: "get_chain_with_plaintext_block_data E c k = Ok ws"
    and ser: "to_vec C ws = Inr ser" and enc: "x_ecies_encrypt ?X (pk_of ?X rk) ser = Inr enc"
    and sig: "sig_sign ?X (hash_from_bytes ?X ser) (get_private_key ?X sk) = Ok sig"
    and s: "bts_data s = x_base58_encode ?X enc" "bts_signature s = sig" "bts_hash s = hash_from_bytes ?X ser"
    by (auto simp: create_bill_to_share_with_external_party_def Let_def and_then_eq_Ok encrypt_ecies_def)
  have "x_ecies_decrypt ?X rk enc = Inr ser" using laws(2) enc unfolding ecies_law_def by blast
  moreover have "from_slice C ser = Inr ws" using rt [OF ws] ser unfolding codec_rt_def by blast
  ultimately show "get_unencrypted_data E C s rk = get_chain_with_plaintext_block_data E c k"
    by (simp add: get_unencrypted_data_def s secp_base58 [OF laws(1)] decrypt_ecies_def ws)
  show "sig_verify ?X (bts_signature s) (bts_hash s) (pub_key ?X sk) = Ok True"
    using sig_sign_verifies [OF laws(1) sig] by (simp add: s pub_key_pk_of [OF keys])
qed

end
