(* ===== verification/Bill_Recourse.thy ===== *)
theory Bill_Recourse
  imports Bill_Chain_Props
begin

text \<open>
  Nodes and past endorsees of a bill: every node is listed with the height of the block in which it
  first appears, and the parties against which the caller can take recourse are exactly the
  identified holders before the caller first became holder and the drawer, without the caller and
  the drawee, each once, and the latest first.
\<close>

section \<open>Nodes with the height at which they were added\<close>

definition node_in_block :: "BillEnv \<Rightarrow> BcrKeys \<Rightarrow> NodeId \<Rightarrow> BillBlock \<Rightarrow> bool" where
  "node_in_block E k n b \<longleftrightarrow> (\<exists>ns. get_nodes_from_block E b k = Ok ns \<and> n \<in> set ns)"

lemma map_of_fold_or_insert:
  "map_of (fold (\<lambda>node m. hm_or_insert node h m) ns m) n =
     (case map_of m n of Some v \<Rightarrow> Some v | None \<Rightarrow> if n \<in> set ns then Some h else None)"
  by (induction ns arbitrary: m) (auto split: option.splits)

lemma nodes_with_height_loop_spec:
  assumes "nodes_with_height_loop E k h m bs = Ok m'"
  shows "map_of m' n = Some v \<longleftrightarrow> map_of m n = Some v \<or>
           (map_of m n = None \<and>
            (\<exists>i < length bs. v = h + i + 1 \<and> node_in_block E k n (bs ! i) \<and>
              (\<forall>j < i. \<not> node_in_block E k n (bs ! j))))"
  using assms
proof (induction bs arbitrary: h m)
  case Nil
  then show ?case by simp
next
  case (Cons b bs)
  from Cons.prems obtain ns where ns: "get_nodes_from_block E b k = Ok ns"
    and rest: "nodes_with_height_loop E k (h + 1) (fold (\<lambda>node m. hm_or_insert node (h + 1) m) ns m) bs = Ok m'"
    by (auto simp: and_then_eq_Ok)
  let ?m = "fold (\<lambda>node m. hm_or_insert node (h + 1) m) ns m"
  have b: "node_in_block E k n b \<longleftrightarrow> n \<in> set ns" by (simp add: node_in_block_def ns)
  have shift: "(\<exists>i < Suc (length bs). v = h + i + 1 \<and> node_in_block E k n ((b # bs) ! i) \<and>
        (\<forall>j < i. \<not> node_in_block E k n ((b # bs) ! j))) \<longleftrightarrow>
      (n \<in> set ns \<and> v = h + 1) \<or>
      (n \<notin> set ns \<and> (\<exists>i < length bs. v = (h + 1) + i + 1 \<and> node_in_block E k n (bs ! i) \<and>
        (\<forall>j < i. \<not> node_in_block E k n (bs ! j))))"
    by (auto simp: Ex_less_Suc2 All_less_Suc2 b)
  show ?case
    unfolding Cons.IH [OF rest] map_of_fold_or_insert length_Cons shift
    by (auto split: option.splits)
qed

text \<open>A node has height \<open>v\<close> iff block number \<open>v\<close>, counted from one, is the first that names it.\<close>

lemma node_height_iff:
  assumes "get_all_nodes_with_added_block_height E c k = Ok m"
  shows "map_of m n = Some v \<longleftrightarrow>
           (\<exists>i < length (blocks c). v = i + 1 \<and> node_in_block E k n (blocks c ! i) \<and>
             (\<forall>j < i. \<not> node_in_block E k n (blocks c ! j)))"
  using nodes_with_height_loop_spec [OF assms [unfolded get_all_nodes_with_added_block_height_def], of n v]
  by simp

lemma nodes_loop_distinct:
  "nodes_with_height_loop E k h m bs = Ok m' \<Longrightarrow> distinct (map fst m) \<Longrightarrow> distinct (map fst m')"
proof (induction bs arbitrary: h m)
  case (Cons b bs)
  have "distinct (map fst m) \<Longrightarrow> distinct (map fst (fold (\<lambda>node m. hm_or_insert node (h + 1) m) ns m))"
    for ns and m :: "(NodeId \<times> nat) list"
    by (induction ns arbitrary: m) simp_all
  with Cons show ?case by (auto simp: and_then_eq_Ok)
qed simp

lemma all_nodes_from_bill_set:
  assumes order: "hash_order_laws (env_ext E)" and ns: "get_all_nodes_from_bill E c k = Ok ns"
  shows "distinct ns \<and> set ns = {n. \<exists>b \<in> set (blocks c). node_in_block E k n b}"
proof -
  from ns obtain m where m: "get_all_nodes_with_added_block_height E c k = Ok m"
    and ns: "ns = x_hash_order (env_ext E) (map fst m)"
    by (auto simp: get_all_nodes_from_bill_def and_then_eq_Ok)
  have "distinct (map fst m)"
    using nodes_loop_distinct m by (fastforce simp: get_all_nodes_with_added_block_height_def)
  with order ns have 1: "distinct ns \<and> set ns = fst ` set m"
    unfolding hash_order_laws_def by (metis list.set_map)
  have "n \<in> fst ` set m \<longleftrightarrow> (\<exists>b \<in> set (blocks c). node_in_block E k n b)" for n
  proof
    assume "n \<in> fst ` set m"
    then obtain v where "map_of m n = Some v" by (metis dom_map_of_conv_image_fst domD)
    then show "\<exists>b \<in> set (blocks c). node_in_block E k n b"
      by (auto simp: node_height_iff [OF m])
  next
    assume "\<exists>b \<in> set (blocks c). node_in_block E k n b"
    then have "\<exists>i. i < length (blocks c) \<and> node_in_block E k n (blocks c ! i)"
      by (auto simp: in_set_conv_nth)
    then obtain i where "i < length (blocks c) \<and> node_in_block E k n (blocks c ! i)"
      and "\<And>j. j < i \<Longrightarrow> \<not> (j < length (blocks c) \<and> node_in_block E k n (blocks c ! j))"
      using exists_least_iff [of "\<lambda>i. i < length (blocks c) \<and> node_in_block E k n (blocks c ! i)"] by blast
    then have "map_of m n = Some (i + 1)" unfolding node_height_iff [OF m] by auto
    then show "n \<in> fst ` set m" by (metis dom_map_of_conv_image_fst domI)
  qed
  with 1 show ?thesis by auto
qed

section \<open>Past endorsees\<close>

abbreviation endorsee_node :: "PastEndorsee \<Rightarrow> NodeId" where
  "endorsee_node e \<equiv> bip_node_id (pe_pay_to_the_order_of e)"

definition keyed :: "(NodeId \<times> PastEndorsee) list \<Rightarrow> bool" where
  "keyed m \<longleftrightarrow> distinct (map fst m) \<and> (\<forall>(n, e) \<in> set m. endorsee_node e = n)"

lemma keyed_simps [simp]:
  "keyed []"
  "keyed m \<Longrightarrow> endorsee_node e = n \<Longrightarrow> keyed (hm_or_insert n e m)"
  "keyed m \<Longrightarrow> keyed (hm_remove n m)"
proof -
  show "keyed []" by (simp add: keyed_def)
  show "keyed m \<Longrightarrow> endorsee_node e = n \<Longrightarrow> keyed (hm_or_insert n e m)"
    unfolding keyed_def by (auto simp: hm_or_insert_def map_of_eq_None_iff split: if_splits)
  show "keyed (hm_remove n m)" if "keyed m"
    using that distinct_keys_hm(3) [of m n] unfolding keyed_def by (auto simp: hm_remove_def)
qed

lemma keys_of_hm:
  "fst ` set (hm_or_insert n e m) = insert n (fst ` set m)"
  "fst ` set (hm_remove n m) = fst ` set m - {n}"
  by (auto simp: hm_or_insert_def hm_remove_def map_of_eq_None_iff image_iff)

text \<open>The identified parties among the holders before the caller.\<close>

definition ident_nodes :: "(Timestamp \<times> HolderFromBlock) list \<Rightarrow> NodeId set" where
  "ident_nodes hs = {bipd_node_id d | t h d. (t, h) \<in> set hs \<and> hfb_holder h = Ident d}"

definition holders_before :: "NodeId \<Rightarrow> (Timestamp \<times> HolderFromBlock) list \<Rightarrow> (Timestamp \<times> HolderFromBlock) list" where
  "holders_before caller hs = takeWhile (\<lambda>(t, h). bpd_node_id (hfb_holder h) \<noteq> caller) hs"

definition was_holder :: "NodeId \<Rightarrow> (Timestamp \<times> HolderFromBlock) list \<Rightarrow> bool" where
  "was_holder caller hs \<longleftrightarrow> (\<exists>(t, h) \<in> set hs. bpd_node_id (hfb_holder h) = caller)"

lemma ident_nodes_Cons:
  "ident_nodes ((t, h) # hs) =
     (case hfb_holder h of Ident d \<Rightarrow> insert (bipd_node_id d) (ident_nodes hs) | Anon _ \<Rightarrow> ident_nodes hs)"
  by (auto simp: ident_nodes_def split: BillParticipantBlockData.splits)

lemma past_endorsees_loop_spec:
  assumes "past_endorsees_loop caller hs m = (found, m')" and "keyed m"
  shows "found \<longleftrightarrow> was_holder caller hs" and "keyed m'"
    and "fst ` set m' = fst ` set m \<union> ident_nodes (holders_before caller hs)"
proof -
  have "(found \<longleftrightarrow> was_holder caller hs) \<and> keyed m' \<and>
      fst ` set m' = fst ` set m \<union> ident_nodes (holders_before caller hs)"
    using assms
  proof (induction hs arbitrary: m)
    case Nil
    then show ?case by (auto simp: was_holder_def holders_before_def ident_nodes_def)
  next
    case (Cons x hs)
    obtain t h where x: "x = (t, h)" by (cases x)
    show ?case
    proof (cases "bpd_node_id (hfb_holder h) = caller")
      case True
      with Cons.prems x show ?thesis by (auto simp: was_holder_def holders_before_def ident_nodes_def)
    next
      case False
      let ?m = "case hfb_holder h of
           Ident d \<Rightarrow> if bipd_node_id d \<noteq> caller then hm_or_insert (bipd_node_id d) (past_endorsee_from_holder t h d) m else m
         | Anon _ \<Rightarrow> m"
      have loop: "past_endorsees_loop caller hs ?m = (found, m')"
        using Cons.prems(1) False x by simp
      have "keyed ?m"
        using Cons.prems(2) by (auto simp: past_endorsee_from_holder_def split: BillParticipantBlockData.splits)
      from Cons.IH [OF loop this] False x show ?thesis
        by (auto simp: was_holder_def holders_before_def ident_nodes_Cons keys_of_hm
            split: BillParticipantBlockData.splits)
    qed
  qed
  then show "found \<longleftrightarrow> was_holder caller hs" and "keyed m'"
    and "fst ` set m' = fst ` set m \<union> ident_nodes (holders_before caller hs)" by blast+
qed

text \<open>The values of a keyed map in hash order: every party once.\<close>

lemma keyed_values:
  assumes order: "hash_order_laws X" and k: "keyed m"
    and vs: "vs = List.map_filter (map_of m) (x_hash_order X (map fst m))"
  shows "distinct (map endorsee_node vs)" and "set (map endorsee_node vs) = fst ` set m"
proof -
  have dist: "distinct (map fst m)" and node: "\<And>n e. (n, e) \<in> set m \<Longrightarrow> endorsee_node e = n"
    using k by (auto simp: keyed_def)
  let ?ks = "x_hash_order X (map fst m)"
  have ks: "distinct ?ks" "set ?ks = fst ` set m"
    using order dist unfolding hash_order_laws_def by (auto dest!: spec [of _ "map fst m"])
  have "map endorsee_node (List.map_filter (map_of m) js) = js" if "set js \<subseteq> fst ` set m" for js
    using that
  proof (induction js)
    case (Cons j js)
    then obtain e where "(j, e) \<in> set m" by auto
    with dist node Cons show ?case by (simp add: List.map_filter_simps)
  qed (simp add: List.map_filter_simps)
  then have "map endorsee_node vs = ?ks" using ks(2) vs by simp
  with ks show "distinct (map endorsee_node vs)" and "set (map endorsee_node vs) = fst ` set m" by simp_all
qed

definition recourse_parties :: "NodeId \<Rightarrow> BillIssueBlockData \<Rightarrow> (Timestamp \<times> HolderFromBlock) list \<Rightarrow> NodeId set" where
  "recourse_parties caller bill hs =
     (if caller = bipd_node_id (iss_drawee bill) \<or> \<not> was_holder caller hs then {}
      else insert (bipd_node_id (iss_drawer bill)) (ident_nodes (holders_before caller hs))
           - {caller, bipd_node_id (iss_drawee bill)})"

lemma past_endorsees_spec:
  assumes order: "hash_order_laws (env_ext E)"
    and bill: "get_first_version_bill E c k = Ok bill"
    and es: "get_past_endorsees_for_bill E c k caller = Ok es"
  shows "set (map endorsee_node es) = recourse_parties caller bill (holders_before_recourse E c k)"
    and "distinct (map endorsee_node es)"
    and "sorted_wrt (\<lambda>a b. pe_signing_timestamp b \<le> pe_signing_timestamp a) es"
proof -
  let ?hs = "holders_before_recourse E c k" and ?drawee = "bipd_node_id (iss_drawee bill)"
  obtain found m where loop: "past_endorsees_loop caller ?hs [] = (found, m)" by (cases "past_endorsees_loop caller ?hs []")
  note spec = past_endorsees_loop_spec [OF loop keyed_simps(1)]
  have "set (map endorsee_node es) = recourse_parties caller bill ?hs \<and> distinct (map endorsee_node es) \<and>
    sorted_wrt (\<lambda>a b. pe_signing_timestamp b \<le> pe_signing_timestamp a) es"
  proof (cases "caller = ?drawee \<or> \<not> found")
    case True
    with es bill loop spec(1) have "es = []"
      by (auto simp: get_past_endorsees_for_bill_def split: if_splits)
    with True spec(1) show ?thesis by (auto simp: recourse_parties_def)
  next
    case False
    define m1 where "m1 = (if bipd_node_id (iss_drawer bill) \<noteq> ?drawee
        then hm_or_insert (bipd_node_id (iss_drawer bill)) (drawer_past_endorsee bill) m else m)"
    define m3 where "m3 = hm_remove ?drawee (hm_remove caller m1)"
    define vs where "vs = List.map_filter (map_of m3) (x_hash_order (env_ext E) (map fst m3))"
    have sort: "es = sort_key (\<lambda>e. - uint (ts_inner (pe_signing_timestamp e))) vs"
      using es bill loop False by (simp add: get_past_endorsees_for_bill_def m1_def m3_def vs_def Let_def)
    have "keyed m1" using spec(2) by (auto simp: m1_def drawer_past_endorsee_def)
    then have "keyed m3" by (simp add: m3_def)
    from keyed_values [OF order this vs_def] have vals: "distinct (map endorsee_node vs)"
      "set (map endorsee_node vs) = fst ` set m3" by blast+
    have "fst ` set m3 = insert (bipd_node_id (iss_drawer bill)) (ident_nodes (holders_before caller ?hs)) - {caller, ?drawee}"
      using spec(3) by (auto simp: m3_def m1_def keys_of_hm)
    moreover have "set (map endorsee_node es) = set (map endorsee_node vs)" by (simp add: sort)
    moreover have "distinct (map endorsee_node es)"
      using vals(1) by (simp add: sort distinct_map)
    moreover have "sorted_wrt (\<lambda>a b. pe_signing_timestamp b \<le> pe_signing_timestamp a) es"
      using sorted_sort_key [of "\<lambda>e. - uint (ts_inner (pe_signing_timestamp e))" vs]
      by (simp add: sort sorted_wrt_map less_eq_Timestamp_def word_le_def)
    ultimately show ?thesis using vals(2) False spec(1) by (simp add: recourse_parties_def)
  qed
  then show "set (map endorsee_node es) = recourse_parties caller bill ?hs"
    and "distinct (map endorsee_node es)"
    and "sorted_wrt (\<lambda>a b. pe_signing_timestamp b \<le> pe_signing_timestamp a) es" by blast+
qed

end
