(* ===== verification/Bill_Validation_Props.thy ===== *)
theory Bill_Validation_Props
  imports Bill_Validation Bill_Recourse
begin

text \<open>
  What the validation of bill actions guarantees: who may act, that a bill that waits for a payment
  only admits the answers to the request it waits for, that a rejected or expired bill only admits
  recourse, and that shallow validation with the values of the chain agrees with deep validation.
\<close>

section \<open>Unfolding the checks\<close>

lemma get_latest_block_last: "get_latest_block c = Ok b \<longleftrightarrow> blocks c \<noteq> [] \<and> b = last (blocks c)"
  by (auto simp: get_latest_block_def last_opt_def)

lemma blockchain_err_Ok [simp]: "blockchain_err E r = Ok a \<longleftrightarrow> r = Ok a"
  by (simp add: blockchain_err_def)

lemma blockchain_err_id [simp]: "blockchain_err E (Ok a) = Ok a"
  by (simp add: blockchain_err_def)

lemma op_exists_iff: "op_exists E d op \<longleftrightarrow> (\<exists>b \<in> set (blocks (bva_blockchain d)). bbl_op_code b = op)"
  by (simp add: op_exists_def block_with_operation_code_exists_def list_ex_iff)

lemma waiting_case_Ok [simp]:
  "(case w of OTS_Yes i \<Rightarrow> f i | OTS_No \<Rightarrow> Err e) = Ok x \<longleftrightarrow> (\<exists>i. w = OTS_Yes i \<and> f i = Ok x)"
  "(case w of OTS_Yes i \<Rightarrow> Err e | OTS_No \<Rightarrow> r) = Ok x \<longleftrightarrow> w = OTS_No \<and> r = Ok x"
  "(case v of RCW_Yes i \<Rightarrow> g i | RCW_No \<Rightarrow> Err e) = Ok x \<longleftrightarrow> (\<exists>i. v = RCW_Yes i \<and> g i = Ok x)"
  "(case v of RCW_Yes i \<Rightarrow> Err e | RCW_No \<Rightarrow> r) = Ok x \<longleftrightarrow> v = RCW_No \<and> r = Ok x"
  by (auto split: OfferToSellWaitingForPayment.splits RecourseWaitingForPayment.splits)

lemma sell_case_Ok [simp]:
  "(case r of Ok (OTS_Yes i) \<Rightarrow> f i | Panic \<Rightarrow> Panic | _ \<Rightarrow> Err e) = Ok x \<longleftrightarrow>
     (\<exists>i. r = Ok (OTS_Yes i) \<and> f i = Ok x)"
  by (auto split: result.splits OfferToSellWaitingForPayment.splits)

lemmas validation_defs =
  validate_accept_def validate_request_to_accept_def validate_request_to_pay_def
  validate_request_recourse_def validate_recourse_def validate_mint_def validate_offer_to_sell_def
  validate_sell_def validate_endorse_def validate_reject_to_accept_def validate_reject_to_buy_def
  validate_reject_to_pay_def validate_reject_to_pay_recourse_def

lemma validate_action_not_paid: "validate_action E d = Ok () \<Longrightarrow> \<not> bva_is_paid d"
  by (simp add: validate_action_def)

lemma validate_action_paid: "bva_is_paid d \<Longrightarrow> validate_action E d = Err BillAlreadyPaid"
  by (simp add: validate_action_def)

section \<open>Who may act\<close>

definition holder_actions :: "BillOpCode set" where
  "holder_actions = {RequestToAccept, RequestToPay, RequestRecourse, Recourse, Mint, OfferToSell, Sell, Endorse}"

definition drawee_actions :: "BillOpCode set" where
  "drawee_actions = {Accept, RejectToAccept, RejectToPay}"

lemma validate_action_Ok_cases:
  assumes "validate_action E d = Ok ()"
  shows "(bill_action d = Accept \<and> validate_accept E d = Ok ()) \<or>
    (bill_action d = RequestToAccept \<and> validate_request_to_accept E d = Ok ()) \<or>
    (bill_action d = RequestToPay \<and> validate_request_to_pay E d = Ok ()) \<or>
    (bill_action d = RequestRecourse \<and> validate_request_recourse E d = Ok ()) \<or>
    (bill_action d = Recourse \<and> validate_recourse E d = Ok ()) \<or>
    (bill_action d = Mint \<and> validate_mint E d = Ok ()) \<or>
    (bill_action d = OfferToSell \<and> validate_offer_to_sell E d = Ok ()) \<or>
    (bill_action d = Sell \<and> validate_sell E d = Ok ()) \<or>
    (bill_action d = Endorse \<and> validate_endorse E d = Ok ()) \<or>
    (bill_action d = RejectToAccept \<and> validate_reject_to_accept E d = Ok ()) \<or>
    (bill_action d = RejectToBuy \<and> validate_reject_to_buy E d = Ok ()) \<or>
    (bill_action d = RejectToPay \<and> validate_reject_to_pay E d = Ok ()) \<or>
    (bill_action d = RejectToPayRecourse \<and> validate_reject_to_pay_recourse E d = Ok ())"
  using assms by (cases "bill_action d") (simp_all add: validate_action_def)

lemma authorised_role:
  assumes "validate_action E d = Ok ()"
  shows "bill_action d \<in> holder_actions \<Longrightarrow> bva_signer_node_id d = holder_node_id d"
    and "bill_action d \<in> drawee_actions \<Longrightarrow> bva_signer_node_id d = bva_drawee_node_id d"
    and "bill_action d = RejectToBuy \<Longrightarrow>
           \<exists>info. waiting_for_offer_to_sell E d = Ok (OTS_Yes info) \<and> bva_signer_node_id d = bp_node_id (spi_buyer info)"
    and "bill_action d = RejectToPayRecourse \<Longrightarrow>
           \<exists>info. waiting_for_recourse_payment E d = Ok (RCW_Yes info) \<and>
                  bva_signer_node_id d = bipd_node_id (rpi_recoursee info)"
    and "bill_action d \<noteq> Issue"
  using validate_action_Ok_cases [OF assms]
  by (auto simp: validation_defs holder_actions_def drawee_actions_def caller_is_holder_def and_then_eq_Ok)

section \<open>Waiting for a payment\<close>

text \<open>Deep validation of an action against a chain whose last block is \<open>b\<close>.\<close>

definition deep_at :: "BillEnv \<Rightarrow> BillValidateActionData \<Rightarrow> BillBlock \<Rightarrow> bool" where
  "deep_at E d b \<longleftrightarrow> (\<exists>a. bva_mode d = Deep a) \<and> increasing (blocks (bva_blockchain d)) \<and>
     (\<exists>bs. blocks (bva_blockchain d) = bs @ [b])"

lemma deep_offer:
  assumes "deep_at E d b"
  shows "waiting_for_offer_to_sell E d = Ok (OTS_Yes info) \<longleftrightarrow>
     bbl_op_code b = OfferToSell \<and> (\<exists>data. get_decrypted_block E (c_offer_to_sell E) b (bva_bill_keys d) = Ok data \<and>
       bva_timestamp d \<le> pay_payment_deadline (ots_payment_data data) \<and> info = sell_payment_info b data)"
proof -
  from assms obtain a bs where "bva_mode d = Deep a" "increasing (blocks (bva_blockchain d))"
    "blocks (bva_blockchain d) = bs @ [b]" by (auto simp: deep_at_def)
  then show ?thesis
    by (auto simp: waiting_for_offer_to_sell_def offer_waiting_iff and_then_eq_Ok not_less split: if_splits)
qed

lemma deep_recourse:
  assumes "deep_at E d b"
  shows "waiting_for_recourse_payment E d = Ok (RCW_Yes info) \<longleftrightarrow>
     bbl_op_code b = RequestRecourse \<and> (\<exists>data. get_decrypted_block E (c_request_recourse E) b (bva_bill_keys d) = Ok data \<and>
       bva_timestamp d \<le> pay_payment_deadline (rrc_payment_data data) \<and> info = recourse_payment_info b data)"
proof -
  from assms obtain a bs where "bva_mode d = Deep a" "increasing (blocks (bva_blockchain d))"
    "blocks (bva_blockchain d) = bs @ [b]" by (auto simp: deep_at_def)
  then show ?thesis
    by (auto simp: waiting_for_recourse_payment_def recourse_waiting_iff and_then_eq_Ok not_less split: if_splits)
qed

lemma not_waiting_for_offer:
  assumes "deep_at E d b"
  shows "bill_waiting_for_offer_to_sell E d = Ok () \<Longrightarrow> bbl_op_code b = OfferToSell \<Longrightarrow>
    get_decrypted_block E (c_offer_to_sell E) b (bva_bill_keys d) = Ok data \<Longrightarrow>
    pay_payment_deadline (ots_payment_data data) < bva_timestamp d"
  using deep_offer [OF assms, of "sell_payment_info b data"]
  by (auto simp: bill_waiting_for_offer_to_sell_def and_then_eq_Ok not_le [symmetric])

lemma not_waiting_for_recourse:
  assumes "deep_at E d b"
  shows "bill_waiting_for_recourse_payment E d = Ok () \<Longrightarrow> bbl_op_code b = RequestRecourse \<Longrightarrow>
    get_decrypted_block E (c_request_recourse E) b (bva_bill_keys d) = Ok data \<Longrightarrow>
    pay_payment_deadline (rrc_payment_data data) < bva_timestamp d"
  using deep_recourse [OF assms, of "recourse_payment_info b data"]
  by (auto simp: bill_waiting_for_recourse_payment_def and_then_eq_Ok not_le [symmetric])

lemma not_waiting_for_req_to_pay:
  assumes "deep_at E d b"
  shows "bill_waiting_for_req_to_pay E d = Ok () \<Longrightarrow> bbl_op_code b = RequestToPay \<Longrightarrow> \<not> bva_is_paid d \<Longrightarrow>
    get_decrypted_block E (c_request_to_pay E) b (bva_bill_keys d) = Ok data \<Longrightarrow>
    pay_payment_deadline (rtp_payment_data data) < bva_timestamp d"
proof -
  from assms obtain a bs where a: "bva_mode d = Deep a" "blocks (bva_blockchain d) = bs @ [b]"
    by (auto simp: deep_at_def)
  then show "bill_waiting_for_req_to_pay E d = Ok () \<Longrightarrow> bbl_op_code b = RequestToPay \<Longrightarrow> \<not> bva_is_paid d \<Longrightarrow>
    get_decrypted_block E (c_request_to_pay E) b (bva_bill_keys d) = Ok data \<Longrightarrow>
    pay_payment_deadline (rtp_payment_data data) < bva_timestamp d"
    by (auto simp: bill_waiting_for_req_to_pay_def get_latest_block_def get_last_version_block_with_op_code_def
        is_req_to_pay_block_payment_expired_def has_deadline_passed_def Let_def and_then_eq_Ok)
qed

text \<open>While the last block is a request that is neither paid nor expired, only its answers are admitted.\<close>

definition awaited_answers :: "BillOpCode \<Rightarrow> BillOpCode set" where
  "awaited_answers op =
     (case op of
        OfferToSell \<Rightarrow> {Sell, RejectToBuy}
      | RequestRecourse \<Rightarrow> {Recourse, RejectToPayRecourse}
      | RequestToPay \<Rightarrow> {RejectToPay}
      | _ \<Rightarrow> UNIV)"

text \<open>The payment deadline of a request for funds.\<close>

definition request_deadline :: "BillEnv \<Rightarrow> BillBlock \<Rightarrow> BcrKeys \<Rightarrow> Timestamp option" where
  "request_deadline E b k =
     (case bbl_op_code b of
        OfferToSell \<Rightarrow> (case get_decrypted_block E (c_offer_to_sell E) b k of
            Ok data \<Rightarrow> Some (pay_payment_deadline (ots_payment_data data)) | _ \<Rightarrow> None)
      | RequestRecourse \<Rightarrow> (case get_decrypted_block E (c_request_recourse E) b k of
            Ok data \<Rightarrow> Some (pay_payment_deadline (rrc_payment_data data)) | _ \<Rightarrow> None)
      | RequestToPay \<Rightarrow> (case get_decrypted_block E (c_request_to_pay E) b k of
            Ok data \<Rightarrow> Some (pay_payment_deadline (rtp_payment_data data)) | _ \<Rightarrow> None)
      | _ \<Rightarrow> None)"

lemma blocked_while_waiting:
  assumes deep: "deep_at E d b" and ok: "validate_action E d = Ok ()"
    and deadline: "request_deadline E b (bva_bill_keys d) = Some t" and t: "bva_timestamp d \<le> t"
  shows "bill_action d \<in> awaited_answers (bbl_op_code b)"
proof -
  have offer: "bill_waiting_for_offer_to_sell E d \<noteq> Ok ()" if "bbl_op_code b = OfferToSell"
    using not_waiting_for_offer [OF deep] that deadline t
    by (auto simp: request_deadline_def not_less [symmetric] split: result.splits)
  have recourse: "bill_waiting_for_recourse_payment E d \<noteq> Ok ()" if "bbl_op_code b = RequestRecourse"
    using not_waiting_for_recourse [OF deep] that deadline t
    by (auto simp: request_deadline_def not_less [symmetric] split: result.splits)
  have pay: "bill_waiting_for_req_to_pay E d \<noteq> Ok ()" if "bbl_op_code b = RequestToPay"
    using not_waiting_for_req_to_pay [OF deep] that deadline t validate_action_not_paid [OF ok]
    by (auto simp: request_deadline_def not_less [symmetric] split: result.splits)
  consider "bbl_op_code b = OfferToSell" | "bbl_op_code b = RequestRecourse" | "bbl_op_code b = RequestToPay"
    | "awaited_answers (bbl_op_code b) = UNIV"
    by (cases "bbl_op_code b") (auto simp: awaited_answers_def)
  then show ?thesis
  proof cases
    case 1
    then show ?thesis using validate_action_Ok_cases [OF ok] offer [OF 1]
      by (auto simp: validation_defs bill_is_blocked_def awaited_answers_def and_then_eq_Ok)
  next
    case 2
    then show ?thesis using validate_action_Ok_cases [OF ok] recourse [OF 2]
      by (auto simp: validation_defs bill_is_blocked_def awaited_answers_def and_then_eq_Ok)
  next
    case 3
    then show ?thesis using validate_action_Ok_cases [OF ok] pay [OF 3]
      by (auto simp: validation_defs bill_is_blocked_def awaited_answers_def and_then_eq_Ok)
  next
    case 4
    then show ?thesis by simp
  qed
qed

section \<open>Answers follow their request\<close>

lemma answer_follows_request:
  assumes deep: "deep_at E d b" and ok: "validate_action E d = Ok ()"
  shows "bill_action d \<in> {Sell, RejectToBuy} \<Longrightarrow> bbl_op_code b = OfferToSell"
    and "bill_action d \<in> {Recourse, RejectToPayRecourse} \<Longrightarrow> bbl_op_code b = RequestRecourse"
  using validate_action_Ok_cases [OF ok] deep_offer [OF deep] deep_recourse [OF deep]
  by (auto simp: validation_defs and_then_eq_Ok)

text \<open>A sale goes to the buyer of the open offer, and is made by its seller.\<close>

lemma sell_matches_offer:
  assumes deep: "deep_at E d b" and ok: "validate_action E d = Ok ()" and mode: "bva_mode d = Deep (A_Sell buyer)"
  shows "\<exists>data. get_decrypted_block E (c_offer_to_sell E) b (bva_bill_keys d) = Ok data \<and>
           bpd_node_id (ots_buyer data) = bp_node_id buyer \<and> bpd_node_id (ots_seller data) = bva_signer_node_id d \<and>
           bva_timestamp d \<le> pay_payment_deadline (ots_payment_data data)"
proof -
  have "bill_action d = Sell" by (simp add: bill_action_def mode action_op_code_def)
  with validate_action_Ok_cases [OF ok] have "validate_sell E d = Ok ()" by auto
  then obtain info where info: "waiting_for_offer_to_sell E d = Ok (OTS_Yes info)"
    and "bp_node_id (spi_buyer info) = bp_node_id buyer" "bp_node_id (spi_seller info) = bva_signer_node_id d"
    by (auto simp: validate_sell_def mode)
  then show ?thesis using deep_offer [OF deep, of info] by (auto simp: sell_payment_info_def)
qed

lemma recourse_matches_request:
  assumes deep: "deep_at E d b" and ok: "validate_action E d = Ok ()" and mode: "bva_mode d = Deep (A_Recourse recoursee)"
  shows "\<exists>data. get_decrypted_block E (c_request_recourse E) b (bva_bill_keys d) = Ok data \<and>
           bipd_node_id (rrc_recoursee data) = bip_node_id recoursee \<and>
           bpd_node_id (rrc_recourser data) = bva_signer_node_id d \<and>
           bva_timestamp d \<le> pay_payment_deadline (rrc_payment_data data)"
proof -
  have "bill_action d = Recourse" by (simp add: bill_action_def mode action_op_code_def)
  with validate_action_Ok_cases [OF ok] have "validate_recourse E d = Ok ()" by auto
  then obtain info where info: "waiting_for_recourse_payment E d = Ok (RCW_Yes info)"
    and "bipd_node_id (rpi_recoursee info) = bip_node_id recoursee" "bpd_node_id (rpi_recourser info) = bva_signer_node_id d"
    by (auto simp: validate_recourse_def mode and_then_eq_Ok)
  then show ?thesis using deep_recourse [OF deep, of info] by (auto simp: recourse_payment_info_def)
qed

section \<open>Rejected or expired bills\<close>

text \<open>A bill that was rejected, or whose payment or acceptance expired, only admits recourse.\<close>

definition only_recourse :: "BillEnv \<Rightarrow> BillValidateActionData \<Rightarrow> bool" where
  "only_recourse E d \<longleftrightarrow>
     op_exists E d RejectToAccept \<or> op_exists E d RejectToPay \<or>
     (\<exists>b. bill_last_with_op E (bva_blockchain d) RequestToPay = Some b \<and> req_to_pay_expired E d b = Ok True) \<or>
     (\<exists>b. bill_last_with_op E (bva_blockchain d) RequestToAccept = Some b \<and> req_to_accept_expired E d b = Ok True \<and>
          \<not> op_exists E d Accept)"

lemma can_only_be_recoursed_Ok:
  assumes "bill_can_only_be_recoursed E d = Ok ()" and "\<not> bva_is_paid d" and "only_recourse E d"
  shows "bill_action d \<in> {Recourse, RequestRecourse, RejectToPayRecourse}"
  using assms by (auto simp: bill_can_only_be_recoursed_def only_recourse_def and_then_eq_Ok split: if_splits)

lemma rejected_or_expired:
  assumes ok: "validate_action E d = Ok ()" and bad: "only_recourse E d"
  shows "bill_action d \<in> {Recourse, RequestRecourse, RejectToPayRecourse}"
  using validate_action_Ok_cases [OF ok] can_only_be_recoursed_Ok [OF _ validate_action_not_paid [OF ok] bad]
  by (auto simp: validation_defs and_then_eq_Ok)

section \<open>Requesting recourse\<close>

lemma request_recourse_admissible:
  assumes order: "hash_order_laws (env_ext E)" and ok: "validate_action E d = Ok ()"
    and mode: "bva_mode d = Deep (A_RequestRecourse recoursee reason deadline)"
    and bill: "get_first_version_bill E (bva_blockchain d) (bva_bill_keys d) = Ok bill"
  shows "bip_node_id recoursee \<in> recourse_parties (bva_signer_node_id d) bill
           (holders_before_recourse E (bva_blockchain d) (bva_bill_keys d))"
proof -
  have "bill_action d = RequestRecourse" by (simp add: bill_action_def mode action_op_code_def)
  with validate_action_Ok_cases [OF ok] have "recoursee_is_past_holder E d = Ok ()"
    by (auto simp: validate_request_recourse_def)
  then obtain es where "get_past_endorsees_for_bill E (bva_blockchain d) (bva_bill_keys d) (bva_signer_node_id d) = Ok es"
    and "\<exists>e \<in> set es. endorsee_node e = bip_node_id recoursee"
    by (auto simp: recoursee_is_past_holder_def past_endorsees_def mode and_then_eq_Ok list_ex_iff)
  with past_endorsees_spec(1) [OF order bill this(1)] show ?thesis by force
qed

lemma request_recourse_reason:
  assumes ok: "validate_action E d = Ok ()" and mode: "bva_mode d = Deep (A_RequestRecourse recoursee reason deadline)"
  shows "case reason of
           RR_Accept \<Rightarrow> op_exists E d RejectToAccept \<or>
             (\<exists>b. bill_last_with_op E (bva_blockchain d) RequestToAccept = Some b \<and> req_to_accept_expired E d b = Ok True)
         | RR_Pay _ \<Rightarrow> \<exists>b. bill_last_with_op E (bva_blockchain d) RequestToPay = Some b \<and>
             (op_exists E d RejectToPay \<or> req_to_pay_expired E d b = Ok True)"
proof -
  have "bill_action d = RequestRecourse" by (simp add: bill_action_def mode action_op_code_def)
  with validate_action_Ok_cases [OF ok] have "recourse_reason_is_valid E d = Ok ()"
    by (auto simp: validate_request_recourse_def)
  then show ?thesis
    by (auto simp: recourse_reason_is_valid_def req_to_recourse_reason_def mode and_then_eq_Ok
        split: RecourseReason.splits option.splits)
qed

section \<open>Deep and shallow validation\<close>

text \<open>The precomputed values of a shallow validation agree with the chain.\<close>

definition shallow_agrees :: "BillEnv \<Rightarrow> BillValidateActionData \<Rightarrow> BillAction \<Rightarrow> BillShallowValidationData \<Rightarrow> bool" where
  "shallow_agrees E d a s \<longleftrightarrow>
     (let dd = d\<lparr>bva_mode := Deep a\<rparr> in
      bsv_bill_action s = action_op_code a \<and>
      (bill_waiting_for_req_to_pay E dd = reject_if (bsv_is_waiting_for_req_to_pay s) BillIsRequestedToPayAndWaitingForPayment) \<and>
      waiting_for_recourse_payment E dd = Ok (bsv_waiting_for_recourse_payment s) \<and>
      waiting_for_offer_to_sell E dd = Ok (bsv_waiting_for_offer_to_sell s) \<and>
      past_endorsees E dd = Ok (bsv_past_endorsees s) \<and>
      (\<forall>b. bill_last_with_op E (bva_blockchain d) RequestToPay = Some b \<longrightarrow>
           req_to_pay_expired E dd b = Ok (bsv_is_req_to_pay_expired s)) \<and>
      (\<forall>b. bill_last_with_op E (bva_blockchain d) RequestToAccept = Some b \<longrightarrow>
           req_to_accept_expired E dd b = Ok (bsv_is_req_to_accept_expired s)) \<and>
      bsv_recourse_reason s = req_to_recourse_reason dd)"

lemma shallow_checks_agree:
  assumes "shallow_agrees E d a s"
  defines "dd \<equiv> d\<lparr>bva_mode := Deep a\<rparr>" and "ds \<equiv> d\<lparr>bva_mode := Shallow s\<rparr>"
  shows "bill_action ds = bill_action dd"
    and "bill_waiting_for_req_to_pay E ds = bill_waiting_for_req_to_pay E dd"
    and "waiting_for_recourse_payment E ds = waiting_for_recourse_payment E dd"
    and "waiting_for_offer_to_sell E ds = waiting_for_offer_to_sell E dd"
    and "past_endorsees E ds = past_endorsees E dd"
    and "bill_last_with_op E (bva_blockchain d) RequestToPay = Some b \<Longrightarrow>
           req_to_pay_expired E ds b = req_to_pay_expired E dd b"
    and "bill_last_with_op E (bva_blockchain d) RequestToAccept = Some b' \<Longrightarrow>
           req_to_accept_expired E ds b' = req_to_accept_expired E dd b'"
    and "req_to_recourse_reason ds = req_to_recourse_reason dd"
  using assms(1) unfolding shallow_agrees_def dd_def ds_def Let_def
  by (auto simp: bill_action_def bill_waiting_for_req_to_pay_def waiting_for_recourse_payment_def
      waiting_for_offer_to_sell_def past_endorsees_def req_to_pay_expired_def req_to_accept_expired_def
      req_to_recourse_reason_def)

lemma shallow_guards_agree:
  assumes agrees: "shallow_agrees E d a s"
  defines "dd \<equiv> d\<lparr>bva_mode := Deep a\<rparr>" and "ds \<equiv> d\<lparr>bva_mode := Shallow s\<rparr>"
  shows "op_exists E ds op = op_exists E dd op" and "caller_is_holder ds = caller_is_holder dd"
    and "bill_waiting_for_offer_to_sell E ds = bill_waiting_for_offer_to_sell E dd"
    and "bill_waiting_for_recourse_payment E ds = bill_waiting_for_recourse_payment E dd"
    and "bill_is_blocked E ds = bill_is_blocked E dd"
    and "bill_can_only_be_recoursed E ds = bill_can_only_be_recoursed E dd"
    and "recourse_reason_is_valid E ds = recourse_reason_is_valid E dd"
    and "not_recoursed_to_the_end E ds = not_recoursed_to_the_end E dd"
proof -
  note eqs = shallow_checks_agree [OF agrees, folded dd_def ds_def]
  have chain: "bva_blockchain ds = bva_blockchain d" "bva_blockchain dd = bva_blockchain d"
    "bva_is_paid ds = bva_is_paid dd"
    by (simp_all add: dd_def ds_def)
  show ex: "op_exists E ds op = op_exists E dd op" for op
    by (simp add: op_exists_def chain)
  show "caller_is_holder ds = caller_is_holder dd"
    by (simp add: caller_is_holder_def holder_node_id_def dd_def ds_def split: option.splits)
  show offer: "bill_waiting_for_offer_to_sell E ds = bill_waiting_for_offer_to_sell E dd"
    and rec: "bill_waiting_for_recourse_payment E ds = bill_waiting_for_recourse_payment E dd"
    by (simp_all add: bill_waiting_for_offer_to_sell_def bill_waiting_for_recourse_payment_def eqs)
  then show "bill_is_blocked E ds = bill_is_blocked E dd"
    by (simp add: bill_is_blocked_def eqs)
  show "bill_can_only_be_recoursed E ds = bill_can_only_be_recoursed E dd"
    unfolding bill_can_only_be_recoursed_def eqs(1) ex chain
    by (auto simp: eqs(6,7) split: option.splits)
  show "recourse_reason_is_valid E ds = recourse_reason_is_valid E dd"
    unfolding recourse_reason_is_valid_def eqs(8) ex chain
    by (auto simp: eqs(6,7) split: option.splits RecourseReason.splits)
  show "not_recoursed_to_the_end E ds = not_recoursed_to_the_end E dd"
    by (simp add: not_recoursed_to_the_end_def eqs ex)
qed

lemma shallow_validation_agrees:
  assumes agrees: "shallow_agrees E d a s" and a: "action_op_code a \<notin> {RequestRecourse, Recourse, Sell}"
  shows "validate_action E (d\<lparr>bva_mode := Shallow s\<rparr>) = validate_action E (d\<lparr>bva_mode := Deep a\<rparr>)"
proof -
  note eqs = shallow_checks_agree [OF agrees] and guards = shallow_guards_agree [OF agrees]
  have "bill_action (d\<lparr>bva_mode := Deep a\<rparr>) \<notin> {RequestRecourse, Recourse, Sell}"
    using a by (simp add: bill_action_def)
  then show ?thesis
    unfolding validate_action_def eqs(1)
    by (cases "bill_action (d\<lparr>bva_mode := Deep a\<rparr>)") (simp_all add: validation_defs guards eqs)
qed

text \<open>For the remaining actions shallow validation only leaves out the check of the action's data.\<close>

lemma deep_implies_shallow:
  assumes agrees: "shallow_agrees E d a s" and ok: "validate_action E (d\<lparr>bva_mode := Deep a\<rparr>) = Ok ()"
  shows "validate_action E (d\<lparr>bva_mode := Shallow s\<rparr>) = Ok ()"
proof (cases "action_op_code a \<in> {RequestRecourse, Recourse, Sell}")
  case False
  with shallow_validation_agrees [OF agrees] ok show ?thesis by simp
next
  case True
  note eqs = shallow_checks_agree [OF agrees] and guards = shallow_guards_agree [OF agrees]
  have "bill_action (d\<lparr>bva_mode := Deep a\<rparr>) \<in> {RequestRecourse, Recourse, Sell}"
    using True by (simp add: bill_action_def)
  with ok show ?thesis
    unfolding validate_action_def eqs(1)
    by (auto simp: validation_defs guards eqs and_then_eq_Ok recoursee_is_past_holder_def)
qed

end
