(* ===== verification/Bill_Pairing.thy ===== *)
theory Bill_Pairing
  imports Bill_Chain_Props
begin

text \<open>
  The past payments of a bill pair every request for funds with the block that answers it. Offers to
  sell and requests for recourse use the same loop over different op codes: the locale
  \<open>request_pairing\<close> states that loop once, and the facts about pairs are proved in it. They are
  interpreted for \<open>sell_pairs\<close> and \<open>recourse_pairs\<close>.
\<close>

section \<open>Pairing requests with answers\<close>

locale request_pairing =
  fixes pairs :: "'b option \<Rightarrow> ('b \<times> 'b option) list \<Rightarrow> 'b list \<Rightarrow> (('b \<times> 'b option) list, 'e) result"
    and request answer :: "'b \<Rightarrow> bool" and invalid :: 'e
  assumes pairs_end: "pairs cur acc [] = Ok (case cur of Some r \<Rightarrow> acc @ [(r, None)] | None \<Rightarrow> acc)"
    and pairs_request: "request b \<Longrightarrow>
      pairs cur acc (b # bs) = pairs (Some b) (case cur of Some r \<Rightarrow> acc @ [(r, None)] | None \<Rightarrow> acc) bs"
    and pairs_answer: "answer b \<Longrightarrow>
      pairs cur acc (b # bs) =
        (case cur of Some r \<Rightarrow> pairs None (acc @ [(r, Some b)]) bs | None \<Rightarrow> Err invalid)"
    and pairs_other: "\<not> request b \<Longrightarrow> \<not> answer b \<Longrightarrow> pairs cur acc (b # bs) = pairs cur acc bs"
    and disjoint: "\<not> (request b \<and> answer b)"
begin

text \<open>An answer is open when a request precedes it with no other answer in between.\<close>

fun answered :: "bool \<Rightarrow> 'b list \<Rightarrow> bool" where
  "answered pending [] = True"
| "answered pending (b # bs) =
     (if request b then answered True bs
      else if answer b then pending \<and> answered False bs
      else answered pending bs)"

lemma pairs_succeed_iff: "(\<exists>ps. pairs cur acc bs = Ok ps) \<longleftrightarrow> answered (cur \<noteq> None) bs"
proof (induction bs arbitrary: cur acc)
  case Nil
  then show ?case by (simp add: pairs_end)
next
  case (Cons b bs)
  consider "request b" | "answer b" "\<not> request b" | "\<not> request b" "\<not> answer b"
    by blast
  then show ?case
    using Cons.IH by cases (auto simp: pairs_request pairs_answer pairs_other split: option.splits)
qed

lemma pairs_fail: "pairs cur acc bs = Err e \<Longrightarrow> e = invalid" and pairs_total: "pairs cur acc bs \<noteq> Panic"
proof -
  have "(pairs cur acc bs = Err e \<longrightarrow> e = invalid) \<and> pairs cur acc bs \<noteq> Panic"
  proof (induction bs arbitrary: cur acc)
    case Nil
    then show ?case by (simp add: pairs_end)
  next
    case (Cons b bs)
    consider "request b" | "answer b" "\<not> request b" | "\<not> request b" "\<not> answer b"
      by blast
    then show ?case
      using Cons.IH by cases (auto simp: pairs_request pairs_answer pairs_other split: option.splits)
  qed
  then show "pairs cur acc bs = Err e \<Longrightarrow> e = invalid" and "pairs cur acc bs \<noteq> Panic" by blast+
qed

text \<open>Every request is in exactly one pair and every answer answers one request, both in order.\<close>

lemma pairs_requests_answers:
  assumes "pairs cur acc bs = Ok ps"
  shows "map fst ps = map fst acc @ (case cur of Some r \<Rightarrow> [r] | None \<Rightarrow> []) @ filter request bs"
    and "List.map_filter snd ps = List.map_filter snd acc @ filter answer bs"
proof -
  have "map fst ps = map fst acc @ (case cur of Some r \<Rightarrow> [r] | None \<Rightarrow> []) @ filter request bs \<and>
      List.map_filter snd ps = List.map_filter snd acc @ filter answer bs"
    using assms
  proof (induction bs arbitrary: cur acc)
    case Nil
    then show ?case by (auto simp: pairs_end List.map_filter_def split: option.splits)
  next
    case (Cons b bs)
    consider "request b" "\<not> answer b" | "answer b" "\<not> request b" | "\<not> request b" "\<not> answer b"
      using disjoint by blast
    then show ?case
    proof cases
      case 1
      with Cons.prems have "pairs (Some b) (case cur of Some r \<Rightarrow> acc @ [(r, None)] | None \<Rightarrow> acc) bs = Ok ps"
        by (simp add: pairs_request)
      from Cons.IH [OF this] 1 show ?thesis by (auto simp: List.map_filter_def split: option.splits)
    next
      case 2
      with Cons.prems obtain r where "cur = Some r" "pairs None (acc @ [(r, Some b)]) bs = Ok ps"
        by (auto simp: pairs_answer split: option.splits)
      with Cons.IH [OF this(2)] 2 show ?thesis by (auto simp: List.map_filter_def)
    next
      case 3
      with Cons.prems have "pairs cur acc bs = Ok ps" by (simp add: pairs_other)
      from Cons.IH [OF this] 3 show ?thesis by simp
    qed
  qed
  then show "map fst ps = map fst acc @ (case cur of Some r \<Rightarrow> [r] | None \<Rightarrow> []) @ filter request bs"
    and "List.map_filter snd ps = List.map_filter snd acc @ filter answer bs" by blast+
qed

text \<open>A chain in which every answer directly follows a request is paired without an error.\<close>

lemma adjacent_answered:
  assumes "successively (\<lambda>a b. answer b \<longrightarrow> request a) (a # bs)"
  shows "answered (request a) bs"
proof -
  have weak: "answered pending bs \<Longrightarrow> answered True bs" for pending bs
    by (induction bs arbitrary: pending) (auto split: if_splits)
  from assms show ?thesis
  proof (induction bs arbitrary: a)
    case (Cons b bs)
    then have b: "answer b \<longrightarrow> request a" and rest: "answered (request b) bs" by auto
    show ?case using b rest weak [OF rest] disjoint [of b] by (cases "request a") auto
  qed simp
qed

lemma adjacent_pairs:
  assumes "successively (\<lambda>a b. answer b \<longrightarrow> request a) bs" and "bs \<noteq> []" and "\<not> answer (hd bs)"
  shows "\<exists>ps. pairs None [] bs = Ok ps"
proof -
  obtain a cs where bs: "bs = a # cs" using assms(2) by (cases bs) auto
  with assms(1) have "answered (request a) cs" by (intro adjacent_answered) simp
  with bs assms(3) have "answered False bs" by auto
  then show ?thesis using pairs_succeed_iff [of None "[]" bs] by simp
qed

end

section \<open>Offers to sell and requests for recourse\<close>

abbreviation is_offer :: "BillBlock \<Rightarrow> bool" where
  "is_offer b \<equiv> bbl_op_code b = OfferToSell"

abbreviation is_offer_answer :: "BillBlock \<Rightarrow> bool" where
  "is_offer_answer b \<equiv> bbl_op_code b \<in> {RejectToBuy, Sell}"

abbreviation is_recourse_request :: "BillBlock \<Rightarrow> bool" where
  "is_recourse_request b \<equiv> bbl_op_code b = RequestRecourse"

abbreviation is_recourse_answer :: "BillBlock \<Rightarrow> bool" where
  "is_recourse_answer b \<equiv> bbl_op_code b \<in> {RejectToPayRecourse, Recourse}"

interpretation sell: request_pairing sell_pairs is_offer is_offer_answer BlockchainInvalid
  by unfold_locales (auto split: option.splits)

interpretation recourse: request_pairing recourse_pairs is_recourse_request is_recourse_answer BlockchainInvalid
  by unfold_locales (auto split: option.splits)

end
