(* ===== verification/Bill_Lifecycle.thy ===== *)
theory Bill_Lifecycle
  imports Bill_Processor Bill_Validation_Props Bill_Pairing
begin

text \<open>
  The life of a bill as a state machine: a chain starts with an issue block and grows by the blocks
  that the processor accepts. The invariants of the reachable chains, by rule induction, show which
  histories of a bill are possible. They rest on the checks of one accepted block and on the
  validation of its action.
\<close>

section \<open>One accepted block\<close>

definition accepted ::
  "ProcEnv \<Rightarrow> BillIssueBlockData \<Rightarrow> BcrKeys \<Rightarrow> BillBlockchain \<Rightarrow> BillBlock \<Rightarrow> BillBlockchain \<Rightarrow> bool" where
  "accepted P first k c b c' \<longleftrightarrow>
     (\<exists>bill_id is_paid. validate_block_for_chain P bill_id c first k b is_paid = (Ok True, c'))"

lemma validate_block_for_chain_True:
  assumes "validate_block_for_chain P bill_id c first k b is_paid = (Ok True, c')"
  obtains signer a parties mint where
    "validate_block_before_add P bill_id c k b = Ok (Some mint)"
    "linked (bill_ops (proc_bill P)) (env_ext (proc_bill P)) (last (blocks c)) b"
    "c' = c\<lparr>blocks := blocks c @ [b]\<rparr>" "blocks c \<noteq> []"
    "verify_and_get_signer (proc_bill P) b k = Ok (signer, Some a)"
    "validate_block_payment_address P bill_id c k b signer mint = Ok ()"
    "get_bill_parties (proc_bill P) c k first = Ok parties"
    "validate_action (proc_bill P) (action_data_for c parties first k b signer is_paid a) = Ok ()"
proof -
  from assms obtain mint where before: "validate_block_before_add P bill_id c k b = Ok (Some mint)"
    and add: "try_add_block (bill_ops (proc_bill P)) (env_ext (proc_bill P)) c b = Ok (True, c')"
    and after: "validate_block_after_add P bill_id c first k b is_paid mint = Ok True"
    by (auto simp: validate_block_for_chain_def Let_def split: result.splits option.splits prod.splits bool.splits)
  from after obtain signer a parties where
    "verify_and_get_signer (proc_bill P) b k = Ok (signer, Some a)"
    "validate_block_payment_address P bill_id c k b signer mint = Ok ()"
    "get_bill_parties (proc_bill P) c k first = Ok parties"
    "validate_action (proc_bill P) (action_data_for c parties first k b signer is_paid a) = Ok ()"
    by (auto simp: validate_block_after_add_def Let_def chain_err_def and_then_eq_Ok)
  with before add show ?thesis using that by (auto simp: try_add_block_iff)
qed

lemma accepted_facts:
  assumes "accepted P first k c b c'"
  obtains signer a parties is_paid where
    "linked (bill_ops (proc_bill P)) (env_ext (proc_bill P)) (last (blocks c)) b"
    "c' = c\<lparr>blocks := blocks c @ [b]\<rparr>" "blocks c \<noteq> []"
    "bbl_id (last (blocks c)) < bbl_id b" "bbl_op_code b \<noteq> Issue" "action_op_code a = bbl_op_code b"
    "verify_and_get_signer (proc_bill P) b k = Ok (signer, Some a)"
    "get_bill_parties (proc_bill P) c k first = Ok parties"
    "validate_action (proc_bill P) (action_data_for c parties first k b signer is_paid a) = Ok ()"
proof -
  from assms obtain bill_id is_paid where
    val: "validate_block_for_chain P bill_id c first k b is_paid = (Ok True, c')" by (auto simp: accepted_def)
  show ?thesis
  proof (rule validate_block_for_chain_True [OF val])
    fix signer a parties mint
    assume before: "validate_block_before_add P bill_id c k b = Ok (Some mint)"
      and l: "linked (bill_ops (proc_bill P)) (env_ext (proc_bill P)) (last (blocks c)) b"
      and c: "c' = c\<lparr>blocks := blocks c @ [b]\<rparr>" "blocks c \<noteq> []"
      and s: "verify_and_get_signer (proc_bill P) b k = Ok (signer, Some a)"
      and p: "get_bill_parties (proc_bill P) c k first = Ok parties"
      and v: "validate_action (proc_bill P) (action_data_for c parties first k b signer is_paid a) = Ok ()"
    from before c(2) have "bbl_id (last (blocks c)) < bbl_id b" "bbl_op_code b \<noteq> Issue"
      by (auto simp: validate_block_before_add_def Let_def and_then_eq_Ok get_latest_block_def last_opt_def
          split: if_splits)
    with action_matches_op_code [OF s] show ?thesis using that l c s p v by auto
  qed
qed

section \<open>Reachable chains\<close>

inductive bill_reachable :: "ProcEnv \<Rightarrow> BillIssueBlockData \<Rightarrow> BcrKeys \<Rightarrow> BillBlockchain \<Rightarrow> bool"
  for P first k where
  reach_issue: "bill_chain_ok (proc_bill P) \<lparr>blocks = [b]\<rparr> \<Longrightarrow> bbl_op_code b = Issue \<Longrightarrow>
     get_decrypted_block (proc_bill P) (c_issue (proc_bill P)) b k = Ok first \<Longrightarrow>
     bill_reachable P first k \<lparr>blocks = [b]\<rparr>"
| reach_block: "bill_reachable P first k c \<Longrightarrow> accepted P first k c b c' \<Longrightarrow> bill_reachable P first k c'"

inductive_simps bill_reachable_simp: "bill_reachable P first k c"
inductive_cases bill_reachable_cases: "bill_reachable P first k c"

text \<open>Reachable chains are valid, with increasing ids: an accepted block never wraps around.\<close>

lemma reachable_ok:
  assumes "bill_reachable P first k c"
  shows "bill_chain_ok (proc_bill P) c" and "increasing (blocks c)"
    and "get_first_version_bill (proc_bill P) c k = Ok first"
    and "bbl_op_code (hd (blocks c)) = Issue \<and> (\<forall>b \<in> set (tl (blocks c)). bbl_op_code b \<noteq> Issue)"
proof -
  have "bill_chain_ok (proc_bill P) c \<and> increasing (blocks c) \<and> get_first_version_bill (proc_bill P) c k = Ok first \<and>
      bbl_op_code (hd (blocks c)) = Issue \<and> (\<forall>b \<in> set (tl (blocks c)). bbl_op_code b \<noteq> Issue)"
    using assms
  proof induction
    case (reach_issue b)
    then show ?case by (simp add: increasing_def get_first_version_bill_def get_first_block_def)
  next
    case (reach_block c b c')
    from reach_block.hyps(2) show ?case
    proof (rule accepted_facts)
      fix signer a parties is_paid
      assume l: "linked (bill_ops (proc_bill P)) (env_ext (proc_bill P)) (last (blocks c)) b"
        and c': "c' = c\<lparr>blocks := blocks c @ [b]\<rparr>" "blocks c \<noteq> []"
        and i: "bbl_id (last (blocks c)) < bbl_id b" "bbl_op_code b \<noteq> Issue"
      obtain bs x where bs: "blocks c = bs @ [x]" using c'(2) by (cases "blocks c" rule: rev_cases) auto
      have "bbl_id y < bbl_id b" if "y \<in> set (blocks c)" for y
        using reach_block.IH i(1) that by (auto simp: bs increasing_def sorted_wrt_append)
      then have inc: "increasing (blocks c')"
        using reach_block.IH c' by (simp add: increasing_def sorted_wrt_append)
      have "successively (linked (bill_ops (proc_bill P)) (env_ext (proc_bill P))) (blocks c')"
        using reach_block.IH l c' by (simp add: bill_chain_ok_def is_chain_valid_iff successively_append_iff)
      then have "bill_chain_ok (proc_bill P) c'"
        using reach_block.IH c' by (simp add: bill_chain_ok_def is_chain_valid_iff)
      moreover obtain h t where "blocks c = h # t" using c'(2) by (cases "blocks c") auto
      ultimately show ?thesis
        using reach_block.IH inc c' i by (auto simp: get_first_version_bill_def get_first_block_def)
    qed
  qed
  then show "bill_chain_ok (proc_bill P) c" and "increasing (blocks c)"
    and "get_first_version_bill (proc_bill P) c k = Ok first"
    and "bbl_op_code (hd (blocks c)) = Issue \<and> (\<forall>b \<in> set (tl (blocks c)). bbl_op_code b \<noteq> Issue)" by blast+
qed

text \<open>Induction over the accepted blocks of a reachable chain, with what validation established.\<close>

lemma reachable_step:
  assumes reach: "bill_reachable P first k c" and acc: "accepted P first k c b c'"
  obtains x bs d where "blocks c = bs @ [x]" "blocks c' = bs @ [x, b]" "deep_at (proc_bill P) d x"
    "validate_action (proc_bill P) d = Ok ()" "bill_action d = bbl_op_code b" "bva_blockchain d = c"
    "bva_bill_keys d = k" "bva_timestamp d = bbl_timestamp b" "bbl_timestamp x \<le> bbl_timestamp b"
    "\<exists>signer a. verify_and_get_signer (proc_bill P) b k = Ok (signer, Some a)"
  using acc
proof (rule accepted_facts)
  fix signer a parties is_paid
  assume l: "linked (bill_ops (proc_bill P)) (env_ext (proc_bill P)) (last (blocks c)) b"
    and c': "c' = c\<lparr>blocks := blocks c @ [b]\<rparr>" "blocks c \<noteq> []" and a: "action_op_code a = bbl_op_code b"
    and s: "verify_and_get_signer (proc_bill P) b k = Ok (signer, Some a)"
    and v: "validate_action (proc_bill P) (action_data_for c parties first k b signer is_paid a) = Ok ()"
  obtain bs x where bs: "blocks c = bs @ [x]" using c'(2) by (cases "blocks c" rule: rev_cases) auto
  let ?d = "action_data_for c parties first k b signer is_paid a"
  have deep: "deep_at (proc_bill P) ?d x"
    using reachable_ok(2) [OF reach] by (auto simp: deep_at_def action_data_for_def bs)
  have ts: "bbl_timestamp x \<le> bbl_timestamp b" using l by (simp add: linked_iff bs)
  show thesis
    by (rule that [OF bs _ deep v]) (use c'(1) bs a s ts in \<open>auto simp: action_data_for_def bill_action_def\<close>)
qed

section \<open>Requests and answers\<close>

lemma reachable_answers_adjacent:
  assumes "bill_reachable P first k c"
  shows "successively (\<lambda>a b. is_offer_answer b \<longrightarrow> is_offer a) (blocks c)"
    and "successively (\<lambda>a b. is_recourse_answer b \<longrightarrow> is_recourse_request a) (blocks c)"
proof -
  have "successively (\<lambda>a b. is_offer_answer b \<longrightarrow> is_offer a) (blocks c) \<and>
      successively (\<lambda>a b. is_recourse_answer b \<longrightarrow> is_recourse_request a) (blocks c)"
    using assms
  proof induction
    case (reach_block c b c')
    from reach_block.hyps(1,2) show ?case
    proof (rule reachable_step)
      fix x bs d
      assume "blocks c = bs @ [x]" "blocks c' = bs @ [x, b]" "deep_at (proc_bill P) d x"
        "validate_action (proc_bill P) d = Ok ()" "bill_action d = bbl_op_code b"
      with reach_block.IH answer_follows_request [of "proc_bill P" d x] show ?thesis
        by (auto simp: successively_append_iff)
    qed
  qed simp
  then show "successively (\<lambda>a b. is_offer_answer b \<longrightarrow> is_offer a) (blocks c)"
    and "successively (\<lambda>a b. is_recourse_answer b \<longrightarrow> is_recourse_request a) (blocks c)" by blast+
qed

lemma reachable_pairs:
  assumes reach: "bill_reachable P first k c"
  shows "\<exists>ps. sell_pairs None [] (blocks c) = Ok ps \<and> map fst ps = filter is_offer (blocks c) \<and>
           List.map_filter snd ps = filter is_offer_answer (blocks c)"
    and "\<exists>ps. recourse_pairs None [] (blocks c) = Ok ps \<and> map fst ps = filter is_recourse_request (blocks c) \<and>
           List.map_filter snd ps = filter is_recourse_answer (blocks c)"
proof -
  have ne: "blocks c \<noteq> []" using reachable_ok(1) [OF reach] by (simp add: bill_chain_ok_def)
  note hd = reachable_ok(4) [OF reach]
  obtain ps where ps: "sell_pairs None [] (blocks c) = Ok ps"
    using sell.adjacent_pairs [OF reachable_answers_adjacent(1) [OF reach] ne] hd by auto
  then show "\<exists>ps. sell_pairs None [] (blocks c) = Ok ps \<and> map fst ps = filter is_offer (blocks c) \<and>
           List.map_filter snd ps = filter is_offer_answer (blocks c)"
    using sell.pairs_requests_answers [OF ps] by (simp add: List.map_filter_def)
  obtain qs where qs: "recourse_pairs None [] (blocks c) = Ok qs"
    using recourse.adjacent_pairs [OF reachable_answers_adjacent(2) [OF reach] ne] hd by auto
  then show "\<exists>ps. recourse_pairs None [] (blocks c) = Ok ps \<and> map fst ps = filter is_recourse_request (blocks c) \<and>
           List.map_filter snd ps = filter is_recourse_answer (blocks c)"
    using recourse.pairs_requests_answers [OF qs] by (simp add: List.map_filter_def)
qed

section \<open>Actions that happen at most once\<close>

definition op_count :: "BillBlockchain \<Rightarrow> BillOpCode \<Rightarrow> nat" where
  "op_count c op = length (filter (\<lambda>b. bbl_op_code b = op) (blocks c))"

lemma op_count_snoc:
  "blocks c' = blocks c @ [b] \<Longrightarrow> op_count c' op = op_count c op + (if bbl_op_code b = op then 1 else 0)"
  by (simp add: op_count_def)

lemma op_count_0: "(\<forall>b \<in> set (blocks c). bbl_op_code b \<noteq> op) \<Longrightarrow> op_count c op = 0"
  by (simp add: op_count_def filter_empty_conv)

lemma validated_first_time:
  assumes "validate_action E d = Ok ()"
    and "bill_action d = op" "op \<in> {Accept, RequestToAccept, RejectToAccept, RejectToPay}"
  shows "\<not> op_exists E d op"
  using validate_action_Ok_cases [OF assms(1)] assms(2,3)
  by (auto simp: validation_defs bill_can_only_be_recoursed_def and_then_eq_Ok)

text \<open>An action that is only admitted when there is no such block yet happens at most once.\<close>

lemma reachable_at_most_once:
  assumes reach: "bill_reachable P first k c" and op: "op \<noteq> Issue"
    and first_time: "\<And>c x d. bill_reachable P first k c \<Longrightarrow> bva_blockchain d = c \<Longrightarrow> bva_bill_keys d = k \<Longrightarrow>
       deep_at (proc_bill P) d x \<Longrightarrow> bbl_timestamp x \<le> bva_timestamp d \<Longrightarrow>
       validate_action (proc_bill P) d = Ok () \<Longrightarrow> bill_action d = op \<Longrightarrow> \<not> op_exists (proc_bill P) d op"
  shows "op_count c op \<le> 1"
  using reach
proof induction
  case (reach_issue b)
  then show ?case using op by (simp add: op_count_def)
next
  case (reach_block c b c')
  from reach_block.hyps(1,2) show ?case
  proof (rule reachable_step)
    fix x bs d
    assume bs: "blocks c = bs @ [x]" "blocks c' = bs @ [x, b]"
      and d: "deep_at (proc_bill P) d x" "validate_action (proc_bill P) d = Ok ()" "bill_action d = bbl_op_code b"
        "bva_blockchain d = c" "bva_bill_keys d = k" "bva_timestamp d = bbl_timestamp b" "bbl_timestamp x \<le> bbl_timestamp b"
    have c': "blocks c' = blocks c @ [b]" using bs by simp
    have "op_count c op = 0" if "bbl_op_code b = op"
      using first_time [OF reach_block.hyps(1) d(4,5,1)] d that by (intro op_count_0) (auto simp: op_exists_iff)
    with reach_block.IH show ?thesis by (auto simp: op_count_snoc [OF c'])
  qed
qed

section \<open>After a request to pay, and after a rejection\<close>

abbreviation recourse_ops :: "BillOpCode set" where
  "recourse_ops \<equiv> {RequestRecourse, Recourse, RejectToPayRecourse}"

lemma reachable_after_rejection:
  assumes "bill_reachable P first k c" and "blocks c = ys @ r # zs"
    and "bbl_op_code r \<in> {RejectToAccept, RejectToPay}" and "z \<in> set zs"
  shows "bbl_op_code z \<in> recourse_ops"
  using assms
proof (induction arbitrary: ys zs)
  case (reach_issue b)
  then show ?case by (simp add: Cons_eq_append_conv)
next
  case (reach_block c b c')
  from reach_block.hyps(1,2) show ?case
  proof (rule reachable_step)
    fix x bs d
    assume bs: "blocks c = bs @ [x]" "blocks c' = bs @ [x, b]"
      and d: "deep_at (proc_bill P) d x" "validate_action (proc_bill P) d = Ok ()" "bill_action d = bbl_op_code b"
        "bva_blockchain d = c"
    from reach_block.prems(3) obtain zs' where zs: "zs = zs' @ [b]" "blocks c = ys @ r # zs'"
      using reach_block.prems(1) bs by (cases zs rule: rev_cases) auto
    then have "op_exists (proc_bill P) d (bbl_op_code r)" by (auto simp: op_exists_iff d)
    then have "only_recourse (proc_bill P) d" using reach_block.prems(2) by (auto simp: only_recourse_def)
    then have "bbl_op_code b \<in> recourse_ops"
      using rejected_or_expired [OF d(2)] d(3) by auto
    then show ?thesis using reach_block.IH [OF zs(2) reach_block.prems(2)] reach_block.prems(3) zs(1) by auto
  qed
qed

text \<open>Every request to pay on a reachable chain has a deadline that decrypts.\<close>

lemma verified_request_deadline:
  assumes "verify_and_get_signer E b k = Ok (signer, a)" and "bbl_op_code b = RequestToPay"
  shows "\<exists>t. request_deadline E b k = Some t"
proof -
  from assms(1) obtain r where "signer_from_block E b k = Ok r"
    by (auto simp: verify_and_get_signer_def and_then_eq_Ok)
  then show ?thesis using assms(2)
    by (auto simp: signer_from_block_def Let_def and_then_eq_Ok request_deadline_def)
qed

lemma reachable_deadlines:
  assumes "bill_reachable P first k c" and "b \<in> set (blocks c)" and "bbl_op_code b = RequestToPay"
  shows "\<exists>t. request_deadline (proc_bill P) b k = Some t"
  using assms
proof induction
  case (reach_block c b' c')
  from reach_block.hyps(1,2) show ?case
    by (rule reachable_step) (use reach_block.IH reach_block.prems in \<open>auto dest: verified_request_deadline\<close>)
qed simp

definition after_pay_ops :: "BillOpCode set" where
  "after_pay_ops = insert RejectToPay recourse_ops"

lemma expired_request_to_pay:
  assumes deep: "deep_at E d x" and r: "rfind (\<lambda>b. bbl_op_code b = RequestToPay) (blocks (bva_blockchain d)) = Some r"
    and t: "request_deadline E r (bva_bill_keys d) = Some t" "t < bva_timestamp d"
  shows "only_recourse E d"
proof -
  from deep obtain a where a: "bva_mode d = Deep a" by (auto simp: deep_at_def)
  have op: "bbl_op_code r = RequestToPay" using rfind_SomeD [OF r] by simp
  with t obtain data where "get_decrypted_block E (c_request_to_pay E) r (bva_bill_keys d) = Ok data"
    "pay_payment_deadline (rtp_payment_data data) = t"
    by (auto simp: request_deadline_def split: result.splits)
  then have "req_to_pay_expired E d r = Ok True"
    using t(2) by (simp add: req_to_pay_expired_def a is_req_to_pay_block_payment_expired_def has_deadline_passed_def)
  with r show ?thesis by (auto simp: only_recourse_def get_last_version_block_with_op_code_def)
qed

text \<open>
  After a request to pay only a rejection of it or recourse follows: while the deadline runs, the bill
  is blocked for everything but the rejection, and once the deadline has passed the timestamps of
  the following blocks keep it expired.
\<close>

lemma reachable_after_pay:
  assumes "bill_reachable P first k c" and "blocks c = ys @ r # zs" and "bbl_op_code r = RequestToPay"
    and "request_deadline (proc_bill P) r k = Some t"
  shows "(\<forall>z \<in> set zs. bbl_op_code z \<in> after_pay_ops) \<and>
         (zs = [] \<or> (\<exists>z \<in> set zs. bbl_op_code z = RejectToPay) \<or> t < bbl_timestamp (last zs))"
  using assms
proof (induction arbitrary: ys zs)
  case (reach_issue b)
  then show ?case by (simp add: Cons_eq_append_conv)
next
  case (reach_block c b c')
  from reach_block.hyps(1,2) show ?case
  proof (rule reachable_step)
    fix x bs d
    assume bs: "blocks c = bs @ [x]" "blocks c' = bs @ [x, b]"
      and d: "deep_at (proc_bill P) d x" "validate_action (proc_bill P) d = Ok ()" "bill_action d = bbl_op_code b"
        "bva_blockchain d = c" "bva_bill_keys d = k" "bva_timestamp d = bbl_timestamp b" "bbl_timestamp x \<le> bbl_timestamp b"
    show ?thesis
    proof (cases zs rule: rev_cases)
      case Nil
      then show ?thesis by simp
    next
      case (snoc zs' b')
      then have zs: "zs = zs' @ [b]" and c: "blocks c = ys @ r # zs'"
        using reach_block.prems(1) bs by auto
      note IH = reach_block.IH [OF c reach_block.prems(2,3)]
      have last: "rfind (\<lambda>b. bbl_op_code b = RequestToPay) (blocks c) = Some r"
        unfolding rfind_split
        by (intro exI [of _ ys] exI [of _ zs']) (use IH reach_block.prems(2) c in \<open>auto simp: after_pay_ops_def\<close>)
      have rec: "bbl_op_code b \<in> recourse_ops" if "only_recourse (proc_bill P) d"
        using rejected_or_expired [OF d(2) that] d(3) by auto
      have "(zs' = [] \<and> bbl_timestamp b \<le> t) \<or> (\<exists>z \<in> set zs'. bbl_op_code z = RejectToPay) \<or> t < bbl_timestamp b"
        using IH bs c d(7) by (cases zs' rule: rev_cases) auto
      then consider "zs' = []" "bbl_timestamp b \<le> t" | "\<exists>z \<in> set zs'. bbl_op_code z = RejectToPay" | "t < bbl_timestamp b"
        by blast
      then show ?thesis
      proof cases
        case 1
        then have "r = x" using bs c by simp
        with blocked_while_waiting [OF d(1,2)] 1 reach_block.prems(2,3) d have "bbl_op_code b = RejectToPay"
          by (simp add: awaited_answers_def)
        then show ?thesis using 1 by (simp add: zs after_pay_ops_def)
      next
        case 2
        then have "only_recourse (proc_bill P) d" using c by (auto simp: only_recourse_def op_exists_iff d)
        from rec [OF this] IH 2 show ?thesis by (auto simp: zs after_pay_ops_def)
      next
        case 3
        then have "only_recourse (proc_bill P) d"
          using expired_request_to_pay [OF d(1)] last reach_block.prems(3) d by simp
        from rec [OF this] IH 3 show ?thesis by (auto simp: zs after_pay_ops_def)
      qed
    qed
  qed
qed

lemma reachable_request_to_pay_once:
  assumes reach: "bill_reachable P first k c"
  shows "op_count c RequestToPay \<le> 1"
proof (cases "\<exists>b \<in> set (blocks c). bbl_op_code b = RequestToPay")
  case False
  then show ?thesis by (simp add: op_count_0)
next
  case True
  from split_list_first_prop [OF this] obtain ys r zs where c: "blocks c = ys @ r # zs" "bbl_op_code r = RequestToPay"
    and ys: "\<forall>y \<in> set ys. bbl_op_code y \<noteq> RequestToPay"
    by blast
  obtain t where "request_deadline (proc_bill P) r k = Some t"
    using reachable_deadlines [OF reach] c by auto
  from reachable_after_pay [OF reach c this] have "\<forall>z \<in> set zs. bbl_op_code z \<noteq> RequestToPay"
    by (auto simp: after_pay_ops_def)
  with c ys show ?thesis by (simp add: op_count_def filter_empty_conv)
qed

section \<open>Who signed an accepted block\<close>

definition current_holder :: "BillEnv \<Rightarrow> BillIssueBlockData \<Rightarrow> BcrKeys \<Rightarrow> BillBlockchain \<Rightarrow> NodeId option" where
  "current_holder E first k c =
     (case rfind changes_holder (blocks c) of
        None \<Rightarrow> Some (bpd_node_id (iss_payee first))
      | Some b \<Rightarrow> map_option (\<lambda>h. bpd_node_id (hfb_holder h)) (ok_some (get_holder_from_block E b k)))"

text \<open>The holder whom the validation compares the signer with is the current holder.\<close>

lemma holder_of_parties:
  assumes inc: "increasing (blocks c)" and p: "get_bill_parties E c k first = Ok p"
    and h: "current_holder E first k c = Some h"
  shows "holder_node_id (action_data_for c p first k b signer paid a) = h"
proof -
  have "bps_payee p = iss_payee first" using p by (auto simp: get_bill_parties_def and_then_eq_Ok)
  with bill_parties_holder [OF inc p] h show ?thesis
    by (auto simp: holder_node_id_def action_data_for_def current_holder_def split: option.splits)
qed

lemma accepted_signed_by_role:
  assumes reach: "bill_reachable P first k c" and acc: "accepted P first k c b c'"
    and s: "verify_and_get_signer (proc_bill P) b k = Ok (signer, a)"
  shows "bbl_op_code b \<in> holder_actions \<Longrightarrow> current_holder (proc_bill P) first k c = Some h \<Longrightarrow> signer = h"
    and "bbl_op_code b \<in> drawee_actions \<Longrightarrow> signer = bipd_node_id (iss_drawee first)"
proof -
  from acc show "signer = h" if "bbl_op_code b \<in> holder_actions" "current_holder (proc_bill P) first k c = Some h"
  proof (rule accepted_facts)
    fix signer' a' parties is_paid
    assume a: "action_op_code a' = bbl_op_code b" and s': "verify_and_get_signer (proc_bill P) b k = Ok (signer', Some a')"
      and p: "get_bill_parties (proc_bill P) c k first = Ok parties"
      and v: "validate_action (proc_bill P) (action_data_for c parties first k b signer' is_paid a') = Ok ()"
    have "bill_action (action_data_for c parties first k b signer' is_paid a') = bbl_op_code b"
      by (simp add: bill_action_def action_data_for_def a)
    with authorised_role(1) [OF v] that(1) have "signer' = holder_node_id (action_data_for c parties first k b signer' is_paid a')"
      by (simp add: action_data_for_def)
    with holder_of_parties [OF reachable_ok(2) [OF reach] p that(2)] s s' show ?thesis by simp
  qed
  from acc show "signer = bipd_node_id (iss_drawee first)" if "bbl_op_code b \<in> drawee_actions"
  proof (rule accepted_facts)
    fix signer' a' parties is_paid
    assume a: "action_op_code a' = bbl_op_code b" and s': "verify_and_get_signer (proc_bill P) b k = Ok (signer', Some a')"
      and p: "get_bill_parties (proc_bill P) c k first = Ok parties"
      and v: "validate_action (proc_bill P) (action_data_for c parties first k b signer' is_paid a') = Ok ()"
    have "bill_action (action_data_for c parties first k b signer' is_paid a') = bbl_op_code b"
      by (simp add: bill_action_def action_data_for_def a)
    with authorised_role(2) [OF v] that have "signer' = bipd_node_id (bps_drawee parties)"
      by (simp add: action_data_for_def)
    moreover have "bps_drawee parties = iss_drawee first" using p by (auto simp: get_bill_parties_def and_then_eq_Ok)
    ultimately show ?thesis using s s' by simp
  qed
qed

section \<open>Paying into an accepted request\<close>

text \<open>
  The address in an accepted offer to sell is controlled by the key behind the descriptor that the
  seller is later given for it: both use the same tweak, because the block is linked to the block
  whose hash entered the tweak.
\<close>

lemma accepted_offer_address:
  assumes laws: "secp_laws (env_ext (proc_bill P))"
    and val: "validate_block_for_chain P bill_id c first k b is_paid = (Ok True, c')"
    and op: "bbl_op_code b = OfferToSell"
    and data: "get_decrypted_block (proc_bill P) (c_offer_to_sell (proc_bill P)) b k = Ok d"
    and s: "verify_and_get_signer (proc_bill P) b k = Ok (signer, a)"
    and keys: "keys_wf (env_ext (proc_bill P)) k" "keys_wf (env_ext (proc_bill P)) ck"
      "x_node_pub_key (env_ext (proc_bill P)) signer = pub_key (env_ext (proc_bill P)) ck"
    and tweak: "calculate_tweak_hash_for_payment_request (env_ext (proc_bill P)) OfferToSell (bbl_id b) (bbl_previous_hash b) = Ok tw"
    and key: "combined_private_key (env_ext (proc_bill P)) (get_private_key (env_ext (proc_bill P)) k)
       (get_private_key (env_ext (proc_bill P)) ck) tw = Ok sk"
  shows "pay_payment_address (ots_payment_data d) =
    x_p2tr (env_ext (proc_bill P)) (x_x_only (env_ext (proc_bill P)) (pk_of (env_ext (proc_bill P)) sk)) (proc_bitcoin_network P)"
  using val
proof (rule validate_block_for_chain_True)
  let ?X = "env_ext (proc_bill P)"
  fix signer' a' parties mint
  assume l: "linked (bill_ops (proc_bill P)) ?X (last (blocks c)) b" and ne: "blocks c \<noteq> []"
    and s': "verify_and_get_signer (proc_bill P) b k = Ok (signer', Some a')"
    and addr: "validate_block_payment_address P bill_id c k b signer' mint = Ok ()"
  have prev: "bbl_hash (last (blocks c)) = bbl_previous_hash b" using l by (simp add: linked_iff)
  have pk: "pub_key ?X k = pk_of ?X (get_private_key ?X k)"
    "x_node_pub_key ?X signer = pk_of ?X (get_private_key ?X ck)"
    using keys by (simp_all add: pub_key_pk_of)
  from addr ne s s' have "validate_payment_address_for_payment_request P bill_id OfferToSell (bbl_id b)
      (bbl_previous_hash b) (pk_of ?X (get_private_key ?X k)) (pk_of ?X (get_private_key ?X ck)) (proc_bitcoin_network P)
      (pay_payment_address (ots_payment_data d)) None = Ok ()"
    by (simp add: validate_block_payment_address_def Let_def op data get_latest_block_def last_opt_def chain_err_def
        prev pk)
  then show ?thesis
    by (simp add: validate_payment_address_for_payment_request_def Let_def crypto_err_def tweak
        combined_key_controls_address [OF laws key])
qed

end
