(* ===== verification/Company_Chain.thy ===== *)
theory Company_Chain
  imports Bill_Types
begin

text \<open>
  The company chain (\<^verbatim>\<open>blockchain/company/{mod,block,chain,validation}.rs\<close>): blocks and their payloads,
  who created the company, who is invited, accepted or an authorised signatory, and the validation
  of company actions. The lemmas are in \<^verbatim>\<open>Company_Props\<close>.
\<close>

section \<open>Blocks and payloads\<close>

datatype CompanyOpCode =
    C_Create | C_Update | C_InviteSignatory | C_RemoveSignatory | C_SignatoryAcceptInvite
  | C_SignatoryRejectInvite | C_SignCompanyBill | C_IdentityProof

datatype SignatoryType = Solo

record CompanyBlock =
  cbl_company_id :: NodeId
  cbl_id :: BlockId
  cbl_plaintext_hash :: Sha256Hash
  cbl_hash :: Sha256Hash
  cbl_timestamp :: Timestamp
  cbl_data :: bytes
  cbl_public_key :: PublicKey
  cbl_signatory_node_id :: NodeId
  cbl_previous_hash :: Sha256Hash
  cbl_signature :: SchnorrSignature
  cbl_op_code :: CompanyOpCode

record CompanyBlockDataToHash =
  cdh_company_id :: NodeId
  cdh_id :: BlockId
  cdh_plaintext_hash :: Sha256Hash
  cdh_previous_hash :: Sha256Hash
  cdh_data :: bytes
  cdh_timestamp :: Timestamp
  cdh_public_key :: PublicKey
  cdh_signatory_node_id :: NodeId
  cdh_op_code :: CompanyOpCode

record CompanyBlockData =
  cbd_data :: bytes
  cbd_key :: "string option"

record CompanyCreateBlockData =
  ccr_id :: NodeId
  ccr_name :: Name
  ccr_country_of_registration :: "Country option"
  ccr_city_of_registration :: "City option"
  ccr_postal_address :: PostalAddress
  ccr_email :: Email
  ccr_registration_number :: "Identification option"
  ccr_registration_date :: "Date option"
  ccr_proof_of_registration_file :: "File option"
  ccr_logo_file :: "File option"
  ccr_creation_time :: Timestamp
  ccr_creator :: NodeId

record CompanyUpdateBlockData =
  cup_name :: "Name option"
  cup_email :: "Email option"
  cup_country :: "Country option"
  cup_city :: "City option"
  cup_zip :: "Zip EditOptionalFieldMode"
  cup_address :: "Address option"
  cup_country_of_registration :: "Country EditOptionalFieldMode"
  cup_city_of_registration :: "City EditOptionalFieldMode"
  cup_registration_number :: "Identification EditOptionalFieldMode"
  cup_registration_date :: "Date EditOptionalFieldMode"
  cup_logo_file :: "File EditOptionalFieldMode"
  cup_proof_of_registration_file :: "File EditOptionalFieldMode"

record CompanySignCompanyBillBlockData =
  csb_bill_id :: BillId
  csb_block_id :: BlockId
  csb_block_hash :: Sha256Hash
  csb_operation :: BillOpCode
  csb_bill_key :: "SecretKey option"

record CompanyInviteSignatoryBlockData =
  cis_invitee :: NodeId
  cis_inviter :: NodeId
  cis_t :: SignatoryType

record CompanySignatoryAcceptInviteBlockData =
  cai_accepter :: NodeId

record CompanySignatoryRejectInviteBlockData =
  cri_rejecter :: NodeId

record CompanyRemoveSignatoryBlockData =
  crs_removee :: NodeId
  crs_remover :: NodeId

record CompanyIdentityProofBlockData =
  cip_proof :: SignedIdentityProof
  cip_data :: EmailIdentityProofData
  cip_reference_block :: "BlockId option"

type_synonym identity_proof_data = "SignedIdentityProof \<times> EmailIdentityProofData \<times> BlockId option"

record VerifyAndGetSignerData =
  vgs_signer :: NodeId
  vgs_invitee :: "NodeId option"
  vgs_removee :: "NodeId option"
  vgs_identity_proof_data :: "identity_proof_data option"

datatype CompanyBlockPayload =
    CP_Create CompanyCreateBlockData
  | CP_Update CompanyUpdateBlockData
  | CP_SignBill CompanySignCompanyBillBlockData
  | CP_InviteSignatory CompanyInviteSignatoryBlockData
  | CP_SignatoryAcceptInvite CompanySignatoryAcceptInviteBlockData
  | CP_SignatoryRejectInvite CompanySignatoryRejectInviteBlockData
  | CP_RemoveSignatory CompanyRemoveSignatoryBlockData
  | CP_IdentityProof CompanyIdentityProofBlockData

record CompanyEnv =
  cenv_ext :: Ext
  cc_create :: "CompanyCreateBlockData Codec"
  cc_update :: "CompanyUpdateBlockData Codec"
  cc_sign_company_bill :: "CompanySignCompanyBillBlockData Codec"
  cc_invite_signatory :: "CompanyInviteSignatoryBlockData Codec"
  cc_accept_invite :: "CompanySignatoryAcceptInviteBlockData Codec"
  cc_reject_invite :: "CompanySignatoryRejectInviteBlockData Codec"
  cc_remove_signatory :: "CompanyRemoveSignatoryBlockData Codec"
  cc_identity_proof :: "CompanyIdentityProofBlockData Codec"
  cc_block_data :: "CompanyBlockData Codec"
  cc_data_to_hash :: "CompanyBlockDataToHash Codec"

definition company_block_data_to_hash :: "CompanyBlock \<Rightarrow> CompanyBlockDataToHash" where
  "company_block_data_to_hash b =
     \<lparr>cdh_company_id = cbl_company_id b, cdh_id = cbl_id b, cdh_plaintext_hash = cbl_plaintext_hash b,
      cdh_previous_hash = cbl_previous_hash b, cdh_data = cbl_data b, cdh_timestamp = cbl_timestamp b,
      cdh_public_key = cbl_public_key b, cdh_signatory_node_id = cbl_signatory_node_id b,
      cdh_op_code = cbl_op_code b\<rparr>"

definition company_ops :: "CompanyEnv \<Rightarrow> (CompanyBlock, CompanyOpCode, CompanyBlockDataToHash) BlockOps" where
  "company_ops E =
     \<lparr>blk_id = cbl_id, blk_timestamp = cbl_timestamp, blk_op_code = cbl_op_code,
      blk_plaintext_hash = cbl_plaintext_hash, blk_hash = cbl_hash,
      blk_previous_hash = cbl_previous_hash, blk_data = cbl_data, blk_signature = cbl_signature,
      blk_public_key = cbl_public_key, blk_validate = (\<lambda>_. True),
      blk_data_to_hash = company_block_data_to_hash, blk_hash_codec = cc_data_to_hash E\<rparr>"

definition company_validate_plaintext_hash :: "CompanyEnv \<Rightarrow> CompanyBlock \<Rightarrow> SecretKey \<Rightarrow> bool" where
  "company_validate_plaintext_hash E b private_key =
     (case from_slice (cc_block_data E) (cbl_data b) of
        Inr data_wrapper \<Rightarrow>
          (case decrypt_ecies (cenv_ext E) (cbd_data data_wrapper) private_key of
             Ok decrypted \<Rightarrow> cbl_plaintext_hash b = hash_from_bytes (cenv_ext E) decrypted
           | _ \<Rightarrow> False)
      | Inl _ \<Rightarrow> False)"

section \<open>Creating blocks\<close>

definition company_block_new ::
  "CompanyEnv \<Rightarrow> NodeId \<Rightarrow> BlockId \<Rightarrow> Sha256Hash \<Rightarrow> bytes \<Rightarrow> CompanyOpCode \<Rightarrow> BcrKeys \<Rightarrow> BcrKeys
     \<Rightarrow> Timestamp \<Rightarrow> Sha256Hash \<Rightarrow> (CompanyBlock, BlockchainError) result" where
  "company_block_new E company_id i previous_hash data op_code identity_keys company_keys timestamp plaintext_hash =
     (let X = cenv_ext E;
          keys = [get_private_key X identity_keys, get_private_key X company_keys];
          signatory_node_id = x_node_new X (pub_key X identity_keys) (x_node_network X company_id) in
      and_then (map_err Secp256k1Cryptography (get_aggregated_public_key X keys)) (\<lambda>aggregated.
      and_then (calculate_hash X (cc_data_to_hash E)
        \<lparr>cdh_company_id = company_id, cdh_id = i, cdh_plaintext_hash = plaintext_hash,
         cdh_previous_hash = previous_hash, cdh_data = data, cdh_timestamp = timestamp,
         cdh_public_key = aggregated, cdh_signatory_node_id = signatory_node_id, cdh_op_code = op_code\<rparr>) (\<lambda>hash.
      and_then (map_err Secp256k1Cryptography (sign_aggregated X hash keys)) (\<lambda>signature.
      Ok \<lparr>cbl_company_id = company_id, cbl_id = i, cbl_plaintext_hash = plaintext_hash, cbl_hash = hash,
          cbl_timestamp = timestamp, cbl_data = data, cbl_public_key = aggregated,
          cbl_signatory_node_id = signatory_node_id, cbl_previous_hash = previous_hash,
          cbl_signature = signature, cbl_op_code = op_code\<rparr>))))"

definition company_block_for_create ::
  "CompanyEnv \<Rightarrow> NodeId \<Rightarrow> Sha256Hash \<Rightarrow> CompanyCreateBlockData \<Rightarrow> BcrKeys \<Rightarrow> BcrKeys \<Rightarrow> Timestamp
     \<Rightarrow> (CompanyBlock, BlockchainError) result" where
  "company_block_for_create E company_id genesis_hash company identity_keys company_keys timestamp =
     (let X = cenv_ext E in
      if pub_key X identity_keys \<noteq> x_node_pub_key X (ccr_creator company)
      then Err (BlockDataInvalid CompanySignerCreatorMismatch)
      else
      and_then (from_ext Io (to_vec (cc_create E) company)) (\<lambda>company_bytes.
      and_then (calculate_plaintext_hash X (cc_create E) company) (\<lambda>plaintext_hash.
      and_then (map_err Secp256k1Cryptography (encrypt_ecies X company_bytes (pub_key X company_keys))) (\<lambda>encrypted_data.
      and_then (from_ext Io (to_vec (x_string_codec X) (get_private_key_string X company_keys))) (\<lambda>key_bytes.
      and_then (map_err Secp256k1Cryptography (encrypt_ecies X key_bytes (pub_key X identity_keys))) (\<lambda>encrypted_key.
      and_then (from_ext Io (to_vec (cc_block_data E)
        \<lparr>cbd_data = encrypted_data, cbd_key = Some (x_base58_encode X encrypted_key)\<rparr>)) (\<lambda>serialized_data.
      company_block_new E company_id bid_first genesis_hash serialized_data C_Create identity_keys company_keys
        timestamp plaintext_hash)))))))"

definition company_encrypt_data_create_block_and_validate ::
  "CompanyEnv \<Rightarrow> 't Codec \<Rightarrow> NodeId \<Rightarrow> CompanyBlock \<Rightarrow> 't \<Rightarrow> BcrKeys \<Rightarrow> BcrKeys
     \<Rightarrow> PublicKey option \<Rightarrow> Timestamp \<Rightarrow> CompanyOpCode \<Rightarrow> (CompanyBlock, BlockchainError) result" where
  "company_encrypt_data_create_block_and_validate E C company_id previous_block data identity_keys company_keys
       public_key_for_keys timestamp op_code =
     (let X = cenv_ext E in
      and_then (from_ext Io (to_vec C data)) (\<lambda>bs.
      and_then (calculate_plaintext_hash X C data) (\<lambda>plaintext_hash.
      and_then (map_err Secp256k1Cryptography (encrypt_ecies X bs (pub_key X company_keys))) (\<lambda>encrypted_data.
      and_then
        (case public_key_for_keys of
           Some signatory_public_key \<Rightarrow>
             if op_code = C_InviteSignatory then
               and_then (from_ext Io (to_vec (x_string_codec X) (get_private_key_string X company_keys))) (\<lambda>key_bytes.
               and_then (map_err Secp256k1Cryptography (encrypt_ecies X key_bytes signatory_public_key)) (\<lambda>ek.
               Ok (Some (x_base58_encode X ek))))
             else Ok None
         | None \<Rightarrow> Ok None) (\<lambda>key.
      and_then (from_ext Io (to_vec (cc_block_data E) \<lparr>cbd_data = encrypted_data, cbd_key = key\<rparr>)) (\<lambda>serialized_data.
      and_then (company_block_new E company_id (next_from_previous_block_id (cbl_id previous_block))
        (cbl_hash previous_block) serialized_data op_code identity_keys company_keys timestamp plaintext_hash) (\<lambda>new_block.
      and_then (validate_with_previous (company_ops E) X new_block previous_block) (\<lambda>ok.
      if \<not> ok then Err BlockInvalid else Ok new_block))))))))"

definition company_block_for_update ::
  "CompanyEnv \<Rightarrow> NodeId \<Rightarrow> CompanyBlock \<Rightarrow> CompanyUpdateBlockData \<Rightarrow> BcrKeys \<Rightarrow> BcrKeys
     \<Rightarrow> Timestamp \<Rightarrow> (CompanyBlock, BlockchainError) result" where
  "company_block_for_update E company_id previous_block data identity_keys company_keys timestamp =
     company_encrypt_data_create_block_and_validate E (cc_update E) company_id previous_block data identity_keys
       company_keys None timestamp C_Update"

definition company_block_for_sign_company_bill ::
  "CompanyEnv \<Rightarrow> NodeId \<Rightarrow> CompanyBlock \<Rightarrow> CompanySignCompanyBillBlockData \<Rightarrow> BcrKeys \<Rightarrow> BcrKeys
     \<Rightarrow> Timestamp \<Rightarrow> (CompanyBlock, BlockchainError) result" where
  "company_block_for_sign_company_bill E company_id previous_block data identity_keys company_keys timestamp =
     company_encrypt_data_create_block_and_validate E (cc_sign_company_bill E) company_id previous_block data identity_keys
       company_keys None timestamp C_SignCompanyBill"

definition company_block_for_invite_signatory ::
  "CompanyEnv \<Rightarrow> NodeId \<Rightarrow> CompanyBlock \<Rightarrow> CompanyInviteSignatoryBlockData \<Rightarrow> BcrKeys \<Rightarrow> BcrKeys
     \<Rightarrow> PublicKey \<Rightarrow> Timestamp \<Rightarrow> (CompanyBlock, BlockchainError) result" where
  "company_block_for_invite_signatory E company_id previous_block data identity_keys company_keys signatory_public_key timestamp =
     company_encrypt_data_create_block_and_validate E (cc_invite_signatory E) company_id previous_block data identity_keys
       company_keys (Some signatory_public_key) timestamp C_InviteSignatory"

definition company_block_for_accept_signatory_invite ::
  "CompanyEnv \<Rightarrow> NodeId \<Rightarrow> CompanyBlock \<Rightarrow> CompanySignatoryAcceptInviteBlockData \<Rightarrow> BcrKeys \<Rightarrow> BcrKeys
     \<Rightarrow> Timestamp \<Rightarrow> (CompanyBlock, BlockchainError) result" where
  "company_block_for_accept_signatory_invite E company_id previous_block data identity_keys company_keys timestamp =
     company_encrypt_data_create_block_and_validate E (cc_accept_invite E) company_id previous_block data identity_keys
       company_keys None timestamp C_SignatoryAcceptInvite"

definition company_block_for_reject_signatory_invite ::
  "CompanyEnv \<Rightarrow> NodeId \<Rightarrow> CompanyBlock \<Rightarrow> CompanySignatoryRejectInviteBlockData \<Rightarrow> BcrKeys \<Rightarrow> BcrKeys
     \<Rightarrow> Timestamp \<Rightarrow> (CompanyBlock, BlockchainError) result" where
  "company_block_for_reject_signatory_invite E company_id previous_block data identity_keys company_keys timestamp =
     company_encrypt_data_create_block_and_validate E (cc_reject_invite E) company_id previous_block data identity_keys
       company_keys None timestamp C_SignatoryRejectInvite"

definition company_block_for_remove_signatory ::
  "CompanyEnv \<Rightarrow> NodeId \<Rightarrow> CompanyBlock \<Rightarrow> CompanyRemoveSignatoryBlockData \<Rightarrow> BcrKeys \<Rightarrow> BcrKeys
     \<Rightarrow> Timestamp \<Rightarrow> (CompanyBlock, BlockchainError) result" where
  "company_block_for_remove_signatory E company_id previous_block data identity_keys company_keys timestamp =
     company_encrypt_data_create_block_and_validate E (cc_remove_signatory E) company_id previous_block data identity_keys
       company_keys None timestamp C_RemoveSignatory"

definition company_block_for_identity_proof ::
  "CompanyEnv \<Rightarrow> NodeId \<Rightarrow> CompanyBlock \<Rightarrow> CompanyIdentityProofBlockData \<Rightarrow> BcrKeys \<Rightarrow> BcrKeys
     \<Rightarrow> Timestamp \<Rightarrow> (CompanyBlock, BlockchainError) result" where
  "company_block_for_identity_proof E company_id previous_block data identity_keys company_keys timestamp =
     company_encrypt_data_create_block_and_validate E (cc_identity_proof E) company_id previous_block data identity_keys
       company_keys None timestamp C_IdentityProof"

section \<open>Reading blocks\<close>

definition company_get_decrypted_block_bytes ::
  "CompanyEnv \<Rightarrow> CompanyBlock \<Rightarrow> BcrKeys \<Rightarrow> (bytes, BlockchainError) result" where
  "company_get_decrypted_block_bytes E b company_keys =
     and_then (from_ext Io (from_slice (cc_block_data E) (cbl_data b))) (\<lambda>block_data.
     map_err Secp256k1Cryptography
       (decrypt_ecies (cenv_ext E) (cbd_data block_data) (get_private_key (cenv_ext E) company_keys)))"

definition get_block_data ::
  "CompanyEnv \<Rightarrow> CompanyBlock \<Rightarrow> BcrKeys \<Rightarrow> (CompanyBlockPayload, BlockchainError) result" where
  "get_block_data E b company_keys =
     and_then (company_get_decrypted_block_bytes E b company_keys) (\<lambda>data.
     case cbl_op_code b of
       C_Create \<Rightarrow> and_then (from_ext Io (from_slice (cc_create E) data)) (\<lambda>d. Ok (CP_Create d))
     | C_Update \<Rightarrow> and_then (from_ext Io (from_slice (cc_update E) data)) (\<lambda>d. Ok (CP_Update d))
     | C_InviteSignatory \<Rightarrow> and_then (from_ext Io (from_slice (cc_invite_signatory E) data)) (\<lambda>d. Ok (CP_InviteSignatory d))
     | C_SignatoryAcceptInvite \<Rightarrow> and_then (from_ext Io (from_slice (cc_accept_invite E) data)) (\<lambda>d. Ok (CP_SignatoryAcceptInvite d))
     | C_SignatoryRejectInvite \<Rightarrow> and_then (from_ext Io (from_slice (cc_reject_invite E) data)) (\<lambda>d. Ok (CP_SignatoryRejectInvite d))
     | C_RemoveSignatory \<Rightarrow> and_then (from_ext Io (from_slice (cc_remove_signatory E) data)) (\<lambda>d. Ok (CP_RemoveSignatory d))
     | C_SignCompanyBill \<Rightarrow> and_then (from_ext Io (from_slice (cc_sign_company_bill E) data)) (\<lambda>d. Ok (CP_SignBill d))
     | C_IdentityProof \<Rightarrow> and_then (from_ext Io (from_slice (cc_identity_proof E) data)) (\<lambda>d. Ok (CP_IdentityProof d)))"

definition company_verify_signer ::
  "CompanyEnv \<Rightarrow> CompanyBlock \<Rightarrow> NodeId \<Rightarrow> BcrKeys \<Rightarrow> (bool, BlockchainError) result" where
  "company_verify_signer E b signatory company_keys =
     (let X = cenv_ext E in
      case combine_pub_keys X [x_node_pub_key X signatory, pub_key X company_keys] of
        Ok aggregated \<Rightarrow>
          (case sig_verify X (cbl_signature b) (cbl_hash b) aggregated of
             Err _ \<Rightarrow> Ok False
           | Ok res \<Rightarrow> Ok res
           | Panic \<Rightarrow> Panic)
      | Err _ \<Rightarrow> Ok False
      | Panic \<Rightarrow> Panic)"

text \<open>The signer and what the validation needs of the payload.\<close>

definition company_signer_data :: "CompanyBlock \<Rightarrow> CompanyBlockPayload \<Rightarrow> VerifyAndGetSignerData" where
  "company_signer_data b payload =
     (case payload of
         CP_Create d \<Rightarrow> \<lparr>vgs_signer = ccr_creator d, vgs_invitee = None, vgs_removee = None, vgs_identity_proof_data = None\<rparr>
       | CP_Update _ \<Rightarrow> \<lparr>vgs_signer = cbl_signatory_node_id b, vgs_invitee = None, vgs_removee = None, vgs_identity_proof_data = None\<rparr>
       | CP_SignBill _ \<Rightarrow> \<lparr>vgs_signer = cbl_signatory_node_id b, vgs_invitee = None, vgs_removee = None, vgs_identity_proof_data = None\<rparr>
       | CP_InviteSignatory d \<Rightarrow> \<lparr>vgs_signer = cis_inviter d, vgs_invitee = Some (cis_invitee d), vgs_removee = None, vgs_identity_proof_data = None\<rparr>
       | CP_SignatoryAcceptInvite d \<Rightarrow> \<lparr>vgs_signer = cai_accepter d, vgs_invitee = None, vgs_removee = None, vgs_identity_proof_data = None\<rparr>
       | CP_SignatoryRejectInvite d \<Rightarrow> \<lparr>vgs_signer = cri_rejecter d, vgs_invitee = None, vgs_removee = None, vgs_identity_proof_data = None\<rparr>
       | CP_RemoveSignatory d \<Rightarrow> \<lparr>vgs_signer = crs_remover d, vgs_invitee = None, vgs_removee = Some (crs_removee d), vgs_identity_proof_data = None\<rparr>
       | CP_IdentityProof d \<Rightarrow> \<lparr>vgs_signer = eip_node_id (cip_data d), vgs_invitee = None, vgs_removee = None,
           vgs_identity_proof_data = Some (cip_proof d, cip_data d, cip_reference_block d)\<rparr>)"

definition company_verify_and_get_signer ::
  "CompanyEnv \<Rightarrow> CompanyBlock \<Rightarrow> BcrKeys \<Rightarrow> (VerifyAndGetSignerData, BlockchainError) result" where
  "company_verify_and_get_signer E b company_keys =
     and_then (get_block_data E b company_keys) (\<lambda>payload.
     let data = company_signer_data b payload in
     and_then (company_verify_signer E b (vgs_signer data) company_keys) (\<lambda>ok.
     if \<not> ok then Err BlockSignatureDoesNotMatchSigner
     else case vgs_identity_proof_data data of
            None \<Rightarrow> Ok data
          | Some (proof, proof_data, _) \<Rightarrow>
              (case identity_proof_verify (cenv_ext E) proof proof_data of Panic \<Rightarrow> Panic | _ \<Rightarrow> Ok data)))"

section \<open>The chain\<close>

type_synonym CompanyBlockchain = "CompanyBlock Blockchain"

record CompanyBlockPlaintextWrapper =
  cpw_block :: CompanyBlock
  cpw_plaintext_data_bytes :: bytes

definition company_chain_new ::
  "CompanyEnv \<Rightarrow> CompanyCreateBlockData \<Rightarrow> BcrKeys \<Rightarrow> BcrKeys \<Rightarrow> Timestamp \<Rightarrow> (CompanyBlockchain, BlockchainError) result" where
  "company_chain_new E company identity_keys company_keys timestamp =
     and_then (company_block_for_create E (ccr_id company)
       (hash_from_bytes (cenv_ext E) (string_bytes (ccr_id company))) company identity_keys company_keys timestamp)
       (\<lambda>first_block. Ok \<lparr>blocks = [first_block]\<rparr>)"

definition company_new_from_blocks :: "CompanyEnv \<Rightarrow> CompanyBlock list \<Rightarrow> (CompanyBlockchain, BlockchainError) result" where
  "company_new_from_blocks E blocks_to_add =
     (case first_opt blocks_to_add of
        None \<Rightarrow> Err BlockchainInvalid
      | Some first \<Rightarrow>
          and_then (blk_verify (company_ops E) (cenv_ext E) first) (\<lambda>verified.
          if \<not> verified then Err BlockchainInvalid
          else and_then (validate_hash (company_ops E) (cenv_ext E) first) (\<lambda>hash_ok.
          if \<not> hash_ok then Err BlockchainInvalid
          else and_then (is_chain_valid (company_ops E) (cenv_ext E) \<lparr>blocks = blocks_to_add\<rparr>) (\<lambda>valid.
          if \<not> valid then Err BlockchainInvalid else Ok \<lparr>blocks = blocks_to_add\<rparr>))))"

definition company_plaintext_step ::
  "CompanyEnv \<Rightarrow> BcrKeys \<Rightarrow> CompanyBlock \<Rightarrow> (CompanyBlockPlaintextWrapper, BlockchainError) result" where
  "company_plaintext_step E company_keys b =
     and_then (company_get_decrypted_block_bytes E b company_keys) (\<lambda>bs.
     if cbl_plaintext_hash b \<noteq> hash_from_bytes (cenv_ext E) bs then Err BlockInvalid
     else Ok \<lparr>cpw_block = b, cpw_plaintext_data_bytes = bs\<rparr>)"

definition company_chain_with_plaintext ::
  "CompanyEnv \<Rightarrow> CompanyBlockchain \<Rightarrow> BcrKeys \<Rightarrow> (CompanyBlockPlaintextWrapper list, BlockchainError) result" where
  "company_chain_with_plaintext E c company_keys =
     and_then (try_map (company_plaintext_step E company_keys) (blocks c)) (\<lambda>ws.
     and_then (company_new_from_blocks E (map cpw_block ws)) (\<lambda>_. Ok ws))"

definition is_creator :: "CompanyEnv \<Rightarrow> CompanyBlockchain \<Rightarrow> NodeId \<Rightarrow> BcrKeys \<Rightarrow> (bool, BlockchainError) result" where
  "is_creator E c node_id company_keys =
     and_then (get_first_block c) (\<lambda>first.
     and_then (get_block_data E first company_keys) (\<lambda>payload.
     case payload of
       CP_Create block_data \<Rightarrow> Ok (ccr_creator block_data = node_id)
     | _ \<Rightarrow> Ok False))"

text \<open>The loop from the back for the last invitation of a node.\<close>

fun last_invite_loop ::
  "CompanyEnv \<Rightarrow> BcrKeys \<Rightarrow> NodeId \<Rightarrow> CompanyBlock list \<Rightarrow> (CompanyBlock option, BlockchainError) result" where
  "last_invite_loop E company_keys node_id [] = Ok None"
| "last_invite_loop E company_keys node_id (b # bs) =
     and_then (get_block_data E b company_keys) (\<lambda>payload.
     case payload of
       CP_InviteSignatory block_data \<Rightarrow>
         (if cis_invitee block_data = node_id then Ok (Some b) else last_invite_loop E company_keys node_id bs)
     | _ \<Rightarrow> last_invite_loop E company_keys node_id bs)"

text \<open>The loop of \<^verbatim>\<open>was_removed_after_block\<close>; only blocks after the given one are decrypted.\<close>

fun removed_loop ::
  "CompanyEnv \<Rightarrow> BcrKeys \<Rightarrow> NodeId \<Rightarrow> BlockId \<Rightarrow> CompanyBlock list \<Rightarrow> (bool, BlockchainError) result" where
  "removed_loop E company_keys node_id block_id [] = Ok False"
| "removed_loop E company_keys node_id block_id (b # bs) =
     (if block_id < cbl_id b then
        and_then (get_block_data E b company_keys) (\<lambda>payload.
        case payload of
          CP_RemoveSignatory block_data \<Rightarrow>
            (if crs_removee block_data = node_id then Ok True else removed_loop E company_keys node_id block_id bs)
        | _ \<Rightarrow> removed_loop E company_keys node_id block_id bs)
      else removed_loop E company_keys node_id block_id bs)"

definition was_removed_after_block ::
  "CompanyEnv \<Rightarrow> CompanyBlockchain \<Rightarrow> NodeId \<Rightarrow> BlockId \<Rightarrow> BcrKeys \<Rightarrow> (bool, BlockchainError) result" where
  "was_removed_after_block E c node_id block_id company_keys =
     removed_loop E company_keys node_id block_id (rev (blocks c))"

text \<open>A later block of the given kind that the node signed.\<close>

definition signed_after :: "CompanyBlockchain \<Rightarrow> NodeId \<Rightarrow> BlockId \<Rightarrow> CompanyOpCode \<Rightarrow> bool" where
  "signed_after c node_id block_id op =
     list_ex (\<lambda>b. block_id < cbl_id b \<and> cbl_signatory_node_id b = node_id \<and> cbl_op_code b = op) (rev (blocks c))"

definition is_invited :: "CompanyEnv \<Rightarrow> CompanyBlockchain \<Rightarrow> NodeId \<Rightarrow> BcrKeys \<Rightarrow> (bool, BlockchainError) result" where
  "is_invited E c node_id company_keys =
     and_then (last_invite_loop E company_keys node_id (rev (blocks c))) (\<lambda>last_invite.
     case last_invite of
       Some b \<Rightarrow>
         (if signed_after c node_id (cbl_id b) C_SignatoryAcceptInvite then Ok False
          else if signed_after c node_id (cbl_id b) C_SignatoryRejectInvite then Ok False
          else and_then (was_removed_after_block E c node_id (cbl_id b) company_keys) (\<lambda>removed. Ok (\<not> removed)))
     | None \<Rightarrow> Ok False)"

definition can_be_invited :: "CompanyEnv \<Rightarrow> CompanyBlockchain \<Rightarrow> NodeId \<Rightarrow> BcrKeys \<Rightarrow> (bool, BlockchainError) result" where
  "can_be_invited E c invitee company_keys =
     and_then (last_invite_loop E company_keys invitee (rev (blocks c))) (\<lambda>last_invite.
     case last_invite of
       Some b \<Rightarrow>
         (if signed_after c invitee (cbl_id b) C_SignatoryRejectInvite then Ok True
          else was_removed_after_block E c invitee (cbl_id b) company_keys)
     | None \<Rightarrow>
         and_then (is_creator E c invitee company_keys) (\<lambda>creator.
         if creator then was_removed_after_block E c invitee bid_first company_keys
         else Ok True))"

text \<open>The removal loop of \<^verbatim>\<open>num_authorized_signers\<close>, from the back over all blocks.\<close>

definition remove_signers_step ::
  "CompanyEnv \<Rightarrow> BcrKeys \<Rightarrow> (NodeId \<times> BlockId) list \<Rightarrow> CompanyBlock \<Rightarrow> ((NodeId \<times> BlockId) list, BlockchainError) result" where
  "remove_signers_step E company_keys signers b =
     and_then (get_block_data E b company_keys) (\<lambda>payload.
     case payload of
       CP_RemoveSignatory block_data \<Rightarrow>
         (if (case map_of signers (crs_removee block_data) of Some v \<Rightarrow> v < cbl_id b | None \<Rightarrow> False)
          then Ok (hm_remove (crs_removee block_data) signers)
          else Ok signers)
     | _ \<Rightarrow> Ok signers)"

definition num_authorized_signers ::
  "CompanyEnv \<Rightarrow> CompanyBlockchain \<Rightarrow> BcrKeys \<Rightarrow> (nat, BlockchainError) result" where
  "num_authorized_signers E c company_keys =
     (let signers = fold (\<lambda>b m. if cbl_op_code b = C_IdentityProof
                                then hm_insert (cbl_signatory_node_id b) (cbl_id b) m else m) (blocks c) [] in
      and_then (try_fold (remove_signers_step E company_keys) signers (rev (blocks c))) (\<lambda>remaining.
      Ok (length remaining)))"

definition can_be_removed :: "CompanyEnv \<Rightarrow> CompanyBlockchain \<Rightarrow> NodeId \<Rightarrow> BcrKeys \<Rightarrow> (bool, BlockchainError) result" where
  "can_be_removed E c removee company_keys =
     and_then (last_invite_loop E company_keys removee (rev (blocks c))) (\<lambda>last_invite.
     case last_invite of
       Some b \<Rightarrow> and_then (was_removed_after_block E c removee (cbl_id b) company_keys) (\<lambda>removed. Ok (\<not> removed))
     | None \<Rightarrow>
         and_then (is_creator E c removee company_keys) (\<lambda>creator.
         if creator
         then and_then (was_removed_after_block E c removee bid_first company_keys) (\<lambda>removed. Ok (\<not> removed))
         else Ok False))"

definition last_signed :: "CompanyBlockchain \<Rightarrow> NodeId \<Rightarrow> CompanyOpCode \<Rightarrow> CompanyBlock option" where
  "last_signed c node_id op = rfind (\<lambda>b. cbl_signatory_node_id b = node_id \<and> cbl_op_code b = op) (blocks c)"

definition is_accepted_but_not_identified_signatory ::
  "CompanyEnv \<Rightarrow> CompanyBlockchain \<Rightarrow> NodeId \<Rightarrow> BcrKeys \<Rightarrow> (bool, BlockchainError) result" where
  "is_accepted_but_not_identified_signatory E c node_id company_keys =
     (case last_signed c node_id C_SignatoryAcceptInvite of
        Some b \<Rightarrow>
          (if signed_after c node_id (cbl_id b) C_IdentityProof then Ok False
           else and_then (was_removed_after_block E c node_id (cbl_id b) company_keys) (\<lambda>removed. Ok (\<not> removed)))
      | None \<Rightarrow>
          and_then (is_creator E c node_id company_keys) (\<lambda>creator.
          if creator
          then and_then (was_removed_after_block E c node_id bid_first company_keys) (\<lambda>removed. Ok (\<not> removed))
          else Ok False))"

definition is_authorized_signatory ::
  "CompanyEnv \<Rightarrow> CompanyBlockchain \<Rightarrow> NodeId \<Rightarrow> BcrKeys \<Rightarrow> (bool, BlockchainError) result" where
  "is_authorized_signatory E c node_id company_keys =
     (case last_signed c node_id C_IdentityProof of
        Some b \<Rightarrow> and_then (was_removed_after_block E c node_id (cbl_id b) company_keys) (\<lambda>removed. Ok (\<not> removed))
      | None \<Rightarrow> Ok False)"

section \<open>Validating company actions\<close>

record CompanyValidateActionData =
  cva_blockchain :: CompanyBlockchain
  cva_company_id :: NodeId
  cva_signer_node_id :: NodeId
  cva_op :: CompanyOpCode
  cva_company_keys :: BcrKeys
  cva_invitee :: "NodeId option"
  cva_removee :: "NodeId option"
  cva_identity_proof_data :: "identity_proof_data option"

definition company_err :: "CompanyEnv \<Rightarrow> ('a, BlockchainError) result \<Rightarrow> ('a, ProtocolValidationError) result" where
  "company_err E r = map_err (\<lambda>e. Blockchain (x_error_text (cenv_ext E) e)) r"

definition check_authorized_signatory ::
  "CompanyEnv \<Rightarrow> CompanyValidateActionData \<Rightarrow> (unit, ProtocolValidationError) result" where
  "check_authorized_signatory E d =
     and_then (company_err E (is_authorized_signatory E (cva_blockchain d) (cva_signer_node_id d) (cva_company_keys d)))
       (\<lambda>ok. reject_if (\<not> ok) CallerMustBeSignatory)"

definition check_accepted_or_authorized ::
  "CompanyEnv \<Rightarrow> CompanyValidateActionData \<Rightarrow> (unit, ProtocolValidationError) result" where
  "check_accepted_or_authorized E d =
     and_then (company_err E (is_authorized_signatory E (cva_blockchain d) (cva_signer_node_id d) (cva_company_keys d))) (\<lambda>authorized.
     and_then (company_err E (is_accepted_but_not_identified_signatory E (cva_blockchain d) (cva_signer_node_id d)
       (cva_company_keys d))) (\<lambda>accepted_only.
     reject_if (\<not> (authorized \<or> accepted_only)) CallerMustBeSignatory))"

definition check_invited :: "CompanyEnv \<Rightarrow> CompanyValidateActionData \<Rightarrow> (unit, ProtocolValidationError) result" where
  "check_invited E d =
     and_then (company_err E (is_invited E (cva_blockchain d) (cva_signer_node_id d) (cva_company_keys d)))
       (\<lambda>ok. reject_if (\<not> ok) NotInvitedAsSignatory)"

definition check_can_be_invited ::
  "CompanyEnv \<Rightarrow> CompanyValidateActionData \<Rightarrow> NodeId \<Rightarrow> (unit, ProtocolValidationError) result" where
  "check_can_be_invited E d invitee =
     and_then (company_err E (can_be_invited E (cva_blockchain d) invitee (cva_company_keys d)))
       (\<lambda>ok. reject_if (\<not> ok) (SignatoryAlreadySignatory invitee))"

definition check_can_be_removed ::
  "CompanyEnv \<Rightarrow> CompanyValidateActionData \<Rightarrow> NodeId \<Rightarrow> (unit, ProtocolValidationError) result" where
  "check_can_be_removed E d removee =
     and_then (company_err E (can_be_removed E (cva_blockchain d) removee (cva_company_keys d))) (\<lambda>ok.
     seq (reject_if (\<not> ok) (NotASignatory removee))
    (and_then (company_err E (is_authorized_signatory E (cva_blockchain d) removee (cva_company_keys d))) (\<lambda>authorized.
     and_then (company_err E (num_authorized_signers E (cva_blockchain d) (cva_company_keys d))) (\<lambda>n.
     reject_if (authorized \<and> n = 1) CantRemoveLastSignatory))))"

text \<open>The identity proof of a company action; the boolean that \<^verbatim>\<open>proof.verify(data)?\<close> returns is not looked at.\<close>

definition check_company_identity_proof ::
  "CompanyEnv \<Rightarrow> CompanyValidateActionData \<Rightarrow> identity_proof_data \<Rightarrow> (unit, ProtocolValidationError) result" where
  "check_company_identity_proof E d ip =
     (case ip of (proof, data, reference_block) \<Rightarrow>
      seq (case reference_block of
             None \<Rightarrow> Ok ()
           | Some reference_block_id \<Rightarrow>
               (case find (\<lambda>b. cbl_id b = reference_block_id) (blocks (cva_blockchain d)) of
                  Some b \<Rightarrow> reject_if (cbl_op_code b \<notin> {C_Create, C_SignatoryAcceptInvite}) InvalidReferenceBlock
                | None \<Rightarrow> Err InvalidReferenceBlock))
     (seq (reject_if (eip_node_id data \<noteq> cva_signer_node_id d) InvalidIdentityProof)
     (seq (reject_if (eip_company_node_id data \<noteq> Some (cva_company_id d)) InvalidIdentityProof)
          (and_then (map_err (\<lambda>_. InvalidIdentityProof) (identity_proof_verify (cenv_ext E) proof data))
             (\<lambda>_. Ok ())))))"

definition validate_company_action ::
  "CompanyEnv \<Rightarrow> CompanyValidateActionData \<Rightarrow> (unit, ProtocolValidationError) result" where
  "validate_company_action E d =
     (case cva_op d of
        C_Update \<Rightarrow> check_authorized_signatory E d
      | C_InviteSignatory \<Rightarrow>
          seq (check_authorized_signatory E d)
              (case cva_invitee d of Some invitee \<Rightarrow> check_can_be_invited E d invitee | None \<Rightarrow> Panic)
      | C_RemoveSignatory \<Rightarrow>
          seq (check_authorized_signatory E d)
              (case cva_removee d of Some removee \<Rightarrow> check_can_be_removed E d removee | None \<Rightarrow> Panic)
      | C_SignatoryAcceptInvite \<Rightarrow> check_invited E d
      | C_SignatoryRejectInvite \<Rightarrow> check_invited E d
      | C_SignCompanyBill \<Rightarrow> check_authorized_signatory E d
      | C_IdentityProof \<Rightarrow>
          seq (check_accepted_or_authorized E d)
              (case cva_identity_proof_data d of
                 Some ip \<Rightarrow> check_company_identity_proof E d ip
               | None \<Rightarrow> Panic)
      | C_Create \<Rightarrow> Err InvalidCompanyAction)"

end
