(* ===== verification/Identity_Chain.thy ===== *)
theory Identity_Chain
  imports Company_Chain
begin

text \<open>
  The identity chain (\<^verbatim>\<open>blockchain/identity/{mod,validation}.rs\<close>): blocks signed by the one key pair of an
  identity, their payloads, the creator and the identified creator, and the validation of identity
  actions. The block data is encrypted directly, without the wrapper that bill and company blocks have.
\<close>

section \<open>Blocks and payloads\<close>

datatype IdentityOpCode =
    I_Create | I_Update | I_SignPersonBill | I_SignCompanyBill | I_CreateCompany | I_InviteSignatory
  | I_AcceptSignatoryInvite | I_RejectSignatoryInvite | I_RemoveSignatory | I_IdentityProof

datatype IdentityType = Identified | Anonymous

definition identity_type_try_from :: "u64 \<Rightarrow> (IdentityType, ProtocolValidationError) result" where
  "identity_type_try_from value =
     (if value = 0 then Ok Identified else if value = 1 then Ok Anonymous else Err InvalidIdentityType)"

record IdentityBlock =
  ibl_id :: BlockId
  ibl_plaintext_hash :: Sha256Hash
  ibl_hash :: Sha256Hash
  ibl_timestamp :: Timestamp
  ibl_data :: bytes
  ibl_public_key :: PublicKey
  ibl_previous_hash :: Sha256Hash
  ibl_signature :: SchnorrSignature
  ibl_op_code :: IdentityOpCode

record IdentityBlockDataToHash =
  idh_id :: BlockId
  idh_plaintext_hash :: Sha256Hash
  idh_previous_hash :: Sha256Hash
  idh_data :: bytes
  idh_timestamp :: Timestamp
  idh_public_key :: PublicKey
  idh_op_code :: IdentityOpCode

record IdentityCreateBlockData =
  icr_t :: IdentityType
  icr_node_id :: NodeId
  icr_name :: Name
  icr_email :: "Email option"
  icr_postal_address :: OptionalPostalAddress
  icr_date_of_birth :: "Date option"
  icr_city_of_birth :: "City option"
  icr_country_of_birth :: "Country option"
  icr_identification_number :: "Identification option"
  icr_nostr_relays :: "Url list"
  icr_profile_picture_file :: "File option"
  icr_identity_document_file :: "File option"

definition validate_identity_create :: "IdentityCreateBlockData \<Rightarrow> (unit, ProtocolValidationError) result" where
  "validate_identity_create d =
     (case icr_t d of
        Identified \<Rightarrow>
          seq (reject_if (icr_email d = None) (FieldEmpty F_Email))
              (validate_to_be_non_optional (icr_postal_address d))
      | Anonymous \<Rightarrow> Ok ())"

record IdentityUpdateBlockData =
  iup_t :: "IdentityType option"
  iup_name :: "Name option"
  iup_email :: "Email option"
  iup_country :: "Country option"
  iup_city :: "City option"
  iup_zip :: "Zip EditOptionalFieldMode"
  iup_address :: "Address option"
  iup_date_of_birth :: "Date EditOptionalFieldMode"
  iup_country_of_birth :: "Country EditOptionalFieldMode"
  iup_city_of_birth :: "City EditOptionalFieldMode"
  iup_identification_number :: "Identification EditOptionalFieldMode"
  iup_profile_picture_file :: "File EditOptionalFieldMode"
  iup_identity_document_file :: "File EditOptionalFieldMode"

definition validate_identity_update :: "IdentityUpdateBlockData \<Rightarrow> (unit, ProtocolValidationError) result" where
  "validate_identity_update d =
     (case iup_t d of
        Some Identified \<Rightarrow>
          seq (reject_if (iup_email d = None) (FieldEmpty F_Email))
              (validate_to_be_non_optional
                 \<lparr>opa_country = iup_country d, opa_city = iup_city d, opa_zip = None, opa_address = iup_address d\<rparr>)
      | _ \<Rightarrow> Ok ())"

record IdentitySignPersonBillBlockData =
  isp_bill_id :: BillId
  isp_block_id :: BlockId
  isp_block_hash :: Sha256Hash
  isp_operation :: BillOpCode
  isp_bill_key :: "SecretKey option"

record IdentitySignCompanyBillBlockData =
  isc_bill_id :: BillId
  isc_block_id :: BlockId
  isc_block_hash :: Sha256Hash
  isc_company_id :: NodeId
  isc_operation :: BillOpCode

record IdentityCreateCompanyBlockData =
  icc_company_id :: NodeId
  icc_company_key :: SecretKey
  icc_block_hash :: Sha256Hash

record IdentityInviteSignatoryBlockData =
  iis_company_id :: NodeId
  iis_block_id :: BlockId
  iis_block_hash :: Sha256Hash
  iis_signatory :: NodeId

record IdentityAcceptSignatoryInviteBlockData =
  iai_company_id :: NodeId
  iai_block_id :: BlockId
  iai_block_hash :: Sha256Hash

record IdentityRejectSignatoryInviteBlockData =
  iri_company_id :: NodeId
  iri_block_id :: BlockId
  iri_block_hash :: Sha256Hash

record IdentityRemoveSignatoryBlockData =
  irs_company_id :: NodeId
  irs_block_id :: BlockId
  irs_block_hash :: Sha256Hash
  irs_signatory :: NodeId

record IdentityProofBlockData =
  ipr_proof :: SignedIdentityProof
  ipr_data :: EmailIdentityProofData

datatype IdentityBlockPayload =
    IP_Create IdentityCreateBlockData
  | IP_Update IdentityUpdateBlockData
  | IP_SignPersonalBill IdentitySignPersonBillBlockData
  | IP_SignCompanyBill IdentitySignCompanyBillBlockData
  | IP_CreateCompany IdentityCreateCompanyBlockData
  | IP_InviteSignatory IdentityInviteSignatoryBlockData
  | IP_AcceptSignatoryInvite IdentityAcceptSignatoryInviteBlockData
  | IP_RejectSignatoryInvite IdentityRejectSignatoryInviteBlockData
  | IP_RemoveSignatory IdentityRemoveSignatoryBlockData
  | IP_IdentityProof IdentityProofBlockData

record IdentityVerifyAndGetSignerData =
  ivs_signer :: "NodeId option"
  ivs_identity_proof_data :: "(SignedIdentityProof \<times> EmailIdentityProofData) option"

record IdentityEnv =
  ienv_ext :: Ext
  ic_create :: "IdentityCreateBlockData Codec"
  ic_update :: "IdentityUpdateBlockData Codec"
  ic_sign_person_bill :: "IdentitySignPersonBillBlockData Codec"
  ic_sign_company_bill :: "IdentitySignCompanyBillBlockData Codec"
  ic_create_company :: "IdentityCreateCompanyBlockData Codec"
  ic_invite_signatory :: "IdentityInviteSignatoryBlockData Codec"
  ic_accept_signatory_invite :: "IdentityAcceptSignatoryInviteBlockData Codec"
  ic_reject_signatory_invite :: "IdentityRejectSignatoryInviteBlockData Codec"
  ic_remove_signatory :: "IdentityRemoveSignatoryBlockData Codec"
  ic_identity_proof :: "IdentityProofBlockData Codec"
  ic_data_to_hash :: "IdentityBlockDataToHash Codec"

definition identity_block_data_to_hash :: "IdentityBlock \<Rightarrow> IdentityBlockDataToHash" where
  "identity_block_data_to_hash b =
     \<lparr>idh_id = ibl_id b, idh_plaintext_hash = ibl_plaintext_hash b, idh_previous_hash = ibl_previous_hash b,
      idh_data = ibl_data b, idh_timestamp = ibl_timestamp b, idh_public_key = ibl_public_key b,
      idh_op_code = ibl_op_code b\<rparr>"

definition identity_ops :: "IdentityEnv \<Rightarrow> (IdentityBlock, IdentityOpCode, IdentityBlockDataToHash) BlockOps" where
  "identity_ops E =
     \<lparr>blk_id = ibl_id, blk_timestamp = ibl_timestamp, blk_op_code = ibl_op_code,
      blk_plaintext_hash = ibl_plaintext_hash, blk_hash = ibl_hash,
      blk_previous_hash = ibl_previous_hash, blk_data = ibl_data, blk_signature = ibl_signature,
      blk_public_key = ibl_public_key, blk_validate = (\<lambda>_. True),
      blk_data_to_hash = identity_block_data_to_hash, blk_hash_codec = ic_data_to_hash E\<rparr>"

definition identity_validate_plaintext_hash :: "IdentityEnv \<Rightarrow> IdentityBlock \<Rightarrow> SecretKey \<Rightarrow> bool" where
  "identity_validate_plaintext_hash E b private_key =
     (case decrypt_ecies (ienv_ext E) (ibl_data b) private_key of
        Ok decrypted \<Rightarrow> ibl_plaintext_hash b = hash_from_bytes (ienv_ext E) decrypted
      | _ \<Rightarrow> False)"

section \<open>Creating blocks\<close>

definition identity_block_new ::
  "IdentityEnv \<Rightarrow> BlockId \<Rightarrow> Sha256Hash \<Rightarrow> bytes \<Rightarrow> IdentityOpCode \<Rightarrow> BcrKeys \<Rightarrow> Timestamp \<Rightarrow> Sha256Hash
     \<Rightarrow> (IdentityBlock, BlockchainError) result" where
  "identity_block_new E i previous_hash data op_code keys timestamp plaintext_hash =
     (let X = ienv_ext E in
      and_then (calculate_hash X (ic_data_to_hash E)
        \<lparr>idh_id = i, idh_plaintext_hash = plaintext_hash, idh_previous_hash = previous_hash,
         idh_data = data, idh_timestamp = timestamp, idh_public_key = pub_key X keys, idh_op_code = op_code\<rparr>) (\<lambda>hash.
      and_then (map_err Secp256k1Cryptography (sig_sign X hash (get_private_key X keys))) (\<lambda>signature.
      Ok \<lparr>ibl_id = i, ibl_plaintext_hash = plaintext_hash, ibl_hash = hash, ibl_timestamp = timestamp,
          ibl_data = data, ibl_public_key = pub_key X keys, ibl_previous_hash = previous_hash,
          ibl_signature = signature, ibl_op_code = op_code\<rparr>)))"

definition identity_block_for_create ::
  "IdentityEnv \<Rightarrow> Sha256Hash \<Rightarrow> IdentityCreateBlockData \<Rightarrow> BcrKeys \<Rightarrow> Timestamp
     \<Rightarrow> (IdentityBlock, BlockchainError) result" where
  "identity_block_for_create E genesis_hash identity keys timestamp =
     (let X = ienv_ext E in
      and_then (from_ext Io (to_vec (ic_create E) identity)) (\<lambda>identity_bytes.
      and_then (calculate_plaintext_hash X (ic_create E) identity) (\<lambda>plaintext_hash.
      and_then (map_err Secp256k1Cryptography (encrypt_ecies X identity_bytes (pub_key X keys))) (\<lambda>encrypted_data.
      identity_block_new E bid_first genesis_hash encrypted_data I_Create keys timestamp plaintext_hash))))"

definition identity_encrypt_data_create_block_and_validate ::
  "IdentityEnv \<Rightarrow> 't Codec \<Rightarrow> IdentityBlock \<Rightarrow> 't \<Rightarrow> BcrKeys \<Rightarrow> Timestamp \<Rightarrow> IdentityOpCode
     \<Rightarrow> (IdentityBlock, BlockchainError) result" where
  "identity_encrypt_data_create_block_and_validate E C previous_block data keys timestamp op_code =
     (let X = ienv_ext E in
      and_then (from_ext Io (to_vec C data)) (\<lambda>bs.
      and_then (calculate_plaintext_hash X C data) (\<lambda>plaintext_hash.
      and_then (map_err Secp256k1Cryptography (encrypt_ecies X bs (pub_key X keys))) (\<lambda>encrypted_data.
      and_then (identity_block_new E (next_from_previous_block_id (ibl_id previous_block))
        (ibl_hash previous_block) encrypted_data op_code keys timestamp plaintext_hash) (\<lambda>new_block.
      and_then (validate_with_previous (identity_ops E) X new_block previous_block) (\<lambda>ok.
      if \<not> ok then Err BlockInvalid else Ok new_block))))))"

definition identity_block_for_update ::
  "IdentityEnv \<Rightarrow> IdentityBlock \<Rightarrow> IdentityUpdateBlockData \<Rightarrow> BcrKeys \<Rightarrow> Timestamp
     \<Rightarrow> (IdentityBlock, BlockchainError) result" where
  "identity_block_for_update E previous_block data keys timestamp =
     identity_encrypt_data_create_block_and_validate E (ic_update E) previous_block data keys timestamp I_Update"

definition identity_block_for_sign_person_bill ::
  "IdentityEnv \<Rightarrow> IdentityBlock \<Rightarrow> IdentitySignPersonBillBlockData \<Rightarrow> BcrKeys \<Rightarrow> Timestamp
     \<Rightarrow> (IdentityBlock, BlockchainError) result" where
  "identity_block_for_sign_person_bill E previous_block data keys timestamp =
     identity_encrypt_data_create_block_and_validate E (ic_sign_person_bill E) previous_block data keys timestamp I_SignPersonBill"

definition identity_block_for_sign_company_bill ::
  "IdentityEnv \<Rightarrow> IdentityBlock \<Rightarrow> IdentitySignCompanyBillBlockData \<Rightarrow> BcrKeys \<Rightarrow> Timestamp
     \<Rightarrow> (IdentityBlock, BlockchainError) result" where
  "identity_block_for_sign_company_bill E previous_block data keys timestamp =
     identity_encrypt_data_create_block_and_validate E (ic_sign_company_bill E) previous_block data keys timestamp I_SignCompanyBill"

definition identity_block_for_create_company ::
  "IdentityEnv \<Rightarrow> IdentityBlock \<Rightarrow> IdentityCreateCompanyBlockData \<Rightarrow> BcrKeys \<Rightarrow> Timestamp
     \<Rightarrow> (IdentityBlock, BlockchainError) result" where
  "identity_block_for_create_company E previous_block data keys timestamp =
     identity_encrypt_data_create_block_and_validate E (ic_create_company E) previous_block data keys timestamp I_CreateCompany"

definition identity_block_for_invite_signatory ::
  "IdentityEnv \<Rightarrow> IdentityBlock \<Rightarrow> IdentityInviteSignatoryBlockData \<Rightarrow> BcrKeys \<Rightarrow> Timestamp
     \<Rightarrow> (IdentityBlock, BlockchainError) result" where
  "identity_block_for_invite_signatory E previous_block data keys timestamp =
     identity_encrypt_data_create_block_and_validate E (ic_invite_signatory E) previous_block data keys timestamp I_InviteSignatory"

definition identity_block_for_accept_signatory_invite ::
  "IdentityEnv \<Rightarrow> IdentityBlock \<Rightarrow> IdentityAcceptSignatoryInviteBlockData \<Rightarrow> BcrKeys \<Rightarrow> Timestamp
     \<Rightarrow> (IdentityBlock, BlockchainError) result" where
  "identity_block_for_accept_signatory_invite E previous_block data keys timestamp =
     identity_encrypt_data_create_block_and_validate E (ic_accept_signatory_invite E) previous_block data keys timestamp I_AcceptSignatoryInvite"

definition identity_block_for_reject_signatory_invite ::
  "IdentityEnv \<Rightarrow> IdentityBlock \<Rightarrow> IdentityRejectSignatoryInviteBlockData \<Rightarrow> BcrKeys \<Rightarrow> Timestamp
     \<Rightarrow> (IdentityBlock, BlockchainError) result" where
  "identity_block_for_reject_signatory_invite E previous_block data keys timestamp =
     identity_encrypt_data_create_block_and_validate E (ic_reject_signatory_invite E) previous_block data keys timestamp I_RejectSignatoryInvite"

definition identity_block_for_remove_signatory ::
  "IdentityEnv \<Rightarrow> IdentityBlock \<Rightarrow> IdentityRemoveSignatoryBlockData \<Rightarrow> BcrKeys \<Rightarrow> Timestamp
     \<Rightarrow> (IdentityBlock, BlockchainError) result" where
  "identity_block_for_remove_signatory E previous_block data keys timestamp =
     identity_encrypt_data_create_block_and_validate E (ic_remove_signatory E) previous_block data keys timestamp I_RemoveSignatory"

definition identity_block_for_identity_proof ::
  "IdentityEnv \<Rightarrow> IdentityBlock \<Rightarrow> IdentityProofBlockData \<Rightarrow> BcrKeys \<Rightarrow> Timestamp
     \<Rightarrow> (IdentityBlock, BlockchainError) result" where
  "identity_block_for_identity_proof E previous_block data keys timestamp =
     identity_encrypt_data_create_block_and_validate E (ic_identity_proof E) previous_block data keys timestamp I_IdentityProof"

section \<open>Reading blocks\<close>

definition identity_get_decrypted_block_bytes ::
  "IdentityEnv \<Rightarrow> IdentityBlock \<Rightarrow> BcrKeys \<Rightarrow> (bytes, BlockchainError) result" where
  "identity_get_decrypted_block_bytes E b keys =
     map_err Secp256k1Cryptography (decrypt_ecies (ienv_ext E) (ibl_data b) (get_private_key (ienv_ext E) keys))"

definition identity_get_block_data ::
  "IdentityEnv \<Rightarrow> IdentityBlock \<Rightarrow> BcrKeys \<Rightarrow> (IdentityBlockPayload, BlockchainError) result" where
  "identity_get_block_data E b keys =
     and_then (identity_get_decrypted_block_bytes E b keys) (\<lambda>data.
     case ibl_op_code b of
       I_Create \<Rightarrow> and_then (from_ext Io (from_slice (ic_create E) data)) (\<lambda>d. Ok (IP_Create d))
     | I_Update \<Rightarrow> and_then (from_ext Io (from_slice (ic_update E) data)) (\<lambda>d. Ok (IP_Update d))
     | I_SignPersonBill \<Rightarrow> and_then (from_ext Io (from_slice (ic_sign_person_bill E) data)) (\<lambda>d. Ok (IP_SignPersonalBill d))
     | I_SignCompanyBill \<Rightarrow> and_then (from_ext Io (from_slice (ic_sign_company_bill E) data)) (\<lambda>d. Ok (IP_SignCompanyBill d))
     | I_CreateCompany \<Rightarrow> and_then (from_ext Io (from_slice (ic_create_company E) data)) (\<lambda>d. Ok (IP_CreateCompany d))
     | I_InviteSignatory \<Rightarrow> and_then (from_ext Io (from_slice (ic_invite_signatory E) data)) (\<lambda>d. Ok (IP_InviteSignatory d))
     | I_AcceptSignatoryInvite \<Rightarrow> and_then (from_ext Io (from_slice (ic_accept_signatory_invite E) data)) (\<lambda>d. Ok (IP_AcceptSignatoryInvite d))
     | I_RejectSignatoryInvite \<Rightarrow> and_then (from_ext Io (from_slice (ic_reject_signatory_invite E) data)) (\<lambda>d. Ok (IP_RejectSignatoryInvite d))
     | I_RemoveSignatory \<Rightarrow> and_then (from_ext Io (from_slice (ic_remove_signatory E) data)) (\<lambda>d. Ok (IP_RemoveSignatory d))
     | I_IdentityProof \<Rightarrow> and_then (from_ext Io (from_slice (ic_identity_proof E) data)) (\<lambda>d. Ok (IP_IdentityProof d)))"

definition identity_verify_sig :: "IdentityEnv \<Rightarrow> IdentityBlock \<Rightarrow> BcrKeys \<Rightarrow> (bool, BlockchainError) result" where
  "identity_verify_sig E b keys =
     (case sig_verify (ienv_ext E) (ibl_signature b) (ibl_hash b) (pub_key (ienv_ext E) keys) of
        Err _ \<Rightarrow> Ok False
      | Ok res \<Rightarrow> Ok res
      | Panic \<Rightarrow> Panic)"

definition identity_signer_data :: "IdentityBlockPayload \<Rightarrow> IdentityVerifyAndGetSignerData" where
  "identity_signer_data payload =
     (case payload of
        IP_Create d \<Rightarrow> \<lparr>ivs_signer = Some (icr_node_id d), ivs_identity_proof_data = None\<rparr>
      | IP_IdentityProof d \<Rightarrow> \<lparr>ivs_signer = Some (eip_node_id (ipr_data d)),
          ivs_identity_proof_data = Some (ipr_proof d, ipr_data d)\<rparr>
      | _ \<Rightarrow> \<lparr>ivs_signer = None, ivs_identity_proof_data = None\<rparr>)"

text \<open>A proof that does not verify is only logged here; reading its signature can still panic.\<close>

definition identity_verify_and_get_signer ::
  "IdentityEnv \<Rightarrow> IdentityBlock \<Rightarrow> BcrKeys \<Rightarrow> (IdentityVerifyAndGetSignerData, BlockchainError) result" where
  "identity_verify_and_get_signer E b keys =
     and_then (identity_get_block_data E b keys) (\<lambda>payload.
     let data = identity_signer_data payload in
     and_then (identity_verify_sig E b keys) (\<lambda>ok.
     if \<not> ok then Err BlockSignatureDoesNotMatchSigner
     else case ivs_identity_proof_data data of
            None \<Rightarrow> Ok data
          | Some (proof, proof_data) \<Rightarrow>
              (case identity_proof_verify (ienv_ext E) proof proof_data of Panic \<Rightarrow> Panic | _ \<Rightarrow> Ok data)))"

section \<open>The chain\<close>

type_synonym IdentityBlockchain = "IdentityBlock Blockchain"

record IdentityBlockPlaintextWrapper =
  ipw_block :: IdentityBlock
  ipw_plaintext_data_bytes :: bytes

definition identity_chain_new ::
  "IdentityEnv \<Rightarrow> IdentityCreateBlockData \<Rightarrow> BcrKeys \<Rightarrow> Timestamp \<Rightarrow> (IdentityBlockchain, BlockchainError) result" where
  "identity_chain_new E identity keys timestamp =
     and_then (identity_block_for_create E
       (hash_from_bytes (ienv_ext E) (string_bytes (get_public_key (ienv_ext E) keys))) identity keys timestamp)
       (\<lambda>first_block. Ok \<lparr>blocks = [first_block]\<rparr>)"

definition identity_is_creator ::
  "IdentityEnv \<Rightarrow> IdentityBlockchain \<Rightarrow> NodeId \<Rightarrow> BcrKeys \<Rightarrow> (bool, BlockchainError) result" where
  "identity_is_creator E c node_id keys =
     and_then (get_first_block c) (\<lambda>first.
     and_then (identity_get_block_data E first keys) (\<lambda>payload.
     case payload of
       IP_Create block_data \<Rightarrow> Ok (icr_node_id block_data = node_id)
     | _ \<Rightarrow> Ok False))"

definition is_identified ::
  "IdentityEnv \<Rightarrow> IdentityBlockchain \<Rightarrow> NodeId \<Rightarrow> BcrKeys \<Rightarrow> (bool, BlockchainError) result" where
  "is_identified E c node_id keys =
     and_then (identity_is_creator E c node_id keys) (\<lambda>creator.
     if creator then Ok (list_ex (\<lambda>b. ibl_op_code b = I_IdentityProof) (blocks c)) else Ok False)"

definition identity_new_from_blocks ::
  "IdentityEnv \<Rightarrow> IdentityBlock list \<Rightarrow> (IdentityBlockchain, BlockchainError) result" where
  "identity_new_from_blocks E blocks_to_add =
     (case first_opt blocks_to_add of
        None \<Rightarrow> Err BlockchainInvalid
      | Some first \<Rightarrow>
          and_then (blk_verify (identity_ops E) (ienv_ext E) first) (\<lambda>verified.
          if \<not> verified then Err BlockchainInvalid
          else and_then (validate_hash (identity_ops E) (ienv_ext E) first) (\<lambda>hash_ok.
          if \<not> hash_ok then Err BlockchainInvalid
          else and_then (is_chain_valid (identity_ops E) (ienv_ext E) \<lparr>blocks = blocks_to_add\<rparr>) (\<lambda>valid.
          if \<not> valid then Err BlockchainInvalid else Ok \<lparr>blocks = blocks_to_add\<rparr>))))"

definition identity_plaintext_step ::
  "IdentityEnv \<Rightarrow> BcrKeys \<Rightarrow> IdentityBlock \<Rightarrow> (IdentityBlockPlaintextWrapper, BlockchainError) result" where
  "identity_plaintext_step E keys b =
     and_then (identity_get_decrypted_block_bytes E b keys) (\<lambda>bs.
     if ibl_plaintext_hash b \<noteq> hash_from_bytes (ienv_ext E) bs then Err BlockInvalid
     else Ok \<lparr>ipw_block = b, ipw_plaintext_data_bytes = bs\<rparr>)"

definition identity_chain_with_plaintext ::
  "IdentityEnv \<Rightarrow> IdentityBlockchain \<Rightarrow> BcrKeys \<Rightarrow> (IdentityBlockPlaintextWrapper list, BlockchainError) result" where
  "identity_chain_with_plaintext E c keys =
     and_then (try_map (identity_plaintext_step E keys) (blocks c)) (\<lambda>ws.
     and_then (identity_new_from_blocks E (map ipw_block ws)) (\<lambda>_. Ok ws))"

section \<open>Validating identity actions\<close>

record IdentityValidateActionData =
  iva_blockchain :: IdentityBlockchain
  iva_id :: NodeId
  iva_op :: IdentityOpCode
  iva_keys :: BcrKeys
  iva_identity_proof_data :: "(SignedIdentityProof \<times> EmailIdentityProofData) option"

definition identity_err :: "IdentityEnv \<Rightarrow> ('a, BlockchainError) result \<Rightarrow> ('a, ProtocolValidationError) result" where
  "identity_err E r = map_err (\<lambda>e. Blockchain (x_error_text (ienv_ext E) e)) r"

definition check_signer :: "IdentityEnv \<Rightarrow> IdentityValidateActionData \<Rightarrow> (unit, ProtocolValidationError) result" where
  "check_signer E d =
     and_then (identity_err E (identity_is_creator E (iva_blockchain d) (iva_id d) (iva_keys d)))
       (\<lambda>ok. reject_if (\<not> ok) CallerMustBeCreator)"

definition check_identified_signer ::
  "IdentityEnv \<Rightarrow> IdentityValidateActionData \<Rightarrow> (unit, ProtocolValidationError) result" where
  "check_identified_signer E d =
     and_then (identity_err E (is_identified E (iva_blockchain d) (iva_id d) (iva_keys d)))
       (\<lambda>ok. reject_if (\<not> ok) CallerMustBeIdentifiedCreator)"

text \<open>The boolean that \<^verbatim>\<open>proof.verify(data)?\<close> returns is not looked at, as on the company chain.\<close>

definition validate_identity_action ::
  "IdentityEnv \<Rightarrow> IdentityValidateActionData \<Rightarrow> (unit, ProtocolValidationError) result" where
  "validate_identity_action E d =
     (case iva_op d of
        I_Update \<Rightarrow> check_signer E d
      | I_SignPersonBill \<Rightarrow> check_signer E d
      | I_SignCompanyBill \<Rightarrow> check_identified_signer E d
      | I_CreateCompany \<Rightarrow> check_identified_signer E d
      | I_InviteSignatory \<Rightarrow> check_identified_signer E d
      | I_AcceptSignatoryInvite \<Rightarrow> check_identified_signer E d
      | I_RejectSignatoryInvite \<Rightarrow> check_identified_signer E d
      | I_RemoveSignatory \<Rightarrow> check_identified_signer E d
      | I_IdentityProof \<Rightarrow>
          seq (check_signer E d)
              (case iva_identity_proof_data d of
                 Some (proof, data) \<Rightarrow>
                   seq (reject_if (eip_node_id data \<noteq> iva_id d) InvalidIdentityProof)
                       (and_then (map_err (\<lambda>_. InvalidIdentityProof) (identity_proof_verify (ienv_ext E) proof data))
                          (\<lambda>_. Ok ()))
               | None \<Rightarrow> Panic)
      | I_Create \<Rightarrow> Err InvalidIdentityAction)"

end
