(* ===== verification/Chain_Processors.thy ===== *)
theory Chain_Processors
  imports Bill_Processor Identity_Chain
begin

text \<open>
  The processors for received company and identity blocks
  (\<^verbatim>\<open>handler/company_chain_event_processor.rs\<close> and \<^verbatim>\<open>handler/identity_chain_event_processor.rs\<close>): the
  validation of one block and of a list of blocks against a chain. As for bills, the chain is returned
  next to the outcome; it holds the block once the integrity check has passed, also when a later check
  fails. The texts of errors are taken from \<open>ProcEnv\<close>.
\<close>

section \<open>Company blocks\<close>

definition validate_company_block_after_add ::
  "ProcEnv \<Rightarrow> CompanyEnv \<Rightarrow> CompanyBlockchain \<Rightarrow> CompanyBlock \<Rightarrow> BcrKeys \<Rightarrow> (bool, TransportError) result" where
  "validate_company_block_after_add P E chain block company_keys =
     and_then (map_err (\<lambda>e. T_Blockchain (x_error_text (cenv_ext E) e))
       (company_verify_and_get_signer E block company_keys)) (\<lambda>v.
     and_then (map_err (\<lambda>e. T_Blockchain (proc_validation_text P e))
       (validate_company_action E
          \<lparr>cva_blockchain = chain, cva_company_id = cbl_company_id block, cva_signer_node_id = vgs_signer v,
           cva_op = cbl_op_code block, cva_company_keys = company_keys, cva_invitee = vgs_invitee v,
           cva_removee = vgs_removee v, cva_identity_proof_data = vgs_identity_proof_data v\<rparr>)) (\<lambda>_.
     Ok True))"

definition validate_company_block_for_chain ::
  "ProcEnv \<Rightarrow> CompanyEnv \<Rightarrow> CompanyBlockchain \<Rightarrow> CompanyBlock \<Rightarrow> BcrKeys
     \<Rightarrow> (bool, TransportError) result \<times> CompanyBlockchain" where
  "validate_company_block_for_chain P E chain block company_keys =
     (case get_latest_block chain of
        Ok latest \<Rightarrow>
          (if cbl_id block \<le> cbl_id latest then (Ok False, chain)
           else case try_add_block (company_ops E) (cenv_ext E) chain block of
                  Ok (True, chain') \<Rightarrow> (validate_company_block_after_add P E chain block company_keys, chain')
                | Ok (False, chain') \<Rightarrow> (Err (T_Blockchain ''Received invalid company block''), chain')
                | _ \<Rightarrow> (Panic, chain))
      | Err e \<Rightarrow> (Err e, chain)
      | Panic \<Rightarrow> (Panic, chain))"

fun validate_company_blocks_for_chain ::
  "ProcEnv \<Rightarrow> CompanyEnv \<Rightarrow> CompanyBlockchain \<Rightarrow> CompanyBlock list \<Rightarrow> BcrKeys
     \<Rightarrow> (unit, TransportError) result \<times> CompanyBlockchain" where
  "validate_company_blocks_for_chain P E chain [] company_keys = (Ok (), chain)"
| "validate_company_blocks_for_chain P E chain (block # bs) company_keys =
     (case validate_company_block_for_chain P E chain block company_keys of
        (Ok _, chain') \<Rightarrow> validate_company_blocks_for_chain P E chain' bs company_keys
      | (Err e, chain') \<Rightarrow> (Err e, chain')
      | (Panic, chain') \<Rightarrow> (Panic, chain'))"

section \<open>Identity blocks\<close>

definition validate_identity_block_after_add ::
  "ProcEnv \<Rightarrow> IdentityEnv \<Rightarrow> IdentityBlockchain \<Rightarrow> IdentityBlock \<Rightarrow> BcrKeys \<Rightarrow> NodeId
     \<Rightarrow> (bool, TransportError) result" where
  "validate_identity_block_after_add P E chain block keys identity_id =
     and_then (map_err (\<lambda>e. T_Blockchain (x_error_text (ienv_ext E) e))
       (identity_verify_and_get_signer E block keys)) (\<lambda>v.
     and_then (map_err (\<lambda>e. T_Blockchain (proc_validation_text P e))
       (validate_identity_action E
          \<lparr>iva_blockchain = chain, iva_id = identity_id, iva_op = ibl_op_code block, iva_keys = keys,
           iva_identity_proof_data = ivs_identity_proof_data v\<rparr>)) (\<lambda>_.
     Ok True))"

definition validate_identity_block_for_chain ::
  "ProcEnv \<Rightarrow> IdentityEnv \<Rightarrow> IdentityBlockchain \<Rightarrow> IdentityBlock \<Rightarrow> BcrKeys \<Rightarrow> NodeId
     \<Rightarrow> (bool, TransportError) result \<times> IdentityBlockchain" where
  "validate_identity_block_for_chain P E chain block keys identity_id =
     (case get_latest_block chain of
        Ok latest \<Rightarrow>
          (if ibl_id block \<le> ibl_id latest then (Ok False, chain)
           else case try_add_block (identity_ops E) (ienv_ext E) chain block of
                  Ok (True, chain') \<Rightarrow> (validate_identity_block_after_add P E chain block keys identity_id, chain')
                | Ok (False, chain') \<Rightarrow> (Err (T_Blockchain ''Received invalid identity block''), chain')
                | _ \<Rightarrow> (Panic, chain))
      | Err e \<Rightarrow> (Err e, chain)
      | Panic \<Rightarrow> (Panic, chain))"

fun validate_identity_blocks_for_chain ::
  "ProcEnv \<Rightarrow> IdentityEnv \<Rightarrow> IdentityBlockchain \<Rightarrow> IdentityBlock list \<Rightarrow> BcrKeys \<Rightarrow> NodeId
     \<Rightarrow> (unit, TransportError) result \<times> IdentityBlockchain" where
  "validate_identity_blocks_for_chain P E chain [] keys identity_id = (Ok (), chain)"
| "validate_identity_blocks_for_chain P E chain (block # bs) keys identity_id =
     (case validate_identity_block_for_chain P E chain block keys identity_id of
        (Ok _, chain') \<Rightarrow> validate_identity_blocks_for_chain P E chain' bs keys identity_id
      | (Err e, chain') \<Rightarrow> (Err e, chain')
      | (Panic, chain') \<Rightarrow> (Panic, chain'))"

end
