(* ===== verification/Company_Props.thy ===== *)
theory Company_Props
  imports Chain_Processors
begin

text \<open>
  The signatories of a company. The abstract specification \<open>authorised\<close> reads a chain from the front
  and keeps a set of node ids: an identity proof adds its signatory, a removal takes the removee out.
  The readers of the code, which search the encrypted chain from the back, compute membership in this
  set and its size. Over the chains that the processor accepts it never becomes empty again, and a
  removed signatory has no rights left.
\<close>

section \<open>The block type\<close>

interpretation company_block: block_contract "company_ops E" for E
  by unfold_locales (auto simp: company_ops_def company_block_data_to_hash_def)

lemma company_ops_simps [simp]:
  "blk_id (company_ops E) = cbl_id" "blk_timestamp (company_ops E) = cbl_timestamp"
  "blk_op_code (company_ops E) = cbl_op_code" "blk_hash (company_ops E) = cbl_hash"
  "blk_previous_hash (company_ops E) = cbl_previous_hash"
  by (simp_all add: company_ops_def)

section \<open>Reading the chain\<close>

text \<open>Every block can be decrypted and decoded with the company keys.\<close>

definition readable :: "CompanyEnv \<Rightarrow> BcrKeys \<Rightarrow> CompanyBlock list \<Rightarrow> bool" where
  "readable E k bs \<longleftrightarrow> (\<forall>b \<in> set bs. \<exists>p. get_block_data E b k = Ok p)"

definition removes :: "CompanyEnv \<Rightarrow> BcrKeys \<Rightarrow> NodeId \<Rightarrow> CompanyBlock \<Rightarrow> bool" where
  "removes E k n b \<longleftrightarrow> (\<exists>d. get_block_data E b k = Ok (CP_RemoveSignatory d) \<and> crs_removee d = n)"

definition invites :: "CompanyEnv \<Rightarrow> BcrKeys \<Rightarrow> NodeId \<Rightarrow> CompanyBlock \<Rightarrow> bool" where
  "invites E k n b \<longleftrightarrow> (\<exists>d. get_block_data E b k = Ok (CP_InviteSignatory d) \<and> cis_invitee d = n)"

definition company_increasing :: "CompanyBlock list \<Rightarrow> bool" where
  "company_increasing bs \<longleftrightarrow> sorted_wrt (\<lambda>a b. cbl_id a < cbl_id b) bs"

lemma readable_append [simp]: "readable E k (xs @ ys) \<longleftrightarrow> readable E k xs \<and> readable E k ys"
  by (auto simp: readable_def)

lemma readable_Cons [simp]: "readable E k (b # bs) \<longleftrightarrow> (\<exists>p. get_block_data E b k = Ok p) \<and> readable E k bs"
  by (auto simp: readable_def)

lemma readable_Nil [simp]: "readable E k []"
  by (simp add: readable_def)

lemma readable_rev [simp]: "readable E k (rev bs) \<longleftrightarrow> readable E k bs"
  by (simp add: readable_def)

text \<open>The kind of the payload is the operation code of the block.\<close>

lemma payload_op_code:
  assumes "get_block_data E b k = Ok p"
  shows "cbl_op_code b = (case p of CP_Create _ \<Rightarrow> C_Create | CP_Update _ \<Rightarrow> C_Update
     | CP_SignBill _ \<Rightarrow> C_SignCompanyBill | CP_InviteSignatory _ \<Rightarrow> C_InviteSignatory
     | CP_SignatoryAcceptInvite _ \<Rightarrow> C_SignatoryAcceptInvite
     | CP_SignatoryRejectInvite _ \<Rightarrow> C_SignatoryRejectInvite
     | CP_RemoveSignatory _ \<Rightarrow> C_RemoveSignatory | CP_IdentityProof _ \<Rightarrow> C_IdentityProof)"
  using assms by (cases "cbl_op_code b") (auto simp: get_block_data_def and_then_eq_Ok)

lemma removes_op_code: "removes E k n b \<Longrightarrow> cbl_op_code b = C_RemoveSignatory"
  by (auto simp: removes_def dest: payload_op_code)

lemma removed_loop_Ok:
  assumes "readable E k bs"
  shows "removed_loop E k n i bs = Ok (\<exists>b \<in> set bs. i < cbl_id b \<and> removes E k n b)"
  using assms by (induction bs) (auto simp: removes_def split: CompanyBlockPayload.splits)

lemma was_removed_Ok:
  assumes "readable E k (blocks c)"
  shows "was_removed_after_block E c n i k = Ok (\<exists>b \<in> set (blocks c). i < cbl_id b \<and> removes E k n b)"
  using removed_loop_Ok [of E k "rev (blocks c)" n i] assms by (simp add: was_removed_after_block_def)

lemma last_invite_loop_Ok:
  assumes "readable E k bs"
  shows "last_invite_loop E k n bs = Ok (find (invites E k n) bs)"
  using assms by (induction bs) (auto simp: invites_def split: CompanyBlockPayload.splits)

lemma last_invite_Ok:
  assumes "readable E k (blocks c)"
  shows "last_invite_loop E k n (rev (blocks c)) = Ok (rfind (invites E k n) (blocks c))"
  using last_invite_loop_Ok [of E k "rev (blocks c)" n] assms by (simp add: rfind_def)

lemma is_authorized_Ok:
  assumes "readable E k (blocks c)"
  shows "is_authorized_signatory E c n k = Ok (case last_signed c n C_IdentityProof of
           None \<Rightarrow> False
         | Some b \<Rightarrow> \<not> (\<exists>b' \<in> set (blocks c). cbl_id b < cbl_id b' \<and> removes E k n b'))"
  using was_removed_Ok [OF assms] by (simp add: is_authorized_signatory_def split: option.split)

section \<open>The authorised signatories\<close>

definition auth_step :: "CompanyEnv \<Rightarrow> BcrKeys \<Rightarrow> CompanyBlock \<Rightarrow> NodeId set \<Rightarrow> NodeId set" where
  "auth_step E k b S =
     (if cbl_op_code b = C_IdentityProof then insert (cbl_signatory_node_id b) S
      else {n \<in> S. \<not> removes E k n b})"

definition authorised :: "CompanyEnv \<Rightarrow> BcrKeys \<Rightarrow> CompanyBlock list \<Rightarrow> NodeId set" where
  "authorised E k bs = fold (auth_step E k) bs {}"

lemma authorised_simps [simp]:
  "authorised E k [] = {}"
  "authorised E k (bs @ [b]) = auth_step E k b (authorised E k bs)"
  by (simp_all add: authorised_def)

lemma authorised_iff:
  assumes "company_increasing bs"
  shows "n \<in> authorised E k bs \<longleftrightarrow> (case last_signed \<lparr>blocks = bs\<rparr> n C_IdentityProof of
           None \<Rightarrow> False
         | Some b \<Rightarrow> \<not> (\<exists>b' \<in> set bs. cbl_id b < cbl_id b' \<and> removes E k n b'))"
  using assms
proof (induction bs rule: rev_induct)
  case Nil
  then show ?case by (simp add: last_signed_def)
next
  case (snoc b bs)
  have IH: "n \<in> authorised E k bs \<longleftrightarrow> (case last_signed \<lparr>blocks = bs\<rparr> n C_IdentityProof of
           None \<Rightarrow> False
         | Some b \<Rightarrow> \<not> (\<exists>b' \<in> set bs. cbl_id b < cbl_id b' \<and> removes E k n b'))"
    using snoc by (simp add: company_increasing_def sorted_wrt_append)
  have lt: "cbl_id a < cbl_id b" if "a \<in> set bs" for a
    using snoc.prems that by (simp add: company_increasing_def sorted_wrt_append)
  show ?case
  proof (cases "cbl_signatory_node_id b = n \<and> cbl_op_code b = C_IdentityProof")
    case True
    then show ?thesis using lt by (fastforce simp: last_signed_def auth_step_def dest: less_asym)
  next
    case False
    then have same: "last_signed \<lparr>blocks = bs @ [b]\<rparr> n C_IdentityProof = last_signed \<lparr>blocks = bs\<rparr> n C_IdentityProof"
      by (auto simp: last_signed_def)
    have "cbl_id a < cbl_id b" if "last_signed \<lparr>blocks = bs\<rparr> n C_IdentityProof = Some a" for a
      using that lt by (auto simp: last_signed_def dest: rfind_SomeD)
    then show ?thesis
      using False IH by (auto simp: same auth_step_def split: option.splits dest: removes_op_code)
  qed
qed

text \<open>Refinement: the reader of the code computes membership in the abstract set.\<close>

lemma is_authorized_refines:
  assumes "readable E k (blocks c)" and "company_increasing (blocks c)"
  shows "is_authorized_signatory E c n k = Ok (n \<in> authorised E k (blocks c))"
  using is_authorized_Ok [OF assms(1)] authorised_iff [OF assms(2)] by (simp add: last_signed_def)

subsection \<open>Their number\<close>

definition identity_signers :: "CompanyBlock list \<Rightarrow> (NodeId \<times> BlockId) list" where
  "identity_signers bs = fold (\<lambda>b m. if cbl_op_code b = C_IdentityProof
      then hm_insert (cbl_signatory_node_id b) (cbl_id b) m else m) bs []"

lemma identity_signers_keys: "distinct (map fst (identity_signers bs))"
  by (induction bs rule: rev_induct) (simp_all add: identity_signers_def)

lemma identity_signers_map:
  "map_of (identity_signers bs) n = map_option cbl_id (last_signed \<lparr>blocks = bs\<rparr> n C_IdentityProof)"
  by (induction bs rule: rev_induct) (auto simp: identity_signers_def last_signed_def)

lemma remove_signers_step_Ok:
  assumes "get_block_data E b k = Ok p" and "distinct (map fst m)"
  shows "remove_signers_step E k m b = Ok (filter (\<lambda>(n, i). \<not> (i < cbl_id b \<and> removes E k n b)) m)"
proof (cases "\<exists>d. p = CP_RemoveSignatory d")
  case True
  then obtain d where d: "get_block_data E b k = Ok (CP_RemoveSignatory d)" using assms(1) by blast
  have removes: "removes E k n b \<longleftrightarrow> n = crs_removee d" for n by (auto simp: removes_def d)
  show ?thesis
  proof (cases "case map_of m (crs_removee d) of Some v \<Rightarrow> v < cbl_id b | None \<Rightarrow> False")
    case True
    then have "fst x = crs_removee d \<longrightarrow> snd x < cbl_id b" if "x \<in> set m" for x
      using that map_of_is_SomeI [OF assms(2), of "fst x" "snd x"] by auto
    then have "hm_remove (crs_removee d) m = filter (\<lambda>(n, i). \<not> (i < cbl_id b \<and> n = crs_removee d)) m"
      by (auto simp: hm_remove_def intro!: filter_cong)
    with True show ?thesis by (simp add: remove_signers_step_def d removes)
  next
    case False
    then have "\<not> (snd x < cbl_id b \<and> fst x = crs_removee d)" if "x \<in> set m" for x
      using that map_of_is_SomeI [OF assms(2), of "fst x" "snd x"] by auto
    then have "filter (\<lambda>(n, i). \<not> (i < cbl_id b \<and> n = crs_removee d)) m = m"
      by (intro filter_True) fastforce
    moreover have "remove_signers_step E k m b = Ok m"
      using False by (simp add: remove_signers_step_def d)
    ultimately show ?thesis by (simp add: removes)
  qed
next
  case False
  then have "\<not> removes E k n b" for n using assms(1) by (auto simp: removes_def)
  moreover have "remove_signers_step E k m b = Ok m"
    using False assms(1) by (auto simp: remove_signers_step_def split: CompanyBlockPayload.splits)
  ultimately show ?thesis by simp
qed

lemma remove_signers_Ok:
  assumes "readable E k bs" and "distinct (map fst m)"
  shows "try_fold (remove_signers_step E k) m bs =
     Ok (filter (\<lambda>(n, i). \<not> (\<exists>b \<in> set bs. i < cbl_id b \<and> removes E k n b)) m)"
  using assms
proof (induction bs arbitrary: m)
  case (Cons b bs)
  then obtain p where p: "get_block_data E b k = Ok p" by auto
  let ?m = "filter (\<lambda>(n, i). \<not> (i < cbl_id b \<and> removes E k n b)) m"
  have "distinct (map fst ?m)" using Cons.prems(2) by (auto simp: distinct_map inj_on_def)
  with Cons have "try_fold (remove_signers_step E k) ?m bs =
      Ok (filter (\<lambda>(n, i). \<not> (\<exists>b \<in> set bs. i < cbl_id b \<and> removes E k n b)) ?m)" by simp
  also have "filter (\<lambda>(n, i). \<not> (\<exists>b \<in> set bs. i < cbl_id b \<and> removes E k n b)) ?m =
      filter (\<lambda>(n, i). \<not> (\<exists>b \<in> set (b # bs). i < cbl_id b \<and> removes E k n b)) m"
    unfolding filter_filter by (rule filter_cong) auto
  finally show ?case using remove_signers_step_Ok [OF p Cons.prems(2)] by simp
qed simp

lemma num_authorized_refines:
  assumes r: "readable E k (blocks c)" and i: "company_increasing (blocks c)"
  shows "num_authorized_signers E c k = Ok (card (authorised E k (blocks c)))"
proof -
  let ?m = "identity_signers (blocks c)"
  let ?f = "filter (\<lambda>(n, i). \<not> (\<exists>b \<in> set (blocks c). i < cbl_id b \<and> removes E k n b)) ?m"
  have "num_authorized_signers E c k = Ok (length ?f)"
    using remove_signers_Ok [of E k "rev (blocks c)" ?m] r identity_signers_keys
    by (simp add: num_authorized_signers_def identity_signers_def [symmetric])
  moreover have d: "distinct (map fst ?f)"
    using identity_signers_keys [of "blocks c"] by (auto simp: distinct_map inj_on_def)
  have "n \<in> fst ` set ?f \<longleftrightarrow> n \<in> authorised E k (blocks c)" for n
  proof -
    have "n \<in> fst ` set ?f \<longleftrightarrow> (\<exists>i. map_of ?m n = Some i \<and>
        \<not> (\<exists>b \<in> set (blocks c). i < cbl_id b \<and> removes E k n b))"
      using identity_signers_keys [of "blocks c"] by (force simp: image_iff)
    then show ?thesis
      by (simp add: identity_signers_map authorised_iff [OF i] split: option.splits)
  qed
  then have "set (map fst ?f) = authorised E k (blocks c)" by auto
  with d have "length ?f = card (authorised E k (blocks c))"
    using distinct_card [OF d] by simp
  ultimately show ?thesis by simp
qed

section \<open>Accepted chains\<close>

definition company_chain_ok :: "CompanyEnv \<Rightarrow> CompanyBlockchain \<Rightarrow> bool" where
  "company_chain_ok E c \<longleftrightarrow>
     blocks c \<noteq> [] \<and> is_chain_valid (company_ops E) (cenv_ext E) c = Ok True \<and>
     blk_verify (company_ops E) (cenv_ext E) (hd (blocks c)) = Ok True \<and>
     validate_hash (company_ops E) (cenv_ext E) (hd (blocks c)) = Ok True"

definition company_accepted ::
  "ProcEnv \<Rightarrow> CompanyEnv \<Rightarrow> BcrKeys \<Rightarrow> CompanyBlockchain \<Rightarrow> CompanyBlock \<Rightarrow> CompanyBlockchain \<Rightarrow> bool" where
  "company_accepted P E k c b c' \<longleftrightarrow> validate_company_block_for_chain P E c b k = (Ok True, c')"

inductive company_reachable :: "ProcEnv \<Rightarrow> CompanyEnv \<Rightarrow> BcrKeys \<Rightarrow> CompanyBlockchain \<Rightarrow> bool"
  for P E k where
  company_create: "company_chain_ok E \<lparr>blocks = [b]\<rparr> \<Longrightarrow> get_block_data E b k = Ok (CP_Create d) \<Longrightarrow>
     company_reachable P E k \<lparr>blocks = [b]\<rparr>"
| company_add: "company_reachable P E k c \<Longrightarrow> company_accepted P E k c b c' \<Longrightarrow> company_reachable P E k c'"

inductive_cases company_reachable_cases: "company_reachable P E k c"

lemma company_accepted_facts:
  assumes "company_accepted P E k c b c'"
  obtains v where
    "linked (company_ops E) (cenv_ext E) (last (blocks c)) b"
    "c' = c\<lparr>blocks := blocks c @ [b]\<rparr>" "blocks c \<noteq> []" "cbl_id (last (blocks c)) < cbl_id b"
    "company_verify_and_get_signer E b k = Ok v"
    "validate_company_action E
       \<lparr>cva_blockchain = c, cva_company_id = cbl_company_id b, cva_signer_node_id = vgs_signer v,
        cva_op = cbl_op_code b, cva_company_keys = k, cva_invitee = vgs_invitee v,
        cva_removee = vgs_removee v, cva_identity_proof_data = vgs_identity_proof_data v\<rparr> = Ok ()"
proof -
  from assms obtain latest where l: "get_latest_block c = (Ok latest :: (CompanyBlock, TransportError) result)"
    and i: "cbl_id latest < cbl_id b"
    and add: "try_add_block (company_ops E) (cenv_ext E) c b = Ok (True, c')"
    and after: "validate_company_block_after_add P E c b k = Ok True"
    by (auto simp: company_accepted_def validate_company_block_for_chain_def
        split: result.splits prod.splits bool.splits if_splits)
  from after obtain v where "company_verify_and_get_signer E b k = Ok v"
    "validate_company_action E
       \<lparr>cva_blockchain = c, cva_company_id = cbl_company_id b, cva_signer_node_id = vgs_signer v,
        cva_op = cbl_op_code b, cva_company_keys = k, cva_invitee = vgs_invitee v,
        cva_removee = vgs_removee v, cva_identity_proof_data = vgs_identity_proof_data v\<rparr> = Ok ()"
    by (auto simp: validate_company_block_after_add_def and_then_eq_Ok)
  with l i add show ?thesis using that by (auto simp: try_add_block_iff get_latest_block_def last_opt_def)
qed

lemma company_signer_payload:
  assumes "company_verify_and_get_signer E b k = Ok v"
  obtains p where "get_block_data E b k = Ok p" "company_verify_signer E b (vgs_signer v) k = Ok True"
    "v = company_signer_data b p"
proof -
  from assms obtain p where p: "get_block_data E b k = Ok p"
    and ok: "company_verify_signer E b (vgs_signer (company_signer_data b p)) k = Ok True"
    and rest: "(case vgs_identity_proof_data (company_signer_data b p) of
        None \<Rightarrow> Ok (company_signer_data b p)
      | Some (proof, proof_data, _) \<Rightarrow>
          (case identity_proof_verify (cenv_ext E) proof proof_data of Panic \<Rightarrow> Panic
           | _ \<Rightarrow> Ok (company_signer_data b p))) = (Ok v :: (VerifyAndGetSignerData, BlockchainError) result)"
    by (auto simp: company_verify_and_get_signer_def Let_def and_then_eq_Ok split: if_splits)
  from rest have "v = company_signer_data b p" by (auto split: option.splits prod.splits result.splits)
  with p ok show ?thesis using that by blast
qed

lemma company_reachable_ok:
  assumes "company_reachable P E k c"
  shows "company_chain_ok E c" and "readable E k (blocks c)" and "company_increasing (blocks c)"
    and "cbl_op_code (hd (blocks c)) = C_Create"
proof -
  have "company_chain_ok E c \<and> readable E k (blocks c) \<and> company_increasing (blocks c) \<and>
      cbl_op_code (hd (blocks c)) = C_Create"
    using assms
  proof induction
    case (company_create b d)
    then show ?case using payload_op_code [OF company_create(2)] by (simp add: company_increasing_def)
  next
    case (company_add c b c')
    from company_add.hyps(2) show ?case
    proof (rule company_accepted_facts)
      fix v
      assume l: "linked (company_ops E) (cenv_ext E) (last (blocks c)) b"
        and c': "c' = c\<lparr>blocks := blocks c @ [b]\<rparr>" "blocks c \<noteq> []" and i: "cbl_id (last (blocks c)) < cbl_id b"
        and v: "company_verify_and_get_signer E b k = Ok v"
      obtain p where p: "get_block_data E b k = Ok p" using company_signer_payload [OF v] by blast
      obtain bs x where bs: "blocks c = bs @ [x]" using c'(2) by (cases "blocks c" rule: rev_cases) auto
      have "cbl_id y < cbl_id b" if "y \<in> set (blocks c)" for y
        using company_add.IH i that by (auto simp: bs company_increasing_def sorted_wrt_append)
      then have inc: "company_increasing (blocks c')"
        using company_add.IH c' by (simp add: company_increasing_def sorted_wrt_append)
      have "successively (linked (company_ops E) (cenv_ext E)) (blocks c')"
        using company_add.IH l c' by (simp add: company_chain_ok_def is_chain_valid_iff successively_append_iff)
      then show ?thesis
        using company_add.IH c' inc p by (simp add: company_chain_ok_def is_chain_valid_iff)
    qed
  qed
  then show "company_chain_ok E c" and "readable E k (blocks c)" and "company_increasing (blocks c)"
    and "cbl_op_code (hd (blocks c)) = C_Create" by blast+
qed

lemma reachable_refines:
  assumes "company_reachable P E k c"
  shows "is_authorized_signatory E c n k = Ok (n \<in> authorised E k (blocks c))"
    and "num_authorized_signers E c k = Ok (card (authorised E k (blocks c)))"
  using is_authorized_refines num_authorized_refines company_reachable_ok(2,3) [OF assms] by blast+

text \<open>Only authorised signatories change the company, sign its bills, invite and remove.\<close>

lemma company_signer_authorised:
  assumes reach: "company_reachable P E k c" and acc: "company_accepted P E k c b c'"
    and op: "cbl_op_code b \<in> {C_Update, C_InviteSignatory, C_RemoveSignatory, C_SignCompanyBill}"
  shows "\<exists>v. company_verify_and_get_signer E b k = Ok v \<and> vgs_signer v \<in> authorised E k (blocks c) \<and>
           company_verify_signer E b (vgs_signer v) k = Ok True"
  using acc
proof (rule company_accepted_facts)
  fix v
  assume v: "company_verify_and_get_signer E b k = Ok v"
    and val: "validate_company_action E
       \<lparr>cva_blockchain = c, cva_company_id = cbl_company_id b, cva_signer_node_id = vgs_signer v,
        cva_op = cbl_op_code b, cva_company_keys = k, cva_invitee = vgs_invitee v,
        cva_removee = vgs_removee v, cva_identity_proof_data = vgs_identity_proof_data v\<rparr> = Ok ()"
  from val op have "is_authorized_signatory E c (vgs_signer v) k = Ok True"
    by (auto simp: validate_company_action_def check_authorized_signatory_def company_err_def and_then_eq_Ok
        split: if_splits)
  moreover obtain p where "company_verify_signer E b (vgs_signer v) k = Ok True"
    using company_signer_payload [OF v] by blast
  ultimately show ?thesis using v reachable_refines(1) [OF reach] by auto
qed

text \<open>The last authorised signatory cannot be removed.\<close>

lemma company_removal_leaves_one:
  assumes reach: "company_reachable P E k c" and acc: "company_accepted P E k c b c'"
    and n: "removes E k n b" "n \<in> authorised E k (blocks c)"
  shows "\<exists>m \<in> authorised E k (blocks c). m \<noteq> n"
  using acc
proof (rule company_accepted_facts)
  fix v
  assume v: "company_verify_and_get_signer E b k = Ok v"
    and val: "validate_company_action E
       \<lparr>cva_blockchain = c, cva_company_id = cbl_company_id b, cva_signer_node_id = vgs_signer v,
        cva_op = cbl_op_code b, cva_company_keys = k, cva_invitee = vgs_invitee v,
        cva_removee = vgs_removee v, cva_identity_proof_data = vgs_identity_proof_data v\<rparr> = Ok ()"
  let ?S = "authorised E k (blocks c)"
  obtain p where p: "get_block_data E b k = Ok p" "v = company_signer_data b p"
    using company_signer_payload [OF v] by blast
  have r: "vgs_removee v = Some n" using n(1) p by (auto simp: removes_def company_signer_data_def)
  have "check_can_be_removed E \<lparr>cva_blockchain = c, cva_company_id = cbl_company_id b,
      cva_signer_node_id = vgs_signer v, cva_op = cbl_op_code b, cva_company_keys = k,
      cva_invitee = vgs_invitee v, cva_removee = vgs_removee v,
      cva_identity_proof_data = vgs_identity_proof_data v\<rparr> n = Ok ()"
    using val removes_op_code [OF n(1)] by (simp add: validate_company_action_def r)
  then have "card ?S \<noteq> 1"
    using n(2) by (simp add: check_can_be_removed_def company_err_def and_then_eq_Ok reachable_refines [OF reach]) blast
  then have "\<not> ?S \<subseteq> {n}" using n(2) by (metis card_1_singleton_iff One_nat_def subset_singletonD empty_iff)
  then show ?thesis by blast
qed

lemma company_keeps_authorised:
  assumes reach: "company_reachable P E k c" and acc: "company_accepted P E k c b c'"
    and ne: "authorised E k (blocks c) \<noteq> {}"
  shows "authorised E k (blocks c') \<noteq> {}"
proof -
  have c': "blocks c' = blocks c @ [b]" using acc by (rule company_accepted_facts) simp
  show ?thesis
  proof (cases "\<exists>n \<in> authorised E k (blocks c). removes E k n b")
    case True
    then obtain n where n: "removes E k n b" "n \<in> authorised E k (blocks c)" by blast
    from company_removal_leaves_one [OF reach acc n] obtain m
      where m: "m \<in> authorised E k (blocks c)" "m \<noteq> n" by blast
    have "\<not> removes E k m b" using n(1) m(2) by (auto simp: removes_def)
    with m(1) show ?thesis by (auto simp: c' auth_step_def)
  next
    case False
    with ne show ?thesis by (auto simp: c' auth_step_def)
  qed
qed

section \<open>Removed signatories\<close>

text \<open>
  After its removal a node is no authorised, accepted or invited signatory, and can be invited again.
  The creator's case compares with \<^verbatim>\<open>BlockId::first()\<close>, so the chain has to start with this id.
\<close>

lemma is_creator_reachable:
  assumes "company_reachable P E k c"
  shows "\<exists>r. is_creator E c n k = Ok r"
proof -
  from company_reachable_ok [OF assms] obtain h t where h: "blocks c = h # t" by (cases "blocks c") (auto simp: company_chain_ok_def)
  with company_reachable_ok(2) [OF assms] obtain p where "get_block_data E h k = Ok p" by auto
  then show ?thesis by (cases p) (auto simp: is_creator_def get_first_block_def h)
qed

lemma removed_has_no_rights:
  assumes reach: "company_reachable P E k c" and bs: "blocks c = bs @ [b]" and rem: "removes E k n b"
    and first: "cbl_id (hd (blocks c)) = bid_first"
  shows "is_authorized_signatory E c n k = Ok False" "is_invited E c n k = Ok False"
    "is_accepted_but_not_identified_signatory E c n k = Ok False" "can_be_invited E c n k = Ok True"
proof -
  note ok = company_reachable_ok [OF reach]
  have op: "cbl_op_code b = C_RemoveSignatory" by (rule removes_op_code [OF rem])
  have ne: "bs \<noteq> []" using ok(4) op by (auto simp: bs)
  have after: "cbl_id a < cbl_id b" if "a \<in> set (blocks c)" "a \<noteq> b" for a
    using ok(3) that by (auto simp: bs company_increasing_def sorted_wrt_append)
  have removed: "was_removed_after_block E c n i k = Ok True" if "i < cbl_id b" for i
    using that rem bs by (auto simp: was_removed_Ok [OF ok(2)])
  have first_b: "bid_first < cbl_id b"
    using after [of "hd (blocks c)"] ne first ok(4) op by (cases "hd bs = b") (auto simp: bs)
  obtain creator where creator: "is_creator E c n k = Ok creator" using is_creator_reachable [OF reach] by blast
  have signed: "cbl_id a < cbl_id b" if "last_signed c n op = Some a" "op \<noteq> C_RemoveSignatory" for a op
    using that op by (auto simp: last_signed_def dest!: rfind_SomeD intro!: after)
  have invited: "cbl_id a < cbl_id b" if "rfind (invites E k n) (blocks c) = Some a" for a
    using that rem by (auto dest!: rfind_SomeD intro!: after simp: invites_def removes_def)
  show "is_authorized_signatory E c n k = Ok False"
    using signed removed by (auto simp: is_authorized_signatory_def split: option.split)
  show "is_invited E c n k = Ok False"
    using invited removed by (auto simp: is_invited_def last_invite_Ok [OF ok(2)] split: option.split)
  show "is_accepted_but_not_identified_signatory E c n k = Ok False"
    using signed removed creator removed [OF first_b]
    by (auto simp: is_accepted_but_not_identified_signatory_def split: option.split)
  show "can_be_invited E c n k = Ok True"
    using invited removed creator removed [OF first_b]
    by (auto simp: can_be_invited_def last_invite_Ok [OF ok(2)] split: option.split)
qed

section \<open>Identity proofs\<close>

text \<open>
  The validation of an identity proof checks who it is for, but not the outcome of its signature
  check: a proof that no key of the witness signed is accepted.
\<close>

lemma company_identity_proof_Ok:
  assumes "eip_node_id data = cva_signer_node_id d" and "eip_company_node_id data = Some (cva_company_id d)"
    and "identity_proof_verify (cenv_ext E) proof data = Ok r"
  shows "check_company_identity_proof E d (proof, data, None) = Ok ()"
  using assms by (simp add: check_company_identity_proof_def)

text \<open>
  The block of an identity proof names a signatory. It is accepted from whoever the payload names and signed, with any
  signatory named in the block, and the right goes to the latter.
\<close>

lemma identity_proof_authorises_named:
  assumes reach: "company_reachable P E k c"
    and link: "linked (company_ops E) (cenv_ext E) (last (blocks c)) b" "cbl_id (last (blocks c)) < cbl_id b"
    and data: "get_block_data E b k = Ok (CP_IdentityProof p)" "cip_reference_block p = None"
      "eip_company_node_id (cip_data p) = Some (cbl_company_id b)"
      "identity_proof_verify (cenv_ext E) (cip_proof p) (cip_data p) = Ok r"
    and signer: "company_verify_signer E b (eip_node_id (cip_data p)) k = Ok True"
      "check_accepted_or_authorized E \<lparr>cva_blockchain = c, cva_company_id = cbl_company_id b,
         cva_signer_node_id = eip_node_id (cip_data p), cva_op = C_IdentityProof, cva_company_keys = k, cva_invitee = None,
         cva_removee = None, cva_identity_proof_data = Some (cip_proof p, cip_data p, None)\<rparr> = Ok ()"
  shows "company_accepted P E k c b (c\<lparr>blocks := blocks c @ [b]\<rparr>)"
    and "\<exists>v. company_verify_and_get_signer E b k = Ok v \<and> vgs_signer v = eip_node_id (cip_data p)"
    and "is_authorized_signatory E (c\<lparr>blocks := blocks c @ [b]\<rparr>) n k =
         Ok (n = cbl_signatory_node_id b \<or> n \<in> authorised E k (blocks c))"
proof -
  let ?c = "c\<lparr>blocks := blocks c @ [b]\<rparr>"
  have op: "cbl_op_code b = C_IdentityProof" using payload_op_code [OF data(1)] by simp
  have v: "company_verify_and_get_signer E b k = Ok (company_signer_data b (CP_IdentityProof p))"
    using data signer(1) by (simp add: company_verify_and_get_signer_def company_signer_data_def)
  then show "\<exists>v. company_verify_and_get_signer E b k = Ok v \<and> vgs_signer v = eip_node_id (cip_data p)"
    by (simp add: company_signer_data_def)
  have ne: "blocks c \<noteq> []" using company_reachable_ok(1) [OF reach] by (simp add: company_chain_ok_def)
  have "check_company_identity_proof E \<lparr>cva_blockchain = c, cva_company_id = cbl_company_id b,
         cva_signer_node_id = eip_node_id (cip_data p), cva_op = C_IdentityProof, cva_company_keys = k, cva_invitee = None,
         cva_removee = None, cva_identity_proof_data = Some (cip_proof p, cip_data p, None)\<rparr>
         (cip_proof p, cip_data p, None) = Ok ()"
    by (rule company_identity_proof_Ok [OF _ _ data(4)]) (simp_all add: data(3))
  with signer(2) v have after: "validate_company_block_after_add P E c b k = Ok True"
    by (simp add: validate_company_block_after_add_def company_signer_data_def op data(2) validate_company_action_def)
  have "try_add_block (company_ops E) (cenv_ext E) c b = Ok (True, ?c)"
    using link(1) ne by (simp add: try_add_block_iff)
  with after link(2) ne show acc: "company_accepted P E k c b ?c"
    by (simp add: company_accepted_def validate_company_block_for_chain_def get_latest_block_def last_opt_def leD)
  from reachable_refines(1) [OF company_add [OF reach acc], of n] op
  show "is_authorized_signatory E ?c n k = Ok (n = cbl_signatory_node_id b \<or> n \<in> authorised E k (blocks c))"
    by (simp add: auth_step_def)
qed

end
