(* ===== verification/Identity_Props.thy ===== *)
theory Identity_Props
  imports Chain_Processors Bill_Block
begin

text \<open>
  The identity chain: a block that was created with the keys of the identity links to its predecessor,
  verifies and decrypts back to its payload; on the chains that the processor accepts, every block is
  signed with the identity's key, belongs to its creator, and the operations reserved for identified
  users come only after an identity proof.
\<close>

section \<open>The block type\<close>

interpretation identity_block: block_contract "identity_ops E" for E
  by unfold_locales (auto simp: identity_ops_def identity_block_data_to_hash_def)

lemma identity_ops_sel [simp]:
  "blk_id (identity_ops E) = ibl_id" "blk_timestamp (identity_ops E) = ibl_timestamp"
  "blk_op_code (identity_ops E) = ibl_op_code" "blk_hash (identity_ops E) = ibl_hash"
  "blk_previous_hash (identity_ops E) = ibl_previous_hash" "blk_signature (identity_ops E) = ibl_signature"
  "blk_public_key (identity_ops E) = ibl_public_key" "blk_validate (identity_ops E) = (\<lambda>_. True)"
  "blk_data_to_hash (identity_ops E) = identity_block_data_to_hash"
  "blk_hash_codec (identity_ops E) = ic_data_to_hash E"
  by (simp_all add: identity_ops_def)

section \<open>Created blocks\<close>

lemma identity_block_new_Ok:
  assumes "identity_block_new E i ph data op k ts pth = Ok b"
  shows "ibl_id b = i \<and> ibl_previous_hash b = ph \<and> ibl_data b = data \<and> ibl_op_code b = op \<and>
         ibl_timestamp b = ts \<and> ibl_plaintext_hash b = pth \<and> ibl_public_key b = pub_key (ienv_ext E) k \<and>
         sig_sign (ienv_ext E) (ibl_hash b) (get_private_key (ienv_ext E) k) = Ok (ibl_signature b) \<and>
         validate_hash (identity_ops E) (ienv_ext E) b = Ok True"
  using assms by (auto simp: identity_block_new_def Let_def and_then_eq_Ok validate_hash_Ok
      identity_block_data_to_hash_def)

lemma identity_block_new_verifies:
  assumes laws: "secp_laws (ienv_ext E)" and keys: "keys_wf (ienv_ext E) k"
    and new: "identity_block_new E i ph data op k ts pth = Ok b"
  shows "sig_verify (ienv_ext E) (ibl_signature b) (ibl_hash b) (pub_key (ienv_ext E) k) = Ok True"
    and "blk_verify (identity_ops E) (ienv_ext E) b = Ok True"
proof -
  from identity_block_new_Ok [OF new]
  show v: "sig_verify (ienv_ext E) (ibl_signature b) (ibl_hash b) (pub_key (ienv_ext E) k) = Ok True"
    unfolding pub_key_pk_of [OF keys] by (intro sig_sign_verifies [OF laws]) simp
  then show "blk_verify (identity_ops E) (ienv_ext E) b = Ok True"
    using identity_block_new_Ok [OF new] by (simp add: blk_verify_Ok)
qed

lemma identity_created_block:
  assumes laws: "secp_laws (ienv_ext E)" "ecies_law (ienv_ext E)" and keys: "keys_wf (ienv_ext E) k"
    and new: "identity_encrypt_data_create_block_and_validate E C prev d k ts op = Ok b"
  obtains bs where "to_vec C d = Inr bs" "identity_get_decrypted_block_bytes E b k = Ok bs"
    "identity_validate_plaintext_hash E b (get_private_key (ienv_ext E) k)"
    "linked (identity_ops E) (ienv_ext E) prev b" "identity_verify_sig E b k = Ok True" "ibl_op_code b = op"
proof -
  let ?X = "ienv_ext E"
  from new obtain bs ct where 1: "to_vec C d = Inr bs" "x_ecies_encrypt ?X (pub_key ?X k) bs = Inr ct"
    and 2: "identity_block_new E (next_from_previous_block_id (ibl_id prev)) (ibl_hash prev) ct op k ts
              (hash_from_bytes ?X bs) = Ok b"
    and 3: "validate_with_previous (identity_ops E) ?X b prev = Ok True"
    unfolding identity_encrypt_data_create_block_and_validate_def Let_def calculate_plaintext_hash_def encrypt_ecies_def
    by (auto simp: and_then_eq_Ok split: if_splits)
  note facts = identity_block_new_Ok [OF 2]
  have dec: "x_ecies_decrypt ?X (get_private_key ?X k) ct = Inr bs"
    using laws(2) 1(2) unfolding ecies_law_def pub_key_pk_of [OF keys] by blast
  show ?thesis
    using 1 3 facts dec identity_block_new_verifies [OF laws(1) keys 2]
    by (intro that) (auto simp: identity_get_decrypted_block_bytes_def decrypt_ecies_def linked_def
        identity_validate_plaintext_hash_def identity_verify_sig_def)
qed

section \<open>Accepted chains\<close>

definition identity_accepted ::
  "ProcEnv \<Rightarrow> IdentityEnv \<Rightarrow> BcrKeys \<Rightarrow> NodeId \<Rightarrow> IdentityBlockchain \<Rightarrow> IdentityBlock \<Rightarrow> IdentityBlockchain \<Rightarrow> bool" where
  "identity_accepted P E k n c b c' \<longleftrightarrow> validate_identity_block_for_chain P E c b k n = (Ok True, c')"

text \<open>
  The first block is checked as in \<^verbatim>\<open>new_from_blocks\<close> and \<^verbatim>\<open>get_valid_chain\<close>: against its hash and the public key that
  it names itself, not against the key of the identity.
\<close>

inductive identity_reachable :: "ProcEnv \<Rightarrow> IdentityEnv \<Rightarrow> BcrKeys \<Rightarrow> NodeId \<Rightarrow> IdentityBlockchain \<Rightarrow> bool"
  for P E k n where
  identity_create: "identity_get_block_data E b k = Ok (IP_Create d) \<Longrightarrow> icr_node_id d = n \<Longrightarrow>
     blk_verify (identity_ops E) (ienv_ext E) b = Ok True \<Longrightarrow> validate_hash (identity_ops E) (ienv_ext E) b = Ok True \<Longrightarrow>
     identity_reachable P E k n \<lparr>blocks = [b]\<rparr>"
| identity_add: "identity_reachable P E k n c \<Longrightarrow> identity_accepted P E k n c b c' \<Longrightarrow>
     identity_reachable P E k n c'"

definition privileged :: "IdentityOpCode \<Rightarrow> bool" where
  "privileged op \<longleftrightarrow> op \<in> {I_SignCompanyBill, I_CreateCompany, I_InviteSignatory, I_AcceptSignatoryInvite,
     I_RejectSignatoryInvite, I_RemoveSignatory}"

lemma identity_accepted_facts:
  assumes "identity_accepted P E k n c b c'"
  obtains v where
    "linked (identity_ops E) (ienv_ext E) (last (blocks c)) b"
    "c' = c\<lparr>blocks := blocks c @ [b]\<rparr>" "blocks c \<noteq> []" "ibl_id (last (blocks c)) < ibl_id b"
    "identity_verify_and_get_signer E b k = Ok v"
    "validate_identity_action E \<lparr>iva_blockchain = c, iva_id = n, iva_op = ibl_op_code b, iva_keys = k,
        iva_identity_proof_data = ivs_identity_proof_data v\<rparr> = Ok ()"
proof -
  from assms obtain latest where l: "get_latest_block c = (Ok latest :: (IdentityBlock, TransportError) result)"
    and i: "ibl_id latest < ibl_id b"
    and add: "try_add_block (identity_ops E) (ienv_ext E) c b = Ok (True, c')"
    and after: "validate_identity_block_after_add P E c b k n = Ok True"
    by (auto simp: identity_accepted_def validate_identity_block_for_chain_def
        split: result.splits prod.splits bool.splits if_splits)
  from after obtain v where "identity_verify_and_get_signer E b k = Ok v"
    "validate_identity_action E \<lparr>iva_blockchain = c, iva_id = n, iva_op = ibl_op_code b, iva_keys = k,
        iva_identity_proof_data = ivs_identity_proof_data v\<rparr> = Ok ()"
    by (auto simp: validate_identity_block_after_add_def and_then_eq_Ok)
  with l i add show ?thesis using that by (auto simp: try_add_block_iff get_latest_block_def last_opt_def)
qed

lemma identity_signer_sig:
  "identity_verify_and_get_signer E b k = Ok v \<Longrightarrow> identity_verify_sig E b k = Ok True"
  by (auto simp: identity_verify_and_get_signer_def Let_def and_then_eq_Ok split: if_splits)

lemma privileged_needs_proof:
  assumes "validate_identity_action E d = Ok ()" and "privileged (iva_op d)"
  shows "\<exists>b \<in> set (blocks (iva_blockchain d)). ibl_op_code b = I_IdentityProof"
proof -
  from assms have "check_identified_signer E d = Ok ()"
    by (auto simp: privileged_def validate_identity_action_def)
  then show ?thesis
    by (auto simp: check_identified_signer_def identity_err_def is_identified_def and_then_eq_Ok list_ex_iff
        split: if_splits)
qed

text \<open>A block that names the key of the identity is signed with it if it verifies.\<close>

lemma identity_verify_own_key:
  assumes "blk_verify (identity_ops E) (ienv_ext E) b = Ok True" and "ibl_public_key b = pub_key (ienv_ext E) k"
  shows "identity_verify_sig E b k = Ok True"
  using assms by (simp add: identity_verify_sig_def blk_verify_Ok)

lemma identity_reachable_ok:
  assumes "identity_reachable P E k n c"
  shows "blocks c \<noteq> []" and "successively (linked (identity_ops E) (ienv_ext E)) (blocks c)"
    and "blk_verify (identity_ops E) (ienv_ext E) (hd (blocks c)) = Ok True"
    and "validate_hash (identity_ops E) (ienv_ext E) (hd (blocks c)) = Ok True"
    and "\<forall>b \<in> set (tl (blocks c)). identity_verify_sig E b k = Ok True"
    and "identity_is_creator E c n k = Ok True"
    and "preceded (\<lambda>b. privileged (ibl_op_code b)) (\<lambda>b. ibl_op_code b = I_IdentityProof) (blocks c)"
proof -
  let ?prior = "\<lambda>c. preceded (\<lambda>b. privileged (ibl_op_code b)) (\<lambda>b. ibl_op_code b = I_IdentityProof) (blocks c)"
  have "blocks c \<noteq> [] \<and> successively (linked (identity_ops E) (ienv_ext E)) (blocks c) \<and>
      blk_verify (identity_ops E) (ienv_ext E) (hd (blocks c)) = Ok True \<and>
      validate_hash (identity_ops E) (ienv_ext E) (hd (blocks c)) = Ok True \<and>
      (\<forall>b \<in> set (tl (blocks c)). identity_verify_sig E b k = Ok True) \<and> identity_is_creator E c n k = Ok True \<and> ?prior c"
    using assms
  proof induction
    case (identity_create b d)
    then have "ibl_op_code b = I_Create"
      by (cases "ibl_op_code b") (auto simp: identity_get_block_data_def and_then_eq_Ok)
    with identity_create show ?case
      by (simp add: identity_is_creator_def get_first_block_def privileged_def preceded_def)
  next
    case (identity_add c b c')
    from identity_add.hyps(2) show ?case
    proof (rule identity_accepted_facts)
      fix v
      assume l: "linked (identity_ops E) (ienv_ext E) (last (blocks c)) b"
        and c': "c' = c\<lparr>blocks := blocks c @ [b]\<rparr>" "blocks c \<noteq> []"
        and v: "identity_verify_and_get_signer E b k = Ok v"
        and val: "validate_identity_action E \<lparr>iva_blockchain = c, iva_id = n, iva_op = ibl_op_code b, iva_keys = k,
            iva_identity_proof_data = ivs_identity_proof_data v\<rparr> = Ok ()"
      have "?prior c'"
        using identity_add.IH c' privileged_needs_proof [OF val] by (auto simp: preceded_snoc)
      moreover have "get_first_block c' = (get_first_block c :: (IdentityBlock, BlockchainError) result)"
        using c' by (cases "blocks c") (simp_all add: get_first_block_def)
      ultimately show ?thesis
        using identity_add.IH l c' identity_signer_sig [OF v]
        by (auto simp: successively_append_iff identity_is_creator_def)
    qed
  qed
  then show "blocks c \<noteq> []" and "successively (linked (identity_ops E) (ienv_ext E)) (blocks c)"
    and "blk_verify (identity_ops E) (ienv_ext E) (hd (blocks c)) = Ok True"
    and "validate_hash (identity_ops E) (ienv_ext E) (hd (blocks c)) = Ok True"
    and "\<forall>b \<in> set (tl (blocks c)). identity_verify_sig E b k = Ok True"
    and "identity_is_creator E c n k = Ok True" and "?prior c" by blast+
qed

end
