(* ===== verification/Ebill_Instance.thy ===== *)
theory Ebill_Instance
  imports Bill_Lifecycle Company_Props Identity_Props
begin

text \<open>
  A concrete environment in which the hypotheses of the properties hold: simple functions for the
  hash, the curve, the cipher and the calendar that satisfy the laws the code relies on, encodings for
  the payloads, and a few blocks and chains. The witnesses of the properties evaluate on them.
\<close>

section \<open>Third-party code\<close>

definition bytes_string :: "bytes \<Rightarrow> string" where
  "bytes_string bs = map (\<lambda>w. char_of (uint w)) bs"

definition sha0 :: "bytes \<Rightarrow> bytes" where
  "sha0 bs = take 32 (bs @ replicate 32 0)"

definition from_unix0 :: "int \<Rightarrow> int option" where
  "from_unix0 t = (if min_unix \<le> t \<and> t \<le> max_unix then Some t else None)"

definition replace_time0 :: "int \<Rightarrow> nat \<Rightarrow> nat \<Rightarrow> nat \<Rightarrow> int" where
  "replace_time0 t h m s = 86400 * (t div 86400) + 3600 * int h + 60 * int m + int s"

definition parse_date0 :: "string \<Rightarrow> int option" where
  "parse_date0 s =
     (if s = ''2024-01-01'' then Some 1704067200
      else if s = ''2024-02-01'' then Some 1706745600
      else if s = ''1969-12-31'' then Some (- 86400) else None)"

definition const_codec :: "bytes \<Rightarrow> 'a \<Rightarrow> 'a Codec" where
  "const_codec bs d = \<lparr>to_vec = (\<lambda>_. Inr bs), from_slice = (\<lambda>_. Inr d)\<rparr>"

definition X0 :: Ext where
  "X0 = \<lparr>
     x_sha256 = sha0,
     x_base58_encode = bytes_string,
     x_base58_decode = (\<lambda>s. Some (string_bytes s)),
     x_ecies_encrypt = (\<lambda>_ bs. Inr bs),
     x_ecies_decrypt = (\<lambda>_ bs. Inr bs),
     x_keypair = (\<lambda>sk. sk),
     x_secret_key = (\<lambda>kp. kp),
     x_public_key = (\<lambda>kp. kp),
     x_secret_string = bytes_string,
     x_public_string = bytes_string,
     x_message = (\<lambda>d. Inr d),
     x_sign_schnorr = (\<lambda>msg kp. msg @ kp),
     x_verify_schnorr = (\<lambda>s msg pk. s = msg @ pk),
     x_signature_from_slice = (\<lambda>d. Some d),
     x_x_only = (\<lambda>pk. pk),
     x_scalar_from_key = (\<lambda>sk. sk),
     x_scalar_from_be_bytes = (\<lambda>bs. Inr bs),
     x_add_tweak = (\<lambda>a t. Inr (a @ t)),
     x_combine = (\<lambda>a b. Inr (a @ b)),
     x_combine_keys = (\<lambda>ks. Inr (concat ks)),
     x_add_exp_tweak = (\<lambda>a t. Inr (a @ t)),
     x_p2tr = (\<lambda>pk network. network @ bytes_string pk),
     x_tr_descriptor = (\<lambda>sk network. Inr (network @ bytes_string sk)),
     x_address_valid_for = (\<lambda>a network. take (length network) a = network),
     x_node_pub_key = string_bytes,
     x_node_network = (\<lambda>_. ''test''),
     x_node_new = (\<lambda>pk network. bytes_string pk),
     x_from_unix_timestamp = from_unix0,
     x_unix_timestamp = (\<lambda>t. t),
     x_replace_time = replace_time0,
     x_parse_date = parse_date0,
     x_hash_order = (\<lambda>ks. ks),
     x_error_text = (\<lambda>_. ''error''),
     x_string_codec = \<lparr>to_vec = (\<lambda>s. Inr (string_bytes s)), from_slice = (\<lambda>bs. Inr (bytes_string bs))\<rparr>,
     x_identity_proof_codec = const_codec [9]
       \<lparr>eip_node_id = ''D'', eip_company_node_id = None, eip_email = ''e'', eip_created_at = Timestamp 0\<rparr>\<rparr>"

lemma string_bytes_bytes_string [simp]: "string_bytes (bytes_string bs) = bs"
proof -
  have "(word_of_int (of_char (char_of (uint w) :: char)) :: u8) = w" for w :: u8
  proof -
    have "uint w < 2 ^ LENGTH(8)" by (rule uint_lt2p)
    then have "uint w mod 256 = uint w" by simp
    then show ?thesis by (simp add: of_char_of)
  qed
  then show ?thesis by (simp add: string_bytes_code bytes_string_def comp_def)
qed

lemma secp_laws_X0: "secp_laws X0"
  by (simp add: secp_laws_def X0_def pk_of_def)

lemma calendar_laws_X0: "calendar_laws X0"
  by (auto simp: calendar_laws_def X0_def from_unix0_def replace_time0_def split: if_splits)

lemma hash_order_laws_X0: "hash_order_laws X0"
  by (simp add: hash_order_laws_def X0_def)

lemma ecies_law_X0: "ecies_law X0"
  by (simp add: ecies_law_def X0_def)

lemma keys_wf_X0: "keys_wf X0 k"
  by (cases k) (simp add: keys_wf_def from_private_key_def get_private_key_def X0_def)

section \<open>Encoding of the block data wrapper\<close>

definition wrap_bytes :: "bytes \<Rightarrow> string option \<Rightarrow> bytes" where
  "wrap_bytes d key =
     (case key of None \<Rightarrow> 0 # d | Some s \<Rightarrow> replicate (Suc (length s)) 1 @ 0 # string_bytes s @ d)"

definition unwrap_bytes :: "bytes \<Rightarrow> bytes \<times> string option" where
  "unwrap_bytes bs =
     (let n = length (takeWhile (\<lambda>b. b = 1) bs); rest = drop (Suc n) bs in
      if n = 0 then (rest, None) else (drop (n - 1) rest, Some (bytes_string (take (n - 1) rest))))"

lemma bytes_string_string_bytes [simp]: "bytes_string (string_bytes s) = s"
proof -
  have "char_of (uint (word_of_int (of_char c) :: u8)) = c" for c
    by (simp add: uint_word_of_int)
  then show ?thesis by (simp add: string_bytes_code bytes_string_def comp_def)
qed

lemma takeWhile_ones: "takeWhile (\<lambda>b. b = 1) (replicate n 1 @ 0 # (bs :: bytes)) = replicate n 1"
  by (induction n) simp_all

lemma length_string_bytes [simp]: "length (string_bytes s) = length s"
  by (simp add: string_bytes_def)

lemma unwrap_wrap: "unwrap_bytes (wrap_bytes d key) = (d, key)"
proof (cases key)
  case None
  then show ?thesis by (simp add: unwrap_bytes_def wrap_bytes_def)
next
  case (Some s)
  let ?bs = "replicate (Suc (length s)) 1 @ 0 # string_bytes s @ d"
  have n: "length (takeWhile (\<lambda>b. b = 1) ?bs) = Suc (length s)"
    by (simp only: takeWhile_ones length_replicate)
  have rest: "drop (Suc (Suc (length s))) ?bs = string_bytes s @ d"
    by simp
  have "unwrap_bytes ?bs = (d, Some s)"
    unfolding unwrap_bytes_def Let_def n rest by simp
  then show ?thesis by (simp add: wrap_bytes_def Some)
qed

section \<open>A bill\<close>

definition person0 :: "string \<Rightarrow> BillIdentParticipantBlockData" where
  "person0 n = \<lparr>bipd_t = CT_Person, bipd_node_id = n, bipd_name = n,
     bipd_postal_address = \<lparr>pa_country = ''AT'', pa_city = ''Vienna'', pa_zip = None, pa_address = ''Street 1''\<rparr>\<rparr>"

definition proof0 :: "string \<Rightarrow> BillSignerIdentityProofBlockdata" where
  "proof0 n = \<lparr>bsip_node_id = n, bsip_company_node_id = None, bsip_email = ''e'', bsip_created_at = Timestamp 0,
     bsip_signature = SchnorrSignature ''s'', bsip_witness = ''W''\<rparr>"

definition sum0 :: Sum where
  "sum0 = \<lparr>sum_amount = 500, sum_currency = \<lparr>cur_code = ''SAT'', cur_decimals = 0\<rparr>, sum_reference_exchange_rate = rate_sat\<rparr>"

text \<open>Times: the bill is issued and matures on 2024-01-01; the deadlines lie ten days later.\<close>

definition t0 :: Timestamp where "t0 = Timestamp 1704067200"
definition deadline0 :: Timestamp where "deadline0 = Timestamp 1704931200"
definition late0 :: Timestamp where "late0 = Timestamp 1705000000"

text \<open>The payment address of a request by \<open>B\<close>: the bill key \<open>K\<close>, the key of \<open>B\<close> and the tweak.\<close>

definition address0 :: "string \<Rightarrow> string" where
  "address0 tag = ''testKB'' @ tag @ replicate (32 - length tag) (CHR 0x00)"

definition payment0 :: "string \<Rightarrow> BillPaymentBlockData" where
  "payment0 tag = \<lparr>pay_sum = sum0, pay_payment_address = address0 tag, pay_payment_deadline = deadline0\<rparr>"

definition issue0 :: BillIssueBlockData where
  "issue0 = \<lparr>iss_id = ''bill'', iss_country_of_issuing = ''AT'', iss_city_of_issuing = ''Vienna'',
     iss_drawee = person0 ''A'', iss_drawer = person0 ''D'', iss_payee = Ident (person0 ''B''), iss_sum = sum0,
     iss_maturity_date = Date ''2024-01-01'', iss_issue_date = Date ''2024-01-01'',
     iss_country_of_payment = ''AT'', iss_city_of_payment = ''Vienna'', iss_files = [], iss_signatory = None,
     iss_signing_timestamp = t0, iss_signing_address = bipd_postal_address (person0 ''D''),
     iss_signer_identity_proof = proof0 ''D''\<rparr>"

definition E0 :: BillEnv where
  "E0 = \<lparr>env_ext = X0,
     c_issue = const_codec [] issue0,
     c_endorse = const_codec [] \<lparr>end_endorser = Ident (person0 ''B''), end_endorsee = Ident (person0 ''C''),
       end_signatory = None, end_signing_timestamp = t0, end_signing_address = None, end_signer_identity_proof = None\<rparr>,
     c_mint = const_codec [] \<lparr>mnt_endorser = Ident (person0 ''B''), mnt_endorsee = Ident (person0 ''M''), mnt_sum = sum0,
       mnt_signatory = None, mnt_signing_timestamp = t0, mnt_signing_address = None, mnt_signer_identity_proof = None\<rparr>,
     c_request_to_accept = const_codec [] \<lparr>rta_requester = Ident (person0 ''B''), rta_signatory = None,
       rta_signing_timestamp = t0, rta_signing_address = None, rta_signer_identity_proof = None,
       rta_acceptance_deadline_timestamp = deadline0\<rparr>,
     c_accept = const_codec [] \<lparr>acc_accepter = person0 ''A'', acc_signatory = None, acc_signing_timestamp = t0,
       acc_signing_address = bipd_postal_address (person0 ''A''), acc_signer_identity_proof = proof0 ''A''\<rparr>,
     c_request_to_pay = const_codec [] \<lparr>rtp_requester = Ident (person0 ''B''),
       rtp_payment_data = payment0 ''bcr/request-to-pay/v1'', rtp_signatory = None,
       rtp_signing_timestamp = t0, rtp_signing_address = None, rtp_signer_identity_proof = None\<rparr>,
     c_offer_to_sell = const_codec [] \<lparr>ots_seller = Ident (person0 ''B''), ots_buyer = Ident (person0 ''C''),
       ots_payment_data = payment0 ''bcr/offer-to-sell/v1'', ots_signatory = None, ots_signing_timestamp = t0,
       ots_signing_address = None, ots_signer_identity_proof = None\<rparr>,
     c_sell = const_codec [] \<lparr>sel_seller = Ident (person0 ''B''), sel_buyer = Ident (person0 ''C''), sel_signatory = None,
       sel_signing_timestamp = t0, sel_signing_address = None, sel_signer_identity_proof = None\<rparr>,
     c_reject = const_codec [] \<lparr>rej_rejecter = person0 ''A'', rej_signatory = None, rej_signing_timestamp = t0,
       rej_signing_address = bipd_postal_address (person0 ''A''), rej_signer_identity_proof = proof0 ''A''\<rparr>,
     c_reject_to_buy = const_codec [] \<lparr>rjb_rejecter = Ident (person0 ''C''), rjb_signatory = None,
       rjb_signing_timestamp = t0, rjb_signing_address = None, rjb_signer_identity_proof = None\<rparr>,
     c_request_recourse = const_codec [] \<lparr>rrc_recourser = Ident (person0 ''B''), rrc_recoursee = person0 ''D'',
       rrc_payment_data = payment0 ''bcr/request-recourse/v1'', rrc_recourse_reason = BRR_Accept, rrc_signatory = None,
       rrc_signing_timestamp = t0, rrc_signing_address = None, rrc_signer_identity_proof = None\<rparr>,
     c_recourse = const_codec [] \<lparr>rec_recourser = Ident (person0 ''B''), rec_recoursee = person0 ''D'', rec_signatory = None,
       rec_signing_timestamp = t0, rec_signing_address = None, rec_signer_identity_proof = None\<rparr>,
     c_block_data = \<lparr>to_vec = (\<lambda>w. Inr (wrap_bytes (bbd_data w) (bbd_key w))),
       from_slice = (\<lambda>bs. case unwrap_bytes bs of (d, key) \<Rightarrow> Inr \<lparr>bbd_data = d, bbd_key = key\<rparr>)\<rparr>,
     c_data_to_hash = \<lparr>to_vec = (\<lambda>d. Inr [ucast (bid_inner (bdh_id d))]), from_slice = (\<lambda>_. Inl ''none'')\<rparr>\<rparr>"

definition P0 :: ProcEnv where
  "P0 = \<lparr>proc_bill = E0, proc_bitcoin_network = ''test'', proc_mint_url = ''mint'',
     proc_validate_mint_address = (\<lambda>_ _ _ _ _. Inr ()), proc_crypto_text = (\<lambda>_. ''crypto''),
     proc_validation_text = (\<lambda>_. ''validation''), proc_transport_text = (\<lambda>_. ''transport'')\<rparr>"

definition key0 :: "char \<Rightarrow> BcrKeys" where
  "key0 n = \<lparr>keys_inner = string_bytes [n]\<rparr>"

abbreviation bill_key0 :: BcrKeys where
  "bill_key0 \<equiv> key0 (CHR ''K'')"

text \<open>Block \<open>i\<close> of the bill, signed by the node with the given letter.\<close>

definition block0 :: "u64 \<Rightarrow> BillOpCode \<Rightarrow> char \<Rightarrow> Timestamp \<Rightarrow> BillBlock" where
  "block0 i op n ts = \<lparr>bbl_bill_id = ''bill'', bbl_id = BlockId i, bbl_plaintext_hash = hash_from_bytes X0 [],
     bbl_hash = hash_from_bytes X0 [ucast i], bbl_previous_hash = hash_from_bytes X0 [ucast (i - 1)],
     bbl_timestamp = ts, bbl_data = [0], bbl_public_key = string_bytes [n, CHR ''K''],
     bbl_signature = SchnorrSignature (bytes_string (sha0 [ucast i] @ string_bytes [n, CHR ''K''])), bbl_op_code = op\<rparr>"

text \<open>Hashes that depend on the bill as well.\<close>

definition E3 :: BillEnv where
  "E3 = E0\<lparr>c_data_to_hash := \<lparr>to_vec = (\<lambda>d. Inr (ucast (bid_inner (bdh_id d)) # string_bytes (bdh_bill_id d))),
     from_slice = (\<lambda>_. Inl ''none'')\<rparr>\<rparr>"

definition block3 :: "BillId \<Rightarrow> u64 \<Rightarrow> BillOpCode \<Rightarrow> char \<Rightarrow> BillBlock" where
  "block3 bill i op n =
     (let h = sha0 (ucast i # string_bytes bill); pk = string_bytes [n, CHR ''K''] in
      (block0 i op n t0)\<lparr>bbl_bill_id := bill, bbl_hash := hash_from_bytes X0 (ucast i # string_bytes bill),
        bbl_previous_hash := hash_from_bytes X0 (ucast (i - 1) # string_bytes (if i = 3 then bill else ''bill'')),
        bbl_signature := SchnorrSignature (bytes_string (h @ pk))\<rparr>)"

definition issued0 :: BillBlock where
  "issued0 = block0 1 Issue (CHR ''D'') t0"

definition run0 :: "BillBlock list \<Rightarrow> BillBlockchain" where
  "run0 bs = \<lparr>blocks = issued0 # bs\<rparr>"

definition step0 :: "BillBlock list \<Rightarrow> BillBlock \<Rightarrow> (bool, TransportError) result \<times> BillBlockchain" where
  "step0 bs b = validate_block_for_chain P0 ''bill'' (run0 bs) issue0 bill_key0 b False"

text \<open>
  Three histories: the payee \<open>B\<close> offers the bill to \<open>C\<close> and sells it; \<open>B\<close> requests acceptance, the drawee
  \<open>A\<close> rejects, and \<open>B\<close> takes recourse against the drawer \<open>D\<close>; \<open>B\<close> requests payment and \<open>A\<close> rejects.
\<close>

definition offer0 :: BillBlock where "offer0 = block0 2 OfferToSell (CHR ''B'') t0"
definition sell0 :: BillBlock where "sell0 = block0 3 Sell (CHR ''B'') t0"
definition reqacc0 :: BillBlock where "reqacc0 = block0 2 RequestToAccept (CHR ''B'') t0"
definition rejacc0 :: BillBlock where "rejacc0 = block0 3 RejectToAccept (CHR ''A'') t0"
definition reqrec0 :: BillBlock where "reqrec0 = block0 4 RequestRecourse (CHR ''B'') t0"
definition recourse0 :: BillBlock where "recourse0 = block0 5 Recourse (CHR ''B'') t0"
definition reqpay0 :: BillBlock where "reqpay0 = block0 2 RequestToPay (CHR ''B'') t0"
definition rejpay0 :: BillBlock where "rejpay0 = block0 3 RejectToPay (CHR ''A'') t0"

lemmas block0_defs = issued0_def offer0_def sell0_def reqacc0_def rejacc0_def reqrec0_def recourse0_def
  reqpay0_def rejpay0_def

lemma op_codes0 [simp]:
  "bbl_op_code issued0 = Issue" "bbl_op_code offer0 = OfferToSell" "bbl_op_code sell0 = Sell"
  "bbl_op_code reqacc0 = RequestToAccept" "bbl_op_code rejacc0 = RejectToAccept"
  "bbl_op_code reqrec0 = RequestRecourse" "bbl_op_code recourse0 = Recourse"
  "bbl_op_code reqpay0 = RequestToPay" "bbl_op_code rejpay0 = RejectToPay"
  by (simp_all add: block0_defs block0_def)

lemma timestamps0 [simp]:
  "bbl_timestamp issued0 = t0" "bbl_timestamp offer0 = t0" "bbl_timestamp sell0 = t0"
  "bbl_timestamp reqacc0 = t0" "bbl_timestamp rejacc0 = t0" "bbl_timestamp reqrec0 = t0"
  "bbl_timestamp recourse0 = t0" "bbl_timestamp reqpay0 = t0" "bbl_timestamp rejpay0 = t0"
  by (simp_all add: block0_defs block0_def)

lemma blocks_run0 [simp]: "blocks (run0 bs) = issued0 # bs"
  by (simp add: run0_def)

lemma proc_bill0 [simp]: "proc_bill P0 = E0"
  by (simp add: P0_def)

lemma env_ext0 [simp]: "env_ext E0 = X0"
  by (simp add: E0_def)

text \<open>All steps in one evaluation, since most of its time goes into the definitions.\<close>

lemma step_runs0:
  "step0 [] offer0 = (Ok True, run0 [offer0]) \<and>
   step0 [offer0] sell0 = (Ok True, run0 [offer0, sell0]) \<and>
   step0 [] reqacc0 = (Ok True, run0 [reqacc0]) \<and>
   step0 [reqacc0] rejacc0 = (Ok True, run0 [reqacc0, rejacc0]) \<and>
   step0 [reqacc0, rejacc0] reqrec0 = (Ok True, run0 [reqacc0, rejacc0, reqrec0]) \<and>
   step0 [reqacc0, rejacc0, reqrec0] recourse0 = (Ok True, run0 [reqacc0, rejacc0, reqrec0, recourse0]) \<and>
   step0 [] reqpay0 = (Ok True, run0 [reqpay0]) \<and>
   step0 [reqpay0] rejpay0 = (Ok True, run0 [reqpay0, rejpay0]) \<and>
   bill_chain_ok E0 (run0 []) \<and> get_decrypted_block E0 (c_issue E0) issued0 bill_key0 = Ok issue0"
  by code_simp

lemma steps0:
  "step0 [] offer0 = (Ok True, run0 [offer0])"
  "step0 [offer0] sell0 = (Ok True, run0 [offer0, sell0])"
  "step0 [] reqacc0 = (Ok True, run0 [reqacc0])"
  "step0 [reqacc0] rejacc0 = (Ok True, run0 [reqacc0, rejacc0])"
  "step0 [reqacc0, rejacc0] reqrec0 = (Ok True, run0 [reqacc0, rejacc0, reqrec0])"
  "step0 [reqacc0, rejacc0, reqrec0] recourse0 = (Ok True, run0 [reqacc0, rejacc0, reqrec0, recourse0])"
  "step0 [] reqpay0 = (Ok True, run0 [reqpay0])"
  "step0 [reqpay0] rejpay0 = (Ok True, run0 [reqpay0, rejpay0])"
  using step_runs0 by blast+

lemma accepted0: "step0 bs b = (Ok True, run0 bs') \<Longrightarrow> accepted P0 issue0 bill_key0 (run0 bs) b (run0 bs')"
  by (auto simp: step0_def accepted_def)

lemma reachable_issued0: "bill_reachable P0 issue0 bill_key0 (run0 [])"
proof -
  have ok: "bill_chain_ok E0 (run0 [])" and dec: "get_decrypted_block E0 (c_issue E0) issued0 bill_key0 = Ok issue0"
    using step_runs0 by blast+
  then show ?thesis unfolding run0_def by (intro reach_issue) simp_all
qed

lemmas reachable_offer0 = reach_block [OF reachable_issued0 accepted0 [OF steps0(1)]]
lemmas reachable_sell0 = reach_block [OF reachable_offer0 accepted0 [OF steps0(2)]]
lemmas reachable_reqacc0 = reach_block [OF reachable_issued0 accepted0 [OF steps0(3)]]
lemmas reachable_rejacc0 = reach_block [OF reachable_reqacc0 accepted0 [OF steps0(4)]]
lemmas reachable_reqrec0 = reach_block [OF reachable_rejacc0 accepted0 [OF steps0(5)]]
lemmas reachable_recourse0 = reach_block [OF reachable_reqrec0 accepted0 [OF steps0(6)]]
lemmas reachable_reqpay0 = reach_block [OF reachable_issued0 accepted0 [OF steps0(7)]]
lemmas reachable_rejpay0 = reach_block [OF reachable_reqpay0 accepted0 [OF steps0(8)]]

lemma hashes0:
  "calculate_hash X0 (c_data_to_hash E0) (get_block_data_to_hash (block0 i op n t)) = Ok (hash_from_bytes X0 [ucast i])"
  by (simp add: calculate_hash_def E0_def get_block_data_to_hash_def block0_def)

lemma hash_byte0: "hash_from_bytes X0 [a] = hash_from_bytes X0 [b] \<longleftrightarrow> a = b"
proof
  assume "hash_from_bytes X0 [a] = hash_from_bytes X0 [b]"
  then have "bytes_string (sha0 [a]) = bytes_string (sha0 [b])" by (simp add: hash_from_bytes_def X0_def)
  then have "sha0 [a] = sha0 [b]" by (metis string_bytes_bytes_string)
  then show "a = b" by (simp add: sha0_def)
qed simp

section \<open>A company\<close>

text \<open>
  The company \<open>co\<close> with the keys of \<open>K\<close>: created by \<open>D\<close>, who proves an identity and invites \<open>C\<close>; \<open>C\<close> accepts,
  proves an identity and removes \<open>D\<close>. The signatures of the identity proofs are not valid ones.
\<close>

definition sha1 :: "bytes \<Rightarrow> bytes" where
  "sha1 bs = take 1 (bs @ [0])"

text \<open>The same environment with a one byte hash, which evaluates faster.\<close>

definition X1 :: Ext where
  "X1 = X0\<lparr>x_sha256 := sha1\<rparr>"

lemma laws_X1: "secp_laws X1" "ecies_law X1" "keys_wf X1 k"
  using secp_laws_X0 ecies_law_X0 keys_wf_X0 [of k]
  by (simp_all add: X1_def secp_laws_def ecies_law_def keys_wf_def pk_of_def [abs_def] from_private_key_def
      get_private_key_def)

definition proof_data0 :: "string \<Rightarrow> string option \<Rightarrow> EmailIdentityProofData" where
  "proof_data0 n company = \<lparr>eip_node_id = n, eip_company_node_id = company, eip_email = ''e'', eip_created_at = Timestamp 0\<rparr>"

definition signed_proof0 :: SignedIdentityProof where
  "signed_proof0 = \<lparr>sip_signature = SchnorrSignature ''s'', sip_witness = ''W''\<rparr>"

definition company_proof0 :: "string \<Rightarrow> CompanyIdentityProofBlockData" where
  "company_proof0 n = \<lparr>cip_proof = signed_proof0, cip_data = proof_data0 n (Some ''co''), cip_reference_block = None\<rparr>"

definition company0 :: CompanyCreateBlockData where
  "company0 = \<lparr>ccr_id = ''co'', ccr_name = ''Co'', ccr_country_of_registration = None,
     ccr_city_of_registration = None, ccr_postal_address = bipd_postal_address (person0 ''co''), ccr_email = ''e'',
     ccr_registration_number = None, ccr_registration_date = None, ccr_proof_of_registration_file = None,
     ccr_logo_file = None, ccr_creation_time = t0, ccr_creator = ''D''\<rparr>"

definition CE0 :: CompanyEnv where
  "CE0 = \<lparr>cenv_ext = X1,
     cc_create = const_codec [0] company0,
     cc_update = const_codec [0] \<lparr>cup_name = None, cup_email = None, cup_country = None, cup_city = None,
       cup_zip = EditIgnore, cup_address = None, cup_country_of_registration = EditIgnore,
       cup_city_of_registration = EditIgnore, cup_registration_number = EditIgnore,
       cup_registration_date = EditIgnore, cup_logo_file = EditIgnore, cup_proof_of_registration_file = EditIgnore\<rparr>,
     cc_sign_company_bill = const_codec [0] \<lparr>csb_bill_id = ''bill'', csb_block_id = BlockId 1,
       csb_block_hash = Sha256Hash ''h'', csb_operation = Issue, csb_bill_key = None\<rparr>,
     cc_invite_signatory = const_codec [0] \<lparr>cis_invitee = ''C'', cis_inviter = ''D'', cis_t = Solo\<rparr>,
     cc_accept_invite = const_codec [0] \<lparr>cai_accepter = ''C''\<rparr>,
     cc_reject_invite = const_codec [0] \<lparr>cri_rejecter = ''C''\<rparr>,
     cc_remove_signatory = const_codec [0] \<lparr>crs_removee = ''D'', crs_remover = ''C''\<rparr>,
     cc_identity_proof = \<lparr>to_vec = (\<lambda>d. Inr [if eip_node_id (cip_data d) = ''D'' then 1 else 2]),
       from_slice = (\<lambda>bs. Inr (company_proof0 (if bs = [1] then ''D'' else ''C'')))\<rparr>,
     cc_block_data = \<lparr>to_vec = (\<lambda>w. Inr (wrap_bytes (cbd_data w) (cbd_key w))),
       from_slice = (\<lambda>bs. case unwrap_bytes bs of (d, key) \<Rightarrow> Inr \<lparr>cbd_data = d, cbd_key = key\<rparr>)\<rparr>,
     cc_data_to_hash = \<lparr>to_vec = (\<lambda>d. Inr [ucast (bid_inner (cdh_id d))]), from_slice = (\<lambda>_. Inl ''none'')\<rparr>\<rparr>"

definition cblock0 :: "u64 \<Rightarrow> CompanyOpCode \<Rightarrow> char \<Rightarrow> u8 \<Rightarrow> CompanyBlock" where
  "cblock0 i op n payload = \<lparr>cbl_company_id = ''co'', cbl_id = BlockId i,
     cbl_plaintext_hash = hash_from_bytes X1 [payload], cbl_hash = hash_from_bytes X1 [ucast i], cbl_timestamp = t0,
     cbl_data = [0, payload], cbl_public_key = string_bytes [n, CHR ''K''], cbl_signatory_node_id = [n],
     cbl_previous_hash = hash_from_bytes X1 [ucast (i - 1)],
     cbl_signature = SchnorrSignature (bytes_string (sha1 [ucast i] @ string_bytes [n, CHR ''K''])), cbl_op_code = op\<rparr>"

definition created0 :: CompanyBlock where "created0 = cblock0 1 C_Create (CHR ''D'') 0"
definition proved_D0 :: CompanyBlock where "proved_D0 = cblock0 2 C_IdentityProof (CHR ''D'') 1"
definition invited0 :: CompanyBlock where "invited0 = cblock0 3 C_InviteSignatory (CHR ''D'') 0"
definition accepted_C0 :: CompanyBlock where "accepted_C0 = cblock0 4 C_SignatoryAcceptInvite (CHR ''C'') 0"
definition proved_C0 :: CompanyBlock where "proved_C0 = cblock0 5 C_IdentityProof (CHR ''C'') 2"
definition removed_D0 :: CompanyBlock where "removed_D0 = cblock0 6 C_RemoveSignatory (CHR ''C'') 0"

lemmas cblock0_defs = created0_def proved_D0_def invited0_def accepted_C0_def proved_C0_def removed_D0_def

definition co0 :: "CompanyBlock list \<Rightarrow> CompanyBlockchain" where
  "co0 bs = \<lparr>blocks = created0 # bs\<rparr>"

lemma blocks_co0 [simp]: "blocks (co0 bs) = created0 # bs"
  by (simp add: co0_def)

text \<open>What the blocks read as, so that the steps evaluate by rewriting.\<close>

lemma CE0_sel:
  "cenv_ext CE0 = X1"
  "from_slice (cc_create CE0) bs = Inr company0"
  "from_slice (cc_identity_proof CE0) bs = Inr (company_proof0 (if bs = [1] then ''D'' else ''C''))"
  "from_slice (cc_invite_signatory CE0) bs = Inr \<lparr>cis_invitee = ''C'', cis_inviter = ''D'', cis_t = Solo\<rparr>"
  "from_slice (cc_accept_invite CE0) bs = Inr \<lparr>cai_accepter = ''C''\<rparr>"
  "from_slice (cc_remove_signatory CE0) bs = Inr \<lparr>crs_removee = ''D'', crs_remover = ''C''\<rparr>"
  "from_slice (cc_block_data CE0) bs = (case unwrap_bytes bs of (d, key) \<Rightarrow> Inr \<lparr>cbd_data = d, cbd_key = key\<rparr>)"
  by (simp_all add: CE0_def const_codec_def)

lemma cblock0_sel:
  "cbl_id (cblock0 i op n p) = BlockId i" "cbl_op_code (cblock0 i op n p) = op"
  "cbl_data (cblock0 i op n p) = [0, p]" "cbl_signatory_node_id (cblock0 i op n p) = [n]"
  "cbl_company_id (cblock0 i op n p) = ''co''"
  by (simp_all add: cblock0_def)

lemmas company_blocks0 = cblock0_sel [where i = 1 and op = C_Create and n = "CHR ''D''" and p = 0, folded created0_def]
  cblock0_sel [where i = 2 and op = C_IdentityProof and n = "CHR ''D''" and p = 1, folded proved_D0_def]
  cblock0_sel [where i = 3 and op = C_InviteSignatory and n = "CHR ''D''" and p = 0, folded invited0_def]
  cblock0_sel [where i = 4 and op = C_SignatoryAcceptInvite and n = "CHR ''C''" and p = 0, folded accepted_C0_def]
  cblock0_sel [where i = 5 and op = C_IdentityProof and n = "CHR ''C''" and p = 2, folded proved_C0_def]
  cblock0_sel [where i = 6 and op = C_RemoveSignatory and n = "CHR ''C''" and p = 0, folded removed_D0_def]

lemma company_bytes0: "company_get_decrypted_block_bytes CE0 (cblock0 i op n p) k = Ok [p]"
  by (simp add: company_get_decrypted_block_bytes_def CE0_sel cblock0_sel unwrap_bytes_def decrypt_ecies_def X1_def X0_def)

lemma company_data0:
  "get_block_data CE0 created0 k = Ok (CP_Create company0)"
  "get_block_data CE0 proved_D0 k = Ok (CP_IdentityProof (company_proof0 ''D''))"
  "get_block_data CE0 invited0 k = Ok (CP_InviteSignatory \<lparr>cis_invitee = ''C'', cis_inviter = ''D'', cis_t = Solo\<rparr>)"
  "get_block_data CE0 accepted_C0 k = Ok (CP_SignatoryAcceptInvite \<lparr>cai_accepter = ''C''\<rparr>)"
  "get_block_data CE0 proved_C0 k = Ok (CP_IdentityProof (company_proof0 ''C''))"
  "get_block_data CE0 removed_D0 k = Ok (CP_RemoveSignatory \<lparr>crs_removee = ''D'', crs_remover = ''C''\<rparr>)"
  by (simp_all add: cblock0_defs get_block_data_def company_bytes0 CE0_sel cblock0_sel)

lemma string_bytes_two: "string_bytes [m, n] = string_bytes [m] @ string_bytes [n]"
  by (simp add: string_bytes_def)

lemma company_signature0: "company_verify_signer CE0 (cblock0 i op n p) [n] bill_key0 = Ok True"
  by (simp add: company_verify_signer_def CE0_sel cblock0_def combine_pub_keys_def sig_verify_def hash_decode_def as_sig_def
      hash_from_bytes_def X1_def X0_def key0_def pub_key_def Let_def string_bytes_two)

lemma proof_verify0: "identity_proof_verify X1 signed_proof0 d = Ok False"
  by (simp add: identity_proof_verify_def sig_verify_def hash_decode_def as_sig_def hash_from_bytes_def signed_proof0_def
      X1_def X0_def const_codec_def sha1_def) (simp add: string_bytes_def)

lemma company_link0: "linked (company_ops CE0) X1 (cblock0 i op n p) (cblock0 (i + 1) op' n' p')"
  by (simp add: linked_iff cblock0_def validate_hash_Ok blk_verify_Ok company_ops_def CE0_def company_block_data_to_hash_def
      calculate_hash_def hash_from_bytes_def sig_verify_def hash_decode_def as_sig_def X1_def X0_def
      next_from_previous_block_id_def)

lemma company_add0:
  "try_add_block (company_ops CE0) X1 \<lparr>blocks = bs @ [cblock0 i op n p]\<rparr> (cblock0 (i + 1) op' n' p') =
     Ok (True, \<lparr>blocks = bs @ [cblock0 i op n p, cblock0 (i + 1) op' n' p']\<rparr>)"
  using company_link0 by (simp add: try_add_block_iff)

lemma company_adds0:
  "try_add_block (company_ops CE0) X1 (co0 []) proved_D0 = Ok (True, co0 [proved_D0])"
  "try_add_block (company_ops CE0) X1 (co0 [proved_D0]) invited0 = Ok (True, co0 [proved_D0, invited0])"
  "try_add_block (company_ops CE0) X1 (co0 [proved_D0, invited0]) accepted_C0 =
     Ok (True, co0 [proved_D0, invited0, accepted_C0])"
  "try_add_block (company_ops CE0) X1 (co0 [proved_D0, invited0, accepted_C0]) proved_C0 =
     Ok (True, co0 [proved_D0, invited0, accepted_C0, proved_C0])"
  "try_add_block (company_ops CE0) X1 (co0 [proved_D0, invited0, accepted_C0, proved_C0]) removed_D0 =
     Ok (True, co0 [proved_D0, invited0, accepted_C0, proved_C0, removed_D0])"
  using company_add0 [of "[]" 1] company_add0 [of "[created0]" 2] company_add0 [of "[created0, proved_D0]" 3]
    company_add0 [of "[created0, proved_D0, invited0]" 4] company_add0 [of "[created0, proved_D0, invited0, accepted_C0]" 5]
  by (simp_all add: cblock0_defs co0_def)

lemma company_signatures0:
  "company_verify_signer CE0 proved_D0 ''D'' bill_key0 = Ok True" "company_verify_signer CE0 invited0 ''D'' bill_key0 = Ok True"
  "company_verify_signer CE0 accepted_C0 ''C'' bill_key0 = Ok True" "company_verify_signer CE0 proved_C0 ''C'' bill_key0 = Ok True"
  "company_verify_signer CE0 removed_D0 ''C'' bill_key0 = Ok True"
  by (simp_all add: company_signature0 cblock0_defs)

lemmas company_eval0 = validate_company_block_for_chain_def validate_company_block_after_add_def
  company_verify_and_get_signer_def company_signer_data_def validate_company_action_def check_authorized_signatory_def
  check_accepted_or_authorized_def check_invited_def check_can_be_invited_def check_can_be_removed_def
  check_company_identity_proof_def company_err_def is_authorized_signatory_def
  is_accepted_but_not_identified_signatory_def is_invited_def can_be_invited_def can_be_removed_def
  num_authorized_signers_def was_removed_after_block_def signed_after_def last_signed_def is_creator_def
  get_first_block_def get_latest_block_def remove_signers_step_def less_BlockId_def less_eq_BlockId_def last_opt_def
  rfind_def hm_insert_def hm_remove_def bid_first_def FIRST_BLOCK_ID_def company_data0 company_signatures0
  company_blocks0 company_proof0_def proof_data0_def company0_def proof_verify0 company_adds0

lemma u64_not_le: "\<not> (2 :: u64) \<le> 1"
  by (simp add: word_le_def)

lemma company_steps0:
  "validate_company_block_for_chain P0 CE0 (co0 []) proved_D0 bill_key0 = (Ok True, co0 [proved_D0])"
  "validate_company_block_for_chain P0 CE0 (co0 [proved_D0]) invited0 bill_key0 =
     (Ok True, co0 [proved_D0, invited0])"
  "validate_company_block_for_chain P0 CE0 (co0 [proved_D0, invited0]) accepted_C0 bill_key0 =
     (Ok True, co0 [proved_D0, invited0, accepted_C0])"
  "validate_company_block_for_chain P0 CE0 (co0 [proved_D0, invited0, accepted_C0]) proved_C0 bill_key0 =
     (Ok True, co0 [proved_D0, invited0, accepted_C0, proved_C0])"
  "validate_company_block_for_chain P0 CE0 (co0 [proved_D0, invited0, accepted_C0, proved_C0]) removed_D0 bill_key0 =
     (Ok True, co0 [proved_D0, invited0, accepted_C0, proved_C0, removed_D0])"
  by (simp_all add: company_eval0 CE0_sel u64_not_le)

lemmas company_accepted0 = company_steps0 [folded company_accepted_def]

lemma company_reachable_created0: "company_reachable P0 CE0 bill_key0 (co0 [])"
proof -
  have "linked (company_ops CE0) X1 (cblock0 0 C_Create (CHR ''D'') 0) created0"
    using company_link0 [of 0] by (simp add: created0_def)
  then have "company_chain_ok CE0 (co0 [])"
    by (simp add: company_chain_ok_def is_chain_valid_iff linked_iff CE0_sel)
  then show ?thesis unfolding co0_def by (rule company_create) (rule company_data0)
qed

lemmas company_reachable1_0 = company_add [OF company_reachable_created0 company_accepted0(1)]
lemmas company_reachable2_0 = company_add [OF company_reachable1_0 company_accepted0(2)]
lemmas company_reachable3_0 = company_add [OF company_reachable2_0 company_accepted0(3)]
lemmas company_reachable4_0 = company_add [OF company_reachable3_0 company_accepted0(4)]
lemmas company_reachable5_0 = company_add [OF company_reachable4_0 company_accepted0(5)]

section \<open>An identity\<close>

text \<open>The identity \<open>D\<close>: created, proved, then used to create a company.\<close>

definition IE0 :: IdentityEnv where
  "IE0 = \<lparr>ienv_ext = X1,
     ic_create = const_codec [0] \<lparr>icr_t = Identified, icr_node_id = ''D'', icr_name = ''D'', icr_email = Some ''e'',
       icr_postal_address = opa_empty, icr_date_of_birth = None, icr_city_of_birth = None, icr_country_of_birth = None,
       icr_identification_number = None, icr_nostr_relays = [], icr_profile_picture_file = None,
       icr_identity_document_file = None\<rparr>,
     ic_update = const_codec [0] \<lparr>iup_t = None, iup_name = None, iup_email = None, iup_country = None, iup_city = None,
       iup_zip = EditIgnore, iup_address = None, iup_date_of_birth = EditIgnore, iup_country_of_birth = EditIgnore,
       iup_city_of_birth = EditIgnore, iup_identification_number = EditIgnore,
       iup_profile_picture_file = EditIgnore, iup_identity_document_file = EditIgnore\<rparr>,
     ic_sign_person_bill = const_codec [0] \<lparr>isp_bill_id = ''bill'', isp_block_id = BlockId 1,
       isp_block_hash = Sha256Hash ''h'', isp_operation = Issue, isp_bill_key = None\<rparr>,
     ic_sign_company_bill = const_codec [0] \<lparr>isc_bill_id = ''bill'', isc_block_id = BlockId 1,
       isc_block_hash = Sha256Hash ''h'', isc_company_id = ''co'', isc_operation = Issue\<rparr>,
     ic_create_company = const_codec [0] \<lparr>icc_company_id = ''co'', icc_company_key = [75],
       icc_block_hash = Sha256Hash ''h''\<rparr>,
     ic_invite_signatory = const_codec [0] \<lparr>iis_company_id = ''co'', iis_block_id = BlockId 1,
       iis_block_hash = Sha256Hash ''h'', iis_signatory = ''C''\<rparr>,
     ic_accept_signatory_invite = const_codec [0] \<lparr>iai_company_id = ''co'', iai_block_id = BlockId 1,
       iai_block_hash = Sha256Hash ''h''\<rparr>,
     ic_reject_signatory_invite = const_codec [0] \<lparr>iri_company_id = ''co'', iri_block_id = BlockId 1,
       iri_block_hash = Sha256Hash ''h''\<rparr>,
     ic_remove_signatory = const_codec [0] \<lparr>irs_company_id = ''co'', irs_block_id = BlockId 1,
       irs_block_hash = Sha256Hash ''h'', irs_signatory = ''C''\<rparr>,
     ic_identity_proof = const_codec [0] \<lparr>ipr_proof = signed_proof0, ipr_data = proof_data0 ''D'' None\<rparr>,
     ic_data_to_hash = \<lparr>to_vec = (\<lambda>d. Inr [ucast (bid_inner (idh_id d))]), from_slice = (\<lambda>_. Inl ''none'')\<rparr>\<rparr>"

definition iblock0 :: "u64 \<Rightarrow> IdentityOpCode \<Rightarrow> IdentityBlock" where
  "iblock0 i op = \<lparr>ibl_id = BlockId i, ibl_plaintext_hash = hash_from_bytes X1 [0],
     ibl_hash = hash_from_bytes X1 [ucast i], ibl_timestamp = t0, ibl_data = [0],
     ibl_public_key = string_bytes ''D'', ibl_previous_hash = hash_from_bytes X1 [ucast (i - 1)],
     ibl_signature = SchnorrSignature (bytes_string (sha1 [ucast i] @ string_bytes ''D'')), ibl_op_code = op\<rparr>"

definition id0 :: "IdentityBlock list \<Rightarrow> IdentityBlockchain" where
  "id0 bs = \<lparr>blocks = iblock0 1 I_Create # bs\<rparr>"

abbreviation id_key0 :: BcrKeys where
  "id_key0 \<equiv> key0 (CHR ''D'')"

lemma identity_runs0:
  "(validate_identity_block_for_chain P0 IE0 (id0 []) (iblock0 2 I_IdentityProof) id_key0 ''D'' =
     (Ok True, id0 [iblock0 2 I_IdentityProof])) \<and>
   (validate_identity_block_for_chain P0 IE0 (id0 [iblock0 2 I_IdentityProof]) (iblock0 3 I_CreateCompany) id_key0 ''D'' =
     (Ok True, id0 [iblock0 2 I_IdentityProof, iblock0 3 I_CreateCompany])) \<and>
   (case identity_get_block_data IE0 (iblock0 1 I_Create) id_key0 of Ok (IP_Create d) \<Rightarrow> icr_node_id d = ''D'' | _ \<Rightarrow> False) \<and>
   blk_verify (identity_ops IE0) X1 (iblock0 1 I_Create) = Ok True \<and>
   validate_hash (identity_ops IE0) X1 (iblock0 1 I_Create) = Ok True"
  by code_simp

lemma identity_steps0:
  "validate_identity_block_for_chain P0 IE0 (id0 []) (iblock0 2 I_IdentityProof) id_key0 ''D'' =
     (Ok True, id0 [iblock0 2 I_IdentityProof])"
  "validate_identity_block_for_chain P0 IE0 (id0 [iblock0 2 I_IdentityProof]) (iblock0 3 I_CreateCompany) id_key0 ''D'' =
     (Ok True, id0 [iblock0 2 I_IdentityProof, iblock0 3 I_CreateCompany])"
  using identity_runs0 by blast+

lemmas identity_accepted0 = identity_steps0 [folded identity_accepted_def]

lemma identity_reachable_created0: "identity_reachable P0 IE0 id_key0 ''D'' (id0 [])"
proof -
  from identity_runs0 obtain d where "identity_get_block_data IE0 (iblock0 1 I_Create) id_key0 = Ok (IP_Create d)" "icr_node_id d = ''D''"
    by (auto split: result.splits IdentityBlockPayload.splits)
  moreover have "blk_verify (identity_ops IE0) (ienv_ext IE0) (iblock0 1 I_Create) = Ok True"
    "validate_hash (identity_ops IE0) (ienv_ext IE0) (iblock0 1 I_Create) = Ok True"
    using identity_runs0 by (simp_all add: IE0_def)
  ultimately show ?thesis unfolding id0_def by (intro identity_create)
qed

lemmas identity_reachable1_0 = identity_add [OF identity_reachable_created0 identity_accepted0(1)]
lemmas identity_reachable2_0 = identity_add [OF identity_reachable1_0 identity_accepted0(2)]

end
