(* ===== verification/Properties_Bill.thy ===== *)
theory Properties_Bill
  imports Ebill_Instance
begin

text \<open>
  The properties of bills: what the processor admits over the life of a bill, who signs, which
  requests block a bill, what a sale and a recourse have to match, and what the readers of a chain
  return. Each property is followed by its instance on the chains of \<^verbatim>\<open>Ebill_Instance\<close>.
\<close>

lemma action_data_for_sel [simp]:
  "bva_bill_keys (action_data_for c parties first k b signer is_paid a) = k"
  "bva_timestamp (action_data_for c parties first k b signer is_paid a) = bbl_timestamp b"
  "bva_signer_node_id (action_data_for c parties first k b signer is_paid a) = signer"
  "bva_mode (action_data_for c parties first k b signer is_paid a) = Deep a"
  "bva_blockchain (action_data_for c parties first k b signer is_paid a) = c"
  "bill_action (action_data_for c parties first k b signer is_paid a) = action_op_code a"
  by (simp_all add: action_data_for_def bill_action_def)

section \<open>The life of a bill\<close>

text \<open>
  C1. On every chain that grows from an issue block by blocks the processor accepts, the pairing of
  requests with their answers never fails: every offer to sell and every request for recourse is in
  exactly one pair, in order, and every answer answers exactly one request.
\<close>

theorem requests_are_paired:
  assumes "bill_reachable P first k c"
  shows "\<exists>ps qs. sell_pairs None [] (blocks c) = Ok ps \<and> map fst ps = filter is_offer (blocks c) \<and>
           List.map_filter snd ps = filter is_offer_answer (blocks c) \<and>
           recourse_pairs None [] (blocks c) = Ok qs \<and> map fst qs = filter is_recourse_request (blocks c) \<and>
           List.map_filter snd qs = filter is_recourse_answer (blocks c)"
  using reachable_pairs [OF assms] by blast

theorem requests_are_paired_witness:
  "bill_reachable P0 issue0 bill_key0 (run0 [offer0, sell0]) \<and>
   (\<exists>ps. sell_pairs None [] [issued0, offer0, sell0] = Ok ps \<and> map fst ps = [offer0] \<and>
         List.map_filter snd ps = [sell0])"
  using requests_are_paired [OF reachable_sell0] reachable_sell0 by auto

text \<open>
  C2. After the drawee has rejected acceptance or payment, the only blocks the processor still accepts
  are a request for recourse, a recourse and the rejection of a recourse payment.
\<close>

theorem only_recourse_after_rejection:
  assumes "bill_reachable P first k c" and "blocks c = ys @ r # zs"
    and "bbl_op_code r \<in> {RejectToAccept, RejectToPay}" and "z \<in> set zs"
  shows "bbl_op_code z \<in> {RequestRecourse, Recourse, RejectToPayRecourse}"
  using reachable_after_rejection [OF assms] .

theorem only_recourse_after_rejection_witness:
  "bbl_op_code reqrec0 \<in> {RequestRecourse, Recourse, RejectToPayRecourse}"
proof -
  have "blocks (run0 [reqacc0, rejacc0, reqrec0]) = [issued0, reqacc0] @ rejacc0 # [reqrec0]" by simp
  from only_recourse_after_rejection [OF reachable_reqrec0 this] show ?thesis by simp
qed

text \<open>
  C3. After a request to pay only its rejection or recourse follows, and recourse only once the request
  was rejected or its payment deadline has passed.
\<close>

theorem after_request_to_pay:
  assumes "bill_reachable P first k c" and "blocks c = ys @ r # zs" and "bbl_op_code r = RequestToPay"
    and "request_deadline (proc_bill P) r k = Some t"
  shows "(\<forall>z \<in> set zs. bbl_op_code z \<in> {RejectToPay, RequestRecourse, Recourse, RejectToPayRecourse}) \<and>
         (zs = [] \<or> (\<exists>z \<in> set zs. bbl_op_code z = RejectToPay) \<or> t < bbl_timestamp (last zs))"
  using reachable_after_pay [OF assms] by (auto simp: after_pay_ops_def)

theorem after_request_to_pay_witness:
  "request_deadline E0 reqpay0 bill_key0 = Some deadline0 \<and> bbl_op_code rejpay0 \<in>
     {RejectToPay, RequestRecourse, Recourse, RejectToPayRecourse}"
proof -
  have bs: "blocks (run0 [reqpay0, rejpay0]) = [issued0] @ reqpay0 # [rejpay0]" by simp
  have t: "request_deadline (proc_bill P0) reqpay0 bill_key0 = Some deadline0" by code_simp
  from after_request_to_pay [OF reachable_rejpay0 bs _ t] t show ?thesis by simp
qed

text \<open>
  C4. A bill is issued once, by its first block, and at most one block of each of these kinds is ever
  accepted: request to accept, accept, rejection of acceptance, request to pay, rejection of payment.
\<close>

theorem happens_at_most_once:
  assumes reach: "bill_reachable P first k c"
  shows "bbl_op_code (hd (blocks c)) = Issue \<and> op_count c Issue = 1 \<and> op_count c RequestToAccept \<le> 1 \<and>
         op_count c Accept \<le> 1 \<and> op_count c RejectToAccept \<le> 1 \<and> op_count c RequestToPay \<le> 1 \<and>
         op_count c RejectToPay \<le> 1"
proof -
  have once: "op_count c op \<le> 1" if "op \<in> {Accept, RequestToAccept, RejectToAccept, RejectToPay}" for op
    by (rule reachable_at_most_once [OF reach]) (use that in \<open>auto dest: validated_first_time\<close>)
  obtain h t where bs: "blocks c = h # t"
    using reachable_ok(1) [OF reach] by (cases "blocks c") (auto simp: bill_chain_ok_def)
  have "op_count c Issue = 1"
    using reachable_ok(4) [OF reach] by (simp add: op_count_def bs filter_empty_conv)
  then show ?thesis using reachable_ok(4) [OF reach] once reachable_request_to_pay_once [OF reach] by simp
qed

theorem happens_at_most_once_witness:
  "op_count (run0 [reqacc0, rejacc0, reqrec0]) RejectToAccept \<le> 1 \<and> op_count (run0 [reqacc0, rejacc0, reqrec0]) Issue = 1"
  using happens_at_most_once [OF reachable_reqrec0] by simp

section \<open>Who signs\<close>

text \<open>
  C5. Every accepted block carries a signature that verifies under the combined key of its signer and
  the bill; actions of the holder are signed by the holder according to the chain, actions of the
  drawee by the drawee of the issue block.
\<close>

theorem accepted_block_signer:
  assumes "bill_reachable P first k c" and "accepted P first k c b c'"
  shows "\<exists>signer a signatory data.
           verify_and_get_signer (proc_bill P) b k = Ok (signer, Some a) \<and> action_op_code a = bbl_op_code b \<and>
           signer_from_block (proc_bill P) b k = Ok (signer, signatory, Some a, data) \<and>
           verify_signer (proc_bill P) b signer (map_option bsd_node_id signatory) k = Ok True \<and>
           (bbl_op_code b \<in> holder_actions \<longrightarrow>
              (\<forall>h. current_holder (proc_bill P) first k c = Some h \<longrightarrow> signer = h)) \<and>
           (bbl_op_code b \<in> drawee_actions \<longrightarrow> signer = bipd_node_id (iss_drawee first))"
  using assms(2)
proof (rule accepted_facts)
  fix signer a
  assume a: "action_op_code a = bbl_op_code b" and s: "verify_and_get_signer (proc_bill P) b k = Ok (signer, Some a)"
  from s obtain signatory data where "signer_from_block (proc_bill P) b k = Ok (signer, signatory, Some a, data)"
    "verify_signer (proc_bill P) b signer (map_option bsd_node_id signatory) k = Ok True"
    by (auto simp: verify_and_get_signer_def and_then_eq_Ok split: if_splits option.splits prod.splits result.splits)
  with a s accepted_signed_by_role [OF assms s] show ?thesis by blast
qed

theorem accepted_block_signer_witness:
  "\<exists>signer a. verify_and_get_signer E0 sell0 bill_key0 = Ok (signer, Some a) \<and>
     (\<forall>h. current_holder E0 issue0 bill_key0 (run0 [offer0]) = Some h \<longrightarrow> signer = h)"
  using accepted_block_signer [OF reachable_offer0 accepted0 [OF steps0(2)]]
  by (auto simp: holder_actions_def)

section \<open>Requests and their answers\<close>



text \<open>
  C7. An accepted sale directly follows an offer to sell to the same buyer by the same seller, and an
  accepted recourse directly follows a request for recourse by the same recourser against the same
  party; both carry a timestamp within the payment deadline of the request.
\<close>

theorem answers_match_request:
  assumes reach: "bill_reachable P first k c" and acc: "accepted P first k c b c'"
    and s: "verify_and_get_signer (proc_bill P) b k = Ok (signer, Some a)"
  shows "(\<forall>buyer. a = A_Sell buyer \<longrightarrow> bbl_op_code (last (blocks c)) = OfferToSell \<and>
            (\<exists>d. get_decrypted_block (proc_bill P) (c_offer_to_sell (proc_bill P)) (last (blocks c)) k = Ok d \<and>
               bpd_node_id (ots_buyer d) = bp_node_id buyer \<and> bpd_node_id (ots_seller d) = signer \<and>
               bbl_timestamp b \<le> pay_payment_deadline (ots_payment_data d))) \<and>
         (\<forall>recoursee. a = A_Recourse recoursee \<longrightarrow> bbl_op_code (last (blocks c)) = RequestRecourse \<and>
            (\<exists>d. get_decrypted_block (proc_bill P) (c_request_recourse (proc_bill P)) (last (blocks c)) k = Ok d \<and>
               bipd_node_id (rrc_recoursee d) = bip_node_id recoursee \<and> bpd_node_id (rrc_recourser d) = signer \<and>
               bbl_timestamp b \<le> pay_payment_deadline (rrc_payment_data d)))"
  using acc
proof (rule accepted_facts)
  fix signer' a' parties is_paid
  assume ne: "blocks c \<noteq> []" and s': "verify_and_get_signer (proc_bill P) b k = Ok (signer', Some a')"
    and v: "validate_action (proc_bill P) (action_data_for c parties first k b signer' is_paid a') = Ok ()"
  let ?d = "action_data_for c parties first k b signer is_paid a"
  have eq: "signer' = signer" "a' = a" using s s' by simp_all
  have deep: "deep_at (proc_bill P) ?d (last (blocks c))"
    using reachable_ok(2) [OF reach] ne by (auto simp: deep_at_def intro: append_butlast_last_id [symmetric])
  have val: "validate_action (proc_bill P) ?d = Ok ()" using v eq by simp
  show ?thesis
    using sell_matches_offer [OF deep val] recourse_matches_request [OF deep val] answer_follows_request [OF deep val]
    by (auto simp: action_op_code_def)
qed

theorem answers_match_request_witness:
  "\<exists>signer d. verify_and_get_signer E0 sell0 bill_key0 = Ok (signer, Some (A_Sell (P_Ident (ident_from_block_data (person0 ''C''))))) \<and>
     get_decrypted_block E0 (c_offer_to_sell E0) offer0 bill_key0 = Ok d \<and> bpd_node_id (ots_buyer d) = ''C'' \<and>
     bpd_node_id (ots_seller d) = signer"
proof -
  have v: "verify_and_get_signer (proc_bill P0) sell0 bill_key0 =
      Ok (''B'', Some (A_Sell (P_Ident (ident_from_block_data (person0 ''C'')))))" by code_simp
  show ?thesis
    using answers_match_request [OF reachable_offer0 accepted0 [OF steps0(2)] v] v
    by (auto simp: bp_node_id_def ident_from_block_data_def person0_def)
qed

text \<open>
  C8. The payment address of an accepted offer to sell is the address of the key that the seller
  derives from the bill key and his own key to spend the payment.
\<close>

theorem offer_address_is_spendable:
  assumes "secp_laws (env_ext (proc_bill P))"
    and "validate_block_for_chain P bill_id c first k b is_paid = (Ok True, c')"
    and "bbl_op_code b = OfferToSell"
    and "get_decrypted_block (proc_bill P) (c_offer_to_sell (proc_bill P)) b k = Ok d"
    and "verify_and_get_signer (proc_bill P) b k = Ok (signer, a)"
    and "keys_wf (env_ext (proc_bill P)) k" and "keys_wf (env_ext (proc_bill P)) ck"
    and "x_node_pub_key (env_ext (proc_bill P)) signer = pub_key (env_ext (proc_bill P)) ck"
    and "calculate_tweak_hash_for_payment_request (env_ext (proc_bill P)) OfferToSell (bbl_id b) (bbl_previous_hash b) = Ok tw"
    and "combined_private_key (env_ext (proc_bill P)) (get_private_key (env_ext (proc_bill P)) k)
       (get_private_key (env_ext (proc_bill P)) ck) tw = Ok sk"
  shows "pay_payment_address (ots_payment_data d) =
    x_p2tr (env_ext (proc_bill P)) (x_x_only (env_ext (proc_bill P)) (pk_of (env_ext (proc_bill P)) sk)) (proc_bitcoin_network P)"
  using accepted_offer_address [OF assms] .

theorem offer_address_is_spendable_witness:
  "\<exists>d sk. get_decrypted_block E0 (c_offer_to_sell E0) offer0 bill_key0 = Ok d \<and>
     pay_payment_address (ots_payment_data d) = x_p2tr X0 (x_x_only X0 (pk_of X0 sk)) ''test''"
proof -
  let ?tw = "Sha256Hash (bytes_string (sha0 (string_bytes ''bcr/offer-to-sell/v1'')))"
  have dec: "get_decrypted_block (proc_bill P0) (c_offer_to_sell (proc_bill P0)) offer0 bill_key0 =
      Ok \<lparr>ots_seller = Ident (person0 ''B''), ots_buyer = Ident (person0 ''C''),
       ots_payment_data = payment0 ''bcr/offer-to-sell/v1'', ots_signatory = None, ots_signing_timestamp = t0,
       ots_signing_address = None, ots_signer_identity_proof = None\<rparr>" (is "_ = Ok ?d") by code_simp
  have "(case verify_and_get_signer (proc_bill P0) offer0 bill_key0 of Ok (n, _) \<Rightarrow> n = ''B'' | _ \<Rightarrow> False)"
    by code_simp
  then obtain a where s: "verify_and_get_signer (proc_bill P0) offer0 bill_key0 = Ok (''B'', a)"
    by (auto split: result.splits prod.splits)
  have tw: "calculate_tweak_hash_for_payment_request X0 OfferToSell (bbl_id offer0) (bbl_previous_hash offer0) = Ok ?tw"
    by code_simp
  have key: "combined_private_key X0 (get_private_key X0 bill_key0) (get_private_key X0 (key0 (CHR ''B''))) ?tw =
      Ok ([75, 66] @ sha0 (string_bytes ''bcr/offer-to-sell/v1''))" by code_simp
  have pk: "x_node_pub_key X0 ''B'' = pub_key X0 (key0 (CHR ''B''))"
    by (simp add: X0_def pub_key_def key0_def)
  show ?thesis
    using offer_address_is_spendable [of P0 "''bill''" "run0 []" issue0 bill_key0 offer0 False "run0 [offer0]" ?d "''B''" a
      "key0 (CHR ''B'')" ?tw "[75, 66] @ sha0 (string_bytes ''bcr/offer-to-sell/v1'')"]
      secp_laws_X0 steps0(1) dec s keys_wf_X0 pk tw key
    by (auto simp: step0_def P0_def)
qed

section \<open>Recourse\<close>

text \<open>
  C9. An accepted request for recourse is directed against a party that the holder may take recourse
  against: the drawer or an identified holder from before the signer first held the bill, but neither
  the signer nor the drawee.
\<close>

theorem recourse_only_against_predecessors:
  assumes order: "hash_order_laws (env_ext (proc_bill P))"
    and reach: "bill_reachable P first k c" and acc: "accepted P first k c b c'"
    and s: "verify_and_get_signer (proc_bill P) b k = Ok (signer, Some (A_RequestRecourse recoursee reason deadline))"
  shows "bip_node_id recoursee \<in> recourse_parties signer first (holders_before_recourse (proc_bill P) c k)"
  using acc
proof (rule accepted_facts)
  fix signer' a parties is_paid
  assume s': "verify_and_get_signer (proc_bill P) b k = Ok (signer', Some a)"
    and v: "validate_action (proc_bill P) (action_data_for c parties first k b signer' is_paid a) = Ok ()"
  have eq: "signer' = signer" "a = A_RequestRecourse recoursee reason deadline" using s s' by simp_all
  show ?thesis using request_recourse_admissible [OF order v] reachable_ok(3) [OF reach] by (simp add: eq)
qed

theorem recourse_only_against_predecessors_witness:
  "''D'' \<in> recourse_parties ''B'' issue0 (holders_before_recourse E0 (run0 [reqacc0, rejacc0]) bill_key0)"
proof -
  have "(case verify_and_get_signer E0 reqrec0 bill_key0 of
      Ok (n, Some (A_RequestRecourse r _ _)) \<Rightarrow> n = ''B'' \<and> bip_node_id r = ''D'' | _ \<Rightarrow> False)" by code_simp
  then obtain r reason t where s: "verify_and_get_signer (proc_bill P0) reqrec0 bill_key0 =
      Ok (''B'', Some (A_RequestRecourse r reason t))" and r: "bip_node_id r = ''D''"
    by (auto split: result.splits prod.splits option.splits BillAction.splits)
  from recourse_only_against_predecessors [OF _ reachable_rejacc0 accepted0 [OF steps0(5)] s] hash_order_laws_X0 r
  show ?thesis by simp
qed

text \<open>
  C10. An accepted request for recourse has a ground: recourse for missing acceptance needs a rejection
  of acceptance or an expired request to accept, recourse for missing payment needs a request to pay
  that was rejected or has expired.
\<close>

theorem recourse_has_ground:
  assumes acc: "accepted P first k c b c'"
    and s: "verify_and_get_signer (proc_bill P) b k = Ok (signer, Some (A_RequestRecourse recoursee reason deadline))"
  shows "case reason of
      RR_Accept \<Rightarrow> bill_op_exists (proc_bill P) c RejectToAccept \<or>
        (\<exists>r t. bill_last_with_op (proc_bill P) c RequestToAccept = Some r \<and>
               is_req_to_accept_block_expired (proc_bill P) r k (bbl_timestamp b) = Ok (True, t))
    | RR_Pay _ \<Rightarrow> \<exists>r. bill_last_with_op (proc_bill P) c RequestToPay = Some r \<and>
        (bill_op_exists (proc_bill P) c RejectToPay \<or>
         (\<exists>t. is_req_to_pay_block_payment_expired (proc_bill P) r k (bbl_timestamp b) = Ok (True, t)))"
  using acc
proof (rule accepted_facts)
  fix signer' a parties is_paid
  assume s': "verify_and_get_signer (proc_bill P) b k = Ok (signer', Some a)"
    and v: "validate_action (proc_bill P) (action_data_for c parties first k b signer' is_paid a) = Ok ()"
  have eq: "a = A_RequestRecourse recoursee reason deadline" using s s' by simp
  show ?thesis using request_recourse_reason [OF v]
    by (auto simp: eq op_exists_def req_to_accept_expired_def req_to_pay_expired_def and_then_eq_Ok
        action_data_for_def split: RecourseReason.splits)
qed

theorem recourse_has_ground_witness:
  "bill_op_exists E0 (run0 [reqacc0, rejacc0]) RejectToAccept \<or>
   (\<exists>r t. bill_last_with_op E0 (run0 [reqacc0, rejacc0]) RequestToAccept = Some r \<and>
      is_req_to_accept_block_expired E0 r bill_key0 (bbl_timestamp reqrec0) = Ok (True, t))"
proof -
  have "(case verify_and_get_signer E0 reqrec0 bill_key0 of
      Ok (n, Some (A_RequestRecourse _ RR_Accept _)) \<Rightarrow> True | _ \<Rightarrow> False)" by code_simp
  then obtain n r t where "verify_and_get_signer (proc_bill P0) reqrec0 bill_key0 =
      Ok (n, Some (A_RequestRecourse r RR_Accept t))"
    by (auto split: result.splits prod.splits option.splits BillAction.splits RecourseReason.splits)
  from recourse_has_ground [OF accepted0 [OF steps0(5)] this] show ?thesis by simp
qed

section \<open>The two modes of validation\<close>

text \<open>
  C11. The shallow validation, which works on precomputed answers, never refuses an action that the
  validation against the chain admits, and apart from requests for recourse, recourses and sales the two
  give the same result, error included.
\<close>

theorem shallow_validation_is_complete:
  assumes "shallow_agrees E d a s"
  shows "(validate_action E (d\<lparr>bva_mode := Deep a\<rparr>) = Ok () \<longrightarrow> validate_action E (d\<lparr>bva_mode := Shallow s\<rparr>) = Ok ()) \<and>
         (action_op_code a \<notin> {RequestRecourse, Recourse, Sell} \<longrightarrow>
            validate_action E (d\<lparr>bva_mode := Shallow s\<rparr>) = validate_action E (d\<lparr>bva_mode := Deep a\<rparr>))"
  using deep_implies_shallow [OF assms] shallow_validation_agrees [OF assms] by blast

definition shallow_data0 :: BillValidateActionData where
  "shallow_data0 = \<lparr>bva_blockchain = run0 [], bva_drawee_node_id = ''A'', bva_payee_node_id = ''B'',
     bva_endorsee_node_id = None, bva_maturity_date = Date ''2024-01-01'', bva_bill_keys = bill_key0,
     bva_timestamp = t0, bva_signer_node_id = ''A'', bva_is_paid = False, bva_mode = Deep A_Accept\<rparr>"

definition shallow0 :: BillShallowValidationData where
  "shallow0 = \<lparr>bsv_bill_action = Accept, bsv_is_waiting_for_req_to_pay = False,
     bsv_waiting_for_recourse_payment = RCW_No, bsv_waiting_for_offer_to_sell = OTS_No,
     bsv_is_req_to_pay_expired = False, bsv_is_req_to_accept_expired = False, bsv_past_endorsees = [],
     bsv_recourse_reason = None\<rparr>"

lemma shallow_agrees0: "shallow_agrees E0 shallow_data0 A_Accept shallow0"
  unfolding shallow_agrees_def Let_def
proof (intro conjI)
  show "bill_waiting_for_req_to_pay E0 (shallow_data0\<lparr>bva_mode := Deep A_Accept\<rparr>) =
      reject_if (bsv_is_waiting_for_req_to_pay shallow0) BillIsRequestedToPayAndWaitingForPayment"
    by code_simp
  show "waiting_for_recourse_payment E0 (shallow_data0\<lparr>bva_mode := Deep A_Accept\<rparr>) =
      Ok (bsv_waiting_for_recourse_payment shallow0)" by code_simp
  show "waiting_for_offer_to_sell E0 (shallow_data0\<lparr>bva_mode := Deep A_Accept\<rparr>) =
      Ok (bsv_waiting_for_offer_to_sell shallow0)" by code_simp
  show "past_endorsees E0 (shallow_data0\<lparr>bva_mode := Deep A_Accept\<rparr>) = Ok (bsv_past_endorsees shallow0)" by code_simp
qed (simp_all add: shallow0_def shallow_data0_def action_op_code_def req_to_recourse_reason_def
    get_last_version_block_with_op_code_def rfind_def)

theorem shallow_validation_is_complete_witness:
  "validate_action E0 (shallow_data0\<lparr>bva_mode := Shallow shallow0\<rparr>) =
   validate_action E0 (shallow_data0\<lparr>bva_mode := Deep A_Accept\<rparr>)"
  using shallow_validation_is_complete [OF shallow_agrees0] by (simp add: action_op_code_def)

end
