(* ===== verification/Properties_Readers.thy ===== *)
theory Properties_Readers
  imports Ebill_Instance
begin

text \<open>
  What the readers of a bill chain return: the parties and the holder, the parties that recourse may be
  taken against, the nodes that take part in a bill, the chain with its plaintext data, and the bill as
  it is shared with an external party.
\<close>

section \<open>Holders\<close>

text \<open>
  C12. On every chain the processor builds, the endorsee among the parties of a bill is the holder that
  the last block that changes the holder names, and there is none before such a block; the check for
  a mint as holder finds a mint exactly if that block is a mint block.
\<close>

theorem last_holder_block_decides:
  assumes reach: "bill_reachable P first k c" and p: "get_bill_parties (proc_bill P) c k first = Ok p"
  shows "bps_endorsee p = (case rfind changes_holder (blocks c) of
           None \<Rightarrow> None
         | Some b \<Rightarrow> map_option hfb_holder (ok_some (get_holder_from_block (proc_bill P) b k))) \<and>
         holder_is_mint (proc_bill P) c k = (case rfind changes_holder (blocks c) of
           Some b \<Rightarrow> if bbl_op_code b = Mint
                     then and_then (get_decrypted_block (proc_bill P) (c_mint (proc_bill P)) b k)
                            (\<lambda>d. Ok (Some (participant_from_block_data (mnt_endorsee d))))
                     else Ok None
         | None \<Rightarrow> Ok None)"
  using bill_parties_holder [OF reachable_ok(2) [OF reach] p] holder_is_mint_iff [OF reachable_ok(2) [OF reach]]
  by blast

theorem last_holder_block_decides_witness:
  "\<exists>p. get_bill_parties E0 (run0 [offer0, sell0]) bill_key0 issue0 = Ok p \<and>
     bps_endorsee p = map_option hfb_holder (ok_some (get_holder_from_block E0 sell0 bill_key0)) \<and>
     holder_is_mint E0 (run0 [offer0, sell0]) bill_key0 = Ok None"
proof -
  have "(case get_bill_parties E0 (run0 [offer0, sell0]) bill_key0 issue0 of Ok _ \<Rightarrow> True | _ \<Rightarrow> False)" by code_simp
  then obtain p where p: "get_bill_parties (proc_bill P0) (run0 [offer0, sell0]) bill_key0 issue0 = Ok p"
    by (auto split: result.splits)
  have "rfind changes_holder (blocks (run0 [offer0, sell0])) = Some sell0" by (simp add: rfind_def)
  with last_holder_block_decides [OF reachable_sell0 p] p show ?thesis by simp
qed

text \<open>
  C13. The parties that a node may take recourse against are, each once and the latest first, the
  drawer and the identified holders from before the node first became holder, without the node itself
  and without the drawee; a node that never was holder, and the drawee, get nobody.
\<close>

theorem past_endorsees_are_predecessors:
  assumes order: "hash_order_laws (env_ext E)" and bill: "get_first_version_bill E c k = Ok bill"
    and es: "get_past_endorsees_for_bill E c k caller = Ok es"
  shows "set (map endorsee_node es) = recourse_parties caller bill (holders_before_recourse E c k) \<and>
         distinct (map endorsee_node es) \<and>
         sorted_wrt (\<lambda>a b. pe_signing_timestamp b \<le> pe_signing_timestamp a) es"
  using past_endorsees_spec [OF assms] by blast

theorem past_endorsees_are_predecessors_witness:
  "\<exists>es. get_past_endorsees_for_bill E0 (run0 [offer0, sell0]) bill_key0 ''C'' = Ok es \<and>
     set (map endorsee_node es) = {''D'', ''B''} \<and>
     set (map endorsee_node es) = recourse_parties ''C'' issue0 (holders_before_recourse E0 (run0 [offer0, sell0]) bill_key0)"
proof -
  have "(case get_past_endorsees_for_bill E0 (run0 [offer0, sell0]) bill_key0 ''C'' of
      Ok es \<Rightarrow> set (map endorsee_node es) = {''D'', ''B''} | _ \<Rightarrow> False)" by code_simp
  then obtain es where es: "get_past_endorsees_for_bill E0 (run0 [offer0, sell0]) bill_key0 ''C'' = Ok es"
    and set: "set (map endorsee_node es) = {''D'', ''B''}" by (auto split: result.splits)
  have "get_first_version_bill E0 (run0 [offer0, sell0]) bill_key0 = Ok issue0"
    using reachable_ok(3) [OF reachable_sell0] by simp
  with past_endorsees_are_predecessors [of E0] hash_order_laws_X0 es set show ?thesis by simp
qed

section \<open>Nodes\<close>

text \<open>
  C14. The nodes of a bill are exactly those that some block names, each once, and the height a node is
  listed with is the height of the first block that names it.
\<close>

theorem nodes_of_a_bill:
  assumes order: "hash_order_laws (env_ext E)" and ns: "get_all_nodes_from_bill E c k = Ok ns"
    and m: "get_all_nodes_with_added_block_height E c k = Ok m"
  shows "distinct ns \<and> set ns = {n. \<exists>b \<in> set (blocks c). node_in_block E k n b} \<and>
         (\<forall>n v. map_of m n = Some v \<longleftrightarrow>
           (\<exists>i < length (blocks c). v = i + 1 \<and> node_in_block E k n (blocks c ! i) \<and>
             (\<forall>j < i. \<not> node_in_block E k n (blocks c ! j))))"
  using all_nodes_from_bill_set [OF order ns] node_height_iff [OF m] by blast

theorem nodes_of_a_bill_witness:
  "\<exists>ns m. get_all_nodes_from_bill E0 (run0 [offer0]) bill_key0 = Ok ns \<and>
     get_all_nodes_with_added_block_height E0 (run0 [offer0]) bill_key0 = Ok m \<and> distinct ns \<and>
     set ns = {n. node_in_block E0 bill_key0 n issued0 \<or> node_in_block E0 bill_key0 n offer0} \<and> map_of m ''C'' = Some 2"
proof -
  have "(case get_all_nodes_with_added_block_height E0 (run0 [offer0]) bill_key0 of
      Ok m \<Rightarrow> map_of m ''C'' = Some 2 | _ \<Rightarrow> False)" by code_simp
  then obtain m where m: "get_all_nodes_with_added_block_height E0 (run0 [offer0]) bill_key0 = Ok m"
    and C: "map_of m ''C'' = Some 2" by (auto split: result.splits)
  then obtain ns where ns: "get_all_nodes_from_bill E0 (run0 [offer0]) bill_key0 = Ok ns"
    by (simp add: get_all_nodes_from_bill_def)
  from nodes_of_a_bill [of E0, OF _ ns m] hash_order_laws_X0 ns m C show ?thesis by simp
qed

section \<open>The chain with its plaintext data\<close>

text \<open>
  C15. Reading a chain that carries its decrypted data gives the answers that decrypting the chain with
  the key of the bill gives: the same endorsees, the same parties and, block by block, the same history.
\<close>

theorem plaintext_chain_reads_the_same:
  assumes reach: "bill_reachable P first k c" and ws: "get_chain_with_plaintext_block_data (proc_bill P) c k = Ok ws"
  shows "get_endorsees_from_chain_with_plaintext (proc_bill P) ws = get_endorsees_for_bill (proc_bill P) c k \<and>
         get_bill_parties_from_chain_with_plaintext (proc_bill P) ws = get_bill_parties (proc_bill P) c k first \<and>
         map bpw_block ws = blocks c \<and>
         map (wrapper_get_history (proc_bill P)) ws = map (\<lambda>b. get_history_from_block (proc_bill P) b k) (blocks c)"
proof -
  have "map (wrapper_get_history (proc_bill P)) ws = map (\<lambda>b. get_history_from_block (proc_bill P) b k) (blocks c)"
    using chain_with_plaintext_Ok(1) [OF ws] by (induction rule: list_all2_induct) (simp_all add: plaintext_reads)
  then show ?thesis
    using endorsees_with_plaintext [OF ws] chain_with_plaintext_Ok(2) [OF ws]
      parties_with_plaintext [OF ws reachable_ok(2) [OF reach]] reachable_ok(3,4) [OF reach] by simp
qed

lemma plaintext0:
  "get_chain_with_plaintext_block_data E0 (run0 [offer0, sell0]) bill_key0 =
     Ok (map (\<lambda>b. \<lparr>bpw_block = b, bpw_plaintext_data_bytes = []\<rparr>) [issued0, offer0, sell0])"
  by code_simp

theorem plaintext_chain_reads_the_same_witness:
  "\<exists>ws. get_chain_with_plaintext_block_data E0 (run0 [offer0, sell0]) bill_key0 = Ok ws \<and>
     get_bill_parties_from_chain_with_plaintext E0 ws = get_bill_parties E0 (run0 [offer0, sell0]) bill_key0 issue0"
  using plaintext_chain_reads_the_same [OF reachable_sell0] plaintext0 by simp

text \<open>
  C16. Whoever holds the key a bill is shared with decrypts the very chain that was shared, and the
  signature on it verifies under the key of the sharer.
\<close>

theorem shared_bill_is_readable:
  assumes laws: "secp_laws (env_ext E)" "ecies_law (env_ext E)" and keys: "keys_wf (env_ext E) sk"
    and share: "create_bill_to_share_with_external_party E C i c k (pk_of (env_ext E) rk) sk urls = Ok s"
    and ws: "get_chain_with_plaintext_block_data E c k = Ok ws" and rt: "codec_rt C ws"
  shows "get_unencrypted_data E C s rk = Ok ws \<and>
         sig_verify (env_ext E) (bts_signature s) (bts_hash s) (pub_key (env_ext E) sk) = Ok True"
proof -
  have "codec_rt C vs" if "get_chain_with_plaintext_block_data E c k = Ok vs" for vs
    using that ws rt by simp
  from shared_bill_round_trip [OF laws keys share this] ws show ?thesis by simp
qed

theorem shared_bill_is_readable_witness:
  "\<exists>s C. create_bill_to_share_with_external_party E0 C ''bill'' (run0 [offer0, sell0]) bill_key0 (pk_of X0 [82])
       (key0 (CHR ''B'')) [] = Ok s \<and>
     get_unencrypted_data E0 C s [82] = get_chain_with_plaintext_block_data E0 (run0 [offer0, sell0]) bill_key0"
proof -
  define ws where "ws = map (\<lambda>b. \<lparr>bpw_block = b, bpw_plaintext_data_bytes = []\<rparr>) [issued0, offer0, sell0]"
  define C where "C = const_codec [7] ws"
  have ws: "get_chain_with_plaintext_block_data E0 (run0 [offer0, sell0]) bill_key0 = Ok ws"
    unfolding ws_def by (rule plaintext0)
  have rt: "codec_rt C ws" by (simp add: codec_rt_def C_def const_codec_def)
  have ser: "to_vec C ws = Inr [7]" by (simp add: C_def const_codec_def)
  obtain s where s: "create_bill_to_share_with_external_party E0 C ''bill'' (run0 [offer0, sell0]) bill_key0 (pk_of X0 [82])
       (key0 (CHR ''B'')) [] = Ok s"
    by (simp add: create_bill_to_share_with_external_party_def ws ser encrypt_ecies_def sig_sign_def hash_decode_def
        hash_from_bytes_def Let_def, simp add: X0_def)
  show ?thesis
    using shared_bill_is_readable [of E0 "key0 (CHR ''B'')" C "''bill''" "run0 [offer0, sell0]" bill_key0 "[82]" "[]" s ws]
      secp_laws_X0 ecies_law_X0 keys_wf_X0 s ws rt by auto
qed

end
