(* ===== verification/Properties_Chain.thy ===== *)
theory Properties_Chain
  imports Ebill_Instance
begin

text \<open>
  The properties of blocks and chains that hold for every kind of chain: created blocks read back, are
  signed and extend the chain they were made for; chains stay valid when blocks are taken over or a fork
  is replaced; the hash of the tip fixes the chain.
\<close>

section \<open>Created blocks\<close>

text \<open>
  C17. A block that is made for the tip of a valid chain extends this chain, the chain stays valid, the
  hash of its plaintext holds, and decrypting the block with the key of the bill gives its payload back.
\<close>

theorem created_block_extends_and_reads_back:
  assumes laws: "secp_laws (env_ext E)" "ecies_law (env_ext E)" and keys: "keys_wf (env_ext E) bk"
    and wrapper: "\<And>w. codec_rt (c_block_data E) w" and payload: "codec_rt C d"
    and chain: "is_chain_valid (bill_ops E) (env_ext E) c = Ok True" "blocks c \<noteq> []"
    and new: "encrypt_data_create_block_and_validate E C bid (last (blocks c)) d ik ck bk hk ts op = Ok b"
  shows "get_decrypted_block E C b bk = Ok d \<and> validate_plaintext_hash E b (get_private_key (env_ext E) bk) \<and>
         try_add_block (bill_ops E) (env_ext E) c b = Ok (True, c\<lparr>blocks := blocks c @ [b]\<rparr>) \<and>
         is_chain_valid (bill_ops E) (env_ext E) (c\<lparr>blocks := blocks c @ [b]\<rparr>) = Ok True"
proof -
  have "linked (bill_ops E) (env_ext E) (last (blocks c)) b"
    by (rule encrypt_data_steps [OF new])
  then have add: "try_add_block (bill_ops E) (env_ext E) c b = Ok (True, c\<lparr>blocks := blocks c @ [b]\<rparr>)"
    using chain(2) by (simp add: try_add_block_iff)
  with try_add_block_valid [OF chain(1) add] created_block_decrypts [OF laws keys wrapper payload new]
  show ?thesis by blast
qed

lemma offer_created0:
  "encrypt_data_create_block_and_validate E0 (c_offer_to_sell E0) ''bill'' issued0
     (case from_slice (c_offer_to_sell E0) [] of Inr d \<Rightarrow> d)
     (key0 (CHR ''B'')) None bill_key0 None t0 OfferToSell = Ok offer0"
  by code_simp

lemma codec_rt0: "codec_rt (c_block_data E0) w" "codec_rt (const_codec bs d) d"
  by (simp_all add: codec_rt_def E0_def const_codec_def unwrap_wrap)

theorem created_block_extends_and_reads_back_witness:
  "\<exists>d. get_decrypted_block E0 (c_offer_to_sell E0) offer0 bill_key0 = Ok d \<and>
     try_add_block (bill_ops E0) X0 (run0 []) offer0 = Ok (True, run0 [offer0])"
proof -
  define d where "d = (case from_slice (c_offer_to_sell E0) [] of Inr d \<Rightarrow> d)"
  have "codec_rt (c_offer_to_sell E0) d"
    by (simp add: d_def E0_def const_codec_def codec_rt_def)
  moreover have "is_chain_valid (bill_ops E0) X0 (run0 []) = Ok True" by (simp add: is_chain_valid_iff)
  ultimately show ?thesis
    using created_block_extends_and_reads_back [of E0 bill_key0 "c_offer_to_sell E0" d "run0 []" "''bill''"
        "key0 (CHR ''B'')" None None t0 OfferToSell offer0]
      secp_laws_X0 ecies_law_X0 keys_wf_X0 codec_rt0(1) offer_created0 by (auto simp: d_def run0_def)
qed

text \<open>
  A new block that carries the next id and the hash of its predecessor is refused as successor in
  exactly one case: its timestamp lies before the timestamp of the predecessor.
\<close>

lemma new_block_refused_iff_earlier:
  assumes "secp_laws (env_ext E)"
    and "bill_block_new E bid (next_from_previous_block_id (bbl_id prev)) (bbl_hash prev) data op ik ck bk ts pth = Ok b"
  shows "validate_with_previous (bill_ops E) (env_ext E) b prev = Ok (bbl_timestamp prev \<le> ts)"
  using creation_refused_iff_too_early [OF assms] .

lemma early_block0:
  "bill_block_new E0 ''bill'' (next_from_previous_block_id (bbl_id issued0)) (bbl_hash issued0) [0] OfferToSell
     (key0 (CHR ''B'')) None bill_key0 (Timestamp 5) (hash_from_bytes X0 []) =
   Ok (block0 2 OfferToSell (CHR ''B'') (Timestamp 5))"
  by code_simp

lemma new_block_refused_iff_earlier_witness:
  "validate_with_previous (bill_ops E0) X0 (block0 2 OfferToSell (CHR ''B'') (Timestamp 5)) issued0 = Ok False"
proof -
  have "\<not> t0 \<le> Timestamp 5" by code_simp
  then show ?thesis using new_block_refused_iff_earlier [OF _ early_block0] secp_laws_X0 by simp
qed

text \<open>
  C18. A block signed with the keys of an identity, optionally of a company, and of the bill is confirmed
  for the signer and signatory with these keys, and its signature verifies under its public key.
\<close>

theorem created_block_signer_is_confirmed:
  assumes laws: "secp_laws (env_ext E)"
    and keys: "keys_wf (env_ext E) ik" "keys_wf (env_ext E) bk" "\<And>k. ck = Some k \<Longrightarrow> keys_wf (env_ext E) k"
    and new: "bill_block_new E bid i ph data op ik ck bk ts pth = Ok b"
    and signer: "map (x_node_pub_key (env_ext E)) (case signatory of Some s \<Rightarrow> [s, signer] | None \<Rightarrow> [signer]) =
                 pub_key (env_ext E) ik # (case ck of Some k \<Rightarrow> [pub_key (env_ext E) k] | None \<Rightarrow> [])"
  shows "verify_signer E b signer signatory bk = Ok True \<and> blk_verify (bill_ops E) (env_ext E) b = Ok True"
  using verify_signer_created [OF laws keys new signer] bill_block_new_verifies [OF laws new] by blast

theorem created_block_signer_is_confirmed_witness:
  "verify_signer E0 (block0 2 OfferToSell (CHR ''B'') (Timestamp 5)) ''B'' None bill_key0 = Ok True"
proof -
  have "map (x_node_pub_key X0) [''B''] = [pub_key X0 (key0 (CHR ''B''))]"
    by (simp add: X0_def pub_key_def key0_def)
  then show ?thesis
    using created_block_signer_is_confirmed [OF _ _ _ _ early_block0, where signer = "''B''" and signatory = None] secp_laws_X0 keys_wf_X0 by simp
qed

section \<open>Chains\<close>

text \<open>
  C19. Taking over blocks from another chain keeps a valid chain valid, whatever the other chain holds,
  and the chain grows by exactly the blocks that are reported, all of them blocks of the other chain.
\<close>

theorem taking_over_blocks_is_sound:
  assumes "get_blocks_to_add_from_other_chain Bl X self other = Ok (added, self')"
    and "is_chain_valid Bl X self = Ok True"
  shows "self' = self\<lparr>blocks := blocks self @ added\<rparr> \<and> set added \<subseteq> set (blocks other) \<and>
         is_chain_valid Bl X self' = Ok True"
  using get_blocks_to_add_sound [OF assms] .

text \<open>
  C20. From a valid chain that extends ours every further block is taken over, in order, as long as block
  ids do not wrap around.
\<close>

theorem taking_over_blocks_is_complete:
  assumes "is_chain_valid Bl X \<lparr>blocks = ps @ qs\<rparr> = Ok True" and "ps \<noteq> []"
    and "unat (bid_inner (blk_id Bl (hd ps))) + length (ps @ qs) < 2 ^ 64"
  shows "get_blocks_to_add_from_other_chain Bl X \<lparr>blocks = ps\<rparr> \<lparr>blocks = ps @ qs\<rparr> = Ok (qs, \<lparr>blocks = ps @ qs\<rparr>)"
  using get_blocks_to_add_complete [OF assms] .

lemma valid_sell0: "is_chain_valid (bill_ops E0) X0 \<lparr>blocks = [issued0] @ [offer0, sell0]\<rparr> = Ok True"
  using reachable_ok(1) [OF reachable_sell0] by (simp add: bill_chain_ok_def run0_def)

theorem taking_over_blocks_is_complete_witness:
  "get_blocks_to_add_from_other_chain (bill_ops E0) X0 \<lparr>blocks = [issued0]\<rparr> \<lparr>blocks = [issued0, offer0, sell0]\<rparr> =
     Ok ([offer0, sell0], \<lparr>blocks = [issued0, offer0, sell0]\<rparr>)"
  using taking_over_blocks_is_complete [OF valid_sell0] by (simp add: issued0_def block0_def)

theorem taking_over_blocks_is_sound_witness:
  "\<exists>added self'. get_blocks_to_add_from_other_chain (bill_ops E0) X0 (run0 []) (run0 [offer0, sell0]) = Ok (added, self') \<and>
     is_chain_valid (bill_ops E0) X0 self' = Ok True \<and> set added \<subseteq> {issued0, offer0, sell0}"
proof -
  have get: "get_blocks_to_add_from_other_chain (bill_ops E0) X0 (run0 []) (run0 [offer0, sell0]) =
      Ok ([offer0, sell0], run0 [offer0, sell0])"
    using get_blocks_to_add_complete [OF valid_sell0] by (simp add: issued0_def block0_def run0_def)
  have "is_chain_valid (bill_ops E0) X0 (run0 []) = Ok True" by (simp add: is_chain_valid_iff)
  with taking_over_blocks_is_sound [OF get] get show ?thesis by simp
qed

text \<open>
  C21. The hash of the tip fixes a bill chain: two valid chains of the same height and tip hash agree on the hashes of all
  blocks and on all hashed content after the first block; on the content of the first block if its hash is right in both,
  which \<open>is_chain_valid\<close> does not check, but \<open>new_from_blocks\<close> does. Blocks with right hashes do not collide.
\<close>

theorem tip_hash_fixes_bill_chain:
  assumes "is_chain_valid (bill_ops E) (env_ext E) c = Ok True" "is_chain_valid (bill_ops E) (env_ext E) d = Ok True"
    and "length (blocks c) = length (blocks d)" and "bbl_hash (last (blocks c)) = bbl_hash (last (blocks d))"
    and "\<And>b b'. b \<in> set (blocks c) \<Longrightarrow> b' \<in> set (blocks d) \<Longrightarrow>
         validate_hash (bill_ops E) (env_ext E) b = Ok True \<Longrightarrow> validate_hash (bill_ops E) (env_ext E) b' = Ok True \<Longrightarrow>
         calculate_hash (env_ext E) (c_data_to_hash E) (get_block_data_to_hash b) =
         calculate_hash (env_ext E) (c_data_to_hash E) (get_block_data_to_hash b') \<Longrightarrow>
         get_block_data_to_hash b = get_block_data_to_hash b'"
    and "i < length (blocks c)"
  shows "bbl_hash (blocks c ! i) = bbl_hash (blocks d ! i) \<and>
         (0 < i \<or> validate_hash (bill_ops E) (env_ext E) (blocks c ! 0) = Ok True \<and>
            validate_hash (bill_ops E) (env_ext E) (blocks d ! 0) = Ok True \<longrightarrow>
          get_block_data_to_hash (blocks c ! i) = get_block_data_to_hash (blocks d ! i))"
proof -
  note tip = bill_block.tip_hash_determines_chain [of E "env_ext E" "blocks c" "blocks d"]
  have links: "successively (linked (bill_ops E) (env_ext E)) (blocks c)" "successively (linked (bill_ops E) (env_ext E)) (blocks d)"
    using assms(1,2) by (simp_all add: is_chain_valid_iff)
  show ?thesis
  proof (cases i)
    case 0
    with tip(1) [of 0] tip(3) links assms show ?thesis by simp
  next
    case (Suc j)
    with tip(1) [of i] tip(2) [of j] links assms show ?thesis by simp
  qed
qed

text \<open>Two valid chains with the same tip; the first block of one of them names another bill, against its hash.\<close>

abbreviation issue3 :: BillBlock where
  "issue3 \<equiv> block3 ''bill'' 1 Issue (CHR ''D'')"

abbreviation request3 :: BillBlock where
  "request3 \<equiv> block3 ''bill'' 2 RequestToAccept (CHR ''B'')"

lemma chains3:
  "is_chain_valid (bill_ops E3) (env_ext E3) \<lparr>blocks = [issue3, request3]\<rparr> = Ok True \<and>
   is_chain_valid (bill_ops E3) (env_ext E3) \<lparr>blocks = [issue3\<lparr>bbl_bill_id := ''evil''\<rparr>, request3]\<rparr> = Ok True \<and>
   validate_hash (bill_ops E3) (env_ext E3) (issue3\<lparr>bbl_bill_id := ''evil''\<rparr>) = Ok False \<and>
   calculate_hash (env_ext E3) (c_data_to_hash E3) (get_block_data_to_hash issue3) \<noteq>
   calculate_hash (env_ext E3) (c_data_to_hash E3) (get_block_data_to_hash request3)"
  by code_simp

theorem tip_hash_fixes_bill_chain_witness:
  "is_chain_valid (bill_ops E3) (env_ext E3) \<lparr>blocks = [issue3\<lparr>bbl_bill_id := ''evil''\<rparr>, request3]\<rparr> = Ok True \<and>
   get_block_data_to_hash (issue3\<lparr>bbl_bill_id := ''evil''\<rparr>) \<noteq> get_block_data_to_hash issue3 \<and>
   bbl_hash ([issue3, request3] ! 0) = bbl_hash ([issue3\<lparr>bbl_bill_id := ''evil''\<rparr>, request3] ! 0) \<and>
   get_block_data_to_hash ([issue3, request3] ! 1) =
   get_block_data_to_hash ([issue3\<lparr>bbl_bill_id := ''evil''\<rparr>, request3] ! 1)"
proof -
  let ?c = "\<lparr>blocks = [issue3, request3]\<rparr>" and ?d = "\<lparr>blocks = [issue3\<lparr>bbl_bill_id := ''evil''\<rparr>, request3]\<rparr>"
  have content: "bbl_hash (blocks ?c ! i) = bbl_hash (blocks ?d ! i) \<and>
      (0 < i \<or> validate_hash (bill_ops E3) (env_ext E3) (blocks ?c ! 0) = Ok True \<and>
         validate_hash (bill_ops E3) (env_ext E3) (blocks ?d ! 0) = Ok True \<longrightarrow>
       get_block_data_to_hash (blocks ?c ! i) = get_block_data_to_hash (blocks ?d ! i))" if "i < 2" for i
    by (rule tip_hash_fixes_bill_chain) (use chains3 that in auto)
  have "bbl_bill_id issue3 = ''bill''" by (simp add: block3_def Let_def)
  then have "get_block_data_to_hash (issue3\<lparr>bbl_bill_id := ''evil''\<rparr>) \<noteq> get_block_data_to_hash issue3"
    by (simp add: get_block_data_to_hash_def)
  then show ?thesis using content [of 0] content [of 1] chains3 by simp
qed

section \<open>Forks\<close>

text \<open>
  C22. The preference between two chains is a strict order that decides every two chains of different
  height or different tip hash: of two nodes that exchange their chains at most one moves over to the
  other chain, and preferences never form a cycle.
\<close>

theorem fork_choice_is_a_strict_order:
  "(remote_preferred Bl a b \<longrightarrow> \<not> remote_preferred Bl b a) \<and>
   (remote_preferred Bl a b \<and> remote_preferred Bl b c \<longrightarrow> remote_preferred Bl a c) \<and>
   (a \<noteq> [] \<and> b \<noteq> [] \<and> (length a \<noteq> length b \<or> blk_hash Bl (last a) \<noteq> blk_hash Bl (last b)) \<longrightarrow>
      remote_preferred Bl a b \<or> remote_preferred Bl b a) \<and>
   (fst (resolve_fork Bl a b) \<longrightarrow> resolve_fork Bl b a = (False, None))"
  using remote_preferred_asym [of Bl a b] remote_preferred_trans [of Bl a b c] remote_preferred_total [of a b Bl]
    resolve_fork_asym [of Bl a b] by blast

text \<open>An environment whose hashes depend on id and time, and two chains that differ in their last block.\<close>

definition F0 :: BillEnv where
  "F0 = E0\<lparr>env_ext := X1\<lparr>x_sha256 := (\<lambda>bs. take 2 (bs @ [0, 0]))\<rparr>,
     c_data_to_hash := \<lparr>to_vec = (\<lambda>d. Inr [ucast (bid_inner (bdh_id d)), ucast (ts_inner (bdh_timestamp d))]),
       from_slice = (\<lambda>_. Inl ''none'')\<rparr>\<rparr>"

definition fork_chain0 :: "u64 \<Rightarrow> (BillBlockchain, BlockchainError) result" where
  "fork_chain0 t =
     and_then (bill_block_new F0 ''bill'' bid_first (Sha256Hash []) [0] Issue (key0 (CHR ''D'')) None bill_key0
       (Timestamp 1) (Sha256Hash [])) (\<lambda>b.
     and_then (bill_block_new F0 ''bill'' (BlockId 2) (bbl_hash b) [0] Endorse (key0 (CHR ''B'')) None bill_key0
       (Timestamp t) (Sha256Hash [])) (\<lambda>b'.
     Ok \<lparr>blocks = [b, b']\<rparr>))"

lemma fork0:
  "case (fork_chain0 3, fork_chain0 2) of (Ok c, Ok r) \<Rightarrow>
     resolve_fork (bill_ops F0) (blocks c) (blocks r) = (True, Some (BlockId 2)) \<and>
     is_chain_valid (bill_ops F0) (env_ext F0) c = Ok True \<and> is_chain_valid (bill_ops F0) (env_ext F0) r = Ok True \<and>
     list_all (\<lambda>a. list_all (\<lambda>b. bbl_hash a = bbl_hash b \<longrightarrow>
       bbl_timestamp a = bbl_timestamp b \<and> bbl_id a = bbl_id b) (blocks r)) (blocks c) \<and>
     length (blocks c) = 2 \<and> bbl_id (hd (blocks c)) = BlockId 1
   | _ \<Rightarrow> False"
  by code_simp

lemma fork_chains0:
  obtains c r where "fork_chain0 3 = Ok c" "fork_chain0 2 = Ok r"
    "resolve_fork (bill_ops F0) (blocks c) (blocks r) = (True, Some (BlockId 2))"
    "is_chain_valid (bill_ops F0) (env_ext F0) c = Ok True" "is_chain_valid (bill_ops F0) (env_ext F0) r = Ok True"
    "\<forall>a \<in> set (blocks c). \<forall>b \<in> set (blocks r). bbl_hash a = bbl_hash b \<longrightarrow>
       bbl_timestamp a = bbl_timestamp b \<and> bbl_id a = bbl_id b"
    "length (blocks c) = 2" "bbl_id (hd (blocks c)) = BlockId 1"
proof -
  from fork0 obtain c r where c: "fork_chain0 3 = Ok c" "fork_chain0 2 = Ok r" by (simp split: result.splits)
  show thesis by (rule that [OF c]) (use fork0 c in \<open>auto simp: list_all_iff\<close>)
qed

theorem fork_choice_is_a_strict_order_witness:
  "\<exists>c r. fork_chain0 3 = Ok c \<and> fork_chain0 2 = Ok r \<and> fst (resolve_fork (bill_ops F0) (blocks c) (blocks r)) \<and>
     resolve_fork (bill_ops F0) (blocks r) (blocks c) = (False, None)"
proof -
  obtain c r where "fork_chain0 3 = Ok c" "fork_chain0 2 = Ok r"
    "resolve_fork (bill_ops F0) (blocks c) (blocks r) = (True, Some (BlockId 2))" by (rule fork_chains0)
  with fork_choice_is_a_strict_order [of "bill_ops F0" "blocks c" "blocks r"] show ?thesis by simp
qed

text \<open>
  C23. Where a fork point is found, cutting the local chain there and appending the remote blocks from
  there on gives a valid chain with the height and the tip of the remote chain.
\<close>

theorem fork_replacement_is_valid:
  assumes "resolve_fork Bl (blocks c) (blocks r) = (True, Some i)"
    and "is_chain_valid Bl X c = Ok True" and "is_chain_valid Bl X r = Ok True"
    and "unat (bid_inner (blk_id Bl (hd (blocks c)))) + length (blocks c) \<le> 2 ^ 64"
    and "\<And>a b. a \<in> set (blocks c) \<Longrightarrow> b \<in> set (blocks r) \<Longrightarrow> blk_hash Bl a = blk_hash Bl b \<Longrightarrow>
       blk_timestamp Bl a = blk_timestamp Bl b \<and> blk_id Bl a = blk_id Bl b"
  shows "\<exists>n. blocks (truncate_from Bl c i) = take n (blocks c) \<and>
           is_chain_valid Bl X \<lparr>blocks = blocks (truncate_from Bl c i) @ drop n (blocks r)\<rparr> = Ok True \<and>
           length (blocks (truncate_from Bl c i) @ drop n (blocks r)) = length (blocks r) \<and>
           last (blocks (truncate_from Bl c i) @ drop n (blocks r)) = last (blocks r)"
  using fork_resolution_valid [OF assms] .

theorem fork_replacement_is_valid_witness:
  "\<exists>c r n. fork_chain0 3 = Ok c \<and> fork_chain0 2 = Ok r \<and>
     is_chain_valid (bill_ops F0) (env_ext F0) \<lparr>blocks = blocks (truncate_from (bill_ops F0) c (BlockId 2)) @ drop n (blocks r)\<rparr> = Ok True"
proof -
  obtain c r where c: "fork_chain0 3 = Ok c" "fork_chain0 2 = Ok r"
    and fork: "resolve_fork (bill_ops F0) (blocks c) (blocks r) = (True, Some (BlockId 2))"
    and valid: "is_chain_valid (bill_ops F0) (env_ext F0) c = Ok True" "is_chain_valid (bill_ops F0) (env_ext F0) r = Ok True"
    and same: "\<forall>a \<in> set (blocks c). \<forall>b \<in> set (blocks r). bbl_hash a = bbl_hash b \<longrightarrow>
       bbl_timestamp a = bbl_timestamp b \<and> bbl_id a = bbl_id b"
    and len: "length (blocks c) = 2" "bbl_id (hd (blocks c)) = BlockId 1" by (rule fork_chains0)
  have "unat (bid_inner (blk_id (bill_ops F0) (hd (blocks c)))) + length (blocks c) \<le> 2 ^ 64" by (simp add: len)
  from fork_replacement_is_valid [OF fork valid this] same c show ?thesis by simp blast
qed

section \<open>Deadlines and amounts\<close>

text \<open>
  C24. A request to pay passes its check exactly if its payment deadline lies at or after the end of the
  day two days after it was signed; the requests to accept and for recourse are held to the same bound.
\<close>

theorem request_deadlines_are_bounded:
  assumes laws: "calendar_laws X"
    and range: "uint (ts_inner (rtp_signing_timestamp d)) + 172800 \<le> max_unix"
      "uint (ts_inner (rta_signing_timestamp a)) + 172800 \<le> max_unix"
      "uint (ts_inner (rrc_signing_timestamp r)) + 172800 \<le> max_unix"
    and parties: "bipd_node_id (rrc_recoursee r) \<noteq> bpd_node_id (rrc_recourser r)"
  shows "(validate_request_to_pay_data X d = Ok () \<longleftrightarrow>
            86400 * ((uint (ts_inner (rtp_signing_timestamp d)) + 172800) div 86400) + 86399
              \<le> uint (ts_inner (pay_payment_deadline (rtp_payment_data d)))) \<and>
         (validate_request_to_accept_data X a = Ok () \<longleftrightarrow>
            86400 * ((uint (ts_inner (rta_signing_timestamp a)) + 172800) div 86400) + 86399
              \<le> uint (ts_inner (rta_acceptance_deadline_timestamp a))) \<and>
         (validate_request_recourse_data X r = Ok () \<longleftrightarrow>
            86400 * ((uint (ts_inner (rrc_signing_timestamp r)) + 172800) div 86400) + 86399
              \<le> uint (ts_inner (pay_payment_deadline (rrc_payment_data r))))"
proof -
  have plus: "uint (ts_inner (timestamp_add ts 172800)) = uint (ts_inner ts) + 172800"
    if "uint (ts_inner ts) + 172800 \<le> max_unix" for ts
    using that uint_timestamp_add [of ts 172800] by (simp add: max_unix_def)
  have secs: "PAYMENT_DEADLINE_SECONDS = 172800" "ACCEPT_DEADLINE_SECONDS = 172800" "RECOURSE_DEADLINE_SECONDS = 172800"
    by (simp_all add: PAYMENT_DEADLINE_SECONDS_def ACCEPT_DEADLINE_SECONDS_def RECOURSE_DEADLINE_SECONDS_def DAY_IN_SECS_def)
  have check: "deadline_is_at_or_after_end_of_day_of X (timestamp_add ts 172800) t =
      Ok (86400 * ((uint (ts_inner ts) + 172800) div 86400) + 86399 \<le> uint (ts_inner t))"
    if "uint (ts_inner ts) + 172800 \<le> max_unix" for ts t
    using deadline_check_iff [OF laws, of "timestamp_add ts 172800" t] that unfolding plus [OF that] by simp
  show ?thesis
    unfolding validate_request_to_pay_data_def validate_request_to_accept_data_def validate_request_recourse_data_def
      secs check [OF range(1)] check [OF range(2)] check [OF range(3)] using parties by simp
qed

lemma signing_range0: "uint (ts_inner t0) + 172800 \<le> max_unix"
  by (simp add: t0_def max_unix_def)

theorem request_deadlines_are_bounded_witness:
  "\<exists>d. rtp_signing_timestamp d = t0 \<and> pay_payment_deadline (rtp_payment_data d) = t0 \<and> validate_request_to_pay_data X0 d \<noteq> Ok ()"
proof -
  define d :: BillRequestToPayBlockData where "d = \<lparr>rtp_requester = Ident (person0 ''B''),
     rtp_payment_data = (payment0 [])\<lparr>pay_payment_deadline := t0\<rparr>, rtp_signatory = None,
     rtp_signing_timestamp = t0, rtp_signing_address = None, rtp_signer_identity_proof = None\<rparr>"
  define a :: BillRequestToAcceptBlockData where "a = \<lparr>rta_requester = Ident (person0 ''B''), rta_signatory = None,
     rta_signing_timestamp = t0, rta_signing_address = None, rta_signer_identity_proof = None,
     rta_acceptance_deadline_timestamp = deadline0\<rparr>"
  define r :: BillRequestRecourseBlockData where "r = \<lparr>rrc_recourser = Ident (person0 ''B''), rrc_recoursee = person0 ''D'',
     rrc_payment_data = payment0 [], rrc_recourse_reason = BRR_Accept, rrc_signatory = None,
     rrc_signing_timestamp = t0, rrc_signing_address = None, rrc_signer_identity_proof = None\<rparr>"
  have "validate_request_to_pay_data X0 d \<noteq> Ok ()"
    using request_deadlines_are_bounded [OF calendar_laws_X0, of d a r] signing_range0
    by (simp add: d_def a_def r_def person0_def t0_def)
  then show ?thesis by (intro exI [of _ d]) (simp add: d_def)
qed

text \<open>
  Reading the decimal string of an amount gives back the sum in satoshis with this amount; an amount
  of zero is refused.
\<close>

lemma sum_string_round_trip:
  "new_sat_from_str (as_sat_string s) =
     (if as_sat s = 0 then Err InvalidSum
      else Ok \<lparr>sum_amount = as_sat s, sum_currency = \<lparr>cur_code = ''SAT'', cur_decimals = 0\<rparr>,
               sum_reference_exchange_rate = rate_sat\<rparr>)"
  by (simp add: new_sat_from_str_def as_sat_string_def parse_u64_to_string new_sat_def currency_sat_Ok sum_new_def as_sat_def)

section \<open>Panics at the ends of the calendar\<close>

text \<open>
  A date before 1970 is a valid date for the code, but reading it as a timestamp panics, and with it
  the validation of a new bill that carries such an issue date.
\<close>

lemma date_before_1970_panics:
  assumes parse: "x_parse_date X s = Some t" and t: "- (2 ^ 63) \<le> t" "t < 0"
    and data: "bis_drawer_public_data data = P_Ident p" "bis_issue_date data = Date s"
  shows "date_new X s = Ok (Date s) \<and> date_to_timestamp X (Date s) = (Panic :: (Timestamp, ProtocolValidationError) result) \<and>
         validate_bill_issue X data = Panic"
proof -
  have "uint (word_of_int t :: u64) = t + 2 ^ 64"
  proof -
    have "(t + 2 ^ 64) mod 2 ^ 64 = t + 2 ^ 64" by (rule mod_pos_pos_trivial) (use t in simp_all)
    then show ?thesis by (simp add: uint_word_of_int)
  qed
  then have "timestamp_new X (word_of_int t) = Err InvalidTimestamp" using t by (simp add: timestamp_new_code)
  with parse data show ?thesis by (simp add: date_new_def date_to_timestamp_def validate_bill_issue_def)
qed

text \<open>
  A request to pay signed within the last two days that the calendar can represent makes its own
  validation panic, although its timestamp is a valid one.
\<close>

lemma late_request_to_pay_panics:
  assumes "calendar_laws X" and "ts_valid X (rtp_signing_timestamp d)"
    and "max_unix < uint (ts_inner (rtp_signing_timestamp d)) + 172800"
  shows "validate_request_to_pay_data X d = Panic"
proof -
  let ?t = "rtp_signing_timestamp d"
  have le: "uint (ts_inner ?t) \<le> max_unix" using assms(1,2) by (simp add: ts_valid_range)
  then have plus: "uint (ts_inner (timestamp_add ?t 172800)) = uint (ts_inner ?t) + 172800"
    using uint_timestamp_add [of ?t 172800] by (simp add: max_unix_def)
  have "end_of_day X (timestamp_add ?t 172800) = (Panic :: (Timestamp, ProtocolValidationError) result)"
    by (rule end_of_day_panics [OF assms(1)]) (use assms(3) le in \<open>simp_all add: plus max_unix_def\<close>)
  then show ?thesis
    by (simp add: validate_request_to_pay_data_def deadline_is_at_or_after_end_of_day_of_def PAYMENT_DEADLINE_SECONDS_def
        DAY_IN_SECS_def)
qed

lemma late_request_to_pay_panics_witness:
  "\<exists>d. rtp_signing_timestamp d = Timestamp 253402300799 \<and> validate_request_to_pay_data X0 d = Panic"
proof -
  define d :: BillRequestToPayBlockData where "d = \<lparr>rtp_requester = Ident (person0 ''B''),
     rtp_payment_data = payment0 [], rtp_signatory = None, rtp_signing_timestamp = Timestamp 253402300799,
     rtp_signing_address = None, rtp_signer_identity_proof = None\<rparr>"
  have "validate_request_to_pay_data X0 d = Panic"
    by (rule late_request_to_pay_panics [OF calendar_laws_X0])
      (simp_all add: d_def ts_valid_range [OF calendar_laws_X0] max_unix_def)
  then show ?thesis by (intro exI [of _ d]) (simp add: d_def)
qed

lemma date_before_1970_panics_witness:
  "\<exists>data. bis_issue_date data = Date ''1969-12-31'' \<and> validate_bill_issue X0 data = Panic"
proof -
  define data :: BillIssueData where "data = \<lparr>bis_t = 0, bis_country_of_issuing = ''AT'', bis_city_of_issuing = ''Vienna'',
     bis_issue_date = Date ''1969-12-31'', bis_maturity_date = Date ''2024-01-01'', bis_drawee = ''A'', bis_payee = ''B'',
     bis_sum = sum0, bis_country_of_payment = ''AT'', bis_city_of_payment = ''Vienna'', bis_file_upload_ids = [],
     bis_drawer_public_data = P_Ident (ident_from_block_data (person0 ''D'')), bis_drawer_keys = key0 (CHR ''D''),
     bis_timestamp = t0, bis_blank_issue = False\<rparr>"
  have "x_parse_date X0 ''1969-12-31'' = Some (- 86400)" by (simp add: X0_def parse_date0_def)
  from date_before_1970_panics [OF this, of data] show ?thesis by (intro exI [of _ data]) (simp add: data_def)
qed

end
