(* ===== verification/Properties_Members.thy ===== *)
theory Properties_Members
  imports Ebill_Instance
begin

text \<open>
  The properties of company and identity chains: who may act for a company, how signatories come and go,
  what an identity has to prove before it may act, and what the identity proofs are worth.
\<close>

section \<open>Signatories of a company\<close>

text \<open>
  C25. The two searches through a company chain, whether a node is an authorised signatory and how many
  there are, implement one abstract set: an identity proof adds its signatory, a removal takes the
  removed node out, all other blocks leave it alone.
\<close>

theorem signatories_refine_a_set:
  assumes "company_reachable P E k c"
  shows "is_authorized_signatory E c n k = Ok (n \<in> authorised E k (blocks c)) \<and>
         num_authorized_signers E c k = Ok (card (authorised E k (blocks c)))"
  using reachable_refines [OF assms] by blast

theorem signatories_refine_a_set_witness:
  "is_authorized_signatory CE0 (co0 [proved_D0]) ''D'' bill_key0 =
     Ok (''D'' \<in> authorised CE0 bill_key0 [created0, proved_D0]) \<and> ''D'' \<in> authorised CE0 bill_key0 [created0, proved_D0]"
  using signatories_refine_a_set [OF company_reachable1_0, of "''D''"]
  by (simp add: authorised_def auth_step_def company_blocks0)

text \<open>
  C26. A company never loses its last authorised signatory: from the first identity proof on, every chain
  the processor builds counts at least one.
\<close>

theorem company_keeps_a_signatory:
  assumes "company_reachable P E k c" and "b \<in> set (blocks c)" and "cbl_op_code b = C_IdentityProof"
  shows "\<exists>m. num_authorized_signers E c k = Ok m \<and> 1 \<le> m"
proof -
  have "authorised E k (blocks c) \<noteq> {}" using assms
  proof (induction arbitrary: b rule: company_reachable.induct)
    case (company_create a d)
    then show ?case using payload_op_code [of E a k "CP_Create d"] by simp
  next
    case (company_add c a c')
    note c' = company_accepted_facts [OF company_add.hyps(2)]
    have bs: "blocks c' = blocks c @ [a]" by (rule c') simp
    show ?case
    proof (cases "b = a")
      case True
      then show ?thesis using company_add.prems(2) by (simp add: bs auth_step_def)
    next
      case False
      then have "authorised E k (blocks c) \<noteq> {}"
        using company_add.prems by (intro company_add.IH) (auto simp: bs)
      then show ?thesis by (rule company_keeps_authorised [OF company_add.hyps])
    qed
  qed
  moreover have "finite (authorised E k (blocks c))"
    unfolding authorised_def by (rule fold_invariant [where Q = "\<lambda>_. True"]) (auto simp: auth_step_def)
  ultimately show ?thesis
    using reachable_refines(2) [OF assms(1)] by (simp add: Suc_le_eq card_gt_0_iff)
qed

theorem company_keeps_a_signatory_witness:
  "\<exists>m. num_authorized_signers CE0 (co0 [proved_D0, invited0, accepted_C0, proved_C0, removed_D0]) bill_key0 = Ok m \<and> 1 \<le> m"
  by (rule company_keeps_a_signatory [OF company_reachable5_0, of proved_D0]) (simp_all add: company_blocks0)

text \<open>
  C27. Updates, invitations, removals and signed bills of a company are only accepted from an authorised
  signatory, whose key together with the company key signed the block.
\<close>

theorem company_acts_need_a_signatory:
  assumes "company_reachable P E k c" and "company_accepted P E k c b c'"
    and "cbl_op_code b \<in> {C_Update, C_InviteSignatory, C_RemoveSignatory, C_SignCompanyBill}"
  shows "\<exists>v. company_verify_and_get_signer E b k = Ok v \<and> vgs_signer v \<in> authorised E k (blocks c) \<and>
           company_verify_signer E b (vgs_signer v) k = Ok True"
  using company_signer_authorised [OF assms] .

theorem company_acts_need_a_signatory_witness:
  "\<exists>v. company_verify_and_get_signer CE0 invited0 bill_key0 = Ok v \<and>
     vgs_signer v \<in> authorised CE0 bill_key0 [created0, proved_D0]"
  using company_acts_need_a_signatory [OF company_reachable1_0 company_accepted0(2)] by (auto simp: company_blocks0)

text \<open>
  C28. Right after its removal a node has no rights left, neither as authorised signatory nor through an
  open invitation or an acceptance, and it can be invited again.
\<close>

theorem removed_node_has_no_rights:
  assumes "company_reachable P E k c" and "blocks c = bs @ [b]" and "removes E k n b"
    and "cbl_id (hd (blocks c)) = bid_first"
  shows "is_authorized_signatory E c n k = Ok False \<and> is_invited E c n k = Ok False \<and>
         is_accepted_but_not_identified_signatory E c n k = Ok False \<and> can_be_invited E c n k = Ok True"
  using removed_has_no_rights [OF assms] by blast

theorem removed_node_has_no_rights_witness:
  "is_authorized_signatory CE0 (co0 [proved_D0, invited0, accepted_C0, proved_C0, removed_D0]) ''D'' bill_key0 = Ok False"
proof -
  have "removes CE0 bill_key0 ''D'' removed_D0" by (simp add: removes_def company_data0)
  moreover have "blocks (co0 [proved_D0, invited0, accepted_C0, proved_C0, removed_D0]) =
      [created0, proved_D0, invited0, accepted_C0, proved_C0] @ [removed_D0]" by simp
  ultimately show ?thesis
    using removed_node_has_no_rights [OF company_reachable5_0]
    by (simp add: company_blocks0 bid_first_def FIRST_BLOCK_ID_def)
qed

section \<open>Identity proofs\<close>

text \<open>
  C29. An identity proof whose signature does not verify is still accepted on a company chain: the check
  only fails if the verification returns an error, and the boolean it returns is dropped.
\<close>

theorem company_accepts_unverified_proof:
  assumes "cva_op d = C_IdentityProof" and "cva_identity_proof_data d = Some (proof, data, None)"
    and "check_accepted_or_authorized E d = Ok ()"
    and "eip_node_id data = cva_signer_node_id d" "eip_company_node_id data = Some (cva_company_id d)"
    and "identity_proof_verify (cenv_ext E) proof data = Ok False"
  shows "validate_company_action E d = Ok ()"
  using company_identity_proof_Ok [OF assms(4-6)] assms(1-3) by (simp add: validate_company_action_def)

definition proof_action0 :: CompanyValidateActionData where
  "proof_action0 = \<lparr>cva_blockchain = co0 [], cva_company_id = ''co'', cva_signer_node_id = ''D'',
     cva_op = C_IdentityProof, cva_company_keys = bill_key0, cva_invitee = None, cva_removee = None,
     cva_identity_proof_data = Some (signed_proof0, proof_data0 ''D'' (Some ''co''), None)\<rparr>"

theorem company_accepts_unverified_proof_witness:
  "identity_proof_verify X1 signed_proof0 (proof_data0 ''D'' (Some ''co'')) = Ok False \<and>
   validate_company_action CE0 proof_action0 = Ok ()"
proof -
  have "check_accepted_or_authorized CE0 proof_action0 = Ok ()"
    by (simp add: proof_action0_def company_eval0)
  then show ?thesis
    using company_accepts_unverified_proof [of proof_action0 signed_proof0 "proof_data0 ''D'' (Some ''co'')" CE0]
    by (simp add: proof_action0_def proof_data0_def CE0_sel proof_verify0)
qed

text \<open>
  The same holds on an identity chain: a proof that names the identity passes although its signature
  does not verify, and with it the identity counts as identified.
\<close>

lemma identity_accepts_unverified_proof:
  assumes "iva_op d = I_IdentityProof" and "iva_identity_proof_data d = Some (proof, data)"
    and "check_signer E d = Ok ()" and "eip_node_id data = iva_id d"
    and "identity_proof_verify (ienv_ext E) proof data = Ok False"
  shows "validate_identity_action E d = Ok ()"
  using assms by (simp add: validate_identity_action_def)

lemma identity_accepts_unverified_proof_witness:
  "identity_proof_verify X1 signed_proof0 (proof_data0 ''D'' None) = Ok False \<and>
   validate_identity_action IE0 \<lparr>iva_blockchain = id0 [], iva_id = ''D'', iva_op = I_IdentityProof, iva_keys = id_key0,
     iva_identity_proof_data = Some (signed_proof0, proof_data0 ''D'' None)\<rparr> = Ok ()" (is "_ \<and> validate_identity_action _ ?d = _")
proof -
  have "check_signer IE0 ?d = Ok ()"
    using identity_reachable_ok(6) [OF identity_reachable_created0]
    by (simp add: check_signer_def identity_err_def)
  then show ?thesis
    using identity_accepts_unverified_proof [of ?d signed_proof0 "proof_data0 ''D'' None" IE0]
    by (simp add: proof_data0_def IE0_def proof_verify0)
qed

text \<open>
  C30. On an identity chain that starts as \<^verbatim>\<open>get_valid_chain\<close> admits it, every block after the first is signed by the identity,
  the identity is the creator that the first block names, and every act that only identified users may do comes after an
  identity proof. The first block matches its hash and is signed with the key that it names itself; if this is
  the key of the identity, the identity has signed it as well.
\<close>

theorem identity_acts_come_after_proof:
  assumes "identity_reachable P E k n c"
  shows "(\<forall>b \<in> set (tl (blocks c)). identity_verify_sig E b k = Ok True) \<and>
         validate_hash (identity_ops E) (ienv_ext E) (hd (blocks c)) = Ok True \<and>
         blk_verify (identity_ops E) (ienv_ext E) (hd (blocks c)) = Ok True \<and>
         (ibl_public_key (hd (blocks c)) = pub_key (ienv_ext E) k \<longrightarrow> identity_verify_sig E (hd (blocks c)) k = Ok True) \<and>
         identity_is_creator E c n k = Ok True \<and>
         preceded (\<lambda>b. privileged (ibl_op_code b)) (\<lambda>b. ibl_op_code b = I_IdentityProof) (blocks c)"
  using identity_reachable_ok [OF assms] identity_verify_own_key by blast

theorem identity_acts_come_after_proof_witness:
  "identity_verify_sig IE0 (iblock0 3 I_CreateCompany) id_key0 = Ok True \<and>
   identity_is_creator IE0 (id0 [iblock0 2 I_IdentityProof, iblock0 3 I_CreateCompany]) ''D'' id_key0 = Ok True \<and>
   preceded (\<lambda>b. privileged (ibl_op_code b)) (\<lambda>b. ibl_op_code b = I_IdentityProof)
     [iblock0 1 I_Create, iblock0 2 I_IdentityProof, iblock0 3 I_CreateCompany]"
  using identity_acts_come_after_proof [OF identity_reachable2_0] by (simp add: id0_def)

section \<open>Signatory field and creator\<close>

text \<open>
  C31. An identity proof that a signatory with rights has signed is accepted with any node in the signatory field of the
  block: the signer is the node that the payload names, the field is not compared with it, and it is the node in the
  field that becomes authorised. No invitation is asked for.
\<close>

theorem identity_proof_signatory_is_unchecked:
  assumes "company_reachable P E k c"
    and "linked (company_ops E) (cenv_ext E) (last (blocks c)) b" "cbl_id (last (blocks c)) < cbl_id b"
    and "get_block_data E b k = Ok (CP_IdentityProof p)" "cip_reference_block p = None"
      "eip_company_node_id (cip_data p) = Some (cbl_company_id b)"
      "identity_proof_verify (cenv_ext E) (cip_proof p) (cip_data p) = Ok r"
    and "company_verify_signer E b (eip_node_id (cip_data p)) k = Ok True"
      "check_accepted_or_authorized E \<lparr>cva_blockchain = c, cva_company_id = cbl_company_id b,
         cva_signer_node_id = eip_node_id (cip_data p), cva_op = C_IdentityProof, cva_company_keys = k, cva_invitee = None,
         cva_removee = None, cva_identity_proof_data = Some (cip_proof p, cip_data p, None)\<rparr> = Ok ()"
  shows "company_accepted P E k c b (c\<lparr>blocks := blocks c @ [b]\<rparr>) \<and>
         (\<exists>v. company_verify_and_get_signer E b k = Ok v \<and> vgs_signer v = eip_node_id (cip_data p)) \<and>
         is_authorized_signatory E (c\<lparr>blocks := blocks c @ [b]\<rparr>) n k =
           Ok (n = cbl_signatory_node_id b \<or> n \<in> authorised E k (blocks c))"
  using identity_proof_authorises_named [OF assms] by blast

text \<open>The creator \<open>D\<close> signs a proof whose block names \<open>M\<close>, a node that was never invited.\<close>

definition foreign_proof0 :: CompanyBlock where
  "foreign_proof0 = proved_D0\<lparr>cbl_signatory_node_id := ''M''\<rparr>"

lemma foreign_proof0_sel:
  "cbl_id foreign_proof0 = BlockId 2" "cbl_op_code foreign_proof0 = C_IdentityProof" "cbl_company_id foreign_proof0 = ''co''"
  "cbl_signatory_node_id foreign_proof0 = ''M''"
  by (simp_all add: foreign_proof0_def proved_D0_def cblock0_def)

lemma foreign_proof0_data: "get_block_data CE0 foreign_proof0 k = Ok (CP_IdentityProof (company_proof0 ''D''))"
  using company_data0(2) [of k]
  by (simp add: foreign_proof0_def proved_D0_def get_block_data_def company_get_decrypted_block_bytes_def cblock0_def)

lemma foreign_proof0_signature: "company_verify_signer CE0 foreign_proof0 ''D'' bill_key0 = Ok True"
proof -
  have "cbl_signature foreign_proof0 = cbl_signature proved_D0" "cbl_hash foreign_proof0 = cbl_hash proved_D0"
    by (simp_all add: foreign_proof0_def)
  then show ?thesis using company_signatures0(1) by (simp only: company_verify_signer_def)
qed

lemma foreign_proof0_add: "try_add_block (company_ops CE0) X1 (co0 []) foreign_proof0 = Ok (True, co0 [foreign_proof0])"
proof -
  have "linked (company_ops CE0) X1 created0 foreign_proof0"
    using company_link0 [of 1 C_Create "CHR ''D''" 0 C_IdentityProof "CHR ''D''" 1]
    by (simp add: linked_iff foreign_proof0_def proved_D0_def created0_def cblock0_def validate_hash_Ok blk_verify_Ok
        company_ops_def CE0_def company_block_data_to_hash_def calculate_hash_def next_from_previous_block_id_def)
  then show ?thesis by (simp add: try_add_block_iff co0_def)
qed

theorem identity_proof_signatory_is_unchecked_witness:
  "company_accepted P0 CE0 bill_key0 (co0 []) foreign_proof0 (co0 [foreign_proof0]) \<and>
   (\<exists>v. company_verify_and_get_signer CE0 foreign_proof0 bill_key0 = Ok v \<and> vgs_signer v = ''D'') \<and>
   is_authorized_signatory CE0 (co0 [foreign_proof0]) ''M'' bill_key0 = Ok True"
proof -
  have c: "co0 [foreign_proof0] = (co0 [])\<lparr>blocks := blocks (co0 []) @ [foreign_proof0]\<rparr>" by (simp add: co0_def)
  have link: "linked (company_ops CE0) (cenv_ext CE0) (last (blocks (co0 []))) foreign_proof0"
    using foreign_proof0_add by (simp add: try_add_block_iff CE0_sel)
  show ?thesis unfolding c
    using identity_proof_signatory_is_unchecked [where r = False and n = "''M''", OF company_reachable_created0 link _ foreign_proof0_data]
    by (simp add: foreign_proof0_sel foreign_proof0_signature company_eval0 CE0_sel proof_verify0 company_proof0_def
        proof_data0_def company_blocks0)
qed

text \<open>
  The creator of a company passes as accepted but not identified signatory as long as he is not
  removed, whether or not he has proved his identity.
\<close>

lemma creator_stays_unidentified:
  assumes "is_creator E c n k = Ok True" and "last_signed c n C_SignatoryAcceptInvite = None"
    and "was_removed_after_block E c n bid_first k = Ok False"
  shows "is_accepted_but_not_identified_signatory E c n k = Ok True"
  using assms by (simp add: is_accepted_but_not_identified_signatory_def)

lemma creator_stays_unidentified_witness:
  "is_authorized_signatory CE0 (co0 [proved_D0]) ''D'' bill_key0 = Ok True \<and>
   is_accepted_but_not_identified_signatory CE0 (co0 [proved_D0]) ''D'' bill_key0 = Ok True"
proof
  show "is_authorized_signatory CE0 (co0 [proved_D0]) ''D'' bill_key0 = Ok True" by (simp add: company_eval0)
  show "is_accepted_but_not_identified_signatory CE0 (co0 [proved_D0]) ''D'' bill_key0 = Ok True"
    by (rule creator_stays_unidentified) (simp_all add: company_eval0)
qed

end
