(* ===== verification/Service_Monad.thy ===== *)
theory Service_Monad
  imports Ebill_Prelude
begin

text \<open>
  Code that works on stores and sends messages: an action takes a state and returns an outcome with the
  state it leaves behind, also when it fails. \<open>bind_act\<close> is \<open>let x = m.await?; f(x)\<close>; a failure
  keeps what the steps before it have changed.
\<close>

type_synonym ('a, 'e, 's) action = "'s \<Rightarrow> ('a, 'e) result \<times> 's"

definition lift :: "('a, 'e) result \<Rightarrow> ('a, 'e, 's) action" where
  "lift r s = (r, s)"

definition ret :: "'a \<Rightarrow> ('a, 'e, 's) action" where
  "ret a s = (Ok a, s)"

definition bind_act :: "('a, 'e, 's) action \<Rightarrow> ('a \<Rightarrow> ('b, 'e, 's) action) \<Rightarrow> ('b, 'e, 's) action" where
  "bind_act m f s =
     (case m s of (Ok a, s') \<Rightarrow> f a s' | (Err e, s') \<Rightarrow> (Err e, s') | (Panic, s') \<Rightarrow> (Panic, s'))"

definition then_act :: "(unit, 'e, 's) action \<Rightarrow> ('b, 'e, 's) action \<Rightarrow> ('b, 'e, 's) action" where
  "then_act m n = bind_act m (\<lambda>_. n)"

text \<open>Reading the state, and an action with its errors converted.\<close>

definition gets :: "('s \<Rightarrow> 'a) \<Rightarrow> ('a, 'e, 's) action" where
  "gets f s = (Ok (f s), s)"

definition act_map_err :: "('e \<Rightarrow> 'f) \<Rightarrow> ('a, 'e, 's) action \<Rightarrow> ('a, 'f, 's) action" where
  "act_map_err g m s = (case m s of (r, s') \<Rightarrow> (map_err g r, s'))"

fun for_each :: "('a \<Rightarrow> (unit, 'e, 's) action) \<Rightarrow> 'a list \<Rightarrow> (unit, 'e, 's) action" where
  "for_each f [] = ret ()"
| "for_each f (x # xs) = then_act (f x) (for_each f xs)"

named_theorems act_simps \<open>the outcome of composed actions\<close>

lemma lift_eq [act_simps]: "lift r s = (r', s') \<longleftrightarrow> r = r' \<and> s' = s"
  by (auto simp: lift_def)

lemma ret_eq [act_simps]: "ret a s = (r', s') \<longleftrightarrow> r' = Ok a \<and> s' = s"
  by (auto simp: ret_def)

lemma gets_eq [act_simps]: "gets f s = (r', s') \<longleftrightarrow> r' = Ok (f s) \<and> s' = s"
  by (auto simp: gets_def)

lemma bind_act_Ok [act_simps]:
  "bind_act m f s = (Ok b, t) \<longleftrightarrow> (\<exists>a s'. m s = (Ok a, s') \<and> f a s' = (Ok b, t))"
  by (auto simp: bind_act_def split: prod.splits result.splits)

lemma then_act_Ok [act_simps]:
  "then_act m n s = (Ok b, t) \<longleftrightarrow> (\<exists>s'. m s = (Ok (), s') \<and> n s' = (Ok b, t))"
  by (simp add: then_act_def bind_act_Ok)

lemma act_map_err_Ok [act_simps]: "act_map_err g m s = (Ok a, t) \<longleftrightarrow> m s = (Ok a, t)"
  by (auto simp: act_map_err_def split: prod.splits)

text \<open>A property of the state that no step changes holds at the end of an action, whatever its outcome.\<close>

definition keeps :: "('s \<Rightarrow> bool) \<Rightarrow> ('a, 'e, 's) action \<Rightarrow> bool" where
  "keeps I m \<longleftrightarrow> (\<forall>s. I s \<longrightarrow> I (snd (m s)))"

lemma keepsD: "keeps I m \<Longrightarrow> I s \<Longrightarrow> m s = (r, t) \<Longrightarrow> I t"
  by (metis keeps_def snd_conv)

lemma keeps_bind [intro]: "keeps I m \<Longrightarrow> (\<And>a. keeps I (f a)) \<Longrightarrow> keeps I (bind_act m f)"
  unfolding keeps_def bind_act_def by (auto split: prod.splits result.splits)

lemma keeps_then [intro]: "keeps I m \<Longrightarrow> keeps I n \<Longrightarrow> keeps I (then_act m n)"
  unfolding then_act_def by (rule keeps_bind)

lemma keeps_pure [intro, simp]: "keeps I (lift r)" "keeps I (ret a)" "keeps I (gets f)"
  by (simp_all add: keeps_def lift_def ret_def gets_def)

lemma keeps_map_err [intro]: "keeps I m \<Longrightarrow> keeps I (act_map_err g m)"
  by (auto simp: keeps_def act_map_err_def split: prod.splits)

lemma keeps_for_each [intro]: "(\<And>x. keeps I (f x)) \<Longrightarrow> keeps I (for_each f xs)"
  by (induction xs) auto

lemma bind_lift: "bind_act (lift (Ok a)) f = f a"
  by (rule ext) (simp add: bind_act_def lift_def)

end
