(* ===== verification/App_Models.thy ===== *)
theory App_Models
  imports Company_Props Identity_Props
begin

text \<open>
  The aggregates of the application layer (\<^verbatim>\<open>bcr-ebill-core/src/application\<close>): a company and an identity
  as they are replayed from the blocks of their chains, contacts, and the conversions to the participants
  of a bill. Methods on \<^verbatim>\<open>&mut self\<close> return the changed record.
\<close>

section \<open>Errors\<close>

datatype (plugins only: code) ValidationError =
    V_Protocol ProtocolValidationError
  | InvalidContact string
  | InvalidMint string
  | RequestToMintForBillAndMintAlreadyActive
  | ContactIsAnonymous string
  | SignatoryNotInContacts string
  | InvalidBillType
  | UnknownNodeId string
  | V_Blockchain string
  | InvalidIdentityProofStatus string
  | InvalidOperation
  | NoFileForFileUploadId
  | DraweeNotInContacts
  | PayeeNotInContacts
  | BuyerNotInContacts
  | EndorseeNotInContacts
  | MintNotInContacts
  | RecourseeNotInContacts
  | CancelMintRequestNotPending
  | RejectMintRequestNotOffered
  | AcceptMintRequestNotOffered
  | AcceptMintOfferExpired
  | NoConfirmedEmailForIdentIdentity
  | NoPaymentForSweep

section \<open>Companies\<close>

datatype CompanyStatus = CS_Invited | CS_Active | CS_None

datatype CompanySignatoryStatus =
    SS_Invited Timestamp NodeId
  | SS_InviteAccepted Timestamp
  | SS_InviteRejected Timestamp
  | SS_InviteAcceptedIdentityProven Timestamp EmailIdentityProofData SignedIdentityProof
  | SS_Removed Timestamp NodeId

record CompanySignatory =
  sgn_t :: SignatoryType
  sgn_node_id :: NodeId
  sgn_status :: CompanySignatoryStatus

record Company =
  co_id :: NodeId
  co_name :: Name
  co_country_of_registration :: "Country option"
  co_city_of_registration :: "City option"
  co_postal_address :: PostalAddress
  co_email :: Email
  co_registration_number :: "Identification option"
  co_registration_date :: "Date option"
  co_proof_of_registration_file :: "File option"
  co_logo_file :: "File option"
  co_creation_time :: Timestamp
  co_signatories :: "CompanySignatory list"
  co_status :: CompanyStatus

definition is_authorized_signer :: "Company \<Rightarrow> NodeId \<Rightarrow> bool" where
  "is_authorized_signer c node_id =
     list_ex (\<lambda>s. sgn_node_id s = node_id \<and>
        (case sgn_status s of SS_InviteAcceptedIdentityProven _ _ _ \<Rightarrow> True | _ \<Rightarrow> False)) (co_signatories c)"

definition company_from_block_data :: "CompanyCreateBlockData \<Rightarrow> NodeId \<Rightarrow> Company" where
  "company_from_block_data data our_node_id =
     \<lparr>co_id = ccr_id data, co_name = ccr_name data,
      co_country_of_registration = ccr_country_of_registration data,
      co_city_of_registration = ccr_city_of_registration data,
      co_postal_address = ccr_postal_address data, co_email = ccr_email data,
      co_registration_number = ccr_registration_number data, co_registration_date = ccr_registration_date data,
      co_proof_of_registration_file = ccr_proof_of_registration_file data, co_logo_file = ccr_logo_file data,
      co_creation_time = ccr_creation_time data,
      co_signatories = [\<lparr>sgn_t = Solo, sgn_node_id = ccr_creator data,
                         sgn_status = SS_InviteAccepted (ccr_creation_time data)\<rparr>],
      co_status = (if our_node_id = ccr_creator data then CS_Active else CS_None)\<rparr>"

text \<open>\<^verbatim>\<open>iter_mut().find(|s| s.node_id == n)\<close>: only the first signatory with the id changes.\<close>

fun update_signatory ::
  "NodeId \<Rightarrow> (CompanySignatoryStatus \<Rightarrow> CompanySignatoryStatus) \<Rightarrow> CompanySignatory list \<Rightarrow> CompanySignatory list" where
  "update_signatory n f [] = []"
| "update_signatory n f (s # ss) =
     (if sgn_node_id s = n then s\<lparr>sgn_status := f (sgn_status s)\<rparr> # ss else s # update_signatory n f ss)"

definition apply_company_update :: "CompanyUpdateBlockData \<Rightarrow> Company \<Rightarrow> Company" where
  "apply_company_update p c =
     c\<lparr>co_name := (case cup_name p of Some v \<Rightarrow> v | None \<Rightarrow> co_name c),
       co_email := (case cup_email p of Some v \<Rightarrow> v | None \<Rightarrow> co_email c),
       co_postal_address :=
         \<lparr>pa_country = (case cup_country p of Some v \<Rightarrow> v | None \<Rightarrow> pa_country (co_postal_address c)),
          pa_city = (case cup_city p of Some v \<Rightarrow> v | None \<Rightarrow> pa_city (co_postal_address c)),
          pa_zip = apply_to_option (cup_zip p) (pa_zip (co_postal_address c)),
          pa_address = (case cup_address p of Some v \<Rightarrow> v | None \<Rightarrow> pa_address (co_postal_address c))\<rparr>,
       co_country_of_registration := apply_to_option (cup_country_of_registration p) (co_country_of_registration c),
       co_city_of_registration := apply_to_option (cup_city_of_registration p) (co_city_of_registration c),
       co_registration_number := apply_to_option (cup_registration_number p) (co_registration_number c),
       co_registration_date := apply_to_option (cup_registration_date p) (co_registration_date c),
       co_logo_file := apply_to_option (cup_logo_file p) (co_logo_file c),
       co_proof_of_registration_file :=
         apply_to_option (cup_proof_of_registration_file p) (co_proof_of_registration_file c)\<rparr>"

definition apply_invite :: "CompanyInviteSignatoryBlockData \<Rightarrow> NodeId \<Rightarrow> Timestamp \<Rightarrow> Company \<Rightarrow> Company" where
  "apply_invite p our_node_id timestamp c =
     (let invited = SS_Invited timestamp (cis_inviter p) in
      c\<lparr>co_status := (if co_status c = CS_None \<and> our_node_id = cis_invitee p then CS_Invited else co_status c),
        co_signatories :=
          (if list_ex (\<lambda>s. sgn_node_id s = cis_invitee p) (co_signatories c)
           then update_signatory (cis_invitee p)
             (\<lambda>status. case status of SS_InviteRejected _ \<Rightarrow> invited | SS_Removed _ _ \<Rightarrow> invited | _ \<Rightarrow> status) (co_signatories c)
           else co_signatories c @ [\<lparr>sgn_t = Solo, sgn_node_id = cis_invitee p, sgn_status = invited\<rparr>])\<rparr>)"

definition apply_accept_invite :: "CompanySignatoryAcceptInviteBlockData \<Rightarrow> NodeId \<Rightarrow> Timestamp \<Rightarrow> Company \<Rightarrow> Company" where
  "apply_accept_invite p our_node_id timestamp c =
     c\<lparr>co_status := (if co_status c = CS_Invited \<and> our_node_id = cai_accepter p then CS_Active else co_status c),
       co_signatories := update_signatory (cai_accepter p) (\<lambda>_. SS_InviteAccepted timestamp) (co_signatories c)\<rparr>"

definition apply_reject_invite :: "CompanySignatoryRejectInviteBlockData \<Rightarrow> NodeId \<Rightarrow> Timestamp \<Rightarrow> Company \<Rightarrow> Company" where
  "apply_reject_invite p our_node_id timestamp c =
     c\<lparr>co_status := (if co_status c = CS_Invited \<and> our_node_id = cri_rejecter p then CS_None else co_status c),
       co_signatories := update_signatory (cri_rejecter p) (\<lambda>_. SS_InviteRejected timestamp) (co_signatories c)\<rparr>"

definition apply_remove_signatory :: "CompanyRemoveSignatoryBlockData \<Rightarrow> NodeId \<Rightarrow> Timestamp \<Rightarrow> Company \<Rightarrow> Company" where
  "apply_remove_signatory p our_node_id timestamp c =
     c\<lparr>co_status := (if our_node_id = crs_removee p then CS_None else co_status c),
       co_signatories := update_signatory (crs_removee p) (\<lambda>_. SS_Removed timestamp (crs_remover p)) (co_signatories c)\<rparr>"

definition apply_identity_proof :: "CompanyIdentityProofBlockData \<Rightarrow> Timestamp \<Rightarrow> Company \<Rightarrow> Company" where
  "apply_identity_proof p timestamp c =
     (let proven = (\<lambda>ts. SS_InviteAcceptedIdentityProven ts (cip_data p) (cip_proof p)) in
      c\<lparr>co_signatories := update_signatory (eip_node_id (cip_data p))
          (\<lambda>status. if cip_reference_block p \<noteq> None
             then (case status of SS_InviteAccepted _ \<Rightarrow> proven timestamp
                   | SS_InviteAcceptedIdentityProven _ _ _ \<Rightarrow> proven timestamp | _ \<Rightarrow> status)
             else (case status of SS_InviteAcceptedIdentityProven ts _ _ \<Rightarrow> proven ts | _ \<Rightarrow> status))
          (co_signatories c)\<rparr>)"

definition apply_company_block_data :: "CompanyBlockPayload \<Rightarrow> NodeId \<Rightarrow> Timestamp \<Rightarrow> Company \<Rightarrow> Company" where
  "apply_company_block_data data our_node_id timestamp c =
     (case data of
        CP_Update p \<Rightarrow> apply_company_update p c
      | CP_InviteSignatory p \<Rightarrow> apply_invite p our_node_id timestamp c
      | CP_SignatoryAcceptInvite p \<Rightarrow> apply_accept_invite p our_node_id timestamp c
      | CP_SignatoryRejectInvite p \<Rightarrow> apply_reject_invite p our_node_id timestamp c
      | CP_RemoveSignatory p \<Rightarrow> apply_remove_signatory p our_node_id timestamp c
      | CP_IdentityProof p \<Rightarrow> apply_identity_proof p timestamp c
      | _ \<Rightarrow> c)"

section \<open>Identities\<close>

record Identity =
  ident_t :: IdentityType
  ident_node_id :: NodeId
  ident_name :: Name
  ident_email :: "Email option"
  ident_postal_address :: OptionalPostalAddress
  ident_date_of_birth :: "Date option"
  ident_country_of_birth :: "Country option"
  ident_city_of_birth :: "City option"
  ident_identification_number :: "Identification option"
  ident_nostr_relays :: "Url list"
  ident_profile_picture_file :: "File option"
  ident_identity_document_file :: "File option"

record IdentityWithAll =
  iwa_identity :: Identity
  iwa_key_pair :: BcrKeys

definition identity_create_block_data :: "Identity \<Rightarrow> IdentityCreateBlockData" where
  "identity_create_block_data v =
     \<lparr>icr_t = ident_t v, icr_node_id = ident_node_id v, icr_name = ident_name v, icr_email = ident_email v,
      icr_postal_address = ident_postal_address v, icr_date_of_birth = ident_date_of_birth v,
      icr_city_of_birth = ident_city_of_birth v, icr_country_of_birth = ident_country_of_birth v,
      icr_identification_number = ident_identification_number v, icr_nostr_relays = ident_nostr_relays v,
      icr_profile_picture_file = ident_profile_picture_file v,
      icr_identity_document_file = ident_identity_document_file v\<rparr>"

definition identity_from_block_data :: "IdentityCreateBlockData \<Rightarrow> Identity" where
  "identity_from_block_data d =
     \<lparr>ident_t = icr_t d, ident_node_id = icr_node_id d, ident_name = icr_name d, ident_email = icr_email d,
      ident_postal_address = icr_postal_address d, ident_date_of_birth = icr_date_of_birth d,
      ident_country_of_birth = icr_country_of_birth d, ident_city_of_birth = icr_city_of_birth d,
      ident_identification_number = icr_identification_number d, ident_nostr_relays = icr_nostr_relays d,
      ident_profile_picture_file = icr_profile_picture_file d,
      ident_identity_document_file = icr_identity_document_file d\<rparr>"

text \<open>\<^verbatim>\<open>Option::or\<close>.\<close>

definition opt_or :: "'a option \<Rightarrow> 'a option \<Rightarrow> 'a option" where
  "opt_or a b = (case a of Some _ \<Rightarrow> a | None \<Rightarrow> b)"

definition apply_identity_update :: "IdentityUpdateBlockData \<Rightarrow> Identity \<Rightarrow> Identity" where
  "apply_identity_update p i =
     i\<lparr>ident_t := (case iup_t p of Some t \<Rightarrow> if ident_t i = Anonymous then t else ident_t i | None \<Rightarrow> ident_t i),
       ident_name := (case iup_name p of Some v \<Rightarrow> v | None \<Rightarrow> ident_name i),
       ident_email := opt_or (iup_email p) (ident_email i),
       ident_postal_address :=
         \<lparr>opa_country = opt_or (iup_country p) (opa_country (ident_postal_address i)),
          opa_city = opt_or (iup_city p) (opa_city (ident_postal_address i)),
          opa_zip = apply_to_option (iup_zip p) (opa_zip (ident_postal_address i)),
          opa_address = opt_or (iup_address p) (opa_address (ident_postal_address i))\<rparr>,
       ident_date_of_birth := apply_to_option (iup_date_of_birth p) (ident_date_of_birth i),
       ident_country_of_birth := apply_to_option (iup_country_of_birth p) (ident_country_of_birth i),
       ident_city_of_birth := apply_to_option (iup_city_of_birth p) (ident_city_of_birth i),
       ident_identification_number := apply_to_option (iup_identification_number p) (ident_identification_number i),
       ident_profile_picture_file := apply_to_option (iup_profile_picture_file p) (ident_profile_picture_file i),
       ident_identity_document_file := apply_to_option (iup_identity_document_file p) (ident_identity_document_file i)\<rparr>"

definition apply_identity_block_data :: "IdentityBlockPayload \<Rightarrow> Identity \<Rightarrow> Identity" where
  "apply_identity_block_data data i = (case data of IP_Update p \<Rightarrow> apply_identity_update p i | _ \<Rightarrow> i)"

definition validate_create_identity ::
  "IdentityType \<Rightarrow> Email option \<Rightarrow> OptionalPostalAddress \<Rightarrow> (unit, ValidationError) result" where
  "validate_create_identity t email postal_address =
     (case t of
        Identified \<Rightarrow>
          seq (reject_if (email = None) (V_Protocol (FieldEmpty F_Email)))
              (map_err V_Protocol (validate_to_be_non_optional postal_address))
      | Anonymous \<Rightarrow> Ok ())"

section \<open>Contacts and participants\<close>

record Contact =
  con_t :: ContactType
  con_node_id :: NodeId
  con_name :: Name
  con_email :: "Email option"
  con_postal_address :: "PostalAddress option"
  con_date_of_birth_or_registration :: "Date option"
  con_country_of_birth_or_registration :: "Country option"
  con_city_of_birth_or_registration :: "City option"
  con_identification_number :: "Identification option"
  con_avatar_file :: "File option"
  con_proof_document_file :: "File option"
  con_nostr_relays :: "Url list"
  con_is_logical :: bool
  con_mint_url :: "Url option"

definition as_contact :: "Identity \<Rightarrow> ContactType option \<Rightarrow> Contact" where
  "as_contact i t =
     \<lparr>con_t = (case t of Some ct \<Rightarrow> ct | None \<Rightarrow> (case ident_t i of Identified \<Rightarrow> CT_Person | Anonymous \<Rightarrow> CT_Anon)),
      con_node_id = ident_node_id i, con_name = ident_name i, con_email = ident_email i,
      con_postal_address = to_full_postal_address (ident_postal_address i),
      con_date_of_birth_or_registration = ident_date_of_birth i,
      con_country_of_birth_or_registration = ident_country_of_birth i,
      con_city_of_birth_or_registration = ident_city_of_birth i,
      con_identification_number = ident_identification_number i,
      con_avatar_file = ident_profile_picture_file i, con_proof_document_file = ident_identity_document_file i,
      con_nostr_relays = ident_nostr_relays i, con_is_logical = False, con_mint_url = None\<rparr>"

definition ident_from_contact :: "Contact \<Rightarrow> (BillIdentParticipant, ValidationError) result" where
  "ident_from_contact v =
     (case con_t v of
        CT_Anon \<Rightarrow> Err (ContactIsAnonymous (con_node_id v))
      | _ \<Rightarrow> and_then (ok_or (InvalidContact (con_node_id v)) (con_postal_address v)) (\<lambda>postal_address.
          Ok \<lparr>bip_t = con_t v, bip_node_id = con_node_id v, bip_name = con_name v,
              bip_postal_address = postal_address, bip_email = con_email v,
              bip_nostr_relays = con_nostr_relays v\<rparr>))"

definition participant_from_contact :: "Contact \<Rightarrow> (BillParticipant, ValidationError) result" where
  "participant_from_contact v =
     (case con_t v of
        CT_Anon \<Rightarrow> Ok (P_Anon \<lparr>bap_node_id = con_node_id v, bap_nostr_relays = con_nostr_relays v\<rparr>)
      | _ \<Rightarrow> and_then (ok_or (InvalidContact (con_node_id v)) (con_postal_address v)) (\<lambda>postal_address.
          Ok (P_Ident \<lparr>bip_t = con_t v, bip_node_id = con_node_id v, bip_name = con_name v,
              bip_postal_address = postal_address, bip_email = con_email v,
              bip_nostr_relays = con_nostr_relays v\<rparr>)))"

definition ident_from_company :: "Company \<Rightarrow> BillIdentParticipant" where
  "ident_from_company v =
     \<lparr>bip_t = CT_Company, bip_node_id = co_id v, bip_name = co_name v,
      bip_postal_address = co_postal_address v, bip_email = Some (co_email v), bip_nostr_relays = []\<rparr>"

definition ident_participant_new :: "Identity \<Rightarrow> (BillIdentParticipant, ValidationError) result" where
  "ident_participant_new identity =
     (if ident_t identity = Anonymous then Err (V_Protocol IdentityCantBeAnon)
      else case to_full_postal_address (ident_postal_address identity) of
             Some postal_address \<Rightarrow>
               Ok \<lparr>bip_t = CT_Person, bip_node_id = ident_node_id identity, bip_name = ident_name identity,
                   bip_postal_address = postal_address, bip_email = ident_email identity,
                   bip_nostr_relays = ident_nostr_relays identity\<rparr>
           | None \<Rightarrow> Err (V_Protocol IdentityCantBeAnon))"

definition anon_participant_new :: "Identity \<Rightarrow> BillAnonParticipant" where
  "anon_participant_new identity =
     \<lparr>bap_node_id = ident_node_id identity, bap_nostr_relays = ident_nostr_relays identity\<rparr>"

definition validate_create_contact ::
  "Ext \<Rightarrow> ContactType \<Rightarrow> NodeId \<Rightarrow> Email option \<Rightarrow> PostalAddress option \<Rightarrow> Network
     \<Rightarrow> (unit, ProtocolValidationError) result" where
  "validate_create_contact X t node_id email postal_address btc_network =
     seq (reject_if (x_node_network X node_id \<noteq> btc_network) InvalidNodeId)
         (case t of
            CT_Anon \<Rightarrow> Ok ()
          | _ \<Rightarrow> seq (reject_if (postal_address = None) (FieldEmpty F_Address))
                    (reject_if (email = None) (FieldEmpty F_Email)))"

end
