(* ===== verification/Bill_Events.thy ===== *)
theory Bill_Events
  imports Service_Monad App_Models Bill_Processor
begin

text \<open>
  The events that follow a new block: the chain events of bills, companies and identities with the messages
  they generate (\<^verbatim>\<open>bcr-ebill-core/src/protocol/event\<close>), and the sending of them
  (\<^verbatim>\<open>bcr-ebill-transport/src/transport_service.rs\<close>). A \<^verbatim>\<open>HashMap\<close> of messages is an association list
  whose order is not read. The three transports are third-party input and output: the outcome of a
  call is a parameter, and the calls that were made are logged in the state. Sending an email
  returns nothing.
\<close>

section \<open>Events\<close>

datatype EventType =
    ET_Bill | ET_BillChain | ET_BillChainInvite | ET_IdentityChain | ET_CompanyChain | ET_CompanyChainInvite
  | ET_ContactShare

record 'd Event =
  ev_event_type :: EventType
  ev_version :: string
  ev_data :: 'd

definition event_new :: "EventType \<Rightarrow> 'd \<Rightarrow> 'd Event" where
  "event_new t d = \<lparr>ev_event_type = t, ev_version = ''1.0'', ev_data = d\<rparr>"

datatype BillEventType =
    BillSigned | BillAccepted | BillAcceptanceRequested | BillAcceptanceRejected | BillAcceptanceTimeout
  | BillAcceptanceRecourse | BillPaymentRequested | BillPaymentRejected | BillPaymentRecourse
  | BillRecourseRejected | BillRecourseTimeout | BillPaymentTimeout | BillSellOffered | BillSellOfferTimeout
  | BillBuyingRejected | BillPaid | BillRecoursePaid | BillEndorsed | BillSold | BillMintingRequested
  | BillNewQuote | BillQuoteApproved | BET_BillBlock

datatype ActionType = BuyBill | RecourseBill | AcceptBill | CheckBill | PayBill | CheckQuote

record BillChainEventPayload =
  bep_event_type :: BillEventType
  bep_bill_id :: BillId
  bep_action_type :: "ActionType option"
  bep_sum :: "Sum option"
  bep_sender_node_id :: "NodeId option"
  bep_sender_name :: "string option"

record ChainKeys =
  chk_private_key :: SecretKey
  chk_public_key :: PublicKey

record ChainInvite =
  chi_chain_id :: string
  chi_chain_type :: BlockchainType
  chi_keys :: ChainKeys

definition chain_invite :: "Ext \<Rightarrow> BlockchainType \<Rightarrow> string \<Rightarrow> BcrKeys \<Rightarrow> ChainInvite" where
  "chain_invite X t chain_id keys =
     \<lparr>chi_chain_id = chain_id, chi_chain_type = t,
      chi_keys = \<lparr>chk_private_key = get_private_key X keys, chk_public_key = pub_key X keys\<rparr>\<rparr>"

record BillBlockEvent =
  bbe_bill_id :: BillId
  bbe_block_height :: nat
  bbe_block :: BillBlock

record CompanyBlockEvent =
  cbe_node_id :: NodeId
  cbe_block_height :: nat
  cbe_block :: CompanyBlock

record IdentityBlockEvent =
  ibe_node_id :: NodeId
  ibe_block_height :: nat
  ibe_block :: IdentityBlock

section \<open>Company and identity chain events\<close>

record CompanyChainEvent =
  cce_company_id :: NodeId
  cce_chain :: CompanyBlockchain
  cce_keys :: BcrKeys
  cce_new_signatory :: "NodeId option"
  cce_new_blocks :: bool
  cce_sender_node_id :: NodeId

definition company_chain_event ::
  "NodeId \<Rightarrow> CompanyBlockchain \<Rightarrow> BcrKeys \<Rightarrow> NodeId option \<Rightarrow> bool \<Rightarrow> CompanyChainEvent" where
  "company_chain_event company_id chain keys new_signatory new_blocks =
     \<lparr>cce_company_id = company_id, cce_chain = chain, cce_keys = keys, cce_new_signatory = new_signatory,
      cce_new_blocks = new_blocks, cce_sender_node_id = company_id\<rparr>"

definition company_blockchain_message :: "CompanyChainEvent \<Rightarrow> (CompanyBlockEvent Event option, 'e) result" where
  "company_blockchain_message ev =
     (if \<not> cce_new_blocks ev then Ok None
      else and_then (get_latest_block (cce_chain ev)) (\<lambda>latest.
        Ok (Some (event_new ET_CompanyChain
          \<lparr>cbe_node_id = cce_company_id ev, cbe_block_height = block_height (cce_chain ev), cbe_block = latest\<rparr>))))"

definition company_invite_message :: "Ext \<Rightarrow> CompanyChainEvent \<Rightarrow> (NodeId \<times> ChainInvite Event) option" where
  "company_invite_message X ev =
     map_option (\<lambda>node_id. (node_id, event_new ET_CompanyChainInvite
       (chain_invite X BT_Company (cce_company_id ev) (cce_keys ev)))) (cce_new_signatory ev)"

record IdentityChainEvent =
  ice_identity_id :: NodeId
  ice_block :: IdentityBlock
  ice_keys :: BcrKeys
  ice_sender_node_id :: NodeId

definition identity_chain_event :: "NodeId \<Rightarrow> IdentityBlock \<Rightarrow> BcrKeys \<Rightarrow> IdentityChainEvent" where
  "identity_chain_event identity_id block keys =
     \<lparr>ice_identity_id = identity_id, ice_block = block, ice_keys = keys, ice_sender_node_id = identity_id\<rparr>"

definition identity_blockchain_message :: "IdentityChainEvent \<Rightarrow> IdentityBlockEvent Event option" where
  "identity_blockchain_message ev =
     Some (event_new ET_IdentityChain
       \<lparr>ibe_node_id = ice_identity_id ev, ibe_block_height = unat (bid_inner (ibl_id (ice_block ev))),
        ibe_block = ice_block ev\<rparr>)"

section \<open>Bill chain events\<close>

record BillChainEvent =
  bce_bill :: BitcreditBill
  bce_chain :: BillBlockchain
  bce_participants :: "(NodeId \<times> nat) list"
  bce_bill_keys :: BcrKeys
  bce_new_blocks :: bool
  bce_sender_node_id :: NodeId

definition bill_chain_event ::
  "BillEnv \<Rightarrow> BitcreditBill \<Rightarrow> BillBlockchain \<Rightarrow> BcrKeys \<Rightarrow> bool \<Rightarrow> NodeId \<Rightarrow> (BillChainEvent, ProtocolError) result" where
  "bill_chain_event E bill chain bill_keys new_blocks sender_node_id =
     and_then (map_err (\<lambda>_. Deserialization
         ''Failed to get participants from blockchain when creating a new chain event'')
       (get_all_nodes_with_added_block_height E chain bill_keys)) (\<lambda>participants.
     Ok \<lparr>bce_bill = bill, bce_chain = chain, bce_participants = participants, bce_bill_keys = bill_keys,
         bce_new_blocks = new_blocks, bce_sender_node_id = sender_node_id\<rparr>)"

definition new_participants :: "BillChainEvent \<Rightarrow> (NodeId \<times> nat) list" where
  "new_participants ev =
     filter (\<lambda>(node_id, height). node_id \<noteq> bce_sender_node_id ev \<and> height = block_height (bce_chain ev))
       (bce_participants ev)"

definition get_all_participant_node_ids :: "BillChainEvent \<Rightarrow> NodeId list" where
  "get_all_participant_node_ids ev = map fst (bce_participants ev)"

definition sender_name :: "BillChainEvent \<Rightarrow> string option" where
  "sender_name ev =
     (let bill = bce_bill ev; sender = bce_sender_node_id ev in
      if bip_node_id (bb_drawer bill) = sender then Some (bip_name (bb_drawer bill))
      else if bip_node_id (bb_drawee bill) = sender then Some (bip_name (bb_drawee bill))
      else if (case bb_payee bill of P_Ident payee \<Rightarrow> bip_node_id payee = sender | P_Anon _ \<Rightarrow> False)
        then bp_name (bb_payee bill)
      else (case bb_endorsee bill of
              Some (P_Ident ident) \<Rightarrow> if bip_node_id ident = sender then Some (bip_name ident) else None
            | _ \<Rightarrow> None))"

type_synonym bill_messages = "(NodeId \<times> BillChainEventPayload Event) list"
type_synonym event_overrides = "(NodeId \<times> BillEventType \<times> ActionType) list"

definition generate_action_messages ::
  "BillChainEvent \<Rightarrow> event_overrides \<Rightarrow> BillEventType option \<Rightarrow> ActionType option \<Rightarrow> bill_messages" where
  "generate_action_messages ev overrides event_type action =
     List.map_filter (\<lambda>(node_id, _).
       (case (case map_of overrides node_id of
                Some (t, a) \<Rightarrow> (Some t, Some a)
              | None \<Rightarrow> (event_type, action)) of
          (None, _) \<Rightarrow> None
        | (Some t, a) \<Rightarrow> Some (node_id, event_new ET_Bill
            \<lparr>bep_event_type = t, bep_bill_id = bb_id (bce_bill ev), bep_action_type = a,
             bep_sum = Some (bb_sum (bce_bill ev)), bep_sender_node_id = Some (bce_sender_node_id ev),
             bep_sender_name = sender_name ev\<rparr>))) (bce_participants ev)"

definition bill_blockchain_message :: "BillChainEvent \<Rightarrow> (BillBlockEvent Event option, 'e) result" where
  "bill_blockchain_message ev =
     (if \<not> bce_new_blocks ev then Ok None
      else and_then (get_latest_block (bce_chain ev)) (\<lambda>latest.
        Ok (Some (event_new ET_BillChain
          \<lparr>bbe_bill_id = bb_id (bce_bill ev), bbe_block_height = block_height (bce_chain ev), bbe_block = latest\<rparr>))))"

definition generate_bill_invite_events :: "Ext \<Rightarrow> BillChainEvent \<Rightarrow> (NodeId \<times> ChainInvite Event) list" where
  "generate_bill_invite_events X ev =
     (let invite = chain_invite X BT_Bill (bb_id (bce_bill ev)) (bce_bill_keys ev) in
      map (\<lambda>(node_id, _). (node_id, event_new ET_BillChainInvite invite)) (new_participants ev))"

definition bill_holder_node_id :: "BitcreditBill \<Rightarrow> NodeId" where
  "bill_holder_node_id bill =
     (case bb_endorsee bill of Some e \<Rightarrow> bp_node_id e | None \<Rightarrow> bp_node_id (bb_payee bill))"

text \<open>\<^verbatim>\<open>overrides.insert\<close> for everyone but the sender.\<close>

definition override_for ::
  "BillChainEvent \<Rightarrow> NodeId \<Rightarrow> BillEventType \<Rightarrow> ActionType \<Rightarrow> event_overrides \<Rightarrow> event_overrides" where
  "override_for ev node_id t a m = (if node_id \<noteq> bce_sender_node_id ev then hm_insert node_id (t, a) m else m)"

definition generate_bill_signed_internal :: "BillChainEvent \<Rightarrow> bill_messages" where
  "generate_bill_signed_internal ev =
     generate_action_messages ev
       (hm_insert (bp_node_id (bb_payee (bce_bill ev))) (BillSigned, CheckBill)
         (hm_insert (bip_node_id (bb_drawee (bce_bill ev))) (BillSigned, AcceptBill) [])) None None"

definition generate_bill_accepted_internal :: "BillChainEvent \<Rightarrow> bill_messages" where
  "generate_bill_accepted_internal ev =
     (let holder = bill_holder_node_id (bce_bill ev); drawer = bip_node_id (bb_drawer (bce_bill ev));
          overrides = override_for ev holder BillAccepted CheckBill [] in
      generate_action_messages ev
        (if drawer \<noteq> holder then override_for ev drawer BillAccepted CheckBill overrides else overrides) None None)"

definition generate_request_to_pay_internal :: "BillChainEvent \<Rightarrow> bill_messages" where
  "generate_request_to_pay_internal ev =
     generate_action_messages ev
       (override_for ev (bip_node_id (bb_drawee (bce_bill ev))) BillPaymentRequested PayBill []) None None"

definition generate_request_to_accept_internal :: "BillChainEvent \<Rightarrow> bill_messages" where
  "generate_request_to_accept_internal ev =
     generate_action_messages ev
       (override_for ev (bip_node_id (bb_drawee (bce_bill ev))) BillAcceptanceRequested AcceptBill []) None None"

definition generate_bill_endorsed_internal :: "BillChainEvent \<Rightarrow> bill_messages" where
  "generate_bill_endorsed_internal ev =
     generate_action_messages ev
       (case bb_endorsee (bce_bill ev) of
          Some endorsee \<Rightarrow> override_for ev (bp_node_id endorsee) BillEndorsed CheckBill []
        | None \<Rightarrow> []) None None"

definition generate_bill_paid_internal :: "BillChainEvent \<Rightarrow> bill_messages" where
  "generate_bill_paid_internal ev =
     generate_action_messages ev
       (override_for ev (bill_holder_node_id (bce_bill ev)) BillPaid CheckBill []) None None"

definition generate_messages :: "BillChainEvent \<Rightarrow> BillEventType \<Rightarrow> bill_messages" where
  "generate_messages ev t =
     (case t of
        BillSigned \<Rightarrow> generate_bill_signed_internal ev
      | BillAccepted \<Rightarrow> generate_bill_accepted_internal ev
      | BillPaymentRequested \<Rightarrow> generate_request_to_pay_internal ev
      | BillAcceptanceRequested \<Rightarrow> generate_request_to_accept_internal ev
      | BillEndorsed \<Rightarrow> generate_bill_endorsed_internal ev
      | BillPaid \<Rightarrow> generate_bill_paid_internal ev
      | _ \<Rightarrow> [])"

definition generate_offer_to_sell_messages :: "BillChainEvent \<Rightarrow> BillParticipant \<Rightarrow> bill_messages" where
  "generate_offer_to_sell_messages ev buyer =
     generate_action_messages ev (override_for ev (bp_node_id buyer) BillSellOffered CheckBill []) None None"

definition generate_bill_sold_messages :: "BillChainEvent \<Rightarrow> BillParticipant \<Rightarrow> bill_messages" where
  "generate_bill_sold_messages ev buyer =
     generate_action_messages ev (override_for ev (bp_node_id buyer) BillSold CheckBill []) None None"

text \<open>
  The recipients of a rejection and of a timeout. A failure to read the chain is logged, and no
  message is sent.
\<close>

definition rejection_recipients :: "BillEnv \<Rightarrow> BillChainEvent \<Rightarrow> ActionType \<Rightarrow> (NodeId list, BlockchainError) result" where
  "rejection_recipients E ev rejected_action =
     (if rejected_action = RecourseBill then
        (let current_holder = bill_holder_node_id (bce_bill ev) in
         and_then (get_past_endorsees_for_bill E (bce_chain ev) (bce_bill_keys ev) current_holder) (\<lambda>endorsees.
         Ok (current_holder # map (\<lambda>e. bip_node_id (pe_pay_to_the_order_of e)) endorsees)))
      else
        and_then (get_all_ident_nodes_with_added_block_height E (bce_chain ev) (bce_bill_keys ev)) (\<lambda>nodes.
        Ok (map fst nodes)))"

definition generate_rejected_messages :: "BillEnv \<Rightarrow> BillChainEvent \<Rightarrow> ActionType \<Rightarrow> (bill_messages, 'e) result" where
  "generate_rejected_messages E ev rejected_action =
     (case (case rejected_action of
              AcceptBill \<Rightarrow> Some BillAcceptanceRejected | PayBill \<Rightarrow> Some BillPaymentRejected
            | BuyBill \<Rightarrow> Some BillBuyingRejected | RecourseBill \<Rightarrow> Some BillRecourseRejected | _ \<Rightarrow> None) of
        None \<Rightarrow> Ok []
      | Some event_type \<Rightarrow>
          (case rejection_recipients E ev rejected_action of
             Panic \<Rightarrow> Panic
           | Err _ \<Rightarrow> Ok []
           | Ok recipient_ids \<Rightarrow>
               Ok (generate_action_messages ev
                 (fold (\<lambda>node_id m. if node_id \<noteq> bip_node_id (bb_drawee (bce_bill ev))
                    then override_for ev node_id event_type CheckBill m else m) recipient_ids []) None None)))"

definition timeout_recipients :: "BillEnv \<Rightarrow> BillChainEvent \<Rightarrow> ActionType \<Rightarrow> (NodeId list, BlockchainError) result" where
  "timeout_recipients E ev timed_out_action =
     (case timed_out_action of
        RecourseBill \<Rightarrow>
          and_then (get_past_endorsees_for_bill E (bce_chain ev) (bce_bill_keys ev) (bill_holder_node_id (bce_bill ev)))
            (\<lambda>endorsees. Ok (map (\<lambda>e. bip_node_id (pe_pay_to_the_order_of e)) endorsees))
      | BuyBill \<Rightarrow>
          (case bill_last_with_op E (bce_chain ev) OfferToSell of
             Some offer_block \<Rightarrow>
               and_then (get_decrypted_block E (c_offer_to_sell E) offer_block (bce_bill_keys ev)) (\<lambda>block_data.
               Ok (filter (\<lambda>n. n \<noteq> bce_sender_node_id ev)
                     [bpd_node_id (ots_buyer block_data), bpd_node_id (ots_seller block_data)]))
           | None \<Rightarrow> Err InvalidBlockOp)
      | _ \<Rightarrow>
          and_then (get_all_ident_nodes_with_added_block_height E (bce_chain ev) (bce_bill_keys ev)) (\<lambda>nodes.
          Ok (map fst nodes)))"

definition generate_timeout_messages :: "BillEnv \<Rightarrow> BillChainEvent \<Rightarrow> ActionType \<Rightarrow> (bill_messages, 'e) result" where
  "generate_timeout_messages E ev timed_out_action =
     (case (case timed_out_action of
              AcceptBill \<Rightarrow> Some BillAcceptanceTimeout | PayBill \<Rightarrow> Some BillPaymentTimeout
            | RecourseBill \<Rightarrow> Some BillRecourseTimeout | BuyBill \<Rightarrow> Some BillSellOfferTimeout | _ \<Rightarrow> None) of
        None \<Rightarrow> Ok []
      | Some event_type \<Rightarrow>
          (case timeout_recipients E ev timed_out_action of
             Panic \<Rightarrow> Panic
           | Err _ \<Rightarrow> Ok []
           | Ok recipient_ids \<Rightarrow>
               Ok (generate_action_messages ev
                 (fold (\<lambda>node_id. override_for ev node_id event_type CheckBill) recipient_ids []) None None)))"

definition generate_recourse_messages :: "BillChainEvent \<Rightarrow> ActionType \<Rightarrow> BillIdentParticipant \<Rightarrow> bill_messages" where
  "generate_recourse_messages ev action recoursee =
     (case (case action of AcceptBill \<Rightarrow> Some BillAcceptanceRecourse | PayBill \<Rightarrow> Some BillPaymentRecourse | _ \<Rightarrow> None) of
        None \<Rightarrow> []
      | Some event_type \<Rightarrow>
          generate_action_messages ev (override_for ev (bip_node_id recoursee) event_type action []) None None)"

section \<open>Sending\<close>

datatype TransportCall =
    Send_Bill_Chain BillChainEvent
  | Send_Bill_Events NodeId bill_messages
  | Send_Email NodeId NodeId "BillChainEventPayload Event"
  | Send_Identity_Chain IdentityChainEvent
  | Send_Company_Chain CompanyChainEvent
  | Local_Notification NodeId BillId BillEventType "ActionType option" "Sum option"

type_synonym transport = "TransportCall \<Rightarrow> (unit, TransportError) result"
type_synonym 'a sending = "('a, TransportError, TransportCall list) action"

definition call :: "transport \<Rightarrow> TransportCall \<Rightarrow> unit sending" where
  "call T c sent = (T c, sent @ [c])"

definition send_email :: "NodeId \<Rightarrow> NodeId \<Rightarrow> BillChainEventPayload Event \<Rightarrow> unit sending" where
  "send_email sender recipient ev sent = (Ok (), sent @ [Send_Email sender recipient ev])"

definition email_if_message :: "BillChainEvent \<Rightarrow> bill_messages \<Rightarrow> NodeId \<Rightarrow> unit sending" where
  "email_if_message ev all_events recipient =
     (case map_of all_events recipient of
        Some message \<Rightarrow> send_email (bce_sender_node_id ev) recipient message
      | None \<Rightarrow> ret ())"

definition send_chain_and_messages :: "transport \<Rightarrow> BillChainEvent \<Rightarrow> bill_messages \<Rightarrow> unit sending" where
  "send_chain_and_messages T ev all_events =
     then_act (call T (Send_Bill_Chain ev)) (call T (Send_Bill_Events (bce_sender_node_id ev) all_events))"

definition send_bill_is_signed_event :: "transport \<Rightarrow> BillChainEvent \<Rightarrow> unit sending" where
  "send_bill_is_signed_event T ev =
     (let all_events = generate_messages ev BillSigned;
          payee = bp_node_id (bb_payee (bce_bill ev)); drawee = bip_node_id (bb_drawee (bce_bill ev));
          drawer = bip_node_id (bb_drawer (bce_bill ev)) in
      then_act (send_chain_and_messages T ev all_events)
     (then_act (if drawer \<noteq> payee \<or> drawer = drawee then email_if_message ev all_events payee else ret ())
               (if drawer \<noteq> drawee \<or> drawer = payee then email_if_message ev all_events drawee else ret ())))"

definition send_bill_is_accepted_event :: "transport \<Rightarrow> BillChainEvent \<Rightarrow> unit sending" where
  "send_bill_is_accepted_event T ev =
     (let all_events = generate_messages ev BillAccepted in
      then_act (send_chain_and_messages T ev all_events)
               (email_if_message ev all_events (bill_holder_node_id (bce_bill ev))))"

definition send_request_to_accept_event :: "transport \<Rightarrow> BillChainEvent \<Rightarrow> unit sending" where
  "send_request_to_accept_event T ev =
     (let all_events = generate_messages ev BillAcceptanceRequested in
      then_act (send_chain_and_messages T ev all_events)
               (email_if_message ev all_events (bip_node_id (bb_drawee (bce_bill ev)))))"

definition send_request_to_pay_event :: "transport \<Rightarrow> BillChainEvent \<Rightarrow> unit sending" where
  "send_request_to_pay_event T ev =
     (let all_events = generate_messages ev BillPaymentRequested in
      then_act (send_chain_and_messages T ev all_events)
               (email_if_message ev all_events (bip_node_id (bb_drawee (bce_bill ev)))))"

definition send_bill_is_endorsed_event :: "transport \<Rightarrow> BillChainEvent \<Rightarrow> unit sending" where
  "send_bill_is_endorsed_event T ev =
     (let all_events = generate_messages ev BillEndorsed in
      then_act (send_chain_and_messages T ev all_events)
               (case bb_endorsee (bce_bill ev) of
                  Some endorsee \<Rightarrow> email_if_message ev all_events (bp_node_id endorsee)
                | None \<Rightarrow> ret ()))"

definition send_offer_to_sell_event :: "transport \<Rightarrow> BillChainEvent \<Rightarrow> BillParticipant \<Rightarrow> unit sending" where
  "send_offer_to_sell_event T ev buyer =
     (let all_events = generate_offer_to_sell_messages ev buyer in
      then_act (send_chain_and_messages T ev all_events) (email_if_message ev all_events (bp_node_id buyer)))"

definition send_bill_is_sold_event :: "transport \<Rightarrow> BillChainEvent \<Rightarrow> BillParticipant \<Rightarrow> unit sending" where
  "send_bill_is_sold_event T ev buyer =
     (let all_events = generate_bill_sold_messages ev buyer in
      then_act (send_chain_and_messages T ev all_events) (email_if_message ev all_events (bp_node_id buyer)))"

definition send_bill_recourse_paid_event :: "transport \<Rightarrow> BillChainEvent \<Rightarrow> BillIdentParticipant \<Rightarrow> unit sending" where
  "send_bill_recourse_paid_event T ev recoursee =
     (let all_events = generate_action_messages ev [(bip_node_id recoursee, BillRecoursePaid, CheckBill)] None None in
      then_act (send_chain_and_messages T ev all_events) (email_if_message ev all_events (bip_node_id recoursee)))"

definition send_request_to_action_rejected_event ::
  "transport \<Rightarrow> BillEnv \<Rightarrow> BillChainEvent \<Rightarrow> ActionType \<Rightarrow> unit sending" where
  "send_request_to_action_rejected_event T E ev rejected_action =
     bind_act (lift (generate_rejected_messages E ev rejected_action)) (\<lambda>all_events.
     then_act (call T (Send_Bill_Chain ev))
     (if all_events \<noteq> [] then
        then_act (call T (Send_Bill_Events (bce_sender_node_id ev) all_events))
                 (email_if_message ev all_events (bill_holder_node_id (bce_bill ev)))
      else ret ()))"

definition send_recourse_action_event ::
  "transport \<Rightarrow> BillChainEvent \<Rightarrow> ActionType \<Rightarrow> BillIdentParticipant \<Rightarrow> unit sending" where
  "send_recourse_action_event T ev action recoursee =
     (let all_events = generate_recourse_messages ev action recoursee in
      then_act (call T (Send_Bill_Chain ev))
      (if all_events \<noteq> [] then
         then_act (call T (Send_Bill_Events (bce_sender_node_id ev) all_events))
                  (email_if_message ev all_events (bip_node_id recoursee))
       else ret ()))"

end
