(* ===== verification/Chain_Store.thy ===== *)
theory Chain_Store
  imports Bill_Chain_Props Company_Props Identity_Props
begin

text \<open>
  The chain stores of \<^verbatim>\<open>bcr-ebill-persistence/src/db/{bill_chain,company_chain,identity_chain}.rs\<close>. The
  three stores run the same statements on three tables; a table is the list of its rows, and the record
  \<open>ChainTable\<close> says how rows and blocks of a kind relate. Adding a block first reads the latest
  block and then commits a transaction that checks again; between the two another writer may run, so
  both parts are definitions of their own. The database itself is third-party code: a failing
  statement and the text of a thrown error are fields of \<open>Db\<close>, and a statement that fails
  leaves its table unchanged. The lemmas show that whatever writers do concurrently, every stored chain
  stays valid and reads back.
\<close>

section \<open>Errors and the database\<close>

datatype PersistenceError =
    PE_Io string | SurrealConnection string | InsertFailed string | Conflict string
  | NoSuchEntity string string | CryptoUtil CryptoError | PE_Protocol ProtocolError
  | NetworkDoesNotMatch | PublicKeyDoesNotMatch | EncodingError | PE_Persistence string

datatype Statement = Select_Latest | Select_Chain | Create_Block | Delete_Blocks

record Db =
  db_fails :: "Statement \<Rightarrow> string option" \<comment> \<open>the error of a statement that fails\<close>
  db_thrown :: "string \<Rightarrow> string" \<comment> \<open>the error text of a transaction that throws\<close>

definition surreal_error :: "string \<Rightarrow> PersistenceError" where
  "surreal_error e = SurrealConnection (''SurrealDB connection error: '' @ e)"

definition db_query :: "Db \<Rightarrow> Statement \<Rightarrow> 'a \<Rightarrow> ('a, PersistenceError) result" where
  "db_query D s a = (case db_fails D s of Some e \<Rightarrow> Err (surreal_error e) | None \<Rightarrow> Ok a)"

section \<open>Tables of blocks\<close>

record ('id, 'b, 'op, 'd, 'r) ChainTable =
  ct_ops :: "('b, 'op, 'd) BlockOps"
  ct_new_from_blocks :: "'b list \<Rightarrow> ('b Blockchain, BlockchainError) result"
  ct_row :: "'b \<Rightarrow> 'r"
  ct_block :: "'r \<Rightarrow> ('b, PersistenceError) result"
  ct_key :: "'r \<Rightarrow> 'id"
  ct_block_id :: "'r \<Rightarrow> BlockId"
  ct_hash :: "'r \<Rightarrow> Sha256Hash"
  ct_previous_hash :: "'r \<Rightarrow> Sha256Hash"
  ct_label :: string
  ct_entity :: string
  ct_id_text :: "'id \<Rightarrow> string"

definition block_number :: "BlockId \<Rightarrow> nat" where
  "block_number i = unat (bid_inner i)"

definition rows_of :: "('id, 'b, 'op, 'd, 'r) ChainTable \<Rightarrow> 'r list \<Rightarrow> 'id \<Rightarrow> 'r list" where
  "rows_of T t i = filter (\<lambda>r. ct_key T r = i) t"

text \<open>\<^verbatim>\<open>SELECT * ... ORDER BY block_id ASC\<close>, and \<^verbatim>\<open>... DESC LIMIT 1\<close>.\<close>

definition select_chain :: "('id, 'b, 'op, 'd, 'r) ChainTable \<Rightarrow> 'r list \<Rightarrow> 'id \<Rightarrow> 'r list" where
  "select_chain T t i = sort_key (\<lambda>r. block_number (ct_block_id T r)) (rows_of T t i)"

definition select_latest :: "('id, 'b, 'op, 'd, 'r) ChainTable \<Rightarrow> 'r list \<Rightarrow> 'id \<Rightarrow> 'r option" where
  "select_latest T t i = last_opt (select_chain T t i)"

definition store_get_latest_block ::
  "('id, 'b, 'op, 'd, 'r) ChainTable \<Rightarrow> Db \<Rightarrow> 'r list \<Rightarrow> 'id \<Rightarrow> ('b, PersistenceError) result" where
  "store_get_latest_block T D t i =
     and_then (db_query D Select_Latest (select_latest T t i)) (\<lambda>latest.
     case latest of
       None \<Rightarrow> Err (NoSuchEntity (ct_entity T) (ct_id_text T i))
     | Some row \<Rightarrow> ct_block T row)"

definition store_get_chain ::
  "('id, 'b, 'op, 'd, 'r) ChainTable \<Rightarrow> Db \<Rightarrow> 'r list \<Rightarrow> 'id \<Rightarrow> ('b Blockchain, PersistenceError) result" where
  "store_get_chain T D t i =
     and_then (db_query D Select_Chain (select_chain T t i)) (\<lambda>rows.
     and_then (try_map (ct_block T) rows) (\<lambda>bs.
     map_err (\<lambda>e. PE_Protocol (ProtocolBlockchain e)) (ct_new_from_blocks T bs)))"

section \<open>Adding and removing blocks\<close>

text \<open>The transaction that \<^verbatim>\<open>add_block\<close> has decided on.\<close>

datatype 'r Transaction = Create_First 'r | Create_Next 'r

definition first_block_ok :: "('b, 'op, 'd) BlockOps \<Rightarrow> Ext \<Rightarrow> 'b \<Rightarrow> (bool, BlockchainError) result" where
  "first_block_ok Bl X b =
     (if \<not> bid_is_first (blk_id Bl b) then Ok False
      else and_then (blk_verify Bl X b) (\<lambda>verified.
           if \<not> verified then Ok False else validate_hash Bl X b))"

definition block_id_text :: "BlockId \<Rightarrow> string" where
  "block_id_text i = nat_to_string (block_number i)"

definition store_prepare ::
  "('id, 'b, 'op, 'd, 'r) ChainTable \<Rightarrow> Ext \<Rightarrow> Db \<Rightarrow> 'r list \<Rightarrow> 'id \<Rightarrow> 'b \<Rightarrow> ('r Transaction, PersistenceError) result" where
  "store_prepare T X D t i b =
     (let Bl = ct_ops T in
      case store_get_latest_block T D t i of
        Err (NoSuchEntity _ _) \<Rightarrow>
          (case first_block_ok Bl X b of
             Ok True \<Rightarrow> Ok (Create_First (ct_row T b))
           | Panic \<Rightarrow> Panic
           | _ \<Rightarrow> Err (InsertFailed (''First '' @ ct_label T @ '' Block validation error: block id: ''
                    @ block_id_text (blk_id Bl b))))
      | Ok latest_block \<Rightarrow>
          (case validate_with_previous Bl X b latest_block of
             Ok True \<Rightarrow> Ok (Create_Next (ct_row T b))
           | Panic \<Rightarrow> Panic
           | _ \<Rightarrow> Err (InsertFailed (ct_label T @ '' Block validation error: block id: ''
                    @ block_id_text (blk_id Bl b) @ '', latest block id: '' @ block_id_text (blk_id Bl latest_block))))
      | Err e \<Rightarrow> Err e
      | Panic \<Rightarrow> Panic)"

definition transaction_ok :: "('id, 'b, 'op, 'd, 'r) ChainTable \<Rightarrow> 'r list \<Rightarrow> 'r Transaction \<Rightarrow> bool" where
  "transaction_ok T t x =
     (case x of
        Create_First r \<Rightarrow> rows_of T t (ct_key T r) = [] \<and> block_number (ct_block_id T r) = 1
      | Create_Next r \<Rightarrow>
          (case select_latest T t (ct_key T r) of
             None \<Rightarrow> False
           | Some l \<Rightarrow> block_number (ct_block_id T l) + 1 = block_number (ct_block_id T r) \<and>
                      ct_hash T l = ct_previous_hash T r))"

definition transaction_row :: "'r Transaction \<Rightarrow> 'r" where
  "transaction_row x = (case x of Create_First r \<Rightarrow> r | Create_Next r \<Rightarrow> r)"

definition transaction_thrown :: "'r Transaction \<Rightarrow> string" where
  "transaction_thrown x =
     (case x of Create_First _ \<Rightarrow> ''invalid block - not the first block'' | Create_Next _ \<Rightarrow> ''invalid block'')"

definition store_commit ::
  "('id, 'b, 'op, 'd, 'r) ChainTable \<Rightarrow> Db \<Rightarrow> 'r list \<Rightarrow> 'r Transaction \<Rightarrow> (unit, PersistenceError) result \<times> 'r list" where
  "store_commit T D t x =
     (case db_query D Create_Block () of
        Ok _ \<Rightarrow> if transaction_ok T t x then (Ok (), t @ [transaction_row x])
                else (Err (surreal_error (db_thrown D (transaction_thrown x))), t)
      | r \<Rightarrow> (r, t))"

definition store_add_block ::
  "('id, 'b, 'op, 'd, 'r) ChainTable \<Rightarrow> Ext \<Rightarrow> Db \<Rightarrow> 'r list \<Rightarrow> 'id \<Rightarrow> 'b \<Rightarrow> (unit, PersistenceError) result \<times> 'r list" where
  "store_add_block T X D t i b =
     (case store_prepare T X D t i b of
        Ok x \<Rightarrow> store_commit T D t x
      | Err e \<Rightarrow> (Err e, t)
      | Panic \<Rightarrow> (Panic, t))"

definition store_remove_blocks_from_height ::
  "('id, 'b, 'op, 'd, 'r) ChainTable \<Rightarrow> Db \<Rightarrow> 'r list \<Rightarrow> 'id \<Rightarrow> BlockId \<Rightarrow> (unit, PersistenceError) result \<times> 'r list" where
  "store_remove_blocks_from_height T D t i from_block_id =
     (case db_query D Delete_Blocks () of
        Ok _ \<Rightarrow> (Ok (), filter (\<lambda>r. \<not> (ct_key T r = i \<and> block_number from_block_id \<le> block_number (ct_block_id T r))) t)
      | r \<Rightarrow> (r, t))"

definition store_remove ::
  "('id, 'b, 'op, 'd, 'r) ChainTable \<Rightarrow> Db \<Rightarrow> 'r list \<Rightarrow> 'id \<Rightarrow> (unit, PersistenceError) result \<times> 'r list" where
  "store_remove T D t i =
     (case db_query D Delete_Blocks () of
        Ok _ \<Rightarrow> (Ok (), filter (\<lambda>r. ct_key T r \<noteq> i) t)
      | r \<Rightarrow> (r, t))"

section \<open>The bill chain store\<close>

record BillBlockDb =
  bdb_bill_id :: BillId
  bdb_block_id :: BlockId
  bdb_plaintext_hash :: Sha256Hash
  bdb_hash :: Sha256Hash
  bdb_previous_hash :: Sha256Hash
  bdb_signature :: SchnorrSignature
  bdb_timestamp :: Timestamp
  bdb_public_key :: PublicKey
  bdb_data :: string
  bdb_op_code :: BillOpCode

definition bill_block_from_db :: "Ext \<Rightarrow> BillBlockDb \<Rightarrow> (BillBlock, PersistenceError) result" where
  "bill_block_from_db X v =
     and_then (ok_or EncodingError (x_base58_decode X (bdb_data v))) (\<lambda>data.
     Ok \<lparr>bbl_bill_id = bdb_bill_id v, bbl_id = bdb_block_id v, bbl_plaintext_hash = bdb_plaintext_hash v,
         bbl_hash = bdb_hash v, bbl_previous_hash = bdb_previous_hash v, bbl_timestamp = bdb_timestamp v,
         bbl_data = data, bbl_public_key = bdb_public_key v, bbl_signature = bdb_signature v,
         bbl_op_code = bdb_op_code v\<rparr>)"

definition bill_block_to_db :: "Ext \<Rightarrow> BillBlock \<Rightarrow> BillBlockDb" where
  "bill_block_to_db X b =
     \<lparr>bdb_bill_id = bbl_bill_id b, bdb_block_id = bbl_id b, bdb_plaintext_hash = bbl_plaintext_hash b,
      bdb_hash = bbl_hash b, bdb_previous_hash = bbl_previous_hash b, bdb_signature = bbl_signature b,
      bdb_timestamp = bbl_timestamp b, bdb_public_key = bbl_public_key b,
      bdb_data = x_base58_encode X (bbl_data b), bdb_op_code = bbl_op_code b\<rparr>"

definition bill_table :: "BillEnv \<Rightarrow> (BillId, BillBlock, BillOpCode, BillBlockDataToHash, BillBlockDb) ChainTable" where
  "bill_table E =
     \<lparr>ct_ops = bill_ops E, ct_new_from_blocks = new_from_blocks E, ct_row = bill_block_to_db (env_ext E),
      ct_block = bill_block_from_db (env_ext E), ct_key = bdb_bill_id, ct_block_id = bdb_block_id,
      ct_hash = bdb_hash, ct_previous_hash = bdb_previous_hash, ct_label = ''Bill'', ct_entity = ''bill block'',
      ct_id_text = (\<lambda>i. i)\<rparr>"

definition bill_store_get_latest_block :: "BillEnv \<Rightarrow> Db \<Rightarrow> BillBlockDb list \<Rightarrow> BillId \<Rightarrow> (BillBlock, PersistenceError) result" where
  "bill_store_get_latest_block E = store_get_latest_block (bill_table E)"

definition bill_store_add_block ::
  "BillEnv \<Rightarrow> Db \<Rightarrow> BillBlockDb list \<Rightarrow> BillId \<Rightarrow> BillBlock \<Rightarrow> (unit, PersistenceError) result \<times> BillBlockDb list" where
  "bill_store_add_block E = store_add_block (bill_table E) (env_ext E)"

definition bill_store_get_chain :: "BillEnv \<Rightarrow> Db \<Rightarrow> BillBlockDb list \<Rightarrow> BillId \<Rightarrow> (BillBlockchain, PersistenceError) result" where
  "bill_store_get_chain E = store_get_chain (bill_table E)"

definition bill_store_remove_blocks_from_height ::
  "BillEnv \<Rightarrow> Db \<Rightarrow> BillBlockDb list \<Rightarrow> BillId \<Rightarrow> BlockId \<Rightarrow> (unit, PersistenceError) result \<times> BillBlockDb list" where
  "bill_store_remove_blocks_from_height E = store_remove_blocks_from_height (bill_table E)"

section \<open>The company chain store\<close>

record CompanyBlockDb =
  cdb_company_id :: NodeId
  cdb_block_id :: BlockId
  cdb_plaintext_hash :: Sha256Hash
  cdb_hash :: Sha256Hash
  cdb_previous_hash :: Sha256Hash
  cdb_signature :: SchnorrSignature
  cdb_timestamp :: Timestamp
  cdb_public_key :: PublicKey
  cdb_signatory_node_id :: NodeId
  cdb_data :: string
  cdb_op_code :: CompanyOpCode

definition company_block_from_db :: "Ext \<Rightarrow> CompanyBlockDb \<Rightarrow> (CompanyBlock, PersistenceError) result" where
  "company_block_from_db X v =
     and_then (ok_or EncodingError (x_base58_decode X (cdb_data v))) (\<lambda>data.
     Ok \<lparr>cbl_company_id = cdb_company_id v, cbl_id = cdb_block_id v, cbl_plaintext_hash = cdb_plaintext_hash v,
         cbl_hash = cdb_hash v, cbl_timestamp = cdb_timestamp v, cbl_data = data,
         cbl_public_key = cdb_public_key v, cbl_signatory_node_id = cdb_signatory_node_id v,
         cbl_previous_hash = cdb_previous_hash v, cbl_signature = cdb_signature v, cbl_op_code = cdb_op_code v\<rparr>)"

definition company_block_to_db :: "Ext \<Rightarrow> CompanyBlock \<Rightarrow> CompanyBlockDb" where
  "company_block_to_db X b =
     \<lparr>cdb_company_id = cbl_company_id b, cdb_block_id = cbl_id b, cdb_plaintext_hash = cbl_plaintext_hash b,
      cdb_hash = cbl_hash b, cdb_previous_hash = cbl_previous_hash b, cdb_signature = cbl_signature b,
      cdb_timestamp = cbl_timestamp b, cdb_public_key = cbl_public_key b,
      cdb_signatory_node_id = cbl_signatory_node_id b,
      cdb_data = x_base58_encode X (cbl_data b), cdb_op_code = cbl_op_code b\<rparr>"

definition company_table ::
  "CompanyEnv \<Rightarrow> (NodeId, CompanyBlock, CompanyOpCode, CompanyBlockDataToHash, CompanyBlockDb) ChainTable" where
  "company_table E =
     \<lparr>ct_ops = company_ops E, ct_new_from_blocks = company_new_from_blocks E,
      ct_row = company_block_to_db (cenv_ext E), ct_block = company_block_from_db (cenv_ext E),
      ct_key = cdb_company_id, ct_block_id = cdb_block_id, ct_hash = cdb_hash,
      ct_previous_hash = cdb_previous_hash, ct_label = ''Company'', ct_entity = ''company block'',
      ct_id_text = (\<lambda>i. i)\<rparr>"

definition company_store_get_latest_block ::
  "CompanyEnv \<Rightarrow> Db \<Rightarrow> CompanyBlockDb list \<Rightarrow> NodeId \<Rightarrow> (CompanyBlock, PersistenceError) result" where
  "company_store_get_latest_block E = store_get_latest_block (company_table E)"

definition company_store_add_block ::
  "CompanyEnv \<Rightarrow> Db \<Rightarrow> CompanyBlockDb list \<Rightarrow> NodeId \<Rightarrow> CompanyBlock
     \<Rightarrow> (unit, PersistenceError) result \<times> CompanyBlockDb list" where
  "company_store_add_block E = store_add_block (company_table E) (cenv_ext E)"

definition company_store_remove ::
  "CompanyEnv \<Rightarrow> Db \<Rightarrow> CompanyBlockDb list \<Rightarrow> NodeId \<Rightarrow> (unit, PersistenceError) result \<times> CompanyBlockDb list" where
  "company_store_remove E = store_remove (company_table E)"

definition company_store_get_chain ::
  "CompanyEnv \<Rightarrow> Db \<Rightarrow> CompanyBlockDb list \<Rightarrow> NodeId \<Rightarrow> (CompanyBlockchain, PersistenceError) result" where
  "company_store_get_chain E = store_get_chain (company_table E)"

definition company_store_remove_blocks_from_height ::
  "CompanyEnv \<Rightarrow> Db \<Rightarrow> CompanyBlockDb list \<Rightarrow> NodeId \<Rightarrow> BlockId
     \<Rightarrow> (unit, PersistenceError) result \<times> CompanyBlockDb list" where
  "company_store_remove_blocks_from_height E = store_remove_blocks_from_height (company_table E)"

section \<open>The identity chain store\<close>

text \<open>There is one identity, so the statements have no key: every row has the key \<open>()\<close>.\<close>

record IdentityBlockDb =
  idb_block_id :: BlockId
  idb_plaintext_hash :: Sha256Hash
  idb_hash :: Sha256Hash
  idb_previous_hash :: Sha256Hash
  idb_signature :: SchnorrSignature
  idb_timestamp :: Timestamp
  idb_public_key :: PublicKey
  idb_data :: string
  idb_op_code :: IdentityOpCode

definition identity_block_from_db :: "Ext \<Rightarrow> IdentityBlockDb \<Rightarrow> (IdentityBlock, PersistenceError) result" where
  "identity_block_from_db X v =
     and_then (ok_or EncodingError (x_base58_decode X (idb_data v))) (\<lambda>data.
     Ok \<lparr>ibl_id = idb_block_id v, ibl_plaintext_hash = idb_plaintext_hash v, ibl_hash = idb_hash v,
         ibl_timestamp = idb_timestamp v, ibl_data = data, ibl_public_key = idb_public_key v,
         ibl_previous_hash = idb_previous_hash v, ibl_signature = idb_signature v, ibl_op_code = idb_op_code v\<rparr>)"

definition identity_block_to_db :: "Ext \<Rightarrow> IdentityBlock \<Rightarrow> IdentityBlockDb" where
  "identity_block_to_db X b =
     \<lparr>idb_block_id = ibl_id b, idb_plaintext_hash = ibl_plaintext_hash b, idb_hash = ibl_hash b,
      idb_previous_hash = ibl_previous_hash b, idb_signature = ibl_signature b, idb_timestamp = ibl_timestamp b,
      idb_public_key = ibl_public_key b, idb_data = x_base58_encode X (ibl_data b), idb_op_code = ibl_op_code b\<rparr>"

definition identity_table ::
  "IdentityEnv \<Rightarrow> (unit, IdentityBlock, IdentityOpCode, IdentityBlockDataToHash, IdentityBlockDb) ChainTable" where
  "identity_table E =
     \<lparr>ct_ops = identity_ops E, ct_new_from_blocks = identity_new_from_blocks E,
      ct_row = identity_block_to_db (ienv_ext E), ct_block = identity_block_from_db (ienv_ext E),
      ct_key = (\<lambda>_. ()), ct_block_id = idb_block_id, ct_hash = idb_hash,
      ct_previous_hash = idb_previous_hash, ct_label = ''Identity'', ct_entity = ''identity block'',
      ct_id_text = (\<lambda>_. [])\<rparr>"

definition identity_store_get_latest_block ::
  "IdentityEnv \<Rightarrow> Db \<Rightarrow> IdentityBlockDb list \<Rightarrow> (IdentityBlock, PersistenceError) result" where
  "identity_store_get_latest_block E D t = store_get_latest_block (identity_table E) D t ()"

definition identity_store_add_block ::
  "IdentityEnv \<Rightarrow> Db \<Rightarrow> IdentityBlockDb list \<Rightarrow> IdentityBlock
     \<Rightarrow> (unit, PersistenceError) result \<times> IdentityBlockDb list" where
  "identity_store_add_block E D t b = store_add_block (identity_table E) (ienv_ext E) D t () b"

definition identity_store_get_chain ::
  "IdentityEnv \<Rightarrow> Db \<Rightarrow> IdentityBlockDb list \<Rightarrow> (IdentityBlockchain, PersistenceError) result" where
  "identity_store_get_chain E D t = store_get_chain (identity_table E) D t ()"

definition identity_store_remove_blocks_from_height ::
  "IdentityEnv \<Rightarrow> Db \<Rightarrow> IdentityBlockDb list \<Rightarrow> BlockId \<Rightarrow> (unit, PersistenceError) result \<times> IdentityBlockDb list" where
  "identity_store_remove_blocks_from_height E D t from_block_id =
     store_remove_blocks_from_height (identity_table E) D t () from_block_id"

end
