(* ===== verification/Bill_Service.thy ===== *)
theory Bill_Service
  imports Bill_Events Chain_Store
begin

text \<open>
  The acting side: \<^verbatim>\<open>bcr-ebill-api/src/service/bill_service/{service,blocks,data_fetching,propagation,issue}.rs\<close>.
  \<open>execute_bill_action\<close> reads the chain from the store, validates the action, creates and signs the block,
  stores it, records it on the identity and company chains of the signer, and sends it to the other
  participants; \<open>issue_bill\<close> starts a chain. The stores of the node are the record \<open>ServiceState\<close>; every
  action returns the state it leaves behind, also on failure. Configuration, failing stores, transport and
  file upload are fields of \<open>ServiceEnv\<close>. The recalculation of the cached view of a bill
  (\<^verbatim>\<open>calculate_full_bill\<close>) does not change any chain; its outcome is a field as well.
\<close>

section \<open>Errors, environment and state\<close>

datatype ServiceError =
    SE_NotFound | SE_Persistence PersistenceError | SE_ExternalApi string | SE_Cryptography CryptoError
  | SE_Notification TransportError | SE_Protocol ProtocolError | SE_Json string | SE_Validation ValidationError

record PaidData =
  pd_block_time :: Timestamp
  pd_block_hash :: string
  pd_confirmations :: u64
  pd_tx_id :: string

datatype PaymentState = PaidConfirmed PaidData | PaidUnconfirmed PaidData | InMempool string | PaymentNotFound

record ServiceState =
  ss_bill_chain :: "BillBlockDb list"
  ss_company_chain :: "CompanyBlockDb list"
  ss_identity_chain :: "IdentityBlockDb list"
  ss_bill_keys :: "(BillId \<times> BcrKeys) list"
  ss_bill_paid :: "(BillId \<times> PaymentState) list"
  ss_identity :: "Identity option"
  ss_key_pair :: "BcrKeys option"
  ss_identity_confirmations :: "(string \<times> (SignedIdentityProof \<times> EmailIdentityProofData)) list"
  ss_company_confirmations :: "(string \<times> (SignedIdentityProof \<times> EmailIdentityProofData)) list"
  ss_companies :: "(NodeId \<times> Company) list"
  ss_contacts :: "(NodeId \<times> Contact) list"
  ss_nostr_contacts :: "(NodeId \<times> Url list) list"
  ss_sent :: "TransportCall list"

type_synonym 'a service = "('a, ServiceError, ServiceState) action"

datatype StoreCall =
    Call_Identity | Call_Key_Pair | Call_Confirmations | Call_Company_Confirmations | Call_Company
  | Call_Contacts | Call_Contact | Call_Bill_Keys | Call_Save_Keys | Call_Is_Paid | Call_Nostr_Contact
  | Call_Company_Insert | Call_Company_Update | Call_Company_Keys | Call_Save_Company_Keys | Call_Set_Company_Confirmation
  | Call_Local_Override | Call_Contact_Insert | Call_Save_Identity | Call_Active_Identity | Call_Set_Active_Identity
  | Call_Set_Confirmation | Call_Latest_Notification | Call_Notification_Done | Call_Notification_Add

record ServiceEnv =
  svc_proc :: ProcEnv \<comment> \<open>the encodings of bills, the network, the mint and its client\<close>
  svc_company :: CompanyEnv
  svc_identity :: IdentityEnv
  svc_bill_db :: Db
  svc_company_db :: Db
  svc_identity_db :: Db
  svc_store_fails :: "StoreCall \<Rightarrow> string option"
  svc_transport :: transport
  svc_bill_network :: "BillId \<Rightarrow> Network" \<comment> \<open>\<^verbatim>\<open>BillId::network\<close>\<close>
  svc_bill_id_new :: "PublicKey \<Rightarrow> Network \<Rightarrow> BillId" \<comment> \<open>\<^verbatim>\<open>BillId::new\<close>\<close>
  svc_new_keys :: BcrKeys \<comment> \<open>\<^verbatim>\<open>BcrKeys::new()\<close>\<close>
  svc_upload_file :: "string \<Rightarrow> (File, ServiceError) result" \<comment> \<open>reading, encrypting and uploading a file\<close>
  svc_mint_node_id :: NodeId
  svc_mandatory_email_confirmations :: bool
  svc_recalculate :: "BillBlockchain \<Rightarrow> BcrKeys \<Rightarrow> BillParticipant \<Rightarrow> Timestamp \<Rightarrow> (unit, ServiceError) result"
    \<comment> \<open>\<^verbatim>\<open>recalculate_and_persist_bill\<close>\<close>

abbreviation svc_bill :: "ServiceEnv \<Rightarrow> BillEnv" where
  "svc_bill S \<equiv> proc_bill (svc_proc S)"

abbreviation svc_ext :: "ServiceEnv \<Rightarrow> Ext" where
  "svc_ext S \<equiv> env_ext (svc_bill S)"

text \<open>Errors of the protocol as errors of the service.\<close>

definition protocol_chain :: "('a, BlockchainError) result \<Rightarrow> ('a, ServiceError) result" where
  "protocol_chain r = map_err (\<lambda>e. SE_Protocol (ProtocolBlockchain e)) r"

definition protocol_validation :: "ProtocolValidationError \<Rightarrow> ServiceError" where
  "protocol_validation e = SE_Protocol (ProtocolValidation e)"

definition validation_error :: "ProtocolValidationError \<Rightarrow> ServiceError" where
  "validation_error e = SE_Validation (V_Protocol e)"

definition store_call :: "ServiceEnv \<Rightarrow> StoreCall \<Rightarrow> 'a service \<Rightarrow> 'a service" where
  "store_call S c m s =
     (case svc_store_fails S c of Some e \<Rightarrow> (Err (SE_Persistence (surreal_error e)), s) | None \<Rightarrow> m s)"

definition transport_call :: "ServiceEnv \<Rightarrow> 'a sending \<Rightarrow> 'a service" where
  "transport_call S m s =
     (case m (ss_sent s) of (r, sent) \<Rightarrow> (map_err SE_Notification r, s\<lparr>ss_sent := sent\<rparr>))"

section \<open>The stores\<close>

definition get_keys :: "ServiceEnv \<Rightarrow> BillId \<Rightarrow> BcrKeys service" where
  "get_keys S i = store_call S Call_Bill_Keys (\<lambda>s.
     (ok_or (SE_Persistence (NoSuchEntity ''bill'' i)) (map_of (ss_bill_keys s) i), s))"

text \<open>\<^verbatim>\<open>save_keys\<close> creates a record: it fails if there is one already.\<close>

definition save_keys :: "ServiceEnv \<Rightarrow> BillId \<Rightarrow> BcrKeys \<Rightarrow> unit service" where
  "save_keys S i keys = store_call S Call_Save_Keys (\<lambda>s.
     (case map_of (ss_bill_keys s) i of
        Some _ \<Rightarrow> (Err (SE_Persistence (surreal_error ''record already exists'')), s)
      | None \<Rightarrow> (Ok (), s\<lparr>ss_bill_keys := hm_insert i keys (ss_bill_keys s)\<rparr>)))"

definition is_paid :: "ServiceEnv \<Rightarrow> BillId \<Rightarrow> bool service" where
  "is_paid S i = store_call S Call_Is_Paid (gets (\<lambda>s.
     (case map_of (ss_bill_paid s) i of Some (PaidConfirmed _) \<Rightarrow> True | _ \<Rightarrow> False)))"

definition get_full :: "ServiceEnv \<Rightarrow> IdentityWithAll service" where
  "get_full S =
     bind_act (store_call S Call_Identity (\<lambda>s.
       (ok_or (SE_Persistence (NoSuchEntity ''identity'' [])) (ss_identity s), s))) (\<lambda>identity.
     bind_act (store_call S Call_Key_Pair (\<lambda>s.
       (ok_or (SE_Persistence (NoSuchEntity ''identity key pair'' [])) (ss_key_pair s), s))) (\<lambda>key_pair.
     ret \<lparr>iwa_identity = identity, iwa_key_pair = key_pair\<rparr>))"

definition company_get :: "ServiceEnv \<Rightarrow> NodeId \<Rightarrow> Company service" where
  "company_get S i = store_call S Call_Company (\<lambda>s.
     (ok_or (SE_Persistence (NoSuchEntity ''company'' i)) (map_of (ss_companies s) i), s))"

definition bill_chain_get :: "ServiceEnv \<Rightarrow> BillId \<Rightarrow> BillBlockchain service" where
  "bill_chain_get S i s =
     (map_err SE_Persistence (bill_store_get_chain (svc_bill S) (svc_bill_db S) (ss_bill_chain s) i), s)"

definition bill_chain_add :: "ServiceEnv \<Rightarrow> BillId \<Rightarrow> BillBlock \<Rightarrow> unit service" where
  "bill_chain_add S i b s =
     (case bill_store_add_block (svc_bill S) (svc_bill_db S) (ss_bill_chain s) i b of
        (r, t) \<Rightarrow> (map_err SE_Persistence r, s\<lparr>ss_bill_chain := t\<rparr>))"

definition identity_chain_get :: "ServiceEnv \<Rightarrow> IdentityBlockchain service" where
  "identity_chain_get S s =
     (map_err SE_Persistence (identity_store_get_chain (svc_identity S) (svc_identity_db S) (ss_identity_chain s)), s)"

definition identity_chain_add :: "ServiceEnv \<Rightarrow> IdentityBlock \<Rightarrow> unit service" where
  "identity_chain_add S b s =
     (case identity_store_add_block (svc_identity S) (svc_identity_db S) (ss_identity_chain s) b of
        (r, t) \<Rightarrow> (map_err SE_Persistence r, s\<lparr>ss_identity_chain := t\<rparr>))"

definition company_chain_get :: "ServiceEnv \<Rightarrow> NodeId \<Rightarrow> CompanyBlockchain service" where
  "company_chain_get S i s =
     (map_err SE_Persistence (company_store_get_chain (svc_company S) (svc_company_db S) (ss_company_chain s) i), s)"

definition company_chain_add :: "ServiceEnv \<Rightarrow> NodeId \<Rightarrow> CompanyBlock \<Rightarrow> unit service" where
  "company_chain_add S i b s =
     (case company_store_add_block (svc_company S) (svc_company_db S) (ss_company_chain s) i b of
        (r, t) \<Rightarrow> (map_err SE_Persistence r, s\<lparr>ss_company_chain := t\<rparr>))"

section \<open>Reading the bill\<close>

definition validate_node_id_network :: "ServiceEnv \<Rightarrow> NodeId \<Rightarrow> (unit, ServiceError) result" where
  "validate_node_id_network S node_id =
     reject_if (x_node_network (svc_ext S) node_id \<noteq> proc_bitcoin_network (svc_proc S)) (validation_error InvalidNodeId)"

definition validate_bill_id_network :: "ServiceEnv \<Rightarrow> BillId \<Rightarrow> (unit, ServiceError) result" where
  "validate_bill_id_network S bill_id =
     reject_if (svc_bill_network S bill_id \<noteq> proc_bitcoin_network (svc_proc S)) (validation_error InvalidBillId)"

definition get_email_and_nostr_relay ::
  "ServiceEnv \<Rightarrow> ServiceState \<Rightarrow> NodeId \<Rightarrow> ContactType \<Rightarrow> Identity \<Rightarrow> (NodeId \<times> Contact) list \<Rightarrow> Email option \<times> Url list" where
  "get_email_and_nostr_relay S s node_id t identity contacts =
     (if node_id = ident_node_id identity then (ident_email identity, ident_nostr_relays identity)
      else case map_of contacts node_id of
             Some contact \<Rightarrow> (con_email contact, con_nostr_relays contact)
           | None \<Rightarrow>
               if t = CT_Company then
                 (case fst (company_get S node_id s) of
                    Ok company \<Rightarrow> (Some (co_email company), ident_nostr_relays identity)
                  | _ \<Rightarrow> (None, []))
               else if svc_store_fails S Call_Nostr_Contact = None then
                 (case map_of (ss_nostr_contacts s) node_id of Some relays \<Rightarrow> (None, relays) | None \<Rightarrow> (None, []))
               else (None, []))"

definition extend_identity_data ::
  "ServiceEnv \<Rightarrow> ServiceState \<Rightarrow> BillIdentParticipantBlockData \<Rightarrow> Identity \<Rightarrow> (NodeId \<times> Contact) list \<Rightarrow> BillIdentParticipant" where
  "extend_identity_data S s d identity contacts =
     (case get_email_and_nostr_relay S s (bipd_node_id d) (bipd_t d) identity contacts of (email, nostr_relays) \<Rightarrow>
        \<lparr>bip_t = bipd_t d, bip_node_id = bipd_node_id d, bip_name = bipd_name d,
         bip_postal_address = bipd_postal_address d, bip_email = email, bip_nostr_relays = nostr_relays\<rparr>)"

definition extend_participant_data ::
  "ServiceEnv \<Rightarrow> ServiceState \<Rightarrow> BillParticipantBlockData \<Rightarrow> Identity \<Rightarrow> (NodeId \<times> Contact) list \<Rightarrow> BillParticipant" where
  "extend_participant_data S s p identity contacts =
     (case p of
        Ident d \<Rightarrow> P_Ident (extend_identity_data S s d identity contacts)
      | Anon d \<Rightarrow> P_Anon \<lparr>bap_node_id = bapd_node_id d,
          bap_nostr_relays = snd (get_email_and_nostr_relay S s (bapd_node_id d) CT_Anon identity contacts)\<rparr>)"

definition get_last_version_bill ::
  "ServiceEnv \<Rightarrow> BillBlockchain \<Rightarrow> BcrKeys \<Rightarrow> Identity \<Rightarrow> (NodeId \<times> Contact) list \<Rightarrow> BitcreditBill service" where
  "get_last_version_bill S chain bill_keys identity contacts s =
     (let E = svc_bill S in
      (and_then (protocol_chain (get_first_version_bill E chain bill_keys)) (\<lambda>first.
       and_then (protocol_chain (get_bill_parties E chain bill_keys first)) (\<lambda>parties.
       Ok \<lparr>bb_id = iss_id first, bb_country_of_issuing = iss_country_of_issuing first,
           bb_city_of_issuing = iss_city_of_issuing first,
           bb_drawee = extend_identity_data S s (bps_drawee parties) identity contacts,
           bb_drawer = extend_identity_data S s (bps_drawer parties) identity contacts,
           bb_payee = extend_participant_data S s (bps_payee parties) identity contacts,
           bb_endorsee = map_option (\<lambda>e. extend_participant_data S s e identity contacts) (bps_endorsee parties),
           bb_sum = iss_sum first, bb_maturity_date = iss_maturity_date first, bb_issue_date = iss_issue_date first,
           bb_country_of_payment = iss_country_of_payment first, bb_city_of_payment = iss_city_of_payment first,
           bb_files = iss_files first\<rparr>)), s))"

section \<open>Keys and proof of the signer\<close>

record BillSigningKeys =
  bsk_signatory_keys :: BcrKeys
  bsk_company_keys :: "BcrKeys option"
  bsk_signatory_identity :: "BillSignatoryBlockData option"

definition get_bill_signing_keys ::
  "BillParticipant \<Rightarrow> BcrKeys \<Rightarrow> IdentityWithAll \<Rightarrow> (BillSigningKeys, ServiceError) result" where
  "get_bill_signing_keys signer_public_data signer_keys signatory_identity =
     (case signer_public_data of
        P_Ident identified \<Rightarrow>
          (case bip_t identified of
             CT_Company \<Rightarrow>
               if ident_t (iwa_identity signatory_identity) = Anonymous then Err (validation_error IdentityCantBeAnon)
               else Ok \<lparr>bsk_signatory_keys = iwa_key_pair signatory_identity, bsk_company_keys = Some signer_keys,
                        bsk_signatory_identity =
                          Some \<lparr>bsd_node_id = ident_node_id (iwa_identity signatory_identity),
                                bsd_name = Some (ident_name (iwa_identity signatory_identity))\<rparr>\<rparr>
           | _ \<Rightarrow> Ok \<lparr>bsk_signatory_keys = signer_keys, bsk_company_keys = None, bsk_signatory_identity = None\<rparr>)
      | P_Anon _ \<Rightarrow> Ok \<lparr>bsk_signatory_keys = signer_keys, bsk_company_keys = None, bsk_signatory_identity = None\<rparr>)"

definition get_signer_identity_proof ::
  "ServiceEnv \<Rightarrow> BillParticipant \<Rightarrow> IdentityWithAll \<Rightarrow> NodeId \<Rightarrow> (SignedIdentityProof \<times> EmailIdentityProofData) option service" where
  "get_signer_identity_proof S signer_public_data signatory_identity witness =
     (case signer_public_data of
        P_Ident identified \<Rightarrow>
          (case bip_t identified of
             CT_Person \<Rightarrow> store_call S Call_Confirmations (gets (\<lambda>s.
               find (\<lambda>ec. sip_witness (fst ec) =
                 (if \<not> svc_mandatory_email_confirmations S then bip_node_id identified else witness))
                 (map snd (ss_identity_confirmations s))))
           | CT_Company \<Rightarrow> store_call S Call_Company_Confirmations (gets (\<lambda>s.
               find (\<lambda>ec. sip_witness (fst ec) =
                   (if \<not> svc_mandatory_email_confirmations S then ident_node_id (iwa_identity signatory_identity) else witness) \<and>
                   eip_node_id (snd ec) = ident_node_id (iwa_identity signatory_identity))
                 (filter (\<lambda>ec. eip_company_node_id (snd ec) = Some (bip_node_id identified)) (map snd (ss_company_confirmations s)))))
           | CT_Anon \<Rightarrow> ret None)
      | P_Anon _ \<Rightarrow> ret None)"

section \<open>The blocks of the actions\<close>

text \<open>The local variables that the arms of \<^verbatim>\<open>create_blocks_for_bill_action\<close> read.\<close>

record ActionContext =
  ac_bill :: BitcreditBill
  ac_chain :: BillBlockchain
  ac_bill_keys :: BcrKeys
  ac_signer :: BillParticipant
  ac_signing_keys :: BillSigningKeys
  ac_identity_proof :: "(SignedIdentityProof \<times> EmailIdentityProofData) option"
  ac_previous_block :: BillBlock
  ac_timestamp :: Timestamp

definition holder_is_anon :: "BitcreditBill \<Rightarrow> bool" where
  "holder_is_anon bill =
     (case (case bb_endorsee bill of None \<Rightarrow> bb_payee bill | Some endorsee \<Rightarrow> endorsee) of
        P_Anon _ \<Rightarrow> True | P_Ident _ \<Rightarrow> False)"

definition signatory_for_signer ::
  "bool \<Rightarrow> BillSignatoryBlockData option \<Rightarrow> BillSignatoryBlockData option" where
  "signatory_for_signer signer_is_anon signatory_data =
     map_option (\<lambda>d. if signer_is_anon then d\<lparr>bsd_name := None\<rparr> else d) signatory_data"

text \<open>If the holder is anonymous, the signer continues as anonymous, without address and proof.\<close>

definition signer_data :: "ActionContext \<Rightarrow> BillParticipantBlockData" where
  "signer_data A = (if holder_is_anon (ac_bill A) then participant_block_data (as_anon (ac_signer A))
                    else participant_block_data (ac_signer A))"

definition signer_signatory :: "ActionContext \<Rightarrow> BillSignatoryBlockData option" where
  "signer_signatory A =
     signatory_for_signer (holder_is_anon (ac_bill A)) (bsk_signatory_identity (ac_signing_keys A))"

definition signer_address :: "ActionContext \<Rightarrow> PostalAddress option" where
  "signer_address A = (if holder_is_anon (ac_bill A) then None else bp_postal_address (ac_signer A))"

definition signer_proof :: "ActionContext \<Rightarrow> BillSignerIdentityProofBlockdata option" where
  "signer_proof A = (if holder_is_anon (ac_bill A) then None
                     else map_option identity_proof_block_data (ac_identity_proof A))"

text \<open>The last arguments of every \<^verbatim>\<open>create_block_for_\<close> function.\<close>

definition create_with ::
  "ServiceEnv \<Rightarrow> ActionContext
     \<Rightarrow> (BillEnv \<Rightarrow> BillId \<Rightarrow> BillBlock \<Rightarrow> 'd \<Rightarrow> BcrKeys \<Rightarrow> BcrKeys option \<Rightarrow> BcrKeys \<Rightarrow> Timestamp \<Rightarrow> (BillBlock, BlockchainError) result)
     \<Rightarrow> 'd \<Rightarrow> (BillBlock, ServiceError) result" where
  "create_with S A create block_data =
     protocol_chain (create (svc_bill S) (bb_id (ac_bill A)) (ac_previous_block A) block_data
       (bsk_signatory_keys (ac_signing_keys A)) (bsk_company_keys (ac_signing_keys A))
       (from_private_key (svc_ext S) (get_private_key (svc_ext S) (ac_bill_keys A))) (ac_timestamp A))"

definition ident_signer :: "ActionContext \<Rightarrow> (BillIdentParticipant, ServiceError) result" where
  "ident_signer A = (case ac_signer A of P_Ident signer \<Rightarrow> Ok signer | P_Anon _ \<Rightarrow> Err (validation_error SignerCantBeAnon))"

definition mandatory_proof :: "ActionContext \<Rightarrow> (BillSignerIdentityProofBlockdata, ServiceError) result" where
  "mandatory_proof A =
     and_then (ok_or (protocol_validation NoSignerIdentityProof) (ac_identity_proof A)) (\<lambda>p. Ok (identity_proof_block_data p))"

definition action_accept :: "ServiceEnv \<Rightarrow> ActionContext \<Rightarrow> (BillBlock, ServiceError) result" where
  "action_accept S A =
     and_then (ident_signer A) (\<lambda>signer.
     and_then (mandatory_proof A) (\<lambda>proof.
     create_with S A create_block_for_accept
       \<lparr>acc_accepter = ident_block_data signer, acc_signatory = bsk_signatory_identity (ac_signing_keys A),
        acc_signing_timestamp = ac_timestamp A, acc_signing_address = bip_postal_address signer,
        acc_signer_identity_proof = proof\<rparr>))"

definition action_request_acceptance :: "ServiceEnv \<Rightarrow> ActionContext \<Rightarrow> Timestamp \<Rightarrow> (BillBlock, ServiceError) result" where
  "action_request_acceptance S A acceptance_deadline_timestamp =
     (let block_data =
        \<lparr>rta_requester = signer_data A, rta_signatory = signer_signatory A, rta_signing_timestamp = ac_timestamp A,
         rta_signing_address = signer_address A, rta_signer_identity_proof = signer_proof A,
         rta_acceptance_deadline_timestamp = acceptance_deadline_timestamp\<rparr> in
      seq (map_err validation_error (validate_request_to_accept_data (svc_ext S) block_data))
          (create_with S A create_block_for_request_to_accept block_data))"

text \<open>The payment address of a request, tweaked with the op code, the id and the predecessor of its block.\<close>

definition address_to_pay :: "ServiceEnv \<Rightarrow> ActionContext \<Rightarrow> BillOpCode \<Rightarrow> (BitcoinAddress, ServiceError) result" where
  "address_to_pay S A op =
     (let X = svc_ext S in
      and_then (map_err (\<lambda>e. SE_Protocol (ProtocolCrypto e))
        (calculate_tweak_hash_for_payment_request X op
          (next_from_previous_block_id (bbl_id (ac_previous_block A))) (bbl_hash (ac_previous_block A)))) (\<lambda>tweak.
      map_err SE_Cryptography
        (get_address_to_pay X (pub_key X (ac_bill_keys A)) (x_node_pub_key X (bp_node_id (ac_signer A))) tweak
          (proc_bitcoin_network (svc_proc S)))))"

definition request_to_pay_address ::
  "ServiceEnv \<Rightarrow> ActionContext \<Rightarrow> BitcoinAddress option \<Rightarrow> (BitcoinAddress, ServiceError) result" where
  "request_to_pay_address S A optional_mint_payment_address =
     (let P = svc_proc S in
      and_then (protocol_chain (holder_is_mint (svc_bill S) (ac_chain A) (ac_bill_keys A))) (\<lambda>mint_holder.
      case mint_holder of
        Some _ \<Rightarrow>
          (case optional_mint_payment_address of
             Some mint_payment_address \<Rightarrow>
               seq (reject_if (\<not> x_address_valid_for (svc_ext S) mint_payment_address (proc_bitcoin_network P))
                      (protocol_validation InvalidBitcoinAddress))
               (and_then (from_ext (\<lambda>_. validation_error InvalidBitcoinAddress)
                  (proc_validate_mint_address P (proc_mint_url P) mint_payment_address (bb_id (ac_bill A))
                    (next_from_previous_block_id (bbl_id (ac_previous_block A))) (bbl_hash (ac_previous_block A))))
                  (\<lambda>_. Ok mint_payment_address))
           | None \<Rightarrow> Err (protocol_validation MintRequestToPayWithoutCustomAddress))
      | None \<Rightarrow> address_to_pay S A RequestToPay))"

definition action_request_to_pay ::
  "ServiceEnv \<Rightarrow> ActionContext \<Rightarrow> Timestamp \<Rightarrow> BitcoinAddress option \<Rightarrow> (BillBlock, ServiceError) result" where
  "action_request_to_pay S A payment_deadline_timestamp optional_mint_payment_address =
     and_then (request_to_pay_address S A optional_mint_payment_address) (\<lambda>address.
     let block_data =
       \<lparr>rtp_requester = signer_data A,
        rtp_payment_data = \<lparr>pay_sum = bb_sum (ac_bill A), pay_payment_address = address,
          pay_payment_deadline = payment_deadline_timestamp\<rparr>,
        rtp_signatory = signer_signatory A, rtp_signing_timestamp = ac_timestamp A,
        rtp_signing_address = signer_address A, rtp_signer_identity_proof = signer_proof A\<rparr> in
     seq (map_err validation_error (validate_request_to_pay_data (svc_ext S) block_data))
         (create_with S A create_block_for_request_to_pay block_data))"

definition action_request_recourse ::
  "ServiceEnv \<Rightarrow> ActionContext \<Rightarrow> BillIdentParticipant \<Rightarrow> RecourseReason \<Rightarrow> Timestamp \<Rightarrow> (BillBlock, ServiceError) result" where
  "action_request_recourse S A recoursee recourse_reason recourse_deadline_timestamp =
     seq (validate_node_id_network S (bip_node_id recoursee))
    (and_then (address_to_pay S A RequestRecourse) (\<lambda>address.
     let (amount, reason) = (case recourse_reason of RR_Accept \<Rightarrow> (bb_sum (ac_bill A), BRR_Accept) | RR_Pay v \<Rightarrow> (v, BRR_Pay));
         block_data =
       \<lparr>rrc_recourser = signer_data A, rrc_recoursee = ident_block_data recoursee,
        rrc_payment_data = \<lparr>pay_sum = amount, pay_payment_address = address,
          pay_payment_deadline = recourse_deadline_timestamp\<rparr>,
        rrc_recourse_reason = reason, rrc_signatory = signer_signatory A, rrc_signing_timestamp = ac_timestamp A,
        rrc_signing_address = signer_address A, rrc_signer_identity_proof = signer_proof A\<rparr> in
     seq (map_err validation_error (validate_request_recourse_data (svc_ext S) block_data))
         (create_with S A create_block_for_request_recourse block_data)))"

definition action_recourse :: "ServiceEnv \<Rightarrow> ActionContext \<Rightarrow> BillIdentParticipant \<Rightarrow> (BillBlock, ServiceError) result" where
  "action_recourse S A recoursee =
     (let block_data =
       \<lparr>rec_recourser = signer_data A, rec_recoursee = ident_block_data recoursee,
        rec_signatory = signer_signatory A, rec_signing_timestamp = ac_timestamp A,
        rec_signing_address = signer_address A, rec_signer_identity_proof = signer_proof A\<rparr> in
      seq (validate_node_id_network S (bip_node_id recoursee))
     (seq (map_err validation_error (validate_recourse_data block_data))
          (create_with S A create_block_for_recourse block_data)))"

definition action_mint :: "ServiceEnv \<Rightarrow> ActionContext \<Rightarrow> BillParticipant \<Rightarrow> Sum \<Rightarrow> (BillBlock, ServiceError) result" where
  "action_mint S A mint amount =
     (let block_data =
       \<lparr>mnt_endorser = signer_data A, mnt_endorsee = participant_block_data mint, mnt_sum = amount,
        mnt_signatory = signer_signatory A, mnt_signing_timestamp = ac_timestamp A,
        mnt_signing_address = signer_address A, mnt_signer_identity_proof = signer_proof A\<rparr> in
      seq (validate_node_id_network S (bp_node_id mint))
     (seq (map_err validation_error (validate_mint_data block_data))
          (create_with S A create_block_for_mint block_data)))"

definition action_offer_to_sell ::
  "ServiceEnv \<Rightarrow> ActionContext \<Rightarrow> BillParticipant \<Rightarrow> Sum \<Rightarrow> Timestamp \<Rightarrow> (BillBlock, ServiceError) result" where
  "action_offer_to_sell S A buyer amount buying_deadline_timestamp =
     seq (validate_node_id_network S (bp_node_id buyer))
    (and_then (address_to_pay S A OfferToSell) (\<lambda>address.
     let block_data =
       \<lparr>ots_seller = signer_data A, ots_buyer = participant_block_data buyer,
        ots_payment_data = \<lparr>pay_sum = amount, pay_payment_address = address,
          pay_payment_deadline = buying_deadline_timestamp\<rparr>,
        ots_signatory = signer_signatory A, ots_signing_timestamp = ac_timestamp A,
        ots_signing_address = signer_address A, ots_signer_identity_proof = signer_proof A\<rparr> in
     seq (map_err validation_error (validate_offer_to_sell_data (svc_ext S) block_data))
         (create_with S A create_block_for_offer_to_sell block_data)))"

definition action_sell :: "ServiceEnv \<Rightarrow> ActionContext \<Rightarrow> BillParticipant \<Rightarrow> (BillBlock, ServiceError) result" where
  "action_sell S A buyer =
     (let block_data =
       \<lparr>sel_seller = signer_data A, sel_buyer = participant_block_data buyer,
        sel_signatory = signer_signatory A, sel_signing_timestamp = ac_timestamp A,
        sel_signing_address = signer_address A, sel_signer_identity_proof = signer_proof A\<rparr> in
      seq (validate_node_id_network S (bp_node_id buyer))
     (seq (map_err validation_error (validate_sell_data block_data))
          (create_with S A create_block_for_sell block_data)))"

definition action_endorse :: "ServiceEnv \<Rightarrow> ActionContext \<Rightarrow> BillParticipant \<Rightarrow> (BillBlock, ServiceError) result" where
  "action_endorse S A endorsee =
     (let block_data =
       \<lparr>end_endorser = signer_data A, end_endorsee = participant_block_data endorsee,
        end_signatory = signer_signatory A, end_signing_timestamp = ac_timestamp A,
        end_signing_address = signer_address A, end_signer_identity_proof = signer_proof A\<rparr> in
      seq (validate_node_id_network S (bp_node_id endorsee))
     (seq (map_err validation_error (validate_endorse_data block_data))
          (create_with S A create_block_for_endorse block_data)))"

definition action_reject_to_buy :: "ServiceEnv \<Rightarrow> ActionContext \<Rightarrow> (BillBlock, ServiceError) result" where
  "action_reject_to_buy S A =
     create_with S A create_block_for_reject_to_buy
       \<lparr>rjb_rejecter = signer_data A, rjb_signatory = signer_signatory A, rjb_signing_timestamp = ac_timestamp A,
        rjb_signing_address = signer_address A, rjb_signer_identity_proof = signer_proof A\<rparr>"

text \<open>The three rejections that need an identified signer differ in the function that makes the block.\<close>

definition action_reject ::
  "ServiceEnv \<Rightarrow> ActionContext
     \<Rightarrow> (BillEnv \<Rightarrow> BillId \<Rightarrow> BillBlock \<Rightarrow> BillRejectBlockData \<Rightarrow> BcrKeys \<Rightarrow> BcrKeys option \<Rightarrow> BcrKeys \<Rightarrow> Timestamp
          \<Rightarrow> (BillBlock, BlockchainError) result)
     \<Rightarrow> (BillBlock, ServiceError) result" where
  "action_reject S A create =
     and_then (ident_signer A) (\<lambda>signer.
     and_then (mandatory_proof A) (\<lambda>proof.
     create_with S A create
       \<lparr>rej_rejecter = ident_block_data signer, rej_signatory = bsk_signatory_identity (ac_signing_keys A),
        rej_signing_timestamp = ac_timestamp A, rej_signing_address = bip_postal_address signer,
        rej_signer_identity_proof = proof\<rparr>))"

definition block_for_action :: "ServiceEnv \<Rightarrow> ActionContext \<Rightarrow> BillAction \<Rightarrow> (BillBlock, ServiceError) result" where
  "block_for_action S A action =
     (case action of
        A_Accept \<Rightarrow> action_accept S A
      | A_RequestAcceptance deadline \<Rightarrow> action_request_acceptance S A deadline
      | A_RequestToPay _ deadline mint_address \<Rightarrow> action_request_to_pay S A deadline mint_address
      | A_RequestRecourse recoursee reason deadline \<Rightarrow> action_request_recourse S A recoursee reason deadline
      | A_Recourse recoursee \<Rightarrow> action_recourse S A recoursee
      | A_Mint mint amount \<Rightarrow> action_mint S A mint amount
      | A_OfferToSell buyer amount deadline \<Rightarrow> action_offer_to_sell S A buyer amount deadline
      | A_Sell buyer \<Rightarrow> action_sell S A buyer
      | A_Endorse endorsee \<Rightarrow> action_endorse S A endorsee
      | A_RejectAcceptance \<Rightarrow> action_reject S A create_block_for_reject_to_accept
      | A_RejectBuying \<Rightarrow> action_reject_to_buy S A
      | A_RejectPayment \<Rightarrow> action_reject S A create_block_for_reject_to_pay
      | A_RejectPaymentForRecourse \<Rightarrow> action_reject S A create_block_for_reject_to_pay_recourse)"

section \<open>Storing the blocks\<close>

definition validate_and_add_block :: "ServiceEnv \<Rightarrow> BillId \<Rightarrow> BillBlockchain \<Rightarrow> BillBlock \<Rightarrow> BillBlockchain service" where
  "validate_and_add_block S bill_id blockchain new_block =
     (let Bl = bill_ops (svc_bill S); X = svc_ext S; invalid = SE_Protocol (ProtocolBlockchain BlockchainInvalid) in
      bind_act (lift (map_err (\<lambda>_. invalid) (try_add_block Bl X blockchain new_block))) (\<lambda>(added, blockchain').
      bind_act (lift (if added then map_err (\<lambda>_. invalid) (is_chain_valid Bl X blockchain') else Ok False)) (\<lambda>valid.
      if valid then then_act (bill_chain_add S bill_id new_block) (ret blockchain') else lift (Err invalid))))"

definition validate_and_add_identity_block :: "ServiceEnv \<Rightarrow> IdentityBlockchain \<Rightarrow> IdentityBlock \<Rightarrow> IdentityBlockchain service" where
  "validate_and_add_identity_block S chain new_block =
     (let Bl = identity_ops (svc_identity S); X = ienv_ext (svc_identity S);
          invalid = SE_Protocol (ProtocolBlockchain BlockchainInvalid) in
      bind_act (lift (map_err (\<lambda>_. invalid) (try_add_block Bl X chain new_block))) (\<lambda>(added, chain').
      bind_act (lift (if added then map_err (\<lambda>_. invalid) (is_chain_valid Bl X chain') else Ok False)) (\<lambda>valid.
      if valid then then_act (identity_chain_add S new_block) (ret chain') else lift (Err invalid))))"

definition validate_and_add_company_block ::
  "ServiceEnv \<Rightarrow> NodeId \<Rightarrow> CompanyBlockchain \<Rightarrow> CompanyBlock \<Rightarrow> CompanyBlockchain service" where
  "validate_and_add_company_block S company_id chain new_block =
     (let Bl = company_ops (svc_company S); X = cenv_ext (svc_company S);
          invalid = SE_Protocol (ProtocolBlockchain BlockchainInvalid) in
      bind_act (lift (map_err (\<lambda>_. invalid) (try_add_block Bl X chain new_block))) (\<lambda>(added, chain').
      bind_act (lift (if added then map_err (\<lambda>_. invalid) (is_chain_valid Bl X chain') else Ok False)) (\<lambda>valid.
      if valid then then_act (company_chain_add S company_id new_block) (ret chain') else lift (Err invalid))))"

section \<open>Recording a signed bill on the chains of the signer\<close>

text \<open>The identity block for a signed bill, of a person or in the name of a company.\<close>

definition record_on_identity_chain ::
  "ServiceEnv \<Rightarrow> IdentityOpCode \<Rightarrow> (IdentityBlock \<Rightarrow> (IdentityBlock, BlockchainError) result) \<Rightarrow> IdentityWithAll \<Rightarrow> unit service" where
  "record_on_identity_chain S op create identity =
     bind_act (identity_chain_get S) (\<lambda>chain.
     then_act (lift (map_err validation_error (validate_identity_action (svc_identity S)
       \<lparr>iva_blockchain = chain, iva_id = ident_node_id (iwa_identity identity), iva_op = op,
        iva_keys = iwa_key_pair identity, iva_identity_proof_data = None\<rparr>)))
    (bind_act (lift (get_latest_block chain)) (\<lambda>previous_block.
     bind_act (lift (protocol_chain (create previous_block))) (\<lambda>new_block.
     bind_act (validate_and_add_identity_block S chain new_block) (\<lambda>_.
     transport_call S (call (svc_transport S)
       (Send_Identity_Chain (identity_chain_event (ident_node_id (iwa_identity identity)) new_block (iwa_key_pair identity)))))))))"

definition add_block_to_identity_chain_for_signed_bill_action ::
  "ServiceEnv \<Rightarrow> BillId \<Rightarrow> BillBlock \<Rightarrow> IdentityWithAll \<Rightarrow> Timestamp \<Rightarrow> BcrKeys option \<Rightarrow> unit service" where
  "add_block_to_identity_chain_for_signed_bill_action S bill_id block identity timestamp bill_keys =
     record_on_identity_chain S I_SignPersonBill (\<lambda>previous_block.
       identity_block_for_sign_person_bill (svc_identity S) previous_block
         \<lparr>isp_bill_id = bill_id, isp_block_id = bbl_id block, isp_block_hash = bbl_hash block,
          isp_operation = bbl_op_code block,
          isp_bill_key = map_option (get_private_key (ienv_ext (svc_identity S))) bill_keys\<rparr>
         (iwa_key_pair identity) timestamp) identity"

definition add_block_to_identity_chain_for_signed_company_bill_action ::
  "ServiceEnv \<Rightarrow> NodeId \<Rightarrow> BillId \<Rightarrow> BillBlock \<Rightarrow> IdentityWithAll \<Rightarrow> Timestamp \<Rightarrow> unit service" where
  "add_block_to_identity_chain_for_signed_company_bill_action S company_id bill_id block identity timestamp =
     record_on_identity_chain S I_SignCompanyBill (\<lambda>previous_block.
       identity_block_for_sign_company_bill (svc_identity S) previous_block
         \<lparr>isc_bill_id = bill_id, isc_block_id = bbl_id block, isc_block_hash = bbl_hash block,
          isc_company_id = company_id, isc_operation = bbl_op_code block\<rparr>
         (iwa_key_pair identity) timestamp) identity"

definition add_block_to_company_chain_for_signed_bill_action ::
  "ServiceEnv \<Rightarrow> NodeId \<Rightarrow> BillId \<Rightarrow> BillBlock \<Rightarrow> IdentityWithAll \<Rightarrow> BcrKeys \<Rightarrow> Timestamp \<Rightarrow> BcrKeys option \<Rightarrow> unit service" where
  "add_block_to_company_chain_for_signed_bill_action S company_id bill_id block signatory_identity company_keys timestamp bill_keys =
     (let E = svc_company S in
      bind_act (company_chain_get S company_id) (\<lambda>chain.
      then_act (lift (map_err validation_error (validate_company_action E
        \<lparr>cva_blockchain = chain, cva_company_id = company_id,
         cva_signer_node_id = ident_node_id (iwa_identity signatory_identity), cva_op = C_SignCompanyBill,
         cva_company_keys = company_keys, cva_invitee = None, cva_removee = None, cva_identity_proof_data = None\<rparr>)))
     (bind_act (lift (get_latest_block chain)) (\<lambda>previous_block.
      bind_act (lift (protocol_chain (company_block_for_sign_company_bill E company_id previous_block
        \<lparr>csb_bill_id = bill_id, csb_block_id = bbl_id block, csb_block_hash = bbl_hash block,
         csb_operation = bbl_op_code block, csb_bill_key = map_option (get_private_key (cenv_ext E)) bill_keys\<rparr>
        (iwa_key_pair signatory_identity) company_keys timestamp))) (\<lambda>new_block.
      bind_act (validate_and_add_company_block S company_id chain new_block) (\<lambda>chain'.
      bind_act (company_get S company_id) (\<lambda>company.
      transport_call S (call (svc_transport S)
        (Send_Company_Chain (company_chain_event (co_id company) chain' company_keys None True))))))))))"

definition add_identity_and_company_chain_blocks_for_signed_bill_action ::
  "ServiceEnv \<Rightarrow> BillParticipant \<Rightarrow> BillId \<Rightarrow> BillBlock \<Rightarrow> IdentityWithAll \<Rightarrow> BcrKeys \<Rightarrow> Timestamp \<Rightarrow> BcrKeys option \<Rightarrow> unit service" where
  "add_identity_and_company_chain_blocks_for_signed_bill_action S signer_public_data bill_id block identity signer_keys
       timestamp bill_keys =
     (case signer_public_data of
        P_Ident identified \<Rightarrow>
          (case bip_t identified of
             CT_Company \<Rightarrow>
               then_act (add_block_to_company_chain_for_signed_bill_action S (bip_node_id identified) bill_id block identity
                 (from_private_key (cenv_ext (svc_company S)) (get_private_key (cenv_ext (svc_company S)) signer_keys))
                 timestamp bill_keys)
                (add_block_to_identity_chain_for_signed_company_bill_action S (bip_node_id identified) bill_id block identity
                 timestamp)
           | _ \<Rightarrow> add_block_to_identity_chain_for_signed_bill_action S bill_id block identity timestamp bill_keys)
      | P_Anon _ \<Rightarrow> add_block_to_identity_chain_for_signed_bill_action S bill_id block identity timestamp bill_keys)"

section \<open>Executing an action\<close>

definition local_notification :: "BillAction \<Rightarrow> BillEventType option" where
  "local_notification a = (case a of A_Sell _ \<Rightarrow> Some BillSold | A_Recourse _ \<Rightarrow> Some BillRecoursePaid | _ \<Rightarrow> None)"

definition create_blocks_for_bill_action ::
  "ServiceEnv \<Rightarrow> BitcreditBill \<Rightarrow> BillBlockchain \<Rightarrow> BcrKeys \<Rightarrow> BillAction \<Rightarrow> BillParticipant \<Rightarrow> BcrKeys \<Rightarrow> IdentityWithAll
     \<Rightarrow> Timestamp \<Rightarrow> BillBlockchain service" where
  "create_blocks_for_bill_action S bill blockchain bill_keys action signer_public_data signer_keys identity timestamp =
     bind_act (lift (get_bill_signing_keys signer_public_data signer_keys identity)) (\<lambda>keys.
     bind_act (lift (get_latest_block blockchain)) (\<lambda>previous_block.
     bind_act (get_signer_identity_proof S signer_public_data identity (svc_mint_node_id S)) (\<lambda>identity_proof.
     bind_act (lift (block_for_action S
       \<lparr>ac_bill = bill, ac_chain = blockchain, ac_bill_keys = bill_keys, ac_signer = signer_public_data,
        ac_signing_keys = keys, ac_identity_proof = identity_proof, ac_previous_block = previous_block,
        ac_timestamp = timestamp\<rparr> action)) (\<lambda>block.
     bind_act (validate_and_add_block S (bb_id bill) blockchain block) (\<lambda>blockchain'.
     then_act (case local_notification action of
         Some event_type \<Rightarrow> transport_call S (call (svc_transport S)
           (Local_Notification (bp_node_id signer_public_data) (bb_id bill) event_type (Some CheckBill) (Some (bb_sum bill))))
       | None \<Rightarrow> ret ())
    (then_act (add_identity_and_company_chain_blocks_for_signed_bill_action S signer_public_data (bb_id bill) block identity
         signer_keys timestamp None)
       (ret blockchain')))))))"

definition send_for_action :: "ServiceEnv \<Rightarrow> BillChainEvent \<Rightarrow> BillAction \<Rightarrow> unit sending" where
  "send_for_action S ev action =
     (let T = svc_transport S; E = svc_bill S in
      case action of
        A_Accept \<Rightarrow> send_bill_is_accepted_event T ev
      | A_RequestAcceptance _ \<Rightarrow> send_request_to_accept_event T ev
      | A_RequestToPay _ _ _ \<Rightarrow> send_request_to_pay_event T ev
      | A_RequestRecourse recoursee recourse_reason _ \<Rightarrow>
          send_recourse_action_event T ev (case recourse_reason of RR_Accept \<Rightarrow> AcceptBill | RR_Pay _ \<Rightarrow> PayBill) recoursee
      | A_Recourse recoursee \<Rightarrow> send_bill_recourse_paid_event T ev recoursee
      | A_Mint _ _ \<Rightarrow> send_bill_is_endorsed_event T ev
      | A_OfferToSell buyer _ _ \<Rightarrow> send_offer_to_sell_event T ev buyer
      | A_Sell buyer \<Rightarrow> send_bill_is_sold_event T ev buyer
      | A_Endorse _ \<Rightarrow> send_bill_is_endorsed_event T ev
      | A_RejectAcceptance \<Rightarrow> send_request_to_action_rejected_event T E ev AcceptBill
      | A_RejectBuying \<Rightarrow> send_request_to_action_rejected_event T E ev BuyBill
      | A_RejectPayment \<Rightarrow> send_request_to_action_rejected_event T E ev PayBill
      | A_RejectPaymentForRecourse \<Rightarrow> send_request_to_action_rejected_event T E ev RecourseBill)"

definition notify_for_block_action ::
  "ServiceEnv \<Rightarrow> BillBlockchain \<Rightarrow> BcrKeys \<Rightarrow> BillAction \<Rightarrow> Identity \<Rightarrow> (NodeId \<times> Contact) list \<Rightarrow> NodeId \<Rightarrow> unit service" where
  "notify_for_block_action S blockchain bill_keys action identity contacts signer_node_id =
     bind_act (get_last_version_bill S blockchain bill_keys identity contacts) (\<lambda>last_version_bill.
     bind_act (lift (map_err SE_Protocol
       (bill_chain_event (svc_bill S) last_version_bill blockchain bill_keys True signer_node_id))) (\<lambda>chain_event.
     transport_call S (send_for_action S chain_event action)))"

definition get_contacts :: "ServiceEnv \<Rightarrow> (NodeId \<times> Contact) list service" where
  "get_contacts S = store_call S Call_Contacts (gets ss_contacts)"

definition execute_bill_action ::
  "ServiceEnv \<Rightarrow> BillId \<Rightarrow> BillAction \<Rightarrow> BillParticipant \<Rightarrow> BcrKeys \<Rightarrow> Timestamp \<Rightarrow> BillBlockchain service" where
  "execute_bill_action S bill_id action signer_public_data signer_keys timestamp =
     then_act (lift (validate_bill_id_network S bill_id))
    (then_act (lift (validate_node_id_network S (bp_node_id signer_public_data)))
    (bind_act (get_full S) (\<lambda>identity.
     bind_act (get_contacts S) (\<lambda>contacts.
     bind_act (bill_chain_get S bill_id) (\<lambda>blockchain.
     bind_act (get_keys S bill_id) (\<lambda>bill_keys.
     bind_act (get_last_version_bill S blockchain bill_keys (iwa_identity identity) contacts) (\<lambda>bill.
     bind_act (is_paid S bill_id) (\<lambda>paid.
     then_act (lift (map_err validation_error (validate_action (svc_bill S)
       \<lparr>bva_blockchain = blockchain, bva_drawee_node_id = bip_node_id (bb_drawee bill),
        bva_payee_node_id = bp_node_id (bb_payee bill),
        bva_endorsee_node_id = map_option bp_node_id (bb_endorsee bill),
        bva_maturity_date = bb_maturity_date bill, bva_bill_keys = bill_keys, bva_timestamp = timestamp,
        bva_signer_node_id = bp_node_id signer_public_data, bva_is_paid = paid, bva_mode = Deep action\<rparr>)))
    (bind_act (create_blocks_for_bill_action S bill blockchain bill_keys action signer_public_data signer_keys identity
        timestamp) (\<lambda>blockchain'.
     then_act (lift (svc_recalculate S blockchain' bill_keys signer_public_data timestamp))
    (then_act (notify_for_block_action S blockchain' bill_keys action (iwa_identity identity) contacts
        (bp_node_id signer_public_data))
       (ret blockchain'))))))))))))"

section \<open>Issuing a bill\<close>

datatype BillType = PromissoryNote | SelfDrafted | ThreeParties

definition bill_type :: "u64 \<Rightarrow> (BillType, ServiceError) result" where
  "bill_type t =
     (if t = 0 then Ok PromissoryNote else if t = 1 then Ok SelfDrafted else if t = 2 then Ok ThreeParties
      else Err (SE_Validation InvalidBillType))"

text \<open>A party that is looked up in the contacts; a failing lookup counts as not found.\<close>

definition contact_party ::
  "ServiceEnv \<Rightarrow> (Contact \<Rightarrow> ('p, ValidationError) result) \<Rightarrow> ValidationError \<Rightarrow> NodeId \<Rightarrow> 'p service" where
  "contact_party S convert missing node_id s =
     (case (if svc_store_fails S Call_Contact = None then map_of (ss_contacts s) node_id else None) of
        Some contact \<Rightarrow> (map_err SE_Validation (convert contact), s)
      | None \<Rightarrow> (Err (SE_Validation missing), s))"

definition blank_payee :: "bool \<Rightarrow> BillParticipant \<Rightarrow> BillParticipant" where
  "blank_payee blank_issue payee = (if blank_issue then as_anon payee else payee)"

definition bill_drawee_and_payee ::
  "ServiceEnv \<Rightarrow> BillIssueData \<Rightarrow> BillType \<Rightarrow> BillIdentParticipant \<Rightarrow> (BillIdentParticipant \<times> BillParticipant) service" where
  "bill_drawee_and_payee S data t drawer =
     (case t of
        SelfDrafted \<Rightarrow>
          bind_act (contact_party S ident_from_contact DraweeNotInContacts (bis_drawee data)) (\<lambda>drawee.
          then_act (lift (reject_if (bis_blank_issue data) (validation_error SelfDraftedBillCantBeBlank)))
            (ret (drawee, P_Ident drawer)))
      | PromissoryNote \<Rightarrow>
          bind_act (contact_party S participant_from_contact PayeeNotInContacts (bis_payee data)) (\<lambda>payee.
          ret (drawer, blank_payee (bis_blank_issue data) payee))
      | ThreeParties \<Rightarrow>
          bind_act (contact_party S ident_from_contact DraweeNotInContacts (bis_drawee data)) (\<lambda>drawee.
          bind_act (contact_party S participant_from_contact PayeeNotInContacts (bis_payee data)) (\<lambda>payee.
          ret (drawee, blank_payee (bis_blank_issue data) payee))))"

definition ignore_error :: "(unit, 'e, 's) action \<Rightarrow> (unit, 'e, 's) action" where
  "ignore_error m s = (case m s of (Err _, s') \<Rightarrow> (Ok (), s') | r \<Rightarrow> r)"

definition MAX_BILL_ATTACHMENTS :: nat where
  "MAX_BILL_ATTACHMENTS = 20"

definition issue_bill :: "ServiceEnv \<Rightarrow> BillIssueData \<Rightarrow> BitcreditBill service" where
  "issue_bill S data =
     (let X = svc_ext S; bill_keys = svc_new_keys S; signer = bis_drawer_public_data data;
          bill_id = svc_bill_id_new S (pub_key X bill_keys) (proc_bitcoin_network (svc_proc S)) in
      then_act (lift (validate_node_id_network S (bis_drawee data)))
     (then_act (lift (validate_node_id_network S (bis_payee data)))
     (then_act (lift (validate_node_id_network S (bp_node_id signer)))
     (bind_act (lift (bill_type (bis_t data))) (\<lambda>t.
      then_act (lift (map_err validation_error (validate_bill_issue X data)))
     (bind_act (lift (case signer of P_Ident d \<Rightarrow> Ok d | P_Anon _ \<Rightarrow> Err (validation_error SignerCantBeAnon))) (\<lambda>drawer.
      bind_act (bill_drawee_and_payee S data t drawer) (\<lambda>(drawee, payee).
      bind_act (get_full S) (\<lambda>identity.
      then_act (lift (reject_if (MAX_BILL_ATTACHMENTS < length (bis_file_upload_ids data)) (validation_error TooManyFiles)))
     (bind_act (lift (try_map (svc_upload_file S) (bis_file_upload_ids data))) (\<lambda>bill_files.
      let bill =
        \<lparr>bb_id = bill_id, bb_country_of_issuing = bis_country_of_issuing data, bb_city_of_issuing = bis_city_of_issuing data,
         bb_drawee = drawee, bb_drawer = drawer, bb_payee = payee, bb_endorsee = None, bb_sum = bis_sum data,
         bb_maturity_date = bis_maturity_date data, bb_issue_date = bis_issue_date data,
         bb_country_of_payment = bis_country_of_payment data, bb_city_of_payment = bis_city_of_payment data,
         bb_files = bill_files\<rparr> in
      bind_act (lift (get_bill_signing_keys signer (bis_drawer_keys data) identity)) (\<lambda>keys.
      bind_act (get_signer_identity_proof S signer identity (svc_mint_node_id S)) (\<lambda>found.
      bind_act (lift (ok_or (protocol_validation NoSignerIdentityProof) found)) (\<lambda>identity_proof.
      let block_data = issue_block_data_from bill (bsk_signatory_identity keys) (bis_timestamp data) identity_proof in
      then_act (lift (map_err validation_error (validate_issue_data block_data)))
     (then_act (save_keys S bill_id bill_keys)
     (bind_act (lift (protocol_chain (bill_chain_new (svc_bill S) block_data (bsk_signatory_keys keys) (bsk_company_keys keys)
         bill_keys (bis_timestamp data)))) (\<lambda>chain.
      bind_act (lift (get_first_block chain)) (\<lambda>block.
      then_act (bill_chain_add S bill_id block)
     (then_act (add_identity_and_company_chain_blocks_for_signed_bill_action S signer bill_id block identity
         (bis_drawer_keys data) (bis_timestamp data) (Some bill_keys))
     (then_act (lift (svc_recalculate S chain bill_keys signer (bis_timestamp data)))
     (bind_act (lift (map_err SE_Protocol
         (bill_chain_event (svc_bill S) bill chain bill_keys True (ident_node_id (iwa_identity identity))))) (\<lambda>event.
      then_act (ignore_error (transport_call S (send_bill_is_signed_event (svc_transport S) event)))
     (if bip_node_id drawer = bip_node_id drawee then
        bind_act (execute_bill_action S bill_id A_Accept signer (bis_drawer_keys data)
          (timestamp_add (bis_timestamp data) 1)) (\<lambda>_. ret bill)
      else ret bill)))))))))))))))))))))))"

end
