(* ===== verification/Bill_Service_Props.thy ===== *)
theory Bill_Service_Props
  imports Bill_Service Bill_Lifecycle
begin

text \<open>
  The acting side against the receiving side: a block that \<open>execute_bill_action\<close> has created and
  stored passes the checks of the processors of the other nodes, which start from the same chain. The
  lemmas follow the code: what validation reads of an action survives the way through a block; every
  arm creates a block whose signer, action and payment address read back; the service hands over
  the data of the bill that a processor computes from the chain.
\<close>

section \<open>An action and the action that its block carries\<close>

text \<open>The action that a reader gets back from the block of an action: contact data is lost.\<close>

definition on_chain :: "BillAction \<Rightarrow> Sum \<Rightarrow> BillAction" where
  "on_chain a bill_sum =
     (case a of
        A_RequestToPay _ deadline _ \<Rightarrow> A_RequestToPay (sum_currency bill_sum) deadline None
      | A_OfferToSell buyer amount deadline \<Rightarrow>
          A_OfferToSell (participant_from_block_data (participant_block_data buyer)) amount deadline
      | A_Sell buyer \<Rightarrow> A_Sell (participant_from_block_data (participant_block_data buyer))
      | A_Endorse endorsee \<Rightarrow> A_Endorse (participant_from_block_data (participant_block_data endorsee))
      | A_Mint mint amount \<Rightarrow> A_Mint (participant_from_block_data (participant_block_data mint)) amount
      | A_RequestRecourse recoursee reason deadline \<Rightarrow>
          A_RequestRecourse (ident_from_block_data (ident_block_data recoursee)) reason deadline
      | A_Recourse recoursee \<Rightarrow> A_Recourse (ident_from_block_data (ident_block_data recoursee))
      | _ \<Rightarrow> a)"

lemma on_chain_op_code [simp]: "action_op_code (on_chain a v) = action_op_code a"
  by (simp add: on_chain_def action_op_code_def split: BillAction.splits)

text \<open>No check of validation reads contact data: it treats both actions alike.\<close>

lemma modes_agree:
  fixes d :: BillValidateActionData and a :: BillAction and v :: Sum
  defines "d1 \<equiv> d\<lparr>bva_mode := Deep a\<rparr>" and "d2 \<equiv> d\<lparr>bva_mode := Deep (on_chain a v)\<rparr>"
  shows "bill_waiting_for_offer_to_sell E d2 = bill_waiting_for_offer_to_sell E d1"
    and "bill_waiting_for_recourse_payment E d2 = bill_waiting_for_recourse_payment E d1"
    and "bill_waiting_for_req_to_pay E d2 = bill_waiting_for_req_to_pay E d1"
    and "waiting_for_offer_to_sell E d2 = waiting_for_offer_to_sell E d1"
    and "waiting_for_recourse_payment E d2 = waiting_for_recourse_payment E d1"
    and "req_to_pay_expired E d2 = req_to_pay_expired E d1"
    and "req_to_accept_expired E d2 = req_to_accept_expired E d1"
    and "op_exists E d2 = op_exists E d1" and "past_endorsees E d2 = past_endorsees E d1"
    and "caller_is_holder d2 = caller_is_holder d1" and "bill_action d2 = bill_action d1"
    and "req_to_recourse_reason d2 = req_to_recourse_reason d1"
    and "recoursee_is_past_holder E d2 = recoursee_is_past_holder E d1"
    and "bva_blockchain d2 = bva_blockchain d1" and "bva_is_paid d2 = bva_is_paid d1"
    and "bva_signer_node_id d2 = bva_signer_node_id d1" and "bva_drawee_node_id d2 = bva_drawee_node_id d1"
    and "bva_maturity_date d2 = bva_maturity_date d1" and "bva_timestamp d2 = bva_timestamp d1"
  unfolding d1_def d2_def bill_waiting_for_offer_to_sell_def bill_waiting_for_recourse_payment_def
    bill_waiting_for_req_to_pay_def waiting_for_offer_to_sell_def waiting_for_recourse_payment_def req_to_pay_expired_def
    req_to_accept_expired_def op_exists_def past_endorsees_def caller_is_holder_def holder_node_id_def bill_action_def
    req_to_recourse_reason_def recoursee_is_past_holder_def
  by (cases a; simp add: on_chain_def action_op_code_def fun_eq_iff cong: option.case_cong if_cong; fail)+

lemma guards_agree:
  "bill_can_only_be_recoursed E (d\<lparr>bva_mode := Deep (on_chain a v)\<rparr>) = bill_can_only_be_recoursed E (d\<lparr>bva_mode := Deep a\<rparr>)"
  "recourse_reason_is_valid E (d\<lparr>bva_mode := Deep (on_chain a v)\<rparr>) = recourse_reason_is_valid E (d\<lparr>bva_mode := Deep a\<rparr>)"
  "bill_is_blocked E (d\<lparr>bva_mode := Deep (on_chain a v)\<rparr>) = bill_is_blocked E (d\<lparr>bva_mode := Deep a\<rparr>)"
  "not_recoursed_to_the_end E (d\<lparr>bva_mode := Deep (on_chain a v)\<rparr>) = not_recoursed_to_the_end E (d\<lparr>bva_mode := Deep a\<rparr>)"
  unfolding bill_can_only_be_recoursed_def recourse_reason_is_valid_def bill_is_blocked_def not_recoursed_to_the_end_def
    modes_agree by (rule refl)+

lemma matched_parties_agree:
  "validate_sell E (d\<lparr>bva_mode := Deep (on_chain a v)\<rparr>) = validate_sell E (d\<lparr>bva_mode := Deep a\<rparr>)"
  "validate_recourse E (d\<lparr>bva_mode := Deep (on_chain a v)\<rparr>) = validate_recourse E (d\<lparr>bva_mode := Deep a\<rparr>)"
  unfolding validate_sell_def validate_recourse_def guards_agree modes_agree
  by (cases a; simp add: on_chain_def cong: result.case_cong OfferToSellWaitingForPayment.case_cong; fail)+

lemma validate_action_on_chain:
  "validate_action E (d\<lparr>bva_mode := Deep (on_chain a v)\<rparr>) = validate_action E (d\<lparr>bva_mode := Deep a\<rparr>)"
  unfolding validate_action_def matched_parties_agree
  unfolding validate_accept_def validate_request_to_accept_def validate_request_to_pay_def validate_request_recourse_def
    validate_mint_def validate_offer_to_sell_def validate_endorse_def validate_reject_to_accept_def
    validate_reject_to_buy_def validate_reject_to_pay_def validate_reject_to_pay_recourse_def guards_agree modes_agree
  by (rule refl)

section \<open>The blocks of the actions\<close>

text \<open>Every payload decodes from its encoding.\<close>

definition codecs_rt :: "BillEnv \<Rightarrow> bool" where
  "codecs_rt E \<longleftrightarrow>
     (\<forall>w. codec_rt (c_block_data E) w) \<and> (\<forall>d. codec_rt (c_accept E) d) \<and> (\<forall>d. codec_rt (c_request_to_accept E) d) \<and>
     (\<forall>d. codec_rt (c_request_to_pay E) d) \<and> (\<forall>d. codec_rt (c_request_recourse E) d) \<and> (\<forall>d. codec_rt (c_recourse E) d) \<and>
     (\<forall>d. codec_rt (c_mint E) d) \<and> (\<forall>d. codec_rt (c_offer_to_sell E) d) \<and> (\<forall>d. codec_rt (c_sell E) d) \<and>
     (\<forall>d. codec_rt (c_endorse E) d) \<and> (\<forall>d. codec_rt (c_reject_to_buy E) d) \<and> (\<forall>d. codec_rt (c_reject E) d)"

text \<open>
  The keys belong to the nodes: the signer's keys, or for a company the keys of the signatory and of the
  company. A stored identity proof carries a signature that decodes.
\<close>

definition keys_match :: "Ext \<Rightarrow> BillSigningKeys \<Rightarrow> NodeId \<Rightarrow> bool" where
  "keys_match X keys n \<longleftrightarrow>
     keys_wf X (bsk_signatory_keys keys) \<and> (\<forall>k. bsk_company_keys keys = Some k \<longrightarrow> keys_wf X k) \<and>
     map (x_node_pub_key X) (case map_option bsd_node_id (bsk_signatory_identity keys) of Some s \<Rightarrow> [s, n] | None \<Rightarrow> [n]) =
       pub_key X (bsk_signatory_keys keys) # (case bsk_company_keys keys of Some k \<Rightarrow> [pub_key X k] | None \<Rightarrow> [])"

definition proof_decodes :: "Ext \<Rightarrow> (SignedIdentityProof \<times> EmailIdentityProofData) option \<Rightarrow> bool" where
  "proof_decodes X r \<longleftrightarrow> (\<forall>p d. r = Some (p, d) \<longrightarrow> identity_proof_verify X p d \<noteq> Panic)"

definition context_ok :: "ServiceEnv \<Rightarrow> ActionContext \<Rightarrow> bool" where
  "context_ok S A \<longleftrightarrow>
     secp_laws (svc_ext S) \<and> ecies_law (svc_ext S) \<and> codecs_rt (svc_bill S) \<and> keys_wf (svc_ext S) (ac_bill_keys A) \<and>
     keys_match (svc_ext S) (ac_signing_keys A) (bp_node_id (ac_signer A)) \<and>
     proof_decodes (svc_ext S) (ac_identity_proof A) \<and>
     blocks (ac_chain A) \<noteq> [] \<and> ac_previous_block A = last (blocks (ac_chain A))"

text \<open>What a created block owes to the receiving side, up to its payload.\<close>

definition links_and_hashes :: "ServiceEnv \<Rightarrow> ActionContext \<Rightarrow> BillOpCode \<Rightarrow> BillBlock \<Rightarrow> bool" where
  "links_and_hashes S A op b \<longleftrightarrow>
     linked (bill_ops (svc_bill S)) (svc_ext S) (ac_previous_block A) b \<and> bbl_op_code b = op \<and>
     bbl_timestamp b = ac_timestamp A \<and> bbl_id b = next_from_previous_block_id (bbl_id (ac_previous_block A)) \<and>
     validate_plaintext_hash (svc_bill S) b (get_private_key (svc_ext S) (ac_bill_keys A))"

lemma created_block:
  assumes ctx: "context_ok S A" and rt: "codec_rt C d"
    and new: "encrypt_data_create_block_and_validate (svc_bill S) C (bb_id (ac_bill A)) (ac_previous_block A) d
       (bsk_signatory_keys (ac_signing_keys A)) (bsk_company_keys (ac_signing_keys A))
       (from_private_key (svc_ext S) (get_private_key (svc_ext S) (ac_bill_keys A))) hk (ac_timestamp A) op = Ok b"
  shows "links_and_hashes S A op b" and "get_decrypted_block (svc_bill S) C b (ac_bill_keys A) = Ok d"
    and "map_option bsd_node_id sy = map_option bsd_node_id (bsk_signatory_identity (ac_signing_keys A)) \<Longrightarrow>
         verify_signer (svc_bill S) b (bp_node_id (ac_signer A)) (map_option bsd_node_id sy) (ac_bill_keys A) = Ok True"
proof -
  let ?X = "svc_ext S"
  have bk: "from_private_key ?X (get_private_key ?X (ac_bill_keys A)) = ac_bill_keys A"
    using ctx by (metis context_ok_def keys_wf_def)
  note new = new [unfolded bk]
  have dec: "get_decrypted_block (svc_bill S) C b (ac_bill_keys A) = Ok d"
      "validate_plaintext_hash (svc_bill S) b (get_private_key ?X (ac_bill_keys A))"
    using ctx created_block_decrypts [OF _ _ _ _ rt new] by (auto simp: context_ok_def codecs_rt_def)
  then show "get_decrypted_block (svc_bill S) C b (ac_bill_keys A) = Ok d" by blast
  obtain pth where nb: "bill_block_new (svc_bill S) (bb_id (ac_bill A)) (next_from_previous_block_id (bbl_id (ac_previous_block A)))
      (bbl_hash (ac_previous_block A)) (bbl_data b) op (bsk_signatory_keys (ac_signing_keys A))
      (bsk_company_keys (ac_signing_keys A)) (ac_bill_keys A) (ac_timestamp A) pth = Ok b"
    and l: "linked (bill_ops (svc_bill S)) ?X (ac_previous_block A) b"
    using encrypt_data_steps [OF new] by metis
  with bill_block_new_Ok [OF nb] dec show "links_and_hashes S A op b" by (simp add: links_and_hashes_def)
  show "verify_signer (svc_bill S) b (bp_node_id (ac_signer A)) (map_option bsd_node_id sy) (ac_bill_keys A) = Ok True"
    if "map_option bsd_node_id sy = map_option bsd_node_id (bsk_signatory_identity (ac_signing_keys A))"
    by (rule verify_signer_created [OF _ _ _ _ nb]) (use ctx in \<open>auto simp: that context_ok_def keys_match_def\<close>)
qed

text \<open>The signer and the action that the receiving side reads.\<close>

lemma created_block_signer:
  assumes "signer_from_block E b k = Ok (n, sy, a, ip)"
    and "verify_signer E b n (map_option bsd_node_id sy) k = Ok True"
    and "\<And>p. ip = Some p \<Longrightarrow> \<exists>r. p = identity_proof_block_data r \<and> proof_decodes (env_ext E) (Some r)"
  shows "verify_and_get_signer E b k = Ok (n, a)"
  using assms
  by (fastforce simp: verify_and_get_signer_def proof_decodes_def split: option.splits prod.splits result.splits)

definition carries :: "ServiceEnv \<Rightarrow> ActionContext \<Rightarrow> BillAction \<Rightarrow> BillBlock \<Rightarrow> bool" where
  "carries S A a b \<longleftrightarrow> links_and_hashes S A (action_op_code a) b \<and>
     verify_and_get_signer (svc_bill S) b (ac_bill_keys A) =
       Ok (bp_node_id (ac_signer A), Some (on_chain a (bb_sum (ac_bill A))))"

lemma carriesI:
  assumes new: "encrypt_data_create_block_and_validate (svc_bill S) C (bb_id (ac_bill A)) (ac_previous_block A) d
       (bsk_signatory_keys (ac_signing_keys A)) (bsk_company_keys (ac_signing_keys A))
       (from_private_key (svc_ext S) (get_private_key (svc_ext S) (ac_bill_keys A))) hk (ac_timestamp A) op = Ok b"
    and ctx: "context_ok S A" and rt: "codec_rt C d"
    and op: "op = action_op_code a"
    and reads: "bbl_op_code b = op \<Longrightarrow> get_decrypted_block (svc_bill S) C b (ac_bill_keys A) = Ok d \<Longrightarrow>
       signer_from_block (svc_bill S) b (ac_bill_keys A) =
         Ok (bp_node_id (ac_signer A), sy, Some (on_chain a (bb_sum (ac_bill A))), ip)"
    and sy: "map_option bsd_node_id sy = map_option bsd_node_id (bsk_signatory_identity (ac_signing_keys A))"
    and ip: "\<And>p. ip = Some p \<Longrightarrow> \<exists>r. ac_identity_proof A = Some r \<and> p = identity_proof_block_data r"
  shows "carries S A a b"
proof -
  note facts = created_block [OF ctx rt new]
  then have "signer_from_block (svc_bill S) b (ac_bill_keys A) =
      Ok (bp_node_id (ac_signer A), sy, Some (on_chain a (bb_sum (ac_bill A))), ip)"
    by (intro reads) (auto simp: links_and_hashes_def)
  from created_block_signer [OF this facts(3) [OF sy]] have
    "verify_and_get_signer (svc_bill S) b (ac_bill_keys A) = Ok (bp_node_id (ac_signer A), Some (on_chain a (bb_sum (ac_bill A))))"
    using ip ctx by (fastforce simp: context_ok_def)
  with facts(1) op show ?thesis by (simp add: carries_def)
qed

lemma create_with_Ok:
  "create_with S A create d = Ok b \<longleftrightarrow>
     create (svc_bill S) (bb_id (ac_bill A)) (ac_previous_block A) d
       (bsk_signatory_keys (ac_signing_keys A)) (bsk_company_keys (ac_signing_keys A))
       (from_private_key (svc_ext S) (get_private_key (svc_ext S) (ac_bill_keys A))) (ac_timestamp A) = Ok b"
  by (simp add: create_with_def protocol_chain_def)

lemma signer_data_id [simp]: "bpd_node_id (signer_data A) = bp_node_id (ac_signer A)"
  by (simp add: signer_data_def)

lemma signer_signatory_id [simp]:
  "map_option bsd_node_id (signer_signatory A) = map_option bsd_node_id (bsk_signatory_identity (ac_signing_keys A))"
  by (simp add: signer_signatory_def signatory_for_signer_def option.map_comp comp_def if_distrib cong: if_cong)

lemma signer_proof_Some: "signer_proof A = Some p \<Longrightarrow> \<exists>r. ac_identity_proof A = Some r \<and> p = identity_proof_block_data r"
  by (auto simp: signer_proof_def split: if_splits)

lemma mandatory_proof_Ok: "mandatory_proof A = Ok p \<longleftrightarrow> (\<exists>r. ac_identity_proof A = Some r \<and> p = identity_proof_block_data r)"
  by (auto simp: mandatory_proof_def and_then_eq_Ok split: option.splits)

lemma ident_signer_Ok: "ident_signer A = Ok p \<longleftrightarrow> ac_signer A = P_Ident p"
  by (auto simp: ident_signer_def split: BillParticipant.splits)

lemma bp_node_id_ident [simp]: "bp_node_id (P_Ident p) = bip_node_id p"
  by (simp add: bp_node_id_def)

lemma context_codecs: "context_ok S A \<Longrightarrow> codecs_rt (svc_bill S)"
  by (simp add: context_ok_def)

lemmas arm_simps = Let_def and_then_eq_Ok seq_eq_Ok map_err_eq create_with_Ok mandatory_proof_Ok ident_signer_Ok

lemmas arm_reads = signer_from_block_def on_chain_def action_op_code_def data_ok_def Let_def

lemma carries_accept:
  assumes ctx: "context_ok S A" and new: "action_accept S A = Ok b"
  shows "carries S A A_Accept b"
  using new context_codecs [OF ctx] unfolding action_accept_def create_block_for_accept_def arm_simps
  by - ((elim exE conjE)?, erule carriesI [OF _ ctx], simp add: codecs_rt_def, simp add: action_op_code_def,
      (auto simp: arm_reads)[1], (auto dest: signer_proof_Some)+)

lemma carries_request_acceptance:
  assumes ctx: "context_ok S A" and new: "action_request_acceptance S A t = Ok b"
  shows "carries S A (A_RequestAcceptance t) b"
  using new context_codecs [OF ctx] unfolding action_request_acceptance_def create_block_for_request_to_accept_def arm_simps
  by - ((elim exE conjE)?, erule carriesI [OF _ ctx], simp add: codecs_rt_def, simp add: action_op_code_def,
      (auto simp: arm_reads)[1], (auto dest: signer_proof_Some)+)

lemma carries_request_to_pay:
  assumes ctx: "context_ok S A" and new: "action_request_to_pay S A t m = Ok b"
  shows "carries S A (A_RequestToPay cur t m) b"
  using new context_codecs [OF ctx] unfolding action_request_to_pay_def create_block_for_request_to_pay_def arm_simps
  by - ((elim exE conjE)?, erule carriesI [OF _ ctx], simp add: codecs_rt_def, simp add: action_op_code_def,
      (auto simp: arm_reads)[1], (auto dest: signer_proof_Some)+)

lemma carries_request_recourse:
  assumes ctx: "context_ok S A" and new: "action_request_recourse S A p r t = Ok b"
  shows "carries S A (A_RequestRecourse p r t) b"
proof (cases r)
  case RR_Accept
  show ?thesis
    using new context_codecs [OF ctx]
    unfolding RR_Accept action_request_recourse_def create_block_for_request_recourse_def RecourseReason.case arm_simps case_prod_conv
  by - ((elim exE conjE)?, erule carriesI [OF _ ctx], simp add: codecs_rt_def, simp add: action_op_code_def,
      (auto simp: arm_reads)[1], (auto dest: signer_proof_Some)+)
next
  case (RR_Pay w)
  show ?thesis
    using new context_codecs [OF ctx]
    unfolding RR_Pay action_request_recourse_def create_block_for_request_recourse_def RecourseReason.case arm_simps case_prod_conv
  by - ((elim exE conjE)?, erule carriesI [OF _ ctx], simp add: codecs_rt_def, simp add: action_op_code_def,
      (auto simp: arm_reads)[1], (auto dest: signer_proof_Some)+)
qed

lemma carries_recourse:
  assumes ctx: "context_ok S A" and new: "action_recourse S A p = Ok b"
  shows "carries S A (A_Recourse p) b"
  using new context_codecs [OF ctx] unfolding action_recourse_def create_block_for_recourse_def arm_simps
  by - ((elim exE conjE)?, erule carriesI [OF _ ctx], simp add: codecs_rt_def, simp add: action_op_code_def,
      (auto simp: arm_reads)[1], (auto dest: signer_proof_Some)+)

lemma carries_mint:
  assumes ctx: "context_ok S A" and new: "action_mint S A p v = Ok b"
  shows "carries S A (A_Mint p v) b"
  using new context_codecs [OF ctx] unfolding action_mint_def create_block_for_mint_def arm_simps
  by - ((elim exE conjE)?, erule carriesI [OF _ ctx], simp add: codecs_rt_def, simp add: action_op_code_def,
      (auto simp: arm_reads)[1], (auto dest: signer_proof_Some)+)

lemma carries_offer_to_sell:
  assumes ctx: "context_ok S A" and new: "action_offer_to_sell S A p v t = Ok b"
  shows "carries S A (A_OfferToSell p v t) b"
  using new context_codecs [OF ctx] unfolding action_offer_to_sell_def create_block_for_offer_to_sell_def arm_simps
  by - ((elim exE conjE)?, erule carriesI [OF _ ctx], simp add: codecs_rt_def, simp add: action_op_code_def,
      (auto simp: arm_reads)[1], (auto dest: signer_proof_Some)+)

lemma carries_sell:
  assumes ctx: "context_ok S A" and new: "action_sell S A p = Ok b"
  shows "carries S A (A_Sell p) b"
  using new context_codecs [OF ctx] unfolding action_sell_def create_block_for_sell_def arm_simps
  by - ((elim exE conjE)?, erule carriesI [OF _ ctx], simp add: codecs_rt_def, simp add: action_op_code_def,
      (auto simp: arm_reads)[1], (auto dest: signer_proof_Some)+)

lemma carries_endorse:
  assumes ctx: "context_ok S A" and new: "action_endorse S A p = Ok b"
  shows "carries S A (A_Endorse p) b"
  using new context_codecs [OF ctx] unfolding action_endorse_def create_block_for_endorse_def arm_simps
  by - ((elim exE conjE)?, erule carriesI [OF _ ctx], simp add: codecs_rt_def, simp add: action_op_code_def,
      (auto simp: arm_reads)[1], (auto dest: signer_proof_Some)+)

lemma carries_reject_to_buy:
  assumes ctx: "context_ok S A" and new: "action_reject_to_buy S A = Ok b"
  shows "carries S A A_RejectBuying b"
  using new context_codecs [OF ctx] unfolding action_reject_to_buy_def create_block_for_reject_to_buy_def arm_simps
  by - ((elim exE conjE)?, erule carriesI [OF _ ctx], simp add: codecs_rt_def, simp add: action_op_code_def,
      (auto simp: arm_reads)[1], (auto dest: signer_proof_Some)+)

lemma carries_reject_to_accept:
  assumes ctx: "context_ok S A" and new: "action_reject S A create_block_for_reject_to_accept = Ok b"
  shows "carries S A A_RejectAcceptance b"
  using new context_codecs [OF ctx] unfolding action_reject_def create_block_for_reject_to_accept_def arm_simps
  by - ((elim exE conjE)?, erule carriesI [OF _ ctx], simp add: codecs_rt_def, simp add: action_op_code_def,
      (auto simp: arm_reads)[1], (auto dest: signer_proof_Some)+)

lemma carries_reject_to_pay:
  assumes ctx: "context_ok S A" and new: "action_reject S A create_block_for_reject_to_pay = Ok b"
  shows "carries S A A_RejectPayment b"
  using new context_codecs [OF ctx] unfolding action_reject_def create_block_for_reject_to_pay_def arm_simps
  by - ((elim exE conjE)?, erule carriesI [OF _ ctx], simp add: codecs_rt_def, simp add: action_op_code_def,
      (auto simp: arm_reads)[1], (auto dest: signer_proof_Some)+)

lemma carries_reject_to_pay_recourse:
  assumes ctx: "context_ok S A" and new: "action_reject S A create_block_for_reject_to_pay_recourse = Ok b"
  shows "carries S A A_RejectPaymentForRecourse b"
  using new context_codecs [OF ctx] unfolding action_reject_def create_block_for_reject_to_pay_recourse_def arm_simps
  by - ((elim exE conjE)?, erule carriesI [OF _ ctx], simp add: codecs_rt_def, simp add: action_op_code_def,
      (auto simp: arm_reads)[1], (auto dest: signer_proof_Some)+)

theorem block_for_action_carries:
  assumes "context_ok S A" and "block_for_action S A a = Ok b"
  shows "carries S A a b"
  using assms
  by (cases a) (simp_all add: block_for_action_def carries_accept carries_request_acceptance carries_request_to_pay
      carries_request_recourse carries_recourse carries_mint carries_offer_to_sell carries_sell carries_endorse
      carries_reject_to_buy
      carries_reject_to_accept carries_reject_to_pay carries_reject_to_pay_recourse)

section \<open>The payment address of a request\<close>

text \<open>The receiving side derives the address from the same block id and predecessor, or asks the mint for it.\<close>

lemma address_to_pay_validates:
  assumes "address_to_pay S A op = Ok address" and "mint = None \<or> op \<noteq> RequestToPay"
  shows "validate_payment_address_for_payment_request (svc_proc S) i op
      (next_from_previous_block_id (bbl_id (ac_previous_block A))) (bbl_hash (ac_previous_block A))
      (pub_key (svc_ext S) (ac_bill_keys A)) (x_node_pub_key (svc_ext S) (bp_node_id (ac_signer A)))
      (proc_bitcoin_network (svc_proc S)) address mint = Ok ()"
  using assms
  by (auto simp: address_to_pay_def validate_payment_address_for_payment_request_def crypto_err_def Let_def and_then_eq_Ok)

lemma request_address_validates:
  assumes "request_to_pay_address S A m = Ok address"
    and "holder_is_mint (svc_bill S) (ac_chain A) (ac_bill_keys A) = Ok mint"
  shows "validate_payment_address_for_payment_request (svc_proc S) (bb_id (ac_bill A)) RequestToPay
      (next_from_previous_block_id (bbl_id (ac_previous_block A))) (bbl_hash (ac_previous_block A))
      (pub_key (svc_ext S) (ac_bill_keys A)) (x_node_pub_key (svc_ext S) (bp_node_id (ac_signer A)))
      (proc_bitcoin_network (svc_proc S)) address mint = Ok ()"
proof (cases mint)
  case None
  with assms show ?thesis
    by (auto simp: request_to_pay_address_def protocol_chain_def Let_def intro!: address_to_pay_validates)
next
  case (Some holder)
  with assms show ?thesis
    by (auto simp: request_to_pay_address_def protocol_chain_def validate_payment_address_for_payment_request_def Let_def
        and_then_eq_Ok split: option.splits)
qed

text \<open>So the check of the payment address passes for the block of every action.\<close>

definition address_ok :: "ServiceEnv \<Rightarrow> ActionContext \<Rightarrow> BillParticipant option \<Rightarrow> BillBlock \<Rightarrow> bool" where
  "address_ok S A mint b \<longleftrightarrow>
     validate_block_payment_address (svc_proc S) (bb_id (ac_bill A)) (ac_chain A) (ac_bill_keys A) b
       (bp_node_id (ac_signer A)) mint = Ok ()"

lemma context_latest: "context_ok S A \<Longrightarrow> get_latest_block (ac_chain A) = Ok (ac_previous_block A)"
  by (simp add: context_ok_def get_latest_block_last)

lemma address_okI:
  assumes new: "encrypt_data_create_block_and_validate (svc_bill S) C (bb_id (ac_bill A)) (ac_previous_block A) d
       (bsk_signatory_keys (ac_signing_keys A)) (bsk_company_keys (ac_signing_keys A))
       (from_private_key (svc_ext S) (get_private_key (svc_ext S) (ac_bill_keys A))) hk (ac_timestamp A) op = Ok b"
    and ctx: "context_ok S A" and rt: "codec_rt C d"
    and check: "bbl_op_code b = op \<Longrightarrow> bbl_id b = next_from_previous_block_id (bbl_id (ac_previous_block A)) \<Longrightarrow>
       get_decrypted_block (svc_bill S) C b (ac_bill_keys A) = Ok d \<Longrightarrow> address_ok S A mint b"
  shows "address_ok S A mint b"
  using created_block(1,2) [OF ctx rt new] by (intro check) (auto simp: links_and_hashes_def)

lemma request_to_pay_address_ok:
  assumes ctx: "context_ok S A" and new: "action_request_to_pay S A t m = Ok b"
    and mint: "holder_is_mint (svc_bill S) (ac_chain A) (ac_bill_keys A) = Ok mint"
  shows "address_ok S A mint b"
proof -
  from new obtain address where address: "request_to_pay_address S A m = Ok address"
    by (auto simp: action_request_to_pay_def arm_simps)
  show ?thesis
    using new context_codecs [OF ctx] request_address_validates [OF address mint]
    unfolding action_request_to_pay_def create_block_for_request_to_pay_def arm_simps address
    by - (elim exE conjE, erule address_okI [OF _ ctx], simp add: codecs_rt_def, insert address,
        auto simp: address_ok_def validate_block_payment_address_def chain_err_def Let_def context_latest [OF ctx])
qed

lemma request_recourse_address_ok:
  assumes ctx: "context_ok S A" and new: "action_request_recourse S A p r t = Ok b"
  shows "address_ok S A mint b"
proof -
  obtain v reason where r: "(case r of RR_Accept \<Rightarrow> (bb_sum (ac_bill A), BRR_Accept) | RR_Pay v \<Rightarrow> (v, BRR_Pay)) = (v, reason)"
    by (metis surj_pair)
  from new obtain address where address: "address_to_pay S A RequestRecourse = Ok address"
    by (auto simp: action_request_recourse_def arm_simps)
  show ?thesis
    using new context_codecs [OF ctx] address_to_pay_validates [OF address, of None]
    unfolding action_request_recourse_def create_block_for_request_recourse_def r case_prod_conv arm_simps address
    by - (elim exE conjE, erule address_okI [OF _ ctx], simp add: codecs_rt_def, insert address,
        auto simp: address_ok_def validate_block_payment_address_def chain_err_def Let_def context_latest [OF ctx])
qed

lemma offer_to_sell_address_ok:
  assumes ctx: "context_ok S A" and new: "action_offer_to_sell S A p v t = Ok b"
  shows "address_ok S A mint b"
proof -
  from new obtain address where address: "address_to_pay S A OfferToSell = Ok address"
    by (auto simp: action_offer_to_sell_def arm_simps)
  show ?thesis
    using new context_codecs [OF ctx] address_to_pay_validates [OF address, of None]
    unfolding action_offer_to_sell_def create_block_for_offer_to_sell_def arm_simps address
    by - (elim exE conjE, erule address_okI [OF _ ctx], simp add: codecs_rt_def, insert address,
        auto simp: address_ok_def validate_block_payment_address_def chain_err_def Let_def context_latest [OF ctx])
qed

lemma block_for_action_address_ok:
  assumes ctx: "context_ok S A" and new: "block_for_action S A a = Ok b"
    and mint: "holder_is_mint (svc_bill S) (ac_chain A) (ac_bill_keys A) = Ok mint"
  shows "address_ok S A mint b"
proof (cases "action_op_code a \<in> {RequestToPay, RequestRecourse, OfferToSell}")
  case True
  with new show ?thesis
    by (cases a) (simp_all add: block_for_action_def action_op_code_def request_to_pay_address_ok [OF ctx _ mint]
        request_recourse_address_ok [OF ctx] offer_to_sell_address_ok [OF ctx])
next
  case False
  with block_for_action_carries [OF ctx new] have "bbl_op_code b \<notin> {RequestToPay, RequestRecourse, OfferToSell}"
    by (simp add: carries_def links_and_hashes_def)
  then show ?thesis
    by (cases "bbl_op_code b")
      (simp_all add: address_ok_def validate_block_payment_address_def Let_def context_latest [OF ctx])
qed

section \<open>The processors accept the block\<close>

lemma holder_is_mint_readable:
  assumes inc: "increasing (blocks c)" and p: "get_bill_parties E c k first = Ok parties"
  shows "\<exists>mint. holder_is_mint E c k = Ok mint"
proof (cases "rfind changes_holder (blocks c)")
  case (Some b)
  from p obtain mi where mi: "last_version_holder E c Mint (c_mint E) mnt_endorsee k = Ok mi"
    by (auto simp: get_bill_parties_def and_then_eq_Ok)
  have "\<exists>d. get_decrypted_block E (c_mint E) b k = Ok d" if "bbl_op_code b = Mint"
    using mi rfind_weaken [OF Some, of "\<lambda>b. bbl_op_code b = Mint"] that by (auto simp: last_version_holder_Ok)
  with Some show ?thesis by (auto simp: holder_is_mint_iff [OF inc])
qed (simp add: holder_is_mint_iff [OF inc])

lemma action_op_code_not_issue: "action_op_code a \<noteq> Issue"
  by (simp add: action_op_code_def split: BillAction.splits)

lemma action_block_accepted:
  assumes ctx: "context_ok S A" and new: "block_for_action S A a = Ok b"
    and inc: "increasing (blocks (ac_chain A))"
    and parties: "get_bill_parties (svc_bill S) (ac_chain A) (ac_bill_keys A) first = Ok parties"
    and ids: "unat (bid_inner (bbl_id (ac_previous_block A))) + 1 < 2 ^ 64"
    and valid: "validate_action (svc_bill S) (action_data_for (ac_chain A) parties first (ac_bill_keys A) b
       (bp_node_id (ac_signer A)) paid a) = Ok ()"
  shows "validate_block_for_chain (svc_proc S) (bb_id (ac_bill A)) (ac_chain A) first (ac_bill_keys A) b paid =
           (Ok True, (ac_chain A)\<lparr>blocks := blocks (ac_chain A) @ [b]\<rparr>)"
proof -
  let ?E = "svc_bill S" and ?c = "ac_chain A" and ?k = "ac_bill_keys A"
  note latest = context_latest [OF ctx]
  obtain mint where mint: "holder_is_mint ?E ?c ?k = Ok mint" using holder_is_mint_readable [OF inc parties] by blast
  from block_for_action_carries [OF ctx new]
  have b: "linked (bill_ops ?E) (svc_ext S) (ac_previous_block A) b" "bbl_op_code b = action_op_code a"
    "bbl_id b = next_from_previous_block_id (bbl_id (ac_previous_block A))"
    "validate_plaintext_hash ?E b (get_private_key (svc_ext S) ?k)"
    and signer: "verify_and_get_signer ?E b ?k = Ok (bp_node_id (ac_signer A), Some (on_chain a (bb_sum (ac_bill A))))"
    by (auto simp: carries_def links_and_hashes_def)
  have "bbl_id (ac_previous_block A) < bbl_id b"
    using ids unfolding block_id_order_unat b(3) next_from_previous_block_id_def
    by (simp add: unat_word_ariths)
  then have before: "validate_block_before_add (svc_proc S) (bb_id (ac_bill A)) ?c ?k b = Ok (Some mint)"
    using b mint action_op_code_not_issue [of a]
    by (auto simp: validate_block_before_add_def Let_def chain_err_def latest)
  let ?d = "action_data_for ?c parties first ?k b (bp_node_id (ac_signer A)) paid"
  have data: "?d x = (?d a)\<lparr>bva_mode := Deep x\<rparr>" for x by (simp add: action_data_for_def)
  have "validate_action ?E (?d (on_chain a v)) = validate_action ?E (?d a)" for v
    by (metis data validate_action_on_chain)
  then have "validate_action ?E (?d (on_chain a (bb_sum (ac_bill A)))) = Ok ()" using valid by simp
  then have after: "validate_block_after_add (svc_proc S) (bb_id (ac_bill A)) ?c first ?k b paid mint = Ok True"
    using block_for_action_address_ok [OF ctx new mint] parties
    by (simp add: validate_block_after_add_def Let_def chain_err_def signer address_ok_def)
  have "try_add_block (bill_ops ?E) (svc_ext S) ?c b = Ok (True, ?c\<lparr>blocks := blocks ?c @ [b]\<rparr>)"
    using ctx b(1) by (auto simp: try_add_block_iff context_ok_def)
  with before after show ?thesis by (simp add: validate_block_for_chain_def Let_def)
qed

section \<open>Reading steps of the service\<close>

lemma store_call_Ok [act_simps]:
  "store_call S c m s = (Ok a, t) \<longleftrightarrow> svc_store_fails S c = None \<and> m s = (Ok a, t)"
  by (auto simp: store_call_def split: option.splits)

lemma get_full_Ok:
  "get_full S s = (Ok f, t) \<longleftrightarrow>
     svc_store_fails S Call_Identity = None \<and> svc_store_fails S Call_Key_Pair = None \<and>
     ss_identity s = Some (iwa_identity f) \<and> ss_key_pair s = Some (iwa_key_pair f) \<and> t = s"
  by (cases f) (auto simp: get_full_def act_simps)

lemma get_keys_Ok: "get_keys S i s = (Ok k, t) \<longleftrightarrow>
    svc_store_fails S Call_Bill_Keys = None \<and> map_of (ss_bill_keys s) i = Some k \<and> t = s"
  by (auto simp: get_keys_def act_simps)

lemma get_contacts_Ok: "get_contacts S s = (Ok cs, t) \<longleftrightarrow>
    svc_store_fails S Call_Contacts = None \<and> cs = ss_contacts s \<and> t = s"
  by (auto simp: get_contacts_def act_simps)

lemma is_paid_state: "is_paid S i s = (Ok p, t) \<Longrightarrow> t = s"
  by (auto simp: is_paid_def act_simps)

lemma bill_chain_get_Ok: "bill_chain_get S i s = (Ok c, t) \<longleftrightarrow>
    bill_store_get_chain (svc_bill S) (svc_bill_db S) (ss_bill_chain s) i = Ok c \<and> t = s"
  by (auto simp: bill_chain_get_def)

text \<open>The version of the bill that the service computes has the parties that the processors read.\<close>

lemma extended_ids [simp]:
  "bip_node_id (extend_identity_data S s d identity contacts) = bipd_node_id d"
  "bp_node_id (extend_participant_data S s p identity contacts) = bpd_node_id p"
  "map_option bp_node_id (map_option (\<lambda>e. extend_participant_data S s e identity contacts) x) = map_option bpd_node_id x"
proof -
  show ident: "bip_node_id (extend_identity_data S s d identity contacts) = bipd_node_id d" for d
    by (simp add: extend_identity_data_def split: prod.splits)
  show party: "bp_node_id (extend_participant_data S s p identity contacts) = bpd_node_id p" for p
    by (cases p) (simp_all add: extend_participant_data_def ident bp_node_id_def bpd_node_id_def)
  show "map_option bp_node_id (map_option (\<lambda>e. extend_participant_data S s e identity contacts) x) = map_option bpd_node_id x"
    by (cases x) (simp_all add: party)
qed

lemma last_version_of_bill:
  assumes "get_last_version_bill S c k identity contacts s = (Ok bill, t)"
    and "get_first_version_bill (svc_bill S) c k = Ok first"
  shows "t = s \<and> (\<exists>parties. get_bill_parties (svc_bill S) c k first = Ok parties \<and> bb_id bill = iss_id first \<and>
     bb_maturity_date bill = iss_maturity_date first \<and>
     bip_node_id (bb_drawee bill) = bipd_node_id (bps_drawee parties) \<and>
     bp_node_id (bb_payee bill) = bpd_node_id (bps_payee parties) \<and>
     map_option bp_node_id (bb_endorsee bill) = map_option bpd_node_id (bps_endorsee parties))"
  using assms by (auto simp: get_last_version_bill_def Let_def and_then_eq_Ok protocol_chain_def)

section \<open>What later steps leave alone\<close>

text \<open>A successful addition appends the row of the block; nothing after it writes to the table of bill blocks.\<close>

lemma bill_chain_add_Ok:
  assumes "bill_chain_add S i b s = (Ok (), t)"
  shows "t = s\<lparr>ss_bill_chain := ss_bill_chain s @ [bill_block_to_db (svc_ext S) b]\<rparr>"
proof -
  have row: "transaction_row x = bill_block_to_db (svc_ext S) b"
    if "store_prepare (bill_table E) X D rows i b = Ok x" and "env_ext E = svc_ext S" for E X D rows x
    using that by (auto simp: store_prepare_def transaction_row_def bill_table_def Let_def
        split: result.splits bool.splits PersistenceError.splits if_splits)
  from assms show ?thesis
    by (auto simp: bill_chain_add_def bill_store_add_block_def store_add_block_def store_commit_def row
        split: result.splits prod.splits if_splits)
qed

abbreviation bill_rows_are :: "BillBlockDb list \<Rightarrow> ServiceState \<Rightarrow> bool" where
  "bill_rows_are rows s \<equiv> ss_bill_chain s = rows"

lemma keeps_rows: "(\<And>rows. keeps (bill_rows_are rows) m) \<Longrightarrow> m s = (r, t) \<Longrightarrow> ss_bill_chain t = ss_bill_chain s"
  by (rule keepsD [of "bill_rows_are (ss_bill_chain s)" m s r t]) simp_all

lemma keeps_transport [intro]: "keeps (bill_rows_are rows) (transport_call S m)"
  by (auto simp: keeps_def transport_call_def split: prod.splits)

lemma keeps_store_call [intro]: "keeps I m \<Longrightarrow> keeps I (store_call S c m)"
  by (auto simp: keeps_def store_call_def split: option.splits)

lemma keeps_chains [intro]:
  "keeps (bill_rows_are rows) (identity_chain_get S)" "keeps (bill_rows_are rows) (identity_chain_add S ib)"
  "keeps (bill_rows_are rows) (company_chain_get S n)" "keeps (bill_rows_are rows) (company_chain_add S n cb)"
  "keeps (bill_rows_are rows) (company_get S n)"
  by (auto simp: keeps_def identity_chain_get_def identity_chain_add_def company_chain_get_def company_chain_add_def
      company_get_def store_call_def split: prod.splits option.splits)

lemma keeps_recording [intro]:
  "keeps (bill_rows_are rows) (add_identity_and_company_chain_blocks_for_signed_bill_action S p i b f k ts bk)"
proof -
  have add: "keeps (bill_rows_are rows) (case p of (added, c) \<Rightarrow>
      bind_act (lift (f added c)) (\<lambda>valid. if valid then then_act m (ret c) else lift e))"
    if "keeps (bill_rows_are rows) m" for p :: "bool \<times> 'c" and f m e
    by (cases p) (auto intro!: that keeps_bind keeps_then)
  have valid: "keeps (bill_rows_are rows) (validate_and_add_identity_block S c ib)"
    "keeps (bill_rows_are rows) (validate_and_add_company_block S n cc cb)" for c ib n cc cb
    unfolding validate_and_add_identity_block_def validate_and_add_company_block_def Let_def
    by (intro keeps_bind keeps_pure add keeps_chains)+
  have identity: "keeps (bill_rows_are rows) (record_on_identity_chain S op create f)" for op create
    unfolding record_on_identity_chain_def
    by (intro keeps_bind keeps_then keeps_pure keeps_chains valid keeps_transport)
  have company: "keeps (bill_rows_are rows) (add_block_to_company_chain_for_signed_bill_action S n i b f ck ts bk)" for n ck
    unfolding add_block_to_company_chain_for_signed_bill_action_def Let_def
    by (intro keeps_bind keeps_then keeps_pure keeps_chains valid keeps_transport)
  show ?thesis
    unfolding add_identity_and_company_chain_blocks_for_signed_bill_action_def
      add_block_to_identity_chain_for_signed_bill_action_def add_block_to_identity_chain_for_signed_company_bill_action_def
    by (auto split: BillParticipant.splits ContactType.splits intro!: keeps_then identity company)
qed

lemma keeps_notify [intro]: "keeps (bill_rows_are rows) (notify_for_block_action S c k a f cs n)"
  unfolding notify_for_block_action_def
  by (intro keeps_bind keeps_pure keeps_transport) (simp add: keeps_def get_last_version_bill_def Let_def)

section \<open>The whole action\<close>

text \<open>The signer acts with its own keys, and a company with those of the identity that acts for it.\<close>

definition acts_with_own_keys :: "ServiceEnv \<Rightarrow> ServiceState \<Rightarrow> BillParticipant \<Rightarrow> BcrKeys \<Rightarrow> bool" where
  "acts_with_own_keys S s signer keys \<longleftrightarrow>
     (let X = svc_ext S in
      keys_wf X keys \<and> x_node_pub_key X (bp_node_id signer) = pub_key X keys \<and>
      (\<forall>identity key_pair. ss_identity s = Some identity \<longrightarrow> ss_key_pair s = Some key_pair \<longrightarrow>
         keys_wf X key_pair \<and> x_node_pub_key X (ident_node_id identity) = pub_key X key_pair))"

definition stored_proofs_decode :: "ServiceEnv \<Rightarrow> ServiceState \<Rightarrow> bool" where
  "stored_proofs_decode S s \<longleftrightarrow>
     (\<forall>r \<in> snd ` (set (ss_identity_confirmations s) \<union> set (ss_company_confirmations s)). proof_decodes (svc_ext S) (Some r))"

lemma signing_keys_match:
  assumes "acts_with_own_keys S s signer keys" and "get_bill_signing_keys signer keys f = Ok sk"
    and "ss_identity s = Some (iwa_identity f)" "ss_key_pair s = Some (iwa_key_pair f)"
  shows "keys_match (svc_ext S) sk (bp_node_id signer)"
  using assms
  by (auto simp: acts_with_own_keys_def get_bill_signing_keys_def keys_match_def Let_def
      split: BillParticipant.splits ContactType.splits if_splits)

lemma signer_proof_decodes:
  assumes "stored_proofs_decode S s" and "get_signer_identity_proof S signer f w s = (Ok r, t)"
  shows "t = s \<and> proof_decodes (svc_ext S) r"
proof -
  have found: "x \<in> set xs" if "find P xs = Some x" for P and x :: "SignedIdentityProof \<times> EmailIdentityProofData" and xs
    using that by (auto simp: find_Some_iff)
  have "t = s \<and> (\<forall>x. r = Some x \<longrightarrow> x \<in> snd ` (set (ss_identity_confirmations s) \<union> set (ss_company_confirmations s)))"
  proof (cases signer)
    case (P_Ident p)
    with assms(2) show ?thesis
      by (cases "bip_t p") (auto simp: get_signer_identity_proof_def act_simps dest!: found)
  qed (use assms(2) in \<open>auto simp: get_signer_identity_proof_def act_simps\<close>)
  then have t: "t = s"
    and member: "\<And>x. r = Some x \<Longrightarrow> x \<in> snd ` (set (ss_identity_confirmations s) \<union> set (ss_company_confirmations s))"
    by blast+
  have "proof_decodes (svc_ext S) r"
  proof (cases r)
    case None
    then show ?thesis by (simp add: proof_decodes_def)
  next
    case (Some x)
    from bspec [OF assms(1) [unfolded stored_proofs_decode_def] member [OF Some]] show ?thesis unfolding Some .
  qed
  with t show ?thesis by simp
qed

lemma create_blocks_Ok:
  assumes "create_blocks_for_bill_action S bill c k a signer keys f ts s = (Ok c', s')"
    and "stored_proofs_decode S s"
  obtains sk r b where "get_bill_signing_keys signer keys f = Ok sk" "proof_decodes (svc_ext S) r"
    "block_for_action S \<lparr>ac_bill = bill, ac_chain = c, ac_bill_keys = k, ac_signer = signer, ac_signing_keys = sk,
       ac_identity_proof = r, ac_previous_block = last (blocks c), ac_timestamp = ts\<rparr> a = Ok b"
    "c' = c\<lparr>blocks := blocks c @ [b]\<rparr>"
    "ss_bill_chain s' = ss_bill_chain s @ [bill_block_to_db (svc_ext S) b]"
proof -
  from assms(1) obtain sk r b prev s1 s2 s3 where sk: "get_bill_signing_keys signer keys f = Ok sk"
    and prev: "get_latest_block c = (Ok prev :: (_, ServiceError) result)"
    and r: "get_signer_identity_proof S signer f (svc_mint_node_id S) s = (Ok r, s1)"
    and b: "block_for_action S \<lparr>ac_bill = bill, ac_chain = c, ac_bill_keys = k, ac_signer = signer, ac_signing_keys = sk,
       ac_identity_proof = r, ac_previous_block = prev, ac_timestamp = ts\<rparr> a = Ok b"
    and add: "validate_and_add_block S (bb_id bill) c b s1 = (Ok c', s2)"
    and note': "(case local_notification a of
         Some event_type \<Rightarrow> transport_call S (call (svc_transport S)
           (Local_Notification (bp_node_id signer) (bb_id bill) event_type (Some CheckBill) (Some (bb_sum bill))))
       | None \<Rightarrow> ret ()) s2 = (Ok (), s3)"
    and rec: "add_identity_and_company_chain_blocks_for_signed_bill_action S signer (bb_id bill) b f keys ts None s3 = (Ok (), s')"
    by (auto simp: create_blocks_for_bill_action_def act_simps)
  from signer_proof_decodes [OF assms(2) r] have s1: "s1 = s" "proof_decodes (svc_ext S) r" by simp_all
  from add have c': "c' = c\<lparr>blocks := blocks c @ [b]\<rparr>"
    and s2: "s2 = s\<lparr>ss_bill_chain := ss_bill_chain s @ [bill_block_to_db (svc_ext S) b]\<rparr>"
    by (auto simp: validate_and_add_block_def Let_def act_simps s1 try_add_block_iff dest!: bill_chain_add_Ok
        split: if_splits)
  have "ss_bill_chain s3 = ss_bill_chain s2"
  proof (cases "local_notification a")
    case (Some event_type)
    with note' show ?thesis by (auto intro: keeps_rows [OF keeps_transport])
  qed (use note' in \<open>simp add: act_simps\<close>)
  moreover have "ss_bill_chain s' = ss_bill_chain s3" by (rule keeps_rows [OF keeps_recording rec])
  ultimately show ?thesis
    using that [OF sk s1(2) _ c'] b s2 prev by (simp add: get_latest_block_last)
qed

theorem executed_action_accepted:
  assumes laws: "secp_laws (svc_ext S)" "ecies_law (svc_ext S)" "codecs_rt (svc_bill S)"
    and stored: "bill_store_get_chain (svc_bill S) (svc_bill_db S) (ss_bill_chain s) i = Ok c"
    and reach: "bill_reachable (svc_proc S) first k c"
    and keys: "map_of (ss_bill_keys s) i = Some k" "keys_wf (svc_ext S) k"
    and signer: "acts_with_own_keys S s signer sk" "stored_proofs_decode S s"
    and ids: "unat (bid_inner (bbl_id (last (blocks c)))) + 1 < 2 ^ 64"
    and run: "execute_bill_action S i a signer sk ts s = (Ok c', s')"
  shows "\<exists>b. validate_block_for_chain (svc_proc S) (iss_id first) c first k b False = (Ok True, c') \<and>
     bbl_op_code b = action_op_code a \<and> bbl_timestamp b = ts \<and>
     verify_and_get_signer (svc_bill S) b k = Ok (bp_node_id signer, Some (on_chain a (iss_sum first))) \<and>
     ss_bill_chain s' = ss_bill_chain s @ [bill_block_to_db (svc_ext S) b]"
proof -
  from run obtain f bill paid s1 s2 where f: "ss_identity s = Some (iwa_identity f)" "ss_key_pair s = Some (iwa_key_pair f)"
    and bill: "get_last_version_bill S c k (iwa_identity f) (ss_contacts s) s = (Ok bill, s)"
    and valid: "validate_action (svc_bill S)
       \<lparr>bva_blockchain = c, bva_drawee_node_id = bip_node_id (bb_drawee bill), bva_payee_node_id = bp_node_id (bb_payee bill),
        bva_endorsee_node_id = map_option bp_node_id (bb_endorsee bill), bva_maturity_date = bb_maturity_date bill,
        bva_bill_keys = k, bva_timestamp = ts, bva_signer_node_id = bp_node_id signer, bva_is_paid = paid,
        bva_mode = Deep a\<rparr> = Ok ()"
    and create: "create_blocks_for_bill_action S bill c k a signer sk f ts s = (Ok c', s1)"
    and notify: "notify_for_block_action S c' k a (iwa_identity f) (ss_contacts s) (bp_node_id signer) s1 = (Ok (), s')"
    using stored keys(1)
    by (auto simp: execute_bill_action_def act_simps get_full_Ok get_contacts_Ok get_keys_Ok bill_chain_get_Ok
        get_last_version_bill_def [of S c] Let_def dest!: is_paid_state)
  note ok = reachable_ok [OF reach]
  from last_version_of_bill [OF bill ok(3)] obtain parties where
    p: "get_bill_parties (svc_bill S) c k first = Ok parties" "bb_id bill = iss_id first"
      "bb_maturity_date bill = iss_maturity_date first" "bip_node_id (bb_drawee bill) = bipd_node_id (bps_drawee parties)"
      "bp_node_id (bb_payee bill) = bpd_node_id (bps_payee parties)"
      "map_option bp_node_id (bb_endorsee bill) = map_option bpd_node_id (bps_endorsee parties)" by blast
  have sum: "bb_sum bill = iss_sum first"
    using bill ok(3) by (auto simp: get_last_version_bill_def Let_def and_then_eq_Ok protocol_chain_def)
  obtain sks r b where sks: "get_bill_signing_keys signer sk f = Ok sks" and r: "proof_decodes (svc_ext S) r"
    and b: "block_for_action S \<lparr>ac_bill = bill, ac_chain = c, ac_bill_keys = k, ac_signer = signer, ac_signing_keys = sks,
       ac_identity_proof = r, ac_previous_block = last (blocks c), ac_timestamp = ts\<rparr> a = Ok b"
    and c': "c' = c\<lparr>blocks := blocks c @ [b]\<rparr>"
    and rows: "ss_bill_chain s1 = ss_bill_chain s @ [bill_block_to_db (svc_ext S) b]"
    by (rule create_blocks_Ok [OF create signer(2)])
  define A where "A = \<lparr>ac_bill = bill, ac_chain = c, ac_bill_keys = k, ac_signer = signer, ac_signing_keys = sks,
       ac_identity_proof = r, ac_previous_block = last (blocks c), ac_timestamp = ts\<rparr>"
  have "blocks c \<noteq> []" using ok(1) by (auto simp: bill_chain_ok_def)
  then have ctx: "context_ok S A"
    using laws keys(2) r signing_keys_match [OF signer(1) sks f] by (simp add: context_ok_def A_def)
  from b have new: "block_for_action S A a = Ok b" by (simp add: A_def)
  from block_for_action_carries [OF ctx new] have facts: "bbl_op_code b = action_op_code a" "bbl_timestamp b = ts"
    "verify_and_get_signer (svc_bill S) b k = Ok (bp_node_id signer, Some (on_chain a (iss_sum first)))"
    by (simp_all add: carries_def links_and_hashes_def A_def sum)
  have "paid = False" using validate_action_not_paid [OF valid] by simp
  with valid p facts(2) have "validate_action (svc_bill S) (action_data_for c parties first k b (bp_node_id signer) False a) = Ok ()"
    by (simp add: action_data_for_def)
  note valid' = this
  have A: "ac_chain A = c" "ac_bill A = bill" "ac_bill_keys A = k" "ac_signer A = signer"
    "ac_previous_block A = last (blocks c)" by (simp_all add: A_def)
  have "validate_block_for_chain (svc_proc S) (iss_id first) c first k b False = (Ok True, c')"
    using action_block_accepted [OF ctx new, unfolded A, OF ok(2) p(1) ids valid'] unfolding c' p(2) .
  moreover have "ss_bill_chain s' = ss_bill_chain s1" by (rule keeps_rows [OF keeps_notify notify])
  ultimately show ?thesis using facts rows by (intro exI [of _ b]) simp
qed

section \<open>Other nodes\<close>

text \<open>
  A node that runs the same protocol: the same encodings, cryptography and network, and the same answers of the mint. The
  texts of errors may differ.
\<close>

definition same_protocol :: "ProcEnv \<Rightarrow> ProcEnv \<Rightarrow> bool" where
  "same_protocol P R \<longleftrightarrow>
     proc_bill R = proc_bill P \<and> proc_bitcoin_network R = proc_bitcoin_network P \<and>
     proc_validate_mint_address R (proc_mint_url R) = proc_validate_mint_address P (proc_mint_url P)"

lemma same_protocol_address:
  assumes "same_protocol P R"
    and "validate_payment_address_for_payment_request P i op bid h bk ck net a mint = Ok ()"
  shows "validate_payment_address_for_payment_request R i op bid h bk ck net a mint = Ok ()"
  using assms by (auto simp: same_protocol_def validate_payment_address_for_payment_request_def Let_def crypto_err_def
      and_then_eq_Ok map_err_eq seq_eq_Ok split: if_splits)

lemma same_protocol_block_address:
  assumes "same_protocol P R" and "validate_block_payment_address P i c k b signer mint = Ok ()"
  shows "validate_block_payment_address R i c k b signer mint = Ok ()"
proof -
  have E: "proc_bill R = proc_bill P" "proc_bitcoin_network R = proc_bitcoin_network P"
    using assms(1) by (simp_all add: same_protocol_def)
  show ?thesis
  proof (cases "bbl_op_code b \<in> {RequestToPay, OfferToSell, RequestRecourse}")
    case True
    then show ?thesis using assms(2)
      by (auto simp: validate_block_payment_address_def Let_def E chain_err_def and_then_eq_Ok map_err_eq get_latest_block_def
          ok_or_def split: option.splits intro!: same_protocol_address [OF assms(1)])
  next
    case False
    then show ?thesis using assms(2)
      by (cases "bbl_op_code b") (auto simp: validate_block_payment_address_def Let_def get_latest_block_def and_then_eq_Ok ok_or_def)
  qed
qed

lemma same_protocol_accepts:
  assumes same: "same_protocol P R" and val: "validate_block_for_chain P i c first k b paid = (Ok True, c')"
  shows "validate_block_for_chain R i c first k b paid = (Ok True, c')"
proof -
  from val obtain mint where before: "validate_block_before_add P i c k b = Ok (Some mint)"
    and add: "try_add_block (bill_ops (proc_bill P)) (env_ext (proc_bill P)) c b = Ok (True, c')"
    and after: "validate_block_after_add P i c first k b paid mint = Ok True"
    by (auto simp: validate_block_for_chain_def Let_def split: result.splits option.splits prod.splits bool.splits)
  have E: "proc_bill R = proc_bill P" using same by (simp add: same_protocol_def)
  from before have "validate_block_before_add R i c k b = Ok (Some mint)"
    by (auto simp: validate_block_before_add_def Let_def E chain_err_def and_then_eq_Ok map_err_eq seq_eq_Ok
        get_latest_block_def split: option.splits if_splits)
  moreover from after have "validate_block_after_add R i c first k b paid mint = Ok True"
    by (auto simp: validate_block_after_add_def Let_def E chain_err_def and_then_eq_Ok map_err_eq seq_eq_Ok
        dest: same_protocol_block_address [OF same])
  ultimately show ?thesis using add by (simp add: validate_block_for_chain_def Let_def E)
qed

text \<open>A node that knows the bill as paid refuses a block that others accept.\<close>

lemma paid_bill_refuses:
  assumes "validate_block_for_chain P i c first k b paid = (Ok True, c')"
  shows "validate_block_for_chain P i c first k b True = (Err (T_Blockchain (proc_validation_text P BillAlreadyPaid)), c')"
proof -
  from assms obtain mint where *: "validate_block_before_add P i c k b = Ok (Some mint)"
    "try_add_block (bill_ops (proc_bill P)) (env_ext (proc_bill P)) c b = Ok (True, c')"
    and after: "validate_block_after_add P i c first k b paid mint = Ok True"
    by (auto simp: validate_block_for_chain_def Let_def split: result.splits option.splits prod.splits bool.splits)
  from after have "validate_block_after_add P i c first k b True mint = Err (T_Blockchain (proc_validation_text P BillAlreadyPaid))"
    by (auto simp: validate_block_after_add_def Let_def and_then_eq_Ok seq_eq_Ok validate_action_paid action_data_for_def seq_def)
  with * show ?thesis by (simp add: validate_block_for_chain_def Let_def)
qed

end
