(* ===== verification/Chain_Store_Props.thy ===== *)
theory Chain_Store_Props
  imports Chain_Store
begin

text \<open>
  What the chain stores promise. The locale \<open>chain_table\<close> states how the rows of a table relate to
  blocks; inside it the statements are shown to keep every stored chain valid, in every interleaving of
  writers that read, decide and commit. It is interpreted for the bill, company and identity tables.
\<close>

section \<open>Stored chains and concurrent writers\<close>

text \<open>The blocks of a key are numbered from one, linked, and carry correct hashes.\<close>

definition stored_chain ::
  "('id, 'b, 'op, 'd, 'r) ChainTable \<Rightarrow> Ext \<Rightarrow> 'r list \<Rightarrow> 'id \<Rightarrow> 'b list \<Rightarrow> bool" where
  "stored_chain T X t i bs \<longleftrightarrow>
     rows_of T t i = map (ct_row T) bs \<and> successively (linked (ct_ops T) X) bs \<and>
     (\<forall>k < length bs. block_number (blk_id (ct_ops T) (bs ! k)) = Suc k) \<and>
     (bs \<noteq> [] \<longrightarrow> blk_verify (ct_ops T) X (hd bs) = Ok True) \<and>
     (\<forall>b \<in> set bs. validate_hash (ct_ops T) X b = Ok True)"

definition store_ok :: "('id, 'b, 'op, 'd, 'r) ChainTable \<Rightarrow> Ext \<Rightarrow> 'b set \<Rightarrow> 'r list \<Rightarrow> bool" where
  "store_ok T X S t \<longleftrightarrow> (\<forall>i. \<exists>bs. set bs \<subseteq> S \<and> stored_chain T X t i bs)"

text \<open>What a writer knows when it commits.\<close>

definition pending_ok :: "('id, 'b, 'op, 'd, 'r) ChainTable \<Rightarrow> Ext \<Rightarrow> 'b set \<Rightarrow> 'r Transaction \<Rightarrow> bool" where
  "pending_ok T X S x \<longleftrightarrow>
     (case x of
        Create_First r \<Rightarrow> \<exists>b \<in> S. r = ct_row T b \<and> blk_verify (ct_ops T) X b = Ok True \<and>
          validate_hash (ct_ops T) X b = Ok True
      | Create_Next r \<Rightarrow> \<exists>p \<in> S. \<exists>b \<in> S. r = ct_row T b \<and> linked (ct_ops T) X p b \<and>
          validate_hash (ct_ops T) X p = Ok True)"

text \<open>No two different blocks of \<open>S\<close> have the same hash.\<close>

definition no_collisions :: "('b, 'op, 'd) BlockOps \<Rightarrow> Ext \<Rightarrow> 'b set \<Rightarrow> bool" where
  "no_collisions Bl X S \<longleftrightarrow>
     (\<forall>b \<in> S. \<forall>b' \<in> S.
        calculate_hash X (blk_hash_codec Bl) (blk_data_to_hash Bl b) =
        calculate_hash X (blk_hash_codec Bl) (blk_data_to_hash Bl b') \<longrightarrow>
        blk_data_to_hash Bl b = blk_data_to_hash Bl b')"

text \<open>
  Writers work on one table: each reads and decides, later commits; blocks may be removed at any time.
  \<open>S\<close> is the set of blocks that are submitted; every statement may fail in its own way.
\<close>

inductive store_reachable ::
  "('id, 'b, 'op, 'd, 'r) ChainTable \<Rightarrow> Ext \<Rightarrow> 'b set \<Rightarrow> 'r list \<Rightarrow> 'r Transaction list \<Rightarrow> bool"
  for T :: "('id, 'b, 'op, 'd, 'r) ChainTable" and X :: Ext and S :: "'b set" where
  store_empty: "store_reachable T X S [] []"
| store_decide: "store_reachable T X S t xs \<Longrightarrow> b \<in> S \<Longrightarrow> store_prepare T X D t i b = Ok x \<Longrightarrow>
     store_reachable T X S t (x # xs)"
| store_commits: "store_reachable T X S t xs \<Longrightarrow> x \<in> set xs \<Longrightarrow> store_commit T D t x = (r, t') \<Longrightarrow>
     store_reachable T X S t' (remove1 x xs)"
| store_removes_blocks: "store_reachable T X S t xs \<Longrightarrow>
     store_remove_blocks_from_height T D t i h = (r, t') \<Longrightarrow> store_reachable T X S t' xs"
| store_removes: "store_reachable T X S t xs \<Longrightarrow> store_remove T D t i = (r, t') \<Longrightarrow> store_reachable T X S t' xs"

section \<open>What a table of blocks promises\<close>

lemma db_query_eq: "db_query D s a = Ok a' \<longleftrightarrow> db_fails D s = None \<and> a' = a"
  by (auto simp: db_query_def split: option.splits)

lemma db_query_cases [case_names fails works]:
  obtains e where "db_query D s a = Err e" "db_fails D s \<noteq> None" | "db_query D s a = Ok a" "db_fails D s = None"
  by (cases "db_fails D s") (auto simp: db_query_def)

lemma rows_of_filter: "rows_of T (filter p t) i = filter p (rows_of T t i)"
  unfolding rows_of_def by (simp add: conj_commute)

lemma rows_of_other: "(\<And>r. ct_key T r = i \<Longrightarrow> p r) \<Longrightarrow> filter p (rows_of T t i) = rows_of T t i"
    "(\<And>r. ct_key T r = i \<Longrightarrow> \<not> p r) \<Longrightarrow> filter p (rows_of T t i) = []"
  unfolding rows_of_def by (auto simp del: filter_filter intro!: filter_True)

lemma successively_filter_prefix:
  assumes "successively P xs" and "\<And>k. k < length xs \<Longrightarrow> Q (xs ! k) \<longleftrightarrow> k < n"
  shows "filter Q xs = take n xs" and "successively P (filter Q xs)"
proof -
  have "filter Q (take n xs) = take n xs"
    by (rule filter_True) (use assms(2) in \<open>auto simp: in_set_conv_nth\<close>)
  moreover have "filter Q (drop n xs) = []"
    by (rule filter_False) (use assms(2) in \<open>auto simp: in_set_conv_nth\<close>)
  ultimately show take: "filter Q xs = take n xs"
    by (metis append_Nil2 append_take_drop_id filter_append)
  have "successively P (take n xs @ drop n xs)" using assms(1) by simp
  then show "successively P (filter Q xs)" unfolding take successively_append_iff by blast
qed

locale chain_table = block_contract "ct_ops T" for T :: "('id, 'b, 'op, 'd, 'r) ChainTable" +
  fixes X :: Ext
  assumes row_fields: "ct_block_id T (ct_row T b) = blk_id (ct_ops T) b" "ct_hash T (ct_row T b) = blk_hash (ct_ops T) b"
      "ct_previous_hash T (ct_row T b) = blk_previous_hash (ct_ops T) b"
    and row_round_trip: "secp_laws X \<Longrightarrow> ct_block T (ct_row T b) = Ok b"
    and new_chain: "ct_new_from_blocks T bs = Ok c \<longleftrightarrow>
      c = \<lparr>blocks = bs\<rparr> \<and> bs \<noteq> [] \<and> successively (linked (ct_ops T) X) bs \<and>
      blk_verify (ct_ops T) X (hd bs) = Ok True \<and> validate_hash (ct_ops T) X (hd bs) = Ok True"
begin

lemma select_stored:
  assumes "stored_chain T X t i bs"
  shows "select_chain T t i = map (ct_row T) bs" "select_latest T t i = map_option (ct_row T) (last_opt bs)"
proof -
  let ?f = "\<lambda>r. block_number (ct_block_id T r)"
  have "map ?f (map (ct_row T) bs) = map Suc [0 ..< length bs]"
    using assms by (intro nth_equalityI) (auto simp: stored_chain_def row_fields)
  then have "sorted (map ?f (map (ct_row T) bs))" by (simp add: sorted_map sorted_wrt_map)
  then have "sort_key ?f (map (ct_row T) bs) = map (ct_row T) bs"
    by (simp add: sort_key_id_if_sorted)
  then show "select_chain T t i = map (ct_row T) bs"
    using assms by (simp add: select_chain_def stored_chain_def)
  then show "select_latest T t i = map_option (ct_row T) (last_opt bs)"
    by (simp add: select_latest_def last_opt_def last_map)
qed

lemma get_chain_stored:
  assumes "secp_laws X" "stored_chain T X t i bs" "bs \<noteq> []" "db_fails D Select_Chain = None"
  shows "store_get_chain T D t i = Ok \<lparr>blocks = bs\<rparr>"
proof -
  have rows: "try_map (ct_block T) (map (ct_row T) bs) = Ok bs"
    using row_round_trip [OF assms(1)] by (auto simp: try_map_Ok list_all2_conv_all_nth)
  have "ct_new_from_blocks T bs = Ok \<lparr>blocks = bs\<rparr>"
    using assms(2,3) unfolding new_chain stored_chain_def by (cases bs) auto
  then show ?thesis
    by (simp add: store_get_chain_def db_query_def assms(4) select_stored [OF assms(2)] rows)
qed

lemma prepare_pending:
  assumes laws: "secp_laws X" and ok: "store_ok T X S t" and b: "b \<in> S"
    and prep: "store_prepare T X D t i b = Ok x"
  shows "pending_ok T X S x"
proof -
  obtain bs where bs: "set bs \<subseteq> S" "stored_chain T X t i bs" using ok unfolding store_ok_def by blast
  show ?thesis
  proof (cases "store_get_latest_block T D t i")
    case (Ok l)
    then have "bs \<noteq> [] \<and> l = last bs"
      by (auto simp: store_get_latest_block_def and_then_eq_Ok db_query_eq select_stored [OF bs(2)] last_opt_def
          row_round_trip [OF laws] split: if_splits)
    then have l: "l \<in> set bs" by simp
    then have "l \<in> S" "validate_hash (ct_ops T) X l = Ok True" using bs by (auto simp: stored_chain_def)
    moreover from Ok prep have "x = Create_Next (ct_row T b)" "linked (ct_ops T) X l b"
      by (auto simp: store_prepare_def linked_def Let_def split: result.splits bool.splits)
    ultimately show ?thesis using b by (auto simp: pending_ok_def)
  next
    case (Err e)
    with prep b show ?thesis
      by (auto simp: store_prepare_def pending_ok_def first_block_ok_def Let_def and_then_eq_Ok
          split: result.splits bool.splits PersistenceError.splits if_splits)
  next
    case Panic
    with prep show ?thesis by (simp add: store_prepare_def)
  qed
qed

lemma stored_snoc:
  assumes bs: "stored_chain T X t i bs" and key: "ct_key T (ct_row T b) = i" and b: "validate_hash (ct_ops T) X b = Ok True"
    and number: "block_number (blk_id (ct_ops T) b) = Suc (length bs)"
    and link: "if bs = [] then blk_verify (ct_ops T) X b = Ok True else linked (ct_ops T) X (last bs) b"
  shows "stored_chain T X (t @ [ct_row T b]) i (bs @ [b])"
proof -
  have "\<forall>k < length (bs @ [b]). block_number (blk_id (ct_ops T) ((bs @ [b]) ! k)) = Suc k"
    using bs number unfolding stored_chain_def by (auto simp: nth_append less_Suc_eq)
  with assms show ?thesis
    by (cases "bs = []") (auto simp: stored_chain_def rows_of_def successively_append_iff hd_append)
qed

text \<open>
  The block that was read and the latest block at commit time have the same hash, hence the same
  content; so the new block links to the latest block.
\<close>

lemma commit_next_links:
  assumes nc: "no_collisions (ct_ops T) X S" and "p \<in> S" "q \<in> S"
    and "validate_hash (ct_ops T) X p = Ok True" "validate_hash (ct_ops T) X q = Ok True"
    and link: "linked (ct_ops T) X p b" and hash: "blk_hash (ct_ops T) q = blk_previous_hash (ct_ops T) b"
  shows "linked (ct_ops T) X q b"
proof -
  have "blk_data_to_hash (ct_ops T) p = blk_data_to_hash (ct_ops T) q"
    using assms unfolding no_collisions_def by (simp add: validate_hash_Ok linked_iff)
  from hashed_content [OF this] show ?thesis using link hash by (simp add: linked_iff)
qed

lemma committed_block:
  assumes nc: "no_collisions (ct_ops T) X S" and ok: "store_ok T X S t" and pend: "pending_ok T X S x"
    and tr: "transaction_ok T t x"
  obtains b bs where "b \<in> S" "transaction_row x = ct_row T b" "set bs \<subseteq> S"
    "stored_chain T X t (ct_key T (ct_row T b)) bs"
    "stored_chain T X (t @ [ct_row T b]) (ct_key T (ct_row T b)) (bs @ [b])"
proof (cases x)
  case (Create_First row)
  then obtain b where b: "b \<in> S" "row = ct_row T b" "blk_verify (ct_ops T) X b = Ok True"
      "validate_hash (ct_ops T) X b = Ok True"
    using pend by (auto simp: pending_ok_def)
  obtain bs where bs: "set bs \<subseteq> S" "stored_chain T X t (ct_key T (ct_row T b)) bs"
    using ok unfolding store_ok_def by blast
  from Create_First tr b have "bs = []" "block_number (blk_id (ct_ops T) b) = 1"
    using bs(2) by (auto simp: transaction_ok_def stored_chain_def row_fields)
  with b bs have "stored_chain T X (t @ [ct_row T b]) (ct_key T (ct_row T b)) (bs @ [b])"
    by (intro stored_snoc) auto
  with b bs Create_First show ?thesis by (intro that [of b bs]) (auto simp: transaction_row_def)
next
  case (Create_Next row)
  then obtain p b where b: "p \<in> S" "b \<in> S" "row = ct_row T b" "linked (ct_ops T) X p b"
      "validate_hash (ct_ops T) X p = Ok True"
    using pend by (auto simp: pending_ok_def)
  obtain bs where bs: "set bs \<subseteq> S" "stored_chain T X t (ct_key T (ct_row T b)) bs"
    using ok unfolding store_ok_def by blast
  from Create_Next tr b(3) have ne: "bs \<noteq> []"
    and number: "block_number (blk_id (ct_ops T) (last bs)) + 1 = block_number (blk_id (ct_ops T) b)"
    and hash: "blk_hash (ct_ops T) (last bs) = blk_previous_hash (ct_ops T) b"
    by (auto simp: transaction_ok_def select_stored [OF bs(2)] last_opt_def row_fields split: if_splits)
  from ne have last: "last bs \<in> S" "validate_hash (ct_ops T) X (last bs) = Ok True"
    using bs by (auto simp: stored_chain_def)
  have "block_number (blk_id (ct_ops T) (last bs)) = length bs"
    using ne bs(2) by (simp add: stored_chain_def last_conv_nth)
  moreover have "linked (ct_ops T) X (last bs) b"
    by (rule commit_next_links [OF nc b(1) last(1) b(5) last(2) b(4) hash])
  moreover have "validate_hash (ct_ops T) X b = Ok True" using b(4) by (simp add: linked_iff)
  ultimately have "stored_chain T X (t @ [ct_row T b]) (ct_key T (ct_row T b)) (bs @ [b])"
    using ne number bs(2) by (intro stored_snoc) auto
  with b bs Create_Next show ?thesis by (intro that [of b bs]) (auto simp: transaction_row_def)
qed

lemma commit_ok:
  assumes "no_collisions (ct_ops T) X S" "store_ok T X S t" "pending_ok T X S x"
    and commit: "store_commit T D t x = (r, t')"
  shows "store_ok T X S t'"
proof (cases "t' = t")
  case False
  with commit have t': "t' = t @ [transaction_row x]" and tr: "transaction_ok T t x"
    by (auto simp: store_commit_def split: result.splits if_splits)
  obtain b bs where b: "b \<in> S" "transaction_row x = ct_row T b" "set bs \<subseteq> S"
    "stored_chain T X (t @ [ct_row T b]) (ct_key T (ct_row T b)) (bs @ [b])"
    using committed_block [OF assms(1-3) tr] by metis
  show ?thesis unfolding store_ok_def
  proof
    fix i
    show "\<exists>cs. set cs \<subseteq> S \<and> stored_chain T X t' i cs"
    proof (cases "i = ct_key T (ct_row T b)")
      case True
      with b t' show ?thesis by (intro exI [of _ "bs @ [b]"]) simp
    next
      case False
      then have "rows_of T t' i = rows_of T t i" by (simp add: t' b(2) rows_of_def)
      with assms(2) show ?thesis by (simp add: store_ok_def stored_chain_def)
    qed
  qed
qed (use assms(2) in simp)

lemma stored_prefix:
  assumes "stored_chain T X t i bs" and "rows_of T t' i = map (ct_row T) (take n bs)"
  shows "stored_chain T X t' i (take n bs)"
proof -
  have "successively (linked (ct_ops T) X) (take n bs @ drop n bs)"
    using assms(1) by (simp add: stored_chain_def)
  then have "successively (linked (ct_ops T) X) (take n bs)" unfolding successively_append_iff by blast
  with assms show ?thesis
    by (cases "n = 0") (auto simp: stored_chain_def dest: in_set_takeD)
qed

lemma remove_from_height_stored:
  assumes bs: "stored_chain T X t i bs" and rm: "store_remove_blocks_from_height T D t j h = (r, t')"
  shows "stored_chain T X t' i (if db_fails D Delete_Blocks = None \<and> i = j then take (block_number h - 1) bs else bs)"
proof (cases "db_fails D Delete_Blocks = None \<and> i = j")
  case True
  let ?p = "\<lambda>r. \<not> (ct_key T r = j \<and> block_number h \<le> block_number (ct_block_id T r))"
  from True rm have t': "t' = filter ?p t" by (auto simp: store_remove_blocks_from_height_def db_query_def)
  have "rows_of T t' i = filter (\<lambda>r. \<not> block_number h \<le> block_number (ct_block_id T r)) (rows_of T t i)"
    using True unfolding t' rows_of_def filter_filter by (intro filter_cong) auto
  also have "\<dots> = map (ct_row T) (filter (\<lambda>b. \<not> block_number h \<le> block_number (blk_id (ct_ops T) b)) bs)"
    using bs by (simp add: stored_chain_def filter_map comp_def row_fields)
  also have "filter (\<lambda>b. \<not> block_number h \<le> block_number (blk_id (ct_ops T) b)) bs = take (block_number h - 1) bs"
    using bs by (intro successively_filter_prefix(1) [of "linked (ct_ops T) X"]) (auto simp: stored_chain_def)
  finally show ?thesis using True stored_prefix [OF bs] by simp
next
  case False
  then have "rows_of T t' i = rows_of T t i"
    using rm by (auto simp: store_remove_blocks_from_height_def db_query_def rows_of_filter rows_of_other
        split: option.splits)
  with False bs show ?thesis by (auto simp: stored_chain_def)
qed

lemma remove_stored:
  assumes bs: "stored_chain T X t i bs" and rm: "store_remove T D t j = (r, t')"
  shows "stored_chain T X t' i (if db_fails D Delete_Blocks = None \<and> i = j then [] else bs)"
proof -
  have "rows_of T t' i = (if db_fails D Delete_Blocks = None \<and> i = j then [] else rows_of T t i)"
    using rm by (auto simp: store_remove_def db_query_def rows_of_filter rows_of_other split: option.splits)
  with bs show ?thesis by (auto simp: stored_chain_def)
qed

text \<open>In every interleaving all stored chains stay valid, and every pending transaction is justified.\<close>

lemma reachable_store_ok:
  assumes "secp_laws X" "no_collisions (ct_ops T) X S" "store_reachable T X S t xs"
  shows "store_ok T X S t \<and> (\<forall>x \<in> set xs. pending_ok T X S x)"
  using assms(3)
proof (induction rule: store_reachable.induct)
  case store_empty
  have "stored_chain T X [] i []" for i by (simp add: stored_chain_def rows_of_def)
  then show ?case unfolding store_ok_def by (metis bot.extremum empty_iff empty_set)
next
  case (store_decide t xs b D i x)
  then show ?case using prepare_pending [OF assms(1)] by auto
next
  case (store_commits t xs x D r t')
  then show ?case using commit_ok [OF assms(2)] by (meson notin_set_remove1)
next
  case (store_removes_blocks t xs D i h r t')
  have "\<exists>cs. set cs \<subseteq> S \<and> stored_chain T X t' j cs" for j
  proof -
    obtain bs where bs: "set bs \<subseteq> S" "stored_chain T X t j bs"
      using store_removes_blocks.IH unfolding store_ok_def by blast
    have "set (if db_fails D Delete_Blocks = None \<and> j = i then take (block_number h - 1) bs else bs) \<subseteq> S"
      using bs(1) by (auto dest: in_set_takeD)
    with remove_from_height_stored [OF bs(2) store_removes_blocks.hyps(2)] show ?thesis by blast
  qed
  then show ?case using store_removes_blocks.IH unfolding store_ok_def by blast
next
  case (store_removes t xs D i r t')
  have "\<exists>cs. set cs \<subseteq> S \<and> stored_chain T X t' j cs" for j
  proof -
    obtain bs where bs: "set bs \<subseteq> S" "stored_chain T X t j bs"
      using store_removes.IH unfolding store_ok_def by blast
    have "set (if db_fails D Delete_Blocks = None \<and> j = i then [] else bs) \<subseteq> S" using bs(1) by simp
    with remove_stored [OF bs(2) store_removes.hyps(2)] show ?thesis by blast
  qed
  then show ?case using store_removes.IH unfolding store_ok_def by blast
qed

text \<open>So reading a chain either finds no block or returns a valid chain with the stored blocks.\<close>

lemma reachable_get_chain:
  assumes "secp_laws X" "no_collisions (ct_ops T) X S" "store_reachable T X S t xs"
    and "db_fails D Select_Chain = None"
  obtains "rows_of T t i = []"
  | bs where "bs \<noteq> []" "set bs \<subseteq> S" "rows_of T t i = map (ct_row T) bs" "store_get_chain T D t i = Ok \<lparr>blocks = bs\<rparr>"
      "is_chain_valid (ct_ops T) X \<lparr>blocks = bs\<rparr> = Ok True" "blk_id (ct_ops T) (hd bs) = bid_first"
proof -
  obtain bs where bs: "set bs \<subseteq> S" "stored_chain T X t i bs"
    using reachable_store_ok [OF assms(1-3)] unfolding store_ok_def by blast
  show ?thesis
  proof (cases "bs = []")
    case True
    with bs that(1) show ?thesis by (simp add: stored_chain_def)
  next
    case False
    moreover from False bs(2) have "block_number (blk_id (ct_ops T) (hd bs)) = 1"
      by (simp add: stored_chain_def hd_conv_nth)
    then have "blk_id (ct_ops T) (hd bs) = bid_first"
      by (cases "blk_id (ct_ops T) (hd bs)") (simp add: block_number_def bid_first_def FIRST_BLOCK_ID_def word_unat_eq_iff)
    ultimately show ?thesis
      using that(2) [of bs] bs get_chain_stored [OF assms(1) bs(2) False assms(4)]
      by (simp add: stored_chain_def is_chain_valid_iff)
  qed
qed

end

section \<open>The three stores\<close>

lemma company_new_from_blocks_iff:
  "company_new_from_blocks E bs = Ok c \<longleftrightarrow>
     c = \<lparr>blocks = bs\<rparr> \<and> bs \<noteq> [] \<and> successively (linked (company_ops E) (cenv_ext E)) bs \<and>
     blk_verify (company_ops E) (cenv_ext E) (hd bs) = Ok True \<and> validate_hash (company_ops E) (cenv_ext E) (hd bs) = Ok True"
  by (cases bs) (auto simp: company_new_from_blocks_def and_then_eq_Ok is_chain_valid_def valid_links_iff
      split: if_splits)

lemma identity_new_from_blocks_iff:
  "identity_new_from_blocks E bs = Ok c \<longleftrightarrow>
     c = \<lparr>blocks = bs\<rparr> \<and> bs \<noteq> [] \<and> successively (linked (identity_ops E) (ienv_ext E)) bs \<and>
     blk_verify (identity_ops E) (ienv_ext E) (hd bs) = Ok True \<and> validate_hash (identity_ops E) (ienv_ext E) (hd bs) = Ok True"
  by (cases bs) (auto simp: identity_new_from_blocks_def and_then_eq_Ok is_chain_valid_def valid_links_iff
      split: if_splits)

interpretation bill_store: chain_table "bill_table E" "env_ext E" for E
proof (intro chain_table.intro chain_table_axioms.intro)
  show "block_contract (ct_ops (bill_table E))"
    by (simp add: bill_table_def bill_block.block_contract_axioms)
qed (auto simp: bill_table_def bill_block_to_db_def bill_block_from_db_def secp_base58 new_from_blocks_iff
    bill_chain_ok_def is_chain_valid_iff)

interpretation company_store: chain_table "company_table E" "cenv_ext E" for E
proof (intro chain_table.intro chain_table_axioms.intro)
  show "block_contract (ct_ops (company_table E))"
    by (simp add: company_table_def company_block.block_contract_axioms)
qed (auto simp: company_table_def company_block_to_db_def company_block_from_db_def secp_base58
    company_new_from_blocks_iff)

interpretation identity_store: chain_table "identity_table E" "ienv_ext E" for E
proof (intro chain_table.intro chain_table_axioms.intro)
  show "block_contract (ct_ops (identity_table E))"
    by (simp add: identity_table_def identity_block.block_contract_axioms)
qed (auto simp: identity_table_def identity_block_to_db_def identity_block_from_db_def secp_base58
    identity_new_from_blocks_iff)

end
