(* ===== verification/Service_Instance.thy ===== *)
theory Service_Instance
  imports Ebill_Instance Bill_Service_Props Chain_Store_Props
begin

text \<open>
  A concrete node: the payee \<open>B\<close> of the bill of \<open>Ebill_Instance\<close> with its stores, and codecs that decode what they
  encode, in which an action of the service runs from the first check to the last message.
\<close>

section \<open>Encodings that decode\<close>

text \<open>A codec that encodes one value, and one that encodes none: both decode all that they encode.\<close>

definition one_codec :: "bytes \<Rightarrow> 'a \<Rightarrow> 'a Codec" where
  "one_codec bs d = \<lparr>to_vec = (\<lambda>x. if x = d then Inr bs else Inl ''other''), from_slice = (\<lambda>_. Inr d)\<rparr>"

definition no_codec :: "'a Codec" where
  "no_codec = \<lparr>to_vec = (\<lambda>_. Inl ''none''), from_slice = (\<lambda>_. Inl ''none'')\<rparr>"

lemma codec_rt_simple [simp]: "codec_rt (one_codec bs d) x" "codec_rt no_codec x"
  by (simp_all add: codec_rt_def one_codec_def no_codec_def)

definition request_data0 :: BillRequestToAcceptBlockData where
  "request_data0 = \<lparr>rta_requester = Ident (person0 ''B''), rta_signatory = None, rta_signing_timestamp = t0,
     rta_signing_address = Some (bipd_postal_address (person0 ''B'')), rta_signer_identity_proof = None,
     rta_acceptance_deadline_timestamp = deadline0\<rparr>"

definition E2 :: BillEnv where
  "E2 = E0\<lparr>c_endorse := no_codec, c_mint := no_codec, c_request_to_accept := one_codec [] request_data0,
     c_accept := no_codec, c_request_to_pay := no_codec, c_offer_to_sell := no_codec, c_sell := no_codec,
     c_reject := no_codec, c_reject_to_buy := no_codec, c_request_recourse := no_codec, c_recourse := no_codec\<rparr>"

lemma codecs_rt_E2: "codecs_rt E2"
proof -
  have "codec_rt (c_block_data E2) w" for w :: BillBlockData
    by (cases w) (simp add: codec_rt_def E2_def E0_def unwrap_wrap)
  then show ?thesis by (simp add: codecs_rt_def E2_def)
qed

section \<open>A node\<close>

definition payee0 :: BillParticipant where
  "payee0 = participant_from_block_data (Ident (person0 ''B''))"

definition identity0 :: Identity where
  "identity0 = \<lparr>ident_t = Identified, ident_node_id = ''D'', ident_name = ''D'', ident_email = Some ''e'',
     ident_postal_address = opa_empty, ident_date_of_birth = None, ident_country_of_birth = None,
     ident_city_of_birth = None, ident_identification_number = None, ident_nostr_relays = [],
     ident_profile_picture_file = None, ident_identity_document_file = None\<rparr>"

definition S0 :: ServiceEnv where
  "S0 = \<lparr>svc_proc = P0\<lparr>proc_bill := E2\<rparr>, svc_company = CE0, svc_identity = IE0,
     svc_bill_db = \<lparr>db_fails = (\<lambda>_. None), db_thrown = (\<lambda>e. e)\<rparr>,
     svc_company_db = \<lparr>db_fails = (\<lambda>_. None), db_thrown = (\<lambda>e. e)\<rparr>,
     svc_identity_db = \<lparr>db_fails = (\<lambda>_. None), db_thrown = (\<lambda>e. e)\<rparr>,
     svc_store_fails = (\<lambda>_. None), svc_transport = (\<lambda>_. Ok ()), svc_bill_network = (\<lambda>_. ''test''),
     svc_bill_id_new = (\<lambda>_ _. ''new''), svc_new_keys = key0 (CHR ''N''), svc_upload_file = (\<lambda>_. Err SE_NotFound),
     svc_mint_node_id = ''M'', svc_mandatory_email_confirmations = False, svc_recalculate = (\<lambda>_ _ _ _. Ok ())\<rparr>"

definition state0 :: ServiceState where
  "state0 = \<lparr>ss_bill_chain = [bill_block_to_db X0 issued0], ss_company_chain = [],
     ss_identity_chain = map (identity_block_to_db X1) [iblock0 1 I_Create, iblock0 2 I_IdentityProof],
     ss_bill_keys = [(''bill'', bill_key0)], ss_bill_paid = [], ss_identity = Some identity0,
     ss_key_pair = Some id_key0, ss_identity_confirmations = [], ss_company_confirmations = [], ss_companies = [],
     ss_contacts = [], ss_nostr_contacts = [], ss_sent = []\<rparr>"

definition request_run0 :: "(BillBlockchain, ServiceError) result \<times> ServiceState" where
  "request_run0 = execute_bill_action S0 ''bill'' (A_RequestAcceptance deadline0) payee0 (key0 (CHR ''B'')) t0 state0"

lemma request_runs0:
  "case request_run0 of (Ok c, s) \<Rightarrow> map bbl_op_code (blocks c) = [Issue, RequestToAccept] \<and> length (ss_sent s) = 4 | _ \<Rightarrow> False"
  by code_simp

end
