(* ===== verification/Properties_Service.thy ===== *)
theory Properties_Service
  imports Service_Instance
begin

text \<open>
  Properties C32 and C33: the stores under concurrent writers, and the acting side against the processors of the
  other nodes.
\<close>

section \<open>Concurrent writers\<close>

text \<open>
  C32. Writers that read the latest block of a bill, decide, and later commit, in any interleaving with other
  writers, with removals and with failing statements, never break a stored chain: whoever reads a bill that
  has blocks gets a valid chain that starts with block one, and gets exactly the stored blocks.
\<close>

theorem concurrent_writers_keep_chains:
  assumes "secp_laws (env_ext E)" and "no_collisions (bill_ops E) (env_ext E) S"
    and "store_reachable (bill_table E) (env_ext E) S t xs"
    and "db_fails D Select_Chain = None" and "rows_of (bill_table E) t i \<noteq> []"
  shows "\<exists>c. bill_store_get_chain E D t i = Ok c \<and> is_chain_valid (bill_ops E) (env_ext E) c = Ok True \<and>
           bbl_id (hd (blocks c)) = bid_first \<and> set (blocks c) \<subseteq> S \<and>
           map (bill_block_to_db (env_ext E)) (blocks c) = rows_of (bill_table E) t i"
proof -
  have ops: "ct_ops (bill_table E) = bill_ops E" "ct_row (bill_table E) = bill_block_to_db (env_ext E)"
    by (simp_all add: bill_table_def)
  show ?thesis
  proof (rule bill_store.reachable_get_chain [of E S t xs D i])
    fix bs
    assume "bs \<noteq> []" "set bs \<subseteq> S" "rows_of (bill_table E) t i = map (ct_row (bill_table E)) bs"
      "store_get_chain (bill_table E) D t i = Ok \<lparr>blocks = bs\<rparr>"
      "is_chain_valid (ct_ops (bill_table E)) (env_ext E) \<lparr>blocks = bs\<rparr> = Ok True"
      "blk_id (ct_ops (bill_table E)) (hd bs) = bid_first"
    then show ?thesis
      unfolding ops bill_store_get_chain_def by (intro exI [of _ "\<lparr>blocks = bs\<rparr>"]) simp
  qed (use assms in \<open>simp_all add: ops\<close>)
qed

definition db0 :: Db where
  "db0 = \<lparr>db_fails = (\<lambda>_. None), db_thrown = (\<lambda>e. e)\<rparr>"

text \<open>Two writers decide to add the offer of sale at the same time; the second one fails to commit.\<close>

definition rows0 :: "BillBlock list \<Rightarrow> BillBlockDb list" where
  "rows0 bs = map (bill_block_to_db X0) bs"

lemma store_runs0:
  "(store_prepare (bill_table E0) X0 db0 (rows0 []) ''bill'' issued0 = Ok (Create_First (bill_block_to_db X0 issued0))) \<and>
   (store_commit (bill_table E0) db0 (rows0 []) (Create_First (bill_block_to_db X0 issued0)) = (Ok (), rows0 [issued0])) \<and>
   (store_prepare (bill_table E0) X0 db0 (rows0 [issued0]) ''bill'' offer0 = Ok (Create_Next (bill_block_to_db X0 offer0))) \<and>
   (store_commit (bill_table E0) db0 (rows0 [issued0]) (Create_Next (bill_block_to_db X0 offer0)) =
     (Ok (), rows0 [issued0, offer0])) \<and>
   (store_commit (bill_table E0) db0 (rows0 [issued0, offer0]) (Create_Next (bill_block_to_db X0 offer0)) =
     (Err (surreal_error ''invalid block''), rows0 [issued0, offer0]))"
  by code_simp

lemma store_steps0:
  "store_prepare (bill_table E0) X0 db0 (rows0 []) ''bill'' issued0 = Ok (Create_First (bill_block_to_db X0 issued0))"
  "store_commit (bill_table E0) db0 (rows0 []) (Create_First (bill_block_to_db X0 issued0)) = (Ok (), rows0 [issued0])"
  "store_prepare (bill_table E0) X0 db0 (rows0 [issued0]) ''bill'' offer0 = Ok (Create_Next (bill_block_to_db X0 offer0))"
  "store_commit (bill_table E0) db0 (rows0 [issued0]) (Create_Next (bill_block_to_db X0 offer0)) =
     (Ok (), rows0 [issued0, offer0])"
  "store_commit (bill_table E0) db0 (rows0 [issued0, offer0]) (Create_Next (bill_block_to_db X0 offer0)) =
     (Err (surreal_error ''invalid block''), rows0 [issued0, offer0])"
  using store_runs0 by blast+

lemma store_reachable0:
  "store_reachable (bill_table E0) X0 {issued0, offer0} (rows0 [issued0, offer0]) []"
proof -
  let ?R = "store_reachable (bill_table E0) X0 {issued0, offer0}"
  let ?offer = "Create_Next (bill_block_to_db X0 offer0)"
  have "?R (rows0 []) []" by (simp add: rows0_def store_empty)
  from store_decide [OF this _ store_steps0(1)]
  have "?R (rows0 []) [Create_First (bill_block_to_db X0 issued0)]" by simp
  from store_commits [OF this _ store_steps0(2)] have "?R (rows0 [issued0]) []" by simp
  from store_decide [OF this _ store_steps0(3)] have "?R (rows0 [issued0]) [?offer]" by simp
  from store_decide [OF this _ store_steps0(3)] have "?R (rows0 [issued0]) [?offer, ?offer]" by simp
  from store_commits [OF this _ store_steps0(4)] have "?R (rows0 [issued0, offer0]) [?offer]" by simp
  from store_commits [OF this _ store_steps0(5)] show ?thesis by simp
qed

theorem concurrent_writers_keep_chains_witness:
  "\<exists>c. bill_store_get_chain E0 db0 (rows0 [issued0, offer0]) ''bill'' = Ok c \<and>
     is_chain_valid (bill_ops E0) X0 c = Ok True \<and> length (blocks c) = 2"
proof -
  have nc: "no_collisions (bill_ops E0) X0 {issued0, offer0}"
    by (auto simp: no_collisions_def issued0_def offer0_def hashes0 hash_byte0)
  have rows: "rows_of (bill_table E0) (rows0 [issued0, offer0]) ''bill'' = rows0 [issued0, offer0]"
    by code_simp
  have ne: "rows_of (bill_table E0) (rows0 [issued0, offer0]) ''bill'' \<noteq> []" unfolding rows by (simp add: rows0_def)
  from concurrent_writers_keep_chains [of E0 "{issued0, offer0}" "rows0 [issued0, offer0]" "[]" db0 "''bill''"]
  obtain c where c: "bill_store_get_chain E0 db0 (rows0 [issued0, offer0]) ''bill'' = Ok c"
    "is_chain_valid (bill_ops E0) X0 c = Ok True" "map (bill_block_to_db X0) (blocks c) = rows0 [issued0, offer0]"
    using secp_laws_X0 nc store_reachable0 ne rows by (auto simp: db0_def)
  from c(3) have "length (blocks c) = 2" unfolding rows0_def by (metis length_map length_Cons list.size(3) numeral_2_eq_2)
  with c show ?thesis by blast
qed

section \<open>The acting side and the receiving side\<close>

text \<open>
  C33. What a node does, the other nodes accept: if \<open>execute_bill_action\<close> succeeds on a chain that the processors have built,
  then it has appended exactly one block to its store. A node with the same chain that runs the same protocol
  (\<open>same_protocol\<close>: the same encodings, cryptography and network, and the same answers of the mint) validates this block, reads
  the signer and the action from it, and ends up with the same chain, unless it knows the bill as paid: then it refuses
  the block for this reason. This holds for all actions, for persons and companies, with identified and with anonymous
  holders, as long as nodes sign with their own keys and block numbers do not overflow.
\<close>

theorem executed_action_is_accepted:
  assumes laws: "secp_laws (svc_ext S)" "ecies_law (svc_ext S)" "codecs_rt (svc_bill S)"
    and stored: "bill_store_get_chain (svc_bill S) (svc_bill_db S) (ss_bill_chain s) i = Ok c"
    and reach: "bill_reachable (svc_proc S) first k c"
    and keys: "map_of (ss_bill_keys s) i = Some k" "keys_wf (svc_ext S) k"
    and signer: "acts_with_own_keys S s signer sk" "stored_proofs_decode S s"
    and ids: "unat (bid_inner (bbl_id (last (blocks c)))) + 1 < 2 ^ 64"
    and run: "execute_bill_action S i a signer sk ts s = (Ok c', s')"
  shows "\<exists>b. (\<forall>R paid. same_protocol (svc_proc S) R \<longrightarrow>
             validate_block_for_chain R (iss_id first) c first k b paid =
               (if paid then Err (T_Blockchain (proc_validation_text R BillAlreadyPaid)) else Ok True, c')) \<and>
           verify_and_get_signer (svc_bill S) b k = Ok (bp_node_id signer, Some (on_chain a (iss_sum first))) \<and>
           bbl_op_code b = action_op_code a \<and> bbl_timestamp b = ts \<and>
           ss_bill_chain s' = ss_bill_chain s @ [bill_block_to_db (svc_ext S) b] \<and>
           bill_reachable (svc_proc S) first k c'"
proof -
  from executed_action_accepted [OF laws stored reach keys signer ids run] obtain b where
    val: "validate_block_for_chain (svc_proc S) (iss_id first) c first k b False = (Ok True, c')"
    and b: "bbl_op_code b = action_op_code a" "bbl_timestamp b = ts"
      "verify_and_get_signer (svc_bill S) b k = Ok (bp_node_id signer, Some (on_chain a (iss_sum first)))"
      "ss_bill_chain s' = ss_bill_chain s @ [bill_block_to_db (svc_ext S) b]" by blast
  from val have "accepted (svc_proc S) first k c b c'" by (auto simp: accepted_def)
  with reach have "bill_reachable (svc_proc S) first k c'" by (rule reach_block)
  with b same_protocol_accepts [OF _ val] paid_bill_refuses [OF same_protocol_accepts [OF _ val]] show ?thesis
    by (intro exI [of _ b]) simp
qed

lemma stored_chain0:
  "bill_store_get_chain E2 db0 [bill_block_to_db X0 issued0] ''bill'' = Ok (run0 [])"
  by code_simp

lemma reachable_E2: "bill_reachable (P0\<lparr>proc_bill := E2\<rparr>) issue0 bill_key0 (run0 [])"
proof -
  have ok: "bill_chain_ok E2 (run0 [])" by code_simp
  have dec: "get_decrypted_block E2 (c_issue E2) issued0 bill_key0 = Ok issue0" by code_simp
  from ok dec show ?thesis unfolding run0_def by (intro reach_issue) simp_all
qed

theorem executed_action_is_accepted_witness:
  "\<exists>b c' s'. request_run0 = (Ok c', s') \<and>
     validate_block_for_chain (P0\<lparr>proc_bill := E2\<rparr>) ''bill'' (run0 []) issue0 bill_key0 b False = (Ok True, c') \<and>
     fst (validate_block_for_chain (P0\<lparr>proc_bill := E2\<rparr>) ''bill'' (run0 []) issue0 bill_key0 b True) =
       Err (T_Blockchain ''validation'') \<and>
     bbl_op_code b = RequestToAccept"
proof -
  obtain r s' where r: "request_run0 = (r, s')" by (cases request_run0)
  from request_runs0 obtain c' where "r = Ok c'" unfolding r by (cases r) simp_all
  with r have run: "request_run0 = (Ok c', s')" by simp
  have S: "svc_proc S0 = P0\<lparr>proc_bill := E2\<rparr>" "svc_bill S0 = E2" "env_ext E2 = X0" "svc_bill_db S0 = db0"
    by (simp_all add: S0_def E2_def E0_def db0_def)
  have own: "acts_with_own_keys S0 state0 payee0 (key0 (CHR ''B''))"
  proof -
    have "x_node_pub_key X0 ''B'' = pub_key X0 (key0 (CHR ''B''))" "x_node_pub_key X0 ''D'' = pub_key X0 id_key0"
      "bp_node_id payee0 = ''B''" by code_simp+
    then show ?thesis by (simp add: acts_with_own_keys_def Let_def S keys_wf_X0 state0_def identity0_def)
  qed
  have proofs: "stored_proofs_decode S0 state0" by (simp add: stored_proofs_decode_def state0_def)
  have ids: "unat (bid_inner (bbl_id (last (blocks (run0 []))))) + 1 < 2 ^ 64"
    by (simp add: issued0_def block0_def)
  have "\<exists>b. (\<forall>R paid. same_protocol (svc_proc S0) R \<longrightarrow>
        validate_block_for_chain R (iss_id issue0) (run0 []) issue0 bill_key0 b paid =
          (if paid then Err (T_Blockchain (proc_validation_text R BillAlreadyPaid)) else Ok True, c')) \<and>
      verify_and_get_signer (svc_bill S0) b bill_key0 =
        Ok (bp_node_id payee0, Some (on_chain (A_RequestAcceptance deadline0) (iss_sum issue0))) \<and>
      bbl_op_code b = action_op_code (A_RequestAcceptance deadline0) \<and> bbl_timestamp b = t0 \<and>
      ss_bill_chain s' = ss_bill_chain state0 @ [bill_block_to_db (svc_ext S0) b] \<and>
      bill_reachable (svc_proc S0) issue0 bill_key0 c'"
    by (rule executed_action_is_accepted [where i = "''bill''" and sk = "key0 (CHR ''B'')"])
      (use run own proofs ids secp_laws_X0 ecies_law_X0 codecs_rt_E2 stored_chain0 reachable_E2 keys_wf_X0 in
        \<open>simp_all add: S state0_def request_run0_def\<close>)
  then obtain b where all: "same_protocol (svc_proc S0) R \<Longrightarrow>
      validate_block_for_chain R (iss_id issue0) (run0 []) issue0 bill_key0 b paid =
        (if paid then Err (T_Blockchain (proc_validation_text R BillAlreadyPaid)) else Ok True, c')"
    and b: "bbl_op_code b = action_op_code (A_RequestAcceptance deadline0)" for R paid by blast
  have "same_protocol (svc_proc S0) (P0\<lparr>proc_bill := E2\<rparr>)" by (simp add: same_protocol_def S)
  note all = all [OF this]
  have "iss_id issue0 = ''bill''" "proc_validation_text P0 = (\<lambda>_. ''validation'')" by (simp_all add: issue0_def P0_def)
  then show ?thesis using run b all [of False] all [of True] by (intro exI [of _ b] exI [of _ c'] exI [of _ s']) (simp add: action_op_code_def)
qed

end
