(* ===== verification/Event_Chains.thy ===== *)
theory Event_Chains
  imports Bill_Events
begin

text \<open>
  From the events of a relay to candidate chains: \<^verbatim>\<open>bcr-ebill-transport/src/transport.rs\<close> (payload of a public
  event) and \<^verbatim>\<open>handler/public_chain_helpers.rs\<close> (reply trees and their paths). Parsing tags and decoding
  payloads is third-party code, in \<open>EventEnv\<close>. The recursion over replies ends only if the replies form a
  tree, so it runs on fuel; the lemmas show that the number of events is enough fuel, and that the result are
  the reply paths from the root.
\<close>

section \<open>Events of a relay\<close>

type_synonym EventId = string
type_synonym Tag = "string list"

datatype Marker = M_Root | M_Reply | M_Mention

record NostrEvent =
  nev_id :: EventId
  nev_pubkey :: string
  nev_created_at :: Timestamp
  nev_tags :: "Tag list"
  nev_content :: string

record EventEnvelope =
  env_event_type :: EventType
  env_version :: string
  env_data :: bytes

record EncryptedOrEncodedPublicEventData =
  ped_id :: string
  ped_chain_type :: BlockchainType
  ped_payload :: string

record EventEnv =
  een_proc :: ProcEnv
  een_nip10 :: "Tag \<Rightarrow> (EventId \<times> Marker option) option" \<comment> \<open>\<^verbatim>\<open>Nip10Tag::try_from\<close>, an event tag\<close>
  een_blockchain_address :: "Tag \<Rightarrow> (string \<times> string option) option"
    \<comment> \<open>\<^verbatim>\<open>Nip73Tag::try_from\<close>, a blockchain address with its chain id\<close>
  een_envelope :: "EventEnvelope Codec"
  een_bill_event :: "BillBlockEvent Codec"
  een_company_event :: "CompanyBlockEvent Codec"
  een_identity_event :: "IdentityBlockEvent Codec"
  een_base58_text :: "string \<Rightarrow> string" \<comment> \<open>the text of a base58 error\<close>
  een_now :: Timestamp \<comment> \<open>\<^verbatim>\<open>Timestamp::now()\<close>\<close>

abbreviation een_ext :: "EventEnv \<Rightarrow> Ext" where
  "een_ext N \<equiv> env_ext (proc_bill (een_proc N))"

definition unwrap_public_chain_event :: "EventEnv \<Rightarrow> NostrEvent \<Rightarrow> EncryptedOrEncodedPublicEventData option" where
  "unwrap_public_chain_event N event =
     first_opt (List.map_filter (\<lambda>tag.
       case een_blockchain_address N tag of
         Some (address, Some chain_id) \<Rightarrow>
           (case blockchain_type_try_from chain_id of
              Ok chain_type \<Rightarrow> Some \<lparr>ped_id = address, ped_chain_type = chain_type, ped_payload = nev_content event\<rparr>
            | _ \<Rightarrow> None)
       | _ \<Rightarrow> None) (nev_tags event))"

definition borsh_error :: "string \<Rightarrow> TransportError" where
  "borsh_error e = T_Message (''Failed to serialize/unserialize borsh message: '' @ e)"

definition base58_bytes :: "EventEnv \<Rightarrow> string \<Rightarrow> (bytes, TransportError) result" where
  "base58_bytes N data =
     ok_or (T_Crypto (''Failed base58 operation: '' @ een_base58_text N data)) (x_base58_decode (een_ext N) data)"

definition decode_public_chain_event :: "EventEnv \<Rightarrow> string \<Rightarrow> (EventEnvelope, TransportError) result" where
  "decode_public_chain_event N data =
     and_then (base58_bytes N data) (\<lambda>decoded. from_ext borsh_error (from_slice (een_envelope N) decoded))"

definition decrypt_and_decode_public_chain_event ::
  "EventEnv \<Rightarrow> string \<Rightarrow> BcrKeys \<Rightarrow> (EventEnvelope, TransportError) result" where
  "decrypt_and_decode_public_chain_event N data keys =
     (let X = een_ext N in
      and_then (base58_bytes N data) (\<lambda>encrypted.
      and_then (crypto_err (een_proc N) (decrypt_ecies X encrypted (get_private_key X keys))) (\<lambda>decrypted.
      from_ext borsh_error (from_slice (een_envelope N) decrypted))))"

definition decrypt_or_decode_public_chain_event ::
  "EventEnv \<Rightarrow> string \<Rightarrow> BcrKeys option \<Rightarrow> (EventEnvelope, TransportError) result" where
  "decrypt_or_decode_public_chain_event N data keys =
     (case keys of
        None \<Rightarrow> decode_public_chain_event N data
      | Some k \<Rightarrow>
          (case decrypt_and_decode_public_chain_event N data k of
             Err decrypt_err \<Rightarrow>
               map_err (\<lambda>decode_err. T_Blockchain (''Could not decrypt or decode public chain event. Decrypt error: ''
                   @ proc_transport_text (een_proc N) decrypt_err @ ''; decode error: ''
                   @ proc_transport_text (een_proc N) decode_err))
                 (decode_public_chain_event N data)
           | r \<Rightarrow> r))"

section \<open>Blocks in events\<close>

datatype BlockData = BD_Bill BillBlock | BD_Identity IdentityBlock | BD_Company CompanyBlock

definition get_block_height :: "BlockData \<Rightarrow> u64" where
  "get_block_height d =
     (case d of BD_Bill b \<Rightarrow> bid_inner (bbl_id b) | BD_Identity b \<Rightarrow> bid_inner (ibl_id b) | BD_Company b \<Rightarrow> bid_inner (cbl_id b))"

definition get_block_hash :: "BlockData \<Rightarrow> Sha256Hash" where
  "get_block_hash d = (case d of BD_Bill b \<Rightarrow> bbl_hash b | BD_Identity b \<Rightarrow> ibl_hash b | BD_Company b \<Rightarrow> cbl_hash b)"

definition get_block_timestamp :: "BlockData \<Rightarrow> Timestamp" where
  "get_block_timestamp d =
     (case d of BD_Bill b \<Rightarrow> bbl_timestamp b | BD_Identity b \<Rightarrow> ibl_timestamp b | BD_Company b \<Rightarrow> cbl_timestamp b)"

definition decode_block ::
  "EventEnv \<Rightarrow> NostrEvent \<Rightarrow> string \<Rightarrow> BlockchainType \<Rightarrow> BcrKeys option \<Rightarrow> (BlockData, TransportError) result" where
  "decode_block N event chain_id chain_type keys =
     (case unwrap_public_chain_event N event of
        None \<Rightarrow> Err (T_Blockchain ''Could not unwrap payload from public chain event'')
      | Some payload \<Rightarrow>
          if ped_id payload = chain_id \<and> ped_chain_type payload = chain_type then
            and_then (decrypt_or_decode_public_chain_event N (ped_payload payload) keys) (\<lambda>decoded.
            case chain_type of
              BT_Bill \<Rightarrow> and_then (from_ext borsh_error (from_slice (een_bill_event N) (env_data decoded)))
                (\<lambda>e. Ok (BD_Bill (bbe_block e)))
            | BT_Identity \<Rightarrow> and_then (from_ext borsh_error (from_slice (een_identity_event N) (env_data decoded)))
                (\<lambda>e. Ok (BD_Identity (ibe_block e)))
            | BT_Company \<Rightarrow> and_then (from_ext borsh_error (from_slice (een_company_event N) (env_data decoded)))
                (\<lambda>e. Ok (BD_Company (cbe_block e))))
          else Err (T_Blockchain (''Invalid blockchain event '' @ ped_id payload @ '' ''
                 @ blockchain_type_fmt (ped_chain_type payload) @ '' expected '' @ chain_id @ '' ''
                 @ blockchain_type_fmt chain_type)))"

section \<open>Events as nodes of a tree of replies\<close>

datatype EventContainer =
  EventContainer (evc_event: NostrEvent) (evc_root_id: "EventId option") (evc_reply_id: "EventId option")
    (evc_children: "EventContainer list") (evc_block: BlockData) (evc_block_height: u64)

definition event_container_new ::
  "NostrEvent \<Rightarrow> EventId option \<Rightarrow> EventId option \<Rightarrow> BlockData \<Rightarrow> EventContainer" where
  "event_container_new event root_id reply_id block =
     EventContainer event root_id reply_id [] block (get_block_height block)"

definition is_root :: "EventContainer \<Rightarrow> bool" where
  "is_root c = (evc_root_id c = None \<and> evc_reply_id c = None)"

definition is_child_of :: "EventContainer \<Rightarrow> EventId \<Rightarrow> bool" where
  "is_child_of c event_id =
     (case evc_reply_id c of Some i \<Rightarrow> i = event_id | None \<Rightarrow> evc_root_id c = Some event_id)"

definition with_children :: "EventContainer \<Rightarrow> EventContainer list \<Rightarrow> EventContainer" where
  "with_children c children =
     EventContainer (evc_event c) (evc_root_id c) (evc_reply_id c) children (evc_block c) (evc_block_height c)"

text \<open>The children of a node among the markers, and the tree below it; the fuel bounds its depth.\<close>

definition children_of :: "EventContainer list \<Rightarrow> EventContainer \<Rightarrow> EventContainer list" where
  "children_of markers c =
     filter (\<lambda>m. is_child_of m (nev_id (evc_event c)) \<and> nev_id (evc_event m) \<noteq> nev_id (evc_event c)) markers"

fun resolve_children :: "nat \<Rightarrow> EventContainer list \<Rightarrow> EventContainer \<Rightarrow> EventContainer option" where
  "resolve_children 0 markers c = None"
| "resolve_children (Suc n) markers c =
     map_option (with_children c)
       (those (map (\<lambda>m. if evc_children m = [] then resolve_children n markers m else Some m)
                (children_of markers c)))"

fun as_chains :: "EventContainer \<Rightarrow> EventContainer list list" where
  "as_chains (EventContainer event root_id reply_id children block height) =
     (let c = EventContainer event root_id reply_id children block height in
      if children = [] then [[c]]
      else concat (map (\<lambda>child. map (\<lambda>chain. c # chain) (as_chains child)) children))"

section \<open>From events to sorted candidate chains\<close>

text \<open>The ids of the root and of the event replied to; of several such tags the last one counts.\<close>

definition add_marker :: "EventEnv \<Rightarrow> EventId option \<times> EventId option \<Rightarrow> Tag \<Rightarrow> EventId option \<times> EventId option" where
  "add_marker N ids tag =
     (case een_nip10 N tag of
        Some (i, Some M_Root) \<Rightarrow> (Some i, snd ids)
      | Some (i, Some M_Reply) \<Rightarrow> (fst ids, Some i)
      | _ \<Rightarrow> ids)"

definition ids_and_markers ::
  "EventEnv \<Rightarrow> NostrEvent \<Rightarrow> string \<Rightarrow> BlockchainType \<Rightarrow> BcrKeys option \<Rightarrow> EventContainer option" where
  "ids_and_markers N event chain_id chain_type keys =
     (case decode_block N event chain_id chain_type keys of
        Ok block \<Rightarrow>
          (case foldl (add_marker N) (None, None) (nev_tags event) of
             (root_id, reply_id) \<Rightarrow> Some (event_container_new event root_id reply_id block))
      | _ \<Rightarrow> None)"

definition split_root :: "EventContainer list \<Rightarrow> (EventContainer \<times> EventContainer list) option" where
  "split_root markers = map_option (\<lambda>root. (root, filter (\<lambda>v. \<not> is_root v) markers)) (find is_root markers)"

definition event_markers ::
  "EventEnv \<Rightarrow> NostrEvent list \<Rightarrow> string \<Rightarrow> BlockchainType \<Rightarrow> BcrKeys option \<Rightarrow> EventContainer list" where
  "event_markers N events chain_id chain_type keys =
     List.map_filter (\<lambda>e. ids_and_markers N e chain_id chain_type keys) events"

definition collect_event_chains ::
  "nat \<Rightarrow> EventEnv \<Rightarrow> NostrEvent list \<Rightarrow> string \<Rightarrow> BlockchainType \<Rightarrow> BcrKeys option \<Rightarrow> EventContainer list list option" where
  "collect_event_chains fuel N events chain_id chain_type keys =
     (case split_root (event_markers N events chain_id chain_type keys) of
        None \<Rightarrow> Some []
      | Some (root, children) \<Rightarrow> map_option as_chains (resolve_children fuel children root))"

datatype Ordering = Less | Equal | Greater

definition cmp :: "'a::linorder \<Rightarrow> 'a \<Rightarrow> Ordering" where
  "cmp a b = (if a < b then Less else if a = b then Equal else Greater)"

definition then_with :: "Ordering \<Rightarrow> Ordering \<Rightarrow> Ordering" where
  "then_with o1 o2 = (case o1 of Equal \<Rightarrow> o2 | _ \<Rightarrow> o1)"

definition cmp_opt :: "'a::linorder option \<Rightarrow> 'a option \<Rightarrow> Ordering" where
  "cmp_opt a b =
     (case (a, b) of (None, None) \<Rightarrow> Equal | (None, Some _) \<Rightarrow> Less | (Some _, None) \<Rightarrow> Greater
                   | (Some x, Some y) \<Rightarrow> cmp x y)"

definition chain_tip_timestamp :: "EventEnv \<Rightarrow> EventContainer list \<Rightarrow> Timestamp" where
  "chain_tip_timestamp N c = (case last_opt c of Some e \<Rightarrow> get_block_timestamp (evc_block e) | None \<Rightarrow> een_now N)"

definition chain_tip_hash :: "EventContainer list \<Rightarrow> Sha256Hash option" where
  "chain_tip_hash c = map_option (\<lambda>e. get_block_hash (evc_block e)) (last_opt c)"

definition compare_chains :: "EventEnv \<Rightarrow> EventContainer list \<Rightarrow> EventContainer list \<Rightarrow> Ordering" where
  "compare_chains N a b =
     then_with (cmp (length b) (length a))
    (then_with (cmp (chain_tip_timestamp N a) (chain_tip_timestamp N b))
               (cmp_opt (chain_tip_hash a) (chain_tip_hash b)))"

text \<open>\<^verbatim>\<open>sort_by\<close> is stable.\<close>

fun insert_sorted :: "('a \<Rightarrow> 'a \<Rightarrow> Ordering) \<Rightarrow> 'a \<Rightarrow> 'a list \<Rightarrow> 'a list" where
  "insert_sorted c x [] = [x]"
| "insert_sorted c x (y # ys) = (if c x y = Greater then y # insert_sorted c x ys else x # y # ys)"

definition sort_by :: "('a \<Rightarrow> 'a \<Rightarrow> Ordering) \<Rightarrow> 'a list \<Rightarrow> 'a list" where
  "sort_by c xs = foldr (insert_sorted c) xs []"

text \<open>\<open>events\<close> is the answer of the relays; an error of the transport is handed on.\<close>

definition resolve_event_chains ::
  "nat \<Rightarrow> EventEnv \<Rightarrow> (NostrEvent list, TransportError) result \<Rightarrow> string \<Rightarrow> BlockchainType \<Rightarrow> BcrKeys option
     \<Rightarrow> (EventContainer list list, TransportError) result option" where
  "resolve_event_chains fuel N answer chain_id chain_type keys =
     (case answer of
        Ok events \<Rightarrow>
          map_option (\<lambda>chains. Ok (sort_by (compare_chains N) chains))
            (collect_event_chains fuel N events chain_id chain_type keys)
      | Err e \<Rightarrow> Some (Err e)
      | Panic \<Rightarrow> Some Panic)"

end
