(* ===== verification/Event_Store.thy ===== *)
theory Event_Store
  imports Event_Chains Chain_Store
begin

text \<open>
  The store of chain events, \<^verbatim>\<open>bcr-ebill-persistence/src/db/nostr_chain_event.rs\<close>: the events of all chains, one
  per event id. Conversions of events to and from rows only change the representation of signatures and are
  left out. The lemmas show what is found after events were added or removed.
\<close>

record NostrChainEvent =
  nce_event_id :: string
  nce_root_id :: string
  nce_reply_id :: "string option"
  nce_author :: string
  nce_chain_id :: string
  nce_chain_type :: BlockchainType
  nce_block_height :: nat
  nce_block_hash :: Sha256Hash
  nce_received :: Timestamp
  nce_time :: Timestamp
  nce_payload :: NostrEvent

definition is_root_event :: "NostrChainEvent \<Rightarrow> bool" where
  "is_root_event e = (nce_event_id e = nce_root_id e)"

type_synonym EventTable = "(string \<times> NostrChainEvent) list"

text \<open>The error of a failing statement is \<open>fails\<close>.\<close>

definition event_query :: "string option \<Rightarrow> 'a \<Rightarrow> ('a, PersistenceError) result" where
  "event_query fails a = (case fails of Some e \<Rightarrow> Err (surreal_error e) | None \<Rightarrow> Ok a)"

definition of_chain :: "string \<Rightarrow> BlockchainType \<Rightarrow> NostrChainEvent \<Rightarrow> bool" where
  "of_chain chain_id chain_type e = (nce_chain_id e = chain_id \<and> nce_chain_type e = chain_type)"

text \<open>\<^verbatim>\<open>ORDER BY block_height DESC\<close>: a stable sort of the reversed order.\<close>

definition find_all_chain_events :: "EventTable \<Rightarrow> string \<Rightarrow> BlockchainType \<Rightarrow> NostrChainEvent list" where
  "find_all_chain_events t chain_id chain_type =
     sort_by (\<lambda>a b. cmp (nce_block_height b) (nce_block_height a)) (filter (of_chain chain_id chain_type) (map snd t))"

definition find_chain_events ::
  "string option \<Rightarrow> EventTable \<Rightarrow> string \<Rightarrow> BlockchainType \<Rightarrow> (NostrChainEvent list, PersistenceError) result" where
  "find_chain_events fails t chain_id chain_type = event_query fails (find_all_chain_events t chain_id chain_type)"

definition find_latest_block_events ::
  "string option \<Rightarrow> EventTable \<Rightarrow> string \<Rightarrow> BlockchainType \<Rightarrow> (NostrChainEvent list, PersistenceError) result" where
  "find_latest_block_events fails t chain_id chain_type =
     and_then (event_query fails (find_all_chain_events t chain_id chain_type)) (\<lambda>result.
     Ok (case first_opt result of
           Some e \<Rightarrow> filter (\<lambda>x. nce_block_height x = nce_block_height e) result
         | None \<Rightarrow> []))"

definition find_by_block_hash ::
  "string option \<Rightarrow> EventTable \<Rightarrow> Sha256Hash \<Rightarrow> (NostrChainEvent option, PersistenceError) result" where
  "find_by_block_hash fails t h =
     event_query fails (first_opt (sort_by
       (\<lambda>a b. then_with (cmp (nce_block_height b) (nce_block_height a)) (cmp (nce_received b) (nce_received a)))
       (filter (\<lambda>e. nce_block_hash e = h) (map snd t))))"

definition add_chain_event :: "string option \<Rightarrow> EventTable \<Rightarrow> NostrChainEvent \<Rightarrow> (unit, PersistenceError) result \<times> EventTable" where
  "add_chain_event fails t e =
     (case event_query fails () of Ok _ \<Rightarrow> (Ok (), hm_insert (nce_event_id e) e t) | r \<Rightarrow> (r, t))"

definition by_event_id :: "string option \<Rightarrow> EventTable \<Rightarrow> string \<Rightarrow> (NostrChainEvent option, PersistenceError) result" where
  "by_event_id fails t i = event_query fails (map_of t i)"

definition find_root_event ::
  "string option \<Rightarrow> EventTable \<Rightarrow> string \<Rightarrow> BlockchainType \<Rightarrow> (NostrChainEvent option, PersistenceError) result" where
  "find_root_event fails t chain_id chain_type =
     event_query fails (first_opt (filter (\<lambda>e. of_chain chain_id chain_type e \<and> is_root_event e) (map snd t)))"

definition remove_chain_events ::
  "string option \<Rightarrow> EventTable \<Rightarrow> string \<Rightarrow> BlockchainType \<Rightarrow> (unit, PersistenceError) result \<times> EventTable" where
  "remove_chain_events fails t chain_id chain_type =
     (case event_query fails () of
        Ok _ \<Rightarrow> (Ok (), filter (\<lambda>(_, e). \<not> of_chain chain_id chain_type e) t)
      | r \<Rightarrow> (r, t))"

section \<open>Events of received blocks\<close>

text \<open>
  \<^verbatim>\<open>EventContainer::as_chain_store_event\<close> of \<^verbatim>\<open>public_chain_helpers.rs\<close>, and \<^verbatim>\<open>root_and_reply_id\<close> of \<^verbatim>\<open>transport.rs\<close>:
  only tags of kind \<^verbatim>\<open>e\<close> count.
\<close>

definition as_chain_store_event ::
  "EventEnv \<Rightarrow> EventContainer \<Rightarrow> string \<Rightarrow> BlockchainType \<Rightarrow> nat \<Rightarrow> NostrChainEvent" where
  "as_chain_store_event N c chain_id chain_type height =
     \<lparr>nce_event_id = nev_id (evc_event c),
      nce_root_id = (case evc_root_id c of Some i \<Rightarrow> i | None \<Rightarrow> nev_id (evc_event c)),
      nce_reply_id = evc_reply_id c, nce_author = nev_pubkey (evc_event c), nce_chain_id = chain_id,
      nce_chain_type = chain_type, nce_block_height = height,
      nce_block_hash = get_block_hash (evc_block c), nce_received = een_now N,
      nce_time = nev_created_at (evc_event c), nce_payload = evc_event c\<rparr>"

definition root_and_reply_id :: "EventEnv \<Rightarrow> NostrEvent \<Rightarrow> EventId option \<times> EventId option" where
  "root_and_reply_id N event =
     foldl (add_marker N) (None, None) (filter (\<lambda>tag. first_opt tag = Some ''e'') (nev_tags event))"

definition block_chain_event :: "EventEnv \<Rightarrow> NostrEvent \<Rightarrow> nat \<Rightarrow> Sha256Hash \<Rightarrow> string \<Rightarrow> BlockchainType \<Rightarrow> NostrChainEvent" where
  "block_chain_event N event height hash chain_id chain_type =
     (case root_and_reply_id N event of (root, reply) \<Rightarrow>
        \<lparr>nce_event_id = nev_id event, nce_root_id = (case root of Some i \<Rightarrow> i | None \<Rightarrow> nev_id event),
         nce_reply_id = reply, nce_author = nev_pubkey event, nce_chain_id = chain_id, nce_chain_type = chain_type,
         nce_block_height = height, nce_block_hash = hash, nce_received = een_now N,
         nce_time = nev_created_at event, nce_payload = event\<rparr>)"

section \<open>Facts\<close>

lemma event_query_Ok [simp]: "event_query fails a = Ok b \<longleftrightarrow> fails = None \<and> b = a"
  by (auto simp: event_query_def split: option.splits)

lemma added_event_found:
  assumes "add_chain_event None t e = (r, t')"
  shows "by_event_id None t' (nce_event_id e) = Ok (Some e)"
  using assms by (auto simp: add_chain_event_def event_query_def by_event_id_def)

lemma removed_events_gone:
  assumes "remove_chain_events None t i ty = (r, t')"
  shows "find_chain_events None t' i ty = Ok []"
proof -
  have "filter (of_chain i ty) (map snd (filter (\<lambda>(_, e). \<not> of_chain i ty e) t)) = []"
    by (induction t) auto
  with assms show ?thesis
    by (auto simp: remove_chain_events_def event_query_def find_chain_events_def find_all_chain_events_def sort_by_def)
qed

end
