(* ===== verification/Notification_Store.thy ===== *)
theory Notification_Store
  imports Event_Store
begin

text \<open>
  Notifications, \<^verbatim>\<open>bcr-ebill-core/src/application/notification.rs\<close>, and their store,
  \<^verbatim>\<open>bcr-ebill-persistence/src/db/notification.rs\<close> with the filter of \<^verbatim>\<open>bcr-ebill-persistence/src/notification.rs\<close>:
  one table of notifications by id, and one of the notifications sent for blocks. The payload, a JSON value, is kept
  as its text. The id and the time of a new notification are arguments. The lemmas show that of the active
  notifications for a reference and a node the latest is found, and what marking one as done does.
\<close>

section \<open>Notifications\<close>

datatype NotificationType = NT_General | NT_Company | NT_Bill | NT_Contact

datatype NotificationLevel = Informational | ActionRequired

record Notification =
  nt_id :: string
  nt_node_id :: "NodeId option"
  nt_notification_type :: NotificationType
  nt_reference_id :: "string option"
  nt_description :: string
  nt_datetime :: Timestamp
  nt_active :: bool
  nt_level :: NotificationLevel
  nt_payload :: "string option"
  nt_event_id :: "string option"

definition new_notification ::
  "string \<Rightarrow> Timestamp \<Rightarrow> NotificationType \<Rightarrow> string option \<Rightarrow> NodeId \<Rightarrow> string \<Rightarrow> string option \<Rightarrow> NotificationLevel
     \<Rightarrow> Notification" where
  "new_notification uuid now t reference node_id description payload level =
     \<lparr>nt_id = uuid, nt_node_id = Some node_id, nt_notification_type = t, nt_reference_id = reference,
      nt_description = description, nt_datetime = now, nt_active = True, nt_level = level, nt_payload = payload,
      nt_event_id = None\<rparr>"

definition new_bill_notification ::
  "string \<Rightarrow> Timestamp \<Rightarrow> BillId \<Rightarrow> NodeId \<Rightarrow> string \<Rightarrow> string option \<Rightarrow> NotificationLevel \<Rightarrow> Notification" where
  "new_bill_notification uuid now bill_id = new_notification uuid now NT_Bill (Some bill_id)"

definition new_company_notification ::
  "string \<Rightarrow> Timestamp \<Rightarrow> NodeId \<Rightarrow> NodeId \<Rightarrow> string \<Rightarrow> string option \<Rightarrow> NotificationLevel \<Rightarrow> Notification" where
  "new_company_notification uuid now company_id = new_notification uuid now NT_Company (Some company_id)"

definition new_contact_notification ::
  "string \<Rightarrow> Timestamp \<Rightarrow> string \<Rightarrow> NodeId \<Rightarrow> string \<Rightarrow> string option \<Rightarrow> NotificationLevel \<Rightarrow> Notification" where
  "new_contact_notification uuid now pending_share_id = new_notification uuid now NT_Contact (Some pending_share_id)"

definition new_general_notification ::
  "string \<Rightarrow> Timestamp \<Rightarrow> NodeId \<Rightarrow> string \<Rightarrow> string option \<Rightarrow> NotificationLevel \<Rightarrow> Notification" where
  "new_general_notification uuid now node_id description reference level =
     new_notification uuid now NT_General reference node_id description None level"

section \<open>Filters\<close>

text \<open>\<^verbatim>\<open>Display\<close> of types and levels, also their representation in the database.\<close>

definition notification_type_text :: "NotificationType \<Rightarrow> string" where
  "notification_type_text t =
     (case t of NT_General \<Rightarrow> ''General'' | NT_Company \<Rightarrow> ''Company'' | NT_Bill \<Rightarrow> ''Bill'' | NT_Contact \<Rightarrow> ''Contact'')"

definition level_text :: "NotificationLevel \<Rightarrow> string" where
  "level_text l = (case l of Informational \<Rightarrow> ''Informational'' | ActionRequired \<Rightarrow> ''ActionRequired'')"

record NotificationFilter =
  nf_active :: "bool option"
  nf_reference_id :: "string option"
  nf_notification_type :: "string option"
  nf_node_ids :: "NodeId list"
  nf_event_id :: "string option"
  nf_level :: "string option"
  nf_limit :: "nat option"
  nf_offset :: "nat option"

definition nf_default :: NotificationFilter where
  "nf_default = \<lparr>nf_active = None, nf_reference_id = None, nf_notification_type = None, nf_node_ids = [],
     nf_event_id = None, nf_level = None, nf_limit = None, nf_offset = None\<rparr>"

definition unset_or :: "'a option \<Rightarrow> ('a \<Rightarrow> bool) \<Rightarrow> bool" where
  "unset_or x p = (case x of None \<Rightarrow> True | Some v \<Rightarrow> p v)"

definition filter_matches :: "NotificationFilter \<Rightarrow> Notification \<Rightarrow> bool" where
  "filter_matches f n =
     (unset_or (nf_active f) (\<lambda>active. nt_active n = active) \<and>
      unset_or (nf_reference_id f) (\<lambda>r. nt_reference_id n = Some r) \<and>
      unset_or (nf_notification_type f) (\<lambda>t. notification_type_text (nt_notification_type n) = t) \<and>
      unset_or (nf_event_id f) (\<lambda>e. nt_event_id n = Some e) \<and>
      unset_or (nf_level f) (\<lambda>l. level_text (nt_level n) = l) \<and>
      (nf_node_ids f \<noteq> [] \<longrightarrow> nt_node_id n \<in> Some ` set (nf_node_ids f)))"

definition get_limit :: "NotificationFilter \<Rightarrow> nat" where
  "get_limit f = (case nf_limit f of Some l \<Rightarrow> l | None \<Rightarrow> 200)"

definition get_offset :: "NotificationFilter \<Rightarrow> nat" where
  "get_offset f = (case nf_offset f of Some i \<Rightarrow> i | None \<Rightarrow> 0)"

section \<open>The store\<close>

type_synonym NotificationTable = "(string \<times> Notification) list"

definition notification_add ::
  "string option \<Rightarrow> NotificationTable \<Rightarrow> Notification \<Rightarrow> (Notification, PersistenceError) result \<times> NotificationTable" where
  "notification_add fails t n =
     (case event_query fails () of
        Ok _ \<Rightarrow> (case map_of t (nt_id n) of
                  Some _ \<Rightarrow> (Err (surreal_error ''record already exists''), t)
                | None \<Rightarrow> (Ok n, hm_insert (nt_id n) n t))
      | Err e \<Rightarrow> (Err e, t)
      | Panic \<Rightarrow> (Panic, t))"

definition notification_list ::
  "string option \<Rightarrow> NotificationTable \<Rightarrow> NotificationFilter \<Rightarrow> (Notification list, PersistenceError) result" where
  "notification_list fails t f =
     event_query fails (take (get_limit f) (drop (get_offset f)
       (sort_by (\<lambda>a b. cmp (nt_datetime b) (nt_datetime a)) (filter (filter_matches f) (map snd t)))))"

definition get_latest_by_reference ::
  "string option \<Rightarrow> NotificationTable \<Rightarrow> string \<Rightarrow> NotificationType \<Rightarrow> (Notification option, PersistenceError) result" where
  "get_latest_by_reference fails t reference ty =
     and_then (notification_list fails t (nf_default\<lparr>nf_active := Some True, nf_reference_id := Some reference,
       nf_notification_type := Some (notification_type_text ty), nf_limit := Some 1\<rparr>)) (\<lambda>r. Ok (first_opt r))"

definition get_latest_by_reference_and_node_id ::
  "string option \<Rightarrow> NotificationTable \<Rightarrow> string \<Rightarrow> NotificationType \<Rightarrow> NodeId
     \<Rightarrow> (Notification option, PersistenceError) result" where
  "get_latest_by_reference_and_node_id fails t reference ty node_id =
     and_then (notification_list fails t (nf_default\<lparr>nf_active := Some True, nf_reference_id := Some reference,
       nf_notification_type := Some (notification_type_text ty), nf_node_ids := [node_id], nf_limit := Some 1\<rparr>))
       (\<lambda>r. Ok (first_opt r))"

text \<open>A map from references to their latest notification; on equal times the one found first stays.\<close>

definition keep_latest :: "Notification \<Rightarrow> (string \<times> Notification) list \<Rightarrow> (string \<times> Notification) list" where
  "keep_latest n m =
     (case nt_reference_id n of
        None \<Rightarrow> m
      | Some ref_id \<Rightarrow>
          (case map_of m ref_id of
             None \<Rightarrow> hm_insert ref_id n m
           | Some old \<Rightarrow> if nt_datetime old < nt_datetime n then hm_insert ref_id n m else m))"

definition get_latest_by_references ::
  "string option \<Rightarrow> NotificationTable \<Rightarrow> string list \<Rightarrow> NotificationType
     \<Rightarrow> ((string \<times> Notification) list, PersistenceError) result" where
  "get_latest_by_references fails t references ty =
     and_then (event_query fails (filter (\<lambda>n. nt_active n \<and> nt_notification_type n = ty \<and>
         nt_reference_id n \<in> Some ` set references) (map snd t))) (\<lambda>r. Ok (fold keep_latest r []))"

definition list_by_type ::
  "string option \<Rightarrow> NotificationTable \<Rightarrow> NotificationType \<Rightarrow> (Notification list, PersistenceError) result" where
  "list_by_type fails t ty =
     notification_list fails t (nf_default\<lparr>nf_active := Some True, nf_notification_type := Some (notification_type_text ty)\<rparr>)"

definition mark_as_done :: "string option \<Rightarrow> NotificationTable \<Rightarrow> string \<Rightarrow> (unit, PersistenceError) result \<times> NotificationTable" where
  "mark_as_done fails t i =
     (case event_query fails () of
        Ok _ \<Rightarrow> (Ok (), map (\<lambda>(k, n). (k, if k = i then n\<lparr>nt_active := False\<rparr> else n)) t)
      | r \<Rightarrow> (r, t))"

definition notification_delete ::
  "string option \<Rightarrow> NotificationTable \<Rightarrow> string \<Rightarrow> (unit, PersistenceError) result \<times> NotificationTable" where
  "notification_delete fails t i = (case event_query fails () of Ok _ \<Rightarrow> (Ok (), hm_remove i t) | r \<Rightarrow> (r, t))"

definition get_active_status_for_node_ids ::
  "string option \<Rightarrow> NotificationTable \<Rightarrow> NodeId list \<Rightarrow> ((NodeId \<times> bool) list, PersistenceError) result" where
  "get_active_status_for_node_ids fails t node_ids =
     and_then (event_query fails (List.map_filter nt_node_id (filter (\<lambda>n. nt_active n \<and>
         (node_ids \<noteq> [] \<longrightarrow> nt_node_id n \<in> Some ` set node_ids)) (map snd t)))) (\<lambda>found.
     Ok (if node_ids = [] then fold (\<lambda>n. hm_insert n True) found []
         else fold (\<lambda>n. hm_insert n (n \<in> set found)) node_ids []))"

definition notification_exists_for_event_id ::
  "string option \<Rightarrow> NotificationTable \<Rightarrow> string \<Rightarrow> NodeId \<Rightarrow> (bool, PersistenceError) result" where
  "notification_exists_for_event_id fails t event_id node_id =
     event_query fails (list_ex (\<lambda>n. nt_event_id n = Some event_id \<and> nt_node_id n = Some node_id) (map snd t))"

text \<open>Notifications sent for a block.\<close>

record SentBlockNotification =
  sbn_notification_type :: NotificationType
  sbn_reference_id :: string
  sbn_block_height :: "32 word"
  sbn_action_type :: ActionType
  sbn_datetime :: Timestamp

definition set_bill_notification_sent ::
  "string option \<Rightarrow> Timestamp \<Rightarrow> SentBlockNotification list \<Rightarrow> BillId \<Rightarrow> 32 word \<Rightarrow> ActionType
     \<Rightarrow> (unit, PersistenceError) result \<times> SentBlockNotification list" where
  "set_bill_notification_sent fails now t bill_id height action =
     (case event_query fails () of
        Ok _ \<Rightarrow> (Ok (), t @ [\<lparr>sbn_notification_type = NT_Bill, sbn_reference_id = bill_id, sbn_block_height = height,
                   sbn_action_type = action, sbn_datetime = now\<rparr>])
      | r \<Rightarrow> (r, t))"

definition bill_notification_sent ::
  "string option \<Rightarrow> SentBlockNotification list \<Rightarrow> BillId \<Rightarrow> 32 word \<Rightarrow> ActionType \<Rightarrow> (bool, PersistenceError) result" where
  "bill_notification_sent fails t bill_id height action =
     event_query fails (list_ex (\<lambda>n. sbn_notification_type n = NT_Bill \<and> sbn_reference_id n = bill_id \<and>
       sbn_block_height n = height \<and> sbn_action_type n = action) t)"

section \<open>Facts\<close>

text \<open>The active notifications of a company for a node.\<close>

definition active_for :: "string \<Rightarrow> NotificationType \<Rightarrow> NodeId \<Rightarrow> Notification \<Rightarrow> bool" where
  "active_for reference ty node_id n \<longleftrightarrow>
     nt_active n \<and> nt_reference_id n = Some reference \<and> nt_notification_type n = ty \<and> nt_node_id n = Some node_id"

lemma notification_type_text_inj [simp]: "notification_type_text a = notification_type_text b \<longleftrightarrow> a = b"
  by (cases a; cases b) (simp_all add: notification_type_text_def)

lemma sent_is_remembered:
  assumes "set_bill_notification_sent None now t i h a = (r, t')"
  shows "r = Ok () \<and> bill_notification_sent None t' i h a = Ok True"
  using assms by (auto simp: set_bill_notification_sent_def bill_notification_sent_def event_query_def)

lemma latest_is_active:
  "get_latest_by_reference_and_node_id None t reference ty node_id =
     Ok (first_opt (sort_by (\<lambda>a b. cmp (nt_datetime b) (nt_datetime a)) (filter (active_for reference ty node_id) (map snd t))))"
proof -
  let ?f = "nf_default\<lparr>nf_active := Some True, nf_reference_id := Some reference,
       nf_notification_type := Some (notification_type_text ty), nf_node_ids := [node_id], nf_limit := Some 1\<rparr>"
  have "filter_matches ?f = active_for reference ty node_id"
    by (auto simp: fun_eq_iff filter_matches_def active_for_def unset_or_def nf_default_def)
  then show ?thesis
    by (simp add: get_latest_by_reference_and_node_id_def notification_list_def event_query_def get_limit_def
        get_offset_def nf_default_def first_opt_def split: list.split)
qed

end
