(* ===== verification/Bill_Sync.thy ===== *)
theory Bill_Sync
  imports Notification_Store Bill_Service
begin

text \<open>
  The receiving side of a node, \<^verbatim>\<open>handler/bill_chain_event_processor.rs\<close> with \<^verbatim>\<open>bill_chain_event_handler.rs\<close> and
  \<^verbatim>\<open>bill_invite_handler.rs\<close>: received blocks are added to the stored chain of a bill, a chain that differs from the
  one of the relays is resynchronised, and an unknown bill is stored with its keys. The stores of the node are
  those of \<open>ServiceState\<close>, next to the stored events, the anchored files, the contacts that were asked for, the
  bills whose cached view was dropped, and the tables for companies and notifications of \<^verbatim>\<open>Member_Stores\<close>.

  \<^verbatim>\<open>add_bill_blocks\<close> and \<^verbatim>\<open>resync_chain\<close> call each other; a call from the resynchronisation
  never resynchronises again, so the code of \<^verbatim>\<open>add_bill_blocks\<close> takes the resynchronisation as an argument.
\<close>

section \<open>State and environment\<close>

text \<open>What a file belongs to.\<close>

datatype FileReferenceContext =
    FC_Identity string | FC_Company string string | FC_Contact string string | FC_Bill string string
  | FC_DirectUpload | FC_Unknown

record ActiveIdentityState =
  ais_personal :: NodeId
  ais_company :: "NodeId option"

datatype LocalSignatoryOverrideStatus = LSO_Hidden

record LocalSignatoryOverride =
  lso_company_id :: NodeId
  lso_node_id :: NodeId
  lso_status :: LocalSignatoryOverrideStatus

record SyncState =
  sy_node :: ServiceState
  sy_events :: EventTable
  sy_files :: "(FileReferenceContext \<times> File) list" \<comment> \<open>files anchored for a reference\<close>
  sy_contacts :: "NodeId list" \<comment> \<open>the calls of \<^verbatim>\<open>ensure_nostr_contact\<close>\<close>
  sy_invalidated :: "BillId list" \<comment> \<open>bills dropped from the cache\<close>
  sy_company_keys :: "(NodeId \<times> BcrKeys) list"
  sy_overrides :: "(string \<times> LocalSignatoryOverride) list"
  sy_active_identity :: "ActiveIdentityState option"
  sy_identities :: "(NodeId \<times> BcrKeys) list" \<comment> \<open>the calls of \<^verbatim>\<open>transport.add_identity\<close>\<close>
  sy_notifications :: NotificationTable
  sy_created :: nat \<comment> \<open>the number of notifications created so far\<close>
  sy_pushed :: "Notification list" \<comment> \<open>notifications sent to connected clients\<close>

type_synonym 'a sync = "('a, TransportError, SyncState) action"

record SyncEnv =
  sye_svc :: ServiceEnv
  sye_event :: EventEnv
  sye_public_chain :: "string \<Rightarrow> BlockchainType \<Rightarrow> (NostrEvent list, TransportError) result"
    \<comment> \<open>\<^verbatim>\<open>transport.resolve_public_chain\<close>, the answer of the relays\<close>
  sye_npub :: "NodeId \<Rightarrow> string" \<comment> \<open>\<^verbatim>\<open>NodeId::npub\<close>\<close>
  sye_bill_id :: "string \<Rightarrow> BillId option" \<comment> \<open>\<^verbatim>\<open>BillId::from_str\<close>\<close>
  sye_node_id :: "string \<Rightarrow> NodeId option" \<comment> \<open>\<^verbatim>\<open>NodeId::from_str\<close>\<close>
  sye_invite :: "ChainInvite Codec"
  sye_error_text :: "PersistenceError \<Rightarrow> string" \<comment> \<open>\<^verbatim>\<open>Display\<close> of errors of the stores\<close>
  sye_files_fail :: "string option"
  sye_cache_fails :: "string option"
  sye_events_fail :: "string option"
  sye_add_identity :: "NodeId \<Rightarrow> BcrKeys \<Rightarrow> (unit, TransportError) result" \<comment> \<open>\<^verbatim>\<open>transport.add_identity\<close>\<close>
  sye_company_value :: "Company \<Rightarrow> string + string" \<comment> \<open>\<^verbatim>\<open>serde_json::to_value\<close>, the text of the value\<close>
  sye_notification_value :: "Notification \<Rightarrow> string + string"
  sye_uuid :: "nat \<Rightarrow> string" \<comment> \<open>\<^verbatim>\<open>Uuid::new_v4()\<close> for the n-th notification\<close>
  sye_clock :: "nat \<Rightarrow> Timestamp" \<comment> \<open>\<^verbatim>\<open>Timestamp::now()\<close> for the n-th notification\<close>
  sye_nostr_relays :: "Url list" \<comment> \<open>\<^verbatim>\<open>get_config().nostr_config.relays\<close>\<close>

abbreviation sy_proc :: "SyncEnv \<Rightarrow> ProcEnv" where
  "sy_proc Y \<equiv> svc_proc (sye_svc Y)"

abbreviation sy_bill :: "SyncEnv \<Rightarrow> BillEnv" where
  "sy_bill Y \<equiv> proc_bill (sy_proc Y)"

datatype ResyncMode = Normal | NostrAuthoritative

text \<open>A call of a store of the node, with its error converted.\<close>

definition on_node :: "(ServiceError \<Rightarrow> TransportError) \<Rightarrow> 'a service \<Rightarrow> 'a sync" where
  "on_node g m s = (case m (sy_node s) of (r, n) \<Rightarrow> (map_err g r, s\<lparr>sy_node := n\<rparr>))"

definition persistence_text :: "SyncEnv \<Rightarrow> ServiceError \<Rightarrow> TransportError" where
  "persistence_text Y e = T_Persistence (case e of SE_Persistence p \<Rightarrow> sye_error_text Y p | _ \<Rightarrow> [])"

definition stored_bill_chain :: "SyncEnv \<Rightarrow> BillId \<Rightarrow> SyncState \<Rightarrow> (BillBlockchain, ServiceError) result" where
  "stored_bill_chain Y bill_id s = fst (bill_chain_get (sye_svc Y) bill_id (sy_node s))"

definition stored_bill_keys :: "SyncEnv \<Rightarrow> BillId \<Rightarrow> SyncState \<Rightarrow> (BcrKeys, ServiceError) result" where
  "stored_bill_keys Y bill_id s = fst (get_keys (sye_svc Y) bill_id (sy_node s))"

definition invalidate_cache_for_bill :: "SyncEnv \<Rightarrow> BillId \<Rightarrow> unit sync" where
  "invalidate_cache_for_bill Y bill_id s =
     (case sye_cache_fails Y of
        Some _ \<Rightarrow> (Err (T_Persistence ''Failed to invalidate cache for bill''), s)
      | None \<Rightarrow> (Ok (), s\<lparr>sy_invalidated := sy_invalidated s @ [bill_id]\<rparr>))"

definition anchor_important_file :: "SyncEnv \<Rightarrow> FileReferenceContext \<Rightarrow> File \<Rightarrow> unit sync" where
  "anchor_important_file Y context file s =
     (case sye_files_fail Y of
        Some e \<Rightarrow> (Err (T_Persistence (sye_error_text Y (surreal_error e))), s)
      | None \<Rightarrow> (Ok (), s\<lparr>sy_files := sy_files s @ [(context, file)]\<rparr>))"

definition ensure_nostr_contact :: "NodeId \<Rightarrow> unit sync" where
  "ensure_nostr_contact node_id s = (Ok (), s\<lparr>sy_contacts := sy_contacts s @ [node_id]\<rparr>)"

definition ensure_contacts :: "SyncEnv \<Rightarrow> BillBlockchain \<Rightarrow> BcrKeys \<Rightarrow> unit sync" where
  "ensure_contacts Y chain bill_keys =
     (case get_all_nodes_from_bill (sy_bill Y) chain bill_keys of
        Ok node_ids \<Rightarrow> for_each ensure_nostr_contact node_ids
      | Err _ \<Rightarrow> ret ()
      | Panic \<Rightarrow> lift Panic)"

text \<open>An error that is only logged.\<close>

definition logged :: "unit sync \<Rightarrow> unit sync" where
  "logged m s = (case m s of (Err _, s') \<Rightarrow> (Ok (), s') | r \<Rightarrow> r)"

definition save_event :: "SyncEnv \<Rightarrow> NostrChainEvent \<Rightarrow> unit sync" where
  "save_event Y e s =
     (case add_chain_event (sye_events_fail Y) (sy_events s) e of
        (r, t) \<Rightarrow> (map_err (persistence_text Y \<circ> SE_Persistence) r, s\<lparr>sy_events := t\<rparr>))"

definition drop_events :: "SyncEnv \<Rightarrow> string \<Rightarrow> BlockchainType \<Rightarrow> unit sync" where
  "drop_events Y chain_id chain_type s =
     (case remove_chain_events (sye_events_fail Y) (sy_events s) chain_id chain_type of
        (r, t) \<Rightarrow> (map_err (persistence_text Y \<circ> SE_Persistence) r, s\<lparr>sy_events := t\<rparr>))"

text \<open>The block store as the processor's functions use it.\<close>

definition sync_add :: "SyncEnv \<Rightarrow> SyncState store_add" where
  "sync_add Y s bill_id block =
     (case bill_chain_add (sye_svc Y) bill_id block (sy_node s) of
        (r, n) \<Rightarrow> (map_err (\<lambda>e. case e of SE_Persistence p \<Rightarrow> sye_error_text Y p | _ \<Rightarrow> []) r, s\<lparr>sy_node := n\<rparr>))"

definition bill_chain_remove_from :: "SyncEnv \<Rightarrow> BillId \<Rightarrow> BlockId \<Rightarrow> unit sync" where
  "bill_chain_remove_from Y bill_id from_block_id s =
     (case bill_store_remove_blocks_from_height (sy_bill Y) (svc_bill_db (sye_svc Y)) (ss_bill_chain (sy_node s))
        bill_id from_block_id of
        (r, t) \<Rightarrow> (map_err (\<lambda>_. T_Persistence ''Failed to remove blocks from height for fork resolution'') r,
                  s\<lparr>sy_node := (sy_node s)\<lparr>ss_bill_chain := t\<rparr>\<rparr>))"

section \<open>Adding blocks to a stored chain\<close>

text \<open>
  The loop over the received blocks. \<open>height\<close> is the id of the last block seen, \<open>added\<close> whether the last block
  tried was added; \<open>single\<close> says that there is just one block and no resynchronisation is going on. The result is
  \<open>None\<close> where the code returns at once.
\<close>

fun add_bill_blocks_loop ::
  "SyncEnv \<Rightarrow> unit sync \<Rightarrow> BillId \<Rightarrow> BillIssueBlockData \<Rightarrow> BcrKeys \<Rightarrow> bool \<Rightarrow> bool \<Rightarrow> BillBlockchain \<Rightarrow> BlockId \<Rightarrow> bool
     \<Rightarrow> BillBlock list \<Rightarrow> (BillBlockchain \<times> bool) option sync" where
  "add_bill_blocks_loop Y resync bill_id first bill_keys paid single chain height added [] =
     ret (Some (chain, added))"
| "add_bill_blocks_loop Y resync bill_id first bill_keys paid single chain height added (block # bs) =
     (if bbl_id block \<le> height then
        bind_act (lift (get_latest_block chain)) (\<lambda>latest.
        if single \<and> is_fork_block (bill_ops (sy_bill Y)) latest block then then_act resync (ret None)
        else add_bill_blocks_loop Y resync bill_id first bill_keys paid single chain height added bs)
      else (\<lambda>s.
        case validate_and_save_block (sy_proc Y) (sync_add Y) s bill_id chain first bill_keys block paid of
          (Ok added', chain', s') \<Rightarrow>
            add_bill_blocks_loop Y resync bill_id first bill_keys paid single chain' (bbl_id block) added' bs s'
        | (Err e, chain', s') \<Rightarrow>
            bind_act (lift (get_latest_block chain')) (\<lambda>latest.
            if single \<and> next_from_previous_block_id (bbl_id latest) < bbl_id block
            then then_act resync (ret (Some (chain', added)))
            else lift (Err e)) s'
        | (Panic, chain', s') \<Rightarrow> (Panic, s')))"

definition add_bill_blocks_with ::
  "SyncEnv \<Rightarrow> unit sync \<Rightarrow> BillId \<Rightarrow> BillBlockchain \<Rightarrow> BillBlock list \<Rightarrow> bool \<Rightarrow> unit sync" where
  "add_bill_blocks_with Y resync bill_id existing bs from_resync =
     bind_act (on_node (persistence_text Y) (get_keys (sye_svc Y) bill_id)) (\<lambda>bill_keys.
     bind_act (on_node (persistence_text Y) (is_paid (sye_svc Y) bill_id)) (\<lambda>paid.
     bind_act (lift (chain_err (sy_proc Y) (get_first_version_bill (sy_bill Y) existing bill_keys))) (\<lambda>first.
     then_act (for_each (anchor_important_file Y (FC_Bill bill_id ''files'')) (iss_files first))
    (bind_act (lift (get_latest_block existing)) (\<lambda>latest.
     bind_act (add_bill_blocks_loop Y resync bill_id first bill_keys paid (length bs = 1 \<and> \<not> from_resync) existing
       (bbl_id latest) False bs) (\<lambda>outcome.
     case outcome of
       Some (chain, True) \<Rightarrow> then_act (logged (invalidate_cache_for_bill Y bill_id)) (ensure_contacts Y chain bill_keys)
     | _ \<Rightarrow> ret ()))))))"

section \<open>Resynchronising a chain\<close>

definition bill_blocks_of :: "EventContainer list \<Rightarrow> BillBlock list" where
  "bill_blocks_of data = List.map_filter (\<lambda>d. case evc_block d of BD_Bill b \<Rightarrow> Some b | _ \<Rightarrow> None) data"

text \<open>
  The candidates of the relays, best first. The recursion over replies runs on fuel (the number of events is enough,
  see \<open>Event_Chains_Props\<close>); an unbounded recursion would overflow the stack.
\<close>

definition resolve_chain ::
  "SyncEnv \<Rightarrow> string \<Rightarrow> BlockchainType \<Rightarrow> BcrKeys \<Rightarrow> (EventContainer list list, TransportError) result" where
  "resolve_chain Y chain_id chain_type keys =
     (let answer = sye_public_chain Y chain_id chain_type;
          fuel = Suc (case answer of Ok events \<Rightarrow> length events | _ \<Rightarrow> 0) in
      case resolve_event_chains fuel (sye_event Y) answer chain_id chain_type (Some keys) of
        Some r \<Rightarrow> r | None \<Rightarrow> Panic)"

text \<open>Whether a candidate is considered, and from where it replaces the local blocks.\<close>

definition resync_fork_point :: "SyncEnv \<Rightarrow> ResyncMode \<Rightarrow> BillBlock list \<Rightarrow> BillBlock list \<Rightarrow> BlockId option option" where
  "resync_fork_point Y mode local remote =
     (case mode of
        Normal \<Rightarrow> (case resolve_fork (bill_ops (sy_bill Y)) local remote of
                    (True, fork_point) \<Rightarrow> Some fork_point | (False, _) \<Rightarrow> None)
      | NostrAuthoritative \<Rightarrow> Some (find_first_difference local remote))"

definition truncate_at :: "SyncEnv \<Rightarrow> BlockId option \<Rightarrow> BillBlockchain \<Rightarrow> BillBlockchain" where
  "truncate_at Y fork_point chain =
     (case fork_point of Some fork_id \<Rightarrow> truncate_from (bill_ops (sy_bill Y)) chain fork_id | None \<Rightarrow> chain)"

text \<open>Taking over a candidate that has passed the validation.\<close>

definition take_over ::
  "SyncEnv \<Rightarrow> BillId \<Rightarrow> BillBlockchain \<Rightarrow> BlockId option \<Rightarrow> EventContainer list \<Rightarrow> unit sync" where
  "take_over Y bill_id existing fork_point data =
     then_act (case fork_point of Some fork_id \<Rightarrow> bill_chain_remove_from Y bill_id fork_id | None \<Rightarrow> ret ())
    (then_act (add_bill_blocks_with Y (ret ()) bill_id (truncate_at Y fork_point existing) (bill_blocks_of data) True)
    (then_act (logged (drop_events Y bill_id BT_Bill))
    (then_act (for_each (\<lambda>c. logged (save_event Y (as_chain_store_event (sye_event Y) c bill_id BT_Bill
        (unat (get_block_height (evc_block c)))))) data)
     (invalidate_cache_for_bill Y bill_id))))"

fun resync_candidates ::
  "SyncEnv \<Rightarrow> ResyncMode \<Rightarrow> BillId \<Rightarrow> BillBlockchain \<Rightarrow> BcrKeys \<Rightarrow> BillIssueBlockData \<Rightarrow> bool
     \<Rightarrow> EventContainer list list \<Rightarrow> unit sync" where
  "resync_candidates Y mode bill_id existing bill_keys first paid [] = ret ()"
| "resync_candidates Y mode bill_id existing bill_keys first paid (data # rest) =
     (let bs = bill_blocks_of data;
          next = resync_candidates Y mode bill_id existing bill_keys first paid rest in
      if bs = [] then next
      else case resync_fork_point Y mode (blocks existing) bs of
        None \<Rightarrow> next
      | Some fork_point \<Rightarrow>
          if mode = NostrAuthoritative \<and> fork_point = Some bid_first
          then lift (Err (T_Blockchain ''Nostr-authoritative resync cannot replace a differing genesis block''))
          else (case fst (validate_blocks_for_chain (sy_proc Y) bill_id (truncate_at Y fork_point existing) bs bill_keys
                            first paid) of
                  Ok _ \<Rightarrow> take_over Y bill_id existing fork_point data
                | Err _ \<Rightarrow> next
                | Panic \<Rightarrow> lift Panic))"

definition resync_chain :: "SyncEnv \<Rightarrow> BillId \<Rightarrow> bool \<Rightarrow> ResyncMode \<Rightarrow> unit sync" where
  "resync_chain Y bill_id from_nostr mode s =
     (if \<not> from_nostr then invalidate_cache_for_bill Y bill_id s
      else case (stored_bill_chain Y bill_id s, stored_bill_keys Y bill_id s) of
        (Ok existing, Ok bill_keys) \<Rightarrow>
          bind_act (on_node (persistence_text Y) (is_paid (sye_svc Y) bill_id)) (\<lambda>paid.
          bind_act (lift (chain_err (sy_proc Y) (get_first_version_bill (sy_bill Y) existing bill_keys))) (\<lambda>first.
          case resolve_chain Y bill_id BT_Bill
                 (from_private_key (svc_ext (sye_svc Y)) (get_private_key (svc_ext (sye_svc Y)) bill_keys)) of
            Ok chain_data \<Rightarrow> resync_candidates Y mode bill_id existing bill_keys first paid chain_data
          | Err _ \<Rightarrow> lift (Err (T_Network (''Could not refetch chain data from Nostr for '' @ bill_id)))
          | Panic \<Rightarrow> lift Panic)) s
      | (Panic, _) \<Rightarrow> (Panic, s)
      | (_, Panic) \<Rightarrow> (Panic, s)
      | _ \<Rightarrow> (Err (T_Persistence (''Could not refetch chain for '' @ bill_id
                @ '' because the bill keys or chain could not be fetched'')), s))"

definition add_bill_blocks :: "SyncEnv \<Rightarrow> BillId \<Rightarrow> BillBlockchain \<Rightarrow> BillBlock list \<Rightarrow> unit sync" where
  "add_bill_blocks Y bill_id existing bs =
     add_bill_blocks_with Y (resync_chain Y bill_id True Normal) bill_id existing bs False"

section \<open>New chains\<close>

definition save_chain_keys :: "SyncEnv \<Rightarrow> BillId \<Rightarrow> BcrKeys \<Rightarrow> unit sync" where
  "save_chain_keys Y bill_id keys =
     on_node (\<lambda>_. T_Persistence ''Failed to save keys to bill store'') (save_keys (sye_svc Y) bill_id keys)"

definition save_chain_block :: "SyncEnv \<Rightarrow> BillId \<Rightarrow> BillBlock \<Rightarrow> unit sync" where
  "save_chain_block Y bill_id block s = save_block (sync_add Y) s bill_id block"

definition save_other_blocks ::
  "SyncEnv \<Rightarrow> BillId \<Rightarrow> BillBlockchain \<Rightarrow> BillIssueBlockData \<Rightarrow> BcrKeys \<Rightarrow> BillBlock list \<Rightarrow> unit sync" where
  "save_other_blocks Y bill_id chain first keys bs s =
     (case save_new_blocks (sy_proc Y) (sync_add Y) s bill_id chain first keys bs of (r, _, s') \<Rightarrow> (r, s'))"

definition add_new_chain :: "SyncEnv \<Rightarrow> BillBlock list \<Rightarrow> BcrKeys \<Rightarrow> unit sync" where
  "add_new_chain Y bs keys =
     bind_act (lift (get_valid_chain (sy_proc Y) bs keys)) (\<lambda>(bill_id, first, chain).
     bind_act (lift (get_first_block chain)) (\<lambda>issue_block.
     then_act (lift (reject_if (\<not> validate_plaintext_hash (sy_bill Y) issue_block (get_private_key (svc_ext (sye_svc Y)) keys))
       (T_Blockchain ''Newly received chain issue block has invalid plaintext hash'')))
    (bind_act (lift (map_err (\<lambda>_. T_Blockchain ''Newly received chain is not valid'')
       (new_from_blocks (sy_bill Y) [issue_block]))) (\<lambda>chain_starting_at_issue.
     then_act (save_chain_block Y bill_id issue_block)
    (then_act (for_each (anchor_important_file Y (FC_Bill bill_id ''files'')) (iss_files first))
    (then_act (if 1 < block_height chain
               then save_other_blocks Y bill_id chain_starting_at_issue first keys (tl (blocks chain)) else ret ())
    (then_act (save_chain_keys Y bill_id keys)
       (ensure_contacts Y chain keys))))))))"

section \<open>Received data\<close>

definition process_chain_data :: "SyncEnv \<Rightarrow> BillId \<Rightarrow> BillBlock list \<Rightarrow> BcrKeys option \<Rightarrow> unit sync" where
  "process_chain_data Y bill_id bs keys s =
     (if svc_bill_network (sye_svc Y) bill_id \<noteq> proc_bitcoin_network (sy_proc Y)
      then (Err (T_Blockchain (''Received bill blocks for bill '' @ bill_id @ '' for a different network'')), s)
      else case stored_bill_chain Y bill_id s of
        Ok existing_chain \<Rightarrow> add_bill_blocks Y bill_id existing_chain bs s
      | Err _ \<Rightarrow>
          (case keys of
             Some k \<Rightarrow> add_new_chain Y bs k s
           | None \<Rightarrow> (Err (T_Blockchain ''Received bill blocks for unknown bill''), s))
      | Panic \<Rightarrow> (Panic, s))"

definition validate_chain_event_and_sender ::
  "SyncEnv \<Rightarrow> BillId \<Rightarrow> string \<Rightarrow> SyncState \<Rightarrow> (bool, TransportError) result" where
  "validate_chain_event_and_sender Y bill_id sender s =
     (case (stored_bill_keys Y bill_id s, stored_bill_chain Y bill_id s) of
        (Ok bill_keys, Ok chain) \<Rightarrow>
          and_then (chain_err (sy_proc Y) (get_all_nodes_from_bill (sy_bill Y) chain bill_keys)) (\<lambda>nodes.
          Ok (sender \<in> set (map (sye_npub Y) nodes)))
      | (Panic, _) \<Rightarrow> Panic
      | (_, Panic) \<Rightarrow> Panic
      | _ \<Rightarrow> Ok False)"

text \<open>\<^verbatim>\<open>BillChainEventHandler\<close>: one block of a bill whose keys are known.\<close>

definition handle_bill_chain_event ::
  "SyncEnv \<Rightarrow> EventEnvelope \<Rightarrow> NostrEvent option \<Rightarrow> unit sync" where
  "handle_bill_chain_event Y event original_event s =
     (case from_slice (een_bill_event (sye_event Y)) (env_data event) of
        Inr decoded \<Rightarrow>
          (case stored_bill_keys Y (bbe_bill_id decoded) s of
             Ok keys \<Rightarrow>
               (case process_chain_data Y (bbe_bill_id decoded) [bbe_block decoded] (Some keys) s of
                  (Ok _, s') \<Rightarrow>
                    (case original_event of
                       Some original \<Rightarrow> logged (save_event Y (block_chain_event (sye_event Y) original
                         (bbe_block_height decoded) (bbl_hash (bbe_block decoded)) (bbe_bill_id decoded) BT_Bill)) s'
                     | None \<Rightarrow> (Ok (), s'))
                | (Err _, s') \<Rightarrow> (Ok (), s')
                | (Panic, s') \<Rightarrow> (Panic, s'))
           | Err _ \<Rightarrow> (Ok (), s)
           | Panic \<Rightarrow> (Panic, s))
      | Inl _ \<Rightarrow> (Ok (), s))"

text \<open>\<^verbatim>\<open>BillInviteEventHandler\<close>: the candidates are tried in order until one is accepted.\<close>

fun try_candidates :: "SyncEnv \<Rightarrow> BillId \<Rightarrow> BcrKeys \<Rightarrow> EventContainer list list \<Rightarrow> EventContainer list sync" where
  "try_candidates Y bill_id keys [] = ret []"
| "try_candidates Y bill_id keys (data # rest) = (\<lambda>s.
     if data = [] then try_candidates Y bill_id keys rest s
     else case process_chain_data Y bill_id (bill_blocks_of data) (Some keys) s of
       (Ok _, s') \<Rightarrow> (Ok data, s')
     | (Err _, s') \<Rightarrow> try_candidates Y bill_id keys rest s'
     | (Panic, s') \<Rightarrow> (Panic, s'))"

definition store_events :: "SyncEnv \<Rightarrow> string \<Rightarrow> BlockchainType \<Rightarrow> EventContainer list \<Rightarrow> unit sync" where
  "store_events Y chain_id chain_type inserted_chain =
     for_each (\<lambda>(idx, inserted). logged (save_event Y
       (as_chain_store_event (sye_event Y) inserted chain_id chain_type (idx + 1))))
       (zip [0..<length inserted_chain] inserted_chain)"

text \<open>\<^verbatim>\<open>ProtocolValidationError::from\<close> of a malformed bill id, as an error of the transport.\<close>

definition invalid_bill_id :: TransportError where
  "invalid_bill_id = T_Validation InvalidBillId"

definition handle_bill_invite_event :: "SyncEnv \<Rightarrow> EventEnvelope \<Rightarrow> unit sync" where
  "handle_bill_invite_event Y event =
     (case from_slice (sye_invite Y) (env_data event) of
        Inr decoded \<Rightarrow>
          (let keys = from_private_key (svc_ext (sye_svc Y)) (chk_private_key (chi_keys decoded)) in
           bind_act (lift (ok_or invalid_bill_id (sye_bill_id Y (chi_chain_id decoded)))) (\<lambda>bill_id.
           case resolve_chain Y bill_id BT_Bill keys of
             Ok chain_data \<Rightarrow>
               bind_act (try_candidates Y bill_id keys chain_data) (\<lambda>inserted_chain.
               store_events Y (chi_chain_id decoded) (chi_chain_type decoded) inserted_chain)
           | Err _ \<Rightarrow> ret ()
           | Panic \<Rightarrow> lift Panic))
      | Inl _ \<Rightarrow> ret ())"

end
