(* ===== verification/Chain_Table_Steps.thy ===== *)
theory Chain_Table_Steps
  imports Chain_Store_Props Chain_Fork
begin

text \<open>
  What single writes do to a table of blocks, for all three chain stores: adding a block leaves the table alone or
  appends the block to the chain that it was submitted for, removing blocks leaves a prefix. Beyond the laws of
  \<open>chain_table\<close> this needs that the hash of a block covers the key of its row.
\<close>

locale keyed_table = chain_table +
  assumes hashed_key: "blk_data_to_hash (ct_ops T) a = blk_data_to_hash (ct_ops T) b \<Longrightarrow> ct_key T (ct_row T a) = ct_key T (ct_row T b)"
begin

lemma rows_inj:
  assumes "secp_laws X" and "map (ct_row T) bs = map (ct_row T) cs"
  shows "bs = cs"
proof -
  have "inj (ct_row T)"
  proof (rule injI)
    fix a b
    assume "ct_row T a = ct_row T b"
    then have "ct_block T (ct_row T a) = ct_block T (ct_row T b)" by simp
    then show "a = b" by (simp add: row_round_trip [OF assms(1)])
  qed
  then show ?thesis using assms(2) by (simp add: inj_map_eq_map)
qed

lemma key_blocks:
  assumes "secp_laws X" "store_ok T X S t" "rows_of T t i = map (ct_row T) bs"
  shows "set bs \<subseteq> S" and "stored_chain T X t i bs"
proof -
  obtain cs where cs: "set cs \<subseteq> S" "stored_chain T X t i cs"
    using assms(2) unfolding store_ok_def by blast
  then have "map (ct_row T) bs = map (ct_row T) cs" using assms(3) by (simp add: stored_chain_def)
  with cs rows_inj [OF assms(1)] show "set bs \<subseteq> S" "stored_chain T X t i bs" by auto
qed

lemma key_of_row:
  assumes "rows_of T t i = map (ct_row T) bs" and "b \<in> set bs"
  shows "ct_key T (ct_row T b) = i"
proof -
  from assms have "ct_row T b \<in> set (rows_of T t i)" by simp
  then show ?thesis by (simp add: rows_of_def)
qed

text \<open>
  Adding a block for a key with a chain: if anything is written, it is this block, it belongs to this key and links
  to its last block. A block of another key cannot link to both chains, since its predecessor's hash fixes the key.
\<close>

lemma append_to_chain:
  assumes laws: "secp_laws X" and nc: "no_collisions (ct_ops T) X S"
    and ok: "store_ok T X S t" and rows: "rows_of T t i = map (ct_row T) cs" "cs \<noteq> []"
    and b: "b \<in> S" and add: "store_add_block T X D t i b = (r, t')"
  shows "store_ok T X S t' \<and>
         (t' = t \<and> r \<noteq> Ok () \<or> r = Ok () \<and> t' = t @ [ct_row T b] \<and> ct_key T (ct_row T b) = i)"
proof -
  note stored = key_blocks [OF laws ok rows(1)]
  show ?thesis
  proof (cases "store_prepare T X D t i b")
    case (Ok x)
    with add have commit: "store_commit T D t x = (r, t')" by (simp add: store_add_block_def)
    have ok': "store_ok T X S t'" by (rule commit_ok [OF nc ok prepare_pending [OF laws ok b Ok] commit])
    have latest: "store_get_latest_block T D t i = Ok (last cs) \<or> (\<exists>e. store_get_latest_block T D t i = Err (surreal_error e))"
      using rows(2) row_round_trip [OF laws]
      by (auto simp: store_get_latest_block_def db_query_def select_stored [OF stored(2)] last_opt_def split: option.splits)
    have x: "x = Create_Next (ct_row T b)" "linked (ct_ops T) X (last cs) b"
      using Ok latest by (auto simp: store_prepare_def linked_def Let_def surreal_error_def
          split: result.splits bool.splits)
    show ?thesis
    proof (cases "t' = t")
      case True
      with commit ok' show ?thesis by (auto simp: store_commit_def split: result.splits if_splits)
    next
      case False
      with commit have t': "t' = t @ [transaction_row x]" "r = Ok ()" and tr: "transaction_ok T t x"
        by (auto simp: store_commit_def split: result.splits if_splits)
      obtain ds where ds: "set ds \<subseteq> S" "stored_chain T X t (ct_key T (ct_row T b)) ds"
        using ok unfolding store_ok_def by blast
      from tr x have "ds \<noteq> []" and hash: "blk_hash (ct_ops T) (last ds) = blk_previous_hash (ct_ops T) b"
        by (auto simp: transaction_ok_def select_stored [OF ds(2)] last_opt_def row_fields split: if_splits)
      then have d: "last ds \<in> set ds" "last ds \<in> S" "validate_hash (ct_ops T) X (last ds) = Ok True"
        using ds by (auto simp: stored_chain_def)
      have c: "last cs \<in> set cs" "last cs \<in> S" "validate_hash (ct_ops T) X (last cs) = Ok True"
        using stored rows(2) by (auto simp: stored_chain_def)
      have "blk_hash (ct_ops T) (last cs) = blk_hash (ct_ops T) (last ds)"
        using x(2) hash by (simp add: linked_iff)
      with c d nc have "blk_data_to_hash (ct_ops T) (last cs) = blk_data_to_hash (ct_ops T) (last ds)"
        unfolding no_collisions_def validate_hash_Ok by simp
      then have "ct_key T (ct_row T (last cs)) = ct_key T (ct_row T (last ds))" by (rule hashed_key)
      moreover have "ct_key T (ct_row T (last cs)) = i" by (rule key_of_row [OF rows(1) c(1)])
      moreover have "ct_key T (ct_row T (last ds)) = ct_key T (ct_row T b)"
        by (rule key_of_row [of t "ct_key T (ct_row T b)" ds]) (use ds d in \<open>simp_all add: stored_chain_def\<close>)
      ultimately show ?thesis using t' ok' x(1) by (simp add: transaction_row_def)
    qed
  qed (use add ok in \<open>auto simp: store_add_block_def\<close>)
qed

text \<open>Adding the first block of a key without a chain.\<close>

lemma append_first:
  assumes laws: "secp_laws X" and nc: "no_collisions (ct_ops T) X S" and ok: "store_ok T X S t" and b: "b \<in> S"
    and add: "store_add_block T X D t i b = (r, t')"
  shows "store_ok T X S t' \<and> (t' = t \<and> r \<noteq> Ok () \<or> r = Ok () \<and> t' = t @ [ct_row T b])"
proof (cases "store_prepare T X D t i b")
  case (Ok x)
  with add have commit: "store_commit T D t x = (r, t')" by (simp add: store_add_block_def)
  have ok': "store_ok T X S t'" by (rule commit_ok [OF nc ok prepare_pending [OF laws ok b Ok] commit])
  have "transaction_row x = ct_row T b"
    using Ok by (auto simp: store_prepare_def transaction_row_def Let_def
        split: result.splits bool.splits PersistenceError.splits if_splits)
  with commit ok' show ?thesis by (auto simp: store_commit_def split: result.splits if_splits)
qed (use add ok in \<open>auto simp: store_add_block_def\<close>)

lemma cut_chain:
  assumes "stored_chain T X t i (blocks c)"
  shows "truncate_from (ct_ops T) c h = \<lparr>blocks = take (block_number h - 1) (blocks c)\<rparr>"
proof -
  have "filter (\<lambda>b. blk_id (ct_ops T) b < h) (blocks c) = take (block_number h - 1) (blocks c)"
  proof (rule successively_filter_prefix(1) [of "linked (ct_ops T) X"])
    show "successively (linked (ct_ops T) X) (blocks c)" using assms by (simp add: stored_chain_def)
    fix k
    assume "k < length (blocks c)"
    with assms have "block_number (blk_id (ct_ops T) (blocks c ! k)) = Suc k" by (simp add: stored_chain_def)
    moreover have "blk_id (ct_ops T) b < h \<longleftrightarrow> block_number (blk_id (ct_ops T) b) < block_number h" for b
      by (cases "blk_id (ct_ops T) b"; cases h) (simp add: block_number_def word_less_nat_alt less_BlockId_def)
    ultimately show "(blk_id (ct_ops T) (blocks c ! k) < h) \<longleftrightarrow> k < block_number h - 1" by auto
  qed
  then show ?thesis by (simp add: truncate_from_def)
qed

text \<open>Removing the last blocks of one key.\<close>

lemma removal_keeps_store:
  assumes ok: "store_ok T X S t" and rm: "store_remove_blocks_from_height T D t i h = (r, t')"
  shows "store_ok T X S t'"
proof -
  have "\<exists>cs. set cs \<subseteq> S \<and> stored_chain T X t' j cs" for j
  proof -
    obtain bs where bs: "set bs \<subseteq> S" "stored_chain T X t j bs" using ok unfolding store_ok_def by blast
    have "set (if db_fails D Delete_Blocks = None \<and> j = i then take (block_number h - 1) bs else bs) \<subseteq> S"
      using bs(1) by (auto dest: in_set_takeD)
    with remove_from_height_stored [OF bs(2) rm] show ?thesis by blast
  qed
  then show ?thesis unfolding store_ok_def by blast
qed

lemma removal_rows:
  assumes rm: "store_remove_blocks_from_height T D t i h = (r, t')" and st: "stored_chain T X t i (blocks c)"
  shows "\<And>j. j \<noteq> i \<Longrightarrow> rows_of T t' j = rows_of T t j"
    and "r = Ok () \<Longrightarrow> rows_of T t' i = map (ct_row T) (blocks (truncate_from (ct_ops T) c h))"
    and "r \<noteq> Ok () \<Longrightarrow> t' = t"
proof -
  have works: "r = Ok () \<longleftrightarrow> db_fails D Delete_Blocks = None" and kept: "r \<noteq> Ok () \<Longrightarrow> t' = t"
    using rm by (auto simp: store_remove_blocks_from_height_def db_query_def split: option.splits)
  then show "t' = t" if "r \<noteq> Ok ()" using that by simp
  show "rows_of T t' i = map (ct_row T) (blocks (truncate_from (ct_ops T) c h))" if "r = Ok ()"
    using remove_from_height_stored [OF st rm] that works by (simp add: cut_chain [OF st] stored_chain_def)
  fix j
  assume j: "j \<noteq> i"
  let ?p = "\<lambda>r. \<not> (ct_key T r = i \<and> block_number h \<le> block_number (ct_block_id T r))"
  have keep: "rows_of T (filter ?p t) j = rows_of T t j"
    unfolding rows_of_filter by (rule rows_of_other(1)) (use j in simp)
  have "t' = t \<or> t' = filter ?p t"
    using rm by (auto simp: store_remove_blocks_from_height_def db_query_def split: option.splits)
  then show "rows_of T t' j = rows_of T t j"
  proof
    assume "t' = t"
    then show ?thesis by (simp only:)
  next
    assume "t' = filter ?p t"
    then show ?thesis by (simp only: keep)
  qed
qed

text \<open>A fork that is resolved starts after the first block.\<close>

lemma fork_after_first:
  assumes "stored_chain T X t i ls" and "resolve_fork (ct_ops T) ls rs = (True, Some f)"
  shows "1 < block_number f"
proof -
  from assms(2) obtain n where "0 < n" "n < length ls" "blk_id (ct_ops T) (ls ! n) = f" by (rule resolve_fork_point)
  with assms(1) show ?thesis by (auto simp: stored_chain_def)
qed

text \<open>The chain that is read is the one whose rows are stored.\<close>

lemma read_stored:
  assumes "secp_laws X" "store_ok T X S t" "rows_of T t i = map (ct_row T) bs" "bs \<noteq> []"
    and "store_get_chain T D t i = Ok c"
  shows "c = \<lparr>blocks = bs\<rparr>"
proof -
  from assms(5) have works: "db_fails D Select_Chain = None"
    by (auto simp: store_get_chain_def and_then_eq_Ok db_query_eq)
  from get_chain_stored [OF assms(1) key_blocks(2) [OF assms(1-3)] assms(4) works] assms(5) show ?thesis by simp
qed

lemma unreadable_is_empty:
  assumes "secp_laws X" "store_ok T X S t" "db_fails D Select_Chain = None" and "store_get_chain T D t i = Err e"
  shows "rows_of T t i = []"
proof -
  obtain bs where bs: "set bs \<subseteq> S" "stored_chain T X t i bs" using assms(2) unfolding store_ok_def by blast
  show ?thesis
  proof (cases "bs = []")
    case True
    with bs show ?thesis by (simp add: stored_chain_def)
  next
    case False
    from get_chain_stored [OF assms(1) bs(2) False assms(3)] assms(4) show ?thesis by simp
  qed
qed

end

interpretation bill_table: keyed_table "bill_table E" "env_ext E" for E
proof (intro keyed_table.intro keyed_table_axioms.intro bill_store.chain_table_axioms)
  fix a b
  assume "blk_data_to_hash (ct_ops (bill_table E)) a = blk_data_to_hash (ct_ops (bill_table E)) b"
  then show "ct_key (bill_table E) (ct_row (bill_table E) a) = ct_key (bill_table E) (ct_row (bill_table E) b)"
    by (simp add: bill_table_def bill_ops_def bill_block_to_db_def get_block_data_to_hash_def)
qed

interpretation company_table: keyed_table "company_table E" "cenv_ext E" for E
proof (intro keyed_table.intro keyed_table_axioms.intro company_store.chain_table_axioms)
  fix a b
  assume "blk_data_to_hash (ct_ops (company_table E)) a = blk_data_to_hash (ct_ops (company_table E)) b"
  then show "ct_key (company_table E) (ct_row (company_table E) a) = ct_key (company_table E) (ct_row (company_table E) b)"
    by (simp add: company_table_def company_ops_def company_block_to_db_def company_block_data_to_hash_def)
qed

interpretation identity_table: keyed_table "identity_table E" "ienv_ext E" for E
proof (intro keyed_table.intro keyed_table_axioms.intro identity_store.chain_table_axioms)
qed (simp add: identity_table_def)

end
