(* ===== verification/Bill_Sync_Props.thy ===== *)
theory Bill_Sync_Props
  imports Bill_Sync Bill_Service_Props Chain_Table_Steps
begin

text \<open>
  What received data can do to the stored bills. Adding a block either leaves the table of bill blocks alone or
  appends the block to the chain it was validated for; cutting a chain leaves a reachable prefix; and so
  every step of the processor keeps all bills with known keys readable, whatever the relays answer.
\<close>

section \<open>The table of bill blocks\<close>

lemma bill_table_simps [simp]:
  "ct_ops (bill_table E) = bill_ops E" "ct_row (bill_table E) = bill_block_to_db (env_ext E)"
  "ct_key (bill_table E) = bdb_bill_id" "ct_hash (bill_table E) = bdb_hash"
  "ct_previous_hash (bill_table E) = bdb_previous_hash"
  by (simp_all add: bill_table_def)

lemma bill_row_key [simp]: "bdb_bill_id (bill_block_to_db X b) = bbl_bill_id b"
  "bdb_hash (bill_block_to_db X b) = bbl_hash b" "bdb_previous_hash (bill_block_to_db X b) = bbl_previous_hash b"
  by (simp_all add: bill_block_to_db_def)

abbreviation bill_rows :: "BillEnv \<Rightarrow> BillBlockDb list \<Rightarrow> BillId \<Rightarrow> BillBlockDb list" where
  "bill_rows E \<equiv> rows_of (bill_table E)"

abbreviation bill_store_ok :: "BillEnv \<Rightarrow> BillBlock set \<Rightarrow> BillBlockDb list \<Rightarrow> bool" where
  "bill_store_ok E \<equiv> store_ok (bill_table E) (env_ext E)"

text \<open>The facts of \<open>keyed_table\<close>, in terms of the bill store.\<close>

lemma stored_blocks:
  assumes "secp_laws (env_ext E)" "bill_store_ok E S t" "bill_rows E t i = map (bill_block_to_db (env_ext E)) bs"
  shows "set bs \<subseteq> S" and "stored_chain (bill_table E) (env_ext E) t i bs"
  using bill_table.key_blocks [OF assms(1,2), of i bs] assms(3) by simp_all

lemma add_to_chain:
  assumes "secp_laws (env_ext E)" and "no_collisions (bill_ops E) (env_ext E) S"
    and "bill_store_ok E S t" and "bill_rows E t i = map (bill_block_to_db (env_ext E)) cs" "cs \<noteq> []"
    and "b \<in> S" and "bill_store_add_block E D t i b = (r, t')"
  shows "bill_store_ok E S t' \<and>
         (t' = t \<and> r \<noteq> Ok () \<or> r = Ok () \<and> t' = t @ [bill_block_to_db (env_ext E) b] \<and> bbl_bill_id b = i)"
  using bill_table.append_to_chain [OF assms(1) _ assms(3), of i cs b D r t'] assms by (simp add: bill_store_add_block_def)

lemma add_first:
  assumes "secp_laws (env_ext E)" and "no_collisions (bill_ops E) (env_ext E) S"
    and "bill_store_ok E S t" and "b \<in> S" "bbl_bill_id b = i" and "bill_store_add_block E D t i b = (r, t')"
  shows "bill_store_ok E S t' \<and> (t' = t \<and> r \<noteq> Ok () \<or> r = Ok () \<and> t' = t @ [bill_block_to_db (env_ext E) b])"
  using bill_table.append_first [OF assms(1) _ assms(3,4), of D i r t'] assms by (simp add: bill_store_add_block_def)

section \<open>Prefixes of reachable chains\<close>

lemma reachable_prefix:
  assumes "bill_reachable P first k c" and "0 < n"
  shows "bill_reachable P first k \<lparr>blocks = take n (blocks c)\<rparr>"
  using assms(1)
proof induction
  case (reach_issue b)
  then show ?case using assms(2) bill_reachable.reach_issue [of P b k first] by simp
next
  case (reach_block c b c')
  from reach_block.hyps(2) have c': "c' = c\<lparr>blocks := blocks c @ [b]\<rparr>" by (rule accepted_facts)
  show ?case
  proof (cases "n \<le> length (blocks c)")
    case True
    with reach_block.IH c' show ?thesis by simp
  next
    case False
    then have "\<lparr>blocks = take n (blocks c')\<rparr> = c'" by (simp add: c')
    with bill_reachable.reach_block [OF reach_block.hyps] show ?thesis by simp
  qed
qed

lemma truncate_stored:
  assumes "stored_chain (bill_table E) (env_ext E) t i (blocks c)"
  shows "truncate_from (bill_ops E) c h = \<lparr>blocks = take (block_number h - 1) (blocks c)\<rparr>"
  using bill_table.cut_chain [OF assms, of h] by simp

section \<open>Steps that work on one bill\<close>

definition sync_laws :: "SyncEnv \<Rightarrow> BillBlock set \<Rightarrow> bool" where
  "sync_laws Y S \<longleftrightarrow> secp_laws (env_ext (sy_bill Y)) \<and> no_collisions (bill_ops (sy_bill Y)) (env_ext (sy_bill Y)) S"

abbreviation sync_rows :: "SyncEnv \<Rightarrow> SyncState \<Rightarrow> BillId \<Rightarrow> BillBlockDb list" where
  "sync_rows Y s \<equiv> bill_rows (sy_bill Y) (ss_bill_chain (sy_node s))"

abbreviation sync_keys :: "SyncState \<Rightarrow> (BillId \<times> BcrKeys) list" where
  "sync_keys s \<equiv> ss_bill_keys (sy_node s)"

abbreviation chain_rows :: "SyncEnv \<Rightarrow> BillBlockchain \<Rightarrow> BillBlockDb list" where
  "chain_rows Y c \<equiv> map (bill_block_to_db (env_ext (sy_bill Y))) (blocks c)"

text \<open>The store holds a reachable chain of the bill; only this bill has changed.\<close>

definition holds_chain ::
  "SyncEnv \<Rightarrow> BillBlock set \<Rightarrow> BillId \<Rightarrow> BillIssueBlockData \<Rightarrow> BcrKeys \<Rightarrow> BillBlockchain \<Rightarrow> SyncState \<Rightarrow> bool" where
  "holds_chain Y S i first k c s \<longleftrightarrow>
     bill_store_ok (sy_bill Y) S (ss_bill_chain (sy_node s)) \<and> bill_reachable (sy_proc Y) first k c \<and>
     sync_rows Y s i = chain_rows Y c"

definition only_bill :: "SyncEnv \<Rightarrow> BillId \<Rightarrow> SyncState \<Rightarrow> SyncState \<Rightarrow> bool" where
  "only_bill Y i s s' \<longleftrightarrow> sync_keys s' = sync_keys s \<and> (\<forall>j. j \<noteq> i \<longrightarrow> sync_rows Y s' j = sync_rows Y s j)"

definition bill_inv ::
  "SyncEnv \<Rightarrow> BillBlock set \<Rightarrow> BillId \<Rightarrow> BillIssueBlockData \<Rightarrow> BcrKeys \<Rightarrow> SyncState \<Rightarrow> SyncState \<Rightarrow> bool" where
  "bill_inv Y S i first k s0 s \<longleftrightarrow> only_bill Y i s0 s \<and> (\<exists>c. holds_chain Y S i first k c s)"

lemma bill_invI: "only_bill Y i s0 s \<Longrightarrow> holds_chain Y S i first k c s \<Longrightarrow> bill_inv Y S i first k s0 s"
  by (auto simp: bill_inv_def)

lemma only_bill_refl [simp]: "only_bill Y i s s"
  by (simp add: only_bill_def)

lemma only_bill_trans: "only_bill Y i s s' \<Longrightarrow> only_bill Y i s' s'' \<Longrightarrow> only_bill Y i s s''"
  by (simp add: only_bill_def)

text \<open>Steps that write neither blocks nor keys.\<close>

definition leaves_bills :: "'a sync \<Rightarrow> bool" where
  "leaves_bills m \<longleftrightarrow> (\<forall>s. ss_bill_chain (sy_node (snd (m s))) = ss_bill_chain (sy_node s) \<and> sync_keys (snd (m s)) = sync_keys s)"

lemma leaves_bills_inv: "leaves_bills m \<Longrightarrow> bill_inv Y S i first k s0 s \<Longrightarrow> bill_inv Y S i first k s0 (snd (m s))"
  by (simp add: leaves_bills_def bill_inv_def only_bill_def holds_chain_def)

lemma leaves_bills_holds:
  "leaves_bills m \<Longrightarrow> m s = (r, s') \<Longrightarrow> holds_chain Y S i first k c s' = holds_chain Y S i first k c s"
  "leaves_bills m \<Longrightarrow> m s = (r, s') \<Longrightarrow> only_bill Y i s0 s' = only_bill Y i s0 s"
  "leaves_bills m \<Longrightarrow> m s = (r, s') \<Longrightarrow> sync_keys s' = sync_keys s"
  unfolding leaves_bills_def holds_chain_def only_bill_def by (metis snd_conv)+

lemma leaves_bills_compose [intro]:
  "leaves_bills (lift r)" "leaves_bills (ret a)"
  "leaves_bills m \<Longrightarrow> (\<And>a. leaves_bills (f a)) \<Longrightarrow> leaves_bills (bind_act m f)"
  "leaves_bills u \<Longrightarrow> leaves_bills n \<Longrightarrow> leaves_bills (then_act u n)"
  "leaves_bills u \<Longrightarrow> leaves_bills (logged u)"
  by (auto simp: leaves_bills_def lift_def ret_def bind_act_def then_act_def logged_def
      split: prod.splits result.splits) (metis snd_conv)+

lemma leaves_bills_for_each [intro]: "(\<And>x. leaves_bills (f x)) \<Longrightarrow> leaves_bills (for_each f xs)"
  by (induction xs) auto

lemma leaves_bills_steps [intro]:
  "leaves_bills (invalidate_cache_for_bill Y i)" "leaves_bills (anchor_important_file Y x f)"
  "leaves_bills (ensure_nostr_contact n)" "leaves_bills (save_event Y e)" "leaves_bills (drop_events Y ci ty)"
  "leaves_bills (on_node g (get_keys V i))" "leaves_bills (on_node g (is_paid V i))"
  by (auto simp: leaves_bills_def invalidate_cache_for_bill_def anchor_important_file_def ensure_nostr_contact_def
      save_event_def drop_events_def on_node_def get_keys_def is_paid_def store_call_def gets_def
      split: option.splits prod.splits)

lemma leaves_bills_contacts [intro]: "leaves_bills (ensure_contacts Y c k)"
  unfolding ensure_contacts_def by (cases "get_all_nodes_from_bill (sy_bill Y) c k") auto

section \<open>Adding blocks\<close>

lemma sync_add_to_chain:
  assumes laws: "sync_laws Y S" and h: "holds_chain Y S i first k c s" and b: "b \<in> S"
    and add: "sync_add Y s i b = (r, s')"
  shows "only_bill Y i s s' \<and> bill_store_ok (sy_bill Y) S (ss_bill_chain (sy_node s')) \<and>
         (s' = s \<and> r \<noteq> Ok () \<or> r = Ok () \<and> sync_rows Y s' i = chain_rows Y c @ [bill_block_to_db (env_ext (sy_bill Y)) b])"
proof -
  obtain r' t' where t: "bill_store_add_block (sy_bill Y) (svc_bill_db (sye_svc Y)) (ss_bill_chain (sy_node s)) i b = (r', t')"
    by (metis surj_pair)
  have s': "s' = s\<lparr>sy_node := (sy_node s)\<lparr>ss_bill_chain := t'\<rparr>\<rparr>" and r: "(r = Ok ()) = (r' = Ok ())"
    using add by (auto simp: sync_add_def bill_chain_add_def t map_err_eq split: prod.splits)
  have "blocks c \<noteq> []"
    using h reachable_ok(1) [of "sy_proc Y" first k c] by (auto simp: holds_chain_def bill_chain_ok_def)
  with add_to_chain [of "sy_bill Y" S "ss_bill_chain (sy_node s)" i "blocks c" b, OF _ _ _ _ _ b t]
  have "bill_store_ok (sy_bill Y) S t' \<and> (t' = ss_bill_chain (sy_node s) \<and> r' \<noteq> Ok () \<or>
      r' = Ok () \<and> t' = ss_bill_chain (sy_node s) @ [bill_block_to_db (env_ext (sy_bill Y)) b] \<and> bbl_bill_id b = i)"
    using laws h by (simp add: sync_laws_def holds_chain_def)
  then show ?thesis using h r unfolding s'
    by (auto simp: only_bill_def holds_chain_def rows_of_def)
qed

lemma save_step:
  assumes laws: "sync_laws Y S" and h: "holds_chain Y S i first k c s" and b: "b \<in> S"
    and run: "validate_and_save_block (sy_proc Y) (sync_add Y) s i c first k b paid = (r, c', s')"
  shows "only_bill Y i s s' \<and> (\<exists>c''. holds_chain Y S i first k c'' s' \<and> (\<forall>a. r = Ok a \<longrightarrow> c'' = c'))"
proof -
  obtain v c1 where v: "validate_block_for_chain (sy_proc Y) i c first k b paid = (v, c1)" by fastforce
  show ?thesis
  proof (cases "v = Ok True")
    case True
    with v have acc: "accepted (sy_proc Y) first k c b c1" by (auto simp: accepted_def)
    then have c1: "c1 = c\<lparr>blocks := blocks c @ [b]\<rparr>" by (rule accepted_facts)
    from h acc have reach: "bill_reachable (sy_proc Y) first k c1" by (auto simp: holds_chain_def intro: reach_block)
    obtain r0 s1 where add: "sync_add Y s i b = (r0, s1)" by fastforce
    from run v True add have s': "s' = s1" and rr: "(\<exists>a. r = Ok a) \<longrightarrow> r0 = Ok () \<and> c' = c1"
      by (auto simp: validate_and_save_block_def save_block_def map_err_def split: result.splits)
    from sync_add_to_chain [OF laws h b add]
    consider "s1 = s" "r0 \<noteq> Ok ()" | "r0 = Ok ()" "only_bill Y i s s1" "holds_chain Y S i first k c1 s1"
      using reach by (auto simp: holds_chain_def c1)
    then show ?thesis
    proof cases
      case 1
      with s' rr h show ?thesis by (intro conjI exI [of _ c]) auto
    next
      case 2
      with s' rr show ?thesis by (intro conjI exI [of _ c1]) auto
    qed
  next
    case False
    then have s': "s' = s" "r = v" "c' = c1"
      using run v by (auto simp: validate_and_save_block_def split: result.splits bool.splits)
    have "c1 = c" if "v = Ok a" for a
      using that False v
      by (auto simp: validate_block_for_chain_def validate_block_after_add_def Let_def and_then_eq_Ok
          split: result.splits option.splits prod.splits bool.splits)
    with s' h show ?thesis by (intro conjI exI [of _ c]) auto
  qed
qed

lemma save_new_blocks_inv:
  assumes "sync_laws Y S" and "holds_chain Y S i first k c s" and "set bs \<subseteq> S"
    and "save_new_blocks (sy_proc Y) (sync_add Y) s i c first k bs = (r, c', s')"
  shows "bill_inv Y S i first k s s'"
  using assms(2-4)
proof (induction bs arbitrary: c s)
  case Nil
  then show ?case by (auto intro: bill_invI)
next
  case (Cons b bs)
  obtain r1 c1 s1 where one: "validate_and_save_block (sy_proc Y) (sync_add Y) s i c first k b False = (r1, c1, s1)"
    by (metis surj_pair)
  from Cons.prems(2) have "b \<in> S" by simp
  from save_step [OF assms(1) Cons.prems(1) this one] obtain c2 where
    s1: "only_bill Y i s s1" "holds_chain Y S i first k c2 s1" "\<forall>a. r1 = Ok a \<longrightarrow> c2 = c1" by blast
  show ?case
  proof (cases "\<exists>a. r1 = Ok a")
    case True
    with s1 have h1: "holds_chain Y S i first k c1 s1" by auto
    from True one Cons.prems(3) have "save_new_blocks (sy_proc Y) (sync_add Y) s1 i c1 first k bs = (r, c', s')" by auto
    from Cons.IH [OF h1 _ this] Cons.prems(2) have "bill_inv Y S i first k s1 s'" by simp
    with s1(1) show ?thesis by (auto simp: bill_inv_def intro: only_bill_trans)
  next
    case False
    with one Cons.prems(3) have "s' = s1" by (cases r1) auto
    with s1 show ?thesis by (auto intro: bill_invI)
  qed
qed

lemma add_loop_inv:
  assumes laws: "sync_laws Y S" and resync: "\<And>s. bill_inv Y S i first k s0 s \<Longrightarrow> bill_inv Y S i first k s0 (snd (resync s))"
    and "holds_chain Y S i first k c s" and "only_bill Y i s0 s" and "set bs \<subseteq> S"
  shows "bill_inv Y S i first k s0 (snd (add_bill_blocks_loop Y resync i first k paid single c height added bs s))"
  using assms(3-5)
proof (induction bs arbitrary: c height added s)
  case Nil
  then show ?case by (auto simp: ret_def intro: bill_invI)
next
  case (Cons b bs)
  from Cons.prems(1,2) have inv: "bill_inv Y S i first k s0 s" by (auto intro: bill_invI)
  have after: "bill_inv Y S i first k s0 (snd (then_act resync (ret x) s'))" if "bill_inv Y S i first k s0 s'" for x s'
    using resync [OF that] by (auto simp: then_act_def bind_act_def ret_def split: prod.splits result.splits)
  show ?case
  proof (cases "bbl_id b \<le> height")
    case True
    show ?thesis
    proof (cases "get_latest_block c :: (BillBlock, TransportError) result")
      case (Ok latest)
      show ?thesis
      proof (cases "single \<and> is_fork_block (bill_ops (sy_bill Y)) latest b")
        case fork: True
        with True Ok show ?thesis using after [OF inv] by (simp add: bind_act_def lift_def)
      next
        case False
        with True Ok show ?thesis using Cons.IH [of c s height added] Cons.prems by (auto simp: bind_act_def lift_def)
      qed
    qed (use True inv in \<open>simp_all add: bind_act_def lift_def\<close>)
  next
    case False
    obtain r1 c1 s1 where one: "validate_and_save_block (sy_proc Y) (sync_add Y) s i c first k b paid = (r1, c1, s1)"
      by (metis surj_pair)
    from Cons.prems(3) have "b \<in> S" by simp
    from save_step [OF laws Cons.prems(1) this one] obtain c2 where
      s1: "only_bill Y i s s1" "holds_chain Y S i first k c2 s1" "\<forall>a. r1 = Ok a \<longrightarrow> c2 = c1" by blast
    from Cons.prems(2) s1(1) have only: "only_bill Y i s0 s1" by (rule only_bill_trans)
    from only s1(2) have inv1: "bill_inv Y S i first k s0 s1" by (rule bill_invI)
    show ?thesis
    proof (cases r1)
      case (Ok a)
      with s1 have "holds_chain Y S i first k c1 s1" by auto
      from Cons.IH [OF this only] Cons.prems(3) show ?thesis using False one Ok by simp
    next
      case (Err e)
      then show ?thesis using False one inv1
        by (cases "get_latest_block c1 :: (BillBlock, TransportError) result")
          (auto simp: bind_act_def lift_def intro: after [OF inv1])
    next
      case Panic
      then show ?thesis using False one inv1 by simp
    qed
  qed
qed

text \<open>The whole of \<^verbatim>\<open>add_bill_blocks\<close>: the chain in memory is the stored one.\<close>

lemma add_bill_blocks_inv:
  assumes laws: "sync_laws Y S" and resync: "\<And>s. bill_inv Y S i first k s0 s \<Longrightarrow> bill_inv Y S i first k s0 (snd (resync s))"
    and h: "holds_chain Y S i first k c s" "only_bill Y i s0 s" and bs: "set bs \<subseteq> S" and k: "map_of (sync_keys s) i = Some k"
  shows "bill_inv Y S i first k s0 (snd (add_bill_blocks_with Y resync i c bs fr s))"
proof -
  let ?E = "sy_bill Y"
  from h have first: "get_first_version_bill ?E c k = Ok first"
    by (auto simp: holds_chain_def intro: reachable_ok(3))
  define single where "single \<longleftrightarrow> length bs = 1 \<and> \<not> fr"
  define loop where "loop paid latest = bind_act
      (add_bill_blocks_loop Y resync i first k paid single c (bbl_id latest) False bs) (\<lambda>outcome.
       case outcome of
         Some (chain, True) \<Rightarrow> then_act (logged (invalidate_cache_for_bill Y i)) (ensure_contacts Y chain k)
       | _ \<Rightarrow> ret ())" for paid and latest :: BillBlock
  have loop: "bill_inv Y S i first k s0 (snd (loop paid latest s1))"
    if "holds_chain Y S i first k c s1" "only_bill Y i s0 s1" for paid latest s1
  proof -
    obtain r2 s2 where l: "add_bill_blocks_loop Y resync i first k paid single c (bbl_id latest) False bs s1
        = (r2, s2)" by fastforce
    have "bill_inv Y S i first k s0
        (snd (add_bill_blocks_loop Y resync i first k paid single c (bbl_id latest) False bs s1))"
      by (rule add_loop_inv [OF laws _ that bs]) (rule resync)
    then have inv: "bill_inv Y S i first k s0 s2" by (simp add: l)
    have "leaves_bills (case outcome of
         Some (chain, True) \<Rightarrow> then_act (logged (invalidate_cache_for_bill Y i)) (ensure_contacts Y chain k)
       | _ \<Rightarrow> ret ())" for outcome
      by (auto split: option.splits bool.splits)
    from leaves_bills_inv [OF this inv] inv show ?thesis
      by (cases r2) (simp_all add: loop_def bind_act_def l)
  qed
  define tail where "tail paid = then_act (for_each (anchor_important_file Y (FC_Bill i ''files'')) (iss_files first))
    (bind_act (lift (get_latest_block c)) (\<lambda>latest. loop paid latest))" for paid
  have tail: "bill_inv Y S i first k s0 (snd (tail paid s1))"
    if "holds_chain Y S i first k c s1" "only_bill Y i s0 s1" for paid s1
  proof -
    obtain r2 s2 where a: "for_each (anchor_important_file Y (FC_Bill i ''files'')) (iss_files first) s1 = (r2, s2)" by fastforce
    have "leaves_bills (for_each (anchor_important_file Y (FC_Bill i ''files'')) (iss_files first))" by auto
    from leaves_bills_holds [OF this a] that have "holds_chain Y S i first k c s2" "only_bill Y i s0 s2" by simp_all
    with loop show ?thesis
      by (auto simp: tail_def then_act_def bind_act_def a lift_def intro: bill_invI split: result.splits)
  qed
  obtain r1 s1 where keys: "on_node (persistence_text Y) (get_keys (sye_svc Y) i) s = (r1, s1)" by fastforce
  from leaves_bills_holds [OF leaves_bills_steps(6) keys] h
  have s1: "holds_chain Y S i first k c s1" "only_bill Y i s0 s1" by simp_all
  show ?thesis
  proof (cases r1)
    case (Ok bill_keys)
    with keys k have [simp]: "bill_keys = k"
      by (auto simp: on_node_def get_keys_def store_call_def map_err_eq split: option.splits prod.splits)
    obtain r2 s2 where paid: "on_node (persistence_text Y) (is_paid (sye_svc Y) i) s1 = (r2, s2)" by fastforce
    from leaves_bills_holds [OF leaves_bills_steps(7) paid] s1
    have s2: "holds_chain Y S i first k c s2" "only_bill Y i s0 s2" by simp_all
    have "snd (add_bill_blocks_with Y resync i c bs fr s) = (case r2 of Ok p \<Rightarrow> snd (tail p s2) | _ \<Rightarrow> s2)"
      by (simp add: add_bill_blocks_with_def bind_act_def [of "on_node _ _"] keys Ok paid first chain_err_def bind_lift
          tail_def loop_def single_def split: result.splits)
    then show ?thesis using tail [OF s2] s2 by (cases r2) (auto intro: bill_invI)
  qed (use keys s1 in \<open>auto simp: add_bill_blocks_with_def bind_act_def intro: bill_invI\<close>)
qed

section \<open>Resynchronisation\<close>

lemma held_stored:
  assumes "sync_laws Y S" and "holds_chain Y S i first k c s"
  shows "stored_chain (bill_table (sy_bill Y)) (env_ext (sy_bill Y)) (ss_bill_chain (sy_node s)) i (blocks c)"
  by (rule stored_blocks(2) [where S = S]) (use assms in \<open>simp_all add: sync_laws_def holds_chain_def\<close>)

lemma stored_chain_held:
  assumes laws: "sync_laws Y S" and h: "holds_chain Y S i first k c s" and "stored_bill_chain Y i s = Ok c'"
  shows "c' = c"
proof -
  let ?E = "sy_bill Y" and ?t = "ss_bill_chain (sy_node s)"
  from assms(3) have get: "store_get_chain (bill_table ?E) (svc_bill_db (sye_svc Y)) ?t i = Ok c'"
    by (auto simp: stored_bill_chain_def bill_chain_get_def bill_store_get_chain_def map_err_eq)
  then have works: "db_fails (svc_bill_db (sye_svc Y)) Select_Chain = None"
    by (auto simp: store_get_chain_def and_then_eq_Ok db_query_eq)
  have ne: "blocks c \<noteq> []"
    using h reachable_ok(1) [of "sy_proc Y" first k c] by (auto simp: holds_chain_def bill_chain_ok_def)
  have "stored_chain (bill_table ?E) (env_ext ?E) ?t i (blocks c)"
    by (rule held_stored [OF laws h])
  with bill_store.get_chain_stored [OF _ this ne works] laws get show ?thesis
    by (cases c) (simp add: sync_laws_def)
qed

lemma remove_step:
  assumes laws: "sync_laws Y S" and h: "holds_chain Y S i first k c s" and pos: "1 < block_number f"
    and run: "bill_chain_remove_from Y i f s = (r, s')"
  shows "only_bill Y i s s' \<and>
         (\<exists>c'. holds_chain Y S i first k c' s' \<and> (r = Ok () \<longrightarrow> c' = truncate_from (bill_ops (sy_bill Y)) c f))"
proof -
  let ?E = "sy_bill Y" and ?t = "ss_bill_chain (sy_node s)" and ?D = "svc_bill_db (sye_svc Y)"
  obtain r' t' where t: "bill_store_remove_blocks_from_height ?E ?D ?t i f = (r', t')" by fastforce
  have s': "s' = s\<lparr>sy_node := (sy_node s)\<lparr>ss_bill_chain := t'\<rparr>\<rparr>" and r: "r = Ok () \<longleftrightarrow> r' = Ok ()"
    using run by (auto simp: bill_chain_remove_from_def t map_err_eq)
  note rm = t [unfolded bill_store_remove_blocks_from_height_def]
  have st: "stored_chain (bill_table ?E) (env_ext ?E) ?t i (blocks c)"
    by (rule held_stored [OF laws h])
  have ok: "bill_store_ok ?E S t'"
    by (rule bill_table.removal_keeps_store [OF _ rm]) (use h in \<open>simp add: holds_chain_def\<close>)
  note rows = bill_table.removal_rows [OF rm st]
  from rows(1) have only: "only_bill Y i s s'" by (simp add: only_bill_def s')
  show ?thesis
  proof (cases "r' = Ok ()")
    case True
    let ?c = "truncate_from (bill_ops ?E) c f"
    have "bill_reachable (sy_proc Y) first k ?c"
      unfolding truncate_stored [OF st] by (rule reachable_prefix) (use h pos in \<open>auto simp: holds_chain_def\<close>)
    moreover have "bill_rows ?E t' i = chain_rows Y ?c" using rows(2) [OF True] by simp
    ultimately have "holds_chain Y S i first k ?c s'" using ok by (simp add: holds_chain_def s')
    with only show ?thesis by blast
  next
    case False
    from rows(3) [OF False] h have "holds_chain Y S i first k c s'" by (simp add: holds_chain_def s')
    with only r False show ?thesis by blast
  qed
qed

lemma take_over_inv:
  assumes laws: "sync_laws Y S" and h: "holds_chain Y S i first k c s" "only_bill Y i s0 s"
    and pos: "\<And>f. fork_point = Some f \<Longrightarrow> 1 < block_number f"
    and bs: "set (bill_blocks_of data) \<subseteq> S" and k: "map_of (sync_keys s) i = Some k"
  shows "bill_inv Y S i first k s0 (snd (take_over Y i c fork_point data s))"
proof -
  define cut where "cut = (case fork_point of Some f \<Rightarrow> bill_chain_remove_from Y i f | None \<Rightarrow> ret ())"
  define rest where "rest = then_act (logged (drop_events Y i BT_Bill))
    (then_act (for_each (\<lambda>c. logged (save_event Y (as_chain_store_event (sye_event Y) c i BT_Bill
        (unat (get_block_height (evc_block c)))))) data)
     (invalidate_cache_for_bill Y i))"
  define add where "add = add_bill_blocks_with Y (ret ()) i (truncate_at Y fork_point c) (bill_blocks_of data) True"
  obtain r1 s1 where s1: "cut s = (r1, s1)" by fastforce
  have cut: "only_bill Y i s s1 \<and> (\<exists>c'. holds_chain Y S i first k c' s1 \<and> (r1 = Ok () \<longrightarrow> c' = truncate_at Y fork_point c))"
  proof (cases fork_point)
    case None
    with s1 h show ?thesis by (auto simp: cut_def ret_def truncate_at_def)
  next
    case (Some f)
    with s1 have run: "bill_chain_remove_from Y i f s = (r1, s1)" by (simp add: cut_def)
    from remove_step [OF laws h(1) pos [OF Some] run] Some show ?thesis by (simp add: truncate_at_def)
  qed
  then obtain c' where c': "holds_chain Y S i first k c' s1" "r1 = Ok () \<Longrightarrow> c' = truncate_at Y fork_point c" by blast
  from cut h(2) have only: "only_bill Y i s0 s1" by (auto intro: only_bill_trans)
  have run: "take_over Y i c fork_point data s = then_act cut (then_act add rest) s"
    by (simp add: take_over_def cut_def add_def rest_def)
  show ?thesis
  proof (cases "r1 = Ok ()")
    case True
    with c' have h1: "holds_chain Y S i first k (truncate_at Y fork_point c) s1" by simp
    from cut k have k1: "map_of (sync_keys s1) i = Some k" by (simp add: only_bill_def)
    obtain r2 s2 where s2: "add s1 = (r2, s2)" by fastforce
    have "bill_inv Y S i first k s0 (snd (add s1))" unfolding add_def
      by (rule add_bill_blocks_inv [OF laws _ h1 only bs k1]) (simp add: ret_def)
    then have inv: "bill_inv Y S i first k s0 s2" by (simp add: s2)
    have "leaves_bills rest"
      unfolding rest_def by (intro leaves_bills_compose leaves_bills_for_each leaves_bills_steps)
    from leaves_bills_inv [OF this inv] inv show ?thesis
      by (cases r2) (simp_all add: run then_act_def bind_act_def s1 s2 True)
  next
    case False
    with only c'(1) show ?thesis by (cases r1) (auto simp: run then_act_def bind_act_def s1 intro: bill_invI)
  qed
qed

lemma find_first_difference_local:
  assumes "find_first_difference local remote = Some f"
  shows "\<exists>b \<in> set local. bbl_id b = f"
proof (cases "find (\<lambda>(l, r). bbl_id l \<noteq> bbl_id r \<or> bbl_hash l \<noteq> bbl_hash r) (zip local remote)")
  case None
  with assms have "length remote < length local" "f = bbl_id (local ! length remote)"
    by (auto simp: find_first_difference_def split: if_splits)
  then show ?thesis by (metis nth_mem)
next
  case (Some p)
  then have "p \<in> set (zip local remote)" unfolding find_Some_iff by (metis nth_mem)
  then have "fst p \<in> set local" by (metis prod.collapse set_zip_leftD)
  moreover have "f = bbl_id (fst p)" using assms Some by (cases p) (simp add: find_first_difference_def)
  ultimately show ?thesis by metis
qed

lemma fork_point_after_first:
  assumes laws: "sync_laws Y S" and h: "holds_chain Y S i first k c s"
    and f: "resync_fork_point Y mode (blocks c) bs = Some (Some f)" and "\<not> (mode = NostrAuthoritative \<and> f = bid_first)"
  shows "1 < block_number f"
proof -
  let ?E = "sy_bill Y"
  have st: "stored_chain (bill_table ?E) (env_ext ?E) (ss_bill_chain (sy_node s)) i (blocks c)"
    by (rule held_stored [OF laws h])
  then have num: "block_number (bbl_id (blocks c ! n)) = Suc n" if "n < length (blocks c)" for n
    using that by (simp add: stored_chain_def bill_ops_def)
  show ?thesis
  proof (cases mode)
    case Normal
    with f have "resolve_fork (bill_ops ?E) (blocks c) bs = (True, Some f)"
      by (auto simp: resync_fork_point_def split: prod.splits bool.splits)
    then obtain n where "0 < n" "n < length (blocks c)" "blk_id (bill_ops ?E) (blocks c ! n) = f"
      by (rule resolve_fork_point)
    with num [of n] show ?thesis by (simp add: bill_ops_def)
  next
    case NostrAuthoritative
    with f have "find_first_difference (blocks c) bs = Some f" by (simp add: resync_fork_point_def)
    from find_first_difference_local [OF this] obtain n where n: "n < length (blocks c)" "bbl_id (blocks c ! n) = f"
      by (auto simp: in_set_conv_nth)
    have "f = bid_first" if "block_number f = 1"
      using that by (cases f) (simp add: block_number_def bid_first_def FIRST_BLOCK_ID_def word_unat_eq_iff)
    with num [OF n(1)] n(2) assms(4) NostrAuthoritative show ?thesis by fastforce
  qed
qed

lemma resync_candidates_inv:
  assumes laws: "sync_laws Y S" and h: "holds_chain Y S i first k c s" "only_bill Y i s0 s"
    and k: "map_of (sync_keys s) i = Some k" and "\<forall>data \<in> set cands. set (bill_blocks_of data) \<subseteq> S"
  shows "bill_inv Y S i first k s0 (snd (resync_candidates Y mode i c k first paid cands s))"
  using assms(5)
proof (induction cands)
  case Nil
  then show ?case using h by (auto simp: ret_def intro: bill_invI)
next
  case (Cons data rest)
  let ?bs = "bill_blocks_of data"
  from Cons have next_ok: "bill_inv Y S i first k s0 (snd (resync_candidates Y mode i c k first paid rest s))"
    and sub: "set ?bs \<subseteq> S" by simp_all
  from h have inv: "bill_inv Y S i first k s0 s" by (auto intro: bill_invI)
  show ?case
  proof (cases "?bs = [] \<or> resync_fork_point Y mode (blocks c) ?bs = None")
    case True
    with next_ok show ?thesis by (auto simp: Let_def)
  next
    case False
    then obtain fp where ne: "?bs \<noteq> []" and fp: "resync_fork_point Y mode (blocks c) ?bs = Some fp" by auto
    show ?thesis
    proof (cases "mode = NostrAuthoritative \<and> fp = Some bid_first")
      case True
      with ne fp inv show ?thesis by (simp add: Let_def lift_def)
    next
      case False
      have pos: "1 < block_number f" if "fp = Some f" for f
        by (rule fork_point_after_first [OF laws h(1)]) (use fp that False in auto)
      have "bill_inv Y S i first k s0 (snd (take_over Y i c fp data s))"
        by (rule take_over_inv [OF laws h pos sub k]) simp
      with ne fp False next_ok inv show ?thesis
        by (auto simp: Let_def lift_def split: result.splits)
    qed
  qed
qed

text \<open>\<open>S\<close> contains the blocks that the relays may answer.\<close>

definition relays_within :: "SyncEnv \<Rightarrow> BillBlock set \<Rightarrow> bool" where
  "relays_within Y S \<longleftrightarrow> (\<forall>i k chains data. resolve_chain Y i BT_Bill k = Ok chains \<longrightarrow> data \<in> set chains \<longrightarrow>
     set (bill_blocks_of data) \<subseteq> S)"

lemma stored_keys_Ok: "stored_bill_keys Y i s = Ok k \<Longrightarrow> map_of (sync_keys s) i = Some k"
  by (auto simp: stored_bill_keys_def get_keys_def store_call_def split: option.splits)

lemma resync_chain_inv:
  assumes laws: "sync_laws Y S" and relays: "relays_within Y S"
    and h: "holds_chain Y S i first k c s" "only_bill Y i s0 s" and k: "map_of (sync_keys s) i = Some k"
  shows "bill_inv Y S i first k s0 (snd (resync_chain Y i fn mode s))"
proof (cases "fn \<and> (\<exists>c'. stored_bill_chain Y i s = Ok c') \<and> (\<exists>k'. stored_bill_keys Y i s = Ok k')")
  case True
  then obtain c' k' where sc: "stored_bill_chain Y i s = Ok c'" and sk: "stored_bill_keys Y i s = Ok k'" by blast
  from stored_chain_held [OF laws h(1) sc] have [simp]: "c' = c" .
  from stored_keys_Ok [OF sk] k have [simp]: "k' = k" by simp
  obtain r1 s1 where paid: "on_node (persistence_text Y) (is_paid (sye_svc Y) i) s = (r1, s1)" by fastforce
  from leaves_bills_holds [OF leaves_bills_steps(7) paid] h k
  have s1: "holds_chain Y S i first k c s1" "only_bill Y i s0 s1" "map_of (sync_keys s1) i = Some k" by simp_all
  have first: "get_first_version_bill (sy_bill Y) c k = Ok first"
    using h(1) by (auto simp: holds_chain_def intro: reachable_ok(3))
  let ?keys = "from_private_key (svc_ext (sye_svc Y)) (get_private_key (svc_ext (sye_svc Y)) k)"
  show ?thesis
  proof (cases r1)
    case (Ok p)
    have cand: "bill_inv Y S i first k s0 (snd (resync_candidates Y mode i c k first p cands s1))"
      if "resolve_chain Y i BT_Bill ?keys = Ok cands" for cands
      by (rule resync_candidates_inv [OF laws s1(1,2,3)]) (use relays that in \<open>auto simp: relays_within_def\<close>)
    have "snd (resync_chain Y i fn mode s) = (case resolve_chain Y i BT_Bill ?keys of
        Ok cands \<Rightarrow> snd (resync_candidates Y mode i c k first p cands s1) | _ \<Rightarrow> s1)"
      using True by (simp add: resync_chain_def sc sk bind_act_def [of "on_node _ _"] paid Ok first chain_err_def
          bind_lift split: result.splits) (simp add: lift_def)
    then show ?thesis using cand s1 by (auto intro: bill_invI split: result.splits)
  qed (use True s1 in \<open>auto simp: resync_chain_def sc sk bind_act_def paid intro: bill_invI\<close>)
next
  case False
  have inv: "bill_inv Y S i first k s0 s" using h by (auto intro: bill_invI)
  have "bill_inv Y S i first k s0 (snd (invalidate_cache_for_bill Y i s))"
    by (rule leaves_bills_inv [OF leaves_bills_steps(1) inv])
  with False inv show ?thesis by (auto simp: resync_chain_def split: result.splits)
qed

end
