(* ===== verification/Bill_Sync_Safety.thy ===== *)
theory Bill_Sync_Safety
  imports Bill_Sync_Props
begin

text \<open>
  The invariant of the receiving side: every bill whose keys are known has a stored chain that the processors have
  built block by block. It is kept by resynchronisation and by received blocks of known bills whatever
  they contain, and by new chains whose ids are the ones they were received for.
\<close>

section \<open>The invariant\<close>

definition bills_ok :: "SyncEnv \<Rightarrow> BillBlock set \<Rightarrow> SyncState \<Rightarrow> bool" where
  "bills_ok Y S s \<longleftrightarrow>
     bill_store_ok (sy_bill Y) S (ss_bill_chain (sy_node s)) \<and>
     (\<forall>i k. map_of (sync_keys s) i = Some k \<longrightarrow>
        (\<exists>first c. bill_reachable (sy_proc Y) first k c \<and> sync_rows Y s i = chain_rows Y c))"

lemma bills_ok_held:
  assumes "bills_ok Y S s" and "map_of (sync_keys s) i = Some k"
  obtains first c where "holds_chain Y S i first k c s"
  using assms unfolding bills_ok_def holds_chain_def by blast

lemma bill_inv_bills_ok:
  assumes ok: "bills_ok Y S s0" and k: "map_of (sync_keys s0) i = Some k" and inv: "bill_inv Y S i first k s0 s"
  shows "bills_ok Y S s"
proof -
  from inv obtain c where c: "holds_chain Y S i first k c s" and only: "only_bill Y i s0 s" by (auto simp: bill_inv_def)
  have "\<exists>first c. bill_reachable (sy_proc Y) first k' c \<and> sync_rows Y s j = chain_rows Y c"
    if "map_of (sync_keys s) j = Some k'" for j k'
  proof (cases "j = i")
    case True
    with that only k have "k' = k" by (simp add: only_bill_def)
    with True c show ?thesis by (auto simp: holds_chain_def)
  next
    case False
    with that only ok show ?thesis by (simp add: only_bill_def bills_ok_def)
  qed
  with c show ?thesis by (simp add: bills_ok_def holds_chain_def)
qed

lemma keyless_bills_ok:
  assumes ok: "bills_ok Y S s0" and no: "map_of (sync_keys s0) i = None"
    and only: "only_bill Y i s0 s" and store: "bill_store_ok (sy_bill Y) S (ss_bill_chain (sy_node s))"
  shows "bills_ok Y S s"
proof -
  have "\<exists>first c. bill_reachable (sy_proc Y) first k c \<and> sync_rows Y s j = chain_rows Y c"
    if "map_of (sync_keys s) j = Some k" for j k
  proof -
    from that no only have "j \<noteq> i" by (auto simp: only_bill_def)
    with that only ok show ?thesis by (simp add: only_bill_def bills_ok_def)
  qed
  with store show ?thesis by (simp add: bills_ok_def)
qed

lemma bills_ok_leaves: "leaves_bills m \<Longrightarrow> bills_ok Y S s \<Longrightarrow> bills_ok Y S (snd (m s))"
  by (simp add: leaves_bills_def bills_ok_def)

section \<open>Known bills\<close>

lemma resync_bills_ok:
  assumes laws: "sync_laws Y S" and relays: "relays_within Y S" and ok: "bills_ok Y S s"
  shows "bills_ok Y S (snd (resync_chain Y i fn mode s))"
proof (cases "map_of (sync_keys s) i")
  case None
  have "stored_bill_keys Y i s \<noteq> Ok k" for k using None stored_keys_Ok [of Y i s k] by auto
  then have "snd (resync_chain Y i fn mode s) \<in> {s, snd (invalidate_cache_for_bill Y i s)}"
    by (auto simp: resync_chain_def split: result.splits)
  with ok bills_ok_leaves [OF leaves_bills_steps(1) ok] show ?thesis by auto
next
  case (Some k)
  from bills_ok_held [OF ok Some] obtain first c where h: "holds_chain Y S i first k c s" .
  from bill_inv_bills_ok [OF ok Some resync_chain_inv [OF laws relays h _ Some]] show ?thesis by simp
qed

lemma add_blocks_keyless:
  assumes "map_of (sync_keys s) i = None"
  obtains e where "add_bill_blocks_with Y resync i c bs fr s = (Err e, s)"
proof -
  have "\<exists>e. on_node (persistence_text Y) (get_keys (sye_svc Y) i) s = (Err e, s)"
    using assms by (auto simp: on_node_def get_keys_def store_call_def map_err_def split: option.splits)
  with that show ?thesis by (auto simp: add_bill_blocks_with_def bind_act_def)
qed

lemma known_bill_ok:
  assumes laws: "sync_laws Y S" and relays: "relays_within Y S" and ok: "bills_ok Y S s"
    and stored: "stored_bill_chain Y i s = Ok c" and bs: "set bs \<subseteq> S"
  shows "bills_ok Y S (snd (add_bill_blocks Y i c bs s))"
proof (cases "map_of (sync_keys s) i")
  case None
  with ok show ?thesis unfolding add_bill_blocks_def by (metis add_blocks_keyless snd_conv)
next
  case (Some k)
  from bills_ok_held [OF ok Some] obtain first c' where h: "holds_chain Y S i first k c' s" .
  from stored_chain_held [OF laws h stored] have [simp]: "c' = c" by simp
  have resync: "bill_inv Y S i first k s (snd (resync_chain Y i True Normal s'))" if inv: "bill_inv Y S i first k s s'" for s'
  proof -
    from inv obtain d where d: "holds_chain Y S i first k d s'" and only: "only_bill Y i s s'" by (auto simp: bill_inv_def)
    from only Some have "map_of (sync_keys s') i = Some k" by (simp add: only_bill_def)
    from resync_chain_inv [OF laws relays d only this] show ?thesis .
  qed
  have "bill_inv Y S i first k s (snd (add_bill_blocks Y i c bs s))"
    unfolding add_bill_blocks_def by (rule add_bill_blocks_inv [OF laws resync _ only_bill_refl bs Some]) (use h in auto)
  from bill_inv_bills_ok [OF ok Some this] show ?thesis .
qed

section \<open>New bills\<close>

text \<open>A new chain belongs to the bill it was received for, in its blocks and in the encrypted data of its issue.\<close>

definition chain_of_bill :: "SyncEnv \<Rightarrow> BillId \<Rightarrow> BcrKeys \<Rightarrow> BillBlock list \<Rightarrow> bool" where
  "chain_of_bill Y i k bs \<longleftrightarrow>
     (bs \<noteq> [] \<longrightarrow> bbl_bill_id (hd bs) = i \<and>
       (\<forall>d. get_decrypted_block (sy_bill Y) (c_issue (sy_bill Y)) (hd bs) k = Ok d \<longrightarrow> iss_id d = i))"

lemma get_valid_chain_Ok:
  assumes "get_valid_chain P bs k = Ok (i, first, chain)"
  shows "chain = \<lparr>blocks = bs\<rparr> \<and> bs \<noteq> [] \<and> bbl_op_code (hd bs) = Issue \<and> i = iss_id first \<and>
         get_decrypted_block (proc_bill P) (c_issue (proc_bill P)) (hd bs) k = Ok first \<and>
         bill_chain_ok (proc_bill P) chain"
proof -
  from assms obtain b where new: "new_from_blocks (proc_bill P) bs = Ok chain"
    and b: "get_first_block chain = (Ok b :: (BillBlock, TransportError) result)" "bbl_op_code b = Issue"
    and f: "get_first_version_bill (proc_bill P) chain k = Ok first" and i: "i = iss_id first"
    by (auto simp: get_valid_chain_def Let_def and_then_eq_Ok map_err_eq seq_eq_Ok split: if_splits)
  from new have c: "chain = \<lparr>blocks = bs\<rparr>" "bill_chain_ok (proc_bill P) chain"
    unfolding new_from_blocks_iff by blast+
  then have "bs \<noteq> []" by (auto simp: bill_chain_ok_def)
  with c b f i show ?thesis by (cases bs) (auto simp: get_first_version_bill_def get_first_block_def and_then_eq_Ok)
qed

lemma bill_chain_ok_first:
  "bill_chain_ok E \<lparr>blocks = bs\<rparr> \<Longrightarrow> bill_chain_ok E \<lparr>blocks = [hd bs]\<rparr>"
  by (cases bs) (auto simp: bill_chain_ok_def is_chain_valid_iff)

lemma save_first_block:
  assumes laws: "sync_laws Y S" and store: "bill_store_ok (sy_bill Y) S (ss_bill_chain (sy_node s))"
    and b: "b \<in> S" "bbl_bill_id b = i" and run: "save_chain_block Y i b s = (r, s')"
  shows "only_bill Y i s s' \<and> bill_store_ok (sy_bill Y) S (ss_bill_chain (sy_node s')) \<and>
         (s' = s \<and> r \<noteq> Ok () \<or> r = Ok () \<and> sync_rows Y s' i = sync_rows Y s i @ [bill_block_to_db (env_ext (sy_bill Y)) b])"
proof -
  obtain r' t' where t: "bill_store_add_block (sy_bill Y) (svc_bill_db (sye_svc Y)) (ss_bill_chain (sy_node s)) i b = (r', t')"
    by fastforce
  have s': "s' = s\<lparr>sy_node := (sy_node s)\<lparr>ss_bill_chain := t'\<rparr>\<rparr>" and r: "(r = Ok ()) = (r' = Ok ())"
    using run by (auto simp: save_chain_block_def save_block_def sync_add_def bill_chain_add_def t map_err_eq
        split: prod.splits)
  have "bill_store_ok (sy_bill Y) S t' \<and> (t' = ss_bill_chain (sy_node s) \<and> r' \<noteq> Ok () \<or>
      r' = Ok () \<and> t' = ss_bill_chain (sy_node s) @ [bill_block_to_db (env_ext (sy_bill Y)) b])"
    using laws by (intro add_first [OF _ _ store b t]) (simp_all add: sync_laws_def)
  with r b(2) show ?thesis unfolding s' by (auto simp: only_bill_def rows_of_def)
qed

text \<open>Saving the keys of a bill without keys, when its chain has been built with these keys.\<close>

lemma save_keys_ok:
  assumes ok: "bills_ok Y S s" and h: "holds_chain Y S i first k c s" and run: "save_chain_keys Y i k s = (r, s')"
  shows "bills_ok Y S s'"
proof -
  let ?n = "sy_node s"
  have cases: "s' = s \<or> s' = s\<lparr>sy_node := ?n\<lparr>ss_bill_keys := hm_insert i k (ss_bill_keys ?n)\<rparr>\<rparr>"
    using run by (auto simp: save_chain_keys_def on_node_def save_keys_def store_call_def split: option.splits prod.splits)
  show ?thesis
  proof (cases "s' = s")
    case False
    with cases have s': "s' = s\<lparr>sy_node := ?n\<lparr>ss_bill_keys := hm_insert i k (ss_bill_keys ?n)\<rparr>\<rparr>" by simp
    show ?thesis using ok h by (auto simp: bills_ok_def holds_chain_def s' split: if_splits)
  qed (use ok in simp)
qed

lemma fresh_bill_keyless:
  assumes ok: "bills_ok Y S s" and fresh: "sync_rows Y s i = []"
  shows "map_of (sync_keys s) i = None"
proof (rule ccontr)
  assume "map_of (sync_keys s) i \<noteq> None"
  then obtain k' where "map_of (sync_keys s) i = Some k'" by auto
  from bills_ok_held [OF ok this] obtain first' c' where h: "holds_chain Y S i first' k' c' s" .
  with fresh have "blocks c' = []" by (simp add: holds_chain_def)
  with h reachable_ok(1) show False by (fastforce simp: holds_chain_def bill_chain_ok_def)
qed

lemma new_bill_ok:
  assumes laws: "sync_laws Y S" and ok: "bills_ok Y S s" and bs: "set bs \<subseteq> S" and own: "chain_of_bill Y i k bs"
    and fresh: "sync_rows Y s i = []"
  shows "bills_ok Y S (snd (add_new_chain Y bs k s))"
proof (cases "get_valid_chain (sy_proc Y) bs k")
  case (Ok v)
  obtain j first chain where v: "v = (j, first, chain)" by (cases v) auto
  from get_valid_chain_Ok [OF Ok [unfolded v]] have f: "chain = \<lparr>blocks = bs\<rparr>" "bs \<noteq> []" "bbl_op_code (hd bs) = Issue"
    "j = iss_id first" "get_decrypted_block (sy_bill Y) (c_issue (sy_bill Y)) (hd bs) k = Ok first"
    "bill_chain_ok (sy_bill Y) chain" by blast+
  with own have j: "j = i" "bbl_bill_id (hd bs) = i" by (simp_all add: chain_of_bill_def)
  have reach: "bill_reachable (sy_proc Y) first k \<lparr>blocks = [hd bs]\<rparr>"
    by (rule reach_issue) (use f bill_chain_ok_first in auto)
  have issue: "get_first_block chain = (Ok (hd bs) :: (BillBlock, TransportError) result)"
    using f(1,2) by (cases bs) (simp_all add: get_first_block_def)
  have start: "new_from_blocks (sy_bill Y) [hd bs] = Ok \<lparr>blocks = [hd bs]\<rparr>"
    using bill_chain_ok_first f(6) unfolding new_from_blocks_iff f(1) by blast
  have no_keys: "map_of (sync_keys s) i = None" by (rule fresh_bill_keyless [OF ok fresh])
  define anchors where "anchors = for_each (anchor_important_file Y (FC_Bill i ''files'')) (iss_files first)"
  define others where "others = (if 1 < block_height chain
    then save_other_blocks Y i \<lparr>blocks = [hd bs]\<rparr> first k (tl bs) else ret ())"
  define finish where "finish = then_act (save_chain_keys Y i k) (ensure_contacts Y chain k)"
  obtain r1 s1 where save: "save_chain_block Y i (hd bs) s = (r1, s1)" by fastforce
  have "hd bs \<in> S" using bs f(2) by auto
  note one = save_first_block [OF laws _ this j(2) save]
  have store: "bill_store_ok (sy_bill Y) S (ss_bill_chain (sy_node s))" using ok by (simp add: bills_ok_def)
  note one = one [OF store]
  have ok1: "bills_ok Y S s1" by (rule keyless_bills_ok [OF ok no_keys]) (use one in simp_all)
  let ?all = "then_act (save_chain_block Y i (hd bs)) (then_act anchors (then_act others finish))"
  have "add_new_chain Y bs k = then_act (lift (reject_if (\<not> validate_plaintext_hash (sy_bill Y) (hd bs)
      (get_private_key (svc_ext (sye_svc Y)) k)) (T_Blockchain ''Newly received chain issue block has invalid plaintext hash'')))
      ?all"
    unfolding add_new_chain_def Ok v bind_lift prod.case issue
    unfolding bind_lift start map_err_simps
    unfolding bind_lift j(1) anchors_def others_def finish_def f(1) Blockchain.select_convs by (rule refl)
  then have run: "snd (add_new_chain Y bs k s) = s \<or> snd (add_new_chain Y bs k s) = snd (?all s)"
    by (simp add: then_act_def bind_act_def [of "lift _"] lift_def reject_if_def)
  have "bills_ok Y S (snd (then_act (save_chain_block Y i (hd bs)) (then_act anchors (then_act others finish)) s))"
  proof (cases "r1 = Ok ()")
    case False
    with ok1 show ?thesis by (cases r1) (simp_all add: then_act_def bind_act_def save)
  next
    case True
    with one fresh reach have h1: "holds_chain Y S i first k \<lparr>blocks = [hd bs]\<rparr> s1"
      by (simp add: holds_chain_def)
    from one have only1: "only_bill Y i s s1" by simp
    obtain r2 s2 where a: "anchors s1 = (r2, s2)" by fastforce
    have la: "leaves_bills anchors" unfolding anchors_def by auto
    from leaves_bills_holds [OF la a] h1 only1
    have h2: "holds_chain Y S i first k \<lparr>blocks = [hd bs]\<rparr> s2" "only_bill Y i s s2" by simp_all
    from bills_ok_leaves [OF la ok1] a have ok2: "bills_ok Y S s2" by simp
    obtain r3 s3 where o: "others s2 = (r3, s3)" by fastforce
    have inv: "bill_inv Y S i first k s s3"
    proof (cases "1 < block_height chain")
      case True
      with o obtain c' where run: "save_new_blocks (sy_proc Y) (sync_add Y) s2 i \<lparr>blocks = [hd bs]\<rparr> first k (tl bs) = (r3, c', s3)"
        by (auto simp: others_def save_other_blocks_def split: prod.splits)
      have "set (tl bs) \<subseteq> S" using bs by (cases bs) auto
      from save_new_blocks_inv [OF laws h2(1) this run] h2(2) show ?thesis
        by (auto simp: bill_inv_def intro: only_bill_trans)
    next
      case False
      with o h2 show ?thesis by (auto simp: others_def ret_def intro: bill_invI)
    qed
    then obtain c3 where h3: "holds_chain Y S i first k c3 s3" and only3: "only_bill Y i s s3" by (auto simp: bill_inv_def)
    have ok3: "bills_ok Y S s3"
      by (rule keyless_bills_ok [OF ok no_keys only3]) (use h3 in \<open>simp add: holds_chain_def\<close>)
    obtain r4 s4 where k4: "save_chain_keys Y i k s3 = (r4, s4)" by fastforce
    from save_keys_ok [OF ok3 h3 k4] have ok4: "bills_ok Y S s4" .
    from bills_ok_leaves [OF leaves_bills_contacts ok4] ok4 have "bills_ok Y S (snd (finish s3))"
      by (cases r4) (simp_all add: finish_def then_act_def bind_act_def k4)
    with ok2 ok3 show ?thesis
      by (cases r2; cases r3) (simp_all add: then_act_def bind_act_def save True a o)
  qed
  with run ok show ?thesis by auto
qed (use ok in \<open>simp_all add: add_new_chain_def bind_act_def lift_def\<close>)

section \<open>Received data\<close>

lemma unreadable_bill_is_empty:
  assumes laws: "sync_laws Y S" and ok: "bills_ok Y S s" and works: "db_fails (svc_bill_db (sye_svc Y)) Select_Chain = None"
    and "stored_bill_chain Y i s = Err e"
  shows "sync_rows Y s i = []"
proof -
  let ?E = "sy_bill Y"
  obtain bs where bs: "set bs \<subseteq> S" "stored_chain (bill_table ?E) (env_ext ?E) (ss_bill_chain (sy_node s)) i bs"
    using ok unfolding bills_ok_def store_ok_def by blast
  show ?thesis
  proof (cases "bs = []")
    case True
    with bs show ?thesis by (simp add: stored_chain_def)
  next
    case False
    with bill_store.get_chain_stored [OF _ bs(2) False works] laws assms(4) show ?thesis
      by (simp add: sync_laws_def stored_bill_chain_def bill_chain_get_def bill_store_get_chain_def map_err_def)
  qed
qed

lemma held_chain_readable:
  assumes laws: "sync_laws Y S" and h: "holds_chain Y S i first k c s"
    and works: "db_fails (svc_bill_db (sye_svc Y)) Select_Chain = None"
  shows "stored_bill_chain Y i s = Ok c"
proof -
  have "blocks c \<noteq> []" using h reachable_ok(1) by (auto simp: holds_chain_def bill_chain_ok_def)
  from bill_store.get_chain_stored [OF _ held_stored [OF laws h] this works] laws show ?thesis
    by (simp add: sync_laws_def stored_bill_chain_def bill_chain_get_def bill_store_get_chain_def)
qed

text \<open>Every bill with known keys can be read, as long as the database works.\<close>

lemma known_bill_readable:
  assumes laws: "sync_laws Y S" and ok: "bills_ok Y S s" and works: "db_fails (svc_bill_db (sye_svc Y)) Select_Chain = None"
    and k: "map_of (sync_keys s) i = Some k"
  shows "\<exists>first c. stored_bill_chain Y i s = Ok c \<and> bill_reachable (sy_proc Y) first k c"
proof -
  from bills_ok_held [OF ok k] obtain first c where h: "holds_chain Y S i first k c s" .
  with held_chain_readable [OF laws h works] show ?thesis by (auto simp: holds_chain_def)
qed

theorem process_chain_data_ok:
  assumes "sync_laws Y S" and "relays_within Y S" and "db_fails (svc_bill_db (sye_svc Y)) Select_Chain = None"
    and "bills_ok Y S s" and "set bs \<subseteq> S" and "\<And>k. keys = Some k \<Longrightarrow> chain_of_bill Y i k bs"
  shows "bills_ok Y S (snd (process_chain_data Y i bs keys s))"
  using assms known_bill_ok [OF assms(1,2,4) _ assms(5), of i] new_bill_ok [OF assms(1,4,5) _ unreadable_bill_is_empty [OF assms(1,4,3)]]
  by (auto simp: process_chain_data_def split: result.splits option.splits)

text \<open>An event of the chain of a bill is only looked at if the keys are known, so the bill has a chain already.\<close>

theorem bill_chain_event_ok:
  assumes laws: "sync_laws Y S" and relays: "relays_within Y S"
    and works: "db_fails (svc_bill_db (sye_svc Y)) Select_Chain = None" and ok: "bills_ok Y S s"
    and bs: "\<And>e. from_slice (een_bill_event (sye_event Y)) (env_data event) = Inr e \<Longrightarrow> bbe_block e \<in> S"
  shows "bills_ok Y S (snd (handle_bill_chain_event Y event original s))"
proof (cases "from_slice (een_bill_event (sye_event Y)) (env_data event)")
  case (Inr e)
  show ?thesis
  proof (cases "stored_bill_keys Y (bbe_bill_id e) s")
    case (Ok k)
    from known_bill_readable [OF laws ok works stored_keys_Ok [OF Ok]] obtain c
      where c: "stored_bill_chain Y (bbe_bill_id e) s = Ok c" by blast
    obtain r1 s1 where p: "process_chain_data Y (bbe_bill_id e) [bbe_block e] (Some k) s = (r1, s1)" by fastforce
    have "set [bbe_block e] \<subseteq> S" using bs [OF Inr] by simp
    from known_bill_ok [OF laws relays ok c this] p ok have s1: "bills_ok Y S s1"
      by (auto simp: process_chain_data_def c split: if_splits)
    have "bills_ok Y S (snd (logged (save_event Y x) s1))" for x
      by (rule bills_ok_leaves [OF leaves_bills_compose(5) [OF leaves_bills_steps(4)] s1])
    with s1 show ?thesis by (cases r1) (auto simp: handle_bill_chain_event_def Inr Ok p split: option.splits)
  qed (use ok in \<open>simp_all add: handle_bill_chain_event_def Inr\<close>)
qed (use ok in \<open>simp add: handle_bill_chain_event_def\<close>)

section \<open>Bills without keys\<close>

lemma keyless_bill_refuses:
  assumes "stored_bill_chain Y i s = Ok c" and "map_of (sync_keys s) i = None"
  shows "\<exists>e. process_chain_data Y i bs keys s = (Err e, s)"
proof -
  from add_blocks_keyless [OF assms(2)] obtain e
    where "add_bill_blocks Y i c bs s = (Err e, s)" unfolding add_bill_blocks_def by metis
  with assms(1) show ?thesis by (auto simp: process_chain_data_def)
qed

lemma keyless_bill_refuses_all:
  assumes "stored_bill_chain Y i s = Ok c" and "map_of (sync_keys s) i = None"
  shows "try_candidates Y i k cands s = (Ok [], s)"
proof (induction cands)
  case (Cons data rest)
  obtain e where "process_chain_data Y i (bill_blocks_of data) (Some k) s = (Err e, s)"
    using keyless_bill_refuses [OF assms] by blast
  with Cons show ?case by simp
qed (simp add: ret_def)

text \<open>
  A first download that fails after the issue block has been stored, since a later block is invalid, leaves a bill with a
  chain and without keys.
\<close>

lemma save_new_blocks_validates:
  assumes "fst (save_new_blocks P add st i c first k bs) = Ok ()"
  shows "fst (validate_blocks_for_chain P i c bs k first False) = Ok ()"
  using assms
proof (induction bs arbitrary: c st)
  case (Cons b bs)
  then show ?case
    by (auto simp: validate_and_save_block_def split: prod.splits result.splits bool.splits) 
qed simp

lemma invalid_download_keyless:
  assumes laws: "sync_laws Y S" and works: "db_fails (svc_bill_db (sye_svc Y)) Select_Chain = None" and ok: "bills_ok Y S s"
    and bs: "set bs \<subseteq> S" "bbl_bill_id (hd bs) = i" and fresh: "sync_rows Y s i = []"
    and valid: "get_valid_chain (sy_proc Y) bs k = Ok (i, first, chain)"
    and hash: "validate_plaintext_hash (sy_bill Y) (hd bs) (get_private_key (svc_ext (sye_svc Y)) k)"
    and save: "save_chain_block Y i (hd bs) s = (Ok (), s1)"
    and invalid: "fst (validate_blocks_for_chain (sy_proc Y) i \<lparr>blocks = [hd bs]\<rparr> (tl bs) k first False) \<noteq> Ok ()"
    and run: "add_new_chain Y bs k s = (r, s')"
  shows "r \<noteq> Ok ()" "map_of (sync_keys s') i = None" "\<exists>c. stored_bill_chain Y i s' = Ok c \<and> bill_reachable (sy_proc Y) first k c"
proof -
  from get_valid_chain_Ok [OF valid] have f: "chain = \<lparr>blocks = bs\<rparr>" "bs \<noteq> []" "bbl_op_code (hd bs) = Issue"
    "i = iss_id first" "get_decrypted_block (sy_bill Y) (c_issue (sy_bill Y)) (hd bs) k = Ok first"
    "bill_chain_ok (sy_bill Y) chain" by blast+
  have reach: "bill_reachable (sy_proc Y) first k \<lparr>blocks = [hd bs]\<rparr>"
    by (rule reach_issue) (use f bill_chain_ok_first in auto)
  have issue: "get_first_block chain = (Ok (hd bs) :: (BillBlock, TransportError) result)"
    using f(1,2) by (cases bs) (simp_all add: get_first_block_def)
  have start: "new_from_blocks (sy_bill Y) [hd bs] = Ok \<lparr>blocks = [hd bs]\<rparr>"
    using bill_chain_ok_first f(6) unfolding new_from_blocks_iff f(1) by blast
  have more: "1 < block_height chain"
    using invalid f(1,2) by (cases bs; cases "tl bs") (auto simp: block_height_def)
  define anchors where "anchors = for_each (anchor_important_file Y (FC_Bill i ''files'')) (iss_files first)"
  define others where "others = save_other_blocks Y i \<lparr>blocks = [hd bs]\<rparr> first k (tl bs)"
  define finish where "finish = then_act (save_chain_keys Y i k) (ensure_contacts Y chain k)"
  have all: "add_new_chain Y bs k s = then_act (save_chain_block Y i (hd bs)) (then_act anchors (then_act others finish)) s"
    unfolding add_new_chain_def valid bind_lift prod.case issue
    unfolding bind_lift start map_err_simps
    using hash more unfolding bind_lift anchors_def others_def finish_def f(1) Blockchain.select_convs
    by (simp add: then_act_def bind_act_def [of "lift _"] lift_def reject_if_def)
  have no_keys: "map_of (sync_keys s) i = None"
    by (rule fresh_bill_keyless [OF ok fresh])
  have "hd bs \<in> S" "set (tl bs) \<subseteq> S" using bs(1) f(2) by (cases bs; auto)+
  note bS = this
  have store: "bill_store_ok (sy_bill Y) S (ss_bill_chain (sy_node s))" using ok by (simp add: bills_ok_def)
  note one = save_first_block [OF laws store bS(1) bs(2) save]
  with fresh reach have h1: "holds_chain Y S i first k \<lparr>blocks = [hd bs]\<rparr> s1" by (auto simp: holds_chain_def)
  from one have only1: "only_bill Y i s s1" by simp
  obtain r2 s2 where a: "anchors s1 = (r2, s2)" by fastforce
  have la: "leaves_bills anchors" unfolding anchors_def by auto
  from leaves_bills_holds [OF la a] h1 only1
  have h2: "holds_chain Y S i first k \<lparr>blocks = [hd bs]\<rparr> s2" "only_bill Y i s s2" by simp_all
  obtain r3 c3 s3 where o: "save_new_blocks (sy_proc Y) (sync_add Y) s2 i \<lparr>blocks = [hd bs]\<rparr> first k (tl bs) = (r3, c3, s3)"
    by (metis prod_cases3)
  from save_new_blocks_inv [OF laws h2(1) bS(2) o] h2(2) have inv: "bill_inv Y S i first k s s3"
    by (auto simp: bill_inv_def intro: only_bill_trans)
  have r3: "r3 \<noteq> Ok ()"
    using save_new_blocks_validates [of "sy_proc Y" "sync_add Y" s2 i "\<lparr>blocks = [hd bs]\<rparr>" first k "tl bs"] invalid o by auto
  have "(r, s') = (case r2 of Ok _ \<Rightarrow> (r3, s3) | Err x \<Rightarrow> (Err x, s2) | Panic \<Rightarrow> (Panic, s2))"
    using r3 unfolding run [symmetric] by (cases r2; cases r3) (simp_all add: all then_act_def bind_act_def save a others_def save_other_blocks_def o)
  with r3 have r: "r \<noteq> Ok ()" and s': "s' = s2 \<or> s' = s3" by (cases r2; auto)+
  have inv': "bill_inv Y S i first k s s'" using s' inv h2 by (auto intro: bill_invI)
  then obtain c where "holds_chain Y S i first k c s'" "only_bill Y i s s'" by (auto simp: bill_inv_def)
  with held_chain_readable [OF laws _ works] no_keys r
  show "r \<noteq> Ok ()" "map_of (sync_keys s') i = None" "\<exists>c. stored_bill_chain Y i s' = Ok c \<and> bill_reachable (sy_proc Y) first k c"
    by (auto simp: holds_chain_def only_bill_def)
qed

end
