(* ===== verification/Event_Chains_Props.thy ===== *)
theory Event_Chains_Props
  imports Event_Chains "HOL-Library.Multiset"
begin

text \<open>
  Facts on the candidate chains of a relay's events: sorting is a sorted permutation, the tree of replies is
  built completely with the number of events as fuel, and its chains are exactly the longest reply paths
  from the root.
\<close>

section \<open>Sorting\<close>

definition total_compare :: "('a \<Rightarrow> 'a \<Rightarrow> Ordering) \<Rightarrow> bool" where
  "total_compare c \<longleftrightarrow>
     (\<forall>x y. c x y = Greater \<longrightarrow> c y x \<noteq> Greater) \<and>
     (\<forall>x y z. c x y \<noteq> Greater \<longrightarrow> c y z \<noteq> Greater \<longrightarrow> c x z \<noteq> Greater)"

lemma total_compareD:
  assumes "total_compare c"
  shows "c x y = Greater \<Longrightarrow> c y x \<noteq> Greater" and "c x y \<noteq> Greater \<Longrightarrow> c y z \<noteq> Greater \<Longrightarrow> c x z \<noteq> Greater"
  using assms unfolding total_compare_def by blast+

lemma mset_insert_sorted: "mset (insert_sorted c x ys) = add_mset x (mset ys)"
  by (induction ys) auto

lemma mset_sort_by: "mset (sort_by c xs) = mset xs"
  by (induction xs) (simp_all add: sort_by_def mset_insert_sorted)

lemma set_insert_sorted [simp]: "set (insert_sorted c x ys) = insert x (set ys)"
  by (induction ys) auto

lemma set_sort_by [simp]: "set (sort_by c xs) = set xs"
  by (induction xs) (simp_all add: sort_by_def)

lemma sorted_insert_sorted:
  assumes "total_compare c" and "sorted_wrt (\<lambda>a b. c a b \<noteq> Greater) ys"
  shows "sorted_wrt (\<lambda>a b. c a b \<noteq> Greater) (insert_sorted c x ys)"
  using assms(2)
proof (induction ys)
  case (Cons y ys)
  show ?case
  proof (cases "c x y = Greater")
    case True
    from total_compareD(1) [OF assms(1) this] True Cons show ?thesis by simp
  next
    case False
    have "c x z \<noteq> Greater" if "z \<in> set ys" for z
    proof -
      from that Cons.prems have "c y z \<noteq> Greater" by simp
      with total_compareD(2) [OF assms(1) False] show ?thesis .
    qed
    with False Cons.prems show ?thesis by simp
  qed
qed simp

lemma sorted_sort_by: "total_compare c \<Longrightarrow> sorted_wrt (\<lambda>a b. c a b \<noteq> Greater) (sort_by c xs)"
  by (induction xs) (simp_all add: sort_by_def sorted_insert_sorted)

lemma cmp_simps [simp]:
  "cmp a b = Greater \<longleftrightarrow> b < a" "cmp a b = Less \<longleftrightarrow> a < b" "cmp a b = Equal \<longleftrightarrow> a = b"
  by (auto simp: cmp_def)

lemma then_with_greater: "then_with o1 o2 = Greater \<longleftrightarrow> o1 = Greater \<or> (o1 = Equal \<and> o2 = Greater)"
  by (cases o1) (simp_all add: then_with_def)

lemma cmp_opt_greater: "cmp_opt a b = Greater \<longleftrightarrow> (\<exists>x. a = Some x \<and> (\<forall>y. b = Some y \<longrightarrow> y < x))"
  by (cases a; cases b) (simp_all add: cmp_opt_def)

lemma compare_chains_greater:
  "compare_chains N a b = Greater \<longleftrightarrow>
     length a < length b \<or>
     (length a = length b \<and>
      (chain_tip_timestamp N b < chain_tip_timestamp N a \<or>
       (chain_tip_timestamp N a = chain_tip_timestamp N b \<and>
        (\<exists>x. chain_tip_hash a = Some x \<and> (\<forall>y. chain_tip_hash b = Some y \<longrightarrow> y < x)))))"
  by (auto simp: compare_chains_def then_with_greater cmp_opt_greater)

lemma compare_chains_total: "total_compare (compare_chains N)"
proof -
  have "compare_chains N y x \<noteq> Greater" if "compare_chains N x y = Greater" for x y
    using that unfolding compare_chains_greater by auto
  moreover have "compare_chains N x z \<noteq> Greater"
    if "compare_chains N x y \<noteq> Greater" "compare_chains N y z \<noteq> Greater" for x y z
  proof -
    let ?l = "\<lambda>x. length x" and ?t = "chain_tip_timestamp N"
    from that have l: "?l y \<le> ?l x" "?l z \<le> ?l y" unfolding compare_chains_greater by auto
    show ?thesis
    proof (cases "?l x = ?l z")
      case False
      with l show ?thesis unfolding compare_chains_greater by auto
    next
      case True
      with l that have t: "?t x \<le> ?t y" "?t y \<le> ?t z" unfolding compare_chains_greater by (auto simp: not_less)
      show ?thesis
      proof (cases "?t x = ?t z")
        case False
        with l t True show ?thesis unfolding compare_chains_greater by auto
      next
        case eq: True
        with t have "?t x = ?t y" "?t y = ?t z" by auto
        with l True that show ?thesis unfolding compare_chains_greater
          by (cases "chain_tip_hash x"; cases "chain_tip_hash y"; cases "chain_tip_hash z") (auto simp: not_less)
      qed
    qed
  qed
  ultimately show ?thesis unfolding total_compare_def by (intro conjI allI impI)
qed

section \<open>Trees and paths of replies\<close>

text \<open>A container without its children, and the event it answers.\<close>

definition bare :: "EventContainer \<Rightarrow> EventContainer" where
  "bare c = with_children c []"

definition parent_id :: "EventContainer \<Rightarrow> EventId option" where
  "parent_id c = (case evc_reply_id c of Some i \<Rightarrow> Some i | None \<Rightarrow> evc_root_id c)"

abbreviation node_id_of :: "EventContainer \<Rightarrow> EventId" where
  "node_id_of c \<equiv> nev_id (evc_event c)"

definition answers :: "EventContainer list \<Rightarrow> EventContainer \<Rightarrow> EventContainer \<Rightarrow> bool" where
  "answers ms a b \<longleftrightarrow> b \<in> set (children_of ms a)"

lemma is_child_of_iff: "is_child_of m i \<longleftrightarrow> parent_id m = Some i"
  by (simp add: is_child_of_def parent_id_def split: option.splits)

lemma is_root_iff: "is_root c \<longleftrightarrow> parent_id c = None"
  by (auto simp: is_root_def parent_id_def split: option.splits)

lemma with_children_simps [simp]:
  "evc_event (with_children c cs) = evc_event c" "evc_root_id (with_children c cs) = evc_root_id c"
  "evc_reply_id (with_children c cs) = evc_reply_id c" "evc_children (with_children c cs) = cs"
  "evc_block (with_children c cs) = evc_block c" "with_children (with_children c cs) ds = with_children c ds"
  "children_of ms (with_children c cs) = children_of ms c" "bare (with_children c cs) = bare c"
  by (simp_all add: with_children_def children_of_def bare_def)

lemma bare_simps [simp]:
  "evc_event (bare c) = evc_event c" "children_of ms (bare c) = children_of ms c" "bare (bare c) = bare c"
  "is_root (bare c) = is_root c" "parent_id (bare c) = parent_id c" "evc_block (bare c) = evc_block c"
  by (cases c; simp add: bare_def is_root_def parent_id_def with_children_def children_of_def split: option.splits)+

lemma bare_childless: "evc_children m = [] \<Longrightarrow> bare m = m"
  by (cases m) (simp add: bare_def with_children_def)

lemma as_chains_with_children:
  "as_chains (with_children c cs) =
     (if cs = [] then [[bare c]] else concat (map (\<lambda>d. map ((#) (with_children c cs)) (as_chains d)) cs))"
  by (cases c) (simp add: with_children_def bare_def Let_def)

lemma those_Some: "those xs = Some ys \<longleftrightarrow> xs = map Some ys"
  by (induction xs arbitrary: ys) (auto split: option.splits)

lemma those_None: "those xs = None \<longleftrightarrow> None \<in> set xs"
  by (induction xs) (auto split: option.splits)

text \<open>Building the tree only fails to end along a path as long as the fuel.\<close>

lemma resolve_children_None:
  assumes "resolve_children n ms c = None" and "\<And>m. m \<in> set ms \<Longrightarrow> evc_children m = []"
  shows "\<exists>p. length p = n \<and> successively (answers ms) (c # p)"
  using assms(1)
proof (induction n arbitrary: c)
  case (Suc n)
  then obtain m where m: "m \<in> set (children_of ms c)" and "(if evc_children m = [] then resolve_children n ms m else Some m) = None"
    by (auto simp: those_None)
  then have "resolve_children n ms m = None" by (auto split: if_splits)
  from Suc.IH [OF this] obtain p where "length p = n" "successively (answers ms) (m # p)" by blast
  with m show ?case by (intro exI [of _ "m # p"]) (simp add: answers_def)
qed simp

text \<open>On a path from a root no event comes twice: going back from two equal events one reaches the root twice.\<close>

lemma path_ids_differ:
  assumes path: "successively (answers ms) q" and "i < j" "j < length q" and root: "is_root (q ! 0)"
    and same: "\<And>a b. a \<in> set q \<Longrightarrow> b \<in> set q \<Longrightarrow> node_id_of a = node_id_of b \<Longrightarrow> parent_id a = parent_id b"
  shows "node_id_of (q ! i) \<noteq> node_id_of (q ! j)"
  using assms(2,3)
proof (induction i arbitrary: j)
  case 0
  then obtain k where "j = Suc k" by (cases j) auto
  with 0 path have "answers ms (q ! k) (q ! j)" by (simp add: successively_conv_nth)
  then have "parent_id (q ! j) \<noteq> None" by (simp add: answers_def children_of_def is_child_of_iff)
  moreover have "q ! 0 \<in> set q" "q ! j \<in> set q" using 0 by (auto intro: nth_mem)
  ultimately show ?case using root same [of "q ! 0" "q ! j"] by (auto simp: is_root_iff)
next
  case (Suc i)
  then obtain k where k: "j = Suc k" by (cases j) auto
  with Suc.prems path have "answers ms (q ! i) (q ! Suc i)" "answers ms (q ! k) (q ! j)"
    by (simp_all add: successively_conv_nth)
  then have "parent_id (q ! Suc i) = Some (node_id_of (q ! i))" "parent_id (q ! j) = Some (node_id_of (q ! k))"
    by (simp_all add: answers_def children_of_def is_child_of_iff)
  moreover have "node_id_of (q ! i) \<noteq> node_id_of (q ! k)" using Suc k by simp
  moreover have "q ! Suc i \<in> set q" "q ! j \<in> set q" using Suc.prems by (auto intro: nth_mem)
  ultimately show ?case using same [of "q ! Suc i" "q ! j"] by auto
qed

lemma path_distinct:
  assumes "successively (answers ms) q" and "q \<noteq> []" and "is_root (hd q)"
    and "\<And>a b. a \<in> set q \<Longrightarrow> b \<in> set q \<Longrightarrow> node_id_of a = node_id_of b \<Longrightarrow> parent_id a = parent_id b"
  shows "distinct (map node_id_of q)"
proof -
  have root: "is_root (q ! 0)" using assms(2,3) by (simp add: hd_conv_nth)
  have "node_id_of (q ! i) \<noteq> node_id_of (q ! j)" if "i < length q" "j < length q" "i \<noteq> j" for i j
  proof (cases "i < j")
    case True
    from path_ids_differ [OF assms(1) this that(2) root] assms(4) show ?thesis .
  next
    case False
    with that(3) have "j < i" by simp
    from path_ids_differ [OF assms(1) this that(1) root] assms(4)
    have "node_id_of (q ! j) \<noteq> node_id_of (q ! i)" .
    then show ?thesis by (rule not_sym)
  qed
  then show ?thesis by (simp add: distinct_conv_nth)
qed

lemma path_members: "successively (answers ms) (c # p) \<Longrightarrow> set p \<subseteq> set ms"
proof (induction p arbitrary: c)
  case (Cons m p)
  from Cons.prems have "m \<in> set ms" "successively (answers ms) (m # p)"
    by (auto simp: answers_def children_of_def)
  with Cons.IH [of m] show ?case by simp
qed simp

lemma resolve_children_total:
  assumes childless: "\<And>m. m \<in> set ms \<Longrightarrow> evc_children m = []" and root: "is_root c" and "length ms < n"
    and same: "\<And>a b. a \<in> insert c (set ms) \<Longrightarrow> b \<in> insert c (set ms) \<Longrightarrow> node_id_of a = node_id_of b \<Longrightarrow> parent_id a = parent_id b"
  shows "resolve_children n ms c \<noteq> None"
proof
  assume "resolve_children n ms c = None"
  from resolve_children_None [OF this childless] obtain p
    where p: "length p = n" "successively (answers ms) (c # p)" by blast
  from path_members [OF this(2)] have sub: "set p \<subseteq> set ms" .
  have "distinct (map node_id_of (c # p))"
  proof (rule path_distinct [OF p(2)])
    fix a b assume "a \<in> set (c # p)" "b \<in> set (c # p)" "node_id_of a = node_id_of b"
    moreover from sub have "set (c # p) \<subseteq> insert c (set ms)" by auto
    ultimately show "parent_id a = parent_id b" using same by (meson subsetD)
  qed (simp_all add: root)
  then have "distinct (map node_id_of p)" by simp
  then have "card (node_id_of ` set p) = n" using p(1) by (metis distinct_card length_map list.set_map)
  moreover have "card (node_id_of ` set p) \<le> card (node_id_of ` set ms)" using sub by (intro card_mono) auto
  moreover have "card (node_id_of ` set ms) \<le> length ms" by (metis card_length length_map list.set_map)
  ultimately show False using assms(3) by simp
qed

text \<open>The chains of the tree are the paths that start in its root and end in an event without replies.\<close>

lemma as_chains_paths:
  assumes "resolve_children n ms c = Some t" and childless: "\<And>m. m \<in> set ms \<Longrightarrow> evc_children m = []"
  shows "p \<in> map bare ` set (as_chains t) \<longleftrightarrow>
           p \<noteq> [] \<and> hd p = bare c \<and> successively (answers ms) p \<and> children_of ms (last p) = []"
  using assms(1)
proof (induction n arbitrary: c t p)
  case (Suc n)
  have ch: "evc_children m = []" if "m \<in> set (children_of ms c)" for m
    using that childless by (auto simp: children_of_def)
  then have "map (\<lambda>m. if evc_children m = [] then resolve_children n ms m else Some m) (children_of ms c)
      = map (resolve_children n ms) (children_of ms c)" by simp
  with Suc.prems obtain cs where t: "t = with_children c cs"
    and "map (resolve_children n ms) (children_of ms c) = map Some cs"
    by (auto simp: those_Some)
  then have cs: "list_all2 (\<lambda>m d. resolve_children n ms m = Some d) (children_of ms c) cs"
    by (simp add: list_all2_conv_all_nth list_eq_iff_nth_eq)
  then have to: "\<exists>d\<in>set cs. resolve_children n ms m = Some d" if "m \<in> set (children_of ms c)" for m
    using that by (auto simp: list_all2_conv_all_nth in_set_conv_nth)
  from cs have fro: "\<exists>m\<in>set (children_of ms c). resolve_children n ms m = Some d" if "d \<in> set cs" for d
    using that unfolding list_all2_conv_all_nth in_set_conv_nth by (metis nth_mem)
  show ?case
  proof (cases "cs = []")
    case True
    with cs have none: "children_of ms c = []" by simp
    have "p = [bare c] \<longleftrightarrow> p \<noteq> [] \<and> hd p = bare c \<and> successively (answers ms) p \<and> children_of ms (last p) = []"
      using none by (cases p rule: list.exhaust; cases "tl p") (auto simp: answers_def)
    with True t show ?thesis by (simp add: as_chains_with_children)
  next
    case False
    with cs have some: "children_of ms c \<noteq> []" by auto
    from False t have "p \<in> map bare ` set (as_chains t) \<longleftrightarrow>
        (\<exists>q. p = bare c # q \<and> (\<exists>d\<in>set cs. q \<in> map bare ` set (as_chains d)))"
      by (auto simp: as_chains_with_children image_iff)
    also have "\<dots> \<longleftrightarrow> (\<exists>q. p = bare c # q \<and> (\<exists>m\<in>set (children_of ms c).
        q \<noteq> [] \<and> hd q = m \<and> successively (answers ms) q \<and> children_of ms (last q) = []))"
    proof -
      have "(\<exists>d\<in>set cs. q \<in> map bare ` set (as_chains d)) \<longleftrightarrow> (\<exists>m\<in>set (children_of ms c).
          q \<noteq> [] \<and> hd q = m \<and> successively (answers ms) q \<and> children_of ms (last q) = [])" (is "?l \<longleftrightarrow> ?r") for q
      proof
        assume ?l
        then obtain d where "d \<in> set cs" "q \<in> map bare ` set (as_chains d)" by blast
        moreover from fro [OF this(1)] obtain m where m: "m \<in> set (children_of ms c)" "resolve_children n ms m = Some d"
          by blast
        ultimately have "q \<noteq> [] \<and> hd q = bare m \<and> successively (answers ms) q \<and> children_of ms (last q) = []"
          using Suc.IH [OF m(2)] by blast
        moreover have "bare m = m" by (rule bare_childless [OF ch [OF m(1)]])
        ultimately show ?r using m(1) by metis
      next
        assume ?r
        then obtain m where m: "m \<in> set (children_of ms c)" "q \<noteq> []" "hd q = m" "successively (answers ms) q"
          "children_of ms (last q) = []" by blast
        from to [OF m(1)] obtain d where d: "d \<in> set cs" "resolve_children n ms m = Some d" by blast
        have "bare m = m" by (rule bare_childless [OF ch [OF m(1)]])
        with m d Suc.IH [OF d(2), of q] show ?l by auto
      qed
      then show ?thesis by simp
    qed
    also have "\<dots> \<longleftrightarrow> p \<noteq> [] \<and> hd p = bare c \<and> successively (answers ms) p \<and> children_of ms (last p) = []"
      using some by (cases p) (auto simp: answers_def successively_Cons)
    finally show ?thesis .
  qed
qed simp

lemma event_markers_childless: "m \<in> set (event_markers N events i ty keys) \<Longrightarrow> evc_children m = []"
  by (auto simp: event_markers_def List.map_filter_def ids_and_markers_def event_container_new_def
      split: result.splits prod.splits)

lemma length_event_markers: "length (event_markers N events i ty keys) \<le> length events"
  by (simp add: event_markers_def List.map_filter_def)

lemma event_markers_same:
  assumes "\<forall>e\<in>set events. \<forall>e'\<in>set events. nev_id e = nev_id e' \<longrightarrow> nev_tags e = nev_tags e'"
    and "a \<in> set (event_markers N events i ty keys)" "b \<in> set (event_markers N events i ty keys)"
    and "node_id_of a = node_id_of b"
  shows "parent_id a = parent_id b"
proof -
  have *: "evc_event c \<in> set events \<and> (evc_root_id c, evc_reply_id c) = foldl (add_marker N) (None, None) (nev_tags (evc_event c))"
    if "c \<in> set (event_markers N events i ty keys)" for c
    using that by (auto simp: event_markers_def List.map_filter_def ids_and_markers_def event_container_new_def
        split: result.splits prod.splits)
  from * [OF assms(2)] * [OF assms(3)] assms(1,4) have "nev_tags (evc_event a) = nev_tags (evc_event b)" by blast
  with * [OF assms(2)] * [OF assms(3)] have "(evc_root_id a, evc_reply_id a) = (evc_root_id b, evc_reply_id b)" by simp
  then show ?thesis by (simp add: parent_id_def split: option.splits)
qed

text \<open>Every block of a candidate chain was decoded from one of the events.\<close>

lemma resolved_block:
  assumes run: "resolve_event_chains fuel N (Ok events) i ty keys = Some (Ok cands)"
    and c: "data \<in> set cands" "x \<in> set data"
  shows "\<exists>m \<in> set (event_markers N events i ty keys). evc_block m = evc_block x"
proof (cases "split_root (event_markers N events i ty keys)")
  case None
  with run c show ?thesis by (simp add: resolve_event_chains_def collect_event_chains_def sort_by_def)
next
  case (Some rc)
  obtain root replies where rc: "rc = (root, replies)" by fastforce
  let ?ms = "event_markers N events i ty keys"
  from Some rc have root: "root \<in> set ?ms" and replies: "set replies \<subseteq> set ?ms"
    by (auto simp: split_root_def find_Some_iff)
  from run Some rc obtain t where t: "resolve_children fuel replies root = Some t"
    and cands: "cands = sort_by (compare_chains N) (as_chains t)"
    by (auto simp: resolve_event_chains_def collect_event_chains_def)
  have childless: "evc_children m = []" if "m \<in> set replies" for m
    using that replies event_markers_childless by blast
  have bare: "bare root = root" by (rule bare_childless [OF event_markers_childless [OF root]])
  let ?p = "map bare data"
  have "?p \<in> map bare ` set (as_chains t)" using c(1) by (simp add: cands)
  with as_chains_paths [OF t childless] bare have p: "?p \<noteq> []" "hd ?p = root" "successively (answers replies) ?p"
    by auto
  then have "set ?p \<subseteq> insert root (set replies)"
    using path_members [of replies root "tl ?p"] by (cases ?p) auto
  with root replies c(2) have "bare x \<in> set ?ms" by auto
  then show ?thesis by (intro bexI [of _ "bare x"]) simp
qed

lemma company_block_decoded:
  assumes "m \<in> set (event_markers N events i BT_Company keys)" and "evc_block m = BD_Company b"
  shows "\<exists>d e. from_slice (een_company_event N) d = Inr e \<and> cbe_block e = b"
proof -
  from assms obtain ev where "decode_block N ev i BT_Company keys = Ok (BD_Company b)"
    by (auto simp: event_markers_def List.map_filter_def ids_and_markers_def event_container_new_def
        split: result.splits prod.splits)
  then show ?thesis
    by (auto simp: decode_block_def and_then_eq_Ok from_ext_def split: option.splits if_splits sum.splits)
      (metis sum.exhaust)
qed

end
