(* ===== verification/Sync_Instance.thy ===== *)
theory Sync_Instance
  imports Service_Instance Bill_Sync_Safety Event_Chains_Props
begin

text \<open>
  A receiving node for the bill of \<open>Ebill_Instance\<close>: relays whose events name their block in the content, and three
  runs in which received data leaves a bill in a bad state.
\<close>

section \<open>Relays\<close>

text \<open>The relays know the given blocks by the first character of the content; tags are pairs of a marker and an id.\<close>

definition event_env0 :: "ProcEnv \<Rightarrow> (char \<times> BillBlock) list \<Rightarrow> EventEnv" where
  "event_env0 P bs = \<lparr>een_proc = P,
     een_nip10 = (\<lambda>tag. case tag of
        [m, i] \<Rightarrow> Some (i, if m = ''root'' then Some M_Root else if m = ''reply'' then Some M_Reply else None) | _ \<Rightarrow> None),
     een_blockchain_address = (\<lambda>tag. case tag of [a] \<Rightarrow> Some (a, Some ''bill'') | _ \<Rightarrow> None),
     een_envelope = \<lparr>to_vec = (\<lambda>_. Inl ''none''),
       from_slice = (\<lambda>d. Inr \<lparr>env_event_type = ET_BillChain, env_version = ''1.0'', env_data = d\<rparr>)\<rparr>,
     een_bill_event = \<lparr>to_vec = (\<lambda>_. Inl ''none''), from_slice = (\<lambda>d.
       case map_of bs (hd (bytes_string d)) of
         Some b \<Rightarrow> Inr \<lparr>bbe_bill_id = bbl_bill_id b, bbe_block_height = unat (bid_inner (bbl_id b)), bbe_block = b\<rparr>
       | None \<Rightarrow> Inl ''unknown'')\<rparr>,
     een_company_event = no_codec, een_identity_event = no_codec, een_base58_text = (\<lambda>_. []), een_now = t0\<rparr>"

definition event0 :: "string \<Rightarrow> Tag list \<Rightarrow> NostrEvent" where
  "event0 i tags = \<lparr>nev_id = i, nev_pubkey = ''p'', nev_created_at = t0, nev_tags = [''bill''] # tags, nev_content = i\<rparr>"

text \<open>An issue block with two replies.\<close>

definition fork_env0 :: EventEnv where
  "fork_env0 = event_env0 P0 [(CHR ''a'', issued0), (CHR ''b'', offer0), (CHR ''c'', reqacc0), (CHR ''d'', rejacc0)]"

definition fork_events0 :: "NostrEvent list" where
  "fork_events0 = [event0 ''d'' [[''root'', ''a''], [''reply'', ''c'']], event0 ''b'' [[''root'', ''a'']],
     event0 ''a'' [], event0 ''c'' [[''root'', ''a'']]]"

lemma event0_simps [simp]: "nev_id (event0 i tags) = i" "nev_tags (event0 i tags) = [''bill''] # tags"
  by (simp_all add: event0_def)

section \<open>A receiving node\<close>

definition node_env0 :: "BillEnv \<Rightarrow> ServiceEnv" where
  "node_env0 E = S0\<lparr>svc_proc := P0\<lparr>proc_bill := E\<rparr>\<rparr>"

definition sync_env0 :: "BillEnv \<Rightarrow> (char \<times> BillBlock) list \<Rightarrow> NostrEvent list \<Rightarrow> SyncEnv" where
  "sync_env0 E bs events = \<lparr>sye_svc = node_env0 E, sye_event = event_env0 (P0\<lparr>proc_bill := E\<rparr>) bs,
     sye_public_chain = (\<lambda>_ _. Ok events), sye_npub = (\<lambda>n. n), sye_bill_id = Some, sye_node_id = Some, sye_invite = no_codec,
     sye_error_text = (\<lambda>_. ''error''), sye_files_fail = None, sye_cache_fails = None, sye_events_fail = None,
     sye_add_identity = (\<lambda>_ _. Ok ()), sye_company_value = (\<lambda>c. Inr (co_name c)), sye_notification_value = (\<lambda>n. Inr (nt_id n)),
     sye_uuid = nat_to_string, sye_clock = (\<lambda>_. t0), sye_nostr_relays = []\<rparr>"

definition sync_state0 :: "BillBlock list \<Rightarrow> (BillId \<times> BcrKeys) list \<Rightarrow> SyncState" where
  "sync_state0 bs ks = \<lparr>sy_node = state0\<lparr>ss_bill_chain := map (bill_block_to_db X0) bs, ss_bill_keys := ks\<rparr>,
     sy_events = [], sy_files = [], sy_contacts = [], sy_invalidated = [], sy_company_keys = [], sy_overrides = [],
     sy_active_identity = None, sy_identities = [], sy_notifications = [], sy_created = 0, sy_pushed = []\<rparr>"

abbreviation quiet0 :: SyncEnv where
  "quiet0 \<equiv> sync_env0 E0 [] []"

text \<open>What a run leaves: whether it succeeded, the kinds of the stored blocks and the bills with keys.\<close>

definition outcome0 :: "(unit, TransportError) result \<times> SyncState \<Rightarrow> bool \<times> BillOpCode list \<times> BillId list" where
  "outcome0 r = (case r of (x, s) \<Rightarrow>
     (x = Ok (), map bdb_op_code (ss_bill_chain (sy_node s)), map fst (ss_bill_keys (sy_node s))))"

text \<open>A first download whose second block is no valid action: the payee sells without an offer.\<close>

definition bad0 :: BillBlock where
  "bad0 = block0 2 Sell (CHR ''B'') t0"

definition download0 :: "(unit, TransportError) result \<times> SyncState" where
  "download0 = process_chain_data quiet0 ''bill'' [issued0, bad0] (Some bill_key0) (sync_state0 [] [])"

text \<open>An issue block that continues a stored chain, received for another bill.\<close>

definition stray0 :: BillBlock where
  "stray0 = block0 2 Issue (CHR ''D'') t0"

definition stray_run0 :: "(unit, TransportError) result \<times> SyncState" where
  "stray_run0 = process_chain_data quiet0 ''other'' [stray0] (Some bill_key0)
     (sync_state0 [issued0] [(''bill'', bill_key0)])"

text \<open>A preferred remote chain with a block of another bill.\<close>

definition fork_run0 :: "(unit, TransportError) result \<times> SyncState" where
  "fork_run0 =
     (let local = [block3 ''bill'' 1 Issue (CHR ''D''), block3 ''bill'' 2 RequestToAccept (CHR ''B'')];
          remote = [block3 ''bill'' 1 Issue (CHR ''D''), block3 ''evil'' 2 OfferToSell (CHR ''B''), block3 ''evil'' 3 Sell (CHR ''B'')];
          Y = sync_env0 E3 (zip ''abc'' remote)
            [event0 ''a'' [], event0 ''b'' [[''root'', ''a'']], event0 ''c'' [[''root'', ''a''], [''reply'', ''b'']]] in
      resync_chain Y ''bill'' True Normal (sync_state0 local [(''bill'', bill_key0)]))"

text \<open>A node with the issue block and the keys receives the offer of sale.\<close>

definition offer_env0 :: SyncEnv where
  "offer_env0 = sync_env0 E0 [(CHR ''b'', offer0)] []"

definition offer_event0 :: EventEnvelope where
  "offer_event0 = \<lparr>env_event_type = ET_BillChain, env_version = ''1.0'', env_data = string_bytes ''b''\<rparr>"

section \<open>What the runs show\<close>

text \<open>All runs in one evaluation, since most of its time goes into the definitions.\<close>

lemma sync_runs0:
  "(outcome0 download0 = (False, [Issue], [])) \<and>
   (outcome0 stray_run0 = (False, [Issue, Issue], [''bill''])) \<and>
   (outcome0 fork_run0 = (False, [Issue], [''bill''])) \<and>
   (outcome0 (handle_bill_chain_event offer_env0 offer_event0 None (sync_state0 [issued0] [(''bill'', bill_key0)])) =
     (True, [Issue, OfferToSell], [''bill''])) \<and>
   (outcome0 (process_chain_data quiet0 ''bill'' [issued0, offer0] (Some bill_key0) (sync_state0 [] [])) =
     (True, [Issue, OfferToSell], [''bill''])) \<and>
   (case stored_bill_chain quiet0 ''bill'' (sync_state0 [] []) of Err _ \<Rightarrow> True | _ \<Rightarrow> False) \<and>
   (get_valid_chain P0 [issued0, bad0] bill_key0 = Ok (''bill'', issue0, run0 [bad0])) \<and>
   validate_plaintext_hash E0 issued0 (get_private_key X0 bill_key0) \<and>
   fst (save_chain_block quiet0 ''bill'' issued0 (sync_state0 [] [])) = Ok () \<and>
   fst (validate_blocks_for_chain P0 ''bill'' \<lparr>blocks = [issued0]\<rparr> [bad0] bill_key0 issue0 False) \<noteq> Ok ()"
  by code_simp

text \<open>The failed download leaves the issue block without keys.\<close>

lemma download_leaves_issue0: "outcome0 download0 = (False, [Issue], [])"
  using sync_runs0 by blast

text \<open>
  \<^verbatim>\<open>add_new_chain\<close> ignores the bill id it was called for: an issue block received for an unknown bill is appended to
  the chain of the known bill that its data names, and fails only at its keys.
\<close>

lemma issue_block_appended0: "outcome0 stray_run0 = (False, [Issue, Issue], [''bill''])"
  using sync_runs0 by blast

text \<open>
  A candidate with a block of another bill passes the validation of \<^verbatim>\<open>resync_chain\<close>; the store refuses the block after the
  local blocks have been removed. The local request for acceptance is lost.
\<close>

lemma local_block_lost0: "outcome0 fork_run0 = (False, [Issue], [''bill''])"
  using sync_runs0 by blast

lemma offer_arrives0:
  "outcome0 (handle_bill_chain_event offer_env0 offer_event0 None (sync_state0 [issued0] [(''bill'', bill_key0)])) =
     (True, [Issue, OfferToSell], [''bill''])"
  using sync_runs0 by blast

lemma new_bill_arrives0:
  "outcome0 (process_chain_data quiet0 ''bill'' [issued0, offer0] (Some bill_key0) (sync_state0 [] [])) =
     (True, [Issue, OfferToSell], [''bill''])"
  using sync_runs0 by blast

lemma download_starts0:
  "\<exists>e. stored_bill_chain quiet0 ''bill'' (sync_state0 [] []) = Err e"
  "get_valid_chain P0 [issued0, bad0] bill_key0 = Ok (''bill'', issue0, run0 [bad0])"
  "validate_plaintext_hash E0 issued0 (get_private_key X0 bill_key0)"
  "\<exists>s. save_chain_block quiet0 ''bill'' issued0 (sync_state0 [] []) = (Ok (), s)"
  "fst (validate_blocks_for_chain P0 ''bill'' \<lparr>blocks = [issued0]\<rparr> [bad0] bill_key0 issue0 False) \<noteq> Ok ()"
  using sync_runs0 by (auto split: result.splits simp: prod_eq_iff)

end
