(* ===== verification/Properties_Sync.thy ===== *)
theory Properties_Sync
  imports Sync_Instance Properties_Service
begin

text \<open>
  Properties C34 to C37: from the events of the relays to candidate chains, and what received data can and cannot do
  to the stored bills.
\<close>

section \<open>Candidate chains\<close>

text \<open>
  C34. Building candidate chains from events always ends: with one more than the number of events as fuel the recursion over
  replies returns, provided that events with the same id carry the same tags (an id is the hash of the event). The chains
  are exactly the paths of replies from the root to an event without replies, no event occurs twice on one, all their
  events are decodable events of the answer, and they come in the order of \<open>compare_chains\<close>.
\<close>

theorem event_chains_are_reply_paths:
  assumes ids: "\<forall>e \<in> set events. \<forall>e' \<in> set events. nev_id e = nev_id e' \<longrightarrow> nev_tags e = nev_tags e'"
    and ms: "split_root (event_markers N events i ty keys) = Some (root, replies)"
  shows "\<exists>chains. resolve_event_chains (Suc (length events)) N (Ok events) i ty keys = Some (Ok chains) \<and>
           (\<forall>p. p \<in> map bare ` set chains \<longleftrightarrow>
              p \<noteq> [] \<and> hd p = root \<and> successively (answers replies) p \<and> children_of replies (last p) = []) \<and>
           (\<forall>chain \<in> set chains. distinct (map (nev_id \<circ> evc_event) chain)) \<and>
           sorted_wrt (\<lambda>a b. compare_chains N a b \<noteq> Greater) chains"
proof -
  let ?ms = "event_markers N events i ty keys"
  from ms have root: "is_root root" "root \<in> set ?ms" and replies: "replies = filter (\<lambda>v. \<not> is_root v) ?ms"
    by (auto simp: split_root_def find_Some_iff)
  have childless: "evc_children m = []" if "m \<in> set replies" for m
    using that event_markers_childless by (auto simp: replies)
  have same: "parent_id a = parent_id b"
    if "a \<in> insert root (set replies)" "b \<in> insert root (set replies)" "node_id_of a = node_id_of b" for a b
    using event_markers_same [OF ids _ _ that(3)] that(1,2) root(2) by (auto simp: replies)
  have "length replies \<le> length events"
    using length_filter_le length_event_markers unfolding replies by (rule order_trans)
  then have fuel: "length replies < Suc (length events)" by simp
  have "resolve_children (Suc (length events)) replies root \<noteq> None"
    by (rule resolve_children_total [OF childless root(1) fuel same])
  then obtain t where t: "resolve_children (Suc (length events)) replies root = Some t" unfolding not_None_eq ..
  have bare: "bare root = root" by (rule bare_childless [OF event_markers_childless [OF root(2)]])
  have paths: "p \<in> map bare ` set (as_chains t) \<longleftrightarrow>
      p \<noteq> [] \<and> hd p = root \<and> successively (answers replies) p \<and> children_of replies (last p) = []" for p
    using as_chains_paths [OF t childless] unfolding bare by blast
  have "\<forall>chain. chain \<in> set (as_chains t) \<longrightarrow> distinct (map (nev_id \<circ> evc_event) chain)"
  proof (intro allI impI)
    fix chain
    assume that: "chain \<in> set (as_chains t)"
    let ?p = "map bare chain"
    have "?p \<in> map bare ` set (as_chains t)" using that by (rule imageI)
    then have "?p \<noteq> [] \<and> hd ?p = root \<and> successively (answers replies) ?p \<and> children_of replies (last ?p) = []"
      by (rule iffD1 [OF paths])
    then have p: "?p \<noteq> []" "hd ?p = root" "successively (answers replies) ?p" by blast+
    then have "set ?p \<subseteq> insert root (set replies)"
      using path_members [of replies root "tl ?p"] by (cases ?p) auto
    moreover have "is_root (hd ?p)" using root(1) unfolding p(2) .
    ultimately have "distinct (map node_id_of ?p)"
      by (intro path_distinct [OF p(3,1)]) (meson same subsetD)+
    then show "distinct (map (nev_id \<circ> evc_event) chain)" by (simp add: comp_def)
  qed
  moreover have "resolve_event_chains (Suc (length events)) N (Ok events) i ty keys =
      Some (Ok (sort_by (compare_chains N) (as_chains t)))"
    by (simp only: resolve_event_chains_def collect_event_chains_def ms t result.case option.case prod.case option.map)
  ultimately show ?thesis
    by (intro exI [of _ "sort_by (compare_chains N) (as_chains t)"])
      (simp only: set_sort_by paths sorted_sort_by [OF compare_chains_total] simp_thms ball_simps Ball_def)
qed

text \<open>An issue block with two replies gives two candidates, the longer one first.\<close>

lemma fork_markers0:
  "split_root (event_markers fork_env0 fork_events0 ''bill'' BT_Bill None) =
     Some (event_container_new (event0 ''a'' []) None None (BD_Bill issued0),
       map (\<lambda>(i, r, b). event_container_new (event0 i ([''root'', ''a''] # (case r of None \<Rightarrow> [] | Some x \<Rightarrow> [[''reply'', x]])))
              (Some ''a'') r (BD_Bill b))
         [(''d'', Some ''c'', rejacc0), (''b'', None, offer0), (''c'', None, reqacc0)])"
  by code_simp

lemma event_fork_chains0:
  "(case resolve_event_chains 5 fork_env0 (Ok fork_events0) ''bill'' BT_Bill None of
      Some (Ok cs) \<Rightarrow> map (map (\<lambda>c. nev_id (evc_event c))) cs | _ \<Rightarrow> []) = [[''a'', ''c'', ''d''], [''a'', ''b'']]"
  by code_simp

theorem event_chains_are_reply_paths_witness:
  "\<exists>chains. resolve_event_chains 5 fork_env0 (Ok fork_events0) ''bill'' BT_Bill None = Some (Ok chains) \<and>
     map (map (\<lambda>c. nev_id (evc_event c))) chains = [[''a'', ''c'', ''d''], [''a'', ''b'']] \<and>
     (\<forall>chain \<in> set chains. distinct (map (nev_id \<circ> evc_event) chain))"
proof -
  have ids: "\<forall>e \<in> set fork_events0. \<forall>e' \<in> set fork_events0. nev_id e = nev_id e' \<longrightarrow> nev_tags e = nev_tags e'"
    by (simp add: fork_events0_def)
  have n: "Suc (length fork_events0) = 5" by (simp add: fork_events0_def)
  from event_chains_are_reply_paths [OF ids fork_markers0] event_fork_chains0 show ?thesis unfolding n by auto
qed

section \<open>Stored bills\<close>

text \<open>
  C35. Whatever arrives as an event of a bill's chain, and whatever the relays answer when a chain is resynchronised,
  in both modes: afterwards every bill with known keys still has a stored chain, it can be read, and the
  processors have built it block by block with these keys. Failures in between do not change this. Blocks hash without
  collisions, and the database can read chains.
\<close>

theorem chain_events_keep_bills:
  assumes "sync_laws Y S" and "relays_within Y S" and "db_fails (svc_bill_db (sye_svc Y)) Select_Chain = None"
    and "bills_ok Y S s"
    and "\<And>e. from_slice (een_bill_event (sye_event Y)) (env_data event) = Inr e \<Longrightarrow> bbe_block e \<in> S"
    and s': "s' = snd (handle_bill_chain_event Y event original s) \<or> s' = snd (resync_chain Y i from_nostr mode s)"
  shows "bills_ok Y S s' \<and>
         (\<forall>i k. map_of (sync_keys s') i = Some k \<longrightarrow>
            (\<exists>first c. stored_bill_chain Y i s' = Ok c \<and> bill_reachable (sy_proc Y) first k c))"
proof -
  from s' have "bills_ok Y S s'"
    using bill_chain_event_ok [OF assms(1-5)] resync_bills_ok [OF assms(1,2,4)] by auto
  with known_bill_readable [OF assms(1) this assms(3)] show ?thesis by blast
qed

lemma sync_env0_simps [simp]:
  "sy_proc (sync_env0 E bs ev) = P0\<lparr>proc_bill := E\<rparr>" "svc_bill_db (sye_svc (sync_env0 E bs ev)) = db0"
  "sye_event (sync_env0 E bs ev) = event_env0 (P0\<lparr>proc_bill := E\<rparr>) bs"
  by (simp_all add: sync_env0_def node_env0_def S0_def db0_def)

lemma sync_laws0: "sync_laws (sync_env0 E0 bs ev) {issued0, offer0}"
  by (auto simp: sync_laws_def no_collisions_def issued0_def offer0_def hashes0 hash_byte0 secp_laws_X0)

lemma quiet_relays0: "relays_within (sync_env0 E0 bs []) S"
  by (auto simp: relays_within_def resolve_chain_def sync_env0_def resolve_event_chains_def collect_event_chains_def
      event_markers_def split_root_def sort_by_def)

lemma bill_store_ok0: "bill_store_ok E0 {issued0, offer0} (rows0 [])" "bill_store_ok E0 {issued0, offer0} (rows0 [issued0])"
proof -
  let ?R = "store_reachable (bill_table E0) X0 {issued0, offer0}"
  have X: "env_ext E0 = X0" by (simp add: E0_def)
  have nc: "no_collisions (ct_ops (bill_table E0)) X0 {issued0, offer0}"
    by (auto simp: no_collisions_def issued0_def offer0_def hashes0 hash_byte0)
  have empty: "?R (rows0 []) []" by (simp add: rows0_def store_empty)
  from store_decide [OF this _ store_steps0(1)]
  have "?R (rows0 []) [Create_First (bill_block_to_db X0 issued0)]" by simp
  from store_commits [OF this _ store_steps0(2)] have issued: "?R (rows0 [issued0]) []" by simp
  note ok = bill_store.reachable_store_ok [of E0, unfolded X, OF secp_laws_X0 nc]
  from ok [OF empty] ok [OF issued]
  show "bill_store_ok E0 {issued0, offer0} (rows0 [])" "bill_store_ok E0 {issued0, offer0} (rows0 [issued0])"
    unfolding X by blast+
qed

lemma sync_state0_simps [simp]:
  "ss_bill_chain (sy_node (sync_state0 bs ks)) = rows0 bs" "sync_keys (sync_state0 bs ks) = ks"
  by (simp_all add: sync_state0_def rows0_def)

lemma known_bill_ok0: "bills_ok (sync_env0 E0 bs ev) {issued0, offer0} (sync_state0 [issued0] [(''bill'', bill_key0)])"
proof -
  have P: "P0\<lparr>proc_bill := E0\<rparr> = P0" by (simp add: P0_def)
  have "bill_rows E0 (rows0 [issued0]) ''bill'' = map (bill_block_to_db X0) (blocks (run0 []))"
    by (simp add: rows_of_def rows0_def run0_def issued0_def block0_def)
  with reachable_issued0 have "\<exists>first c. bill_reachable P0 first bill_key0 c \<and>
      bill_rows E0 (rows0 [issued0]) ''bill'' = map (bill_block_to_db X0) (blocks c)" by blast
  then show ?thesis using bill_store_ok0(2) by (auto simp: bills_ok_def P)
qed

theorem chain_events_keep_bills_witness:
  "outcome0 (handle_bill_chain_event offer_env0 offer_event0 None (sync_state0 [issued0] [(''bill'', bill_key0)])) =
     (True, [Issue, OfferToSell], [''bill'']) \<and>
   bills_ok offer_env0 {issued0, offer0}
     (snd (handle_bill_chain_event offer_env0 offer_event0 None (sync_state0 [issued0] [(''bill'', bill_key0)])))"
proof -
  have "bbe_block e \<in> {issued0, offer0}"
    if "from_slice (een_bill_event (sye_event offer_env0)) (env_data offer_event0) = Inr e" for e
    using that by (auto simp: offer_env0_def event_env0_def offer_event0_def split: option.splits if_splits)
  from chain_events_keep_bills [OF _ _ _ known_bill_ok0 this disjI1 [OF refl]] offer_arrives0 show ?thesis
    using sync_laws0 quiet_relays0 by (simp add: offer_env0_def db0_def)
qed

text \<open>
  C36. Received chains, of known and of new bills, keep all bills as well, if a new chain names the bill for which it was
  received, in its blocks and in the data of its issue block.
\<close>

theorem received_chains_keep_bills:
  assumes "sync_laws Y S" and "relays_within Y S" and "db_fails (svc_bill_db (sye_svc Y)) Select_Chain = None"
    and "bills_ok Y S s" and "set bs \<subseteq> S" and "\<And>k. keys = Some k \<Longrightarrow> chain_of_bill Y i k bs"
    and s': "process_chain_data Y i bs keys s = (r, s')"
  shows "bills_ok Y S s' \<and>
         (\<forall>i k. map_of (sync_keys s') i = Some k \<longrightarrow>
            (\<exists>first c. stored_bill_chain Y i s' = Ok c \<and> bill_reachable (sy_proc Y) first k c))"
proof -
  have "bills_ok Y S (snd (process_chain_data Y i bs keys s))" by (rule process_chain_data_ok) (use assms in auto)
  with s' have "bills_ok Y S s'" by simp
  with known_bill_readable [OF assms(1) this assms(3)] show ?thesis by blast
qed

theorem received_chains_keep_bills_witness:
  "\<exists>s'. process_chain_data quiet0 ''bill'' [issued0, offer0] (Some bill_key0) (sync_state0 [] []) = (Ok (), s') \<and>
     map fst (sync_keys s') = [''bill''] \<and> bills_ok quiet0 {issued0, offer0} s'"
proof -
  obtain r s' where run: "process_chain_data quiet0 ''bill'' [issued0, offer0] (Some bill_key0) (sync_state0 [] []) = (r, s')"
    by fastforce
  from new_bill_arrives0 have r: "r = Ok ()" and keys: "map fst (sync_keys s') = [''bill'']"
    by (auto simp: run outcome0_def)
  have own: "chain_of_bill quiet0 ''bill'' k [issued0, offer0]" if "Some bill_key0 = Some k" for k
  proof -
    have "get_decrypted_block E0 (c_issue E0) issued0 bill_key0 = Ok issue0" by code_simp
    with that show ?thesis by (auto simp: chain_of_bill_def issued0_def block0_def issue0_def)
  qed
  have "bills_ok quiet0 {issued0, offer0} (sync_state0 [] [])"
    using bill_store_ok0(1) by (simp add: bills_ok_def)
  from received_chains_keep_bills [OF sync_laws0 quiet_relays0 _ this _ own run]
  have "bills_ok quiet0 {issued0, offer0} s'" by (simp add: db0_def)
  with run r keys show ?thesis by auto
qed

section \<open>Bills without keys\<close>

text \<open>
  C37. A first download whose issue block can be stored, but of which a later block is invalid, fails and closes the bill
  for good: the issue block is stored before the others are validated and the keys are saved last, so the bill has a
  chain but no keys. From then on every delivery for it fails without changing anything, with or without keys,
  and so do all candidates of a new invitation.
\<close>

theorem failed_download_closes_bill:
  assumes laws: "sync_laws Y S" "db_fails (svc_bill_db (sye_svc Y)) Select_Chain = None" "bills_ok Y S s"
    and bs: "set bs \<subseteq> S" "bbl_bill_id (hd bs) = i"
    and unknown: "svc_bill_network (sye_svc Y) i = proc_bitcoin_network (sy_proc Y)" "stored_bill_chain Y i s = Err e"
    and issue: "get_valid_chain (sy_proc Y) bs k = Ok (i, first, chain)"
      "validate_plaintext_hash (sy_bill Y) (hd bs) (get_private_key (svc_ext (sye_svc Y)) k)"
      "save_chain_block Y i (hd bs) s = (Ok (), s1)"
    and invalid: "fst (validate_blocks_for_chain (sy_proc Y) i \<lparr>blocks = [hd bs]\<rparr> (tl bs) k first False) \<noteq> Ok ()"
  shows "\<exists>r s' c. process_chain_data Y i bs (Some k) s = (r, s') \<and> r \<noteq> Ok () \<and>
           stored_bill_chain Y i s' = Ok c \<and> bill_reachable (sy_proc Y) first k c \<and> map_of (sync_keys s') i = None \<and>
           (\<forall>bs' keys'. \<exists>e. process_chain_data Y i bs' keys' s' = (Err e, s')) \<and>
           (\<forall>k' cands. try_candidates Y i k' cands s' = (Ok [], s'))"
proof -
  obtain r s' where run: "add_new_chain Y bs k s = (r, s')" by fastforce
  note fails = invalid_download_keyless [OF laws bs unreadable_bill_is_empty [OF laws(1,3,2) unknown(2)] issue invalid run]
  from fails(3) obtain c where c: "stored_bill_chain Y i s' = Ok c" "bill_reachable (sy_proc Y) first k c" by blast
  have "process_chain_data Y i bs (Some k) s = (r, s')" by (simp add: process_chain_data_def unknown run)
  with fails(1,2) c keyless_bill_refuses [OF c(1) fails(2)] keyless_bill_refuses_all [OF c(1) fails(2)] show ?thesis by blast
qed

theorem failed_download_closes_bill_witness:
  "outcome0 download0 = (False, [Issue], []) \<and>
   (\<exists>e. process_chain_data quiet0 ''bill'' [issued0, offer0] (Some bill_key0) (snd download0) = (Err e, snd download0))"
proof -
  have laws: "sync_laws (sync_env0 E0 [] []) {issued0, bad0}"
    by (auto simp: sync_laws_def no_collisions_def issued0_def bad0_def hashes0 hash_byte0 secp_laws_X0)
  have ok: "bills_ok quiet0 {issued0, bad0} (sync_state0 [] [])"
  proof -
    have "store_reachable (bill_table E0) X0 {issued0, bad0} [] []" by (rule store_empty)
    from bill_store.reachable_store_ok [of E0, unfolded env_ext0, OF _ _ this] laws
    show ?thesis by (simp add: bills_ok_def sync_laws_def rows0_def)
  qed
  have sim: "sy_proc quiet0 = P0" "sy_bill quiet0 = E0" "svc_ext (sye_svc quiet0) = X0"
    "svc_bill_network (sye_svc quiet0) ''bill'' = proc_bitcoin_network (sy_proc quiet0)"
    by (simp_all add: sync_env0_def node_env0_def P0_def S0_def E0_def)
  have P: "P0\<lparr>proc_bill := E0\<rparr> = P0" and issue: "bbl_bill_id issued0 = ''bill''"
    by (simp_all add: P0_def issued0_def block0_def)
  from download_starts0 obtain e s where start: "stored_bill_chain quiet0 ''bill'' (sync_state0 [] []) = Err e"
    "save_chain_block quiet0 ''bill'' issued0 (sync_state0 [] []) = (Ok (), s)" by blast
  have "\<exists>r s' c. process_chain_data quiet0 ''bill'' [issued0, bad0] (Some bill_key0) (sync_state0 [] []) = (r, s') \<and> r \<noteq> Ok () \<and>
      stored_bill_chain quiet0 ''bill'' s' = Ok c \<and> bill_reachable (sy_proc quiet0) issue0 bill_key0 c \<and>
      map_of (sync_keys s') ''bill'' = None \<and>
      (\<forall>bs' keys'. \<exists>e. process_chain_data quiet0 ''bill'' bs' keys' s' = (Err e, s')) \<and>
      (\<forall>k' cands. try_candidates quiet0 ''bill'' k' cands s' = (Ok [], s'))"
    by (rule failed_download_closes_bill [OF laws _ ok, of _ _ e bill_key0 issue0 "run0 [bad0]" s])
      (use start sim download_starts0 in \<open>simp_all add: db0_def P issue\<close>)
  then obtain s' r where s': "download0 = (r, s')"
    and closed: "\<exists>e. process_chain_data quiet0 ''bill'' [issued0, offer0] (Some bill_key0) s' = (Err e, s')"
    unfolding download0_def by blast
  have "snd download0 = s'" by (simp add: s')
  with download_leaves_issue0 closed show ?thesis by simp
qed

end
