(* ===== verification/Member_Stores.thy ===== *)
theory Member_Stores
  imports Bill_Sync
begin

text \<open>
  The stores of companies and of the identity, \<^verbatim>\<open>bcr-ebill-persistence/src/db/{company,identity}.rs\<close>, as actions on the
  state of a receiving node, and the calls of the notification store. Rows are kept as the application's records. A
  \<^verbatim>\<open>create\<close> fails if the record exists, an \<^verbatim>\<open>update\<close> of a missing record does nothing, an \<^verbatim>\<open>upsert\<close> overwrites.
\<close>

section \<open>Rows\<close>

type_synonym 'a store = "('a, PersistenceError, SyncState) action"

definition create_row :: "'k \<Rightarrow> 'v \<Rightarrow> ('k \<times> 'v) list \<Rightarrow> (unit, PersistenceError) result \<times> ('k \<times> 'v) list" where
  "create_row k v t =
     (case map_of t k of
        Some _ \<Rightarrow> (Err (surreal_error ''record already exists''), t)
      | None \<Rightarrow> (Ok (), hm_insert k v t))"

definition update_row :: "'k \<Rightarrow> 'v \<Rightarrow> ('k \<times> 'v) list \<Rightarrow> ('k \<times> 'v) list" where
  "update_row k v t = (case map_of t k of Some _ \<Rightarrow> hm_insert k v t | None \<Rightarrow> t)"

definition on_store :: "SyncEnv \<Rightarrow> StoreCall \<Rightarrow> 'a store \<Rightarrow> 'a store" where
  "on_store Y c m s =
     (case svc_store_fails (sye_svc Y) c of Some e \<Rightarrow> (Err (surreal_error e), s) | None \<Rightarrow> m s)"

text \<open>\<^verbatim>\<open>.map_err(|e| Error::Persistence(e.to_string()))\<close>.\<close>

definition persisted :: "SyncEnv \<Rightarrow> 'a store \<Rightarrow> 'a sync" where
  "persisted Y m = act_map_err (\<lambda>e. T_Persistence (sye_error_text Y e)) m"

section \<open>The company store\<close>

definition company_find :: "SyncEnv \<Rightarrow> NodeId \<Rightarrow> Company store" where
  "company_find Y i = on_store Y Call_Company (\<lambda>s.
     (ok_or (NoSuchEntity ''company'' i) (map_of (ss_companies (sy_node s)) i), s))"

definition company_insert :: "SyncEnv \<Rightarrow> Company \<Rightarrow> unit store" where
  "company_insert Y c = on_store Y Call_Company_Insert (\<lambda>s.
     case create_row (co_id c) c (ss_companies (sy_node s)) of
       (r, t) \<Rightarrow> (r, s\<lparr>sy_node := (sy_node s)\<lparr>ss_companies := t\<rparr>\<rparr>))"

definition company_update :: "SyncEnv \<Rightarrow> NodeId \<Rightarrow> Company \<Rightarrow> unit store" where
  "company_update Y i c = on_store Y Call_Company_Update (\<lambda>s.
     (Ok (), s\<lparr>sy_node := (sy_node s)\<lparr>ss_companies := update_row i c (ss_companies (sy_node s))\<rparr>\<rparr>))"

definition company_remove :: "SyncEnv \<Rightarrow> NodeId \<Rightarrow> unit store" where
  "company_remove Y i =
     then_act (on_store Y Call_Company_Update (\<lambda>s.
       (Ok (), s\<lparr>sy_node := (sy_node s)\<lparr>ss_companies := hm_remove i (ss_companies (sy_node s))\<rparr>\<rparr>)))
     (on_store Y Call_Save_Company_Keys (\<lambda>s. (Ok (), s\<lparr>sy_company_keys := hm_remove i (sy_company_keys s)\<rparr>)))"

definition company_save_key_pair :: "SyncEnv \<Rightarrow> NodeId \<Rightarrow> BcrKeys \<Rightarrow> unit store" where
  "company_save_key_pair Y i keys = on_store Y Call_Save_Company_Keys (\<lambda>s.
     case create_row i keys (sy_company_keys s) of (r, t) \<Rightarrow> (r, s\<lparr>sy_company_keys := t\<rparr>))"

definition company_get_key_pair :: "SyncEnv \<Rightarrow> NodeId \<Rightarrow> BcrKeys store" where
  "company_get_key_pair Y i = on_store Y Call_Company_Keys (\<lambda>s.
     (ok_or (NoSuchEntity ''company'' i) (map_of (sy_company_keys s) i), s))"

text \<open>Only active and invited companies are usable.\<close>

definition company_exists :: "SyncEnv \<Rightarrow> NodeId \<Rightarrow> SyncState \<Rightarrow> bool" where
  "company_exists Y i s =
     ((case fst (company_find Y i s) of Ok c \<Rightarrow> co_status c \<noteq> CS_None | _ \<Rightarrow> False) \<and>
      (case fst (company_get_key_pair Y i s) of Ok _ \<Rightarrow> True | _ \<Rightarrow> False))"

definition get_all_filter_for_status :: "SyncEnv \<Rightarrow> CompanyStatus \<Rightarrow> (NodeId \<times> Company \<times> BcrKeys) list store" where
  "get_all_filter_for_status Y status =
     bind_act (on_store Y Call_Company (gets (\<lambda>s. ss_companies (sy_node s)))) (\<lambda>companies.
     bind_act (on_store Y Call_Company_Keys (gets sy_company_keys)) (\<lambda>keys.
     ret (List.map_filter (\<lambda>(i, c). map_option (\<lambda>k. (i, c, k)) (map_of keys i))
       (filter (\<lambda>(i, c). co_status c = status) companies))))"

definition company_get_all :: "SyncEnv \<Rightarrow> (NodeId \<times> Company \<times> BcrKeys) list store" where
  "company_get_all Y = get_all_filter_for_status Y CS_Active"

definition get_active_company_invites :: "SyncEnv \<Rightarrow> (NodeId \<times> Company \<times> BcrKeys) list store" where
  "get_active_company_invites Y = get_all_filter_for_status Y CS_Invited"

definition company_get_email_confirmations ::
  "SyncEnv \<Rightarrow> NodeId \<Rightarrow> (SignedIdentityProof \<times> EmailIdentityProofData) list store" where
  "company_get_email_confirmations Y i = on_store Y Call_Company_Confirmations (gets (\<lambda>s.
     filter (\<lambda>ec. eip_company_node_id (snd ec) = Some i) (map snd (ss_company_confirmations (sy_node s)))))"

text \<open>The id of a confirmation is made of the witness and the company.\<close>

definition company_set_email_confirmation ::
  "SyncEnv \<Rightarrow> NodeId \<Rightarrow> SignedIdentityProof \<Rightarrow> EmailIdentityProofData \<Rightarrow> unit store" where
  "company_set_email_confirmation Y i proof data =
     bind_act (company_get_key_pair Y i) (\<lambda>keys.
     let X = svc_ext (sye_svc Y) in
     if Some (pub_key X keys) \<noteq> map_option (x_node_pub_key X) (eip_company_node_id data) then lift (Err PublicKeyDoesNotMatch)
     else on_store Y Call_Set_Company_Confirmation (\<lambda>s. (Ok (), s\<lparr>sy_node := (sy_node s)\<lparr>ss_company_confirmations :=
            hm_insert (sip_witness proof @ '':'' @ i) (proof, data) (ss_company_confirmations (sy_node s))\<rparr>\<rparr>)))"

definition get_local_signatory_overrides :: "SyncEnv \<Rightarrow> NodeId \<Rightarrow> LocalSignatoryOverride list store" where
  "get_local_signatory_overrides Y i = on_store Y Call_Local_Override (gets (\<lambda>s.
     filter (\<lambda>v. lso_company_id v = i) (map snd (sy_overrides s))))"

definition set_local_signatory_override ::
  "SyncEnv \<Rightarrow> NodeId \<Rightarrow> NodeId \<Rightarrow> LocalSignatoryOverrideStatus \<Rightarrow> unit store" where
  "set_local_signatory_override Y i signatory status = on_store Y Call_Local_Override (\<lambda>s.
     (Ok (), s\<lparr>sy_overrides := hm_insert (i @ '':'' @ signatory)
        \<lparr>lso_company_id = i, lso_node_id = signatory, lso_status = status\<rparr> (sy_overrides s)\<rparr>))"

definition delete_local_signatory_override :: "SyncEnv \<Rightarrow> NodeId \<Rightarrow> NodeId \<Rightarrow> unit store" where
  "delete_local_signatory_override Y i signatory = on_store Y Call_Local_Override (\<lambda>s.
     (Ok (), s\<lparr>sy_overrides := hm_remove (i @ '':'' @ signatory) (sy_overrides s)\<rparr>))"

section \<open>The identity store\<close>

definition identity_get :: "SyncEnv \<Rightarrow> Identity store" where
  "identity_get Y = on_store Y Call_Identity (\<lambda>s. (ok_or (NoSuchEntity ''identity'' []) (ss_identity (sy_node s)), s))"

definition identity_get_key_pair :: "SyncEnv \<Rightarrow> BcrKeys store" where
  "identity_get_key_pair Y = on_store Y Call_Key_Pair (\<lambda>s.
     (ok_or (NoSuchEntity ''identity key pair'' []) (ss_key_pair (sy_node s)), s))"

definition identity_save :: "SyncEnv \<Rightarrow> Identity \<Rightarrow> unit store" where
  "identity_save Y identity = on_store Y Call_Save_Identity (\<lambda>s.
     (Ok (), s\<lparr>sy_node := (sy_node s)\<lparr>ss_identity := Some identity\<rparr>\<rparr>))"

definition get_current_identity :: "SyncEnv \<Rightarrow> ActiveIdentityState store" where
  "get_current_identity Y =
     bind_act (on_store Y Call_Active_Identity (gets sy_active_identity)) (\<lambda>result.
     case result of
       None \<Rightarrow> bind_act (identity_get Y) (\<lambda>identity. ret \<lparr>ais_personal = ident_node_id identity, ais_company = None\<rparr>)
     | Some i \<Rightarrow> ret i)"

definition set_current_identity :: "SyncEnv \<Rightarrow> ActiveIdentityState \<Rightarrow> unit store" where
  "set_current_identity Y i = on_store Y Call_Set_Active_Identity (\<lambda>s. (Ok (), s\<lparr>sy_active_identity := Some i\<rparr>))"

definition identity_set_email_confirmation ::
  "SyncEnv \<Rightarrow> SignedIdentityProof \<Rightarrow> EmailIdentityProofData \<Rightarrow> unit store" where
  "identity_set_email_confirmation Y proof data =
     bind_act (identity_get_key_pair Y) (\<lambda>keys.
     let X = svc_ext (sye_svc Y) in
     if pub_key X keys \<noteq> x_node_pub_key X (eip_node_id data) then lift (Err PublicKeyDoesNotMatch)
     else on_store Y Call_Set_Confirmation (\<lambda>s. (Ok (), s\<lparr>sy_node := (sy_node s)\<lparr>ss_identity_confirmations :=
            hm_insert (sip_witness proof) (proof, data) (ss_identity_confirmations (sy_node s))\<rparr>\<rparr>)))"

section \<open>Contacts and notifications\<close>

definition contact_find :: "SyncEnv \<Rightarrow> NodeId \<Rightarrow> Contact option store" where
  "contact_find Y i = on_store Y Call_Contact (gets (\<lambda>s. map_of (ss_contacts (sy_node s)) i))"

definition contact_insert :: "SyncEnv \<Rightarrow> NodeId \<Rightarrow> Contact \<Rightarrow> unit store" where
  "contact_insert Y i c = on_store Y Call_Contact_Insert (\<lambda>s.
     case create_row i c (ss_contacts (sy_node s)) of (r, t) \<Rightarrow> (r, s\<lparr>sy_node := (sy_node s)\<lparr>ss_contacts := t\<rparr>\<rparr>))"

text \<open>A contact that is added if there is none, without failing.\<close>

definition add_contact_if_new :: "SyncEnv \<Rightarrow> NodeId \<Rightarrow> Contact \<Rightarrow> unit sync" where
  "add_contact_if_new Y i c s =
     (case fst (contact_find Y i s) of
        Ok None \<Rightarrow> logged (persisted Y (contact_insert Y i c)) s
      | _ \<Rightarrow> (Ok (), s))"

definition call_fails :: "SyncEnv \<Rightarrow> StoreCall \<Rightarrow> string option" where
  "call_fails Y c = svc_store_fails (sye_svc Y) c"

definition save_notification :: "SyncEnv \<Rightarrow> Notification \<Rightarrow> unit store" where
  "save_notification Y n s =
     (case notification_add (call_fails Y Call_Notification_Add) (sy_notifications s) n of
        (r, t) \<Rightarrow> (and_then r (\<lambda>_. Ok ()), s\<lparr>sy_notifications := t\<rparr>))"

definition notification_done :: "SyncEnv \<Rightarrow> string \<Rightarrow> unit store" where
  "notification_done Y i s =
     (case mark_as_done (call_fails Y Call_Notification_Done) (sy_notifications s) i of
        (r, t) \<Rightarrow> (r, s\<lparr>sy_notifications := t\<rparr>))"

definition latest_notification :: "SyncEnv \<Rightarrow> string \<Rightarrow> NotificationType \<Rightarrow> NodeId \<Rightarrow> Notification option store" where
  "latest_notification Y reference t node_id s =
     (get_latest_by_reference_and_node_id (call_fails Y Call_Latest_Notification) (sy_notifications s) reference t node_id, s)"

definition push_notification :: "SyncEnv \<Rightarrow> Notification \<Rightarrow> unit sync" where
  "push_notification Y n s =
     (case sye_notification_value Y n of
        Inr _ \<Rightarrow> (Ok (), s\<lparr>sy_pushed := sy_pushed s @ [n]\<rparr>)
      | Inl _ \<Rightarrow> (Ok (), s))"

text \<open>A new notification takes the next id and time.\<close>

definition fresh_stamp :: "SyncEnv \<Rightarrow> (string \<times> Timestamp) sync" where
  "fresh_stamp Y s =
     (Ok (sye_uuid Y (sy_created s), sye_clock Y (sy_created s)), s\<lparr>sy_created := Suc (sy_created s)\<rparr>)"

section \<open>Facts\<close>

lemma created_row: "create_row k v t = (r, t') \<Longrightarrow> r = Ok () \<Longrightarrow> map_of t' = (map_of t)(k \<mapsto> v)"
  by (auto simp: create_row_def fun_eq_iff split: option.splits)

lemma kept_row: "create_row k v t = (r, t') \<Longrightarrow> map_of t k' = Some w \<Longrightarrow> map_of t' k' = Some w"
  by (auto simp: create_row_def split: option.splits)

lemma updated_row [simp]: "map_of (update_row k v t) = (if map_of t k = None then map_of t else (map_of t)(k \<mapsto> v))"
  by (auto simp: update_row_def fun_eq_iff split: option.splits)

end
