(* ===== verification/Chain_Sync.thy ===== *)
theory Chain_Sync
  imports Member_Stores Chain_Processors
begin

text \<open>
  What the processors of company and identity chains
  (\<^verbatim>\<open>handler/{company,identity}_chain_event_processor.rs\<close>) do in the same words: the loop of
  \<^verbatim>\<open>add_company_blocks\<close> and \<^verbatim>\<open>add_identity_blocks\<close> over received blocks, and the choice of a candidate in
  \<^verbatim>\<open>resync_chain\<close>. The operations on blocks, adding one block and the resynchronisation are arguments. Adding a block
  changes the aggregate (the company or the identity), the chain in memory and the stores; the chain is also
  returned on failure, since the code reads it then.
\<close>

type_synonym ('a, 'b) adding =
  "'a \<Rightarrow> 'b Blockchain \<Rightarrow> 'b \<Rightarrow> SyncState \<Rightarrow> ('a, TransportError) result \<times> 'b Blockchain \<times> SyncState"

text \<open>
  \<open>height\<close> is the id of the last block added; \<open>single\<close> says that there is just one block and no
  resynchronisation is going on. After a resynchronisation the loop is left.
\<close>

fun sync_blocks_loop ::
  "('b, 'op, 'd) BlockOps \<Rightarrow> ('a, 'b) adding \<Rightarrow> unit sync \<Rightarrow> bool \<Rightarrow> 'a \<Rightarrow> 'b Blockchain \<Rightarrow> BlockId \<Rightarrow> 'b list \<Rightarrow> unit sync" where
  "sync_blocks_loop Bl add resync single agg chain height [] = ret ()"
| "sync_blocks_loop Bl add resync single agg chain height (block # bs) =
     (if blk_id Bl block \<le> height then
        bind_act (if single then lift (get_latest_block chain) else ret block) (\<lambda>latest.
        if single \<and> is_fork_block Bl latest block then resync
        else sync_blocks_loop Bl add resync single agg chain height bs)
      else (\<lambda>s.
        case add agg chain block s of
          (Ok agg', chain', s') \<Rightarrow> sync_blocks_loop Bl add resync single agg' chain' (blk_id Bl block) bs s'
        | (Err e, chain', s') \<Rightarrow>
            bind_act (if single then lift (get_latest_block chain') else ret block) (\<lambda>latest.
            if single \<and> next_from_previous_block_id (blk_id Bl latest) < blk_id Bl block then resync
            else lift (Err e)) s'
        | (Panic, chain', s') \<Rightarrow> (Panic, s')))"

text \<open>The blocks of a new chain after the first one.\<close>

fun add_each :: "('a, 'b) adding \<Rightarrow> 'a \<Rightarrow> 'b Blockchain \<Rightarrow> 'b list \<Rightarrow> 'a sync" where
  "add_each add agg chain [] = ret agg"
| "add_each add agg chain (block # bs) = (\<lambda>s.
     case add agg chain block s of
       (Ok agg', chain', s') \<Rightarrow> add_each add agg' chain' bs s'
     | (Err e, chain', s') \<Rightarrow> (Err e, s')
     | (Panic, chain', s') \<Rightarrow> (Panic, s'))"

text \<open>
  One block: it is validated against the chain in memory; \<open>apply_block\<close> decrypts it, processes its effects and saves it.
\<close>

definition add_validated ::
  "('b Blockchain \<Rightarrow> 'b \<Rightarrow> (bool, TransportError) result \<times> 'b Blockchain) \<Rightarrow> ('a \<Rightarrow> 'b \<Rightarrow> 'a sync) \<Rightarrow> ('a, 'b) adding" where
  "add_validated validate apply_block agg chain block s =
     (case validate chain block of
        (Ok True, chain') \<Rightarrow> (case apply_block agg block s of (r, s') \<Rightarrow> (r, chain', s'))
      | (Ok False, chain') \<Rightarrow> (Ok agg, chain', s)
      | (Err e, chain') \<Rightarrow> (Err e, chain', s)
      | (Panic, chain') \<Rightarrow> (Panic, chain', s))"

section \<open>Candidates of a resynchronisation\<close>

definition truncated :: "('b, 'op, 'd) BlockOps \<Rightarrow> BlockId option \<Rightarrow> 'b Blockchain \<Rightarrow> 'b Blockchain" where
  "truncated Bl fork_point chain =
     (case fork_point of Some fork_id \<Rightarrow> truncate_from Bl chain fork_id | None \<Rightarrow> chain)"

definition adopt_chain ::
  "SyncEnv \<Rightarrow> string \<Rightarrow> BlockchainType \<Rightarrow> (BlockId \<Rightarrow> unit sync) \<Rightarrow> unit sync \<Rightarrow> BlockId option \<Rightarrow> EventContainer list \<Rightarrow> unit sync" where
  "adopt_chain Y chain_id chain_type remove add_all fork_point data =
     then_act (case fork_point of Some fork_id \<Rightarrow> remove fork_id | None \<Rightarrow> ret ())
    (then_act add_all
    (then_act (logged (drop_events Y chain_id chain_type))
     (for_each (\<lambda>c. logged (save_event Y (as_chain_store_event (sye_event Y) c chain_id chain_type
        (unat (get_block_height (evc_block c)))))) data)))"

fun adopt_preferred ::
  "('b, 'op, 'd) BlockOps \<Rightarrow> (EventContainer list \<Rightarrow> 'b list) \<Rightarrow> ('b Blockchain \<Rightarrow> 'b list \<Rightarrow> (unit, TransportError) result)
     \<Rightarrow> (BlockId option \<Rightarrow> EventContainer list \<Rightarrow> unit sync) \<Rightarrow> 'b Blockchain \<Rightarrow> EventContainer list list \<Rightarrow> unit sync" where
  "adopt_preferred Bl blocks_in validate adopt existing [] = ret ()"
| "adopt_preferred Bl blocks_in validate adopt existing (data # rest) =
     (let bs = blocks_in data; next = adopt_preferred Bl blocks_in validate adopt existing rest in
      if bs = [] then next
      else case resolve_fork Bl (blocks existing) bs of
        (False, _) \<Rightarrow> next
      | (True, fork_point) \<Rightarrow>
          (case validate (truncated Bl fork_point existing) bs of
             Ok _ \<Rightarrow> adopt fork_point data
           | Err _ \<Rightarrow> next
           | Panic \<Rightarrow> lift Panic))"

section \<open>Invitations\<close>

text \<open>\<^verbatim>\<open>TryFrom<Event<T>> for EventEnvelope\<close>.\<close>

definition event_envelope :: "'d Codec \<Rightarrow> 'd Event \<Rightarrow> (EventEnvelope, TransportError) result" where
  "event_envelope C ev =
     and_then (from_ext T_Message (to_vec C (ev_data ev))) (\<lambda>data.
     Ok \<lparr>env_event_type = ev_event_type ev, env_version = ev_version ev, env_data = data\<rparr>)"

text \<open>The invitation to a bill whose key was found in a block that issued it.\<close>

definition issued_bill_invite :: "SyncEnv \<Rightarrow> BillId \<Rightarrow> SecretKey \<Rightarrow> (EventEnvelope, TransportError) result" where
  "issued_bill_invite Y bill_id bill_key =
     (let X = svc_ext (sye_svc Y); bill_keys = from_private_key X bill_key in
      event_envelope (sye_invite Y) (event_new ET_Bill
        (chain_invite X BT_Bill bill_id (from_private_key X (get_private_key X bill_keys)))))"

section \<open>Facts\<close>

text \<open>
  The loops under a contract: \<open>I\<close> relates the chain in memory and the aggregate to the stores, \<open>J\<close> holds of the stores at any
  time. If adding a block keeps them, and the resynchronisation keeps \<open>J\<close>, so do the loops.
\<close>

locale block_adding =
  fixes Bl :: "('b, 'op, 'd) BlockOps" and add :: "('a, 'b) adding" and I :: "'a \<Rightarrow> 'b Blockchain \<Rightarrow> SyncState \<Rightarrow> bool" and J :: "SyncState \<Rightarrow> bool"
    and fine :: "'b \<Rightarrow> bool"
  assumes held: "I agg chain s \<Longrightarrow> J s"
    and added: "I agg chain s \<Longrightarrow> fine b \<Longrightarrow> add agg chain b s = (Ok agg', chain', s') \<Longrightarrow> I agg' chain' s'"
    and failed: "I agg chain s \<Longrightarrow> fine b \<Longrightarrow> add agg chain b s = (r, chain', s') \<Longrightarrow> J s'"
    and untouched: "I agg chain s \<Longrightarrow> fine b \<Longrightarrow> add agg chain b s = (Err e, chain', s') \<Longrightarrow>
      get_latest_block chain' = (Ok latest :: ('b, TransportError) result) \<Longrightarrow>
      next_from_previous_block_id (blk_id Bl latest) < blk_id Bl b \<Longrightarrow> s' = s"
begin

lemma loop_keeps:
  assumes "I agg chain s" "\<forall>b \<in> set bs. fine b" and "\<And>t. J t \<Longrightarrow> J (snd (resync t))"
  shows "J (snd (sync_blocks_loop Bl add resync single agg chain height bs s))"
  using assms(1,2)
proof (induction bs arbitrary: agg chain height s)
  case Nil
  then show ?case by (auto simp: ret_def intro: held)
next
  case (Cons b bs)
  then have b: "fine b" and J: "J s" by (auto intro: held)
  show ?case
  proof (cases "blk_id Bl b \<le> height")
    case True
    have next_ok: "J (snd (sync_blocks_loop Bl add resync single agg chain height bs s))"
      using Cons by simp
    show ?thesis using next_ok J assms(3) [OF J]
      by (cases single; cases "get_latest_block chain :: ('b, TransportError) result")
        (simp_all add: True bind_act_def lift_def ret_def)
  next
    case False
    obtain r chain' s' where step: "add agg chain b s = (r, chain', s')" by (metis prod_cases3)
    note failed' = failed [OF Cons.prems(1) b step]
    show ?thesis
    proof (cases r)
      case (Ok agg')
      with step False have run: "sync_blocks_loop Bl add resync single agg chain height (b # bs) s =
          sync_blocks_loop Bl add resync single agg' chain' (blk_id Bl b) bs s'" by simp
      have "I agg' chain' s'" by (rule added [OF Cons.prems(1) b]) (simp add: step Ok)
      with Cons show ?thesis unfolding run by simp
    next
      case (Err e)
      show ?thesis using failed' assms(3) [OF failed']
        by (cases single; cases "get_latest_block chain' :: ('b, TransportError) result")
          (simp_all add: False step Err bind_act_def lift_def ret_def)
    qed (use False step failed' in simp)
  qed
qed

text \<open>
  A loop that succeeds ends in the relation; with a single block the only other way is a resynchronisation of the stores
  as they were.
\<close>

lemma loop_holds:
  assumes "I agg chain s" "\<forall>b \<in> set bs. fine b" and "\<not> single"
    and "sync_blocks_loop Bl add resync single agg chain height bs s = (Ok (), t)"
  shows "\<exists>agg' chain'. I agg' chain' t"
  using assms(1,2,4)
proof (induction bs arbitrary: agg chain height s)
  case Nil
  then show ?case by (auto simp: ret_def)
next
  case (Cons b bs)
  obtain r chain' s' where step: "add agg chain b s = (r, chain', s')" by (metis prod_cases3)
  show ?case
  proof (cases "blk_id Bl b \<le> height")
    case True
    with Cons.prems assms(3) show ?thesis by (intro Cons.IH [of agg chain s]) (auto simp: bind_act_def ret_def)
  next
    case False
    with Cons.prems(3) assms(3) step obtain agg' where r: "r = Ok agg'"
      by (cases r) (auto simp: bind_act_def lift_def ret_def)
    have "I agg' chain' s'" by (rule added [OF Cons.prems(1), of b]) (use Cons.prems in \<open>simp_all add: step r\<close>)
    then show ?thesis by (rule Cons.IH) (use Cons.prems False step r in auto)
  qed
qed

lemma loop_single:
  assumes "I agg chain s" "fine b" and run: "sync_blocks_loop Bl add resync True agg chain height [b] s = (Ok (), t)"
  shows "(\<exists>agg' chain'. I agg' chain' t) \<or> resync s = (Ok (), t)"
proof -
  obtain r chain' s' where step: "add agg chain b s = (r, chain', s')" by (metis prod_cases3)
  show ?thesis
  proof (cases "blk_id Bl b \<le> height")
    case True
    with run assms(1) show ?thesis by (auto simp: bind_act_def lift_def ret_def split: result.splits if_splits)
  next
    case False
    show ?thesis
    proof (cases r)
      case (Ok agg')
      with run False step added [OF assms(1,2)] show ?thesis by (auto simp: ret_def)
    next
      case (Err e)
      with run False step untouched [OF assms(1,2)] show ?thesis
        by (auto simp: bind_act_def lift_def split: result.splits if_splits)
    qed (use run False step in simp)
  qed
qed

lemma each_keeps:
  assumes "I agg chain s" "\<forall>b \<in> set bs. fine b" and "add_each add agg chain bs s = (r, t)"
  shows "J t \<and> (\<forall>agg'. r = Ok agg' \<longrightarrow> (\<exists>chain'. I agg' chain' t))"
  using assms
proof (induction bs arbitrary: agg chain s)
  case Nil
  then show ?case by (auto simp: ret_def intro: held)
next
  case (Cons b bs)
  obtain r' chain' s' where step: "add agg chain b s = (r', chain', s')" by (metis prod_cases3)
  show ?case
  proof (cases r')
    case (Ok agg')
    have "I agg' chain' s'" by (rule added [OF Cons.prems(1), of b]) (use Cons.prems in \<open>simp_all add: step Ok\<close>)
    then show ?thesis by (rule Cons.IH) (use Cons.prems step Ok in auto)
  qed (use Cons.prems step failed [OF Cons.prems(1) _ step] in auto)
qed

end

text \<open>A candidate that is adopted is a preferred one that passed the validation.\<close>

lemma adopt_preferred_keeps:
  assumes "J s"
    and "\<And>data fork_point. data \<in> set cands \<Longrightarrow> blocks_in data \<noteq> [] \<Longrightarrow>
      resolve_fork Bl (blocks existing) (blocks_in data) = (True, fork_point) \<Longrightarrow>
      validate (truncated Bl fork_point existing) (blocks_in data) = Ok () \<Longrightarrow> J (snd (adopt fork_point data s))"
  shows "J (snd (adopt_preferred Bl blocks_in validate adopt existing cands s))"
  using assms(2)
proof (induction cands)
  case Nil
  then show ?case using assms(1) by (simp add: ret_def)
next
  case (Cons data rest)
  have next_ok: "J (snd (adopt_preferred Bl blocks_in validate adopt existing rest s))"
    by (rule Cons.IH) (use Cons.prems in auto)
  show ?case
  proof (cases "blocks_in data = []")
    case False
    obtain p fp where f: "resolve_fork Bl (blocks existing) (blocks_in data) = (p, fp)" by fastforce
    show ?thesis
      using False f next_ok Cons.prems [of data fp] assms(1)
      by (cases p; cases "validate (truncated Bl fp existing) (blocks_in data)") (auto simp: Let_def lift_def)
  qed (use next_ok in \<open>simp add: Let_def\<close>)
qed

end
