(* ===== verification/Company_Sync.thy ===== *)
theory Company_Sync
  imports Chain_Sync
begin

text \<open>
  Receiving company chains, \<^verbatim>\<open>handler/company_chain_event_processor.rs\<close> with \<^verbatim>\<open>company_chain_event_handler.rs\<close> and
  \<^verbatim>\<open>company_invite_handler.rs\<close>: a block changes the stored company, notifies its signatories and starts the download
  of bills before it is saved. \<open>us\<close> is the node id of the identity of the node.
\<close>

section \<open>The chain store\<close>

definition stored_company_chain :: "SyncEnv \<Rightarrow> NodeId \<Rightarrow> SyncState \<Rightarrow> (CompanyBlockchain, ServiceError) result" where
  "stored_company_chain Y company_id s = fst (company_chain_get (sye_svc Y) company_id (sy_node s))"

definition save_company_block :: "SyncEnv \<Rightarrow> NodeId \<Rightarrow> CompanyBlock \<Rightarrow> unit sync" where
  "save_company_block Y company_id block =
     on_node (\<lambda>_. T_Persistence ''Failed to add company block to blockchain store'')
       (company_chain_add (sye_svc Y) company_id block)"

definition company_remove_from :: "SyncEnv \<Rightarrow> NodeId \<Rightarrow> BlockId \<Rightarrow> unit sync" where
  "company_remove_from Y company_id from_block_id s =
     (case company_store_remove_blocks_from_height (svc_company (sye_svc Y)) (svc_company_db (sye_svc Y))
        (ss_company_chain (sy_node s)) company_id from_block_id of
        (r, t) \<Rightarrow> (map_err (\<lambda>_. T_Persistence ''Failed to remove blocks from height for fork resolution'') r,
                  s\<lparr>sy_node := (sy_node s)\<lparr>ss_company_chain := t\<rparr>\<rparr>))"

abbreviation sy_company :: "SyncEnv \<Rightarrow> CompanyEnv" where
  "sy_company Y \<equiv> svc_company (sye_svc Y)"

definition company_block_err :: "SyncEnv \<Rightarrow> ('a, BlockchainError) result \<Rightarrow> ('a, TransportError) result" where
  "company_block_err Y r = map_err (\<lambda>e. T_Blockchain (x_error_text (cenv_ext (sy_company Y)) e)) r"

section \<open>Notifications about companies\<close>

definition company_value :: "SyncEnv \<Rightarrow> Company \<Rightarrow> (string, TransportError) result" where
  "company_value Y c =
     from_ext (\<lambda>e. T_Message (''Failed to serialize/unserialize json message: '' @ e)) (sye_company_value Y c)"

text \<open>The active notification is marked as done, unless an informational one would replace one that requires an action.\<close>

definition replaces_notification :: "NotificationLevel \<Rightarrow> NotificationLevel \<Rightarrow> bool" where
  "replaces_notification current level = (\<not> (current = ActionRequired \<and> level = Informational))"

definition retire_notification :: "SyncEnv \<Rightarrow> NodeId \<Rightarrow> NodeId \<Rightarrow> NotificationLevel \<Rightarrow> unit sync" where
  "retire_notification Y company_id node_id level s =
     (case latest_notification Y company_id NT_Company node_id s of
        (Ok (Some currently_active), s') \<Rightarrow>
          (if replaces_notification (nt_level currently_active) level
           then logged (persisted Y (notification_done Y (nt_id currently_active))) s' else (Ok (), s'))
      | (Panic, s') \<Rightarrow> (Panic, s')
      | (_, s') \<Rightarrow> (Ok (), s'))"

definition save_company_notification ::
  "SyncEnv \<Rightarrow> NodeId \<Rightarrow> NodeId \<Rightarrow> string \<Rightarrow> string option \<Rightarrow> NotificationLevel \<Rightarrow> unit sync" where
  "save_company_notification Y company_id node_id description event level =
     bind_act (fresh_stamp Y) (\<lambda>(uuid, now).
     let notification = new_company_notification uuid now company_id node_id description event level in
     then_act (retire_notification Y company_id node_id level)
    (then_act (act_map_err (\<lambda>_. T_Persistence ''Failed to save new notification to database'') (save_notification Y notification))
     (push_notification Y notification)))"

definition create_company_notification :: "SyncEnv \<Rightarrow> NodeId \<Rightarrow> NodeId \<Rightarrow> CompanyBlockPayload \<Rightarrow> unit sync" where
  "create_company_notification Y company_id node_id payload =
     bind_act (persisted Y (company_find Y company_id)) (\<lambda>company.
     case payload of
       CP_InviteSignatory _ \<Rightarrow>
         bind_act (lift (company_value Y company)) (\<lambda>event.
         save_company_notification Y company_id node_id
           (co_name company @ '' have requested you to become an authorised signer'') (Some event) ActionRequired)
     | CP_RemoveSignatory p \<Rightarrow>
         bind_act (lift (company_value Y company)) (\<lambda>event.
         save_company_notification Y company_id node_id
           (if node_id = crs_removee p then ''You were removed from '' @ co_name company
            else crs_removee p @ '' was removed from '' @ co_name company) (Some event) Informational)
     | _ \<Rightarrow> ret ())"

text \<open>Notifying the proven signatories that satisfy \<open>p\<close>; a failure to save is logged.\<close>

definition is_proven :: "CompanySignatory \<Rightarrow> bool" where
  "is_proven s = (case sgn_status s of SS_InviteAcceptedIdentityProven _ _ _ \<Rightarrow> True | _ \<Rightarrow> False)"

definition notify_signatories ::
  "SyncEnv \<Rightarrow> NodeId \<Rightarrow> Company \<Rightarrow> (NodeId \<Rightarrow> bool) \<Rightarrow> (NodeId \<Rightarrow> string) \<Rightarrow> unit sync" where
  "notify_signatories Y company_id company p description =
     for_each (\<lambda>s. bind_act (lift (company_value Y company)) (\<lambda>event.
         logged (save_company_notification Y company_id (sgn_node_id s) (description (sgn_node_id s)) (Some event) Informational)))
       (filter (\<lambda>s. p (sgn_node_id s) \<and> is_proven s) (co_signatories company))"

section \<open>The effects of a block\<close>

text \<open>Applying a payload to the company and storing the result.\<close>

definition update_company_data :: "SyncEnv \<Rightarrow> NodeId \<Rightarrow> Company \<Rightarrow> CompanyBlockPayload \<Rightarrow> NodeId \<Rightarrow> Timestamp \<Rightarrow> Company sync" where
  "update_company_data Y company_id company data us timestamp =
     (let company' = apply_company_block_data data us timestamp company in
      then_act (persisted Y (company_update Y company_id company')) (ret company'))"

definition set_file :: "File EditOptionalFieldMode \<Rightarrow> FileReferenceContext \<Rightarrow> (FileReferenceContext \<times> File) option" where
  "set_file mode context = (case mode of EditSet file \<Rightarrow> Some (context, file) | _ \<Rightarrow> None)"

definition anchor_files :: "SyncEnv \<Rightarrow> (FileReferenceContext \<times> File) option list \<Rightarrow> unit sync" where
  "anchor_files Y files = for_each (\<lambda>(context, file). anchor_important_file Y context file) (List.map_filter id files)"

definition company_updated :: "SyncEnv \<Rightarrow> NodeId \<Rightarrow> Company \<Rightarrow> CompanyUpdateBlockData \<Rightarrow> NodeId \<Rightarrow> Timestamp \<Rightarrow> Company sync" where
  "company_updated Y company_id company p us timestamp =
     bind_act (update_company_data Y company_id company (CP_Update p) us timestamp) (\<lambda>company'.
     then_act (anchor_files Y
       [set_file (cup_logo_file p) (FC_Company company_id ''logo_file''),
        set_file (cup_proof_of_registration_file p) (FC_Company company_id ''proof_of_registration_file'')])
     (ret company'))"

definition signatory_invited ::
  "SyncEnv \<Rightarrow> NodeId \<Rightarrow> Company \<Rightarrow> CompanyInviteSignatoryBlockData \<Rightarrow> NodeId \<Rightarrow> Timestamp \<Rightarrow> Company sync" where
  "signatory_invited Y company_id company p us timestamp =
     then_act (ensure_nostr_contact (cis_invitee p))
    (bind_act (update_company_data Y company_id company (CP_InviteSignatory p) us timestamp) (\<lambda>company'.
     then_act (if cis_invitee p = us then logged (create_company_notification Y company_id us (CP_InviteSignatory p)) else ret ())
    (then_act (notify_signatories Y company_id company' (\<lambda>n. n \<noteq> cis_inviter p \<and> n \<noteq> cis_invitee p)
       (\<lambda>_. cis_inviter p @ '' invited '' @ cis_invitee p @ '' to become a signatory''))
    (then_act (logged (persisted Y (delete_local_signatory_override Y company_id (cis_invitee p))))
     (ret company')))))"

text \<open>
  The search of the acceptance and of the rejection for the inviter: the first signatory with an open invitation by the
  accepting or rejecting node itself.
\<close>

definition found_inviter :: "Company \<Rightarrow> NodeId \<Rightarrow> NodeId option" where
  "found_inviter company node_id =
     map_option sgn_node_id (find (\<lambda>s. case sgn_status s of SS_Invited _ inviter \<Rightarrow> inviter = node_id | _ \<Rightarrow> False)
       (co_signatories company))"

definition notify_invite_outcome :: "SyncEnv \<Rightarrow> NodeId \<Rightarrow> Company \<Rightarrow> NodeId \<Rightarrow> string \<Rightarrow> unit sync" where
  "notify_invite_outcome Y company_id company node_id did =
     (case found_inviter company node_id of
        Some inviter \<Rightarrow>
          notify_signatories Y company_id company (\<lambda>n. n \<noteq> node_id)
            (\<lambda>n. node_id @ did @ (if n = inviter then '' your invitation to become a signatory''
                                  else '' the invitation to become a signatory''))
      | None \<Rightarrow> ret ())"

definition signatory_accepted ::
  "SyncEnv \<Rightarrow> NodeId \<Rightarrow> Company \<Rightarrow> CompanySignatoryAcceptInviteBlockData \<Rightarrow> NodeId \<Rightarrow> Timestamp \<Rightarrow> Company sync" where
  "signatory_accepted Y company_id company p us timestamp =
     then_act (ensure_nostr_contact (cai_accepter p))
    (bind_act (update_company_data Y company_id company (CP_SignatoryAcceptInvite p) us timestamp) (\<lambda>company'.
     then_act (notify_invite_outcome Y company_id company' (cai_accepter p) '' accepted'')
     (ret company')))"

definition signatory_rejected ::
  "SyncEnv \<Rightarrow> NodeId \<Rightarrow> Company \<Rightarrow> CompanySignatoryRejectInviteBlockData \<Rightarrow> NodeId \<Rightarrow> Timestamp \<Rightarrow> Company sync" where
  "signatory_rejected Y company_id company p us timestamp =
     bind_act (update_company_data Y company_id company (CP_SignatoryRejectInvite p) us timestamp) (\<lambda>company'.
     then_act (notify_invite_outcome Y company_id company' (cri_rejecter p) '' rejected'')
     (ret company'))"

text \<open>A removed node that acts as the company goes back to its personal identity.\<close>

definition leave_company :: "SyncEnv \<Rightarrow> NodeId \<Rightarrow> NodeId \<Rightarrow> unit sync" where
  "leave_company Y company_id us s =
     (case fst (get_current_identity Y s) of
        Ok i \<Rightarrow>
          if ais_company i = Some company_id
          then logged (persisted Y (set_current_identity Y \<lparr>ais_personal = us, ais_company = None\<rparr>)) s
          else (Ok (), s)
      | Panic \<Rightarrow> (Panic, s)
      | Err _ \<Rightarrow> (Ok (), s))"

definition signatory_removed ::
  "SyncEnv \<Rightarrow> NodeId \<Rightarrow> Company \<Rightarrow> CompanyRemoveSignatoryBlockData \<Rightarrow> NodeId \<Rightarrow> Timestamp \<Rightarrow> Company sync" where
  "signatory_removed Y company_id company p us timestamp =
     bind_act (update_company_data Y company_id company (CP_RemoveSignatory p) us timestamp) (\<lambda>company'.
     then_act (if crs_removee p = us then leave_company Y company_id us else ret ())
    (then_act (logged (create_company_notification Y company_id (crs_removee p) (CP_RemoveSignatory p)))
    (then_act (for_each (\<lambda>s. logged (create_company_notification Y company_id (sgn_node_id s) (CP_RemoveSignatory p)))
       (filter (\<lambda>s. sgn_node_id s \<noteq> crs_remover p \<and> sgn_node_id s \<noteq> crs_removee p \<and> is_proven s) (co_signatories company')))
     (ret company'))))"

text \<open>A bill that the company issued is downloaded; a failure is logged.\<close>

definition company_bill_signed :: "SyncEnv \<Rightarrow> CompanySignCompanyBillBlockData \<Rightarrow> unit sync" where
  "company_bill_signed Y p =
     (case csb_bill_key p of
        Some bill_key \<Rightarrow>
          if csb_operation p = Issue
          then bind_act (lift (issued_bill_invite Y (csb_bill_id p) bill_key)) (\<lambda>event. logged (handle_bill_invite_event Y event))
          else ret ()
      | None \<Rightarrow> ret ())"

definition company_identity_proven ::
  "SyncEnv \<Rightarrow> NodeId \<Rightarrow> Company \<Rightarrow> CompanyIdentityProofBlockData \<Rightarrow> NodeId \<Rightarrow> Timestamp \<Rightarrow> Company sync" where
  "company_identity_proven Y company_id company p us timestamp =
     then_act (if eip_node_id (cip_data p) = us
       then persisted Y (company_set_email_confirmation Y company_id (cip_proof p) (cip_data p)) else ret ())
     (update_company_data Y company_id company (CP_IdentityProof p) us timestamp)"

definition process_company_block_effects ::
  "SyncEnv \<Rightarrow> NodeId \<Rightarrow> Company \<Rightarrow> CompanyBlockPayload \<Rightarrow> NodeId \<Rightarrow> Timestamp \<Rightarrow> Company sync" where
  "process_company_block_effects Y company_id company data us timestamp =
     (case data of
        CP_Create _ \<Rightarrow> ret company
      | CP_Update p \<Rightarrow> company_updated Y company_id company p us timestamp
      | CP_InviteSignatory p \<Rightarrow> signatory_invited Y company_id company p us timestamp
      | CP_SignatoryAcceptInvite p \<Rightarrow> signatory_accepted Y company_id company p us timestamp
      | CP_SignatoryRejectInvite p \<Rightarrow> signatory_rejected Y company_id company p us timestamp
      | CP_RemoveSignatory p \<Rightarrow> signatory_removed Y company_id company p us timestamp
      | CP_SignBill p \<Rightarrow> then_act (company_bill_signed Y p) (ret company)
      | CP_IdentityProof p \<Rightarrow> company_identity_proven Y company_id company p us timestamp)"

section \<open>Adding blocks\<close>

definition apply_company_block :: "SyncEnv \<Rightarrow> NodeId \<Rightarrow> BcrKeys \<Rightarrow> NodeId \<Rightarrow> Company \<Rightarrow> CompanyBlock \<Rightarrow> Company sync" where
  "apply_company_block Y company_id keys us company block =
     bind_act (lift (company_block_err Y (get_block_data (sy_company Y) block keys))) (\<lambda>data.
     bind_act (process_company_block_effects Y company_id company data us (cbl_timestamp block)) (\<lambda>company'.
     then_act (save_company_block Y company_id block) (ret company')))"

definition add_company_block :: "SyncEnv \<Rightarrow> NodeId \<Rightarrow> BcrKeys \<Rightarrow> NodeId \<Rightarrow> (Company, CompanyBlock) adding" where
  "add_company_block Y company_id keys us =
     add_validated (\<lambda>chain block. validate_company_block_for_chain (sy_proc Y) (sy_company Y) chain block keys)
       (apply_company_block Y company_id keys us)"

definition add_company_blocks_with ::
  "SyncEnv \<Rightarrow> unit sync \<Rightarrow> NodeId \<Rightarrow> CompanyBlockchain \<Rightarrow> CompanyBlock list \<Rightarrow> NodeId \<Rightarrow> bool \<Rightarrow> unit sync" where
  "add_company_blocks_with Y resync company_id chain bs us from_resync =
     bind_act (persisted Y (company_get_key_pair Y company_id)) (\<lambda>keys.
     bind_act (persisted Y (company_find Y company_id)) (\<lambda>company.
     bind_act (lift (get_latest_block chain)) (\<lambda>latest.
     sync_blocks_loop (company_ops (sy_company Y)) (add_company_block Y company_id keys us) resync
       (length bs = 1 \<and> \<not> from_resync) company chain (cbl_id latest) bs)))"

definition company_blocks_of :: "EventContainer list \<Rightarrow> CompanyBlock list" where
  "company_blocks_of data = List.map_filter (\<lambda>d. case evc_block d of BD_Company b \<Rightarrow> Some b | _ \<Rightarrow> None) data"

definition company_resync_chain :: "SyncEnv \<Rightarrow> NodeId \<Rightarrow> unit sync" where
  "company_resync_chain Y company_id s =
     (case (stored_company_chain Y company_id s, fst (company_get_key_pair Y company_id s)) of
        (Ok existing, Ok keys) \<Rightarrow>
          bind_act (persisted Y (identity_get Y)) (\<lambda>identity.
          case resolve_chain Y company_id BT_Company keys of
            Ok chain_data \<Rightarrow>
              adopt_preferred (company_ops (sy_company Y)) company_blocks_of
                (\<lambda>chain bs. fst (validate_company_blocks_for_chain (sy_proc Y) (sy_company Y) chain bs keys))
                (\<lambda>fork_point data. adopt_chain Y company_id BT_Company (company_remove_from Y company_id)
                  (add_company_blocks_with Y (ret ()) company_id (truncated (company_ops (sy_company Y)) fork_point existing)
                    (company_blocks_of data) (ident_node_id identity) True)
                  fork_point data)
                existing chain_data
          | Err _ \<Rightarrow> lift (Err (T_Network (''Could not refetch chain data from Nostr for company '' @ company_id)))
          | Panic \<Rightarrow> lift Panic) s
      | (Panic, _) \<Rightarrow> (Panic, s)
      | (_, Panic) \<Rightarrow> (Panic, s)
      | _ \<Rightarrow> (Err (T_Persistence (''Could not refetch chain for '' @ company_id
                @ '' because the company keys or chain could not be fetched'')), s))"

definition add_company_blocks ::
  "SyncEnv \<Rightarrow> NodeId \<Rightarrow> CompanyBlockchain \<Rightarrow> CompanyBlock list \<Rightarrow> NodeId \<Rightarrow> unit sync" where
  "add_company_blocks Y company_id chain bs us =
     add_company_blocks_with Y (company_resync_chain Y company_id) company_id chain bs us False"

section \<open>New companies\<close>

text \<open>The status that the node would have after all blocks; blocks that cannot be decrypted are skipped.\<close>

definition replayed_status :: "SyncEnv \<Rightarrow> BcrKeys \<Rightarrow> NodeId \<Rightarrow> CompanyBlock list \<Rightarrow> Company \<Rightarrow> Company" where
  "replayed_status Y keys us bs company =
     fold (\<lambda>b c. case get_block_data (sy_company Y) b keys of
        Ok data \<Rightarrow> apply_company_block_data data us (cbl_timestamp b) c | _ \<Rightarrow> c) bs company"

definition company_get_valid_chain ::
  "SyncEnv \<Rightarrow> CompanyBlock list \<Rightarrow> BcrKeys \<Rightarrow> NodeId \<Rightarrow> (NodeId \<times> Company \<times> CompanyBlockchain \<times> bool, TransportError) result" where
  "company_get_valid_chain Y bs keys us =
     (let E = sy_company Y; invalid = T_Blockchain ''Newly received company chain is not valid'' in
      and_then (map_err (\<lambda>_. invalid) (company_new_from_blocks E bs)) (\<lambda>chain.
      and_then (map_err (\<lambda>_. invalid) (is_chain_valid (company_ops E) (cenv_ext E) chain)) (\<lambda>valid.
      seq (reject_if (\<not> valid) invalid)
     (and_then (get_first_block chain) (\<lambda>first.
      and_then (company_block_err Y (get_block_data E first keys)) (\<lambda>data.
      case data of
        CP_Create payload \<Rightarrow>
          (let company = company_from_block_data payload us;
               status = co_status (replayed_status Y keys us (tl bs) company) in
           and_then (company_block_err Y (company_new_from_blocks E [first])) (\<lambda>return_chain.
           Ok (ccr_id payload, company, return_chain, status = CS_Active \<or> status = CS_Invited)))
      | _ \<Rightarrow> Err (T_Blockchain ''First block of newly received company chain is not a Create block'')))))))"

definition company_contact :: "SyncEnv \<Rightarrow> NodeId \<Rightarrow> Company \<Rightarrow> Contact" where
  "company_contact Y company_id c =
     \<lparr>con_t = CT_Company, con_node_id = company_id, con_name = co_name c, con_email = Some (co_email c),
      con_postal_address = Some (co_postal_address c),
      con_date_of_birth_or_registration = co_registration_date c,
      con_country_of_birth_or_registration = co_country_of_registration c,
      con_city_of_birth_or_registration = co_city_of_registration c,
      con_identification_number = co_registration_number c, con_avatar_file = None, con_proof_document_file = None,
      con_nostr_relays = sye_nostr_relays Y, con_is_logical = False, con_mint_url = Some (proc_mint_url (sy_proc Y))\<rparr>"

definition transport_add_identity :: "SyncEnv \<Rightarrow> NodeId \<Rightarrow> BcrKeys \<Rightarrow> unit sync" where
  "transport_add_identity Y node_id keys s =
     (case sye_add_identity Y node_id keys of
        Ok _ \<Rightarrow> (Ok (), s\<lparr>sy_identities := sy_identities s @ [(node_id, keys)]\<rparr>) | r \<Rightarrow> (r, s))"

definition save_company_keys :: "SyncEnv \<Rightarrow> NodeId \<Rightarrow> BcrKeys \<Rightarrow> unit sync" where
  "save_company_keys Y company_id keys =
     act_map_err (\<lambda>_. T_Persistence ''Failed to save keys to company store'') (company_save_key_pair Y company_id keys)"

definition company_add_new_chain :: "SyncEnv \<Rightarrow> CompanyBlock list \<Rightarrow> BcrKeys \<Rightarrow> NodeId \<Rightarrow> unit sync" where
  "company_add_new_chain Y bs keys us =
     bind_act (lift (company_get_valid_chain Y bs keys us)) (\<lambda>(company_id, company, chain, we_are_signatory_or_invited).
     if \<not> we_are_signatory_or_invited then ret ()
     else
       then_act (persisted Y (company_insert Y company))
      (then_act (save_company_keys Y company_id keys)
      (then_act (transport_add_identity Y company_id keys)
      (bind_act (lift (get_first_block chain)) (\<lambda>first.
       then_act (save_company_block Y company_id first)
      (then_act (anchor_files Y
         [map_option (Pair (FC_Company (co_id company) ''logo_file'')) (co_logo_file company),
          map_option (Pair (FC_Company (co_id company) ''proof_of_registration_file'')) (co_proof_of_registration_file company)])
      (bind_act (add_each (add_company_block Y company_id keys us) company chain (tl bs)) (\<lambda>company'.
       then_act (ensure_nostr_contact company_id)
      (then_act (for_each (\<lambda>s. ensure_nostr_contact (sgn_node_id s)) (co_signatories company'))
       (add_contact_if_new Y company_id (company_contact Y company_id company')))))))))))"

section \<open>Received data\<close>

definition company_process_chain_data :: "SyncEnv \<Rightarrow> NodeId \<Rightarrow> CompanyBlock list \<Rightarrow> BcrKeys option \<Rightarrow> unit sync" where
  "company_process_chain_data Y company_id bs keys s =
     (if x_node_network (svc_ext (sye_svc Y)) company_id \<noteq> proc_bitcoin_network (sy_proc Y)
      then (Err (T_Blockchain (''Received company blocks for company '' @ company_id @ '' for a different network'')), s)
      else bind_act (persisted Y (identity_get Y)) (\<lambda>identity s.
        case stored_company_chain Y company_id s of
          Ok existing_chain \<Rightarrow> add_company_blocks Y company_id existing_chain bs (ident_node_id identity) s
        | Err _ \<Rightarrow>
            (case keys of
               Some k \<Rightarrow> company_add_new_chain Y bs k (ident_node_id identity) s
             | None \<Rightarrow> (Err (T_Blockchain ''Received company blocks for unknown company''), s))
        | Panic \<Rightarrow> (Panic, s)) s)"

definition company_validate_chain_event_and_sender :: "SyncEnv \<Rightarrow> NodeId \<Rightarrow> string \<Rightarrow> SyncState \<Rightarrow> (bool, TransportError) result" where
  "company_validate_chain_event_and_sender Y company_id sender s =
     (case fst (company_find Y company_id s) of
        Ok company \<Rightarrow> Ok (sender \<in> set (map (\<lambda>s. sye_npub Y (sgn_node_id s)) (co_signatories company)))
      | Err _ \<Rightarrow> Ok False
      | Panic \<Rightarrow> Panic)"

text \<open>\<^verbatim>\<open>CompanyChainEventHandler\<close>: one block of a company whose keys are known.\<close>

definition handle_company_chain_event :: "SyncEnv \<Rightarrow> EventEnvelope \<Rightarrow> NostrEvent option \<Rightarrow> unit sync" where
  "handle_company_chain_event Y event original_event s =
     (case from_slice (een_company_event (sye_event Y)) (env_data event) of
        Inr decoded \<Rightarrow>
          (case fst (company_get_key_pair Y (cbe_node_id decoded) s) of
             Ok keys \<Rightarrow>
               (case company_process_chain_data Y (cbe_node_id decoded) [cbe_block decoded] (Some keys) s of
                  (Ok _, s') \<Rightarrow>
                    (case original_event of
                       Some original \<Rightarrow> logged (save_event Y (block_chain_event (sye_event Y) original
                         (cbe_block_height decoded) (cbl_hash (cbe_block decoded)) (cbe_node_id decoded) BT_Company)) s'
                     | None \<Rightarrow> (Ok (), s'))
                | (Err _, s') \<Rightarrow> (Ok (), s')
                | (Panic, s') \<Rightarrow> (Panic, s'))
           | Err _ \<Rightarrow> (Ok (), s)
           | Panic \<Rightarrow> (Panic, s))
      | Inl _ \<Rightarrow> (Ok (), s))"

text \<open>\<^verbatim>\<open>CompanyInviteEventHandler\<close>: the candidates are tried in order until one is accepted.\<close>

fun company_try_candidates :: "SyncEnv \<Rightarrow> string \<Rightarrow> BcrKeys \<Rightarrow> EventContainer list list \<Rightarrow> EventContainer list sync" where
  "company_try_candidates Y chain_id keys [] = ret []"
| "company_try_candidates Y chain_id keys (data # rest) =
     (if data = [] then company_try_candidates Y chain_id keys rest
      else bind_act (lift (ok_or (T_Validation InvalidNodeId) (sye_node_id Y chain_id))) (\<lambda>company_id s.
        case company_process_chain_data Y company_id (company_blocks_of data) (Some keys) s of
          (Ok _, s') \<Rightarrow> (Ok data, s')
        | (Err _, s') \<Rightarrow> company_try_candidates Y chain_id keys rest s'
        | (Panic, s') \<Rightarrow> (Panic, s')))"

definition handle_company_invite_event :: "SyncEnv \<Rightarrow> EventEnvelope \<Rightarrow> unit sync" where
  "handle_company_invite_event Y event =
     (case from_slice (sye_invite Y) (env_data event) of
        Inr decoded \<Rightarrow>
          (let keys = from_private_key (svc_ext (sye_svc Y)) (chk_private_key (chi_keys decoded)) in
           case resolve_chain Y (chi_chain_id decoded) (chi_chain_type decoded) keys of
             Ok chain_data \<Rightarrow>
               bind_act (company_try_candidates Y (chi_chain_id decoded) keys chain_data) (\<lambda>inserted_chain.
               store_events Y (chi_chain_id decoded) (chi_chain_type decoded) inserted_chain)
           | Err _ \<Rightarrow> ret ()
           | Panic \<Rightarrow> lift Panic)
      | Inl _ \<Rightarrow> ret ())"

end
