(* ===== verification/Identity_Sync.thy ===== *)
theory Identity_Sync
  imports Company_Sync
begin

text \<open>
  Receiving the chain of the own identity, \<^verbatim>\<open>handler/identity_chain_event_processor.rs\<close> with
  \<^verbatim>\<open>identity_chain_event_handler.rs\<close>: the identity is restored from its blocks, and the companies and bills
  that it created are downloaded by the handlers of invitations.
\<close>

section \<open>The chain store\<close>

abbreviation sy_identity :: "SyncEnv \<Rightarrow> IdentityEnv" where
  "sy_identity Y \<equiv> svc_identity (sye_svc Y)"

definition stored_identity_chain :: "SyncEnv \<Rightarrow> SyncState \<Rightarrow> (IdentityBlockchain, ServiceError) result" where
  "stored_identity_chain Y s = fst (identity_chain_get (sye_svc Y) (sy_node s))"

definition save_identity_block :: "SyncEnv \<Rightarrow> IdentityBlock \<Rightarrow> unit sync" where
  "save_identity_block Y block =
     on_node (\<lambda>_. T_Persistence ''Failed to add identity block to blockchain store'') (identity_chain_add (sye_svc Y) block)"

definition identity_remove_from :: "SyncEnv \<Rightarrow> BlockId \<Rightarrow> unit sync" where
  "identity_remove_from Y from_block_id s =
     (case identity_store_remove_blocks_from_height (sy_identity Y) (svc_identity_db (sye_svc Y))
        (ss_identity_chain (sy_node s)) from_block_id of
        (r, t) \<Rightarrow> (map_err (\<lambda>e. T_Persistence (sye_error_text Y e)) r, s\<lparr>sy_node := (sy_node s)\<lparr>ss_identity_chain := t\<rparr>\<rparr>))"

definition identity_block_err :: "SyncEnv \<Rightarrow> ('a, BlockchainError) result \<Rightarrow> ('a, TransportError) result" where
  "identity_block_err Y r = map_err (\<lambda>e. T_Blockchain (x_error_text (ienv_ext (sy_identity Y)) e)) r"

section \<open>The effects of a block\<close>

definition identity_updated :: "SyncEnv \<Rightarrow> Identity \<Rightarrow> IdentityUpdateBlockData \<Rightarrow> Identity sync" where
  "identity_updated Y identity p =
     (let identity' = apply_identity_block_data (IP_Update p) identity in
      then_act (persisted Y (identity_save Y identity'))
     (then_act (anchor_files Y
        [set_file (iup_profile_picture_file p) (FC_Identity ''profile_picture_file''),
         set_file (iup_identity_document_file p) (FC_Identity ''identity_document_file'')])
      (ret identity')))"

definition company_created :: "SyncEnv \<Rightarrow> IdentityCreateCompanyBlockData \<Rightarrow> unit sync" where
  "company_created Y p =
     (let X = svc_ext (sye_svc Y); company_keys = from_private_key X (icc_company_key p);
          invite = chain_invite X BT_Company (icc_company_id p) (from_private_key X (get_private_key X company_keys)) in
      bind_act (lift (event_envelope (sye_invite Y) (event_new ET_CompanyChainInvite invite)))
        (handle_company_invite_event Y))"

definition personal_bill_signed :: "SyncEnv \<Rightarrow> IdentitySignPersonBillBlockData \<Rightarrow> unit sync" where
  "personal_bill_signed Y p =
     (case isp_bill_key p of
        Some bill_key \<Rightarrow>
          if isp_operation p = Issue
          then bind_act (lift (issued_bill_invite Y (isp_bill_id p) bill_key)) (handle_bill_invite_event Y)
          else ret ()
      | None \<Rightarrow> ret ())"

definition process_identity_block_effects :: "SyncEnv \<Rightarrow> Identity \<Rightarrow> IdentityBlockPayload \<Rightarrow> Identity sync" where
  "process_identity_block_effects Y identity data =
     (case data of
        IP_Update p \<Rightarrow> identity_updated Y identity p
      | IP_InviteSignatory p \<Rightarrow> then_act (ensure_nostr_contact (iis_signatory p)) (ret identity)
      | IP_CreateCompany p \<Rightarrow> then_act (company_created Y p) (ret identity)
      | IP_SignPersonalBill p \<Rightarrow> then_act (personal_bill_signed Y p) (ret identity)
      | IP_IdentityProof p \<Rightarrow>
          then_act (persisted Y (identity_set_email_confirmation Y (ipr_proof p) (ipr_data p))) (ret identity)
      | _ \<Rightarrow> ret identity)"

section \<open>Adding blocks\<close>

definition apply_identity_block :: "SyncEnv \<Rightarrow> BcrKeys \<Rightarrow> Identity \<Rightarrow> IdentityBlock \<Rightarrow> Identity sync" where
  "apply_identity_block Y keys identity block =
     bind_act (lift (identity_block_err Y (identity_get_block_data (sy_identity Y) block keys))) (\<lambda>data.
     bind_act (process_identity_block_effects Y identity data) (\<lambda>identity'.
     then_act (save_identity_block Y block) (ret identity')))"

text \<open>The block is validated for the id of the identity at that moment.\<close>

definition add_identity_block :: "SyncEnv \<Rightarrow> BcrKeys \<Rightarrow> (Identity, IdentityBlock) adding" where
  "add_identity_block Y keys identity =
     add_validated (\<lambda>chain block. validate_identity_block_for_chain (sy_proc Y) (sy_identity Y) chain block keys
         (ident_node_id identity))
       (apply_identity_block Y keys) identity"

definition add_identity_blocks_with ::
  "SyncEnv \<Rightarrow> unit sync \<Rightarrow> IdentityBlockchain \<Rightarrow> IdentityBlock list \<Rightarrow> bool \<Rightarrow> unit sync" where
  "add_identity_blocks_with Y resync chain bs from_resync =
     bind_act (persisted Y (identity_get_key_pair Y)) (\<lambda>keys.
     bind_act (persisted Y (identity_get Y)) (\<lambda>identity.
     bind_act (lift (get_latest_block chain)) (\<lambda>latest.
     sync_blocks_loop (identity_ops (sy_identity Y)) (add_identity_block Y keys) resync
       (length bs = 1 \<and> \<not> from_resync) identity chain (ibl_id latest) bs)))"

definition identity_blocks_of :: "EventContainer list \<Rightarrow> IdentityBlock list" where
  "identity_blocks_of data = List.map_filter (\<lambda>d. case evc_block d of BD_Identity b \<Rightarrow> Some b | _ \<Rightarrow> None) data"

definition identity_get_full :: "SyncEnv \<Rightarrow> SyncState \<Rightarrow> (IdentityWithAll, ServiceError) result" where
  "identity_get_full Y s = fst (get_full (sye_svc Y) (sy_node s))"

definition identity_resync_chain :: "SyncEnv \<Rightarrow> unit sync" where
  "identity_resync_chain Y s =
     (case (stored_identity_chain Y s, identity_get_full Y s) of
        (Ok existing, Ok full) \<Rightarrow>
          (let node_id = ident_node_id (iwa_identity full); keys = iwa_key_pair full in
           case resolve_chain Y node_id BT_Identity keys of
             Ok chain_data \<Rightarrow>
               adopt_preferred (identity_ops (sy_identity Y)) identity_blocks_of
                 (\<lambda>chain bs. fst (validate_identity_blocks_for_chain (sy_proc Y) (sy_identity Y) chain bs keys node_id))
                 (\<lambda>fork_point data. adopt_chain Y node_id BT_Identity (identity_remove_from Y)
                   (add_identity_blocks_with Y (ret ()) (truncated (identity_ops (sy_identity Y)) fork_point existing)
                     (identity_blocks_of data) True)
                   fork_point data)
                 existing chain_data
           | Err _ \<Rightarrow> lift (Err (T_Network (''Could not refetch chain data from Nostr for identity '' @ node_id)))
           | Panic \<Rightarrow> lift Panic) s
      | (Panic, _) \<Rightarrow> (Panic, s)
      | (_, Panic) \<Rightarrow> (Panic, s)
      | _ \<Rightarrow> (Err (T_Persistence (''Could not refetch chain for local identity because the identity keys ''
                @ ''or chain could not be fetched'')), s))"

definition add_identity_blocks :: "SyncEnv \<Rightarrow> IdentityBlockchain \<Rightarrow> IdentityBlock list \<Rightarrow> unit sync" where
  "add_identity_blocks Y chain bs = add_identity_blocks_with Y (identity_resync_chain Y) chain bs False"

section \<open>Restoring an identity\<close>

definition identity_get_valid_chain ::
  "SyncEnv \<Rightarrow> IdentityBlock list \<Rightarrow> BcrKeys \<Rightarrow> (NodeId \<times> Identity \<times> IdentityBlockchain, TransportError) result" where
  "identity_get_valid_chain Y bs keys =
     (let E = sy_identity Y; invalid = T_Blockchain ''Newly received identity chain is not valid'' in
      and_then (map_err (\<lambda>_. invalid) (identity_new_from_blocks E bs)) (\<lambda>chain.
      and_then (map_err (\<lambda>_. invalid) (is_chain_valid (identity_ops E) (ienv_ext E) chain)) (\<lambda>valid.
      seq (reject_if (\<not> valid) invalid)
     (and_then (get_first_block chain) (\<lambda>first.
      and_then (identity_block_err Y (identity_get_block_data E first keys)) (\<lambda>data.
      case data of
        IP_Create payload \<Rightarrow>
          (let identity = identity_from_block_data payload in
           and_then (identity_block_err Y (identity_new_from_blocks E [first])) (\<lambda>return_chain.
           Ok (ident_node_id identity, identity, return_chain)))
      | _ \<Rightarrow> Err (T_Blockchain ''First block of newly received identity chain is not a Create block'')))))))"

definition identity_contact :: "SyncEnv \<Rightarrow> Identity \<Rightarrow> Contact" where
  "identity_contact Y i =
     \<lparr>con_t = (if ident_t i = Identified then CT_Person else CT_Anon), con_node_id = ident_node_id i,
      con_name = ident_name i, con_email = ident_email i,
      con_postal_address = to_full_postal_address (ident_postal_address i),
      con_date_of_birth_or_registration = ident_date_of_birth i,
      con_country_of_birth_or_registration = ident_country_of_birth i,
      con_city_of_birth_or_registration = ident_city_of_birth i,
      con_identification_number = ident_identification_number i, con_avatar_file = None, con_proof_document_file = None,
      con_nostr_relays = sye_nostr_relays Y, con_is_logical = False, con_mint_url = Some (proc_mint_url (sy_proc Y))\<rparr>"

definition identity_add_new_chain :: "SyncEnv \<Rightarrow> IdentityBlock list \<Rightarrow> BcrKeys \<Rightarrow> unit sync" where
  "identity_add_new_chain Y bs keys =
     bind_act (lift (identity_get_valid_chain Y bs keys)) (\<lambda>(node_id, identity, chain).
     then_act (persisted Y (identity_save Y identity))
    (bind_act (lift (get_first_block chain)) (\<lambda>first.
     then_act (save_identity_block Y first)
    (then_act (anchor_files Y
       [map_option (Pair (FC_Identity ''profile_picture_file'')) (ident_profile_picture_file identity),
        map_option (Pair (FC_Identity ''identity_document_file'')) (ident_identity_document_file identity)])
    (bind_act (add_each (add_identity_block Y keys) identity chain (tl bs)) (\<lambda>identity'.
     add_contact_if_new Y node_id (identity_contact Y identity')))))))"

section \<open>Received data\<close>

definition identity_process_chain_data :: "SyncEnv \<Rightarrow> NodeId \<Rightarrow> IdentityBlock list \<Rightarrow> BcrKeys option \<Rightarrow> unit sync" where
  "identity_process_chain_data Y node_id bs keys s =
     (if x_node_network (svc_ext (sye_svc Y)) node_id \<noteq> proc_bitcoin_network (sy_proc Y)
      then (Err (T_Blockchain (''Received identity blocks for node '' @ node_id @ '' for a different network'')), s)
      else case stored_identity_chain Y s of
        Ok existing_chain \<Rightarrow> add_identity_blocks Y existing_chain bs s
      | Err _ \<Rightarrow>
          (case keys of
             Some k \<Rightarrow> identity_add_new_chain Y bs k s
           | None \<Rightarrow> (Err (T_Blockchain ''Received identity blocks for unknown identity''), s))
      | Panic \<Rightarrow> (Panic, s))"

definition identity_validate_chain_event_and_sender :: "SyncEnv \<Rightarrow> NodeId \<Rightarrow> string \<Rightarrow> bool" where
  "identity_validate_chain_event_and_sender Y node_id sender = (sye_npub Y node_id = sender)"

text \<open>\<^verbatim>\<open>IdentityChainEventHandler\<close>: one block of the own identity.\<close>

definition handle_identity_chain_event :: "SyncEnv \<Rightarrow> EventEnvelope \<Rightarrow> NostrEvent option \<Rightarrow> unit sync" where
  "handle_identity_chain_event Y event original_event s =
     (case from_slice (een_identity_event (sye_event Y)) (env_data event) of
        Inr decoded \<Rightarrow>
          (case fst (identity_get_key_pair Y s) of
             Ok keys \<Rightarrow>
               (case identity_process_chain_data Y (ibe_node_id decoded) [ibe_block decoded] (Some keys) s of
                  (Ok _, s') \<Rightarrow>
                    (case original_event of
                       Some original \<Rightarrow> logged (save_event Y (block_chain_event (sye_event Y) original
                         (ibe_block_height decoded) (ibl_hash (ibe_block decoded)) (ibe_node_id decoded) BT_Identity)) s'
                     | None \<Rightarrow> (Ok (), s'))
                | (Err _, s') \<Rightarrow> (Ok (), s')
                | (Panic, s') \<Rightarrow> (Panic, s'))
           | Err _ \<Rightarrow> (Ok (), s)
           | Panic \<Rightarrow> (Panic, s))
      | Inl _ \<Rightarrow> (Ok (), s))"

end
