(* ===== verification/Sync_Frames.thy ===== *)
theory Sync_Frames
  imports Identity_Sync
begin

text \<open>
  What the receiving side leaves alone: the processing of bills changes neither companies nor the identity, and that of
  companies does not change the identity. \<open>leaves f\<close> says that an action does not change the part \<open>f\<close> of the
  state, \<open>triple\<close> states what it does otherwise, for success and for failure.
\<close>

section \<open>Frames and triples\<close>

definition leaves :: "('s \<Rightarrow> 'x) \<Rightarrow> ('a, 'e, 's) action \<Rightarrow> bool" where
  "leaves f m \<longleftrightarrow> (\<forall>s. f (snd (m s)) = f s)"

definition triple ::
  "('s \<Rightarrow> bool) \<Rightarrow> ('a, 'e, 's) action \<Rightarrow> ('a \<Rightarrow> 's \<Rightarrow> bool) \<Rightarrow> ('s \<Rightarrow> bool) \<Rightarrow> bool" where
  "triple P m Q R \<longleftrightarrow> (\<forall>s. P s \<longrightarrow> (case m s of (Ok a, s') \<Rightarrow> Q a s' | (_, s') \<Rightarrow> R s'))"

named_theorems leaves_intros \<open>actions that leave a part of the state alone\<close>

lemma leavesD: "leaves f m \<Longrightarrow> m s = (r, s') \<Longrightarrow> f s' = f s"
  by (metis leaves_def snd_conv)

lemma leaves_pure [leaves_intros]: "leaves f (lift r)" "leaves f (ret a)" "leaves f (gets g)"
  by (simp_all add: leaves_def lift_def ret_def gets_def)

lemma leaves_bind [leaves_intros]: "leaves f m \<Longrightarrow> (\<And>a. leaves f (g a)) \<Longrightarrow> leaves f (bind_act m g)"
  by (auto simp: leaves_def bind_act_def split: prod.splits result.splits) (metis snd_conv)+

lemma leaves_then [leaves_intros]: "leaves f m \<Longrightarrow> leaves f n \<Longrightarrow> leaves f (then_act m n)"
  unfolding then_act_def by (rule leaves_bind)

lemma leaves_map_err [leaves_intros]: "leaves f m \<Longrightarrow> leaves f (act_map_err g m)"
  by (auto simp: leaves_def act_map_err_def split: prod.splits) (metis snd_conv)

lemma leaves_persisted [leaves_intros]: "leaves f m \<Longrightarrow> leaves f (persisted Y m)"
  unfolding persisted_def by (rule leaves_map_err)

lemma leaves_logged [leaves_intros]: "leaves f m \<Longrightarrow> leaves f (logged m)"
  by (auto simp: leaves_def logged_def split: prod.splits result.splits) (metis snd_conv)+

lemma leaves_for_each [leaves_intros]: "(\<And>x. leaves f (g x)) \<Longrightarrow> leaves f (for_each g xs)"
  by (induction xs) (simp_all add: leaves_pure leaves_then)

lemma leaves_if [leaves_intros]: "(b \<Longrightarrow> leaves f m) \<Longrightarrow> (\<not> b \<Longrightarrow> leaves f n) \<Longrightarrow> leaves f (if b then m else n)"
  by simp

lemma leaves_on_store: "leaves f m \<Longrightarrow> leaves f (on_store Y c m)"
  by (auto simp: leaves_def on_store_def split: option.splits)

lemma triple_bind: "triple P m Q R \<Longrightarrow> (\<And>a. triple (Q a) (g a) Q' R) \<Longrightarrow> triple P (bind_act m g) Q' R"
proof -
  assume m: "triple P m Q R" and g: "\<And>a. triple (Q a) (g a) Q' R"
  have "case bind_act m g s of (Ok a, s') \<Rightarrow> Q' a s' | (_, s') \<Rightarrow> R s'" if "P s" for s
  proof -
    obtain r s' where r: "m s = (r, s')" by fastforce
    have m': "case r of Ok a \<Rightarrow> Q a s' | _ \<Rightarrow> R s'" using m that unfolding triple_def by (auto dest!: spec [of _ s] simp: r)
    show ?thesis
    proof (cases r)
      case (Ok a)
      with m' g [of a] show ?thesis by (simp add: triple_def bind_act_def r)
    qed (use m' in \<open>simp_all add: bind_act_def r\<close>)
  qed
  then show "triple P (bind_act m g) Q' R" by (simp add: triple_def)
qed

lemma triple_then: "triple P m (\<lambda>_. Q) R \<Longrightarrow> triple Q n Q' R \<Longrightarrow> triple P (then_act m n) Q' R"
  unfolding then_act_def by (rule triple_bind)

lemma triple_ret: "(\<And>s. P s \<Longrightarrow> Q a s) \<Longrightarrow> triple P (ret a) Q R"
  by (simp add: triple_def ret_def)

lemma triple_leaves:
  assumes "leaves f m" and "\<And>s s'. f s' = f s \<Longrightarrow> P s \<Longrightarrow> P s'" and "\<And>s. P s \<Longrightarrow> R s"
  shows "triple P m (\<lambda>_. P) R"
proof -
  have "case m s of (Ok a, s') \<Rightarrow> P s' | (_, s') \<Rightarrow> R s'" if "P s" for s
  proof -
    obtain r s' where r: "m s = (r, s')" by fastforce
    have "P s'" by (rule assms(2) [OF leavesD [OF assms(1) r] that])
    with assms(3) show ?thesis by (cases r) (simp_all add: r)
  qed
  then show ?thesis by (simp add: triple_def)
qed

section \<open>Bills leave companies and the identity alone\<close>

definition companies_part :: "SyncState \<Rightarrow> CompanyBlockDb list \<times> (NodeId \<times> BcrKeys) list \<times> (NodeId \<times> Company) list" where
  "companies_part s = (ss_company_chain (sy_node s), sy_company_keys s, ss_companies (sy_node s))"

definition identity_part :: "SyncState \<Rightarrow> IdentityBlockDb list \<times> BcrKeys option \<times> Identity option" where
  "identity_part s = (ss_identity_chain (sy_node s), ss_key_pair (sy_node s), ss_identity (sy_node s))"

definition members_part ::
  "SyncState \<Rightarrow> (CompanyBlockDb list \<times> (NodeId \<times> BcrKeys) list \<times> (NodeId \<times> Company) list) \<times>
     (IdentityBlockDb list \<times> BcrKeys option \<times> Identity option)" where
  "members_part s = (companies_part s, identity_part s)"

lemma members_part_leaves:
  assumes "leaves members_part m" shows "leaves companies_part m" "leaves identity_part m"
  using assms by (simp_all add: leaves_def members_part_def)

lemma members_part_simps [simp]:
  "members_part (s\<lparr>sy_events := a\<rparr>) = members_part s" "members_part (s\<lparr>sy_files := b\<rparr>) = members_part s"
  "members_part (s\<lparr>sy_contacts := c\<rparr>) = members_part s" "members_part (s\<lparr>sy_invalidated := d\<rparr>) = members_part s"
  "members_part (s\<lparr>sy_overrides := e\<rparr>) = members_part s" "members_part (s\<lparr>sy_active_identity := g\<rparr>) = members_part s"
  "members_part (s\<lparr>sy_identities := h\<rparr>) = members_part s" "members_part (s\<lparr>sy_notifications := i\<rparr>) = members_part s"
  "members_part (s\<lparr>sy_created := j\<rparr>) = members_part s" "members_part (s\<lparr>sy_pushed := l\<rparr>) = members_part s"
  "members_part (s\<lparr>sy_node := (sy_node s)\<lparr>ss_bill_chain := n\<rparr>\<rparr>) = members_part s"
  "members_part (s\<lparr>sy_node := (sy_node s)\<lparr>ss_bill_keys := p\<rparr>\<rparr>) = members_part s"
  "members_part (s\<lparr>sy_node := (sy_node s)\<lparr>ss_contacts := q\<rparr>\<rparr>) = members_part s"
  "members_part (s\<lparr>sy_node := (sy_node s)\<lparr>ss_company_confirmations := u\<rparr>\<rparr>) = members_part s"
  "members_part (s\<lparr>sy_node := (sy_node s)\<lparr>ss_identity_confirmations := v\<rparr>\<rparr>) = members_part s"
  "members_part (s\<lparr>sy_node := sy_node s\<rparr>) = members_part s"
  by (simp_all add: members_part_def companies_part_def identity_part_def)

lemma bill_steps_leave [leaves_intros]:
  "leaves members_part (invalidate_cache_for_bill Y i)" "leaves members_part (anchor_important_file Y x f)"
  "leaves members_part (ensure_nostr_contact n)" "leaves members_part (save_event Y e)"
  "leaves members_part (drop_events Y ci ty)" "leaves members_part (on_node g (get_keys V i))"
  "leaves members_part (on_node g (is_paid V i))" "leaves members_part (save_chain_keys Y i k)"
  "leaves members_part (bill_chain_remove_from Y i h)"
  by (auto simp: leaves_def invalidate_cache_for_bill_def anchor_important_file_def ensure_nostr_contact_def
      save_event_def drop_events_def on_node_def get_keys_def is_paid_def save_keys_def store_call_def gets_def
      save_chain_keys_def bill_chain_remove_from_def split: option.splits prod.splits)

lemma sync_add_leaves: "sync_add Y s i b = (r, s') \<Longrightarrow> members_part s' = members_part s"
  by (auto simp: sync_add_def bill_chain_add_def split: prod.splits)

lemma save_block_leaves: "save_block (sync_add Y) s i b = (r, s') \<Longrightarrow> members_part s' = members_part s"
  by (auto simp: save_block_def split: prod.splits dest: sync_add_leaves)

lemma validate_and_save_leaves:
  "validate_and_save_block P (sync_add Y) s i c first k b paid = (r, c', s') \<Longrightarrow> members_part s' = members_part s"
  by (auto simp: validate_and_save_block_def split: prod.splits result.splits bool.splits dest: save_block_leaves)

lemma save_new_blocks_leaves:
  "save_new_blocks P (sync_add Y) s i c first k bs = (r, c', s') \<Longrightarrow> members_part s' = members_part s"
  by (induction bs arbitrary: s c)
    (auto split: prod.splits result.splits dest!: validate_and_save_leaves)

lemma new_bill_leaves [leaves_intros]:
  "leaves members_part (save_chain_block Y i b)" "leaves members_part (save_other_blocks Y i c first k bs)"
proof -
  show "leaves members_part (save_chain_block Y i b)"
    unfolding leaves_def save_chain_block_def by (metis save_block_leaves surjective_pairing)
  show "leaves members_part (save_other_blocks Y i c first k bs)"
    by (auto simp: leaves_def save_other_blocks_def split: prod.splits dest: save_new_blocks_leaves)
qed

lemma ensure_contacts_leaves [leaves_intros]: "leaves members_part (ensure_contacts Y c k)"
  unfolding ensure_contacts_def by (cases "get_all_nodes_from_bill (sy_bill Y) c k") (auto intro: leaves_intros)

lemma bill_loop_leaves:
  assumes "leaves members_part resync"
  shows "leaves members_part (add_bill_blocks_loop Y resync i first k paid single c h added bs)"
proof (induction bs arbitrary: c h added)
  case Nil
  show ?case by (simp add: leaves_intros)
next
  case (Cons b bs)
  let ?loop = "add_bill_blocks_loop Y resync i first k paid single"
  show ?case
  proof (cases "bbl_id b \<le> h")
    case True
    then show ?thesis by (simp, intro leaves_intros assms Cons.IH)
  next
    case False
    have "members_part (snd (?loop c h added (b # bs) s)) = members_part s" for s
    proof -
      obtain r c' s' where v: "validate_and_save_block (sy_proc Y) (sync_add Y) s i c first k b paid = (r, c', s')"
        by (metis prod_cases3)
      have s': "members_part s' = members_part s" by (rule validate_and_save_leaves [OF v])
      have err: "leaves members_part (bind_act (lift (get_latest_block c')) (\<lambda>latest.
            if single \<and> next_from_previous_block_id (bbl_id latest) < bbl_id b
            then then_act resync (ret (Some (c', added))) else lift (Err e)))" for e
        by (intro leaves_intros assms)
      show ?thesis
        using s' Cons.IH err by (cases r) (simp_all add: False v leaves_def)
    qed
    then show ?thesis by (simp add: leaves_def)
  qed
qed

lemma add_bill_blocks_leaves:
  assumes "leaves members_part resync"
  shows "leaves members_part (add_bill_blocks_with Y resync i c bs fr)"
proof -
  have "leaves members_part (case outcome of Some (chain, True) \<Rightarrow>
      then_act (logged (invalidate_cache_for_bill Y i)) (ensure_contacts Y chain k) | _ \<Rightarrow> ret ())" for outcome k
    by (auto intro!: leaves_intros split: option.splits bool.splits)
  then show ?thesis
    unfolding add_bill_blocks_with_def by (intro leaves_intros bill_loop_leaves assms)
qed

lemma take_over_leaves [leaves_intros]: "leaves members_part (take_over Y i c fp data)"
  unfolding take_over_def by (cases fp) (auto intro!: leaves_intros add_bill_blocks_leaves)

lemma resync_candidates_leaves [leaves_intros]: "leaves members_part (resync_candidates Y mode i c k first paid cands)"
proof (induction cands)
  case (Cons data rest)
  then show ?case
    by (auto simp: Let_def intro!: leaves_intros split: option.splits result.splits)
qed (simp add: leaves_intros)

lemma resync_chain_leaves: "leaves members_part (resync_chain Y i fn mode)"
proof -
  have "members_part (snd (resync_chain Y i fn mode s)) = members_part s" for s
  proof -
    have keys: "leaves members_part (bind_act (on_node (persistence_text Y) (is_paid (sye_svc Y) i)) (\<lambda>paid.
          bind_act (lift (chain_err (sy_proc Y) (get_first_version_bill (sy_bill Y) c k))) (\<lambda>first.
          case resolve_chain Y i BT_Bill k' of
            Ok chain_data \<Rightarrow> resync_candidates Y mode i c k first paid chain_data
          | Err _ \<Rightarrow> lift (Err e)
          | Panic \<Rightarrow> lift Panic)))" for c k k' e
      by (cases "resolve_chain Y i BT_Bill k'") (auto intro!: leaves_intros)
    have cache: "members_part (snd (invalidate_cache_for_bill Y i s)) = members_part s"
      using bill_steps_leave(1) by (simp add: leaves_def)
    show ?thesis using cache keys unfolding resync_chain_def leaves_def by (auto split: result.splits)
  qed
  then show ?thesis by (simp add: leaves_def)
qed

lemma new_chain_leaves: "leaves members_part (add_new_chain Y bs k)"
  unfolding add_new_chain_def by (auto intro!: leaves_intros split: prod.splits)

lemma process_chain_data_leaves: "process_chain_data Y i bs keys s = (r, s') \<Longrightarrow> members_part s' = members_part s"
  using leavesD [OF add_bill_blocks_leaves [OF resync_chain_leaves]] leavesD [OF new_chain_leaves]
  by (auto simp: process_chain_data_def add_bill_blocks_def split: if_splits result.splits option.splits)

lemma try_candidates_leaves: "try_candidates Y i k cands s = (r, s') \<Longrightarrow> members_part s' = members_part s"
  by (induction cands arbitrary: s)
    (auto simp: ret_def split: if_splits result.splits prod.splits dest: process_chain_data_leaves)

lemma bill_invite_leaves [leaves_intros]: "leaves members_part (handle_bill_invite_event Y ev)"
proof -
  have tried: "leaves members_part (try_candidates Y i k cands)" for i k cands
    using try_candidates_leaves unfolding leaves_def by (metis surjective_pairing)
  have store: "leaves members_part (store_events Y ci ty cs)" for ci ty cs
    unfolding store_events_def by (auto intro!: leaves_intros split: prod.splits)
  show ?thesis unfolding handle_bill_invite_event_def
    by (auto simp: Let_def intro!: leaves_intros tried store split: sum.splits result.splits)
qed

end
