(* ===== verification/Company_Sync_Props.thy ===== *)
theory Company_Sync_Props
  imports Sync_Frames Chain_Table_Steps
begin

text \<open>
  What received data can do to the stored companies: every stored chain stays one that the processor has built block
  by block with the stored keys, and as long as no fork is resolved the stored company is the replay of its chain.
\<close>

section \<open>Replaying a chain\<close>

definition replayed :: "SyncEnv \<Rightarrow> BcrKeys \<Rightarrow> NodeId \<Rightarrow> CompanyBlock list \<Rightarrow> Company option" where
  "replayed Y k us bs =
     (case bs of
        [] \<Rightarrow> None
      | b # rest \<Rightarrow>
          (case get_block_data (sy_company Y) b k of
             Ok (CP_Create p) \<Rightarrow> Some (replayed_status Y k us rest (company_from_block_data p us))
           | _ \<Rightarrow> None))"

lemma replayed_append:
  assumes "bs \<noteq> []"
  shows "replayed Y k us (bs @ added) = map_option (replayed_status Y k us added) (replayed Y k us bs)"
  using assms by (cases bs)
    (auto simp: replayed_def replayed_status_def split: result.splits CompanyBlockPayload.splits)

section \<open>The effects of a block\<close>

lemma notification_leaves [leaves_intros]:
  "leaves members_part (fresh_stamp Y)" "leaves members_part (retire_notification Y i n l)"
  "leaves members_part (save_notification Y x)" "leaves members_part (notification_done Y d)"
  "leaves members_part (push_notification Y x)" "leaves members_part (company_find Y i)"
  "leaves members_part (delete_local_signatory_override Y i n)" "leaves members_part (set_current_identity Y a)"
  "leaves members_part (transport_add_identity Y n k)"
proof -
  show finish: "leaves members_part (notification_done Y d)" for d
    by (auto simp: leaves_def notification_done_def split: prod.splits)
  show "leaves members_part (retire_notification Y i n l)"
    unfolding leaves_def retire_notification_def
    using leaves_logged [OF leaves_persisted [OF finish]]
    by (auto simp: latest_notification_def leaves_def split: prod.splits result.splits option.splits)
qed (auto simp: leaves_def fresh_stamp_def save_notification_def push_notification_def company_find_def
    delete_local_signatory_override_def set_current_identity_def transport_add_identity_def on_store_def
    split: prod.splits option.splits sum.splits result.splits)

lemma save_company_notification_leaves [leaves_intros]:
  "leaves members_part (save_company_notification Y i n d e l)"
  unfolding save_company_notification_def by (auto simp: Let_def intro!: leaves_intros split: prod.splits)

lemma create_company_notification_leaves [leaves_intros]:
  "leaves members_part (create_company_notification Y i n p)"
  unfolding create_company_notification_def by (auto intro!: leaves_intros split: CompanyBlockPayload.splits)

lemma effect_steps_leave [leaves_intros]:
  "leaves members_part (notify_signatories Y i c p d)" "leaves members_part (notify_invite_outcome Y i c n did)"
  "leaves members_part (leave_company Y i us)" "leaves members_part (anchor_files Y fs)"
  "leaves members_part (company_bill_signed Y q)" "leaves members_part (company_set_email_confirmation Y i pr pd)"
proof -
  show notify: "leaves members_part (notify_signatories Y i c p d)" for p d
    unfolding notify_signatories_def by (auto intro!: leaves_intros)
  show "leaves members_part (notify_invite_outcome Y i c n did)"
    unfolding notify_invite_outcome_def by (auto intro!: leaves_intros notify split: option.splits)
  show "leaves members_part (leave_company Y i us)"
    using leaves_logged [OF leaves_persisted [OF notification_leaves(8)]]
    by (auto simp: leaves_def leave_company_def split: result.splits)
  show "leaves members_part (anchor_files Y fs)"
    unfolding anchor_files_def by (auto intro!: leaves_intros split: prod.splits)
  show "leaves members_part (company_bill_signed Y q)"
    unfolding company_bill_signed_def by (auto intro!: leaves_intros split: option.splits)
  show "leaves members_part (company_set_email_confirmation Y i pr pd)"
    by (auto simp: company_set_email_confirmation_def company_get_key_pair_def leaves_def bind_act_def on_store_def lift_def
        ok_or_def Let_def split: option.splits)
qed

text \<open>Only the row of the company changes: it becomes the company with the block applied.\<close>

definition company_frame :: "NodeId \<Rightarrow> SyncState \<Rightarrow> SyncState \<Rightarrow> bool" where
  "company_frame i s s' \<longleftrightarrow>
     ss_company_chain (sy_node s') = ss_company_chain (sy_node s) \<and> sy_company_keys s' = sy_company_keys s \<and>
     (\<forall>j. j \<noteq> i \<longrightarrow> map_of (ss_companies (sy_node s')) j = map_of (ss_companies (sy_node s)) j) \<and>
     identity_part s' = identity_part s"

definition company_row :: "NodeId \<Rightarrow> Company \<Rightarrow> SyncState \<Rightarrow> Company \<Rightarrow> SyncState \<Rightarrow> bool" where
  "company_row i c0 s0 c s \<longleftrightarrow> company_frame i s0 s \<and>
     (map_of (ss_companies (sy_node s0)) i = Some c0 \<longrightarrow> map_of (ss_companies (sy_node s)) i = Some c)"

lemma company_row_start [simp]: "company_row i c s c s"
  by (simp add: company_row_def company_frame_def)

lemma company_frame_part: "members_part s' = members_part s \<Longrightarrow> company_frame i s0 s' = company_frame i s0 s"
  by (simp add: company_frame_def members_part_def companies_part_def identity_part_def)

lemma company_row_part: "members_part s' = members_part s \<Longrightarrow> company_row i c0 s0 c s' = company_row i c0 s0 c s"
  using company_frame_part [of s' s i s0]
  by (simp add: company_row_def members_part_def companies_part_def)

lemma row_step:
  assumes "leaves members_part m" and "\<And>a. triple (company_row i c0 s0 c) (g a) Q (company_frame i s0)"
  shows "triple (company_row i c0 s0 c) (bind_act m g) Q (company_frame i s0)"
proof (rule triple_bind [OF _ assms(2)])
  show "triple (company_row i c0 s0 c) m (\<lambda>_. company_row i c0 s0 c) (company_frame i s0)"
  proof (rule triple_leaves [OF assms(1)])
    show "company_row i c0 s0 c s'" if "members_part s' = members_part s" "company_row i c0 s0 c s" for s s'
      using that(2) unfolding company_row_part [OF that(1)] .
  qed (simp add: company_row_def)
qed

lemma row_then:
  assumes "leaves members_part m" and "triple (company_row i c0 s0 c) n Q (company_frame i s0)"
  shows "triple (company_row i c0 s0 c) (then_act m n) Q (company_frame i s0)"
  unfolding then_act_def by (rule row_step) (use assms in auto)

lemma row_update:
  assumes "\<And>c'. c' = apply_company_block_data data us t c \<Longrightarrow>
      triple (company_row i c0 s0 c') (g c') Q (company_frame i s0)"
  shows "triple (company_row i c0 s0 c) (bind_act (update_company_data Y i c data us t) g) Q (company_frame i s0)"
proof (rule triple_bind)
  let ?c = "apply_company_block_data data us t c"
  show "triple (company_row i c0 s0 c) (update_company_data Y i c data us t)
      (\<lambda>a s. a = ?c \<and> company_row i c0 s0 ?c s) (company_frame i s0)"
    by (auto simp: triple_def update_company_data_def Let_def persisted_def act_map_err_def company_update_def on_store_def
        then_act_def bind_act_def ret_def company_row_def company_frame_def identity_part_def
        split: option.splits prod.splits)
  show "triple (\<lambda>s. a = ?c \<and> company_row i c0 s0 ?c s) (g a) Q (company_frame i s0)" for a
    using assms [of a] by (auto simp: triple_def)
qed

lemma row_ret: "triple (company_row i c0 s0 c) (ret c) (company_row i c0 s0) R"
  by (rule triple_ret)

lemmas row_steps = row_then row_step row_update row_ret leaves_intros

text \<open>The outcome of the effects: the company with the payload applied, which is also what is stored.\<close>

lemma update_is_bind: "update_company_data Y i c data us t = bind_act (update_company_data Y i c data us t) ret"
  by (rule ext) (simp add: bind_act_def ret_def split: prod.splits result.splits)

lemma effects_row:
  assumes "process_company_block_effects Y i c data us t s = (r, s')"
  shows "company_frame i s s'"
    and "r = Ok c' \<Longrightarrow> c' = apply_company_block_data data us t c \<and> company_row i c s c' s'"
proof -
  let ?c = "apply_company_block_data data us t c"
  let ?Q = "\<lambda>a s'. a = ?c \<and> company_row i c s a s'"
  have fin: "triple (company_row i c s ?c) (ret ?c) ?Q (company_frame i s)"
    by (rule triple_ret) simp
  have same: "triple (company_row i c s c) (ret c) ?Q (company_frame i s)" if "?c = c"
    by (rule triple_ret) (simp add: that)
  have "triple (company_row i c s c) (process_company_block_effects Y i c data us t) ?Q (company_frame i s)"
  proof (cases data)
    case (CP_Create p)
    then show ?thesis using same by (simp add: process_company_block_effects_def apply_company_block_data_def)
  next
    case (CP_Update p)
    then show ?thesis using fin
      by (auto simp: process_company_block_effects_def company_updated_def intro!: row_update row_then leaves_intros)
  next
    case (CP_InviteSignatory p)
    then show ?thesis using fin
      by (auto simp: process_company_block_effects_def signatory_invited_def intro!: row_update row_then leaves_intros)
  next
    case (CP_SignatoryAcceptInvite p)
    then show ?thesis using fin
      by (auto simp: process_company_block_effects_def signatory_accepted_def intro!: row_update row_then leaves_intros)
  next
    case (CP_SignatoryRejectInvite p)
    then show ?thesis using fin
      by (auto simp: process_company_block_effects_def signatory_rejected_def intro!: row_update row_then leaves_intros)
  next
    case (CP_RemoveSignatory p)
    then show ?thesis using fin
      by (auto simp: process_company_block_effects_def signatory_removed_def intro!: row_update row_then leaves_intros)
  next
    case (CP_SignBill p)
    then show ?thesis using same
      by (auto simp: process_company_block_effects_def apply_company_block_data_def intro!: row_then leaves_intros)
  next
    case (CP_IdentityProof p)
    have "triple (company_row i c s c) (update_company_data Y i c data us t) ?Q (company_frame i s)"
      by (subst update_is_bind) (auto intro!: row_update triple_ret)
    with CP_IdentityProof show ?thesis
      by (auto simp: process_company_block_effects_def company_identity_proven_def intro!: row_then leaves_intros)
  qed
  then have *: "case r of Ok a \<Rightarrow> ?Q a s' | _ \<Rightarrow> company_frame i s s'"
    using assms unfolding triple_def by (auto dest!: spec [of _ s] split: result.splits)
  then show "company_frame i s s'" by (auto simp: company_row_def split: result.splits)
  show "r = Ok c' \<Longrightarrow> c' = ?c \<and> company_row i c s c' s'" using * by auto
qed

end
