(* ===== verification/Company_Sync_Safety.thy ===== *)
theory Company_Sync_Safety
  imports Company_Sync_Props
begin

text \<open>
  The invariants of stored companies: adding a block and resynchronising keep the chain of the company reachable, under
  the contract of \<open>block_adding\<close>; new companies start with one. Without forks the stored company is the replay of
  its chain at any time a delivery has succeeded.
\<close>

section \<open>A stored company\<close>

abbreviation company_rows :: "SyncEnv \<Rightarrow> SyncState \<Rightarrow> NodeId \<Rightarrow> CompanyBlockDb list" where
  "company_rows Y s \<equiv> rows_of (company_table (sy_company Y)) (ss_company_chain (sy_node s))"

abbreviation company_store_ok :: "SyncEnv \<Rightarrow> CompanyBlock set \<Rightarrow> SyncState \<Rightarrow> bool" where
  "company_store_ok Y S s \<equiv> store_ok (company_table (sy_company Y)) (cenv_ext (sy_company Y)) S (ss_company_chain (sy_node s))"

abbreviation company_chain_rows :: "SyncEnv \<Rightarrow> CompanyBlock list \<Rightarrow> CompanyBlockDb list" where
  "company_chain_rows Y bs \<equiv> map (company_block_to_db (cenv_ext (sy_company Y))) bs"

text \<open>Blocks hash without collisions, and no block has the last block id there is.\<close>

definition company_laws :: "SyncEnv \<Rightarrow> CompanyBlock set \<Rightarrow> bool" where
  "company_laws Y S \<longleftrightarrow>
     secp_laws (cenv_ext (sy_company Y)) \<and> no_collisions (company_ops (sy_company Y)) (cenv_ext (sy_company Y)) S \<and>
     (\<forall>b \<in> S. bid_inner (cbl_id b) \<noteq> - 1)"

definition holds_company ::
  "SyncEnv \<Rightarrow> CompanyBlock set \<Rightarrow> NodeId \<Rightarrow> BcrKeys \<Rightarrow> CompanyBlockchain \<Rightarrow> SyncState \<Rightarrow> bool" where
  "holds_company Y S i k c s \<longleftrightarrow>
     company_store_ok Y S s \<and> company_reachable (sy_proc Y) (sy_company Y) k c \<and>
     company_rows Y s i = company_chain_rows Y (blocks c) \<and> map_of (sy_company_keys s) i = Some k"

definition only_company :: "SyncEnv \<Rightarrow> NodeId \<Rightarrow> SyncState \<Rightarrow> SyncState \<Rightarrow> bool" where
  "only_company Y i s s' \<longleftrightarrow>
     sy_company_keys s' = sy_company_keys s \<and> identity_part s' = identity_part s \<and>
     (\<forall>j. j \<noteq> i \<longrightarrow> company_rows Y s' j = company_rows Y s j \<and>
        map_of (ss_companies (sy_node s')) j = map_of (ss_companies (sy_node s)) j)"

text \<open>
  Since it was \<open>start\<close>, next to a chain with the blocks \<open>kept\<close>, the stored company has taken up exactly the blocks that the
  chain has got since then.
\<close>

definition taken_up ::
  "SyncEnv \<Rightarrow> NodeId \<Rightarrow> BcrKeys \<Rightarrow> NodeId \<Rightarrow> CompanyBlock list \<Rightarrow> Company \<Rightarrow> CompanyBlock set \<Rightarrow> Company \<Rightarrow> CompanyBlock list \<Rightarrow> SyncState \<Rightarrow> bool" where
  "taken_up Y i k us kept start T company bs s \<longleftrightarrow>
     map_of (ss_companies (sy_node s)) i = Some company \<and>
     (\<exists>added. set added \<subseteq> T \<and> bs = kept @ added \<and> company = replayed_status Y k us added start)"

text \<open>The relation between memory and stores; with \<open>view\<close> the stored company is the one in memory and follows the chain.\<close>

definition company_rel ::
  "SyncEnv \<Rightarrow> CompanyBlock set \<Rightarrow> CompanyBlock set \<Rightarrow> (CompanyBlock list \<times> Company) option \<Rightarrow> NodeId \<Rightarrow> BcrKeys \<Rightarrow> NodeId \<Rightarrow> SyncState \<Rightarrow> Company
     \<Rightarrow> CompanyBlockchain \<Rightarrow> SyncState \<Rightarrow> bool" where
  "company_rel Y S T view i k us s0 company c s \<longleftrightarrow>
     company_laws Y S \<and> T \<subseteq> S \<and> only_company Y i s0 s \<and> holds_company Y S i k c s \<and>
     (\<forall>kept start. view = Some (kept, start) \<longrightarrow> taken_up Y i k us kept start T company (blocks c) s)"

definition company_stays :: "SyncEnv \<Rightarrow> CompanyBlock set \<Rightarrow> NodeId \<Rightarrow> BcrKeys \<Rightarrow> SyncState \<Rightarrow> SyncState \<Rightarrow> bool" where
  "company_stays Y S i k s0 s \<longleftrightarrow> only_company Y i s0 s \<and> (\<exists>c. holds_company Y S i k c s)"

lemma company_table_simps [simp]:
  "ct_ops (company_table E) = company_ops E" "ct_row (company_table E) = company_block_to_db (cenv_ext E)"
  "ct_key (company_table E) = cdb_company_id"
  by (simp_all add: company_table_def)

lemma company_row_key [simp]: "cdb_company_id (company_block_to_db X b) = cbl_company_id b"
  by (simp add: company_block_to_db_def)

lemma only_company_refl [simp]: "only_company Y i s s"
  by (simp add: only_company_def)

lemma only_company_trans: "only_company Y i s s' \<Longrightarrow> only_company Y i s' s'' \<Longrightarrow> only_company Y i s s''"
  by (simp add: only_company_def)

lemma company_reachable_nonempty: "company_reachable P E k c \<Longrightarrow> blocks c \<noteq> []"
  using company_reachable_ok(1) by (auto simp: company_chain_ok_def)

lemma frame_only: "company_frame i s s' \<Longrightarrow> only_company Y i s s'"
  by (simp add: company_frame_def only_company_def)

lemma frame_holds: "company_frame i s s' \<Longrightarrow> holds_company Y S i k c s' = holds_company Y S i k c s"
  by (simp add: company_frame_def holds_company_def)

lemma members_company:
  assumes "members_part s' = members_part s"
  shows "only_company Y i s0 s' = only_company Y i s0 s" "holds_company Y S i k c s' = holds_company Y S i k c s"
    "company_rel Y S T view i k us s0 company c s' = company_rel Y S T view i k us s0 company c s"
    "company_stays Y S i k s0 s' = company_stays Y S i k s0 s"
  using assms by (simp_all add: members_part_def companies_part_def only_company_def holds_company_def company_rel_def
      company_stays_def taken_up_def)

section \<open>Adding a block\<close>

lemma save_company_block_step:
  assumes laws: "company_laws Y S" and h: "holds_company Y S i k c s" and b: "b \<in> S"
    and run: "save_company_block Y i b s = (r, s')"
  shows "only_company Y i s s' \<and> company_store_ok Y S s' \<and> ss_companies (sy_node s') = ss_companies (sy_node s) \<and>
         map_of (sy_company_keys s') i = Some k \<and>
         (s' = s \<and> r \<noteq> Ok () \<or> r = Ok () \<and> company_rows Y s' i = company_chain_rows Y (blocks c @ [b]))"
proof -
  let ?E = "sy_company Y" and ?t = "ss_company_chain (sy_node s)"
  obtain r' t' where t: "company_store_add_block ?E (svc_company_db (sye_svc Y)) ?t i b = (r', t')" by (metis surj_pair)
  have s': "s' = s\<lparr>sy_node := (sy_node s)\<lparr>ss_company_chain := t'\<rparr>\<rparr>" and r: "(r = Ok ()) = (r' = Ok ())"
    using run by (auto simp: save_company_block_def on_node_def company_chain_add_def t map_err_eq split: prod.splits)
  have "blocks c \<noteq> []" using h company_reachable_nonempty by (auto simp: holds_company_def)
  then have "store_ok (company_table ?E) (cenv_ext ?E) S t' \<and> (t' = ?t \<and> r' \<noteq> Ok () \<or>
      r' = Ok () \<and> t' = ?t @ [company_block_to_db (cenv_ext ?E) b] \<and> cbl_company_id b = i)"
    using company_table.append_to_chain [of ?E S ?t i "blocks c" b "svc_company_db (sye_svc Y)" r' t'] laws h b t
    by (simp add: company_laws_def holds_company_def company_store_add_block_def)
  then show ?thesis using h r unfolding s'
    by (auto simp: only_company_def holds_company_def rows_of_def identity_part_def)
qed

lemma next_id_le:
  assumes "next_from_previous_block_id i < i"
  shows "bid_inner i = - 1"
proof -
  obtain w where i: "i = BlockId w" by (cases i)
  have "w + 1 < w" using assms by (simp add: i next_from_previous_block_id_def less_BlockId_def)
  then have "w + 1 = 0" using unatSuc [of w] by (auto simp: word_less_nat_alt add.commute)
  then show ?thesis using i by (simp add: eq_neg_iff_add_eq_0)
qed

lemma taken_up_snoc:
  assumes "taken_up Y i k us kept start T company bs s" and "get_block_data (sy_company Y) b k = Ok data" and "b \<in> T"
    and "map_of (ss_companies (sy_node s')) i = Some (apply_company_block_data data us (cbl_timestamp b) company)"
  shows "taken_up Y i k us kept start T (apply_company_block_data data us (cbl_timestamp b) company) (bs @ [b]) s'"
proof -
  from assms(1) obtain added where "set added \<subseteq> T" "bs = kept @ added" "company = replayed_status Y k us added start"
    by (auto simp: taken_up_def)
  with assms(2-4) show ?thesis
    by (auto simp: taken_up_def replayed_status_def intro!: exI [of _ "added @ [b]"])
qed

lemma add_company_step:
  assumes rel: "company_rel Y S T view i k us s0 company c s" and b: "b \<in> T"
    and run: "add_company_block Y i k us company c b s = (r, c', s')"
  shows "company_stays Y S i k s0 s'"
    and "r = Ok company' \<Longrightarrow> company_rel Y S T view i k us s0 company' c' s'"
    and "r = Err e \<Longrightarrow> s' = s \<or> c' = c\<lparr>blocks := blocks c @ [b]\<rparr>"
proof -
  from rel have laws: "company_laws Y S" and T: "T \<subseteq> S" and only: "only_company Y i s0 s" and h: "holds_company Y S i k c s"
    and view: "\<And>kept start. view = Some (kept, start) \<Longrightarrow> taken_up Y i k us kept start T company (blocks c) s"
    by (auto simp: company_rel_def)
  from b T have bS: "b \<in> S" ..
  let ?E = "sy_company Y" and ?P = "sy_proc Y"
  obtain v c1 where v: "validate_company_block_for_chain ?P ?E c b k = (v, c1)" by fastforce
  have "company_stays Y S i k s0 s' \<and> (\<forall>company'. r = Ok company' \<longrightarrow> company_rel Y S T view i k us s0 company' c' s') \<and>
      (\<forall>e. r = Err e \<longrightarrow> s' = s \<or> c' = c\<lparr>blocks := blocks c @ [b]\<rparr>)"
  proof (cases "v = Ok True")
    case False
    then have "s' = s" and r: "r = Ok company' \<Longrightarrow> company' = company \<and> v = Ok False \<and> c' = c1" for company'
      using run v by (auto simp: add_company_block_def add_validated_def split: result.splits bool.splits)
    moreover have "c1 = c" if "v = Ok False"
      using that v by (auto simp: validate_company_block_for_chain_def validate_company_block_after_add_def and_then_eq_Ok
          split: result.splits prod.splits bool.splits if_splits)
    ultimately show ?thesis using rel only h by (auto simp: company_stays_def)
  next
    case True
    with v have acc: "company_accepted ?P ?E k c b c1" by (simp add: company_accepted_def)
    from acc obtain w where c1: "c1 = c\<lparr>blocks := blocks c @ [b]\<rparr>" and ne: "blocks c \<noteq> []"
      and "company_verify_and_get_signer ?E b k = Ok w" by (rule company_accepted_facts) blast
    then obtain data where data: "get_block_data ?E b k = Ok data" using company_signer_payload by blast
    have reach: "company_reachable ?P ?E k c1" using h acc by (auto simp: holds_company_def intro: company_add)
    obtain r1 s1 where eff: "process_company_block_effects Y i company data us (cbl_timestamp b) s = (r1, s1)" by fastforce
    note row = effects_row [OF eff]
    have only1: "only_company Y i s0 s1" using only frame_only [OF row(1)] by (rule only_company_trans)
    have h1: "holds_company Y S i k c s1" using h frame_holds [OF row(1)] by simp
    have run': "apply_company_block Y i k us company b s = (r, s')" "c' = c1"
      using run v True by (auto simp: add_company_block_def add_validated_def split: prod.splits)
    have bind: "apply_company_block Y i k us company b s =
        bind_act (process_company_block_effects Y i company data us (cbl_timestamp b))
          (\<lambda>company'. then_act (save_company_block Y i b) (ret company')) s"
      by (simp add: apply_company_block_def data company_block_err_def bind_act_def [of "lift _"] lift_def)
    show ?thesis
    proof (cases "\<exists>company'. r1 = Ok company'")
      case False
      with run' bind eff have "s' = s1" "r \<noteq> Ok x" for x by (cases r1; auto simp: bind_act_def)+
      with only1 h1 run' c1 show ?thesis by (auto simp: company_stays_def)
    next
      case True
      then obtain company' where r1: "r1 = Ok company'" by blast
      obtain r2 s2 where save: "save_company_block Y i b s1 = (r2, s2)" by fastforce
      from run' bind eff r1 save have s2: "s' = s2" and r: "r = Ok x \<Longrightarrow> r2 = Ok () \<and> x = company'" for x
        by (cases r2; auto simp: bind_act_def then_act_def ret_def)+
      note st = save_company_block_step [OF laws h1 bS save]
      have only2: "only_company Y i s0 s2" using only1 st by (auto intro: only_company_trans)
      from st consider "s2 = s1" "r2 \<noteq> Ok ()" | "r2 = Ok ()" "holds_company Y S i k c1 s2"
        using reach by (auto simp: holds_company_def c1)
      then show ?thesis
      proof cases
        case 1
        with r s2 only1 h1 run'(2) c1 show ?thesis by (auto simp: company_stays_def)
      next
        case 2
        have "taken_up Y i k us kept start T company' (blocks c1) s2" if "view = Some (kept, start)" for kept start
        proof -
          from row(2) [OF r1] view [OF that] have "company' = apply_company_block_data data us (cbl_timestamp b) company"
            "map_of (ss_companies (sy_node s1)) i = Some company'" by (auto simp: company_row_def taken_up_def)
          with taken_up_snoc [OF view [OF that] data b] st show ?thesis by (simp add: c1)
        qed
        with 2 r s2 only2 laws T run'(2) c1 show ?thesis by (auto simp: company_stays_def company_rel_def)
      qed
    qed
  qed
  then show "company_stays Y S i k s0 s'" "r = Ok company' \<Longrightarrow> company_rel Y S T view i k us s0 company' c' s'"
    "r = Err e \<Longrightarrow> s' = s \<or> c' = c\<lparr>blocks := blocks c @ [b]\<rparr>" by blast+
qed

interpretation company_adding: block_adding "company_ops (sy_company Y)" "add_company_block Y i k us"
  "company_rel Y S T view i k us s0" "company_stays Y S i k s0" "\<lambda>b. b \<in> T" for Y S T view i k us s0
proof
  show "company_stays Y S i k s0 s" if "company_rel Y S T view i k us s0 company c s" for company c s
    using that by (auto simp: company_rel_def company_stays_def)
  show "s' = s" if rel: "company_rel Y S T view i k us s0 company c s" and b: "b \<in> T"
    and run: "add_company_block Y i k us company c b s = (Err e, c', s')"
    and latest: "get_latest_block c' = (Ok l :: (CompanyBlock, TransportError) result)"
    and gap: "next_from_previous_block_id (blk_id (company_ops (sy_company Y)) l) < blk_id (company_ops (sy_company Y)) b"
    for company c s b e c' s' l
  proof (rule ccontr)
    assume "s' \<noteq> s"
    with add_company_step(3) [OF rel b run] have "l = b" using latest by (auto simp: get_latest_block_def last_opt_def)
    with gap have "bid_inner (cbl_id b) = - 1" by (intro next_id_le) simp
    with rel b show False by (auto simp: company_rel_def company_laws_def)
  qed
qed (auto dest: add_company_step)

end
