(* ===== verification/Company_Sync_Known.thy ===== *)
theory Company_Sync_Known
  imports Company_Sync_Safety
begin

text \<open>
  Companies the node already knows: received blocks and resynchronisations keep the stored chain reachable, and without a
  resynchronisation the stored company stays the replay of its chain.
\<close>

section \<open>Reading\<close>

lemma company_reads:
  "persisted Y (company_get_key_pair Y i) s = (r, s') \<Longrightarrow> s' = s \<and> (\<forall>k. r = Ok k \<longrightarrow> map_of (sy_company_keys s) i = Some k) \<and> r \<noteq> Panic"
  "persisted Y (company_find Y i) s = (q, s') \<Longrightarrow> s' = s \<and> (\<forall>c. q = Ok c \<longrightarrow> map_of (ss_companies (sy_node s)) i = Some c) \<and> q \<noteq> Panic"
  "persisted Y (identity_get Y) s = (u, s') \<Longrightarrow> s' = s \<and> (\<forall>n. u = Ok n \<longrightarrow> ss_identity (sy_node s) = Some n) \<and> u \<noteq> Panic"
  by (auto simp: persisted_def act_map_err_def company_get_key_pair_def company_find_def identity_get_def on_store_def ok_or_def
      map_err_def split: option.splits)

text \<open>Binding a read leaves two cases: the read value, or an error that changes nothing.\<close>

lemma bind_read:
  assumes "\<And>r s'. m s = (r, s') \<Longrightarrow> s' = s \<and> (\<forall>a. r = Ok a \<longrightarrow> P a) \<and> r \<noteq> Panic"
  shows "(\<exists>e. bind_act m g s = (Err e, s)) \<or> (\<exists>a. P a \<and> bind_act m g s = g a s)"
proof -
  obtain r s' where run: "m s = (r, s')" by fastforce
  with assms [OF run] show ?thesis by (cases r) (auto simp: bind_act_def)
qed

lemma bind_company_reads:
  "(\<exists>e. bind_act (persisted Y (company_get_key_pair Y i)) g s = (Err e, s)) \<or>
   (\<exists>k. map_of (sy_company_keys s) i = Some k \<and> bind_act (persisted Y (company_get_key_pair Y i)) g s = g k s)"
  "(\<exists>e. bind_act (persisted Y (company_find Y i)) h s = (Err e, s)) \<or>
   (\<exists>c. map_of (ss_companies (sy_node s)) i = Some c \<and> bind_act (persisted Y (company_find Y i)) h s = h c s)"
  "(\<exists>e. bind_act (persisted Y (identity_get Y)) f s = (Err e, s)) \<or>
   (\<exists>n. ss_identity (sy_node s) = Some n \<and> bind_act (persisted Y (identity_get Y)) f s = f n s)"
  by (rule bind_read, erule company_reads)+

lemma held_company_stored:
  assumes "company_laws Y S" "holds_company Y S i k c s"
  shows "stored_chain (company_table (sy_company Y)) (cenv_ext (sy_company Y)) (ss_company_chain (sy_node s)) i (blocks c)"
    and "set (blocks c) \<subseteq> S"
  using company_table.key_blocks [of "sy_company Y" S "ss_company_chain (sy_node s)" i "blocks c"] assms
  by (auto simp: company_laws_def holds_company_def)

lemma company_store_read:
  assumes "company_laws Y S" "company_store_ok Y S s" "company_rows Y s i = company_chain_rows Y bs" "bs \<noteq> []"
    and "stored_company_chain Y i s = Ok c"
  shows "c = \<lparr>blocks = bs\<rparr>"
  using company_table.read_stored [of "sy_company Y" S "ss_company_chain (sy_node s)" i bs "svc_company_db (sye_svc Y)" c] assms
  by (auto simp: company_laws_def stored_company_chain_def company_chain_get_def company_store_get_chain_def)

lemma stored_company_held:
  assumes "company_laws Y S" "holds_company Y S i k c s" "stored_company_chain Y i s = Ok c'"
  shows "c' = c"
proof -
  from assms(2) have "blocks c \<noteq> []" by (auto simp: holds_company_def dest: company_reachable_nonempty)
  with company_store_read [OF assms(1) _ _ _ assms(3), of "blocks c"] assms(2) show ?thesis
    by (simp add: holds_company_def)
qed

lemma stored_company_nonempty:
  assumes "stored_company_chain Y i s = Ok c"
  shows "company_rows Y s i \<noteq> []"
proof
  assume "company_rows Y s i = []"
  with assms show False
    by (auto simp: stored_company_chain_def company_chain_get_def company_store_get_chain_def store_get_chain_def
        and_then_eq_Ok map_err_eq db_query_eq select_chain_def company_new_from_blocks_def company_table_def is_chain_valid_def)
qed

section \<open>Removing and adding blocks\<close>

lemma company_reachable_prefix:
  assumes "company_reachable P E k c" and "0 < n"
  shows "company_reachable P E k \<lparr>blocks = take n (blocks c)\<rparr>"
  using assms(1)
proof induction
  case (company_create b d)
  then show ?case using assms(2) company_reachable.company_create [of E b k d] by simp
next
  case (company_add c b c')
  from company_add.hyps(2) have c': "c' = c\<lparr>blocks := blocks c @ [b]\<rparr>" by (rule company_accepted_facts)
  show ?case
  proof (cases "n \<le> length (blocks c)")
    case True
    with company_add.IH c' show ?thesis by simp
  next
    case False
    then have "\<lparr>blocks = take n (blocks c')\<rparr> = c'" by (simp add: c')
    with company_reachable.company_add [OF company_add.hyps] show ?thesis by simp
  qed
qed

lemma company_remove_step:
  assumes laws: "company_laws Y S" and h: "holds_company Y S i k c s" and pos: "1 < block_number f"
    and run: "company_remove_from Y i f s = (r, s')"
  shows "only_company Y i s s' \<and> (\<exists>c'. holds_company Y S i k c' s' \<and>
         (r = Ok () \<longrightarrow> c' = truncate_from (company_ops (sy_company Y)) c f))"
proof -
  let ?E = "sy_company Y" and ?t = "ss_company_chain (sy_node s)" and ?D = "svc_company_db (sye_svc Y)"
  obtain r' t' where t: "company_store_remove_blocks_from_height ?E ?D ?t i f = (r', t')" by fastforce
  have s': "s' = s\<lparr>sy_node := (sy_node s)\<lparr>ss_company_chain := t'\<rparr>\<rparr>" and r: "r = Ok () \<longleftrightarrow> r' = Ok ()"
    using run by (auto simp: company_remove_from_def t map_err_eq)
  note rm = t [unfolded company_store_remove_blocks_from_height_def]
  note st = held_company_stored(1) [OF laws h]
  have ok: "store_ok (company_table ?E) (cenv_ext ?E) S t'"
    by (rule company_table.removal_keeps_store [OF _ rm]) (use h in \<open>simp add: holds_company_def\<close>)
  note rows = company_table.removal_rows [OF rm st]
  from rows(1) have only: "only_company Y i s s'" by (simp add: only_company_def s' identity_part_def)
  show ?thesis
  proof (cases "r' = Ok ()")
    case True
    let ?c = "truncate_from (company_ops ?E) c f"
    have cut: "?c = \<lparr>blocks = take (block_number f - 1) (blocks c)\<rparr>"
      using company_table.cut_chain [OF st] by simp
    have "company_reachable (sy_proc Y) ?E k ?c"
      unfolding cut by (rule company_reachable_prefix) (use h pos in \<open>auto simp: holds_company_def\<close>)
    moreover have "rows_of (company_table ?E) t' i = company_chain_rows Y (blocks ?c)" using rows(2) [OF True] by simp
    ultimately have "holds_company Y S i k ?c s'" using ok h by (simp add: holds_company_def s')
    with only show ?thesis by blast
  next
    case False
    from rows(3) [OF False] have "s' = s" by (simp add: s')
    with h only False r show ?thesis by blast
  qed
qed

lemma company_staysI: "only_company Y i s0 s \<Longrightarrow> holds_company Y S i k c s \<Longrightarrow> company_stays Y S i k s0 s"
  by (auto simp: company_stays_def)

lemma add_company_blocks_stays:
  assumes laws: "company_laws Y S" and h: "holds_company Y S i k c s" "only_company Y i s0 s" and bs: "set bs \<subseteq> S"
    and resync: "\<And>t. company_stays Y S i k s0 t \<Longrightarrow> company_stays Y S i k s0 (snd (resync t))"
  shows "company_stays Y S i k s0 (snd (add_company_blocks_with Y resync i c bs us fr s))"
proof -
  note here = company_staysI [OF h(2,1)]
  let ?add = "\<lambda>keys company. bind_act (lift (get_latest_block c)) (\<lambda>latest.
     sync_blocks_loop (company_ops (sy_company Y)) (add_company_block Y i keys us) resync
       (length bs = 1 \<and> \<not> fr) company c (cbl_id latest) bs)"
  have loop: "company_stays Y S i k s0 (snd (?add k company s))" for company
  proof -
    have rel: "company_rel Y S S None i k us s0 company c s" using laws h by (simp add: company_rel_def)
    have fine: "\<forall>b \<in> set bs. b \<in> S" using bs by auto
    show ?thesis using here company_adding.loop_keeps [OF rel fine resync]
      by (cases "get_latest_block c :: (CompanyBlock, TransportError) result") (simp_all add: bind_act_def lift_def)
  qed
  have "map_of (sy_company_keys s) i = Some k" using h(1) by (simp add: holds_company_def)
  then consider (failed) e where "add_company_blocks_with Y resync i c bs us fr s = (Err e, s)"
    | (loop) company where "add_company_blocks_with Y resync i c bs us fr s = ?add k company s"
    using bind_company_reads(1) [of Y i "\<lambda>keys. bind_act (persisted Y (company_find Y i)) (?add keys)" s]
      bind_company_reads(2) [of Y i "?add k" s]
    unfolding add_company_blocks_with_def by auto
  then show ?thesis using loop here by cases simp_all
qed

section \<open>Resynchronising\<close>

text \<open>\<open>S\<close> contains the blocks of companies that the relays may answer.\<close>

definition company_relays_within :: "SyncEnv \<Rightarrow> CompanyBlock set \<Rightarrow> bool" where
  "company_relays_within Y S \<longleftrightarrow> (\<forall>i k chains data. resolve_chain Y i BT_Company k = Ok chains \<longrightarrow> data \<in> set chains \<longrightarrow>
     set (company_blocks_of data) \<subseteq> S)"

lemma members_stay:
  assumes "leaves members_part m"
  shows "company_stays Y S i k s0 (snd (m s)) = company_stays Y S i k s0 s"
  using assms members_company(4) unfolding leaves_def by blast

lemma adopt_company_stays:
  assumes laws: "company_laws Y S" and h: "holds_company Y S i k c s" "only_company Y i s0 s"
    and pos: "\<And>f. fp = Some f \<Longrightarrow> 1 < block_number f" and bs: "set bs \<subseteq> S"
  shows "company_stays Y S i k s0 (snd (adopt_chain Y i BT_Company (company_remove_from Y i)
      (add_company_blocks_with Y (ret ()) i (truncated (company_ops (sy_company Y)) fp c) bs us True) fp data s))"
proof -
  let ?c = "truncated (company_ops (sy_company Y)) fp c"
  define cut where "cut = (case fp of Some f \<Rightarrow> company_remove_from Y i f | None \<Rightarrow> ret ())"
  define add where "add = add_company_blocks_with Y (ret ()) i ?c bs us True"
  define rest where "rest = then_act (logged (drop_events Y i BT_Company))
     (for_each (\<lambda>c. logged (save_event Y (as_chain_store_event (sye_event Y) c i BT_Company
        (unat (get_block_height (evc_block c)))))) data)"
  obtain r1 s1 where s1: "cut s = (r1, s1)" by fastforce
  have cut: "only_company Y i s s1 \<and> (\<exists>c'. holds_company Y S i k c' s1 \<and> (r1 = Ok () \<longrightarrow> c' = ?c))"
  proof (cases fp)
    case None
    with s1 h show ?thesis by (auto simp: cut_def ret_def truncated_def)
  next
    case (Some f)
    with s1 have run: "company_remove_from Y i f s = (r1, s1)" by (simp add: cut_def)
    from company_remove_step [OF laws h(1) pos [OF Some] run] Some show ?thesis by (simp add: truncated_def)
  qed
  then obtain c' where c': "holds_company Y S i k c' s1" "r1 = Ok () \<Longrightarrow> c' = ?c" by blast
  from cut h(2) have only: "only_company Y i s0 s1" by (auto intro: only_company_trans)
  have run: "adopt_chain Y i BT_Company (company_remove_from Y i) add fp data s = then_act cut (then_act add rest) s"
    by (simp add: adopt_chain_def cut_def rest_def)
  show ?thesis unfolding add_def [symmetric]
  proof (cases "r1 = Ok ()")
    case True
    with c' have h1: "holds_company Y S i k ?c s1" by simp
    obtain r2 s2 where s2: "add s1 = (r2, s2)" by fastforce
    have "company_stays Y S i k s0 (snd (add s1))" unfolding add_def
      by (rule add_company_blocks_stays [OF laws h1 only bs]) (simp add: ret_def)
    moreover have "leaves members_part rest" unfolding rest_def by (intro leaves_intros)
    ultimately show "company_stays Y S i k s0
        (snd (adopt_chain Y i BT_Company (company_remove_from Y i) add fp data s))"
      by (cases r2) (simp_all add: run then_act_def bind_act_def s1 s2 True members_stay)
  next
    case False
    with company_staysI [OF only c'(1)] show "company_stays Y S i k s0
        (snd (adopt_chain Y i BT_Company (company_remove_from Y i) add fp data s))"
      by (cases r1) (simp_all add: run then_act_def bind_act_def s1)
  qed
qed

lemma company_resync_stays:
  assumes laws: "company_laws Y S" and relays: "company_relays_within Y S" and here: "company_stays Y S i k s0 s"
  shows "company_stays Y S i k s0 (snd (company_resync_chain Y i s))"
proof -
  from here obtain c where h: "holds_company Y S i k c s" "only_company Y i s0 s" by (auto simp: company_stays_def)
  show ?thesis
  proof (cases "\<exists>c' k'. stored_company_chain Y i s = Ok c' \<and> fst (company_get_key_pair Y i s) = Ok k'")
    case False
    with here show ?thesis by (auto simp: company_resync_chain_def split: result.splits)
  next
    case True
    then obtain c' k' where sc: "stored_company_chain Y i s = Ok c'" and sk: "fst (company_get_key_pair Y i s) = Ok k'" by blast
    from stored_company_held [OF laws h(1) sc] have [simp]: "c' = c" .
    from sk h(1) have [simp]: "k' = k"
      by (auto simp: company_get_key_pair_def on_store_def ok_or_def holds_company_def split: option.splits)
    let ?cands = "\<lambda>us. adopt_preferred (company_ops (sy_company Y)) company_blocks_of
      (\<lambda>chain bs. fst (validate_company_blocks_for_chain (sy_proc Y) (sy_company Y) chain bs k))
      (\<lambda>fp data. adopt_chain Y i BT_Company (company_remove_from Y i)
        (add_company_blocks_with Y (ret ()) i (truncated (company_ops (sy_company Y)) fp c) (company_blocks_of data) us True) fp data) c"
    have cands: "company_stays Y S i k s0 (snd (?cands us chains s))" if "resolve_chain Y i BT_Company k = Ok chains" for us chains
    proof (rule adopt_preferred_keeps [of "company_stays Y S i k s0", OF here])
      fix data fp
      assume "data \<in> set chains" "resolve_fork (company_ops (sy_company Y)) (blocks c) (company_blocks_of data) = (True, fp)"
      with company_table.fork_after_first [OF held_company_stored(1) [OF laws h(1)]] relays that
      show "company_stays Y S i k s0 (snd (adopt_chain Y i BT_Company (company_remove_from Y i)
          (add_company_blocks_with Y (ret ()) i (truncated (company_ops (sy_company Y)) fp c) (company_blocks_of data) us True) fp data s))"
        by (intro adopt_company_stays [OF laws h]) (auto simp: company_relays_within_def)
    qed
    let ?go = "\<lambda>identity. case resolve_chain Y i BT_Company k of
        Ok chain_data \<Rightarrow> ?cands (ident_node_id identity) chain_data
      | Err _ \<Rightarrow> lift (Err (T_Network (''Could not refetch chain data from Nostr for company '' @ i)))
      | Panic \<Rightarrow> lift Panic"
    have run: "company_resync_chain Y i s = bind_act (persisted Y (identity_get Y)) ?go s"
      by (simp add: company_resync_chain_def sc sk)
    have "company_stays Y S i k s0 (snd (?go identity s))" for identity
      using cands here by (cases "resolve_chain Y i BT_Company k") (simp_all add: lift_def)
    then show ?thesis using here bind_company_reads(3) [of Y ?go s] unfolding run by auto
  qed
qed

end
