(* ===== verification/Company_Sync_Invariant.thy ===== *)
theory Company_Sync_Invariant
  imports Company_Sync_Known
begin

text \<open>
  The two statements about received company chains: every company with keys has no blocks or a chain that the processor has
  built, and a delivery that succeeds without a resynchronisation leaves a stored company that is the replay of the
  stored chain.
\<close>

section \<open>The invariant\<close>

definition companies_ok :: "SyncEnv \<Rightarrow> CompanyBlock set \<Rightarrow> SyncState \<Rightarrow> bool" where
  "companies_ok Y S s \<longleftrightarrow> company_store_ok Y S s \<and>
     (\<forall>i k. map_of (sy_company_keys s) i = Some k \<longrightarrow> company_rows Y s i = [] \<or>
        (\<exists>c. company_reachable (sy_proc Y) (sy_company Y) k c \<and> company_rows Y s i = company_chain_rows Y (blocks c)))"

text \<open>The stored company is the replay of the stored chain.\<close>

definition company_in_view :: "SyncEnv \<Rightarrow> NodeId \<Rightarrow> NodeId \<Rightarrow> SyncState \<Rightarrow> bool" where
  "company_in_view Y us i s \<longleftrightarrow> (\<exists>k c company. map_of (sy_company_keys s) i = Some k \<and>
     company_rows Y s i = company_chain_rows Y (blocks c) \<and> company_reachable (sy_proc Y) (sy_company Y) k c \<and>
     replayed Y k us (blocks c) = Some company \<and> map_of (ss_companies (sy_node s)) i = Some company)"

lemma companies_ok_members: "members_part s' = members_part s \<Longrightarrow> companies_ok Y S s' = companies_ok Y S s"
  by (simp add: companies_ok_def members_part_def companies_part_def)

lemma company_in_view_members: "members_part s' = members_part s \<Longrightarrow> company_in_view Y us i s' = company_in_view Y us i s"
  by (simp add: company_in_view_def members_part_def companies_part_def)

lemma company_rel_in_view:
  assumes "company_rel Y S T (Some (kept, start)) i k us s0 company c s" and "replayed Y k us kept = Some start" "kept \<noteq> []"
  shows "company_in_view Y us i s"
proof -
  from assms obtain added where "blocks c = kept @ added" "company = replayed_status Y k us added start"
    "map_of (ss_companies (sy_node s)) i = Some company" "holds_company Y S i k c s"
    by (auto simp: company_rel_def taken_up_def)
  with assms(2,3) show ?thesis
    by (auto simp: holds_company_def company_in_view_def replayed_append intro!: exI [of _ k] exI [of _ c])
qed

lemma stays_companies_ok:
  assumes ok: "companies_ok Y S s0" and stays: "company_stays Y S i k s0 s"
  shows "companies_ok Y S s"
proof -
  from stays obtain c where only: "only_company Y i s0 s" and h: "holds_company Y S i k c s" by (auto simp: company_stays_def)
  have "company_rows Y s j = [] \<or> (\<exists>c. company_reachable (sy_proc Y) (sy_company Y) k' c \<and> company_rows Y s j = company_chain_rows Y (blocks c))"
    if j: "map_of (sy_company_keys s) j = Some k'" for j k'
  proof (cases "j = i")
    case True
    with h j have "company_reachable (sy_proc Y) (sy_company Y) k' c" "company_rows Y s j = company_chain_rows Y (blocks c)"
      by (auto simp: holds_company_def)
    then show ?thesis by blast
  next
    case False
    with j only ok show ?thesis by (simp add: only_company_def companies_ok_def)
  qed
  with h show ?thesis by (simp add: companies_ok_def holds_company_def)
qed

section \<open>Known companies\<close>

lemma known_company_held:
  assumes "company_laws Y S" "companies_ok Y S s" "stored_company_chain Y i s = Ok c" "map_of (sy_company_keys s) i = Some k"
  shows "holds_company Y S i k c s"
proof -
  from assms(2,4) stored_company_nonempty [OF assms(3)] obtain c' where "holds_company Y S i k c' s"
    unfolding companies_ok_def holds_company_def by blast
  with stored_company_held [OF assms(1) this assms(3)] show ?thesis by simp
qed

lemma keyless_company_refuses:
  assumes "map_of (sy_company_keys s) i = None"
  obtains e where "add_company_blocks_with Y resync i c bs us fr s = (Err e, s)"
  using assms that bind_company_reads(1) [of Y i _ s] unfolding add_company_blocks_with_def by fastforce

lemma known_company_ok:
  assumes laws: "company_laws Y S" and relays: "company_relays_within Y S" and ok: "companies_ok Y S s"
    and stored: "stored_company_chain Y i s = Ok c" and bs: "set bs \<subseteq> S"
  shows "companies_ok Y S (snd (add_company_blocks Y i c bs us s))"
proof (cases "map_of (sy_company_keys s) i")
  case None
  with ok show ?thesis unfolding add_company_blocks_def by (metis keyless_company_refuses snd_conv)
next
  case (Some k)
  note h = known_company_held [OF laws ok stored Some]
  have "company_stays Y S i k s (snd (add_company_blocks Y i c bs us s))"
    unfolding add_company_blocks_def
    by (rule add_company_blocks_stays [OF laws h only_company_refl bs company_resync_stays [OF laws relays]])
  from stays_companies_ok [OF ok this] show ?thesis .
qed

lemma known_company_view:
  assumes laws: "company_laws Y S" and ok: "companies_ok Y S s" and view: "company_in_view Y us i s"
    and stored: "stored_company_chain Y i s = Ok c" and bs: "set bs \<subseteq> S"
    and run: "add_company_blocks Y i c bs us s = (Ok (), s')"
  shows "company_in_view Y us i s' \<or> length bs = 1 \<and> company_resync_chain Y i s = (Ok (), s')"
proof -
  from view obtain k d company where d: "map_of (sy_company_keys s) i = Some k" "company_rows Y s i = company_chain_rows Y (blocks d)"
    "company_reachable (sy_proc Y) (sy_company Y) k d" "replayed Y k us (blocks d) = Some company"
    "map_of (ss_companies (sy_node s)) i = Some company" by (auto simp: company_in_view_def)
  then have "holds_company Y S i k d s" using ok by (simp add: holds_company_def companies_ok_def)
  with stored_company_held [OF laws this stored] have h: "holds_company Y S i k c s" and [simp]: "d = c" by simp_all
  let ?latest = "last (blocks c)"
  let ?loop = "\<lambda>keys company. sync_blocks_loop (company_ops (sy_company Y)) (add_company_block Y i keys us)
      (company_resync_chain Y i) (length bs = 1) company c (cbl_id ?latest) bs"
  have rel: "company_rel Y S S (Some (blocks c, company)) i k us s company c s"
    using laws h d by (simp add: company_rel_def taken_up_def replayed_status_def)
  have fine: "\<forall>b \<in> set bs. b \<in> S" using bs by auto
  have ne: "blocks c \<noteq> []" using company_reachable_nonempty d(3) by simp
  have seen: "company_rel Y S S (Some (blocks c, company)) i k us s company' c' t \<Longrightarrow> company_in_view Y us i t" for company' c' t
    by (rule company_rel_in_view) (use d ne in auto)
  from ne have "get_latest_block c = (Ok ?latest :: (CompanyBlock, TransportError) result)"
    by (simp add: get_latest_block_def last_opt_def)
  then have "add_company_blocks Y i c bs us s =
      bind_act (persisted Y (company_get_key_pair Y i)) (\<lambda>keys. bind_act (persisted Y (company_find Y i)) (?loop keys)) s"
    by (simp add: add_company_blocks_def add_company_blocks_with_def bind_lift)
  with run bind_company_reads(1) [of Y i "\<lambda>keys. bind_act (persisted Y (company_find Y i)) (?loop keys)" s]
    bind_company_reads(2) [of Y i "?loop k" s] d(1,5)
  have loop: "?loop k company s = (Ok (), s')" by auto
  show ?thesis
  proof (cases "length bs = 1")
    case False
    from company_adding.loop_holds [OF rel fine False loop] show ?thesis by (auto intro: seen)
  next
    case True
    then obtain b where b: "bs = [b]" by (cases bs) auto
    with fine have "b \<in> S" by simp
    moreover have "sync_blocks_loop (company_ops (sy_company Y)) (add_company_block Y i k us) (company_resync_chain Y i) True
        company c (cbl_id ?latest) [b] s = (Ok (), s')" using loop by (simp add: b)
    ultimately have "(\<exists>company' c'. company_rel Y S S (Some (blocks c, company)) i k us s company' c' s') \<or> company_resync_chain Y i s = (Ok (), s')"
      by (rule company_adding.loop_single [OF rel])
    with True show ?thesis by (auto intro: seen)
  qed
qed

section \<open>New companies\<close>

text \<open>A new chain belongs to the company it was received for, in its first block and in the encrypted data of its creation.\<close>

definition chain_of_company :: "SyncEnv \<Rightarrow> NodeId \<Rightarrow> BcrKeys \<Rightarrow> CompanyBlock list \<Rightarrow> bool" where
  "chain_of_company Y i k bs \<longleftrightarrow> (bs \<noteq> [] \<longrightarrow> cbl_company_id (hd bs) = i \<and>
     (\<forall>p. get_block_data (sy_company Y) (hd bs) k = Ok (CP_Create p) \<longrightarrow> ccr_id p = i))"

lemma company_get_valid_chain_Ok:
  assumes "company_get_valid_chain Y bs k us = Ok (i, company, chain, relevant)"
  obtains p where "bs \<noteq> []" "chain = \<lparr>blocks = [hd bs]\<rparr>" "get_block_data (sy_company Y) (hd bs) k = Ok (CP_Create p)"
    "i = ccr_id p" "company = company_from_block_data p us" "company_chain_ok (sy_company Y) \<lparr>blocks = [hd bs]\<rparr>"
    "relevant = (co_status (replayed_status Y k us (tl bs) company) \<in> {CS_Active, CS_Invited})"
proof -
  let ?E = "sy_company Y"
  from assms obtain whole first data where new: "company_new_from_blocks ?E bs = Ok whole"
    and valid: "is_chain_valid (company_ops ?E) (cenv_ext ?E) whole = Ok True"
    and first: "get_first_block whole = (Ok first :: (CompanyBlock, TransportError) result)"
    and payload: "get_block_data ?E first k = Ok data"
    by (auto simp: company_get_valid_chain_def Let_def and_then_eq_Ok map_err_eq seq_eq_Ok company_block_err_def split: if_splits)
  from assms have run: "(case data of CP_Create payload \<Rightarrow>
          (let company = company_from_block_data payload us;
               status = co_status (replayed_status Y k us (tl bs) company) in
           and_then (company_block_err Y (company_new_from_blocks ?E [first])) (\<lambda>return_chain.
           Ok (ccr_id payload, company, return_chain, status = CS_Active \<or> status = CS_Invited)))
        | _ \<Rightarrow> Err (T_Blockchain ''First block of newly received company chain is not a Create block''))
      = Ok (i, company, chain, relevant)"
    by (simp add: company_get_valid_chain_def new valid first payload company_block_err_def seq_def reject_if_def Let_def cong: CompanyBlockPayload.case_cong)
  from run obtain p where data: "get_block_data ?E first k = Ok (CP_Create p)" and start: "company_new_from_blocks ?E [first] = Ok chain"
    and rest: "i = ccr_id p" "company = company_from_block_data p us"
      "relevant = (co_status (replayed_status Y k us (tl bs) company) \<in> {CS_Active, CS_Invited})"
    using payload by (cases data) (auto simp: Let_def and_then_eq_Ok map_err_eq company_block_err_def)
  from new have whole: "whole = \<lparr>blocks = bs\<rparr>" "bs \<noteq> []" unfolding company_new_from_blocks_iff by blast+
  with first have [simp]: "first = hd bs" by (cases bs) (auto simp: get_first_block_def)
  from start have "chain = \<lparr>blocks = [hd bs]\<rparr>" "company_chain_ok ?E \<lparr>blocks = [hd bs]\<rparr>"
    unfolding company_new_from_blocks_iff by (auto simp: company_chain_ok_def is_chain_valid_def)
  with whole data rest show ?thesis by (intro that) simp_all
qed

text \<open>The rest of \<open>company_add_new_chain\<close> once the company and its keys are stored.\<close>

definition company_saved_chain :: "SyncEnv \<Rightarrow> CompanyBlock list \<Rightarrow> BcrKeys \<Rightarrow> NodeId \<Rightarrow> NodeId \<Rightarrow> Company \<Rightarrow> unit sync" where
  "company_saved_chain Y bs keys us i company =
     then_act (save_company_block Y i (hd bs))
    (then_act (anchor_files Y
       [map_option (Pair (FC_Company (co_id company) ''logo_file'')) (co_logo_file company),
        map_option (Pair (FC_Company (co_id company) ''proof_of_registration_file'')) (co_proof_of_registration_file company)])
    (bind_act (add_each (add_company_block Y i keys us) company \<lparr>blocks = [hd bs]\<rparr> (tl bs)) (\<lambda>company'.
     then_act (ensure_nostr_contact i)
    (then_act (for_each (\<lambda>s. ensure_nostr_contact (sgn_node_id s)) (co_signatories company'))
     (add_contact_if_new Y i (company_contact Y i company'))))))"

lemma new_company_run:
  assumes "company_get_valid_chain Y bs k us = Ok (i, company, chain, True)" and "chain = \<lparr>blocks = [hd bs]\<rparr>"
  shows "company_add_new_chain Y bs k us =
     then_act (persisted Y (company_insert Y company))
    (then_act (save_company_keys Y i k) (then_act (transport_add_identity Y i k) (company_saved_chain Y bs k us i company)))"
proof -
  have "get_first_block \<lparr>blocks = [hd bs]\<rparr> = (Ok (hd bs) :: (CompanyBlock, TransportError) result)"
    by (simp add: get_first_block_def)
  then show ?thesis
    by (simp add: company_add_new_chain_def assms bind_lift company_saved_chain_def)
qed

lemma contact_leaves [leaves_intros]: "leaves members_part (add_contact_if_new Y i c)"
proof -
  have "leaves members_part (contact_insert Y i c)"
    by (auto simp: leaves_def contact_insert_def on_store_def Let_def split: option.splits prod.splits)
  from leaves_logged [OF leaves_persisted [OF this]] show ?thesis
    by (auto simp: leaves_def add_contact_if_new_def split: result.splits option.splits)
qed

lemma saved_chain_ok:
  assumes laws: "company_laws Y S" and ok: "companies_ok Y S s" and bs: "set bs \<subseteq> S" "bs \<noteq> []"
    and key: "map_of (sy_company_keys s) i = Some k" and fresh: "company_rows Y s i = []"
    and first: "get_block_data (sy_company Y) (hd bs) k = Ok (CP_Create p)" "cbl_company_id (hd bs) = i"
      "company_chain_ok (sy_company Y) \<lparr>blocks = [hd bs]\<rparr>"
    and run: "company_saved_chain Y bs k us i company s = (r, s')"
  shows "companies_ok Y S s'"
    and "r = Ok () \<Longrightarrow> company = company_from_block_data p us \<Longrightarrow> map_of (ss_companies (sy_node s)) i = Some company \<Longrightarrow>
         company_in_view Y us i s'"
proof -
  let ?E = "sy_company Y" and ?view = "company = company_from_block_data p us \<and> map_of (ss_companies (sy_node s)) i = Some company"
  define anchors where "anchors = anchor_files Y
       [map_option (Pair (FC_Company (co_id company) ''logo_file'')) (co_logo_file company),
        map_option (Pair (FC_Company (co_id company) ''proof_of_registration_file'')) (co_proof_of_registration_file company)]"
  define add where "add = add_each (add_company_block Y i k us) company \<lparr>blocks = [hd bs]\<rparr> (tl bs)"
  define finish where "finish = (\<lambda>company'. then_act (ensure_nostr_contact i)
    (then_act (for_each (\<lambda>s. ensure_nostr_contact (sgn_node_id s)) (co_signatories company'))
     (add_contact_if_new Y i (company_contact Y i company'))))"
  have leave: "leaves members_part anchors" "leaves members_part (finish c)" for c
    unfolding anchors_def finish_def by (intro leaves_intros)+
  obtain r1 s1 where save: "save_company_block Y i (hd bs) s = (r1, s1)" by fastforce
  have all: "company_saved_chain Y bs k us i company s = then_act (save_company_block Y i (hd bs)) (then_act anchors (bind_act add finish)) s"
    by (simp add: company_saved_chain_def anchors_def add_def finish_def)
  have b: "hd bs \<in> S" "set (tl bs) \<subseteq> S" using bs by (cases bs; auto)+
  let ?t = "ss_company_chain (sy_node s)"
  obtain r' t' where t: "company_store_add_block ?E (svc_company_db (sye_svc Y)) ?t i (hd bs) = (r', t')" by fastforce
  have s1: "s1 = s\<lparr>sy_node := (sy_node s)\<lparr>ss_company_chain := t'\<rparr>\<rparr>" and r1: "r1 = Ok () \<longleftrightarrow> r' = Ok ()"
    using save by (auto simp: save_company_block_def on_node_def company_chain_add_def t map_err_eq split: prod.splits)
  have step: "store_ok (company_table ?E) (cenv_ext ?E) S t' \<and> (t' = ?t \<and> r' \<noteq> Ok () \<or>
      r' = Ok () \<and> t' = ?t @ [company_block_to_db (cenv_ext ?E) (hd bs)])"
    using company_table.append_first [of ?E S ?t "hd bs" "svc_company_db (sye_svc Y)" i r' t'] laws ok b t
    by (simp add: company_laws_def companies_ok_def company_store_add_block_def)
  have "companies_ok Y S s' \<and> (r = Ok () \<and> ?view \<longrightarrow> company_in_view Y us i s')"
  proof (cases "r' = Ok ()")
    case False
    with step have "s1 = s" by (simp add: s1)
    with False r1 run all save ok show ?thesis by (cases r1) (auto simp: then_act_def bind_act_def)
  next
    case True
    with step r1 have r1: "r1 = Ok ()" and t': "t' = ?t @ [company_block_to_db (cenv_ext ?E) (hd bs)]" by auto
    have "company_reachable (sy_proc Y) ?E k \<lparr>blocks = [hd bs]\<rparr>" using first(3,1) by (rule company_create)
    with step key fresh first(2) t' have h1: "holds_company Y S i k \<lparr>blocks = [hd bs]\<rparr> s1"
      by (simp add: holds_company_def s1 rows_of_def)
    have only1: "only_company Y i s s1" using first(2) by (simp add: only_company_def s1 t' rows_of_def identity_part_def)
    obtain r2 s2 where a: "anchors s1 = (r2, s2)" by fastforce
    have m2: "members_part s2 = members_part s1" by (rule leavesD [OF leave(1) a])
    define view where "view = (if ?view then Some ([hd bs], company) else None)"
    have start: "replayed Y k us [hd bs] = Some company" if ?view
      using that first(1) by (simp add: replayed_def replayed_status_def)
    have rel: "company_rel Y S S view i k us s company \<lparr>blocks = [hd bs]\<rparr> s2"
    proof -
      have "company_rel Y S S view i k us s company \<lparr>blocks = [hd bs]\<rparr> s1"
        using laws h1 only1 by (auto simp: company_rel_def taken_up_def replayed_status_def view_def s1 split: if_splits)
      then show ?thesis unfolding members_company(3) [OF m2] .
    qed
    have fine: "\<forall>b \<in> set (tl bs). b \<in> S" using b(2) by auto
    obtain r3 s3 where e: "add s2 = (r3, s3)" by fastforce
    note each = company_adding.each_keeps [OF rel fine e [unfolded add_def]]
    have ok3: "companies_ok Y S s3" using stays_companies_ok [OF ok] each by blast
    have "company_stays Y S i k s s2" using rel by (auto simp: company_rel_def company_stays_def)
    then have ok2: "companies_ok Y S s2" by (rule stays_companies_ok [OF ok])
    have view3: "company_in_view Y us i s3" if "r3 = Ok c'" ?view for c'
      using each that company_rel_in_view [OF _ start [OF that(2)]] by (auto simp: view_def)
    define r4 s4 where "r4 = (\<lambda>c'. fst (finish c' s3))" and "s4 = (\<lambda>c'. snd (finish c' s3))"
    then have f: "finish c' s3 = (r4 c', s4 c')" for c' by simp
    have m4: "members_part (s4 c') = members_part s3" for c' by (rule leavesD [OF leave(2) f])
    have "then_act (save_company_block Y i (hd bs)) (then_act anchors (bind_act add finish)) s = (case r2 of Ok _ \<Rightarrow> (case r3 of Ok c' \<Rightarrow> (r4 c', s4 c') | Err x \<Rightarrow> (Err x, s3) | Panic \<Rightarrow> (Panic, s3))
        | Err x \<Rightarrow> (Err x, s2) | Panic \<Rightarrow> (Panic, s2))"
      by (cases r2; cases r3) (simp_all add: then_act_def bind_act_def save r1 a e f)
    note run = this [folded all, unfolded run]
    show ?thesis using run ok2 ok3 view3 companies_ok_members [OF m4] company_in_view_members [OF m4]
      by (cases r2; cases r3) auto
  qed
  then show "companies_ok Y S s'" and "r = Ok () \<Longrightarrow> company = company_from_block_data p us \<Longrightarrow>
      map_of (ss_companies (sy_node s)) i = Some company \<Longrightarrow> company_in_view Y us i s'" by blast+
qed

text \<open>Storing the company and its keys before its first block.\<close>

lemma insert_company_step:
  assumes "persisted Y (company_insert Y company) s = (r, s')"
  shows "companies_ok Y S s' = companies_ok Y S s" "company_rows Y s' = company_rows Y s" "sy_company_keys s' = sy_company_keys s"
    and "r = Ok () \<Longrightarrow> map_of (ss_companies (sy_node s')) (co_id company) = Some company"
proof -
  have s': "s' = s \<or> s' = s\<lparr>sy_node := (sy_node s)\<lparr>ss_companies := hm_insert (co_id company) company (ss_companies (sy_node s))\<rparr>\<rparr>"
    and row: "r = Ok () \<Longrightarrow> map_of (ss_companies (sy_node s')) (co_id company) = Some company"
    using assms by (auto simp: persisted_def act_map_err_def company_insert_def on_store_def create_row_def
        split: option.splits prod.splits)
  have same: "ss_company_chain (sy_node s') = ss_company_chain (sy_node s)" "sy_company_keys s' = sy_company_keys s"
    using s' by auto
  then show "companies_ok Y S s' = companies_ok Y S s" unfolding companies_ok_def by simp
  show "company_rows Y s' = company_rows Y s" "sy_company_keys s' = sy_company_keys s" using same by simp_all
  show "r = Ok () \<Longrightarrow> map_of (ss_companies (sy_node s')) (co_id company) = Some company" by (rule row)
qed

lemma save_keys_step:
  assumes ok: "companies_ok Y S s" and fresh: "company_rows Y s i = []" and run: "save_company_keys Y i k s = (r, s')"
  shows "companies_ok Y S s'" "company_rows Y s' = company_rows Y s" "ss_companies (sy_node s') = ss_companies (sy_node s)"
    and "r = Ok () \<Longrightarrow> map_of (sy_company_keys s') i = Some k"
proof -
  have s': "s' = s \<or> s' = s\<lparr>sy_company_keys := hm_insert i k (sy_company_keys s)\<rparr>"
    and key: "r = Ok () \<Longrightarrow> map_of (sy_company_keys s') i = Some k"
    using run by (auto simp: save_company_keys_def act_map_err_def company_save_key_pair_def on_store_def create_row_def
        split: option.splits prod.splits)
  show "companies_ok Y S s'"
  proof (cases "s' = s")
    case False
    with s' have s': "s' = s\<lparr>sy_company_keys := hm_insert i k (sy_company_keys s)\<rparr>" by simp
    show ?thesis using ok fresh unfolding companies_ok_def s' by (simp split: if_splits)
  qed (use ok in simp)
  from s' show "company_rows Y s' = company_rows Y s" "ss_companies (sy_node s') = ss_companies (sy_node s)" by auto
  show "r = Ok () \<Longrightarrow> map_of (sy_company_keys s') i = Some k" by (rule key)
qed

lemma new_company_ok:
  assumes laws: "company_laws Y S" and ok: "companies_ok Y S s" and bs: "set bs \<subseteq> S" and own: "chain_of_company Y i k bs"
    and fresh: "company_rows Y s i = []" and run: "company_add_new_chain Y bs k us s = (r, s')"
  shows "companies_ok Y S s'" and "r = Ok () \<Longrightarrow> s' = s \<or> company_in_view Y us i s'"
proof -
  have "companies_ok Y S s' \<and> (r = Ok () \<longrightarrow> s' = s \<or> company_in_view Y us i s')"
  proof (cases "company_get_valid_chain Y bs k us")
    case (Ok v)
    obtain j company chain relevant where v: "v = (j, company, chain, relevant)" by (metis prod_cases4)
    from Ok [unfolded v] obtain p where p: "bs \<noteq> []" "chain = \<lparr>blocks = [hd bs]\<rparr>"
      "get_block_data (sy_company Y) (hd bs) k = Ok (CP_Create p)" "j = ccr_id p" "company = company_from_block_data p us"
      "company_chain_ok (sy_company Y) \<lparr>blocks = [hd bs]\<rparr>" by (rule company_get_valid_chain_Ok)
    from own p(1,3) have i: "cbl_company_id (hd bs) = i" "ccr_id p = i" by (auto simp: chain_of_company_def)
    with p(4,5) have co: "j = i" "co_id company = i" by (simp_all add: company_from_block_data_def)
    show ?thesis
    proof (cases relevant)
      case False
      with run ok show ?thesis by (auto simp: company_add_new_chain_def Ok v bind_lift ret_def)
    next
      case True
      obtain r1 s1 where a: "persisted Y (company_insert Y company) s = (r1, s1)" by fastforce
      note one = insert_company_step [OF a]
      from one(1) ok have ok1: "companies_ok Y S s1" by simp
      from one(2) fresh have fresh1: "company_rows Y s1 i = []" by simp
      obtain r2 s2 where b: "save_company_keys Y i k s1 = (r2, s2)" by fastforce
      note two = save_keys_step [OF ok1 fresh1 b]
      obtain r3 s3 where c: "transport_add_identity Y i k s2 = (r3, s3)" by fastforce
      have m3: "members_part s3 = members_part s2" by (rule leavesD [OF notification_leaves(9) c])
      then have ok3: "companies_ok Y S s3" using two(1) companies_ok_members by blast
      obtain r4 s4 where d: "company_saved_chain Y bs k us i company s3 = (r4, s4)" by fastforce
      have last: "companies_ok Y S s4 \<and> (r4 = Ok () \<longrightarrow> company_in_view Y us i s4)" if "r1 = Ok ()" "r2 = Ok ()"
      proof -
        have key: "map_of (sy_company_keys s3) i = Some k" and rows: "company_rows Y s3 i = []"
          and view: "map_of (ss_companies (sy_node s3)) i = Some company"
          using m3 one(4) [OF that(1)] two(2,3,4) fresh1 that co by (simp_all add: members_part_def companies_part_def)
        from saved_chain_ok [OF laws ok3 bs p(1) key rows p(3) i(1) p(6) d] p(5) view show ?thesis by blast
      qed
      have "company_add_new_chain Y bs k us s =
          (case r1 of Ok _ \<Rightarrow> (case r2 of Ok _ \<Rightarrow> (case r3 of Ok _ \<Rightarrow> (r4, s4) | Err x \<Rightarrow> (Err x, s3) | Panic \<Rightarrow> (Panic, s3))
            | Err x \<Rightarrow> (Err x, s2) | Panic \<Rightarrow> (Panic, s2)) | Err x \<Rightarrow> (Err x, s1) | Panic \<Rightarrow> (Panic, s1))"
        using new_company_run [of Y bs k us j company chain] Ok v True p(2) co(1)
        by (cases r1; cases r2; cases r3) (simp_all add: then_act_def bind_act_def a b c d)
      from this [unfolded run] show ?thesis using ok1 two(1) ok3 last by (cases r1; cases r2; cases r3) auto
    qed
  qed (use run ok in \<open>auto simp: company_add_new_chain_def bind_act_def lift_def\<close>)
  then show "companies_ok Y S s'" and "r = Ok () \<Longrightarrow> s' = s \<or> company_in_view Y us i s'" by blast+
qed

section \<open>Received data\<close>

lemma unreadable_company_is_empty:
  assumes "company_laws Y S" "companies_ok Y S s" "db_fails (svc_company_db (sye_svc Y)) Select_Chain = None"
    and "stored_company_chain Y i s = Err e"
  shows "company_rows Y s i = []"
proof -
  let ?get = "store_get_chain (company_table (sy_company Y)) (svc_company_db (sye_svc Y)) (ss_company_chain (sy_node s)) i"
  from assms(4) have "\<exists>e. ?get = Err e"
    by (cases ?get) (auto simp: stored_company_chain_def company_chain_get_def company_store_get_chain_def)
  then obtain e' where "?get = Err e'" by blast
  from company_table.unreadable_is_empty [OF _ _ assms(3) this] assms(1,2) show ?thesis
    by (auto simp: company_laws_def companies_ok_def)
qed

lemma held_company_readable:
  assumes "company_laws Y S" "holds_company Y S i k c s" "db_fails (svc_company_db (sye_svc Y)) Select_Chain = None"
  shows "stored_company_chain Y i s = Ok c"
proof -
  have "blocks c \<noteq> []" using assms(2) by (auto simp: holds_company_def dest: company_reachable_nonempty)
  from company_store.get_chain_stored [OF _ held_company_stored(1) [OF assms(1,2)] this assms(3)] assms(1)
  have "stored_company_chain Y i s = Ok \<lparr>blocks = blocks c\<rparr>"
    by (simp add: company_laws_def stored_company_chain_def company_chain_get_def company_store_get_chain_def)
  then show ?thesis by simp
qed

lemma known_company_readable:
  assumes "company_laws Y S" "companies_ok Y S s" "db_fails (svc_company_db (sye_svc Y)) Select_Chain = None"
    and "map_of (sy_company_keys s) i = Some k"
  shows "company_rows Y s i = [] \<or> (\<exists>c. stored_company_chain Y i s = Ok c \<and> company_reachable (sy_proc Y) (sy_company Y) k c)"
proof (cases "company_rows Y s i = []")
  case False
  with assms(2,4) obtain c where c: "company_reachable (sy_proc Y) (sy_company Y) k c" "company_rows Y s i = company_chain_rows Y (blocks c)"
    unfolding companies_ok_def by blast
  with assms(2,4) have h: "holds_company Y S i k c s" by (simp add: holds_company_def companies_ok_def)
  from held_company_readable [OF assms(1) h assms(3)] c(1) show ?thesis by blast
qed simp

text \<open>What \<open>company_process_chain_data\<close> does, by cases.\<close>

lemma company_process_cases:
  assumes "company_process_chain_data Y i bs keys s = (r, s')"
  obtains (nothing) "s' = s" "r \<noteq> Ok ()"
  | (known) c n where "stored_company_chain Y i s = Ok c" "ss_identity (sy_node s) = Some n"
      "add_company_blocks Y i c bs (ident_node_id n) s = (r, s')"
  | (new) k n e where "stored_company_chain Y i s = Err e" "keys = Some k" "ss_identity (sy_node s) = Some n"
      "company_add_new_chain Y bs k (ident_node_id n) s = (r, s')"
proof -
  let ?go = "\<lambda>identity s. case stored_company_chain Y i s of
          Ok existing_chain \<Rightarrow> add_company_blocks Y i existing_chain bs (ident_node_id identity) s
        | Err _ \<Rightarrow>
            (case keys of
               Some k \<Rightarrow> company_add_new_chain Y bs k (ident_node_id identity) s
             | None \<Rightarrow> (Err (T_Blockchain ''Received company blocks for unknown company''), s))
        | Panic \<Rightarrow> (Panic, s)"
  show ?thesis
  proof (cases "x_node_network (svc_ext (sye_svc Y)) i \<noteq> proc_bitcoin_network (sy_proc Y)")
    case True
    with assms have "s' = s \<and> r \<noteq> Ok ()" by (auto simp: company_process_chain_data_def)
    then show ?thesis using that(1) by simp
  next
    case False
    with assms have run: "bind_act (persisted Y (identity_get Y)) ?go s = (r, s')" by (simp add: company_process_chain_data_def)
    from bind_company_reads(3) [of Y ?go s] consider e where "(r, s') = (Err e, s)"
      | n where "ss_identity (sy_node s) = Some n" "?go n s = (r, s')" unfolding run by metis
    then show ?thesis
    proof cases
      case (2 n)
      then show ?thesis using that(1) that(2) [of _ n] that(3) [of _ _ n]
        by (cases "stored_company_chain Y i s"; cases keys) auto
    qed (use that(1) in auto)
  qed
qed

theorem company_process_chain_data_ok:
  assumes "company_laws Y S" and "company_relays_within Y S" and "db_fails (svc_company_db (sye_svc Y)) Select_Chain = None"
    and "companies_ok Y S s" and "set bs \<subseteq> S" and "\<And>k. keys = Some k \<Longrightarrow> chain_of_company Y i k bs"
  shows "companies_ok Y S (snd (company_process_chain_data Y i bs keys s))"
proof -
  obtain r s' where run: "company_process_chain_data Y i bs keys s = (r, s')" by fastforce
  then show ?thesis
  proof (cases rule: company_process_cases)
    case (known c n)
    from known_company_ok [OF assms(1,2,4) known(1) assms(5), of "ident_node_id n"] show ?thesis by (simp add: run known)
  next
    case (new k n e)
    from new_company_ok(1) [OF assms(1,4,5) assms(6) [OF new(2)] unreadable_company_is_empty [OF assms(1,4,3) new(1)] new(4)]
    show ?thesis by (simp add: run)
  qed (use run assms(4) in simp)
qed

theorem company_process_chain_data_view:
  assumes "company_laws Y S" and "db_fails (svc_company_db (sye_svc Y)) Select_Chain = None"
    and "companies_ok Y S s" and "set bs \<subseteq> S" and "\<And>k. keys = Some k \<Longrightarrow> chain_of_company Y i k bs"
    and "ss_identity (sy_node s) = Some n" and "\<And>c. stored_company_chain Y i s = Ok c \<Longrightarrow> company_in_view Y (ident_node_id n) i s"
    and "company_process_chain_data Y i bs keys s = (Ok (), s')" and "s' \<noteq> s"
  shows "company_in_view Y (ident_node_id n) i s' \<or> length bs = 1 \<and> company_resync_chain Y i s = (Ok (), s')"
  using assms(8)
proof (cases rule: company_process_cases)
  case (known c m)
  with assms(6) have [simp]: "m = n" by simp
  from known_company_view [OF assms(1,3) assms(7) [OF known(1)] known(1) assms(4) known(3) [simplified]] show ?thesis .
next
  case (new k m e)
  with assms(6) have [simp]: "m = n" by simp
  from new_company_ok(2) [OF assms(1,3,4) assms(5) [OF new(2)] unreadable_company_is_empty [OF assms(1,3,2) new(1)] new(4)] assms(9)
  show ?thesis by simp
qed simp

end
