(* ===== verification/Company_Resync.thy ===== *)
theory Company_Resync
  imports Company_Sync_Invariant Event_Chains_Props
begin

text \<open>
  What a resynchronisation that succeeds does to a stored company: the chain is cut at the fork point and continued with
  blocks of the adopted candidate, but the stored company only takes up the latter. The effects of the blocks that were
  cut off stay.
\<close>

text \<open>What the relays answer can only contain blocks that some event decodes to.\<close>

lemma decoded_relays_within:
  assumes "\<And>d e. from_slice (een_company_event (sye_event Y)) d = Inr e \<Longrightarrow> cbe_block e \<in> S"
  shows "company_relays_within Y S"
  unfolding company_relays_within_def
proof (intro allI impI subsetI)
  fix i k cands data b
  assume run: "resolve_chain Y i BT_Company k = Ok cands" and data: "data \<in> set cands" and b: "b \<in> set (company_blocks_of data)"
  from run obtain events fuel where "resolve_event_chains fuel (sye_event Y) (Ok events) i BT_Company (Some k) = Some (Ok cands)"
    by (cases "sye_public_chain Y i BT_Company")
      (auto simp: resolve_chain_def Let_def resolve_event_chains_def split: option.splits)
  note blocks = resolved_block [OF this data]
  from b obtain x where "x \<in> set data" "evc_block x = BD_Company b"
    by (auto simp: company_blocks_of_def List.map_filter_def split: BlockData.splits)
  with blocks company_block_decoded assms show "b \<in> S" by metis
qed

lemma adopt_preferred_adopts:
  assumes "adopt_preferred Bl blocks_in validate adopt existing cands s = (Ok (), s')"
  shows "s' = s \<or> (\<exists>data \<in> set cands. \<exists>fp. blocks_in data \<noteq> [] \<and>
     resolve_fork Bl (blocks existing) (blocks_in data) = (True, fp) \<and>
     validate (truncated Bl fp existing) (blocks_in data) = Ok () \<and> adopt fp data s = (Ok (), s'))"
  using assms
proof (induction cands)
  case Nil
  then show ?case by (simp add: ret_def)
next
  case (Cons data rest)
  obtain p fp where f: "resolve_fork Bl (blocks existing) (blocks_in data) = (p, fp)" by fastforce
  show ?case
  proof (cases "blocks_in data = [] \<or> \<not> p \<or> (\<exists>e. validate (truncated Bl fp existing) (blocks_in data) = Err e)")
    case True
    with Cons.prems f have "adopt_preferred Bl blocks_in validate adopt existing rest s = (Ok (), s')"
      by (cases p) (auto simp: Let_def split: if_splits)
    from Cons.IH [OF this] show ?thesis by auto
  next
    case False
    with Cons.prems f show ?thesis
      by (cases "validate (truncated Bl fp existing) (blocks_in data)") (auto simp: Let_def lift_def)
  qed
qed

text \<open>Adding blocks after a cut: the loop runs to its end, with the stored company at its start.\<close>

lemma resync_adds:
  assumes laws: "company_laws Y S" and h: "holds_company Y S i k c s" and bs: "set bs \<subseteq> S"
    and row: "map_of (ss_companies (sy_node s)) i = Some company"
    and run: "add_company_blocks_with Y resync i c bs us True s = (Ok (), s')"
  shows "\<exists>company' c'. company_rel Y S (set bs) (Some (blocks c, company)) i k us s company' c' s'"
proof -
  let ?loop = "\<lambda>keys company. sync_blocks_loop (company_ops (sy_company Y)) (add_company_block Y i keys us) resync
       False company c (cbl_id (last (blocks c))) bs"
  have "blocks c \<noteq> []" using company_reachable_nonempty h by (auto simp: holds_company_def)
  then have "get_latest_block c = (Ok (last (blocks c)) :: (CompanyBlock, TransportError) result)"
    by (simp add: get_latest_block_def last_opt_def)
  then have "add_company_blocks_with Y resync i c bs us True s =
      bind_act (persisted Y (company_get_key_pair Y i)) (\<lambda>keys. bind_act (persisted Y (company_find Y i)) (?loop keys)) s"
    by (simp add: add_company_blocks_with_def bind_lift)
  moreover have "map_of (sy_company_keys s) i = Some k" using h by (simp add: holds_company_def)
  ultimately have loop: "?loop k company s = (Ok (), s')"
    using run row bind_company_reads(1) [of Y i "\<lambda>keys. bind_act (persisted Y (company_find Y i)) (?loop keys)" s]
      bind_company_reads(2) [of Y i "?loop k" s] by auto
  have rel: "company_rel Y S (set bs) (Some (blocks c, company)) i k us s company c s"
    using laws h bs row by (simp add: company_rel_def taken_up_def replayed_status_def)
  show ?thesis by (rule company_adding.loop_holds [OF rel _ _ loop]) auto
qed

lemma adopted_company:
  assumes laws: "company_laws Y S" and h: "holds_company Y S i k c s" and bs: "set bs \<subseteq> S"
    and row: "map_of (ss_companies (sy_node s)) i = Some company" and pos: "\<And>f. fp = Some f \<Longrightarrow> 1 < block_number f"
    and run: "adopt_chain Y i BT_Company (company_remove_from Y i)
      (add_company_blocks_with Y (ret ()) i (truncated (company_ops (sy_company Y)) fp c) bs us True) fp data s = (Ok (), s')"
  shows "\<exists>added. set added \<subseteq> set bs \<and>
     holds_company Y S i k \<lparr>blocks = blocks (truncated (company_ops (sy_company Y)) fp c) @ added\<rparr> s' \<and>
     map_of (ss_companies (sy_node s')) i = Some (replayed_status Y k us added company)"
proof -
  let ?c = "truncated (company_ops (sy_company Y)) fp c"
  define cut where "cut = (case fp of Some f \<Rightarrow> company_remove_from Y i f | None \<Rightarrow> ret ())"
  define add where "add = add_company_blocks_with Y (ret ()) i ?c bs us True"
  define rest where "rest = then_act (logged (drop_events Y i BT_Company))
     (for_each (\<lambda>c. logged (save_event Y (as_chain_store_event (sye_event Y) c i BT_Company
        (unat (get_block_height (evc_block c)))))) data)"
  from run have "then_act cut (then_act add rest) s = (Ok (), s')" by (simp add: adopt_chain_def cut_def add_def rest_def)
  then obtain s1 s2 where s1: "cut s = (Ok (), s1)" and s2: "add s1 = (Ok (), s2)" and s': "rest s2 = (Ok (), s')"
    by (auto simp: then_act_def bind_act_def split: prod.splits result.splits)
  have h1: "holds_company Y S i k ?c s1" and row1: "map_of (ss_companies (sy_node s1)) i = Some company"
  proof -
    show "holds_company Y S i k ?c s1"
    proof (cases fp)
      case None
      with s1 h show ?thesis by (simp add: cut_def ret_def truncated_def)
    next
      case (Some f)
      with s1 have "company_remove_from Y i f s = (Ok (), s1)" by (simp add: cut_def)
      from company_remove_step [OF laws h pos [OF Some] this] Some show ?thesis by (auto simp: truncated_def)
    qed
    show "map_of (ss_companies (sy_node s1)) i = Some company"
      using s1 row by (auto simp: cut_def ret_def company_remove_from_def split: option.splits prod.splits)
  qed
  from resync_adds [OF laws h1 bs row1 s2 [unfolded add_def]] obtain company' c'
    where rel: "company_rel Y S (set bs) (Some (blocks ?c, company)) i k us s1 company' c' s2" by blast
  have "leaves members_part rest" unfolding rest_def by (intro leaves_intros)
  from members_company(3) [OF leavesD [OF this s']] rel
  have "company_rel Y S (set bs) (Some (blocks ?c, company)) i k us s1 company' c' s'" by simp
  then obtain added where "set added \<subseteq> set bs" "blocks c' = blocks ?c @ added" "holds_company Y S i k c' s'"
    "map_of (ss_companies (sy_node s')) i = Some (replayed_status Y k us added company)"
    by (auto simp: company_rel_def taken_up_def)
  moreover from this(2) have "c' = \<lparr>blocks = blocks ?c @ added\<rparr>" by (cases c') simp
  ultimately show ?thesis by (intro exI [of _ added]) simp
qed

lemma resynchronised_company:
  assumes laws: "company_laws Y S" and relays: "company_relays_within Y S" and ok: "companies_ok Y S s"
    and stored: "stored_company_chain Y i s = Ok c" and key: "map_of (sy_company_keys s) i = Some k"
    and us: "ss_identity (sy_node s) = Some us" and row: "map_of (ss_companies (sy_node s)) i = Some company"
    and run: "company_resync_chain Y i s = (Ok (), s')"
  shows "s' = s \<or> (\<exists>chains data fp added. resolve_chain Y i BT_Company k = Ok chains \<and> data \<in> set chains \<and>
     resolve_fork (company_ops (sy_company Y)) (blocks c) (company_blocks_of data) = (True, fp) \<and>
     set added \<subseteq> set (company_blocks_of data) \<and>
     holds_company Y S i k \<lparr>blocks = blocks (truncated (company_ops (sy_company Y)) fp c) @ added\<rparr> s' \<and>
     map_of (ss_companies (sy_node s')) i = Some (replayed_status Y k (ident_node_id us) added company))"
proof -
  note h = known_company_held [OF laws ok stored key]
  have sk: "fst (company_get_key_pair Y i s) = Ok k"
    using run key stored by (auto simp: company_resync_chain_def company_get_key_pair_def on_store_def ok_or_def split: option.splits)
  let ?cands = "\<lambda>us. adopt_preferred (company_ops (sy_company Y)) company_blocks_of
      (\<lambda>chain bs. fst (validate_company_blocks_for_chain (sy_proc Y) (sy_company Y) chain bs k))
      (\<lambda>fp data. adopt_chain Y i BT_Company (company_remove_from Y i)
        (add_company_blocks_with Y (ret ()) i (truncated (company_ops (sy_company Y)) fp c) (company_blocks_of data) us True) fp data) c"
  let ?go = "\<lambda>identity. case resolve_chain Y i BT_Company k of
        Ok chain_data \<Rightarrow> ?cands (ident_node_id identity) chain_data
      | Err _ \<Rightarrow> lift (Err (T_Network (''Could not refetch chain data from Nostr for company '' @ i)))
      | Panic \<Rightarrow> lift Panic"
  have "company_resync_chain Y i s = bind_act (persisted Y (identity_get Y)) ?go s"
    by (simp add: company_resync_chain_def stored sk)
  with run us bind_company_reads(3) [of Y ?go s] have go: "?go us s = (Ok (), s')" by auto
  then obtain chains where chains: "resolve_chain Y i BT_Company k = Ok chains"
    by (cases "resolve_chain Y i BT_Company k") (simp_all add: lift_def)
  with go have "?cands (ident_node_id us) chains s = (Ok (), s')" by simp
  from adopt_preferred_adopts [OF this] show ?thesis
  proof (elim disjE bexE exE conjE)
    fix data fp
    assume data: "data \<in> set chains" "resolve_fork (company_ops (sy_company Y)) (blocks c) (company_blocks_of data) = (True, fp)"
      and adopt: "adopt_chain Y i BT_Company (company_remove_from Y i)
        (add_company_blocks_with Y (ret ()) i (truncated (company_ops (sy_company Y)) fp c) (company_blocks_of data)
          (ident_node_id us) True) fp data s = (Ok (), s')"
    have bs: "set (company_blocks_of data) \<subseteq> S" using relays chains data(1) by (auto simp: company_relays_within_def)
    have pos: "1 < block_number f" if "fp = Some f" for f
      using company_table.fork_after_first [OF held_company_stored(1) [OF laws h]] data(2) that by auto
    from adopted_company [OF laws h bs row pos adopt] chains data show ?thesis by blast
  qed simp
qed

end
