(* ===== verification/Member_Instance.thy ===== *)
theory Member_Instance
  imports Sync_Instance Company_Resync
begin

text \<open>
  A node that receives the company of \<open>Ebill_Instance\<close>: it is invited, it accepts, a fork takes the invitation off the chain
  again, and a stranger founds a company in its name.
\<close>

section \<open>A receiving node\<close>

definition member_env0 :: "CompanyEnv \<Rightarrow> (char \<times> CompanyBlock) list \<Rightarrow> NostrEvent list \<Rightarrow> SyncEnv" where
  "member_env0 E bs events = (sync_env0 E0 [] events)\<lparr>
     sye_svc := S0\<lparr>svc_proc := P0, svc_company := E\<rparr>,
     sye_event := (event_env0 P0 [])\<lparr>
       een_blockchain_address := (\<lambda>tag. case tag of [a] \<Rightarrow> Some (''co'', Some ''company'') | _ \<Rightarrow> None),
       een_company_event := \<lparr>to_vec = (\<lambda>_. Inl ''none''), from_slice = (\<lambda>d.
         case map_of bs (hd (bytes_string d)) of
           Some b \<Rightarrow> Inr \<lparr>cbe_node_id = cbl_company_id b, cbe_block_height = unat (bid_inner (cbl_id b)), cbe_block = b\<rparr>
         | None \<Rightarrow> Inl ''unknown'')\<rparr>\<rparr>\<rparr>"

text \<open>A node without companies whose identity is \<open>n\<close>.\<close>

definition member_state0 :: "NodeId \<Rightarrow> SyncState" where
  "member_state0 n = (sync_state0 [] [])\<lparr>sy_node := state0\<lparr>ss_identity := Some (identity0\<lparr>ident_node_id := n\<rparr>)\<rparr>\<rparr>"

text \<open>What a run leaves: whether it succeeded, the kinds of the stored blocks, the stored companies and the keys.\<close>

definition company_outcome0 :: "(unit, TransportError) result \<times> SyncState \<Rightarrow>
    bool \<times> CompanyOpCode list \<times> (NodeId \<times> CompanyStatus \<times> NodeId list) list \<times> NodeId list" where
  "company_outcome0 r = (case r of (x, s) \<Rightarrow>
     (x = Ok (), map cdb_op_code (ss_company_chain (sy_node s)),
      map (\<lambda>(i, c). (i, co_status c, map sgn_node_id (co_signatories c))) (ss_companies (sy_node s)), map fst (sy_company_keys s)))"

abbreviation quiet_member0 :: SyncEnv where
  "quiet_member0 \<equiv> member_env0 CE0 [] []"

section \<open>Invited, accepted\<close>

definition invited_run0 :: "(unit, TransportError) result \<times> SyncState" where
  "invited_run0 = company_process_chain_data quiet_member0 ''co'' [created0, proved_D0, invited0] (Some bill_key0) (member_state0 ''C'')"

definition accepted_run0 :: "(unit, TransportError) result \<times> SyncState" where
  "accepted_run0 = company_process_chain_data quiet_member0 ''co'' [accepted_C0] None (snd invited_run0)"

section \<open>A company founded by somebody else\<close>

text \<open>A creation block signed by \<open>M\<close> that names \<open>D\<close> as the creator.\<close>

definition forged0 :: CompanyBlock where
  "forged0 = cblock0 1 C_Create (CHR ''M'') 0"

definition forged_run0 :: "(unit, TransportError) result \<times> SyncState" where
  "forged_run0 = company_process_chain_data quiet_member0 ''co'' [forged0] (Some bill_key0) (member_state0 ''D'')"

section \<open>A fork\<close>

text \<open>The hash depends on the kind of the block as well; the relays have a longer chain without the invitation.\<close>

definition op_tag4 :: "CompanyOpCode \<Rightarrow> u8" where
  "op_tag4 op = (if op = C_InviteSignatory then 16 else 0)"

definition CE4 :: CompanyEnv where
  "CE4 = CE0\<lparr>cc_data_to_hash := \<lparr>to_vec = (\<lambda>d. Inr [ucast (bid_inner (cdh_id d)) + op_tag4 (cdh_op_code d)]),
     from_slice = (\<lambda>_. Inl ''none'')\<rparr>\<rparr>"

definition cblock4 :: "u64 \<Rightarrow> CompanyOpCode \<Rightarrow> u8 \<Rightarrow> CompanyBlock" where
  "cblock4 i op payload = (cblock0 i op (CHR ''D'') payload)\<lparr>cbl_hash := hash_from_bytes X1 [ucast i + op_tag4 op],
     cbl_previous_hash := hash_from_bytes X1 [ucast (i - 1)],
     cbl_signature := SchnorrSignature (bytes_string (sha1 [ucast i + op_tag4 op] @ string_bytes ''DK''))\<rparr>"

definition shared4 :: "CompanyBlock list" where
  "shared4 = [cblock4 1 C_Create 0, cblock4 2 C_IdentityProof 1]"

abbreviation invite4 :: CompanyBlock where
  "invite4 \<equiv> cblock4 3 C_InviteSignatory 0"

definition remote4 :: "CompanyBlock list" where
  "remote4 = [cblock4 3 C_IdentityProof 1, cblock4 4 C_IdentityProof 1]"

definition forked_env4 :: SyncEnv where
  "forked_env4 = member_env0 CE4 (zip ''abcd'' (shared4 @ remote4))
     [event0 ''a'' [], event0 ''b'' [[''root'', ''a'']], event0 ''c'' [[''root'', ''a''], [''reply'', ''b'']],
      event0 ''d'' [[''root'', ''a''], [''reply'', ''c'']]]"

definition invited_run4 :: "(unit, TransportError) result \<times> SyncState" where
  "invited_run4 = company_process_chain_data forked_env4 ''co'' (shared4 @ [invite4]) (Some bill_key0)
     (member_state0 ''C'')"

definition forked_run4 :: "(unit, TransportError) result \<times> SyncState" where
  "forked_run4 = company_process_chain_data forked_env4 ''co'' [hd remote4] None (snd invited_run4)"

definition resync_run4 :: "(unit, TransportError) result \<times> SyncState" where
  "resync_run4 = company_resync_chain forked_env4 ''co'' (snd invited_run4)"

section \<open>A company under a foreign name\<close>

text \<open>A first block that carries another company id than the creation in its payload.\<close>

definition foreign_run0 :: "(unit, TransportError) result \<times> SyncState" where
  "foreign_run0 = company_process_chain_data quiet_member0 ''co'' [created0\<lparr>cbl_company_id := ''cx''\<rparr>] (Some bill_key0) (member_state0 ''D'')"

section \<open>What the runs show\<close>

text \<open>All runs in one evaluation, since most of its time goes into the definitions.\<close>

lemma member_runs0:
  "(company_outcome0 invited_run0 =
     (True, [C_Create, C_IdentityProof, C_InviteSignatory], [(''co'', CS_Invited, [''D'', ''C''])], [''co''])) \<and>
   (company_outcome0 accepted_run0 =
     (True, [C_Create, C_IdentityProof, C_InviteSignatory, C_SignatoryAcceptInvite], [(''co'', CS_Active, [''D'', ''C''])], [''co'']) \<and>
   map (nt_node_id \<circ> snd) (sy_notifications (snd accepted_run0)) = [Some ''C'']) \<and>
   (company_outcome0 forged_run0 = (True, [C_Create], [(''co'', CS_Active, [''D''])], [''co''])) \<and>
   (case company_verify_and_get_signer CE0 forged0 bill_key0 of Ok _ \<Rightarrow> False | _ \<Rightarrow> True) \<and>
   (company_outcome0 invited_run4 =
     (True, [C_Create, C_IdentityProof, C_InviteSignatory], [(''co'', CS_Invited, [''D'', ''C''])], [''co''])) \<and>
   (company_outcome0 forked_run4 =
     (True, [C_Create, C_IdentityProof, C_IdentityProof, C_IdentityProof], [(''co'', CS_Invited, [''D'', ''C''])], [''co''])) \<and>
   is_invited CE4 \<lparr>blocks = shared4 @ remote4\<rparr> ''C'' bill_key0 = Ok False \<and>
   (company_outcome0 resync_run4 =
     (True, [C_Create, C_IdentityProof, C_IdentityProof, C_IdentityProof], [(''co'', CS_Invited, [''D'', ''C''])], [''co''])) \<and>
   (stored_company_chain forked_env4 ''co'' (snd invited_run4) = Ok \<lparr>blocks = shared4 @ [invite4]\<rparr>) \<and>
   map_of (sy_company_keys (snd invited_run4)) ''co'' = Some bill_key0 \<and>
   map_option ident_node_id (ss_identity (sy_node (snd invited_run4))) = Some ''C'' \<and>
   (map_of (ss_companies (sy_node (snd invited_run4))) ''co'' = replayed forked_env4 bill_key0 ''C'' (shared4 @ [invite4])) \<and>
   (company_outcome0 foreign_run0 = (True, [C_Create], [(''co'', CS_Active, [''D''])], [''co''])) \<and>
   (map cdb_company_id (ss_company_chain (sy_node (snd foreign_run0))) = [''cx''])"
  by code_simp

lemma invitation_arrives0:
  "company_outcome0 invited_run0 =
     (True, [C_Create, C_IdentityProof, C_InviteSignatory], [(''co'', CS_Invited, [''D'', ''C''])], [''co''])"
  using member_runs0 by blast

text \<open>
  The acceptance makes the company active; nobody is notified of it, although \<open>D\<close>, who has invited \<open>C\<close>, is a proven
  signatory: the only notification is the one of the invitation.
\<close>

lemma acceptance_notifies_nobody0:
  "company_outcome0 accepted_run0 =
     (True, [C_Create, C_IdentityProof, C_InviteSignatory, C_SignatoryAcceptInvite], [(''co'', CS_Active, [''D'', ''C''])], [''co'']) \<and>
   map (nt_node_id \<circ> snd) (sy_notifications (snd accepted_run0)) = [Some ''C'']"
  using member_runs0 by blast

lemma forged_company_stored0:
  "company_outcome0 forged_run0 = (True, [C_Create], [(''co'', CS_Active, [''D''])], [''co''])"
  using member_runs0 by blast

lemma forged_signature0: "company_verify_and_get_signer CE0 forged0 bill_key0 \<noteq> Ok v"
  using member_runs0 by (auto split: result.splits)

lemma invitation_arrives4:
  "company_outcome0 invited_run4 =
     (True, [C_Create, C_IdentityProof, C_InviteSignatory], [(''co'', CS_Invited, [''D'', ''C''])], [''co''])"
  using member_runs0 by blast

lemma fork_keeps_invitation4:
  "company_outcome0 forked_run4 =
     (True, [C_Create, C_IdentityProof, C_IdentityProof, C_IdentityProof], [(''co'', CS_Invited, [''D'', ''C''])], [''co''])"
  using member_runs0 by blast

lemma not_invited4:
  "is_invited CE4 \<lparr>blocks = shared4 @ remote4\<rparr> ''C'' bill_key0 = Ok False"
  using member_runs0 by blast

lemma resync_keeps_invitation4:
  "company_outcome0 resync_run4 =
     (True, [C_Create, C_IdentityProof, C_IdentityProof, C_IdentityProof], [(''co'', CS_Invited, [''D'', ''C''])], [''co''])"
  "stored_company_chain forked_env4 ''co'' (snd invited_run4) = Ok \<lparr>blocks = shared4 @ [invite4]\<rparr>"
  "map_of (sy_company_keys (snd invited_run4)) ''co'' = Some bill_key0"
  "map_option ident_node_id (ss_identity (sy_node (snd invited_run4))) = Some ''C''"
  "map_of (ss_companies (sy_node (snd invited_run4))) ''co'' = replayed forked_env4 bill_key0 ''C'' (shared4 @ [invite4])"
  using member_runs0 by blast+

text \<open>
  \<^verbatim>\<open>process_chain_data\<close> compares the company it was called for neither with the id in the blocks nor with the one in the
  payload: the company and its keys are stored under the one, its chain under the other.
\<close>

lemma foreign_name_stored0:
  "company_outcome0 foreign_run0 = (True, [C_Create], [(''co'', CS_Active, [''D''])], [''co''])"
  "map cdb_company_id (ss_company_chain (sy_node (snd foreign_run0))) = [''cx'']"
  using member_runs0 by blast+

end
