(* ===== verification/Properties_Companies.thy ===== *)
theory Properties_Companies
  imports Member_Instance
begin

text \<open>
  Properties C38 to C40: what received chains do to the companies of a node.
\<close>

text \<open>
  C38. If a received company chain names the company for which it was received, in its first block and in the data of the
  creation (\<open>chain_of_company\<close>; the code does not check this), then whatever else its blocks are, whatever the relays
  answer and whichever statements fail: every company with keys that had no blocks or a chain that the processor has built
  with these keys still does, and such a chain can be read. Blocks hash without collisions and the database can
  read chains.
\<close>

theorem received_company_chains_keep_companies:
  assumes "company_laws Y S" and "company_relays_within Y S" and "db_fails (svc_company_db (sye_svc Y)) Select_Chain = None"
    and "companies_ok Y S s" and "set bs \<subseteq> S" and "\<And>k. keys = Some k \<Longrightarrow> chain_of_company Y i k bs"
    and run: "company_process_chain_data Y i bs keys s = (r, s')"
  shows "companies_ok Y S s' \<and>
         (\<forall>i k. map_of (sy_company_keys s') i = Some k \<longrightarrow> company_rows Y s' i = [] \<or>
            (\<exists>c. stored_company_chain Y i s' = Ok c \<and> company_reachable (sy_proc Y) (sy_company Y) k c))"
proof -
  have "companies_ok Y S (snd (company_process_chain_data Y i bs keys s))"
    by (rule company_process_chain_data_ok) (use assms in auto)
  then have "companies_ok Y S s'" by (simp add: run)
  with known_company_readable [OF assms(1) this assms(3)] show ?thesis by blast
qed

text \<open>The node \<open>C\<close> receives a company with its own invitation.\<close>

abbreviation invitation0 :: "CompanyBlock list" where
  "invitation0 \<equiv> [created0, proved_D0, invited0]"

lemma member_env0_simps [simp]:
  "sy_company (member_env0 E bs ev) = E" "sy_proc (member_env0 E bs ev) = P0"
  "db_fails (svc_company_db (sye_svc (member_env0 E bs ev))) c = None"
  by (simp_all add: member_env0_def S0_def)

lemma member_state0_simps [simp]:
  "ss_company_chain (sy_node (member_state0 n)) = []" "sy_company_keys (member_state0 n) = []"
  "ss_identity (sy_node (member_state0 n)) = Some (identity0\<lparr>ident_node_id := n\<rparr>)"
  by (simp_all add: member_state0_def sync_state0_def state0_def)

lemma company_hash0:
  "calculate_hash X1 (blk_hash_codec (company_ops CE0)) (blk_data_to_hash (company_ops CE0) (cblock0 i op n p)) =
     Ok (hash_from_bytes X1 [ucast i])"
  by (simp add: calculate_hash_def company_ops_def CE0_def company_block_data_to_hash_def cblock0_def)

lemma hash_byte1: "hash_from_bytes X1 [a] = hash_from_bytes X1 [b] \<longleftrightarrow> a = b"
proof
  assume "hash_from_bytes X1 [a] = hash_from_bytes X1 [b]"
  then have "bytes_string (sha1 [a]) = bytes_string (sha1 [b])" by (simp add: hash_from_bytes_def X1_def X0_def)
  then have "sha1 [a] = sha1 [b]" by (metis string_bytes_bytes_string)
  then show "a = b" by (simp add: sha1_def)
qed simp

lemma company_laws0: "company_laws quiet_member0 (set invitation0)"
  by (auto simp: company_laws_def no_collisions_def cblock0_defs CE0_sel laws_X1 cblock0_sel company_hash0 hash_byte1)

lemma company_relays0: "company_relays_within (member_env0 E bs []) S"
  by (auto simp: company_relays_within_def resolve_chain_def member_env0_def sync_env0_def resolve_event_chains_def
      collect_event_chains_def event_markers_def split_root_def sort_by_def)

lemma no_companies_ok0: "companies_ok quiet_member0 (set invitation0) (member_state0 n)"
proof -
  have "store_reachable (company_table CE0) X1 (set invitation0) [] []" by (rule store_empty)
  from company_store.reachable_store_ok [of CE0, unfolded CE0_sel, OF laws_X1(1) _ this] company_laws0
  show ?thesis by (simp add: companies_ok_def company_laws_def CE0_sel)
qed

lemma invitation_named0: "chain_of_company quiet_member0 ''co'' k invitation0"
  by (simp add: chain_of_company_def company_blocks0 company_data0 company0_def)

lemma invitation_accepted0:
  obtains s' where "company_process_chain_data quiet_member0 ''co'' invitation0 (Some bill_key0) (member_state0 ''C'') = (Ok (), s')"
    "snd invited_run0 = s'" "map fst (sy_company_keys s') = [''co'']"
  using invitation_arrives0 by (cases invited_run0) (auto simp: invited_run0_def company_outcome0_def)

theorem received_company_chains_keep_companies_witness:
  "map fst (sy_company_keys (snd invited_run0)) = [''co''] \<and>
   companies_ok quiet_member0 (set invitation0) (snd invited_run0)"
proof -
  from invitation_accepted0 obtain s' where run: "company_process_chain_data quiet_member0 ''co'' invitation0 (Some bill_key0)
      (member_state0 ''C'') = (Ok (), s')" "snd invited_run0 = s'" "map fst (sy_company_keys s') = [''co'']" .
  from received_company_chains_keep_companies [OF company_laws0 company_relays0 _ no_companies_ok0 _ _ run(1)] run(2,3)
  show ?thesis using invitation_named0 by simp
qed

text \<open>
  C39. Suppose that the stored company, if it has a chain, equals the replay of this chain: the creation read for
  the own identity, then the payload of every further block. Then a delivery that succeeds and changes something
  keeps it so, or makes it so for a new company whose chain names it (\<open>chain_of_company\<close>), unless the single received
  block started a resynchronisation of the chain, after which it need not hold (C40).
\<close>

theorem stored_company_replays_its_chain:
  assumes "company_laws Y S" and "db_fails (svc_company_db (sye_svc Y)) Select_Chain = None"
    and "companies_ok Y S s" and "set bs \<subseteq> S" and "\<And>k. keys = Some k \<Longrightarrow> chain_of_company Y i k bs"
    and "ss_identity (sy_node s) = Some us"
    and "\<And>c. stored_company_chain Y i s = Ok c \<Longrightarrow> company_in_view Y (ident_node_id us) i s"
    and "company_process_chain_data Y i bs keys s = (Ok (), s')" and "s' \<noteq> s"
  shows "company_in_view Y (ident_node_id us) i s' \<or> length bs = 1 \<and> company_resync_chain Y i s = (Ok (), s')"
  using company_process_chain_data_view [OF assms] .

theorem stored_company_replays_its_chain_witness:
  "company_in_view quiet_member0 ''C'' ''co'' (snd invited_run0)"
proof -
  from invitation_accepted0 obtain s' where run: "company_process_chain_data quiet_member0 ''co'' invitation0 (Some bill_key0)
      (member_state0 ''C'') = (Ok (), s')" "snd invited_run0 = s'" "map fst (sy_company_keys s') = [''co'']" .
  have "s' \<noteq> member_state0 ''C''" using run(3) by auto
  moreover have "stored_company_chain quiet_member0 ''co'' (member_state0 ''C'') \<noteq> Ok c" for c
    using stored_company_nonempty [of quiet_member0 "''co''" "member_state0 ''C''" c] by (auto simp: rows_of_def)
  ultimately show ?thesis
    using stored_company_replays_its_chain [OF company_laws0 _ no_companies_ok0 _ _ member_state0_simps(3) _ run(1)]
      invitation_named0 run(2) by simp
qed

text \<open>
  C40. A resynchronisation that succeeds and changes something replaces the chain: it is cut at the fork point and continued
  with blocks of a preferred candidate of the relays. But the stored company is not rebuilt: it is the old one with the blocks
  added applied on top. If it was the replay of the old chain, it is now the replay of the whole old chain followed by the
  added blocks, as if no block had been taken off the chain.
\<close>

theorem resynchronised_company_keeps_old_effects:
  assumes "company_laws Y S" and "company_relays_within Y S" and "db_fails (svc_company_db (sye_svc Y)) Select_Chain = None"
    and "companies_ok Y S s" and "stored_company_chain Y i s = Ok c" and "map_of (sy_company_keys s) i = Some k"
    and "ss_identity (sy_node s) = Some us" and row: "map_of (ss_companies (sy_node s)) i = Some company"
    and "company_resync_chain Y i s = (Ok (), s')" and "s' \<noteq> s"
  shows "\<exists>cands data fp added. resolve_chain Y i BT_Company k = Ok cands \<and> data \<in> set cands \<and>
           resolve_fork (company_ops (sy_company Y)) (blocks c) (company_blocks_of data) = (True, fp) \<and>
           set added \<subseteq> set (company_blocks_of data) \<and>
           stored_company_chain Y i s' = Ok \<lparr>blocks = blocks (truncated (company_ops (sy_company Y)) fp c) @ added\<rparr> \<and>
           map_of (ss_companies (sy_node s')) i = Some (replayed_status Y k (ident_node_id us) added company) \<and>
           (replayed Y k (ident_node_id us) (blocks c) = Some company \<longrightarrow>
            map_of (ss_companies (sy_node s')) i = replayed Y k (ident_node_id us) (blocks c @ added))"
proof -
  from resynchronised_company [OF assms(1,2,4-9)] assms(10) obtain cands data fp added
    where res: "resolve_chain Y i BT_Company k = Ok cands" "data \<in> set cands"
      "resolve_fork (company_ops (sy_company Y)) (blocks c) (company_blocks_of data) = (True, fp)"
      "set added \<subseteq> set (company_blocks_of data)"
      "map_of (ss_companies (sy_node s')) i = Some (replayed_status Y k (ident_node_id us) added company)"
    and h: "holds_company Y S i k \<lparr>blocks = blocks (truncated (company_ops (sy_company Y)) fp c) @ added\<rparr> s'" by blast
  have "blocks c \<noteq> []"
    using known_company_held [OF assms(1,4-6)] company_reachable_nonempty by (auto simp: holds_company_def)
  note replay = replayed_append [OF this, of Y k "ident_node_id us" added]
  from held_company_readable [OF assms(1) h assms(3)] res replay show ?thesis
    by (intro exI [of _ cands] exI [of _ data] exI [of _ fp] exI [of _ added]) auto
qed

text \<open>
  The relays offer a longer chain without the block that invited the node: it stays invited, by a company on whose
  chain it is not.
\<close>

abbreviation blocks4 :: "CompanyBlock set" where
  "blocks4 \<equiv> set (shared4 @ invite4 # remote4)"

lemma hash4: "calculate_hash (cenv_ext CE4) (cc_data_to_hash CE4) (company_block_data_to_hash (cblock4 i op p)) =
    Ok (hash_from_bytes X1 [ucast i + op_tag4 op])"
  by (simp add: CE4_def CE0_sel calculate_hash_def company_block_data_to_hash_def cblock4_def cblock0_def)

lemma company_laws4: "company_laws forked_env4 blocks4"
proof -
  have X: "cenv_ext CE4 = X1" by (simp add: CE4_def CE0_sel)
  have "no_collisions (company_ops CE4) (cenv_ext CE4) blocks4"
    by (auto simp: no_collisions_def hash4 [unfolded X] X company_ops_def shared4_def remote4_def hash_byte1 op_tag4_def)
  then show ?thesis
    by (auto simp: company_laws_def forked_env4_def X laws_X1 shared4_def remote4_def cblock4_def cblock0_def)
qed

lemma relays4: "company_relays_within forked_env4 blocks4"
proof (rule decoded_relays_within)
  fix d e
  assume "from_slice (een_company_event (sye_event forked_env4)) d = Inr e"
  then have "map_of (zip ''abcd'' (shared4 @ remote4)) (hd (bytes_string d)) = Some (cbe_block e)"
    by (auto simp: forked_env4_def member_env0_def split: option.splits)
  then have "(hd (bytes_string d), cbe_block e) \<in> set (zip ''abcd'' (shared4 @ remote4))" by (rule map_of_SomeD)
  then have "cbe_block e \<in> set (shared4 @ remote4)" by (rule set_zip_rightD)
  then show "cbe_block e \<in> blocks4" by auto
qed

lemma cblock4_co: "cbl_company_id (cblock4 i op p) = ''co''"
  by (simp add: cblock4_def cblock0_def)

lemma invited_ok4: "companies_ok forked_env4 blocks4 (snd invited_run4)"
proof -
  have "store_reachable (company_table CE4) X1 blocks4 [] []" by (rule store_empty)
  moreover have X: "cenv_ext CE4 = X1" by (simp add: CE4_def CE0_sel)
  ultimately have start: "companies_ok forked_env4 blocks4 (member_state0 ''C'')"
    using company_store.reachable_store_ok [of CE4 blocks4 "[]" "[]"] company_laws4
    by (simp add: companies_ok_def company_laws_def forked_env4_def)
  have "get_block_data CE4 (cblock4 1 C_Create 0) k = get_block_data CE0 created0 k" for k
    by (simp add: get_block_data_def company_get_decrypted_block_bytes_def cblock4_def CE4_def created0_def cblock0_def)
  then have "chain_of_company forked_env4 ''co'' k (shared4 @ [invite4])" for k
    by (simp add: chain_of_company_def shared4_def forked_env4_def company_data0 company0_def cblock4_co)
  then show ?thesis unfolding invited_run4_def
    by (intro company_process_chain_data_ok [OF company_laws4 relays4 _ start]) (auto simp: forked_env4_def shared4_def)
qed

theorem resynchronised_company_keeps_old_effects_witness:
  "\<exists>kept added. stored_company_chain forked_env4 ''co'' (snd resync_run4) = Ok \<lparr>blocks = kept @ added\<rparr> \<and>
     map_of (ss_companies (sy_node (snd resync_run4))) ''co'' =
       replayed forked_env4 bill_key0 ''C'' (shared4 @ [invite4] @ added) \<and>
     company_outcome0 resync_run4 =
       (True, [C_Create, C_IdentityProof, C_IdentityProof, C_IdentityProof], [(''co'', CS_Invited, [''D'', ''C''])], [''co'']) \<and>
     is_invited CE4 \<lparr>blocks = shared4 @ remote4\<rparr> ''C'' bill_key0 = Ok False"
proof -
  let ?s = "snd invited_run4"
  note run = resync_keeps_invitation4
  from run(4) obtain us where us: "ss_identity (sy_node ?s) = Some us" "ident_node_id us = ''C''" by auto
  obtain r s' where r: "company_resync_chain forked_env4 ''co'' ?s = (r, s')" by fastforce
  then have s': "resync_run4 = (r, s')" by (simp add: resync_run4_def)
  from run(1) have ok: "r = Ok ()" by (simp add: company_outcome0_def s')
  have "map cdb_op_code (ss_company_chain (sy_node ?s)) \<noteq> map cdb_op_code (ss_company_chain (sy_node s'))"
    using run(1) invitation_arrives4 by (simp add: company_outcome0_def prod.case_eq_if s')
  then have ne: "s' \<noteq> ?s" by auto
  have "map_of (ss_companies (sy_node ?s)) ''co'' \<noteq> None"
    using invitation_arrives4 by (cases "ss_companies (sy_node ?s)") (auto simp: company_outcome0_def prod.case_eq_if)
  then obtain company where row: "map_of (ss_companies (sy_node ?s)) ''co'' = Some company" by auto
  from resynchronised_company_keeps_old_effects [OF company_laws4 relays4 _ invited_ok4 run(2,3) us(1) row r [unfolded ok] ne]
    run(5) us(2) row
  obtain kept added where "stored_company_chain forked_env4 ''co'' s' = Ok \<lparr>blocks = kept @ added\<rparr>"
    "map_of (ss_companies (sy_node s')) ''co'' = replayed forked_env4 bill_key0 ''C'' ((shared4 @ [invite4]) @ added)"
    by (auto simp: forked_env4_def)
  moreover have "snd resync_run4 = s'" by (simp add: s')
  ultimately show ?thesis using run(1) not_invited4 by (intro exI [of _ kept] exI [of _ added]) simp
qed

end
