(* ===== verification/Identity_Sync_Props.thy ===== *)
theory Identity_Sync_Props
  imports Identity_Sync Identity_Props
begin

text \<open>
  Restoring an identity starts from a reachable chain: what \<^verbatim>\<open>get_valid_chain\<close> returns is the checked first block of the
  received chain, and its identity is the creator of the chain.
\<close>

lemma identity_new_from_blocks_Ok:
  assumes "identity_new_from_blocks E bs = Ok c"
  shows "c = \<lparr>blocks = bs\<rparr>" "bs \<noteq> []"
    "blk_verify (identity_ops E) (ienv_ext E) (hd bs) = Ok True" "validate_hash (identity_ops E) (ienv_ext E) (hd bs) = Ok True"
  using assms by (cases bs; auto simp: identity_new_from_blocks_def and_then_eq_Ok split: if_splits)+

lemma restored_identity_chain:
  assumes "identity_get_valid_chain Y bs keys = Ok (n, identity, c)"
  shows "identity_reachable (sy_proc Y) (sy_identity Y) keys n c" and "ident_node_id identity = n"
    and "c = \<lparr>blocks = [hd bs]\<rparr>"
proof -
  let ?E = "sy_identity Y"
  from assms obtain whole first data where new: "identity_new_from_blocks ?E bs = Ok whole"
    and first: "get_first_block whole = (Ok first :: (IdentityBlock, TransportError) result)"
    and data: "identity_get_block_data ?E first keys = Ok data"
    and valid: "is_chain_valid (identity_ops ?E) (ienv_ext ?E) whole = Ok True"
    by (auto simp: identity_get_valid_chain_def Let_def and_then_eq_Ok map_err_eq seq_eq_Ok identity_block_err_def split: if_splits)
  note whole = identity_new_from_blocks_Ok [OF new]
  from whole(1,2) first have [simp]: "first = hd bs" by (cases bs) (auto simp: get_first_block_def)
  from assms have run: "(case data of
        IP_Create payload \<Rightarrow>
          (let identity = identity_from_block_data payload in
           and_then (identity_block_err Y (identity_new_from_blocks ?E [first])) (\<lambda>return_chain.
           Ok (ident_node_id identity, identity, return_chain)))
      | _ \<Rightarrow> Err (T_Blockchain ''First block of newly received identity chain is not a Create block''))
      = Ok (n, identity, c)"
    by (simp add: identity_get_valid_chain_def new valid first data [simplified] identity_block_err_def seq_def reject_if_def Let_def
        cong: IdentityBlockPayload.case_cong)
  then obtain p where p: "data = IP_Create p" "identity = identity_from_block_data p" "n = ident_node_id identity"
    and start: "identity_new_from_blocks ?E [first] = Ok c"
    by (cases data) (auto simp: Let_def and_then_eq_Ok map_err_eq identity_block_err_def)
  note c = identity_new_from_blocks_Ok [OF start]
  from c(1) show "c = \<lparr>blocks = [hd bs]\<rparr>" by simp
  have "identity_reachable (sy_proc Y) ?E keys n \<lparr>blocks = [hd bs]\<rparr>"
    by (rule identity_create [of _ _ _ p]) (use data p c in \<open>auto simp: identity_from_block_data_def\<close>)
  with c(1) show "identity_reachable (sy_proc Y) ?E keys n c" by simp
  from p(3) show "ident_node_id identity = n" by simp
qed

end
