(* ===== verification/Spec2Isabelle.thy ===== *)
theory Spec2Isabelle
  imports Properties_Bill Properties_Readers Properties_Chain Properties_Members Properties_Service
    Properties_Sync Properties_Companies Identity_Sync_Props
begin

text \<open>
  Verification of the E-Bills protocol.

  \<^bold>\<open>The program.\<close> E-Bills keeps electronic bills of exchange. Every bill, every company and every identity
  has a chain of signed and encrypted blocks. A node that acts creates a block, adds it to its own copy of
  the chain and publishes it over Nostr; every other node decrypts the block, checks that it links to its
  copy, finds the signer, validates the action against the state that the chain encodes, and adds it or
  refuses it. The state of a bill is never stored as such: parties, holders, open requests, deadlines
  and past payments are all computed from the chain. The core of the program is therefore the block and
  chain code, the readers of a chain, the validation of actions, the chain stores, the bill service that acts, and
  the processors for received blocks, which also choose between the chains that the relays offer.

  \<^bold>\<open>The theories\<close>, in the order of the code (paths under \<^verbatim>\<open>src/crates/\<close>; the protocol is in
  \<^verbatim>\<open>bcr-ebill-core/src/protocol\<close>).

  \<^item> \<^verbatim>\<open>Ebill_Prelude\<close>: machine integers, the outcome of a Rust function (\<open>Ok\<close>, \<open>Err\<close> or \<open>Panic\<close>) with the
    \<open>?\<close> operator as \<open>and_then\<close>, saturating arithmetic, association lists for \<^verbatim>\<open>HashMap\<close>, list searches.
  \<^item> \<^verbatim>\<open>Ebill_Base\<close>: \<^verbatim>\<open>mod.rs\<close> (errors), \<^verbatim>\<open>base/{timestamp,date,block_id,sum,mod}.rs\<close>, \<^verbatim>\<open>constants.rs\<close>. The record
    \<open>Ext\<close> holds all third-party code that the protocol calls.
  \<^item> \<^verbatim>\<open>Ebill_Crypto\<close>: \<^verbatim>\<open>base/{hash,signature,identity_proof}.rs\<close>, \<^verbatim>\<open>crypto/{mod,bcrkeys,btc}.rs\<close>.
  \<^item> \<^verbatim>\<open>Chain_Trait\<close>: \<^verbatim>\<open>blockchain/mod.rs\<close>. The traits \<^verbatim>\<open>Block\<close> and \<^verbatim>\<open>Blockchain\<close> are the record \<open>BlockOps\<close> of the
    required methods and definitions over it for the provided ones; the locale \<open>block_contract\<close> states what
    an implementation owes, and is interpreted for the bill, company and identity blocks.
  \<^item> \<^verbatim>\<open>Bill_Types\<close>, \<^verbatim>\<open>Bill_Block\<close>, \<^verbatim>\<open>Bill_Chain\<close>, \<^verbatim>\<open>Bill_Validation\<close>: \<^verbatim>\<open>blockchain/bill/{mod,participant,block,chain,
    validation}.rs\<close>. One definition per function, one per arm of the large matches.
  \<^item> \<^verbatim>\<open>Chain_Fork\<close>, \<^verbatim>\<open>Bill_Processor\<close>: \<^verbatim>\<open>bcr-ebill-transport/src/handler/{public_chain_helpers,
    bill_chain_event_processor}.rs\<close>, fork resolution and the checks on a received bill block or bill chain.
  \<^item> \<^verbatim>\<open>Company_Chain\<close>, \<^verbatim>\<open>Identity_Chain\<close>, \<^verbatim>\<open>Chain_Processors\<close>: \<^verbatim>\<open>blockchain/{company,identity}/*.rs\<close> and the checks
    of \<^verbatim>\<open>handler/{company,identity}_chain_event_processor.rs\<close>.
  \<^item> \<^verbatim>\<open>Bill_Chain_Props\<close>, \<^verbatim>\<open>Bill_Recourse\<close>, \<^verbatim>\<open>Bill_Pairing\<close>, \<^verbatim>\<open>Bill_Validation_Props\<close>, \<^verbatim>\<open>Bill_Lifecycle\<close>,
    \<^verbatim>\<open>Company_Props\<close>, \<^verbatim>\<open>Identity_Props\<close>: the lemmas. \<open>bill_reachable\<close>, \<open>company_reachable\<close> and
    \<open>identity_reachable\<close> are the chains that grow from a first block by blocks the processors accept.
  \<^item> \<^verbatim>\<open>Chain_Store\<close>, \<^verbatim>\<open>Event_Store\<close>: \<^verbatim>\<open>bcr-ebill-persistence/src/db/{bill_chain,company_chain,identity_chain,
    nostr_chain_event}.rs\<close>. The locale \<open>chain_table\<close> of \<^verbatim>\<open>Chain_Store_Props\<close> states how rows and blocks relate, and is
    interpreted for the three tables of blocks.
  \<^item> \<^verbatim>\<open>App_Models\<close>: \<^verbatim>\<open>bcr-ebill-core/src/application\<close>, companies, identities, contacts and their validation.
  \<^item> \<^verbatim>\<open>Service_Monad\<close>, \<^verbatim>\<open>Bill_Events\<close>, \<^verbatim>\<open>Bill_Service\<close>: \<^verbatim>\<open>protocol/event/*.rs\<close>, the sending of bill events and
    \<^verbatim>\<open>bcr-ebill-api/src/service/bill_service/*.rs\<close>: from a request of the user to stored and sent blocks.
    \<^verbatim>\<open>Bill_Service_Props\<close> follows each arm of the action match to the block it creates.
  \<^item> \<^verbatim>\<open>Event_Chains\<close>, \<^verbatim>\<open>Bill_Sync\<close>: \<^verbatim>\<open>handler/{public_chain_helpers,bill_chain_event_processor,bill_chain_event_handler,
    bill_invite_handler}.rs\<close>: candidate chains from the replies between events, adding received blocks,
    resynchronisation, new chains. \<^verbatim>\<open>Event_Chains_Props\<close>, \<^verbatim>\<open>Bill_Sync_Props\<close> and \<^verbatim>\<open>Bill_Sync_Safety\<close> hold the lemmas.
  \<^item> \<^verbatim>\<open>Notification_Store\<close>, \<^verbatim>\<open>Member_Stores\<close>: \<^verbatim>\<open>bcr-ebill-persistence/src/db/{notification,company,identity,
    contact}.rs\<close>, with notifications from \<^verbatim>\<open>bcr-ebill-core/src/application/notification.rs\<close>.
  \<^item> \<^verbatim>\<open>Chain_Sync\<close>, \<^verbatim>\<open>Company_Sync\<close>, \<^verbatim>\<open>Identity_Sync\<close>: \<^verbatim>\<open>handler/{company,identity}_chain_event_{processor,
    handler}.rs\<close> and \<^verbatim>\<open>company_invite_handler.rs\<close>. The two processors have the same loop over received blocks and the
    same choice of a candidate, which are defined once; the locale \<open>block_adding\<close> is the contract of adding one block.
  \<^item> \<^verbatim>\<open>Chain_Table_Steps\<close> (locale \<open>keyed_table\<close>: single writes to the three tables), \<^verbatim>\<open>Sync_Frames\<close> (what an action
    leaves alone), \<^verbatim>\<open>Company_Sync_Props\<close> (the effects of a block), \<^verbatim>\<open>Company_Sync_Safety\<close> (adding blocks, which interprets
    \<open>block_adding\<close>), \<^verbatim>\<open>Company_Sync_Known\<close> (resynchronisation) and \<^verbatim>\<open>Company_Sync_Invariant\<close> (new companies, the
    invariant and the replay) and \<^verbatim>\<open>Company_Resync\<close> (a successful resynchronisation) hold the lemmas on received
    companies. \<^verbatim>\<open>Identity_Sync_Props\<close>: a restored identity starts from a reachable chain.
  \<^item> \<^verbatim>\<open>Service_Instance\<close>, \<^verbatim>\<open>Sync_Instance\<close>, \<^verbatim>\<open>Member_Instance\<close>: a concrete acting node, and receiving nodes of a bill and
    of a company.
  \<^item> \<^verbatim>\<open>Ebill_Instance\<close>: concrete third-party code that satisfies the laws, and concrete chains; the witnesses
    evaluate on them.
  \<^item> \<^verbatim>\<open>Properties_Bill\<close>, \<^verbatim>\<open>Properties_Readers\<close>, \<^verbatim>\<open>Properties_Chain\<close>, \<^verbatim>\<open>Properties_Members\<close>,
    \<^verbatim>\<open>Properties_Service\<close>, \<^verbatim>\<open>Properties_Sync\<close>, \<^verbatim>\<open>Properties_Companies\<close>: the properties C1 to C40.

  \<^bold>\<open>How code corresponds to definitions.\<close> Structs are records whose fields carry a prefix for the struct,
  enums are datatypes with the constructors of the source (prefixed where two enums share one). A Rust
  \<^verbatim>\<open>Result\<close> is \<open>result\<close>, which also has \<open>Panic\<close> for \<^verbatim>\<open>expect\<close>, \<^verbatim>\<open>unwrap\<close> and \<^verbatim>\<open>assert\<close>. Functions on \<^verbatim>\<open>&mut self\<close> return
  the new value. \<^verbatim>\<open>u64\<close> values (block ids, timestamps) are 64-bit words. Loops are structural recursions over
  lists of blocks. The one exception is \<open>resolve_children\<close>, which follows replies between events and runs on fuel; one more
  than the number of events is enough (C34). Code that works on stores is an \<open>action\<close> of \<^verbatim>\<open>Service_Monad\<close>: it takes the
  state of the stores and returns an outcome with the state it leaves, also when it fails.

  \<^bold>\<open>Parameters.\<close> The curve, the hash function, ECIES, base58, the calendar, address encoding and the iteration order
  of hash maps are fields of \<open>Ext\<close>; the borsh encodings are fields of \<open>BillEnv\<close>, \<open>CompanyEnv\<close> and \<open>IdentityEnv\<close>
  (a \<open>Codec\<close> is an encoder with its decoder); \<open>Db\<close>, \<open>ServiceEnv\<close>, \<open>EventEnv\<close> and \<open>SyncEnv\<close> hold the database's failures,
  the transport, the answers of the relays and the parsing of events; the configured network, the mint client and the texts of
  errors are fields of \<open>ProcEnv\<close>. What the code relies on is named: \<open>secp_laws\<close> (keys, aggregated Schnorr
  signatures), \<open>ecies_law\<close> (decryption inverts encryption), \<open>calendar_laws\<close>, \<open>hash_order_laws\<close>, \<open>codec_rt\<close> (decoding
  inverts encoding). The values of name, city, zip and address types are strings.

  \<^bold>\<open>What is shown.\<close> C1 to C11: over the life of a bill, requests and answers pair up, a rejected or expired bill
  admits only recourse, some operations happen once, accepted blocks come from their signer, an open request
  for funds blocks the bill, answers match their request, the address of an offer can be spent by the
  seller, recourse goes to predecessors on a real ground, and validation on precomputed values agrees
  with validation on the chain. C12 to C16: what the readers of a chain return. C17 to C24: for every kind of chain, created
  blocks read back and extend the chain, the checks on taking over blocks are sound and complete,
  the hash of the tip fixes the chain (the first block only up to its hash), fork choice is a strict order and replaces a chain by a valid one, and
  deadlines are bounded. C25 to C31: the signatories of a company refine a set, at least one always remains, only
  signatories act, a removed node has no rights, identities act after their proof, and what the
  checks of identity proofs leave open. C32 and C33: concurrent writers keep stored chains valid, and what a
  node does is accepted by the other nodes that run the same protocol and do not know the bill as paid. C34 to C37: candidate
  chains are the reply paths of the events, received data keeps the stored bills readable, and a first download with an invalid
  block closes a bill for good. C38 to C40: received data keeps the stored companies readable, a stored company stays the
  replay of its chain, and a resynchronisation leaves the effects of removed blocks in it.

  \<^bold>\<open>Not modelled.\<close> Serialisation code and debug output (\<^verbatim>\<open>to_json_text\<close>, serde visitors); the text newtypes;
  the result types for the user interface and \<^verbatim>\<open>calculate_full_bill\<close>; minting and sweeping; the company, identity and
  contact services; the conversion of rows of companies, identities and contacts; file upload, HTTP clients, Nostr relays
  and the WASM bindings, which are input and output.
\<close>

end
